(* ===== verification/Prelude.thy ===== *)
theory Prelude
  imports Main "HOL-Library.Sublist" "HOL-Library.Char_ord" "HOL-Library.List_Lexorder"
begin

text \<open>
  Shared vocabulary of the development: byte strings and the operations of Rust's
  \<open>str\<close> that the sources use, bounded integer parsing, rows of a table (an SQL
  \<^verbatim>\<open>UPDATE ... WHERE\<close> over a list of rows), saturating counters, and the collections
  of facts the component proofs share.

  A \<open>string\<close> of the model is the UTF-8 byte sequence of the Rust string, so
  \<open>length\<close> is \<^verbatim>\<open>str::len\<close>. Comparisons with ASCII characters act on single bytes, as
  UTF-8 allows; where a source loop visits \<^verbatim>\<open>chars()\<close> and asks a question that
  concerns characters beyond ASCII (white space), the bytes are first grouped into
  characters by \<open>utf8_chars\<close>.
\<close>

named_theorems str_simps \<open>evaluation rules of the string operations\<close>
named_theorems row_simps \<open>rules for rows, tables and lookups\<close>

section \<open>Byte strings\<close>

definition starts_with :: "string \<Rightarrow> string \<Rightarrow> bool" where
  "starts_with p s \<longleftrightarrow> take (length p) s = p"

definition strip_prefix :: "string \<Rightarrow> string \<Rightarrow> string option" where
  "strip_prefix p s = (if starts_with p s then Some (drop (length p) s) else None)"

definition ends_with :: "string \<Rightarrow> string \<Rightarrow> bool" where
  "ends_with p s \<longleftrightarrow> starts_with (rev p) (rev s)"

fun contains_str :: "string \<Rightarrow> string \<Rightarrow> bool" where
  "contains_str p [] = (p = [])"
| "contains_str p (c # cs) = (starts_with p (c # cs) \<or> contains_str p cs)"

definition has_nul :: "string \<Rightarrow> bool" where
  "has_nul s \<longleftrightarrow> CHR 0x00 \<in> set s"

text \<open>\<^verbatim>\<open>str::split_once\<close>: the parts before and after the first separator.\<close>

fun split_once :: "char \<Rightarrow> string \<Rightarrow> (string \<times> string) option" where
  "split_once d [] = None"
| "split_once d (c # cs) =
     (if c = d then Some ([], cs)
      else map_option (\<lambda>(a, b). (c # a, b)) (split_once d cs))"

text \<open>\<^verbatim>\<open>str::split\<close> on one character: one more piece than there are separators.\<close>

fun split_on :: "char \<Rightarrow> string \<Rightarrow> string list" where
  "split_on d [] = [[]]"
| "split_on d (c # cs) =
     (if c = d then [] # split_on d cs
      else (case split_on d cs of [] \<Rightarrow> [[c]] | p # ps \<Rightarrow> (c # p) # ps))"

definition ascii_lower_char :: "char \<Rightarrow> char" where
  "ascii_lower_char c =
     (if 65 \<le> (of_char c :: nat) \<and> (of_char c :: nat) \<le> 90
      then char_of ((of_char c :: nat) + 32) else c)"

definition to_ascii_lowercase :: "string \<Rightarrow> string" where
  "to_ascii_lowercase s = map ascii_lower_char s"

definition is_ascii_digit :: "char \<Rightarrow> bool" where
  "is_ascii_digit c \<longleftrightarrow> 48 \<le> (of_char c :: nat) \<and> (of_char c :: nat) \<le> 57"

definition digit_val :: "char \<Rightarrow> nat" where
  "digit_val c = of_char c - 48"

definition digits_val :: "string \<Rightarrow> nat" where
  "digits_val ds = foldl (\<lambda>n c. 10 * n + digit_val c) 0 ds"

text \<open>
  \<^verbatim>\<open>str::parse\<close> for an unsigned integer type whose largest value is \<open>bound\<close>: an
  optional leading plus sign, at least one digit, nothing else, no overflow.
\<close>

definition parse_uint :: "nat \<Rightarrow> string \<Rightarrow> nat option" where
  "parse_uint bound s =
     (let ds = (case s of c # cs \<Rightarrow> if c = CHR ''+'' then cs else s | [] \<Rightarrow> [])
      in if ds = [] \<or> \<not> list_all is_ascii_digit ds then None
         else if digits_val ds \<le> bound then Some (digits_val ds) else None)"

text \<open>Decimal printing, as \<^verbatim>\<open>format!\<close> does for an unsigned integer.\<close>

fun show_nat :: "nat \<Rightarrow> string" where
  "show_nat n =
     (if n < 10 then [char_of (48 + n)]
      else show_nat (n div 10) @ [char_of (48 + n mod 10)])"

declare show_nat.simps [simp del]

subsection \<open>Characters of a UTF-8 string\<close>

definition utf8_cont :: "char \<Rightarrow> bool" where
  "utf8_cont c \<longleftrightarrow> 128 \<le> (of_char c :: nat) \<and> (of_char c :: nat) < 192"

function utf8_chars :: "string \<Rightarrow> string list" where
  "utf8_chars [] = []"
| "utf8_chars (b # bs) =
     (b # takeWhile utf8_cont bs) # utf8_chars (dropWhile utf8_cont bs)"
  by pat_completeness auto
termination
  by (relation "measure length") (auto simp: le_imp_less_Suc length_dropWhile_le)

text \<open>\<^verbatim>\<open>char::is_whitespace\<close>: the Unicode property White_Space, on UTF-8 bytes.\<close>

definition is_whitespace :: "string \<Rightarrow> bool" where
  "is_whitespace c \<longleftrightarrow>
     (case map of_char c :: nat list of
        [a] \<Rightarrow> (9 \<le> a \<and> a \<le> 13) \<or> a = 32
      | [a, b] \<Rightarrow> a = 194 \<and> (b = 133 \<or> b = 160)
      | [a, b, d] \<Rightarrow>
          (a = 225 \<and> b = 154 \<and> d = 128)
        \<or> (a = 226 \<and> b = 128 \<and> ((128 \<le> d \<and> d \<le> 138) \<or> d = 168 \<or> d = 169 \<or> d = 175))
        \<or> (a = 226 \<and> b = 129 \<and> d = 159)
        \<or> (a = 227 \<and> b = 128 \<and> d = 128)
      | _ \<Rightarrow> False)"

definition trim :: "string \<Rightarrow> string" where
  "trim s = concat (rev (dropWhile is_whitespace (rev (dropWhile is_whitespace (utf8_chars s)))))"

section \<open>Tables\<close>

text \<open>
  A table is the list of its rows in \<^verbatim>\<open>rowid\<close> order. \<open>update_where\<close> is an
  \<^verbatim>\<open>UPDATE ... SET f WHERE p\<close>; \<open>count_where\<close> the number of rows it touches.
\<close>

definition update_where :: "('r \<Rightarrow> bool) \<Rightarrow> ('r \<Rightarrow> 'r) \<Rightarrow> 'r list \<Rightarrow> 'r list" where
  "update_where p f rows = map (\<lambda>r. if p r then f r else r) rows"

definition count_where :: "('r \<Rightarrow> bool) \<Rightarrow> 'r list \<Rightarrow> nat" where
  "count_where p rows = length (filter p rows)"

text \<open>\<^verbatim>\<open>ORDER BY k, rowid LIMIT 1\<close>: the first row with the least key.\<close>

definition first_by :: "('r \<Rightarrow> 'k::linorder) \<Rightarrow> 'r list \<Rightarrow> 'r option" where
  "first_by k rows = (case sort_key k rows of [] \<Rightarrow> None | r # _ \<Rightarrow> Some r)"

text \<open>\<^verbatim>\<open>COALESCE(a, b)\<close> of a nullable column and a value.\<close>

definition coalesce :: "'a option \<Rightarrow> 'a \<Rightarrow> 'a" where
  "coalesce a b = (case a of None \<Rightarrow> b | Some x \<Rightarrow> x)"

text \<open>Saturating increment of an unsigned counter with largest value \<open>bound\<close>.\<close>

definition sat_inc :: "nat \<Rightarrow> nat \<Rightarrow> nat" where
  "sat_inc bound n = (if n < bound then Suc n else bound)"

definition u64_max :: nat where
  "u64_max = 18446744073709551615"

definition i64_max :: nat where
  "i64_max = 9223372036854775807"

section \<open>Results\<close>

text \<open>
  \<^verbatim>\<open>Result<T, E>\<close> is the sum \<open>'e + 'a\<close> with \<open>Inl\<close> for \<^verbatim>\<open>Err\<close>; \<open>rbind\<close> is the
  question mark operator: the first error leaves the function.
\<close>

definition rbind :: "'e + 'a \<Rightarrow> ('a \<Rightarrow> 'e + 'b) \<Rightarrow> 'e + 'b" where
  "rbind m f = (case m of Inl e \<Rightarrow> Inl e | Inr x \<Rightarrow> f x)"

definition ok_or :: "'e \<Rightarrow> 'a option \<Rightarrow> 'e + 'a" where
  "ok_or e m = (case m of None \<Rightarrow> Inl e | Some x \<Rightarrow> Inr x)"

text \<open>\<^verbatim>\<open>collect::<Result<Vec<_>, _>>()\<close>: all values, or the first error.\<close>

fun collect_results :: "('e + 'a) list \<Rightarrow> 'e + 'a list" where
  "collect_results [] = Inr []"
| "collect_results (m # ms) = rbind m (\<lambda>x. rbind (collect_results ms) (\<lambda>xs. Inr (x # xs)))"

lemma rbind_simps [simp]: "rbind (Inr x) f = f x" "rbind (Inl e) f = Inl e"
  by (simp_all add: rbind_def)

lemma rbind_Inr: "rbind m f = Inr y \<longleftrightarrow> (\<exists>x. m = Inr x \<and> f x = Inr y)"
  by (cases m) auto

lemma rbind_InrE [elim!]:
  assumes "rbind m f = Inr y"
  obtains x where "m = Inr x" and "f x = Inr y"
  using assms by (auto simp: rbind_Inr)

lemma ok_or_simps [simp]: "ok_or e None = Inl e" "ok_or e (Some x) = Inr x"
  by (simp_all add: ok_or_def)

lemma ok_or_Inr [simp]: "ok_or e m = Inr x \<longleftrightarrow> m = Some x"
  by (cases m) auto

lemma collect_results_map_Inr [simp]: "collect_results (map (\<lambda>x. Inr (f x)) xs) = Inr (map f xs)"
  by (induction xs) auto

lemma collect_results_cong:
  "(\<And>x. x \<in> set xs \<Longrightarrow> f x = Inr (g x)) \<Longrightarrow> collect_results (map f xs) = Inr (map g xs)"
  by (induction xs) auto

section \<open>Facts about strings\<close>

lemma starts_with_append [simp]: "starts_with p (p @ s)"
  by (simp add: starts_with_def)

lemma starts_with_Nil [simp]: "starts_with [] s"
  by (simp add: starts_with_def)

lemma starts_with_Cons [str_simps]:
  "starts_with (a # p) s = (case s of [] \<Rightarrow> False | c # cs \<Rightarrow> a = c \<and> starts_with p cs)"
  by (cases s) (auto simp: starts_with_def)

lemma starts_withE:
  assumes "starts_with p s"
  obtains t where "s = p @ t"
  using assms by (metis append_take_drop_id starts_with_def)

lemma starts_with_iff: "starts_with p s \<longleftrightarrow> prefix p s"
  by (auto elim!: starts_withE simp: prefix_def)

lemma strip_prefix_Some: "strip_prefix p s = Some t \<longleftrightarrow> s = p @ t"
  by (auto simp: strip_prefix_def elim!: starts_withE)

lemma split_once_None: "split_once d s = None \<longleftrightarrow> d \<notin> set s"
  by (induction s) auto

lemma split_once_Some: "split_once d s = Some (a, b) \<longleftrightarrow> s = a @ d # b \<and> d \<notin> set a"
proof (induction s arbitrary: a)
  case Nil
  then show ?case by simp
next
  case (Cons c cs)
  then show ?case
    by (cases a) (auto split: option.splits)
qed

lemma split_on_not_Nil [simp]: "split_on d s \<noteq> []"
  by (induction s) (auto split: list.splits)

lemma split_on_pieces: "p \<in> set (split_on d s) \<Longrightarrow> d \<notin> set p"
proof (induction s arbitrary: p)
  case (Cons c cs)
  then show ?case by (fastforce split: list.splits if_splits)
qed simp

lemma concat_utf8_chars [simp]: "concat (utf8_chars s) = s"
  by (induction s rule: utf8_chars.induct) auto

lemma utf8_chars_not_Nil: "[] \<notin> set (utf8_chars s)"
  by (induction s rule: utf8_chars.induct) auto

lemma ascii_lower_idem [simp]: "ascii_lower_char (ascii_lower_char c) = ascii_lower_char c"
  by (simp add: ascii_lower_char_def)

lemma to_ascii_lowercase_idem [simp]:
  "to_ascii_lowercase (to_ascii_lowercase s) = to_ascii_lowercase s"
  by (simp add: to_ascii_lowercase_def)

lemma length_to_ascii_lowercase [simp]: "length (to_ascii_lowercase s) = length s"
  by (simp add: to_ascii_lowercase_def)

lemma parse_uint_bound: "parse_uint b s = Some n \<Longrightarrow> n \<le> b"
  by (auto simp: parse_uint_def Let_def split: if_splits)

section \<open>Facts about tables\<close>

lemma update_where_Nil [simp]: "update_where p f [] = []"
  by (simp add: update_where_def)

lemma update_where_Cons [simp]:
  "update_where p f (r # rs) = (if p r then f r else r) # update_where p f rs"
  by (simp add: update_where_def)

lemma length_update_where [simp]: "length (update_where p f rows) = length rows"
  by (simp add: update_where_def)

lemma map_update_where [row_simps]:
  "(\<And>r. p r \<Longrightarrow> k (f r) = k r) \<Longrightarrow> map k (update_where p f rows) = map k rows"
  by (simp add: update_where_def)

lemma in_update_where:
  "r \<in> set (update_where p f rows) \<longleftrightarrow> (\<exists>q\<in>set rows. r = (if p q then f q else q))"
  by (auto simp: update_where_def image_iff)

lemma find_update_where [row_simps]:
  assumes "\<And>r. p r \<Longrightarrow> k (f r) = k r"
  shows "find (\<lambda>r. k r = a) (update_where p f rows) =
         map_option (\<lambda>r. if p r then f r else r) (find (\<lambda>r. k r = a) rows)"
  using assms by (induction rows) auto

lemma find_append [row_simps]:
  "find p (xs @ ys) = (case find p xs of None \<Rightarrow> find p ys | Some x \<Rightarrow> Some x)"
  by (induction xs) auto

lemma find_SomeD: "find p xs = Some x \<Longrightarrow> x \<in> set xs \<and> p x"
  by (induction xs) (auto split: if_splits)

lemma find_None_iff': "find p xs = None \<longleftrightarrow> (\<forall>x\<in>set xs. \<not> p x)"
  by (auto simp: find_None_iff)

lemma find_distinct:
  "distinct (map k xs) \<Longrightarrow> x \<in> set xs \<Longrightarrow> find (\<lambda>y. k y = k x) xs = Some x"
  by (induction xs) (auto simp: image_iff)

lemma count_where_le1:
  assumes "distinct (map k rows)" and "\<And>r. p r \<Longrightarrow> k r = a"
  shows "count_where p rows = (case find (\<lambda>r. k r = a) rows of
           None \<Rightarrow> 0 | Some r \<Rightarrow> if p r then 1 else 0)"
  using assms(1)
proof (induction rows)
  case Nil
  then show ?case by (simp add: count_where_def)
next
  case (Cons r rs)
  have none: "filter p rs = []" if "k r = a"
    using Cons.prems that assms(2) by (force simp: filter_empty_conv image_iff)
  show ?case
    using Cons none assms(2) by (auto simp: count_where_def split: option.splits)
qed

lemma count_where_eq_0: "count_where p rows = 0 \<longleftrightarrow> (\<forall>r\<in>set rows. \<not> p r)"
  by (auto simp: count_where_def filter_empty_conv)

lemma first_by_None [simp]: "first_by k rows = None \<longleftrightarrow> rows = []"
proof -
  have "sort_key k rows = [] \<longleftrightarrow> rows = []"
    by (metis length_0_conv length_sort)
  then show ?thesis by (auto simp: first_by_def split: list.splits)
qed

lemma first_by_Some:
  assumes "first_by k rows = Some r"
  shows "r \<in> set rows" and "\<forall>q\<in>set rows. k r \<le> k q"
proof -
  obtain rs where srt: "sort_key k rows = r # rs"
    using assms by (auto simp: first_by_def split: list.splits)
  have eq: "set rows = set (r # rs)"
    by (metis set_sort srt)
  have "sorted (map k (r # rs))"
    by (metis sorted_sort_key srt)
  then show "r \<in> set rows" and "\<forall>q\<in>set rows. k r \<le> k q"
    unfolding eq by auto
qed

lemma sat_inc_ge: "n \<le> bound \<Longrightarrow> n \<le> sat_inc bound n \<and> sat_inc bound n \<le> bound"
  by (simp add: sat_inc_def)

end
