(* ===== verification/Json.thy ===== *)
theory Json
  imports Prelude
begin

text \<open>
  The part of \<^verbatim>\<open>serde_json::Value\<close> the sources use: its constructors, member access
  and the typed accessors. A JSON object is the association list of its members with one
  entry per key (\<^verbatim>\<open>serde_json::Map\<close>); a number is an integer or an opaque non-integral
  literal. Reading a text (\<^verbatim>\<open>serde_json::from_str\<close>) is code outside the repository: where
  a definition needs it, it is an argument of type \<open>string \<Rightarrow> json option\<close>.
\<close>

datatype json =
    JNull
  | JBool bool
  | JNum int
  | JFloat string
  | JString string
  | JArray "json list"
  | JObject "(string \<times> json) list"

fun json_get :: "string \<Rightarrow> json \<Rightarrow> json option" where
  "json_get k (JObject ms) = map_of ms k"
| "json_get k _ = None"

fun json_as_str :: "json \<Rightarrow> string option" where
  "json_as_str (JString s) = Some s"
| "json_as_str _ = None"

fun json_as_bool :: "json \<Rightarrow> bool option" where
  "json_as_bool (JBool b) = Some b"
| "json_as_bool _ = None"

fun json_as_array :: "json \<Rightarrow> json list option" where
  "json_as_array (JArray vs) = Some vs"
| "json_as_array _ = None"

fun json_as_object :: "json \<Rightarrow> (string \<times> json) list option" where
  "json_as_object (JObject ms) = Some ms"
| "json_as_object _ = None"

fun json_as_u64 :: "json \<Rightarrow> nat option" where
  "json_as_u64 (JNum n) = (if 0 \<le> n \<and> n \<le> int u64_max then Some (nat n) else None)"
| "json_as_u64 _ = None"

text \<open>\<^verbatim>\<open>value.get(key).and_then(Value::as_str)\<close>, the idiom of every projection.\<close>

definition json_get_str :: "string \<Rightarrow> json \<Rightarrow> string option" where
  "json_get_str k v = Option.bind (json_get k v) json_as_str"

definition obj_has :: "string \<Rightarrow> (string \<times> json) list \<Rightarrow> bool" where
  "obj_has k ms \<longleftrightarrow> map_of ms k \<noteq> None"

text \<open>\<^verbatim>\<open>Map::insert\<close>: replace the member's value in place, or add it.\<close>

definition obj_insert :: "string \<Rightarrow> json \<Rightarrow> (string \<times> json) list \<Rightarrow> (string \<times> json) list" where
  "obj_insert k v ms = (if obj_has k ms then map (\<lambda>(k', w). (k', if k' = k then v else w)) ms
                        else ms @ [(k, v)])"

lemma json_get_str_Some:
  "json_get_str k v = Some s \<longleftrightarrow> json_get k v = Some (JString s)"
  by (cases "json_get k v") (auto simp: json_get_str_def elim!: json_as_str.elims)

lemma map_of_obj_insert: "map_of (obj_insert k v ms) k' = (if k' = k then Some v else map_of ms k')"
proof (cases "obj_has k ms")
  case True
  have "map_of (map (\<lambda>(k', w). (k', if k' = k then v else w)) ms) k' =
        map_option (\<lambda>w. if k' = k then v else w) (map_of ms k')"
    by (induction ms) auto
  with True show ?thesis by (auto simp: obj_insert_def obj_has_def option.map_ident)
next
  case False
  then show ?thesis
    by (auto simp: obj_insert_def obj_has_def map_add_def split: option.splits)
qed

end
