(* ===== verification/Store_Model.thy ===== *)
theory Store_Model
  imports Json
begin

text \<open>
  The data model of \<^verbatim>\<open>crates/zcode-agent-store/src/lib.rs\<close>: task phases and outcomes
  with their textual encodings, budgets and their hard caps, the rows of the seven SQLite
  tables, the records the API returns, and the validations every write passes first.

  A row holds the column values. A column that stores an enumeration as text, or a value
  as JSON text, holds that value: \<open>phase_parse_as_str\<close>, \<open>outcome_parse_as_str\<close> and
  \<open>turn_parse_as_str\<close> show that the enumerations survive their encoding. SQLite integers
  are \<open>int\<close>; the conversions from and to unsigned 64-bit values carry their range checks.
\<close>

section \<open>Errors, phases, outcomes\<close>

datatype store_error =
    Sqlite string
  | LegacySchemaUnsupported
  | InvalidState string
  | Conflict string

fun StoreError_code :: "store_error \<Rightarrow> string" where
  "StoreError_code LegacySchemaUnsupported = ''STORE_SCHEMA_VERSION_UNSUPPORTED''"
| "StoreError_code (Sqlite _) = ''PERSISTENCE_ERROR''"
| "StoreError_code (InvalidState _) = ''INVALID_STATE''"
| "StoreError_code (Conflict _) = ''CONFLICT''"

type_synonym 'a store_result = "store_error + 'a"

datatype task_phase = Queued | Preparing | Running | WaitingInput | Cancelling | Terminal

definition is_terminal :: "task_phase \<Rightarrow> bool" where
  "is_terminal p \<longleftrightarrow> p = Terminal"

fun TaskPhase_as_str :: "task_phase \<Rightarrow> string" where
  "TaskPhase_as_str Queued = ''QUEUED''"
| "TaskPhase_as_str Preparing = ''PREPARING''"
| "TaskPhase_as_str Running = ''RUNNING''"
| "TaskPhase_as_str WaitingInput = ''WAITING_INPUT''"
| "TaskPhase_as_str Cancelling = ''CANCELLING''"
| "TaskPhase_as_str Terminal = ''TERMINAL''"

definition TaskPhase_parse :: "string \<Rightarrow> task_phase store_result" where
  "TaskPhase_parse v =
     (if v = ''QUEUED'' then Inr Queued
      else if v = ''PREPARING'' then Inr Preparing
      else if v = ''RUNNING'' then Inr Running
      else if v = ''WAITING_INPUT'' then Inr WaitingInput
      else if v = ''CANCELLING'' then Inr Cancelling
      else if v = ''TERMINAL'' then Inr Terminal
      else Inl (InvalidState (''unknown task phase '' @ v)))"

datatype task_outcome =
  Completed | Failed | Cancelled | TimedOut | BudgetExhausted | RuntimeLost | ResultInvalid

fun TaskOutcome_as_str :: "task_outcome \<Rightarrow> string" where
  "TaskOutcome_as_str Completed = ''COMPLETED''"
| "TaskOutcome_as_str Failed = ''FAILED''"
| "TaskOutcome_as_str Cancelled = ''CANCELLED''"
| "TaskOutcome_as_str TimedOut = ''TIMED_OUT''"
| "TaskOutcome_as_str BudgetExhausted = ''BUDGET_EXHAUSTED''"
| "TaskOutcome_as_str RuntimeLost = ''RUNTIME_LOST''"
| "TaskOutcome_as_str ResultInvalid = ''RESULT_INVALID''"

definition TaskOutcome_parse :: "string \<Rightarrow> task_outcome store_result" where
  "TaskOutcome_parse v =
     (if v = ''COMPLETED'' then Inr Completed
      else if v = ''FAILED'' then Inr Failed
      else if v = ''CANCELLED'' then Inr Cancelled
      else if v = ''TIMED_OUT'' then Inr TimedOut
      else if v = ''BUDGET_EXHAUSTED'' then Inr BudgetExhausted
      else if v = ''RUNTIME_LOST'' then Inr RuntimeLost
      else if v = ''RESULT_INVALID'' then Inr ResultInvalid
      else Inl (InvalidState (''unknown task outcome '' @ v)))"

datatype turn_state = TurnIdle | TurnActive | TurnFailed

fun TurnState_as_str :: "turn_state \<Rightarrow> string" where
  "TurnState_as_str TurnIdle = ''IDLE''"
| "TurnState_as_str TurnActive = ''ACTIVE''"
| "TurnState_as_str TurnFailed = ''FAILED''"

definition TurnState_parse :: "string \<Rightarrow> turn_state store_result" where
  "TurnState_parse v =
     (if v = ''IDLE'' then Inr TurnIdle
      else if v = ''ACTIVE'' then Inr TurnActive
      else if v = ''FAILED'' then Inr TurnFailed
      else Inl (InvalidState (''unknown turn state '' @ v)))"

section \<open>Budgets\<close>

record effective_budget =
  absolute_wall_time_ms :: nat
  runtime_activity_idle_timeout_ms :: nat
  model_stream_idle_timeout_ms :: nat
  tool_call_timeout_ms :: nat
  input_wait_timeout_ms :: nat
  max_turns :: nat
  max_tool_calls :: nat
  max_context_bytes :: nat
  max_result_bytes :: nat
  max_artifact_bytes :: nat

datatype budget_request = Omitted | BudgetNull | Limits effective_budget

definition DEFAULT_BUDGET :: effective_budget where
  "DEFAULT_BUDGET = \<lparr>
     absolute_wall_time_ms = 3600000,
     runtime_activity_idle_timeout_ms = 90000,
     model_stream_idle_timeout_ms = 90000,
     tool_call_timeout_ms = 300000,
     input_wait_timeout_ms = 300000,
     max_turns = 32,
     max_tool_calls = 128,
     max_context_bytes = 1048576,
     max_result_bytes = 1048576,
     max_artifact_bytes = 16777216\<rparr>"

definition MIN_RESULT_BYTES :: nat where
  "MIN_RESULT_BYTES = 512"

definition MAX_BUDGET :: effective_budget where
  "MAX_BUDGET = \<lparr>
     absolute_wall_time_ms = 86400000,
     runtime_activity_idle_timeout_ms = 86400000,
     model_stream_idle_timeout_ms = 86400000,
     tool_call_timeout_ms = 86400000,
     input_wait_timeout_ms = 86400000,
     max_turns = 1024,
     max_tool_calls = 4096,
     max_context_bytes = 16777216,
     max_result_bytes = 16777216,
     max_artifact_bytes = 268435456\<rparr>"

definition budget_pairs :: "effective_budget \<Rightarrow> (nat \<times> nat) list" where
  "budget_pairs value =
     [(absolute_wall_time_ms value, absolute_wall_time_ms MAX_BUDGET),
      (runtime_activity_idle_timeout_ms value, runtime_activity_idle_timeout_ms MAX_BUDGET),
      (model_stream_idle_timeout_ms value, model_stream_idle_timeout_ms MAX_BUDGET),
      (tool_call_timeout_ms value, tool_call_timeout_ms MAX_BUDGET),
      (input_wait_timeout_ms value, input_wait_timeout_ms MAX_BUDGET),
      (max_turns value, max_turns MAX_BUDGET),
      (max_tool_calls value, max_tool_calls MAX_BUDGET),
      (max_context_bytes value, max_context_bytes MAX_BUDGET),
      (max_result_bytes value, max_result_bytes MAX_BUDGET),
      (max_artifact_bytes value, max_artifact_bytes MAX_BUDGET)]"

definition check_budget :: "effective_budget \<Rightarrow> effective_budget store_result" where
  "check_budget value =
     (if list_ex (\<lambda>(v, cap). v = 0 \<or> v > cap) (budget_pairs value)
      then Inl (InvalidState ''budget limit is zero or above hard cap'')
      else if max_result_bytes value < MIN_RESULT_BYTES
      then Inl (InvalidState (''max_result_bytes must be at least '' @ show_nat MIN_RESULT_BYTES))
      else Inr value)"

fun resolve_effective_budget :: "budget_request \<Rightarrow> effective_budget store_result" where
  "resolve_effective_budget Omitted = check_budget DEFAULT_BUDGET"
| "resolve_effective_budget BudgetNull = Inl (InvalidState ''budget null is not omission'')"
| "resolve_effective_budget (Limits value) = check_budget value"

section \<open>Integer conversions\<close>

definition u64_to_i64 :: "nat \<Rightarrow> int store_result" where
  "u64_to_i64 v = (if v \<le> i64_max then Inr (int v)
                   else Inl (InvalidState ''value exceeds SQLite i64''))"

definition usize_to_i64 :: "nat \<Rightarrow> int store_result" where
  "usize_to_i64 v = (if v \<le> i64_max then Inr (int v)
                     else Inl (InvalidState ''value exceeds SQLite i64''))"

definition i64_to_u64 :: "int \<Rightarrow> nat store_result" where
  "i64_to_u64 v = (if 0 \<le> v then Inr (nat v) else Inl (InvalidState ''negative SQLite value''))"

section \<open>Records of the API\<close>

record new_task =
  nt_agent_id :: string
  nt_idempotency_key :: string
  nt_repository :: string
  nt_group_id :: "string option"
  nt_workspace_path :: string
  nt_runtime_hash :: "string option"
  nt_prepared_launch_json :: string
  nt_prepared_launch_sha256 :: string
  nt_initial_prompt :: string
  nt_budget :: budget_request
  nt_retain_partial :: bool

record stored_process_identity =
  spi_pid :: nat
  spi_process_group_id :: int
  spi_uid :: nat
  spi_start_token :: string

record task_record =
  tr_agent_id :: string
  tr_idempotency_key :: string
  tr_repository :: string
  tr_group_id :: "string option"
  tr_phase :: task_phase
  tr_outcome :: "task_outcome option"
  tr_workspace_path :: string
  tr_runtime_hash :: "string option"
  tr_prepared_launch_json :: string
  tr_prepared_launch_sha256 :: string
  tr_initial_prompt :: string
  tr_effective_budget :: effective_budget
  tr_retain_partial :: bool
  tr_owner_id :: "string option"
  tr_owner_epoch :: nat
  tr_close_requested :: bool
  tr_stop_requested :: bool
  tr_last_event_seq :: nat
  tr_failure_code :: "string option"
  tr_failure_message :: "string option"
  tr_runtime_agent_id :: "string option"
  tr_zcode_session_id :: "string option"
  tr_turn_state :: turn_state
  tr_process_identity :: "stored_process_identity option"
  tr_closed_at :: "int option"
  tr_reaped_at :: "int option"
  tr_created_at :: int

datatype submission_disposition = Created | Existing

datatype submitted_task = SubmittedTask (st_task: task_record) (st_disposition: submission_disposition)

datatype artifact_kind = ChangesPatch

record result_artifact =
  ra_kind :: artifact_kind
  ra_artifact_id :: string
  ra_sha256 :: string

record task_result =
  rs_outcome :: task_outcome
  rs_final_text :: string
  rs_partial :: bool
  rs_base_commit :: "string option"
  rs_head_commit :: "string option"
  rs_changed_files :: "string list"
  rs_diff_stat :: "string option"
  rs_checks :: "string list"
  rs_residual_gaps :: "string list"
  rs_artifacts :: "result_artifact list"

record stored_task_result =
  sr_result :: task_result
  sr_result_sha256 :: string
  sr_retained :: bool

record task_query_scope =
  sc_repository :: "string option"
  sc_group_id :: "string option"

record task_page_filter =
  pf_phase :: "task_phase option"
  pf_outcome :: "task_outcome option"

record task_page =
  pg_tasks :: "task_record list"
  pg_next_cursor :: "nat option"

datatype task_claim = TaskClaim (tc_task: task_record) (tc_owner_epoch: nat)

record terminal_update =
  tu_outcome :: task_outcome
  tu_failure_code :: "string option"
  tu_failure_message :: "string option"

record lifecycle_write =
  lw_agent_id :: string
  lw_runtime_agent_id :: string
  lw_owner_epoch :: nat
  lw_source_sequence :: nat
  lw_event_type :: string
  lw_turn_id :: "string option"
  lw_payload_json :: string
  lw_redaction_level :: string
  lw_terminal :: "terminal_update option"
  lw_turn_state :: "turn_state option"

record new_artifact =
  na_artifact_id :: string
  na_agent_id :: string
  na_artifact_type :: string
  na_path :: string
  na_sha256 :: string
  na_bytes :: nat

record control_decision =
  cd_phase :: task_phase
  cd_outcome :: "task_outcome option"
  cd_owner_epoch :: nat
  cd_needs_runtime_stop :: bool
  cd_prior_stop_or_close :: bool

datatype message_state = MsgQueued | MsgSending | MsgDelivered | MsgFailed

datatype pending_state = ReqPending | ReqSending | ReqResponded

datatype response_claim = Claimed | TaskStopping | NotPending pending_state | NotFound

section \<open>Rows\<close>

record task_row =
  tk_agent_id :: string
  tk_idempotency_key :: string
  tk_semantic_fingerprint :: string
  tk_repository :: string
  tk_group_id :: "string option"
  tk_phase :: task_phase
  tk_outcome :: "task_outcome option"
  tk_workspace_path :: string
  tk_runtime_hash :: "string option"
  tk_prepared_launch_json :: string
  tk_prepared_launch_sha256 :: string
  tk_initial_prompt :: string
  tk_effective_budget :: effective_budget
  tk_retain_partial :: bool
  tk_zcode_session_id :: "string option"
  tk_turn_state :: turn_state
  tk_pid :: "int option"
  tk_process_group_id :: "int option"
  tk_process_uid :: "int option"
  tk_process_start_token :: "string option"
  tk_runtime_agent_id :: "string option"
  tk_owner_id :: "string option"
  tk_owner_epoch :: int
  tk_lease_expires_at :: "int option"
  tk_close_requested :: bool
  tk_stop_requested :: bool
  tk_created_at :: int
  tk_started_at :: "int option"
  tk_completed_at :: "int option"
  tk_last_heartbeat_at :: "int option"
  tk_last_event_seq :: int
  tk_failure_code :: "string option"
  tk_failure_message :: "string option"
  tk_closed_at :: "int option"
  tk_reaped_at :: "int option"

record event_row =
  ev_agent_id :: string
  ev_runtime_agent_id :: string
  ev_seq :: int
  ev_source_seq :: int
  ev_timestamp :: int
  ev_event_type :: string
  ev_turn_id :: "string option"
  ev_payload_json :: string
  ev_redaction_level :: string

record message_row =
  ms_message_id :: string
  ms_agent_id :: string
  ms_mode :: string
  ms_content :: string
  ms_state :: message_state
  ms_created_at :: int
  ms_delivered_at :: "int option"
  ms_target_turn_id :: "string option"
  ms_failure_code :: "string option"
  ms_failure_message :: "string option"

record pending_row =
  pr_request_id :: string
  pr_agent_id :: string
  pr_correlation_id :: string
  pr_request_type :: string
  pr_payload_json :: string
  pr_state :: pending_state
  pr_created_at :: int
  pr_responded_at :: "int option"
  pr_response_decision :: "string option"
  pr_response_content :: "string option"

record result_row =
  rr_agent_id :: string
  rr_result :: task_result
  rr_retained :: bool
  rr_result_sha256 :: string
  rr_completed_at :: int

record artifact_row =
  ar_artifact_id :: string
  ar_agent_id :: string
  ar_artifact_type :: string
  ar_path :: string
  ar_sha256 :: string
  ar_bytes :: int
  ar_created_at :: int

record ledger_row =
  lg_agent_id :: string
  lg_owner_epoch :: int
  lg_from_phase :: "task_phase option"
  lg_to_phase :: task_phase
  lg_outcome :: "task_outcome option"
  lg_reason_code :: "string option"
  lg_recorded_at :: int

section \<open>Code outside the repository\<close>

text \<open>
  SHA-256 in lowercase hexadecimal (\<^verbatim>\<open>sha2\<close>), JSON serialisation of a value and JSON
  parsing (\<^verbatim>\<open>serde_json\<close>).
\<close>

record store_env =
  env_sha256 :: "string \<Rightarrow> string"
  env_to_json :: "json \<Rightarrow> string"
  env_parse :: "string \<Rightarrow> json option"

section \<open>Validations\<close>

definition nonblank :: "string \<Rightarrow> bool" where
  "nonblank v \<longleftrightarrow> trim v \<noteq> [] \<and> \<not> has_nul v"

fun first_invalid :: "(string \<times> string) list \<Rightarrow> string option" where
  "first_invalid [] = None"
| "first_invalid ((name, v) # rest) = (if nonblank v then first_invalid rest else Some name)"

definition validate_task :: "new_task \<Rightarrow> unit store_result" where
  "validate_task task =
     (case first_invalid
        [(''agent_id'', nt_agent_id task),
         (''idempotency_key'', nt_idempotency_key task),
         (''repository'', nt_repository task),
         (''workspace_path'', nt_workspace_path task),
         (''prepared_launch_json'', nt_prepared_launch_json task),
         (''prepared_launch_sha256'', nt_prepared_launch_sha256 task),
         (''initial_prompt'', nt_initial_prompt task)] of
        Some name \<Rightarrow> Inl (InvalidState (name @ '' is invalid''))
      | None \<Rightarrow>
          (case nt_group_id task of
             Some g \<Rightarrow> if trim g = [] then Inl (InvalidState ''group_id is invalid'') else Inr ()
           | None \<Rightarrow> Inr ()))"

definition validate_scope :: "task_query_scope \<Rightarrow> unit store_result" where
  "validate_scope scope =
     (if sc_repository scope = None \<and> sc_group_id scope = None
      then Inl (InvalidState ''repository or group task scope is required'')
      else Inr ())"

definition json_opt :: "string option \<Rightarrow> json" where
  "json_opt v = (case v of None \<Rightarrow> JNull | Some x \<Rightarrow> JString x)"

definition budget_json :: "effective_budget \<Rightarrow> json" where
  "budget_json b = JObject
     [(''absolute_wall_time_ms'', JNum (int (absolute_wall_time_ms b))),
      (''runtime_activity_idle_timeout_ms'', JNum (int (runtime_activity_idle_timeout_ms b))),
      (''model_stream_idle_timeout_ms'', JNum (int (model_stream_idle_timeout_ms b))),
      (''tool_call_timeout_ms'', JNum (int (tool_call_timeout_ms b))),
      (''input_wait_timeout_ms'', JNum (int (input_wait_timeout_ms b))),
      (''max_turns'', JNum (int (max_turns b))),
      (''max_tool_calls'', JNum (int (max_tool_calls b))),
      (''max_context_bytes'', JNum (int (max_context_bytes b))),
      (''max_result_bytes'', JNum (int (max_result_bytes b))),
      (''max_artifact_bytes'', JNum (int (max_artifact_bytes b)))]"

definition fingerprint_json :: "new_task \<Rightarrow> effective_budget \<Rightarrow> json" where
  "fingerprint_json task budget = JArray
     [JString ''generic-task-v1'',
      JString (nt_agent_id task),
      JString (nt_idempotency_key task),
      JString (nt_repository task),
      json_opt (nt_group_id task),
      JString (nt_workspace_path task),
      json_opt (nt_runtime_hash task),
      JString (nt_prepared_launch_json task),
      JString (nt_prepared_launch_sha256 task),
      JString (nt_initial_prompt task),
      budget_json budget,
      JBool (nt_retain_partial task)]"

definition task_fingerprint :: "store_env \<Rightarrow> new_task \<Rightarrow> effective_budget \<Rightarrow> string" where
  "task_fingerprint env task budget = env_sha256 env (env_to_json env (fingerprint_json task budget))"

definition artifact_json :: "result_artifact \<Rightarrow> json" where
  "artifact_json a = JObject
     [(''kind'', JString (case ra_kind a of ChangesPatch \<Rightarrow> ''changes_patch'')),
      (''artifact_id'', JString (ra_artifact_id a)),
      (''sha256'', JString (ra_sha256 a))]"

definition result_json :: "task_result \<Rightarrow> json" where
  "result_json r = JObject
     [(''outcome'', JString (TaskOutcome_as_str (rs_outcome r))),
      (''final_text'', JString (rs_final_text r)),
      (''partial'', JBool (rs_partial r)),
      (''base_commit'', json_opt (rs_base_commit r)),
      (''head_commit'', json_opt (rs_head_commit r)),
      (''changed_files'', JArray (map JString (rs_changed_files r))),
      (''diff_stat'', json_opt (rs_diff_stat r)),
      (''checks'', JArray (map JString (rs_checks r))),
      (''residual_gaps'', JArray (map JString (rs_residual_gaps r))),
      (''artifacts'', JArray (map artifact_json (rs_artifacts r)))]"

definition task_result_bytes :: "store_env \<Rightarrow> task_result \<Rightarrow> string" where
  "task_result_bytes env result = env_to_json env (result_json result)"

definition task_result_digest :: "store_env \<Rightarrow> string \<Rightarrow> string" where
  "task_result_digest env bytes = env_sha256 env bytes"

definition validate_result :: "task_result \<Rightarrow> unit store_result" where
  "validate_result result =
     (if trim (rs_final_text result) = [] then Inl (InvalidState ''invalid task result'')
      else if rs_partial result \<and> rs_outcome result = Completed
      then Inl (InvalidState ''partial result cannot be completed'')
      else Inr ())"

definition validate_result_patch ::
    "string \<Rightarrow> task_result \<Rightarrow> new_artifact option \<Rightarrow> unit store_result" where
  "validate_result_patch agent_id result patch =
     (case (rs_artifacts result, patch) of
        ([], None) \<Rightarrow> Inr ()
      | ([metadata], Some p) \<Rightarrow>
          if ra_kind metadata = ChangesPatch
             \<and> ra_artifact_id metadata = na_artifact_id p
             \<and> ra_sha256 metadata = na_sha256 p
             \<and> na_agent_id p = agent_id
             \<and> na_artifact_type p = ''changes_patch''
          then Inr ()
          else Inl (InvalidState ''result changes_patch metadata is incomplete or inconsistent'')
      | _ \<Rightarrow> Inl (InvalidState ''result changes_patch metadata is incomplete or inconsistent''))"

definition retain_result :: "bool \<Rightarrow> task_result \<Rightarrow> bool" where
  "retain_result retain_partial result \<longleftrightarrow>
     \<not> rs_partial result
     \<or> rs_outcome result = Completed
     \<or> (retain_partial \<and> \<not> (rs_outcome result = RuntimeLost \<or> rs_outcome result = ResultInvalid))"

section \<open>Reading a row\<close>

definition u32_max :: int where
  "u32_max = 4294967295"

definition stored_identity :: "task_row \<Rightarrow> stored_process_identity option store_result" where
  "stored_identity row =
     (case (tk_pid row, tk_process_group_id row, tk_process_uid row, tk_process_start_token row) of
        (Some pid, Some pgid, Some uid, Some token) \<Rightarrow>
          if \<not> (0 \<le> pid \<and> pid \<le> u32_max) then Inl (InvalidState ''stored pid is invalid'')
          else if \<not> (-2147483648 \<le> pgid \<and> pgid \<le> 2147483647)
          then Inl (InvalidState ''stored process group is invalid'')
          else if \<not> (0 \<le> uid \<and> uid \<le> u32_max) then Inl (InvalidState ''stored uid is invalid'')
          else Inr (Some \<lparr>spi_pid = nat pid, spi_process_group_id = pgid, spi_uid = nat uid,
                          spi_start_token = token\<rparr>)
      | (None, None, None, None) \<Rightarrow> Inr None
      | _ \<Rightarrow> Inl (InvalidState ''stored process identity is incomplete''))"

definition convert_task_row :: "task_row \<Rightarrow> task_record store_result" where
  "convert_task_row row =
     rbind (stored_identity row) (\<lambda>identity.
     rbind (i64_to_u64 (tk_owner_epoch row)) (\<lambda>epoch.
     rbind (i64_to_u64 (tk_last_event_seq row)) (\<lambda>seq.
       Inr \<lparr>tr_agent_id = tk_agent_id row,
            tr_idempotency_key = tk_idempotency_key row,
            tr_repository = tk_repository row,
            tr_group_id = tk_group_id row,
            tr_phase = tk_phase row,
            tr_outcome = tk_outcome row,
            tr_workspace_path = tk_workspace_path row,
            tr_runtime_hash = tk_runtime_hash row,
            tr_prepared_launch_json = tk_prepared_launch_json row,
            tr_prepared_launch_sha256 = tk_prepared_launch_sha256 row,
            tr_initial_prompt = tk_initial_prompt row,
            tr_effective_budget = tk_effective_budget row,
            tr_retain_partial = tk_retain_partial row,
            tr_owner_id = tk_owner_id row,
            tr_owner_epoch = epoch,
            tr_close_requested = tk_close_requested row,
            tr_stop_requested = tk_stop_requested row,
            tr_last_event_seq = seq,
            tr_failure_code = tk_failure_code row,
            tr_failure_message = tk_failure_message row,
            tr_runtime_agent_id = tk_runtime_agent_id row,
            tr_zcode_session_id = tk_zcode_session_id row,
            tr_turn_state = tk_turn_state row,
            tr_process_identity = identity,
            tr_closed_at = tk_closed_at row,
            tr_reaped_at = tk_reaped_at row,
            tr_created_at = tk_created_at row\<rparr>)))"

section \<open>Schema versions\<close>

definition SCHEMA_VERSION :: int where
  "SCHEMA_VERSION = 10"

definition schema_tables :: "string list" where
  "schema_tables = [''artifacts'', ''events'', ''lifecycle_ledger'', ''messages'',
                    ''pending_requests'', ''task_results'', ''tasks'']"

definition schema_is_current :: "string list \<Rightarrow> bool" where
  "schema_is_current actual \<longleftrightarrow> actual = schema_tables"

text \<open>
  The catalogue of a database: its \<^verbatim>\<open>user_version\<close> and the names of its user tables in
  order. Opening a database either leaves it as it is, creates the schema in an empty one,
  or refuses.
\<close>

record catalogue =
  cat_version :: int
  cat_tables :: "string list"

definition initialize_schema :: "catalogue \<Rightarrow> catalogue store_result" where
  "initialize_schema c =
     (if cat_tables c \<noteq> []
      then if cat_version c \<noteq> SCHEMA_VERSION \<or> \<not> schema_is_current (cat_tables c)
           then Inl LegacySchemaUnsupported else Inr c
      else if cat_version c \<noteq> 0 then Inl LegacySchemaUnsupported
      else Inr \<lparr>cat_version = SCHEMA_VERSION, cat_tables = schema_tables\<rparr>)"

section \<open>Facts about encodings and validations\<close>

lemma phase_parse_as_str [simp]: "TaskPhase_parse (TaskPhase_as_str p) = Inr p"
  by (cases p) (simp_all add: TaskPhase_parse_def)

lemma outcome_parse_as_str [simp]: "TaskOutcome_parse (TaskOutcome_as_str p) = Inr p"
  by (cases p) (simp_all add: TaskOutcome_parse_def)

lemma turn_parse_as_str [simp]: "TurnState_parse (TurnState_as_str p) = Inr p"
  by (cases p) (simp_all add: TurnState_parse_def)

lemma phase_parse_Inr: "TaskPhase_parse v = Inr p \<Longrightarrow> v = TaskPhase_as_str p"
  by (auto simp: TaskPhase_parse_def split: if_splits)

lemma outcome_parse_Inr: "TaskOutcome_parse v = Inr p \<Longrightarrow> v = TaskOutcome_as_str p"
  by (auto simp: TaskOutcome_parse_def split: if_splits)

lemma turn_parse_Inr: "TurnState_parse v = Inr p \<Longrightarrow> v = TurnState_as_str p"
  by (auto simp: TurnState_parse_def split: if_splits)

lemma u64_to_i64_Inr [simp]: "u64_to_i64 v = Inr i \<longleftrightarrow> v \<le> i64_max \<and> i = int v"
  by (auto simp: u64_to_i64_def)

lemma usize_to_i64_Inr [simp]: "usize_to_i64 v = Inr i \<longleftrightarrow> v \<le> i64_max \<and> i = int v"
  by (auto simp: usize_to_i64_def)

lemma i64_to_u64_Inr [simp]: "i64_to_u64 i = Inr v \<longleftrightarrow> 0 \<le> i \<and> v = nat i"
  by (auto simp: i64_to_u64_def)

lemma check_budget_Inr:
  "check_budget b = Inr b' \<longleftrightarrow>
     b' = b \<and> list_all (\<lambda>(v, cap). 0 < v \<and> v \<le> cap) (budget_pairs b)
     \<and> MIN_RESULT_BYTES \<le> max_result_bytes b"
proof -
  have "list_ex (\<lambda>(v, cap). v = 0 \<or> v > cap) ps \<longleftrightarrow>
        \<not> list_all (\<lambda>(v, cap). 0 < v \<and> v \<le> cap) ps" for ps :: "(nat \<times> nat) list"
    by (induction ps) auto
  then show ?thesis by (auto simp: check_budget_def)
qed

text \<open>A row whose integer columns a reader can convert.\<close>

definition row_readable :: "task_row \<Rightarrow> bool" where
  "row_readable row \<longleftrightarrow> 0 \<le> tk_owner_epoch row \<and> 0 \<le> tk_last_event_seq row
     \<and> isl (stored_identity row) = False"

lemma convert_task_row_readable:
  "(\<exists>tr. convert_task_row row = Inr tr) \<longleftrightarrow> row_readable row"
proof (cases "stored_identity row")
  case (Inl e)
  then show ?thesis by (simp add: convert_task_row_def row_readable_def)
next
  case (Inr i)
  then show ?thesis
    by (auto simp: convert_task_row_def row_readable_def i64_to_u64_def rbind_def)
qed

text \<open>What a successful read preserves of the row.\<close>

lemma convert_task_row_fields:
  assumes "convert_task_row row = Inr tr"
  shows "tr_agent_id tr = tk_agent_id row" "tr_phase tr = tk_phase row"
    "tr_outcome tr = tk_outcome row" "tr_owner_epoch tr = nat (tk_owner_epoch row)"
    "0 \<le> tk_owner_epoch row"
    "tr_close_requested tr = tk_close_requested row"
    "tr_stop_requested tr = tk_stop_requested row"
    "tr_workspace_path tr = tk_workspace_path row" "tr_repository tr = tk_repository row"
    "tr_zcode_session_id tr = tk_zcode_session_id row"
    "tr_effective_budget tr = tk_effective_budget row"
    "tr_idempotency_key tr = tk_idempotency_key row"
    "tr_failure_code tr = tk_failure_code row"
    "tr_failure_message tr = tk_failure_message row"
    "tr_retain_partial tr = tk_retain_partial row"
  using assms by (auto simp: convert_task_row_def)

end
