(* ===== verification/Store_Ops.thy ===== *)
theory Store_Ops
  imports Store_Model
begin

text \<open>
  The operations of \<^verbatim>\<open>impl Store\<close> in \<^verbatim>\<open>crates/zcode-agent-store/src/lib.rs\<close> over the seven
  tables. Every write of the source is one immediate transaction under the connection
  mutex: an operation is a function from the store to an error (the transaction is rolled
  back, so the caller keeps the old store) or to a value and the new store.

  Each SQL statement is written out on the row lists: \<open>update_where\<close> with the
  \<^verbatim>\<open>WHERE\<close> clause as the predicate, \<open>first_by\<close> for
  \<^verbatim>\<open>ORDER BY created_at, rowid LIMIT 1\<close>, and the constraints of the schema (primary keys,
  unique columns, foreign keys, the check that a task is terminal exactly when it has an
  outcome) as branches that return \<open>Sqlite\<close>. The wall clock is the argument \<open>now\<close>, read
  once per transaction; the recorded times are never read back by a decision except as the
  sort key \<^verbatim>\<open>created_at\<close>. Two operations convert a value after their commit
  (\<^verbatim>\<open>reap_task\<close> reads the outcome, \<^verbatim>\<open>append_lifecycle\<close> the sequence); those conversions
  cannot fail on a row that satisfies the schema's check and has a nonnegative sequence.
\<close>

record store =
  tasks :: "task_row list"
  events :: "event_row list"
  messages :: "message_row list"
  pending_requests :: "pending_row list"
  task_results :: "result_row list"
  artifacts :: "artifact_row list"
  ledger :: "ledger_row list"

definition empty_store :: store where
  "empty_store = \<lparr>tasks = [], events = [], messages = [], pending_requests = [],
                  task_results = [], artifacts = [], ledger = []\<rparr>"

type_synonym 'a store_tx = "store \<Rightarrow> ('a \<times> store) store_result"

section \<open>Queries\<close>

definition task_row_of :: "store \<Rightarrow> string \<Rightarrow> task_row option" where
  "task_row_of s a = find (\<lambda>t. tk_agent_id t = a) (tasks s)"

definition query_task :: "store \<Rightarrow> string \<Rightarrow> task_record option store_result" where
  "query_task s agent_id =
     (case task_row_of s agent_id of
        None \<Rightarrow> Inr None
      | Some row \<Rightarrow> rbind (convert_task_row row) (\<lambda>tr. Inr (Some tr)))"

definition query_task_by_idempotency :: "store \<Rightarrow> string \<Rightarrow> task_record option store_result" where
  "query_task_by_idempotency s key =
     (case find (\<lambda>t. tk_idempotency_key t = key) (tasks s) of
        None \<Rightarrow> Inr None
      | Some row \<Rightarrow> query_task s (tk_agent_id row))"

definition query_guard ::
    "store \<Rightarrow> string \<Rightarrow> (task_phase \<times> task_outcome option \<times> nat \<times> bool \<times> bool) store_result" where
  "query_guard s agent_id =
     rbind (ok_or (InvalidState (''unknown task '' @ agent_id)) (task_row_of s agent_id)) (\<lambda>row.
     rbind (i64_to_u64 (tk_owner_epoch row)) (\<lambda>epoch.
       Inr (tk_phase row, tk_outcome row, epoch, tk_close_requested row, tk_stop_requested row)))"

definition query_message :: "store \<Rightarrow> string \<Rightarrow> message_row option" where
  "query_message s message_id = find (\<lambda>m. ms_message_id m = message_id) (messages s)"

definition query_pending_request :: "store \<Rightarrow> string \<Rightarrow> pending_row option" where
  "query_pending_request s request_id = find (\<lambda>p. pr_request_id p = request_id) (pending_requests s)"

definition query_task_result :: "store \<Rightarrow> string \<Rightarrow> stored_task_result option" where
  "query_task_result s agent_id =
     map_option (\<lambda>r. \<lparr>sr_result = rr_result r, sr_result_sha256 = rr_result_sha256 r,
                       sr_retained = rr_retained r\<rparr>)
       (find (\<lambda>r. rr_agent_id r = agent_id) (task_results s))"

definition msg_open :: "message_row \<Rightarrow> bool" where
  "msg_open m \<longleftrightarrow> ms_state m = MsgQueued \<or> ms_state m = MsgSending"

definition req_open :: "pending_row \<Rightarrow> bool" where
  "req_open p \<longleftrightarrow> pr_state p = ReqPending \<or> pr_state p = ReqSending"

definition unfinished :: "task_phase \<Rightarrow> bool" where
  "unfinished p \<longleftrightarrow> p = Queued \<or> p = Preparing \<or> p = Running \<or> p = WaitingInput \<or> p = Cancelling"

definition active_phase :: "task_phase \<Rightarrow> bool" where
  "active_phase p \<longleftrightarrow> p = Preparing \<or> p = Running \<or> p = WaitingInput \<or> p = Cancelling"

definition completion_blockers_tx :: "store \<Rightarrow> string \<Rightarrow> bool \<times> bool" where
  "completion_blockers_tx s agent_id =
     (list_ex (\<lambda>p. pr_agent_id p = agent_id \<and> req_open p) (pending_requests s),
      list_ex (\<lambda>m. ms_agent_id m = agent_id \<and> msg_open m) (messages s))"

definition completion_blockers :: "store \<Rightarrow> string \<Rightarrow> bool \<times> bool" where
  "completion_blockers s agent_id = completion_blockers_tx s agent_id"

section \<open>Parts of transactions\<close>

definition insert_ledger ::
    "int \<Rightarrow> string \<Rightarrow> nat \<Rightarrow> task_phase option \<Rightarrow> task_phase \<Rightarrow> task_outcome option
     \<Rightarrow> string option \<Rightarrow> store \<Rightarrow> store store_result" where
  "insert_ledger now agent_id owner_epoch from_phase to_phase outcome reason_code s =
     rbind (u64_to_i64 owner_epoch) (\<lambda>epoch.
       if task_row_of s agent_id = None then Inl (Sqlite ''FOREIGN KEY constraint failed'')
       else Inr (s\<lparr>ledger := ledger s @
              [\<lparr>lg_agent_id = agent_id, lg_owner_epoch = epoch, lg_from_phase = from_phase,
                lg_to_phase = to_phase, lg_outcome = outcome, lg_reason_code = reason_code,
                lg_recorded_at = now\<rparr>]\<rparr>))"

definition settle_terminal_commands :: "string \<Rightarrow> string \<Rightarrow> store \<Rightarrow> store" where
  "settle_terminal_commands agent_id reason_code s =
     s\<lparr>messages := update_where (\<lambda>m. ms_agent_id m = agent_id \<and> msg_open m)
         (\<lambda>m. m\<lparr>ms_state := MsgFailed, ms_failure_code := Some reason_code,
                ms_failure_message := Some ''runtime is no longer available''\<rparr>) (messages s),
       pending_requests := filter (\<lambda>p. \<not> (pr_agent_id p = agent_id \<and> req_open p))
         (pending_requests s)\<rparr>"

definition terminal_turn_state :: "task_outcome \<Rightarrow> turn_state" where
  "terminal_turn_state outcome =
     (if outcome = Failed \<or> outcome = RuntimeLost \<or> outcome = ResultInvalid
      then TurnFailed else TurnIdle)"

definition apply_terminal ::
    "int \<Rightarrow> string \<Rightarrow> nat \<Rightarrow> task_phase \<Rightarrow> bool \<Rightarrow> bool \<Rightarrow> terminal_update \<Rightarrow> task_outcome store_tx" where
  "apply_terminal now agent_id owner_epoch from_phase close_requested stop_requested terminal s =
     (if from_phase = Terminal then Inl (Conflict ''task is already terminal'')
      else
        let outcome = (if (stop_requested \<or> close_requested) \<and> tu_outcome terminal \<noteq> Cancelled
                       then Cancelled else tu_outcome terminal)
        in rbind (u64_to_i64 owner_epoch) (\<lambda>epoch.
          let hit = (\<lambda>t. tk_agent_id t = agent_id \<and> tk_owner_epoch t = epoch \<and> tk_phase t \<noteq> Terminal)
          in if count_where hit (tasks s) \<noteq> 1
             then Inl (Conflict (''terminal transition lost for '' @ agent_id @ '' epoch '' @ show_nat owner_epoch))
             else
               let s1 = s\<lparr>tasks := update_where hit
                     (\<lambda>t. t\<lparr>tk_phase := Terminal, tk_outcome := Some outcome,
                            tk_completed_at := Some (coalesce (tk_completed_at t) now),
                            tk_failure_code := tu_failure_code terminal,
                            tk_failure_message := tu_failure_message terminal,
                            tk_turn_state := terminal_turn_state outcome,
                            tk_closed_at := (if tk_close_requested t
                                             then Some (coalesce (tk_closed_at t) now)
                                             else tk_closed_at t)\<rparr>) (tasks s)\<rparr>;
                   s2 = settle_terminal_commands agent_id
                          (coalesce (tu_failure_code terminal) ''TASK_TERMINATED'') s1
               in rbind (insert_ledger now agent_id owner_epoch (Some from_phase) Terminal
                           (Some outcome) (tu_failure_code terminal) s2)
                    (\<lambda>s3. Inr (outcome, s3))))"

definition insert_artifact_tx :: "int \<Rightarrow> new_artifact \<Rightarrow> bool store_tx" where
  "insert_artifact_tx now artifact s =
     (if na_artifact_type artifact \<noteq> ''changes_patch''
      then Inl (InvalidState ''only daemon-created changes_patch artifacts are durable'')
      else rbind (u64_to_i64 (na_bytes artifact)) (\<lambda>bytes.
        case find (\<lambda>r. ar_artifact_id r = na_artifact_id artifact) (artifacts s) of
          None \<Rightarrow>
            if task_row_of s (na_agent_id artifact) = None
            then Inl (Sqlite ''FOREIGN KEY constraint failed'')
            else Inr (True, s\<lparr>artifacts := artifacts s @
                   [\<lparr>ar_artifact_id = na_artifact_id artifact, ar_agent_id = na_agent_id artifact,
                     ar_artifact_type = na_artifact_type artifact, ar_path = na_path artifact,
                     ar_sha256 = na_sha256 artifact, ar_bytes = bytes, ar_created_at = now\<rparr>]\<rparr>)
        | Some stored \<Rightarrow>
            if (ar_agent_id stored, ar_artifact_type stored, ar_path stored, ar_sha256 stored,
                ar_bytes stored)
               \<noteq> (na_agent_id artifact, na_artifact_type artifact, na_path artifact,
                  na_sha256 artifact, bytes)
            then Inl (Conflict ''artifact id has different immutable metadata'')
            else Inr (False, s)))"

section \<open>Submission and listing\<close>

definition direct_submission :: "store_env \<Rightarrow> new_task \<Rightarrow> bool" where
  "direct_submission env task \<longleftrightarrow>
     nt_workspace_path task = nt_repository task
     \<and> Option.bind (env_parse env (nt_prepared_launch_json task))
         (\<lambda>v. Option.bind (json_get ''direct_workspace'' v) json_as_bool) = Some True"

definition workspace_holder :: "store \<Rightarrow> string \<Rightarrow> string \<Rightarrow> string option" where
  "workspace_holder s workspace repository =
     map_option tk_agent_id (first_by tk_created_at
       (filter (\<lambda>t. tk_workspace_path t = workspace \<and> tk_repository t = repository
                    \<and> unfinished (tk_phase t)) (tasks s)))"

definition queued_row :: "store_env \<Rightarrow> int \<Rightarrow> new_task \<Rightarrow> effective_budget \<Rightarrow> task_row" where
  "queued_row env now task budget = \<lparr>
     tk_agent_id = nt_agent_id task,
     tk_idempotency_key = nt_idempotency_key task,
     tk_semantic_fingerprint = task_fingerprint env task budget,
     tk_repository = nt_repository task,
     tk_group_id = nt_group_id task,
     tk_phase = Queued,
     tk_outcome = None,
     tk_workspace_path = nt_workspace_path task,
     tk_runtime_hash = nt_runtime_hash task,
     tk_prepared_launch_json = nt_prepared_launch_json task,
     tk_prepared_launch_sha256 = nt_prepared_launch_sha256 task,
     tk_initial_prompt = nt_initial_prompt task,
     tk_effective_budget = budget,
     tk_retain_partial = nt_retain_partial task,
     tk_zcode_session_id = None,
     tk_turn_state = TurnIdle,
     tk_pid = None,
     tk_process_group_id = None,
     tk_process_uid = None,
     tk_process_start_token = None,
     tk_runtime_agent_id = None,
     tk_owner_id = None,
     tk_owner_epoch = 0,
     tk_lease_expires_at = None,
     tk_close_requested = False,
     tk_stop_requested = False,
     tk_created_at = now,
     tk_started_at = None,
     tk_completed_at = None,
     tk_last_heartbeat_at = None,
     tk_last_event_seq = 0,
     tk_failure_code = None,
     tk_failure_message = None,
     tk_closed_at = None,
     tk_reaped_at = None\<rparr>"

definition insert_queued ::
    "store_env \<Rightarrow> int \<Rightarrow> new_task \<Rightarrow> effective_budget \<Rightarrow> submitted_task store_tx" where
  "insert_queued env now task budget s =
     (let s1 = s\<lparr>tasks := tasks s @ [queued_row env now task budget]\<rparr>
      in rbind (insert_ledger now (nt_agent_id task) 0 None Queued None None s1) (\<lambda>s2.
         rbind (query_task s2 (nt_agent_id task)) (\<lambda>stored.
         rbind (ok_or (InvalidState ''inserted task disappeared'') stored) (\<lambda>tr.
           Inr (SubmittedTask tr Created, s2)))))"

definition enqueue_task_authoritative ::
    "store_env \<Rightarrow> int \<Rightarrow> new_task \<Rightarrow> submitted_task store_tx" where
  "enqueue_task_authoritative env now task s =
     rbind (validate_task task) (\<lambda>_.
     rbind (resolve_effective_budget (nt_budget task)) (\<lambda>budget.
     rbind (query_task_by_idempotency s (nt_idempotency_key task)) (\<lambda>existing.
       case existing of
         Some tr \<Rightarrow>
           rbind (ok_or (Sqlite ''Query returned no rows'') (task_row_of s (tr_agent_id tr))) (\<lambda>row.
             if tr_agent_id tr \<noteq> nt_agent_id task
                \<or> tk_semantic_fingerprint row \<noteq> task_fingerprint env task budget
             then Inl (Conflict (''idempotency key '' @ nt_idempotency_key task @ '' names a different task''))
             else Inr (SubmittedTask tr Existing, s))
       | None \<Rightarrow>
           rbind (query_task s (nt_agent_id task)) (\<lambda>same_id.
             if same_id \<noteq> None
             then Inl (Conflict (''agent id '' @ nt_agent_id task @ '' already exists''))
             else if direct_submission env task
             then (case workspace_holder s (nt_workspace_path task) (nt_repository task) of
                     Some active \<Rightarrow> Inl (Conflict (''WORKSPACE_BUSY active_agent_id='' @ active))
                   | None \<Rightarrow> insert_queued env now task budget s)
             else insert_queued env now task budget s))))"

definition get_task :: "store \<Rightarrow> string \<Rightarrow> task_record option store_result" where
  "get_task s agent_id = query_task s agent_id"

definition scope_matches :: "task_query_scope \<Rightarrow> task_row \<Rightarrow> bool" where
  "scope_matches scope t \<longleftrightarrow>
     (sc_repository scope = None \<or> sc_repository scope = Some (tk_repository t))
     \<and> (sc_group_id scope = None \<or> sc_group_id scope = tk_group_id t)"

definition get_task_scoped ::
    "store \<Rightarrow> string \<Rightarrow> task_query_scope \<Rightarrow> task_record option store_result" where
  "get_task_scoped s agent_id scope =
     rbind (validate_scope scope) (\<lambda>_.
       case find (\<lambda>t. tk_agent_id t = agent_id \<and> scope_matches scope t) (tasks s) of
         None \<Rightarrow> Inr None
       | Some row \<Rightarrow> query_task s (tk_agent_id row))"

text \<open>Row ids of the task table count from one in insertion order: no row is ever deleted.\<close>

definition page_matches ::
    "task_query_scope \<Rightarrow> task_page_filter \<Rightarrow> int option \<Rightarrow> nat \<times> task_row \<Rightarrow> bool" where
  "page_matches scope filt cursor r \<longleftrightarrow>
     scope_matches scope (snd r)
     \<and> (pf_phase filt = None \<or> pf_phase filt = Some (tk_phase (snd r)))
     \<and> (pf_outcome filt = None \<or> pf_outcome filt = tk_outcome (snd r))
     \<and> (case cursor of None \<Rightarrow> True | Some c \<Rightarrow> int (fst r) < c)"

definition page_rows ::
    "store \<Rightarrow> task_query_scope \<Rightarrow> task_page_filter \<Rightarrow> int option \<Rightarrow> (nat \<times> task_row) list" where
  "page_rows s scope filt cursor =
     rev (filter (page_matches scope filt cursor) (enumerate 1 (tasks s)))"

definition list_task_page ::
    "store \<Rightarrow> task_query_scope \<Rightarrow> task_page_filter \<Rightarrow> nat option \<Rightarrow> nat \<Rightarrow> task_page store_result" where
  "list_task_page s scope filt cursor limit =
     rbind (validate_scope scope) (\<lambda>_.
       if limit = 0 then Inl (InvalidState ''task page limit must be positive'')
       else
         rbind (case cursor of None \<Rightarrow> Inr None
                             | Some c \<Rightarrow> rbind (u64_to_i64 c) (\<lambda>i. Inr (Some i))) (\<lambda>cur.
         rbind (usize_to_i64 (sat_inc u64_max limit)) (\<lambda>sql_limit.
           let rows = take (nat sql_limit) (page_rows s scope filt cur);
               has_more = length rows > limit;
               selected = take limit rows
           in rbind (collect_results (map (\<lambda>r. rbind (query_task s (tk_agent_id (snd r)))
                        (ok_or (InvalidState ''listed task disappeared''))) selected)) (\<lambda>trs.
                Inr \<lparr>pg_tasks = trs,
                     pg_next_cursor = (if has_more \<and> selected \<noteq> []
                                       then Some (fst (last selected)) else None)\<rparr>))))"

section \<open>Claims and the running phase\<close>

definition claimable :: "store \<Rightarrow> int \<Rightarrow> task_row \<Rightarrow> bool" where
  "claimable s limit q \<longleftrightarrow>
     tk_phase q = Queued \<and> \<not> tk_close_requested q
     \<and> int (count_where (\<lambda>a. tk_repository a = tk_repository q \<and> active_phase (tk_phase a)) (tasks s))
       < limit"

definition claim_next :: "int \<Rightarrow> string \<Rightarrow> nat \<Rightarrow> nat \<Rightarrow> task_claim option store_tx" where
  "claim_next now owner_id global_limit per_workspace_limit s =
     (if per_workspace_limit = 0 then Inr (None, s)
      else rbind (usize_to_i64 per_workspace_limit) (\<lambda>limit.
        case first_by tk_created_at (filter (claimable s limit) (tasks s)) of
          None \<Rightarrow> Inr (None, s)
        | Some cand \<Rightarrow>
            let agent_id = tk_agent_id cand;
                hit = (\<lambda>t. tk_agent_id t = agent_id \<and> tk_phase t = Queued \<and> \<not> tk_close_requested t);
                s1 = s\<lparr>tasks := update_where hit
                       (\<lambda>t. t\<lparr>tk_phase := Preparing, tk_owner_id := Some owner_id,
                              tk_owner_epoch := tk_owner_epoch t + 1,
                              tk_started_at := Some (coalesce (tk_started_at t) now),
                              tk_last_heartbeat_at := Some now\<rparr>) (tasks s)\<rparr>
            in if count_where hit (tasks s) \<noteq> 1
               then Inl (Conflict (''task '' @ agent_id @ '' lost its queue claim''))
               else rbind (query_task s1 agent_id) (\<lambda>found.
                    rbind (ok_or (InvalidState ''claimed task disappeared'') found) (\<lambda>task.
                    rbind (insert_ledger now agent_id (tr_owner_epoch task) (Some Queued) Preparing
                             None (Some ''CLAIMED'') s1) (\<lambda>s2.
                      Inr (Some (TaskClaim task (tr_owner_epoch task)), s2))))))"

definition mark_session_running ::
    "int \<Rightarrow> string \<Rightarrow> nat \<Rightarrow> string \<Rightarrow> stored_process_identity option \<Rightarrow> string option
     \<Rightarrow> turn_state option \<Rightarrow> bool store_tx" where
  "mark_session_running now agent_id owner_epoch runtime_agent_id identity session_id turn s =
     rbind (u64_to_i64 owner_epoch) (\<lambda>epoch.
       let hit = (\<lambda>t. tk_agent_id t = agent_id \<and> tk_owner_epoch t = epoch \<and> tk_phase t = Preparing);
           changed = count_where hit (tasks s);
           s1 = s\<lparr>tasks := update_where hit
                  (\<lambda>t. t\<lparr>tk_phase := Running, tk_runtime_agent_id := Some runtime_agent_id,
                         tk_pid := map_option (\<lambda>i. int (spi_pid i)) identity,
                         tk_process_group_id := map_option spi_process_group_id identity,
                         tk_process_uid := map_option (\<lambda>i. int (spi_uid i)) identity,
                         tk_process_start_token := map_option spi_start_token identity,
                         tk_last_heartbeat_at := Some now,
                         tk_zcode_session_id := (case session_id of None \<Rightarrow> tk_zcode_session_id t
                                                                   | Some x \<Rightarrow> Some x),
                         tk_turn_state := coalesce turn (tk_turn_state t)\<rparr>) (tasks s)\<rparr>
       in if changed = 1
          then rbind (insert_ledger now agent_id owner_epoch (Some Preparing) Running None
                        (Some ''RUNTIME_STARTED'') s1) (\<lambda>s2. Inr (True, s2))
          else Inr (False, s1))"

section \<open>Lifecycle events and the terminal transition\<close>

definition append_lifecycle :: "int \<Rightarrow> lifecycle_write \<Rightarrow> nat store_tx" where
  "append_lifecycle now w s =
     rbind (u64_to_i64 (lw_source_sequence w)) (\<lambda>source.
       case find (\<lambda>e. ev_agent_id e = lw_agent_id w \<and> ev_runtime_agent_id e = lw_runtime_agent_id w
                      \<and> ev_source_seq e = source) (events s) of
         Some existing \<Rightarrow> rbind (i64_to_u64 (ev_seq existing)) (\<lambda>q. Inr (q, s))
       | None \<Rightarrow>
           rbind (query_guard s (lw_agent_id w)) (\<lambda>(phase, outcome, epoch, close_requested, stop_requested).
             if phase = Terminal \<or> epoch \<noteq> lw_owner_epoch w
             then Inl (Conflict (''late lifecycle record rejected for '' @ lw_agent_id w
                                 @ '' epoch '' @ show_nat (lw_owner_epoch w)))
             else rbind (ok_or (Sqlite ''Query returned no rows'') (task_row_of s (lw_agent_id w))) (\<lambda>row.
               if tk_last_event_seq row \<ge> int i64_max
               then Inl (InvalidState ''event sequence overflow'')
               else
                 let sequence = tk_last_event_seq row + 1
                 in if list_ex (\<lambda>e. ev_agent_id e = lw_agent_id w
                               \<and> ev_runtime_agent_id e = lw_runtime_agent_id w \<and> ev_seq e = sequence) (events s)
                    then Inl (Sqlite ''UNIQUE constraint failed'')
                    else
                      let s1 = s\<lparr>events := events s @
                                 [\<lparr>ev_agent_id = lw_agent_id w, ev_runtime_agent_id = lw_runtime_agent_id w,
                                   ev_seq = sequence, ev_source_seq = source, ev_timestamp = now,
                                   ev_event_type = lw_event_type w, ev_turn_id = lw_turn_id w,
                                   ev_payload_json = lw_payload_json w,
                                   ev_redaction_level = lw_redaction_level w\<rparr>],
                               tasks := update_where (\<lambda>t. tk_agent_id t = lw_agent_id w)
                                 (\<lambda>t. t\<lparr>tk_last_event_seq := sequence, tk_last_heartbeat_at := Some now,
                                        tk_turn_state := coalesce (lw_turn_state w) (tk_turn_state t)\<rparr>)
                                 (tasks s)\<rparr>
                      in rbind (case lw_terminal w of
                                  None \<Rightarrow> Inr s1
                                | Some terminal \<Rightarrow>
                                    rbind (apply_terminal now (lw_agent_id w) (lw_owner_epoch w) phase
                                             close_requested stop_requested terminal s1)
                                      (\<lambda>(_, s2). Inr s2))
                           (\<lambda>s3. rbind (i64_to_u64 sequence) (\<lambda>q. Inr (q, s3))))))"

definition transition_terminal :: "int \<Rightarrow> string \<Rightarrow> nat \<Rightarrow> terminal_update \<Rightarrow> task_outcome store_tx" where
  "transition_terminal now agent_id owner_epoch terminal s =
     rbind (query_guard s agent_id) (\<lambda>(phase, outcome, epoch, close_requested, stop_requested).
       if phase = Terminal
       then rbind (ok_or (InvalidState ''terminal task is missing its outcome'') outcome)
              (\<lambda>o'. Inr (o', s))
       else if epoch \<noteq> owner_epoch
       then Inl (Conflict (''owner epoch changed for '' @ agent_id))
       else apply_terminal now agent_id owner_epoch phase close_requested stop_requested terminal s)"

definition fail_claim :: "int \<Rightarrow> string \<Rightarrow> nat \<Rightarrow> string \<Rightarrow> string \<Rightarrow> task_outcome store_tx" where
  "fail_claim now agent_id owner_epoch failure_code message s =
     transition_terminal now agent_id owner_epoch
       \<lparr>tu_outcome = RuntimeLost, tu_failure_code = Some failure_code,
        tu_failure_message = Some message\<rparr> s"

section \<open>Stop and close requests\<close>

definition request_stop_internal :: "int \<Rightarrow> string \<Rightarrow> bool \<Rightarrow> bool \<Rightarrow> control_decision store_tx" where
  "request_stop_internal now agent_id close cancellation_intent s =
     rbind (query_guard s agent_id) (\<lambda>(phase, outcome, epoch, close_requested, stop_requested).
       let next_phase = (if phase = Terminal then phase else Cancelling);
           s1 = s\<lparr>tasks := update_where (\<lambda>t. tk_agent_id t = agent_id)
                  (\<lambda>t. t\<lparr>tk_phase := next_phase,
                         tk_close_requested := (close \<or> tk_close_requested t),
                         tk_stop_requested := (cancellation_intent \<or> tk_stop_requested t),
                         tk_closed_at := (if close then Some (coalesce (tk_closed_at t) now)
                                          else tk_closed_at t)\<rparr>) (tasks s)\<rparr>;
           decision = \<lparr>cd_phase = next_phase, cd_outcome = outcome, cd_owner_epoch = epoch,
                       cd_needs_runtime_stop = active_phase phase,
                       cd_prior_stop_or_close = (close_requested \<or> stop_requested)\<rparr>
       in if phase = Terminal then Inr (decision, s1)
          else
            let s2 = settle_terminal_commands agent_id ''STOP_REQUESTED'' s1
            in if phase \<noteq> next_phase
               then rbind (insert_ledger now agent_id epoch (Some phase) next_phase None
                       (Some (if close then ''CLOSE_REQUESTED'' else ''STOP_REQUESTED'')) s2)
                      (\<lambda>s3. Inr (decision, s3))
               else Inr (decision, s2))"

definition request_close :: "int \<Rightarrow> string \<Rightarrow> control_decision store_tx" where
  "request_close now agent_id = request_stop_internal now agent_id True True"

definition request_stop :: "int \<Rightarrow> string \<Rightarrow> control_decision store_tx" where
  "request_stop now agent_id = request_stop_internal now agent_id False True"

definition request_runtime_stop :: "int \<Rightarrow> string \<Rightarrow> control_decision store_tx" where
  "request_runtime_stop now agent_id = request_stop_internal now agent_id False False"

section \<open>Resume, reap, recovery\<close>

definition requeued :: "task_row \<Rightarrow> task_row" where
  "requeued t = t\<lparr>tk_phase := Queued, tk_outcome := None, tk_owner_id := None,
     tk_lease_expires_at := None, tk_close_requested := False, tk_stop_requested := False,
     tk_failure_code := None, tk_failure_message := None, tk_closed_at := None,
     tk_reaped_at := None, tk_completed_at := None, tk_last_event_seq := 0,
     tk_turn_state := TurnIdle, tk_pid := None, tk_process_group_id := None,
     tk_process_uid := None, tk_process_start_token := None, tk_runtime_agent_id := None\<rparr>"

definition requeue_task_for_resume_with_message ::
    "int \<Rightarrow> string \<Rightarrow> string \<Rightarrow> string \<Rightarrow> unit store_tx" where
  "requeue_task_for_resume_with_message now agent_id message_id content s =
     rbind (ok_or (Sqlite ''Query returned no rows'') (task_row_of s agent_id)) (\<lambda>row.
       if tk_phase row \<noteq> Terminal
       then Inl (Conflict (''task '' @ agent_id @ '' is not terminal''))
       else if tk_zcode_session_id row = None
       then Inl (InvalidState ''task has no persisted session id to resume'')
       else
         case map_option tk_agent_id (first_by tk_created_at
                (filter (\<lambda>t. tk_workspace_path t = tk_workspace_path row \<and> tk_agent_id t \<noteq> agent_id
                             \<and> unfinished (tk_phase t)) (tasks s))) of
           Some active \<Rightarrow> Inl (Conflict (''WORKSPACE_BUSY active_agent_id='' @ active))
         | None \<Rightarrow>
             if query_message s message_id \<noteq> None
             then Inl (Conflict (''message '' @ message_id @ '' already exists''))
             else
               let hit = (\<lambda>t. tk_agent_id t = agent_id \<and> tk_phase t = Terminal);
                   s1 = s\<lparr>task_results := filter (\<lambda>r. rr_agent_id r \<noteq> agent_id) (task_results s),
                          tasks := update_where hit requeued (tasks s)\<rparr>
               in if count_where hit (tasks s) \<noteq> 1
                  then Inl (Conflict (''task '' @ agent_id @ '' changed before resume''))
                  else rbind (i64_to_u64 (tk_owner_epoch row)) (\<lambda>epoch.
                       rbind (insert_ledger now agent_id epoch (Some Terminal) Queued None
                                (Some ''RESUME_REQUESTED'') s1) (\<lambda>s2.
                         Inr ((), s2\<lparr>messages := messages s2 @
                           [\<lparr>ms_message_id = message_id, ms_agent_id = agent_id, ms_mode = ''queue'',
                             ms_content = content, ms_state = MsgQueued, ms_created_at = now,
                             ms_delivered_at = None, ms_target_turn_id = None,
                             ms_failure_code = None, ms_failure_message = None\<rparr>]\<rparr>))))"

definition reap_task :: "int \<Rightarrow> string \<Rightarrow> task_outcome store_tx" where
  "reap_task now agent_id s =
     rbind (query_guard s agent_id) (\<lambda>(phase, outcome, _, _, _).
       if phase \<noteq> Terminal
       then Inl (InvalidState (''cannot reap nonterminal task '' @ agent_id))
       else
         let s1 = s\<lparr>tasks := update_where (\<lambda>t. tk_agent_id t = agent_id)
                    (\<lambda>t. t\<lparr>tk_owner_id := None, tk_lease_expires_at := None,
                           tk_reaped_at := Some (coalesce (tk_reaped_at t) now)\<rparr>) (tasks s)\<rparr>
         in rbind (ok_or (InvalidState ''terminal task has no outcome'') outcome) (\<lambda>o'. Inr (o', s1)))"

definition result_row_of :: "store_env \<Rightarrow> int \<Rightarrow> string \<Rightarrow> bool \<Rightarrow> task_result \<Rightarrow> result_row" where
  "result_row_of env now agent_id retain_partial result =
     \<lparr>rr_agent_id = agent_id, rr_result = result,
      rr_retained = retain_result retain_partial result,
      rr_result_sha256 = task_result_digest env (task_result_bytes env result),
      rr_completed_at = now\<rparr>"

definition restore_row :: "task_record \<Rightarrow> int \<Rightarrow> task_row \<Rightarrow> task_row" where
  "restore_row original seq t = t\<lparr>tk_phase := Terminal, tk_outcome := tr_outcome original,
     tk_owner_id := tr_owner_id original, tk_lease_expires_at := None,
     tk_close_requested := tr_close_requested original,
     tk_stop_requested := tr_stop_requested original,
     tk_failure_code := tr_failure_code original,
     tk_failure_message := tr_failure_message original,
     tk_runtime_agent_id := tr_runtime_agent_id original,
     tk_zcode_session_id := tr_zcode_session_id original,
     tk_turn_state := tr_turn_state original,
     tk_pid := map_option (\<lambda>i. int (spi_pid i)) (tr_process_identity original),
     tk_process_group_id := map_option spi_process_group_id (tr_process_identity original),
     tk_process_uid := map_option (\<lambda>i. int (spi_uid i)) (tr_process_identity original),
     tk_process_start_token := map_option spi_start_token (tr_process_identity original),
     tk_closed_at := tr_closed_at original, tk_reaped_at := tr_reaped_at original,
     tk_last_event_seq := seq\<rparr>"

definition restore_terminal_after_resume_failure ::
    "store_env \<Rightarrow> int \<Rightarrow> task_record \<Rightarrow> task_result option \<Rightarrow> unit store_tx" where
  "restore_terminal_after_resume_failure env now original result s =
     rbind (u64_to_i64 (tr_last_event_seq original)) (\<lambda>seq.
       let agent_id = tr_agent_id original;
           hit = (\<lambda>t. tk_agent_id t = agent_id);
           s1 = s\<lparr>tasks := update_where hit (restore_row original seq) (tasks s)\<rparr>
       in if tr_outcome original = None \<and> list_ex hit (tasks s)
          then Inl (Sqlite ''CHECK constraint failed'')
          else
            case result of
              None \<Rightarrow> Inr ((), s1)
            | Some r \<Rightarrow>
                if task_row_of s1 agent_id = None
                then Inl (Sqlite ''FOREIGN KEY constraint failed'')
                else Inr ((), s1\<lparr>task_results :=
                       filter (\<lambda>x. rr_agent_id x \<noteq> agent_id) (task_results s1)
                       @ [result_row_of env now agent_id (tr_retain_partial original) r]\<rparr>))"

definition startup_recovery_tasks :: "store \<Rightarrow> task_record list store_result" where
  "startup_recovery_tasks s =
     collect_results (map (\<lambda>t. rbind (query_task s (tk_agent_id t))
         (ok_or (InvalidState ''startup recovery task disappeared'')))
       (sort_key tk_created_at
         (filter (\<lambda>t. active_phase (tk_phase t) \<or> (tk_phase t = Terminal \<and> tk_reaped_at t = None))
           (tasks s))))"

section \<open>Results\<close>

definition store_task_result_with_patch ::
    "store_env \<Rightarrow> int \<Rightarrow> string \<Rightarrow> task_result \<Rightarrow> new_artifact option \<Rightarrow> unit store_tx" where
  "store_task_result_with_patch env now agent_id result patch s =
     rbind (validate_result result) (\<lambda>_.
     rbind (validate_result_patch agent_id result patch) (\<lambda>_.
       let canonical = task_result_bytes env result;
           digest = task_result_digest env canonical
       in rbind (query_task s agent_id) (\<lambda>found.
          rbind (ok_or (InvalidState (''unknown task '' @ agent_id)) found) (\<lambda>task.
            case find (\<lambda>r. rr_agent_id r = agent_id) (task_results s) of
              Some existing \<Rightarrow>
                if rr_result_sha256 existing = digest then Inr ((), s)
                else Inl (Conflict (''task '' @ agent_id @ '' already has a different immutable result''))
            | None \<Rightarrow>
                if tr_phase task = Terminal
                then Inl (Conflict (''task '' @ agent_id @ '' is terminal without this result''))
                else if \<not> active_phase (tr_phase task)
                then Inl (Conflict (''task '' @ agent_id @ '' cannot complete from '' @ ''Queued''))
                else if length canonical > max_result_bytes (tr_effective_budget task)
                then Inl (InvalidState ''task result exceeds effective max_result_bytes'')
                else if rs_outcome result = Completed
                        \<and> (fst (completion_blockers_tx s agent_id) \<or> snd (completion_blockers_tx s agent_id))
                then Inl (Conflict ''task completion is blocked by pending input or queued messages'')
                else if (tr_stop_requested task \<or> tr_close_requested task) \<and> rs_outcome result \<noteq> Cancelled
                then Inl (Conflict ''cancellation or close intent wins over late result'')
                else
                  rbind (case patch of None \<Rightarrow> Inr s
                                     | Some p \<Rightarrow> rbind (insert_artifact_tx now p s) (\<lambda>(_, s0). Inr s0)) (\<lambda>s1.
                    let s2 = s1\<lparr>task_results := task_results s1
                               @ [result_row_of env now agent_id (tr_retain_partial task) result]\<rparr>
                    in rbind (apply_terminal now agent_id (tr_owner_epoch task) (tr_phase task)
                                (tr_close_requested task) (tr_stop_requested task)
                                \<lparr>tu_outcome = rs_outcome result,
                                 tu_failure_code = (case tr_failure_code task of
                                     Some c \<Rightarrow> Some c
                                   | None \<Rightarrow> if rs_outcome result \<noteq> Completed \<and> rs_residual_gaps result \<noteq> []
                                             then Some (last (rs_residual_gaps result)) else None),
                                 tu_failure_message = tr_failure_message task\<rparr> s2)
                         (\<lambda>(_, s3). Inr ((), s3)))))))"

definition store_task_result :: "store_env \<Rightarrow> int \<Rightarrow> string \<Rightarrow> task_result \<Rightarrow> unit store_tx" where
  "store_task_result env now agent_id result = store_task_result_with_patch env now agent_id result None"

definition stored_result :: "store \<Rightarrow> string \<Rightarrow> stored_task_result option" where
  "stored_result s agent_id = query_task_result s agent_id"

section \<open>Messages\<close>

definition insert_message :: "int \<Rightarrow> string \<Rightarrow> string \<Rightarrow> string \<Rightarrow> string \<Rightarrow> bool store_tx" where
  "insert_message now message_id agent_id mode content s =
     (if mode \<noteq> ''queue'' then Inl (InvalidState ''only queue message mode is supported'')
      else rbind (query_guard s agent_id) (\<lambda>(phase, _, _, close_requested, stop_requested).
        if phase = Terminal \<or> close_requested \<or> stop_requested
        then Inl (Conflict ''terminal or stopping task cannot accept messages'')
        else case query_message s message_id of
               None \<Rightarrow> Inr (True, s\<lparr>messages := messages s @
                 [\<lparr>ms_message_id = message_id, ms_agent_id = agent_id, ms_mode = mode,
                   ms_content = content, ms_state = MsgQueued, ms_created_at = now,
                   ms_delivered_at = None, ms_target_turn_id = None,
                   ms_failure_code = None, ms_failure_message = None\<rparr>]\<rparr>)
             | Some existing \<Rightarrow>
                 if ms_agent_id existing \<noteq> agent_id \<or> ms_mode existing \<noteq> mode
                    \<or> ms_content existing \<noteq> content
                 then Inl (Conflict ''message id is already bound to different content'')
                 else Inr (False, s)))"

definition claim_next_message :: "string \<Rightarrow> message_row option store_tx" where
  "claim_next_message agent_id s =
     rbind (query_guard s agent_id) (\<lambda>(phase, _, _, close_requested, stop_requested).
       if phase \<noteq> Running \<or> close_requested \<or> stop_requested then Inr (None, s)
       else case first_by ms_created_at
                   (filter (\<lambda>m. ms_agent_id m = agent_id \<and> ms_state m = MsgQueued) (messages s)) of
              None \<Rightarrow> Inr (None, s)
            | Some m \<Rightarrow>
                let s1 = s\<lparr>messages := update_where
                           (\<lambda>x. ms_message_id x = ms_message_id m \<and> ms_state x = MsgQueued)
                           (\<lambda>x. x\<lparr>ms_state := MsgSending\<rparr>) (messages s)\<rparr>
                in Inr (query_message s1 (ms_message_id m), s1))"

definition complete_message :: "int \<Rightarrow> string \<Rightarrow> string option \<Rightarrow> bool store_tx" where
  "complete_message now message_id target_turn_id s =
     (let hit = (\<lambda>m. ms_message_id m = message_id \<and> ms_state m = MsgSending)
      in Inr (count_where hit (messages s) = 1,
              s\<lparr>messages := update_where hit
                  (\<lambda>m. m\<lparr>ms_state := MsgDelivered, ms_delivered_at := Some now,
                         ms_target_turn_id := target_turn_id\<rparr>) (messages s)\<rparr>))"

definition fail_message :: "string \<Rightarrow> string \<Rightarrow> string \<Rightarrow> bool store_tx" where
  "fail_message message_id code message s =
     (let hit = (\<lambda>m. ms_message_id m = message_id \<and> msg_open m)
      in Inr (count_where hit (messages s) = 1,
              s\<lparr>messages := update_where hit
                  (\<lambda>m. m\<lparr>ms_state := MsgFailed, ms_failure_code := Some code,
                         ms_failure_message := Some message\<rparr>) (messages s)\<rparr>))"

section \<open>Pending requests\<close>

definition insert_pending_request ::
    "int \<Rightarrow> string \<Rightarrow> string \<Rightarrow> string \<Rightarrow> string \<Rightarrow> string \<Rightarrow> bool store_tx" where
  "insert_pending_request now request_id agent_id correlation_id request_type payload_json s =
     rbind (query_guard s agent_id) (\<lambda>(phase, _, owner_epoch, close_requested, stop_requested).
       if \<not> (phase = Running \<or> phase = WaitingInput) \<or> close_requested \<or> stop_requested
       then Inl (Conflict ''task cannot publish a pending request in its current phase'')
       else if list_ex (\<lambda>p. pr_request_id p = request_id
                  \<or> (pr_agent_id p = agent_id \<and> pr_correlation_id p = correlation_id)) (pending_requests s)
       then rbind (ok_or (InvalidState ''pending request idempotency row disappeared'')
                     (query_pending_request s request_id)) (\<lambda>existing.
              if pr_agent_id existing \<noteq> agent_id \<or> pr_correlation_id existing \<noteq> correlation_id
                 \<or> pr_request_type existing \<noteq> request_type \<or> pr_payload_json existing \<noteq> payload_json
              then Inl (Conflict ''pending request identity has different content'')
              else Inr (False, s))
       else
         let s1 = s\<lparr>pending_requests := pending_requests s @
                     [\<lparr>pr_request_id = request_id, pr_agent_id = agent_id,
                       pr_correlation_id = correlation_id, pr_request_type = request_type,
                       pr_payload_json = payload_json, pr_state = ReqPending, pr_created_at = now,
                       pr_responded_at = None, pr_response_decision = None,
                       pr_response_content = None\<rparr>]\<rparr>
         in if phase = Running
            then rbind (insert_ledger now agent_id owner_epoch (Some Running) WaitingInput None
                          (Some ''INPUT_REQUESTED'')
                          (s1\<lparr>tasks := update_where
                             (\<lambda>t. tk_agent_id t = agent_id \<and> tk_phase t = Running)
                             (\<lambda>t. t\<lparr>tk_phase := WaitingInput\<rparr>) (tasks s1)\<rparr>))
                   (\<lambda>s2. Inr (True, s2))
            else Inr (True, s1))"

definition pending_request :: "store \<Rightarrow> string \<Rightarrow> string \<Rightarrow> pending_row option" where
  "pending_request s agent_id request_id =
     (case query_pending_request s request_id of
        None \<Rightarrow> None
      | Some p \<Rightarrow> if pr_agent_id p = agent_id then Some p else None)"

definition pending_requests_bounded :: "store \<Rightarrow> string \<Rightarrow> nat \<Rightarrow> pending_row list store_result" where
  "pending_requests_bounded s agent_id limit =
     rbind (usize_to_i64 limit) (\<lambda>sql_limit.
       collect_results (map (\<lambda>p. ok_or (InvalidState ''pending request disappeared'')
                                       (query_pending_request s (pr_request_id p)))
         (take (nat sql_limit) (sort_key pr_created_at
           (filter (\<lambda>p. pr_agent_id p = agent_id \<and> req_open p) (pending_requests s))))))"

definition claim_pending_response_if_accepting ::
    "string \<Rightarrow> string \<Rightarrow> string \<Rightarrow> string option \<Rightarrow> response_claim store_tx" where
  "claim_pending_response_if_accepting agent_id request_id decision content s =
     (case query_pending_request s request_id of
        None \<Rightarrow> Inr (NotFound, s)
      | Some request \<Rightarrow>
          if pr_agent_id request \<noteq> agent_id then Inr (NotFound, s)
          else if pr_state request \<noteq> ReqPending then Inr (NotPending (pr_state request), s)
          else rbind (query_guard s agent_id) (\<lambda>(phase, _, _, close_requested, stop_requested).
            if \<not> (phase = Running \<or> phase = WaitingInput) \<or> close_requested \<or> stop_requested
            then Inr (TaskStopping, s)
            else Inr (Claimed, s\<lparr>pending_requests := update_where
                   (\<lambda>p. pr_request_id p = request_id \<and> pr_agent_id p = agent_id \<and> pr_state p = ReqPending)
                   (\<lambda>p. p\<lparr>pr_state := ReqSending, pr_response_decision := Some decision,
                          pr_response_content := content\<rparr>) (pending_requests s)\<rparr>)))"

definition complete_pending_response :: "int \<Rightarrow> string \<Rightarrow> string \<Rightarrow> bool store_tx" where
  "complete_pending_response now agent_id request_id s =
     (let hit = (\<lambda>p. pr_request_id p = request_id \<and> pr_agent_id p = agent_id \<and> pr_state p = ReqSending);
          changed = (count_where hit (pending_requests s) = 1);
          s1 = s\<lparr>pending_requests := update_where hit
                 (\<lambda>p. p\<lparr>pr_state := ReqResponded, pr_responded_at := Some now\<rparr>) (pending_requests s)\<rparr>
      in if \<not> changed then Inr (False, s1)
         else
           let remaining = list_ex (\<lambda>p. pr_agent_id p = agent_id \<and> req_open p) (pending_requests s1)
           in rbind (query_guard s1 agent_id) (\<lambda>(phase, _, owner_epoch, close_requested, stop_requested).
                if \<not> remaining \<and> phase = WaitingInput \<and> \<not> close_requested \<and> \<not> stop_requested
                then rbind (insert_ledger now agent_id owner_epoch (Some WaitingInput) Running None
                              (Some ''INPUT_RESOLVED'')
                              (s1\<lparr>tasks := update_where
                                 (\<lambda>t. tk_agent_id t = agent_id \<and> tk_phase t = WaitingInput)
                                 (\<lambda>t. t\<lparr>tk_phase := Running\<rparr>) (tasks s1)\<rparr>))
                       (\<lambda>s2. Inr (True, s2))
                else Inr (True, s1)))"

definition release_pending_response :: "string \<Rightarrow> string \<Rightarrow> bool store_tx" where
  "release_pending_response agent_id request_id s =
     (let hit = (\<lambda>p. pr_request_id p = request_id \<and> pr_agent_id p = agent_id \<and> pr_state p = ReqSending)
      in Inr (count_where hit (pending_requests s) = 1,
              s\<lparr>pending_requests := update_where hit
                  (\<lambda>p. p\<lparr>pr_state := ReqPending, pr_response_decision := None,
                         pr_response_content := None\<rparr>) (pending_requests s)\<rparr>))"

section \<open>Artifacts and counters\<close>

definition artifact_listing :: "store \<Rightarrow> string \<Rightarrow> nat \<Rightarrow> artifact_row list store_result" where
  "artifact_listing s agent_id limit =
     rbind (usize_to_i64 limit) (\<lambda>sql_limit.
       collect_results (map (\<lambda>r. rbind (i64_to_u64 (ar_bytes r)) (\<lambda>_. Inr r))
         (take (nat sql_limit)
           (sort_key ar_created_at (sort_key ar_artifact_id
             (filter (\<lambda>r. ar_agent_id r = agent_id) (artifacts s)))))))"

definition active_count :: "store \<Rightarrow> nat" where
  "active_count s = count_where (\<lambda>t. active_phase (tk_phase t)) (tasks s)"

end
