(* ===== verification/Store_View.thy ===== *)
theory Store_View
  imports Store_Ops
begin

text \<open>
  The contract of the store, one agent at a time. \<open>view\<close> projects the tables to what a
  client relies on: phase, outcome, stop or close intent, owner epoch, whether messages and
  requests are still open, the outcome of the stored result, and the trail of phases in the
  lifecycle ledger. \<open>agent_step\<close> is the abstract state machine on views. The lemmas named
  \<open>..._refines\<close> show that every successful write of \<open>Store_Ops\<close> is one abstract step
  of the agent it names (or no step) and leaves every other agent alone.
\<close>

section \<open>Projections\<close>

record agent_view =
  av_phase :: "task_phase option"
  av_outcome :: "task_outcome option"
  av_intent :: bool
  av_epoch :: int
  av_msgs :: bool
  av_reqs :: bool
  av_result :: "task_outcome option"
  av_trail :: "(task_phase option \<times> task_phase) list"

definition open_msgs :: "store \<Rightarrow> string \<Rightarrow> bool" where
  "open_msgs s a \<longleftrightarrow> (\<exists>m\<in>set (messages s). ms_agent_id m = a \<and> msg_open m)"

definition open_reqs :: "store \<Rightarrow> string \<Rightarrow> bool" where
  "open_reqs s a \<longleftrightarrow> (\<exists>p\<in>set (pending_requests s). pr_agent_id p = a \<and> req_open p)"

definition result_outcome :: "store \<Rightarrow> string \<Rightarrow> task_outcome option" where
  "result_outcome s a =
     map_option (\<lambda>r. rs_outcome (rr_result r)) (find (\<lambda>r. rr_agent_id r = a) (task_results s))"

definition trail_of :: "store \<Rightarrow> string \<Rightarrow> (task_phase option \<times> task_phase) list" where
  "trail_of s a = map (\<lambda>l. (lg_from_phase l, lg_to_phase l)) (filter (\<lambda>l. lg_agent_id l = a) (ledger s))"

definition row_view :: "task_row option \<Rightarrow> bool \<Rightarrow> bool \<Rightarrow> task_outcome option
    \<Rightarrow> (task_phase option \<times> task_phase) list \<Rightarrow> agent_view" where
  "row_view row msgs reqs res tr = \<lparr>
     av_phase = map_option tk_phase row,
     av_outcome = Option.bind row tk_outcome,
     av_intent = (case row of None \<Rightarrow> False | Some t \<Rightarrow> tk_close_requested t \<or> tk_stop_requested t),
     av_epoch = (case row of None \<Rightarrow> 0 | Some t \<Rightarrow> tk_owner_epoch t),
     av_msgs = msgs, av_reqs = reqs, av_result = res, av_trail = tr\<rparr>"

definition view :: "store \<Rightarrow> string \<Rightarrow> agent_view" where
  "view s a = row_view (task_row_of s a) (open_msgs s a) (open_reqs s a) (result_outcome s a) (trail_of s a)"

section \<open>The abstract agent\<close>

definition absent :: agent_view where
  "absent = \<lparr>av_phase = None, av_outcome = None, av_intent = False, av_epoch = 0,
             av_msgs = False, av_reqs = False, av_result = None, av_trail = []\<rparr>"

definition enter :: "task_phase \<Rightarrow> agent_view \<Rightarrow> agent_view" where
  "enter q v = v\<lparr>av_phase := Some q, av_trail := av_trail v @ [(av_phase v, q)]\<rparr>"

inductive agent_step :: "agent_view \<Rightarrow> agent_view \<Rightarrow> bool" where
  submit: "agent_step absent (enter Queued absent)"
| claim: "av_phase v = Some Queued \<Longrightarrow>
    agent_step v (enter Preparing (v\<lparr>av_epoch := av_epoch v + 1\<rparr>))"
| start: "av_phase v = Some Preparing \<Longrightarrow> agent_step v (enter Running v)"
| finish: "av_phase v = Some p \<Longrightarrow> p \<noteq> Terminal \<Longrightarrow> (av_intent v \<Longrightarrow> outc = Cancelled) \<Longrightarrow>
    agent_step v (enter Terminal (v\<lparr>av_outcome := Some outc, av_msgs := False, av_reqs := False\<rparr>))"
| publish: "av_phase v = Some p \<Longrightarrow> active_phase p \<Longrightarrow> av_result v = None \<Longrightarrow>
    (av_intent v \<Longrightarrow> outc = Cancelled) \<Longrightarrow> (outc = Completed \<Longrightarrow> \<not> av_msgs v \<and> \<not> av_reqs v) \<Longrightarrow>
    agent_step v (enter Terminal (v\<lparr>av_outcome := Some outc, av_msgs := False, av_reqs := False,
                                    av_result := Some outc\<rparr>))"
| stop: "av_phase v = Some p \<Longrightarrow> p \<noteq> Terminal \<Longrightarrow> p \<noteq> Cancelling \<Longrightarrow> (av_intent v \<Longrightarrow> i) \<Longrightarrow>
    agent_step v (enter Cancelling (v\<lparr>av_intent := i, av_msgs := False, av_reqs := False\<rparr>))"
| stop_again: "av_phase v = Some Cancelling \<Longrightarrow> (av_intent v \<Longrightarrow> i) \<Longrightarrow>
    agent_step v (v\<lparr>av_intent := i, av_msgs := False, av_reqs := False\<rparr>)"
| note_intent: "av_phase v = Some Terminal \<Longrightarrow> (av_intent v \<Longrightarrow> i) \<Longrightarrow> agent_step v (v\<lparr>av_intent := i\<rparr>)"
| resume: "av_phase v = Some Terminal \<Longrightarrow>
    agent_step v (enter Queued (v\<lparr>av_outcome := None, av_intent := False, av_msgs := True,
                                  av_result := None\<rparr>))"
| message: "av_phase v = Some p \<Longrightarrow> p \<noteq> Terminal \<Longrightarrow> \<not> av_intent v \<Longrightarrow> agent_step v (v\<lparr>av_msgs := True\<rparr>)"
| settle: "av_msgs v \<Longrightarrow> agent_step v (v\<lparr>av_msgs := False\<rparr>)"
| ask: "av_phase v = Some Running \<Longrightarrow> \<not> av_intent v \<Longrightarrow>
    agent_step v (enter WaitingInput (v\<lparr>av_reqs := True\<rparr>))"
| ask_again: "av_phase v = Some WaitingInput \<Longrightarrow> \<not> av_intent v \<Longrightarrow> agent_step v (v\<lparr>av_reqs := True\<rparr>)"
| answered: "av_phase v = Some WaitingInput \<Longrightarrow> \<not> av_intent v \<Longrightarrow>
    agent_step v (enter Running (v\<lparr>av_reqs := False\<rparr>))"

section \<open>The invariant of an agent\<close>

fun chain :: "task_phase option \<Rightarrow> (task_phase option \<times> task_phase) list \<Rightarrow> task_phase option option" where
  "chain p [] = Some p"
| "chain p ((f, t) # rest) = (if f = p then chain (Some t) rest else None)"

definition agent_ok :: "agent_view \<Rightarrow> bool" where
  "agent_ok v \<longleftrightarrow>
     (av_phase v = Some Terminal \<longleftrightarrow> av_outcome v \<noteq> None)
     \<and> (av_intent v \<longrightarrow> av_phase v = Some Cancelling \<or> av_phase v = Some Terminal)
     \<and> (av_reqs v \<longleftrightarrow> av_phase v = Some WaitingInput)
     \<and> (av_msgs v \<longrightarrow> (\<exists>p. av_phase v = Some p \<and> p \<noteq> Terminal))
     \<and> (\<forall>outc. av_result v = Some outc \<longrightarrow> av_outcome v = Some outc)
     \<and> (av_phase v = None \<longrightarrow> v = absent)
     \<and> chain None (av_trail v) = Some (av_phase v)"

lemma chain_snoc: "chain p (xs @ [(f, t)]) = (if chain p xs = Some f then Some (Some t) else None)"
  by (induction xs arbitrary: p) (auto split: if_splits)

lemma agent_ok_absent: "agent_ok absent"
  by (simp add: agent_ok_def absent_def)

lemma agent_step_ok: "agent_step v w \<Longrightarrow> agent_ok v \<Longrightarrow> agent_ok w"
  by (induction rule: agent_step.induct)
     (auto simp: agent_ok_def enter_def chain_snoc absent_def active_phase_def)

section \<open>How table writes act on views\<close>

lemma task_row_of_update [row_simps]:
  assumes "\<And>t. p t \<Longrightarrow> tk_agent_id (f t) = tk_agent_id t"
  shows "task_row_of (s\<lparr>tasks := update_where p f ts\<rparr>) a =
         map_option (\<lambda>t. if p t then f t else t) (find (\<lambda>t. tk_agent_id t = a) ts)"
  using find_update_where [of p tk_agent_id f a ts] assms by (simp add: task_row_of_def)

lemma row_of_frame [simp]:
  "task_row_of (s\<lparr>events := e\<rparr>) a = task_row_of s a"
  "task_row_of (s\<lparr>messages := m\<rparr>) a = task_row_of s a"
  "task_row_of (s\<lparr>pending_requests := q\<rparr>) a = task_row_of s a"
  "task_row_of (s\<lparr>task_results := r\<rparr>) a = task_row_of s a"
  "task_row_of (s\<lparr>artifacts := z\<rparr>) a = task_row_of s a"
  "task_row_of (s\<lparr>ledger := l\<rparr>) a = task_row_of s a"
  by (simp_all add: task_row_of_def)

lemma open_msgs_frame [simp]:
  "open_msgs (s\<lparr>tasks := t\<rparr>) a = open_msgs s a"
  "open_msgs (s\<lparr>events := e\<rparr>) a = open_msgs s a"
  "open_msgs (s\<lparr>pending_requests := q\<rparr>) a = open_msgs s a"
  "open_msgs (s\<lparr>task_results := r\<rparr>) a = open_msgs s a"
  "open_msgs (s\<lparr>artifacts := z\<rparr>) a = open_msgs s a"
  "open_msgs (s\<lparr>ledger := l\<rparr>) a = open_msgs s a"
  by (simp_all add: open_msgs_def)

lemma open_reqs_frame [simp]:
  "open_reqs (s\<lparr>tasks := t\<rparr>) a = open_reqs s a"
  "open_reqs (s\<lparr>events := e\<rparr>) a = open_reqs s a"
  "open_reqs (s\<lparr>messages := m\<rparr>) a = open_reqs s a"
  "open_reqs (s\<lparr>task_results := r\<rparr>) a = open_reqs s a"
  "open_reqs (s\<lparr>artifacts := z\<rparr>) a = open_reqs s a"
  "open_reqs (s\<lparr>ledger := l\<rparr>) a = open_reqs s a"
  by (simp_all add: open_reqs_def)

lemma result_outcome_frame [simp]:
  "result_outcome (s\<lparr>tasks := t\<rparr>) a = result_outcome s a"
  "result_outcome (s\<lparr>events := e\<rparr>) a = result_outcome s a"
  "result_outcome (s\<lparr>messages := m\<rparr>) a = result_outcome s a"
  "result_outcome (s\<lparr>pending_requests := q\<rparr>) a = result_outcome s a"
  "result_outcome (s\<lparr>artifacts := z\<rparr>) a = result_outcome s a"
  "result_outcome (s\<lparr>ledger := l\<rparr>) a = result_outcome s a"
  by (simp_all add: result_outcome_def)

lemma trail_of_frame [simp]:
  "trail_of (s\<lparr>tasks := t\<rparr>) a = trail_of s a"
  "trail_of (s\<lparr>events := e\<rparr>) a = trail_of s a"
  "trail_of (s\<lparr>messages := m\<rparr>) a = trail_of s a"
  "trail_of (s\<lparr>pending_requests := q\<rparr>) a = trail_of s a"
  "trail_of (s\<lparr>task_results := r\<rparr>) a = trail_of s a"
  "trail_of (s\<lparr>artifacts := z\<rparr>) a = trail_of s a"
  by (simp_all add: trail_of_def)

lemmas view_frames = row_of_frame open_msgs_frame open_reqs_frame result_outcome_frame trail_of_frame

lemma settle_open_msgs [simp]:
  "open_msgs (settle_terminal_commands a c s) b = (open_msgs s b \<and> b \<noteq> a)"
proof -
  have "(\<exists>m\<in>set (update_where (\<lambda>m. ms_agent_id m = a \<and> msg_open m) f ms). ms_agent_id m = b \<and> msg_open m)
        \<longleftrightarrow> b \<noteq> a \<and> (\<exists>m\<in>set ms. ms_agent_id m = b \<and> msg_open m)"
    if "\<And>m. \<not> msg_open (f m)" for ms f
    using that by (induction ms) auto
  then show ?thesis
    by (simp add: settle_terminal_commands_def open_msgs_def msg_open_def conj_commute)
qed

lemma settle_simps [simp]:
  "task_row_of (settle_terminal_commands a c s) b = task_row_of s b"
  "open_reqs (settle_terminal_commands a c s) b = (open_reqs s b \<and> b \<noteq> a)"
  "result_outcome (settle_terminal_commands a c s) b = result_outcome s b"
  "trail_of (settle_terminal_commands a c s) b = trail_of s b"
  "tasks (settle_terminal_commands a c s) = tasks s"
  "ledger (settle_terminal_commands a c s) = ledger s"
  "events (settle_terminal_commands a c s) = events s"
  by (auto simp: settle_terminal_commands_def task_row_of_def open_reqs_def
      result_outcome_def trail_of_def)

lemma insert_ledger_Inr:
  "insert_ledger now a e f t outc rc s = Inr s' \<longleftrightarrow>
     e \<le> i64_max \<and> task_row_of s a \<noteq> None
     \<and> s' = s\<lparr>ledger := ledger s @ [\<lparr>lg_agent_id = a, lg_owner_epoch = int e, lg_from_phase = f,
                lg_to_phase = t, lg_outcome = outc, lg_reason_code = rc, lg_recorded_at = now\<rparr>]\<rparr>"
  by (auto simp: insert_ledger_def rbind_Inr)

lemma trail_of_snoc [simp]:
  "trail_of (s\<lparr>ledger := ledger s @ [l]\<rparr>) b =
     trail_of s b @ (if lg_agent_id l = b then [(lg_from_phase l, lg_to_phase l)] else [])"
  by (simp add: trail_of_def)

lemma query_guard_Inr:
  "query_guard s a = Inr (p, outc, e, c, st) \<longleftrightarrow>
     (\<exists>t. task_row_of s a = Some t \<and> tk_phase t = p \<and> tk_outcome t = outc
        \<and> 0 \<le> tk_owner_epoch t \<and> e = nat (tk_owner_epoch t)
        \<and> tk_close_requested t = c \<and> tk_stop_requested t = st)"
  by (auto simp: query_guard_def rbind_Inr)

lemma task_row_of_id: "task_row_of s a = Some t \<Longrightarrow> tk_agent_id t = a \<and> t \<in> set (tasks s)"
  by (auto simp: task_row_of_def dest: find_SomeD)

lemma query_task_Inr:
  "query_task s a = Inr (Some tr) \<longleftrightarrow>
     (\<exists>t. task_row_of s a = Some t \<and> convert_task_row t = Inr tr)"
  "query_task s a = Inr None \<longleftrightarrow> task_row_of s a = None"
  by (auto simp: query_task_def split: option.splits)

section \<open>Store-wide well-formedness\<close>

text \<open>Primary keys and unique columns, and every agent's view satisfies the invariant.\<close>

definition store_ok :: "store \<Rightarrow> bool" where
  "store_ok s \<longleftrightarrow>
     distinct (map tk_agent_id (tasks s)) \<and> distinct (map tk_idempotency_key (tasks s))
     \<and> distinct (map ms_message_id (messages s)) \<and> distinct (map pr_request_id (pending_requests s))
     \<and> (\<forall>a. agent_ok (view s a))"

definition refines :: "store \<Rightarrow> string \<Rightarrow> store \<Rightarrow> bool" where
  "refines s a s' \<longleftrightarrow> (\<forall>b. b \<noteq> a \<longrightarrow> view s' b = view s b)
                     \<and> (view s' a = view s a \<or> agent_step (view s a) (view s' a))"

lemma refines_same [simp]: "refines s a s"
  by (simp add: refines_def)

lemma refines_agent_ok: "refines s a s' \<Longrightarrow> \<forall>b. agent_ok (view s b) \<Longrightarrow> \<forall>b. agent_ok (view s' b)"
  unfolding refines_def by (metis agent_step_ok)

lemma refinesI:
  assumes "\<And>b. b \<noteq> a \<Longrightarrow> view s' b = view s b" and "agent_step (view s a) (view s' a)"
  shows "refines s a s'"
  using assms by (simp add: refines_def)

lemma view_absentD:
  assumes "agent_ok (view s a)" and "task_row_of s a = None"
  shows "view s a = absent"
proof -
  have "av_phase (view s a) = None"
    using assms(2) by (simp add: view_def row_view_def)
  with assms(1) show ?thesis unfolding agent_ok_def by blast
qed

end
