(* ===== verification/Store_Refine.thy ===== *)
theory Store_Refine
  imports Store_View
begin

text \<open>
  Every write of \<open>Store_Ops\<close> refines the abstract agent of \<open>Store_View\<close> and preserves
  the keys of the tables.
\<close>

definition keys_ok :: "store \<Rightarrow> bool" where
  "keys_ok s \<longleftrightarrow>
     distinct (map tk_agent_id (tasks s)) \<and> distinct (map tk_idempotency_key (tasks s))
     \<and> distinct (map ms_message_id (messages s)) \<and> distinct (map pr_request_id (pending_requests s))"

lemma store_ok_iff: "store_ok s \<longleftrightarrow> keys_ok s \<and> (\<forall>a. agent_ok (view s a))"
  by (auto simp: store_ok_def keys_ok_def)

lemma store_okI: "store_ok s \<Longrightarrow> keys_ok s' \<Longrightarrow> refines s a s' \<Longrightarrow> store_ok s'"
  by (auto simp: store_ok_iff dest: refines_agent_ok)

lemma count_hit:
  assumes "keys_ok s"
  shows "count_where (\<lambda>t. tk_agent_id t = a \<and> q t) (tasks s) = 1 \<longleftrightarrow>
         (\<exists>t. task_row_of s a = Some t \<and> q t)"
proof -
  have "count_where (\<lambda>t. tk_agent_id t = a \<and> q t) (tasks s) =
        (case task_row_of s a of None \<Rightarrow> 0 | Some t \<Rightarrow> if tk_agent_id t = a \<and> q t then 1 else 0)"
    unfolding task_row_of_def using assms
    by (intro count_where_le1) (auto simp: keys_ok_def)
  then show ?thesis
    by (auto split: option.splits dest: task_row_of_id)
qed

lemma keys_ok_frame [simp]:
  "keys_ok (s\<lparr>events := e\<rparr>) = keys_ok s"
  "keys_ok (s\<lparr>task_results := r\<rparr>) = keys_ok s"
  "keys_ok (s\<lparr>artifacts := z\<rparr>) = keys_ok s"
  "keys_ok (s\<lparr>ledger := l\<rparr>) = keys_ok s"
  by (simp_all add: keys_ok_def)

lemma keys_ok_update_tasks:
  assumes "\<And>t. p t \<Longrightarrow> tk_agent_id (f t) = tk_agent_id t"
    and "\<And>t. p t \<Longrightarrow> tk_idempotency_key (f t) = tk_idempotency_key t"
  shows "keys_ok (s\<lparr>tasks := update_where p f (tasks s)\<rparr>) = keys_ok s"
  using assms by (simp add: keys_ok_def map_update_where)

lemma keys_ok_update_messages:
  assumes "\<And>m. p m \<Longrightarrow> ms_message_id (f m) = ms_message_id m"
  shows "keys_ok (s\<lparr>messages := update_where p f (messages s)\<rparr>) = keys_ok s"
  using assms by (simp add: keys_ok_def map_update_where)

lemma keys_ok_update_requests:
  assumes "\<And>m. p m \<Longrightarrow> pr_request_id (f m) = pr_request_id m"
  shows "keys_ok (s\<lparr>pending_requests := update_where p f (pending_requests s)\<rparr>) = keys_ok s"
  using assms by (simp add: keys_ok_def map_update_where)

lemma keys_ok_settle: "keys_ok s \<Longrightarrow> keys_ok (settle_terminal_commands a c s)"
  by (simp add: keys_ok_def settle_terminal_commands_def map_update_where distinct_map_filter)

lemmas keys_ok_updates = keys_ok_update_tasks keys_ok_update_messages keys_ok_update_requests

lemma store_ok_row:
  assumes "store_ok s" and "task_row_of s a = Some t"
  shows "tk_phase t = Terminal \<longleftrightarrow> tk_outcome t \<noteq> None"
    and "tk_close_requested t \<or> tk_stop_requested t \<Longrightarrow> tk_phase t = Cancelling \<or> tk_phase t = Terminal"
    and "open_reqs s a \<longleftrightarrow> tk_phase t = WaitingInput"
    and "open_msgs s a \<Longrightarrow> tk_phase t \<noteq> Terminal"
    and "result_outcome s a = Some outc \<Longrightarrow> tk_outcome t = Some outc"
proof -
  have "agent_ok (view s a)" using assms(1) by (simp add: store_ok_iff)
  then show "tk_phase t = Terminal \<longleftrightarrow> tk_outcome t \<noteq> None"
    and "tk_close_requested t \<or> tk_stop_requested t \<Longrightarrow> tk_phase t = Cancelling \<or> tk_phase t = Terminal"
    and "open_reqs s a \<longleftrightarrow> tk_phase t = WaitingInput"
    and "open_msgs s a \<Longrightarrow> tk_phase t \<noteq> Terminal"
    and "result_outcome s a = Some outc \<Longrightarrow> tk_outcome t = Some outc"
    using assms(2) by (auto simp: agent_ok_def view_def row_view_def)
qed

lemma task_row_of_hit:
  assumes "\<And>t. tk_agent_id (f t) = tk_agent_id t" and "\<And>t. p t \<Longrightarrow> tk_agent_id t = a"
    and "task_row_of s a = Some t" and "p t"
  shows "task_row_of (s\<lparr>tasks := update_where p f (tasks s)\<rparr>) b =
         (if b = a then Some (f t) else task_row_of s b)"
proof -
  have "task_row_of (s\<lparr>tasks := update_where p f (tasks s)\<rparr>) b =
        map_option (\<lambda>t. if p t then f t else t) (task_row_of s b)"
    using assms(1) by (simp add: task_row_of_update task_row_of_def [of s])
  then show ?thesis
    using assms(2-4) by (cases "task_row_of s b") (auto dest: task_row_of_id)
qed

lemma insert_ledger_view:
  assumes "insert_ledger now a e f q outc rc s = Inr s'"
  shows "view s' b = (view s b)\<lparr>av_trail := av_trail (view s b) @ (if b = a then [(f, q)] else [])\<rparr>"
    and "keys_ok s' = keys_ok s" and "tasks s' = tasks s" and "task_row_of s' b = task_row_of s b"
    and "messages s' = messages s" and "pending_requests s' = pending_requests s"
    and "task_results s' = task_results s"
  using assms by (auto simp: insert_ledger_Inr view_def row_view_def)

lemma view_eqI:
  assumes "task_row_of s b = task_row_of s' b" "open_msgs s b = open_msgs s' b"
    "open_reqs s b = open_reqs s' b" "result_outcome s b = result_outcome s' b"
    "trail_of s b = trail_of s' b"
  shows "view s b = view s' b"
  using assms by (simp add: view_def)

lemma view_update_tasks:
  assumes "\<And>t. tk_agent_id (f t) = tk_agent_id t" and "\<And>t. p t \<Longrightarrow> tk_agent_id t = a"
    and "task_row_of s a = Some t" and "p t"
  shows "view (s\<lparr>tasks := update_where p f (tasks s)\<rparr>) b =
         (if b = a then (view s a)\<lparr>av_phase := Some (tk_phase (f t)), av_outcome := tk_outcome (f t),
              av_intent := tk_close_requested (f t) \<or> tk_stop_requested (f t),
              av_epoch := tk_owner_epoch (f t)\<rparr>
          else view s b)"
proof -
  have "task_row_of (s\<lparr>tasks := update_where p f (tasks s)\<rparr>) b =
        (if b = a then Some (f t) else task_row_of s b)" for b
    using assms by (intro task_row_of_hit) auto
  then show ?thesis
    by (simp add: view_def row_view_def)
qed

lemma view_row:
  assumes "task_row_of s a = Some t"
  shows "av_phase (view s a) = Some (tk_phase t)" "av_outcome (view s a) = tk_outcome t"
    "av_intent (view s a) \<longleftrightarrow> tk_close_requested t \<or> tk_stop_requested t"
    "av_epoch (view s a) = tk_owner_epoch t" "av_msgs (view s a) = open_msgs s a"
    "av_reqs (view s a) = open_reqs s a" "av_result (view s a) = result_outcome s a"
    "av_trail (view s a) = trail_of s a"
  using assms by (simp_all add: view_def row_view_def)

lemma view_settle:
  "view (settle_terminal_commands a c s) b =
     (if b = a then (view s b)\<lparr>av_msgs := False, av_reqs := False\<rparr> else view s b)"
  by (simp add: view_def row_view_def)

lemma update_where_miss: "(\<And>r. r \<in> set rows \<Longrightarrow> \<not> p r) \<Longrightarrow> update_where p f rows = rows"
  by (simp add: update_where_def map_idI)

lemma count_miss:
  assumes "keys_ok s" and "\<And>t. hit t \<Longrightarrow> tk_agent_id t = a" and "count_where hit (tasks s) \<noteq> 1"
  shows "update_where hit f (tasks s) = tasks s"
proof (rule update_where_miss)
  fix t assume "t \<in> set (tasks s)"
  then have "task_row_of s (tk_agent_id t) = Some t"
    using assms(1) by (auto simp: task_row_of_def keys_ok_def intro: find_distinct)
  moreover have "hit = (\<lambda>t. tk_agent_id t = a \<and> hit t)"
    using assms(2) by auto
  then have "count_where (\<lambda>t. tk_agent_id t = a \<and> hit t) (tasks s) \<noteq> 1"
    using assms(3) by simp
  ultimately show "\<not> hit t"
    using assms count_hit [OF assms(1), of a hit] by auto
qed

section \<open>The terminal transition\<close>

lemma apply_terminal_effect:
  assumes "keys_ok s"
    and "apply_terminal now a e p c st term s = Inr (outc, s')"
  shows "\<exists>t. task_row_of s a = Some t \<and> tk_owner_epoch t = int e \<and> tk_phase t \<noteq> Terminal
       \<and> p \<noteq> Terminal \<and> e \<le> i64_max
       \<and> outc = (if (st \<or> c) \<and> tu_outcome term \<noteq> Cancelled then Cancelled else tu_outcome term)"
    and "\<And>b. b \<noteq> a \<Longrightarrow> view s' b = view s b"
    and "view s' a = (view s a)\<lparr>av_phase := Some Terminal, av_outcome := Some outc, av_msgs := False,
           av_reqs := False, av_trail := av_trail (view s a) @ [(Some p, Terminal)]\<rparr>"
    and "keys_ok s'"
proof -
  define hit where "hit = (\<lambda>t::task_row. tk_agent_id t = a \<and> tk_owner_epoch t = int e \<and> tk_phase t \<noteq> Terminal)"
  define fin where "fin = (\<lambda>t::task_row. t\<lparr>tk_phase := Terminal, tk_outcome := Some outc,
        tk_completed_at := Some (coalesce (tk_completed_at t) now),
        tk_failure_code := tu_failure_code term, tk_failure_message := tu_failure_message term,
        tk_turn_state := terminal_turn_state outc,
        tk_closed_at := (if tk_close_requested t then Some (coalesce (tk_closed_at t) now)
                         else tk_closed_at t)\<rparr>)"
  have facts: "p \<noteq> Terminal" "e \<le> i64_max" "count_where hit (tasks s) = 1"
      "outc = (if (st \<or> c) \<and> tu_outcome term \<noteq> Cancelled then Cancelled else tu_outcome term)"
    using assms(2) by (auto simp: apply_terminal_def hit_def Let_def split: if_splits)
  let ?s1 = "s\<lparr>tasks := update_where hit fin (tasks s)\<rparr>"
  let ?s2 = "settle_terminal_commands a (coalesce (tu_failure_code term) ''TASK_TERMINATED'') ?s1"
  have s': "insert_ledger now a e (Some p) Terminal (Some outc) (tu_failure_code term) ?s2 = Inr s'"
    using assms(2) facts
    by (auto simp: apply_terminal_def hit_def fin_def Let_def split: if_splits)
  obtain t where t: "task_row_of s a = Some t" "tk_owner_epoch t = int e" "tk_phase t \<noteq> Terminal"
    using facts(3) count_hit [OF assms(1)] by (auto simp: hit_def)
  then have ida: "tk_agent_id t = a" by (simp add: task_row_of_id)
  have rows: "task_row_of ?s1 b = (if b = a then Some (fin t) else task_row_of s b)" for b
    using t ida by (intro task_row_of_hit) (auto simp: hit_def fin_def)
  show "\<exists>t. task_row_of s a = Some t \<and> tk_owner_epoch t = int e \<and> tk_phase t \<noteq> Terminal
       \<and> p \<noteq> Terminal \<and> e \<le> i64_max
       \<and> outc = (if (st \<or> c) \<and> tu_outcome term \<noteq> Cancelled then Cancelled else tu_outcome term)"
    using t facts by blast
  show "view s' b = view s b" if "b \<noteq> a" for b
    using that rows unfolding insert_ledger_view(1) [OF s'] by (simp add: view_def row_view_def)
  show "view s' a = (view s a)\<lparr>av_phase := Some Terminal, av_outcome := Some outc, av_msgs := False,
           av_reqs := False, av_trail := av_trail (view s a) @ [(Some p, Terminal)]\<rparr>"
    using rows t unfolding insert_ledger_view(1) [OF s'] by (simp add: view_def row_view_def fin_def)
  show "keys_ok s'"
    using assms(1) unfolding insert_ledger_view(2) [OF s']
    by (simp add: fin_def keys_ok_update_tasks keys_ok_settle)
qed

lemma apply_terminal_refines:
  assumes "keys_ok s" and "task_row_of s a = Some t"
    and "apply_terminal now a e (tk_phase t) (tk_close_requested t) (tk_stop_requested t) term s
         = Inr (outc, s')"
  shows "refines s a s'"
proof (rule refinesI)
  note eff = apply_terminal_effect [OF assms(1,3)]
  show "view s' b = view s b" if "b \<noteq> a" for b
    by (rule eff(2) [OF that])
  have p: "av_phase (view s a) = Some (tk_phase t)"
    "av_intent (view s a) \<longleftrightarrow> tk_close_requested t \<or> tk_stop_requested t"
    using assms(2) by (auto simp: view_def row_view_def)
  have "view s' a = enter Terminal ((view s a)\<lparr>av_outcome := Some outc, av_msgs := False, av_reqs := False\<rparr>)"
    using eff(3) p by (simp add: enter_def)
  moreover have "tk_phase t \<noteq> Terminal" and "av_intent (view s a) \<Longrightarrow> outc = Cancelled"
    using eff(1) assms(2) p by auto
  ultimately show "agent_step (view s a) (view s' a)"
    using p by (auto intro: agent_step.finish)
qed

lemma transition_terminal_refines:
  assumes "store_ok s" and "transition_terminal now a e term s = Inr (outc, s')"
  shows "refines s a s' \<and> keys_ok s'"
proof -
  have k: "keys_ok s" using assms(1) by (simp add: store_ok_iff)
  obtain p o' ep c st where g: "query_guard s a = Inr (p, o', ep, c, st)"
    and eq: "(if p = Terminal then rbind (ok_or (InvalidState ''terminal task is missing its outcome'') o')
              (\<lambda>o'. Inr (o', s)) else if ep \<noteq> e then Inl (Conflict (''owner epoch changed for '' @ a))
              else apply_terminal now a e p c st term s) = Inr (outc, s')"
    using assms(2) by (auto simp: transition_terminal_def)
  then obtain t where t: "task_row_of s a = Some t" "tk_phase t = p" "tk_close_requested t = c"
      "tk_stop_requested t = st"
    by (auto simp: query_guard_Inr)
  show ?thesis
    using eq k t apply_terminal_refines [OF k t(1), of now e "term" outc s'] apply_terminal_effect(4) [OF k]
    by (auto split: if_splits)
qed

section \<open>Submission and claims\<close>

lemma task_row_of_append:
  "task_row_of (s\<lparr>tasks := tasks s @ [row]\<rparr>) b =
     (case task_row_of s b of Some t \<Rightarrow> Some t
      | None \<Rightarrow> if tk_agent_id row = b then Some row else None)"
  by (simp add: task_row_of_def find_append split: option.splits)

lemma insert_queued_refines:
  assumes "store_ok s" and "task_row_of s (nt_agent_id task) = None"
    and "find (\<lambda>t. tk_idempotency_key t = nt_idempotency_key task) (tasks s) = None"
    and "insert_queued env now task budget s = Inr (r, s')"
  shows "refines s (nt_agent_id task) s' \<and> keys_ok s' \<and> tasks s' = tasks s @ [queued_row env now task budget]"
proof -
  let ?a = "nt_agent_id task" and ?row = "queued_row env now task budget"
  let ?s1 = "s\<lparr>tasks := tasks s @ [?row]\<rparr>"
  have led: "insert_ledger now ?a 0 None Queued None None ?s1 = Inr s'"
    using assms(4) by (auto simp: insert_queued_def Let_def)
  have ab: "view s ?a = absent"
    using assms(1,2) by (auto simp: store_ok_iff intro: view_absentD)
  have rows: "task_row_of ?s1 b = (if b = ?a then Some ?row else task_row_of s b)" for b
    using assms(2) by (auto simp: task_row_of_append queued_row_def split: option.splits)
  have "refines s ?a s'"
  proof (rule refinesI)
    show "view s' b = view s b" if "b \<noteq> ?a" for b
      using that rows unfolding insert_ledger_view(1) [OF led] by (simp add: view_def row_view_def)
    have "view s' ?a = enter Queued absent"
      using rows ab unfolding insert_ledger_view(1) [OF led]
      by (simp add: view_def row_view_def enter_def absent_def queued_row_def)
    then show "agent_step (view s ?a) (view s' ?a)"
      by (simp add: ab agent_step.submit)
  qed
  moreover have "keys_ok s'"
    using assms(1-3) unfolding insert_ledger_view(2) [OF led]
    by (auto simp: store_ok_iff keys_ok_def queued_row_def task_row_of_def find_None_iff')
  ultimately show ?thesis
    using insert_ledger_view(3) [OF led] by simp
qed

lemma enqueue_cases:
  assumes "enqueue_task_authoritative env now task s = Inr (r, s')"
  obtains (existing) "s' = s" and "st_disposition r = Existing"
  | (created) budget where "resolve_effective_budget (nt_budget task) = Inr budget"
      "task_row_of s (nt_agent_id task) = None"
      "find (\<lambda>t. tk_idempotency_key t = nt_idempotency_key task) (tasks s) = None
       \<or> query_task_by_idempotency s (nt_idempotency_key task) = Inr None"
      "direct_submission env task \<Longrightarrow>
         workspace_holder s (nt_workspace_path task) (nt_repository task) = None"
      "insert_queued env now task budget s = Inr (r, s')"
  using assms
  by (auto simp: enqueue_task_authoritative_def query_task_Inr split: option.splits if_splits)

lemma query_idempotency_None:
  assumes "query_task_by_idempotency s k = Inr None"
  shows "find (\<lambda>t. tk_idempotency_key t = k) (tasks s) = None"
proof (rule ccontr)
  assume "find (\<lambda>t. tk_idempotency_key t = k) (tasks s) \<noteq> None"
  then obtain row where row: "find (\<lambda>t. tk_idempotency_key t = k) (tasks s) = Some row" by auto
  then have "row \<in> set (tasks s)" by (auto dest: find_SomeD)
  then have "task_row_of s (tk_agent_id row) \<noteq> None"
    by (auto simp: task_row_of_def find_None_iff')
  then show False
    using assms row by (auto simp: query_task_by_idempotency_def query_task_Inr)
qed

lemma enqueue_refines:
  assumes "store_ok s" and "enqueue_task_authoritative env now task s = Inr (r, s')"
  shows "refines s (nt_agent_id task) s' \<and> keys_ok s'"
  using assms(2)
proof (cases rule: enqueue_cases)
  case existing
  then show ?thesis using assms(1) by (simp add: store_ok_iff)
next
  case (created budget)
  then show ?thesis
    using insert_queued_refines [OF assms(1)] query_idempotency_None by blast
qed

lemma claim_next_cases:
  assumes "store_ok s" and "claim_next now owner g lim s = Inr (r, s')"
  obtains (none) "s' = s" and "r = None"
  | (claimed) cand s1 epoch where
      "first_by tk_created_at (filter (claimable s (int lim)) (tasks s)) = Some cand"
      "task_row_of s (tk_agent_id cand) = Some cand" "0 < lim"
      "s1 = s\<lparr>tasks := update_where
         (\<lambda>t. tk_agent_id t = tk_agent_id cand \<and> tk_phase t = Queued \<and> \<not> tk_close_requested t)
         (\<lambda>t. t\<lparr>tk_phase := Preparing, tk_owner_id := Some owner, tk_owner_epoch := tk_owner_epoch t + 1,
                tk_started_at := Some (coalesce (tk_started_at t) now), tk_last_heartbeat_at := Some now\<rparr>)
         (tasks s)\<rparr>"
      "insert_ledger now (tk_agent_id cand) epoch (Some Queued) Preparing None (Some ''CLAIMED'') s1 = Inr s'"
      "\<exists>tr. r = Some (TaskClaim tr epoch) \<and> tr_agent_id tr = tk_agent_id cand
           \<and> tr_phase tr = Preparing \<and> int epoch = tk_owner_epoch cand + 1"
proof (cases "lim = 0 \<or> first_by tk_created_at (filter (claimable s (int lim)) (tasks s)) = None")
  case True
  then have "s' = s \<and> r = None"
    using assms(2) by (auto simp: claim_next_def first_by_def split: if_splits)
  then show ?thesis using none by blast
next
  case False
  then obtain cand where c: "lim \<noteq> 0"
      "first_by tk_created_at (filter (claimable s (int lim)) (tasks s)) = Some cand" by blast
  then have mem: "cand \<in> set (tasks s)" and cl: "claimable s (int lim) cand"
    using first_by_Some(1) by fastforce+
  have row: "task_row_of s (tk_agent_id cand) = Some cand"
    unfolding task_row_of_def using assms(1) mem
    by (intro find_distinct) (auto simp: store_ok_def)
  define upd where "upd = (\<lambda>t::task_row. t\<lparr>tk_phase := Preparing, tk_owner_id := Some owner,
      tk_owner_epoch := tk_owner_epoch t + 1, tk_started_at := Some (coalesce (tk_started_at t) now),
      tk_last_heartbeat_at := Some now\<rparr>)"
  define hit where "hit = (\<lambda>t::task_row. tk_agent_id t = tk_agent_id cand \<and> tk_phase t = Queued
      \<and> \<not> tk_close_requested t)"
  let ?s1 = "s\<lparr>tasks := update_where hit upd (tasks s)\<rparr>"
  obtain tr where tr: "query_task ?s1 (tk_agent_id cand) = Inr (Some tr)"
    and led: "insert_ledger now (tk_agent_id cand) (tr_owner_epoch tr) (Some Queued) Preparing None
        (Some ''CLAIMED'') ?s1 = Inr s'"
    and r: "r = Some (TaskClaim tr (tr_owner_epoch tr))"
    using assms(2) c
    by (auto simp: claim_next_def Let_def hit_def upd_def split: if_splits)
  have "task_row_of ?s1 (tk_agent_id cand) = Some (upd cand)"
    using row cl by (subst task_row_of_hit [of _ _ "tk_agent_id cand" _ cand])
      (auto simp: upd_def hit_def claimable_def)
  then have conv: "convert_task_row (upd cand) = Inr tr"
    using tr by (simp add: query_task_Inr)
  have "tr_agent_id tr = tk_agent_id cand \<and> tr_phase tr = Preparing
      \<and> int (tr_owner_epoch tr) = tk_owner_epoch cand + 1"
    using convert_task_row_fields [OF conv] by (simp add: upd_def)
  then show ?thesis
    using claimed [of cand ?s1 "tr_owner_epoch tr"] c row led r
    by (auto simp: upd_def hit_def)
qed

lemma claim_next_refines:
  assumes "store_ok s" and "claim_next now owner g lim s = Inr (r, s')"
  shows "(\<exists>a. refines s a s') \<and> keys_ok s'"
  using assms
proof (cases rule: claim_next_cases)
  case none
  then show ?thesis using assms(1) by (auto simp: store_ok_iff intro: exI [where x = "[]"])
next
  case (claimed cand s1 epoch)
  let ?a = "tk_agent_id cand"
  have cl: "claimable s (int lim) cand"
    using claimed(1) first_by_Some(1) by fastforce
  have v1: "view s1 b = (if b = ?a then (view s ?a)\<lparr>av_phase := Some Preparing,
      av_outcome := tk_outcome cand, av_intent := tk_close_requested cand \<or> tk_stop_requested cand,
      av_epoch := tk_owner_epoch cand + 1\<rparr> else view s b)" for b
    unfolding claimed(4)
    using cl claimed(2)
    by (subst view_update_tasks [where a = ?a and t = cand]) (auto simp: claimable_def)
  have "refines s ?a s'"
  proof (rule refinesI)
    show "view s' b = view s b" if "b \<noteq> ?a" for b
      using that unfolding insert_ledger_view(1) [OF claimed(5)] by (simp add: v1)
    have ph: "av_phase (view s ?a) = Some Queued"
      using cl view_row(1) [OF claimed(2)] by (simp add: claimable_def)
    have "view s' ?a = enter Preparing ((view s ?a)\<lparr>av_epoch := av_epoch (view s ?a) + 1\<rparr>)"
      unfolding insert_ledger_view(1) [OF claimed(5)]
      using ph view_row [OF claimed(2)] by (simp add: v1 enter_def)
    then show "agent_step (view s ?a) (view s' ?a)"
      using ph by (simp add: agent_step.claim)
  qed
  moreover have "keys_ok s'"
    using assms(1) unfolding insert_ledger_view(2) [OF claimed(5)]
    by (simp add: claimed(4) keys_ok_update_tasks store_ok_iff)
  ultimately show ?thesis by blast
qed

lemma mark_session_running_refines:
  assumes "store_ok s" and "mark_session_running now a e rid ident sid turn s = Inr (r, s')"
  shows "refines s a s' \<and> keys_ok s'"
proof -
  define hit where "hit = (\<lambda>t::task_row. tk_agent_id t = a \<and> tk_owner_epoch t = int e \<and> tk_phase t = Preparing)"
  define upd where "upd = (\<lambda>t::task_row. t\<lparr>tk_phase := Running, tk_runtime_agent_id := Some rid,
     tk_pid := map_option (\<lambda>i. int (spi_pid i)) ident,
     tk_process_group_id := map_option spi_process_group_id ident,
     tk_process_uid := map_option (\<lambda>i. int (spi_uid i)) ident,
     tk_process_start_token := map_option spi_start_token ident, tk_last_heartbeat_at := Some now,
     tk_zcode_session_id := (case sid of None \<Rightarrow> tk_zcode_session_id t | Some x \<Rightarrow> Some x),
     tk_turn_state := coalesce turn (tk_turn_state t)\<rparr>)"
  let ?s1 = "s\<lparr>tasks := update_where hit upd (tasks s)\<rparr>"
  have k: "keys_ok s" using assms(1) by (simp add: store_ok_iff)
  have k1: "keys_ok ?s1" using k by (simp add: keys_ok_update_tasks upd_def)
  show ?thesis
  proof (cases "count_where hit (tasks s) = 1")
    case True
    then obtain t where t: "task_row_of s a = Some t" "hit t"
      using count_hit [OF k] by (auto simp: hit_def dest: task_row_of_id)
    have led: "insert_ledger now a e (Some Preparing) Running None (Some ''RUNTIME_STARTED'') ?s1 = Inr s'"
      using assms(2) True by (auto simp: mark_session_running_def Let_def hit_def upd_def)
    have v1: "view ?s1 b = (if b = a then (view s a)\<lparr>av_phase := Some Running\<rparr> else view s b)" for b
      using t view_row [OF t(1)]
      by (subst view_update_tasks [where a = a and t = t]) (auto simp: hit_def upd_def)
    have "refines s a s'"
    proof (rule refinesI)
      show "view s' b = view s b" if "b \<noteq> a" for b
        using that unfolding insert_ledger_view(1) [OF led] by (simp add: v1)
      have ph: "av_phase (view s a) = Some Preparing"
        using t view_row(1) [OF t(1)] by (simp add: hit_def)
      then have "view s' a = enter Running (view s a)"
        unfolding insert_ledger_view(1) [OF led] by (simp add: v1 enter_def)
      then show "agent_step (view s a) (view s' a)"
        using ph by (simp add: agent_step.start)
    qed
    then show ?thesis using k1 insert_ledger_view(2) [OF led] by simp
  next
    case False
    have "update_where hit upd (tasks s) = tasks s"
      by (rule count_miss [OF k _ False]) (simp add: hit_def)
    moreover have "s' = ?s1"
      using assms(2) False by (auto simp: mark_session_running_def Let_def hit_def upd_def)
    ultimately have "s' = s" by simp
    then show ?thesis using k by simp
  qed
qed

end
