(* ===== verification/Store_Commands.thy ===== *)
theory Store_Commands
  imports Store_Refine
begin

text \<open>
  The remaining writes of the store refine the abstract agent: lifecycle events, stop and
  close, resume and reap, result publication, queued messages and pending requests.
\<close>

lemma query_guard_row:
  "task_row_of s a = Some t \<Longrightarrow> 0 \<le> tk_owner_epoch t \<Longrightarrow> query_guard s a =
     Inr (tk_phase t, tk_outcome t, nat (tk_owner_epoch t), tk_close_requested t, tk_stop_requested t)"
  by (simp add: query_guard_Inr)

section \<open>Lifecycle events\<close>

lemma append_lifecycle_refines:
  assumes "store_ok s" and "append_lifecycle now w s = Inr (q, s')"
  shows "refines s (lw_agent_id w) s' \<and> keys_ok s'"
proof -
  let ?a = "lw_agent_id w"
  have k: "keys_ok s" using assms(1) by (simp add: store_ok_iff)
  show ?thesis
  proof (cases "s' = s")
    case True then show ?thesis using k by simp
  next
    case False
    define upd where "upd = (\<lambda>n (t::task_row). t\<lparr>tk_last_event_seq := n, tk_last_heartbeat_at := Some now,
        tk_turn_state := coalesce (lw_turn_state w) (tk_turn_state t)\<rparr>)"
    define s1 where "s1 = (\<lambda>e n. s\<lparr>events := events s @ [e],
        tasks := update_where (\<lambda>t. tk_agent_id t = ?a) (upd n) (tasks s)\<rparr>)"
    obtain t where t: "task_row_of s ?a = Some t" "0 \<le> tk_owner_epoch t"
      using assms(2) False
      by (auto simp: append_lifecycle_def Let_def query_guard_Inr split: option.splits)
    define n where "n = tk_last_event_seq t + 1"
    define e where "e = \<lparr>ev_agent_id = ?a, ev_runtime_agent_id = lw_runtime_agent_id w,
        ev_seq = n, ev_source_seq = int (lw_source_sequence w), ev_timestamp = now,
        ev_event_type = lw_event_type w, ev_turn_id = lw_turn_id w,
        ev_payload_json = lw_payload_json w, ev_redaction_level = lw_redaction_level w\<rparr>"
    have fin: "case lw_terminal w of None \<Rightarrow> s' = s1 e n
        | Some term \<Rightarrow> \<exists>outc. apply_terminal now ?a (lw_owner_epoch w) (tk_phase t) (tk_close_requested t)
             (tk_stop_requested t) term (s1 e n) = Inr (outc, s')"
      using assms(2) False t query_guard_row [OF t]
      by (auto simp: append_lifecycle_def Let_def s1_def upd_def e_def n_def
          split: if_splits option.splits)
    note t = t(1)
    have k1: "keys_ok (s1 e n)"
      using k by (simp add: s1_def keys_ok_def upd_def map_update_where)
    have rows: "task_row_of (s1 e n) b = (if b = ?a then Some (upd n t) else task_row_of s b)" for b
      using task_row_of_hit [where a = ?a and t = t and f = "upd n" and p = "\<lambda>t. tk_agent_id t = ?a"
          and s = "s\<lparr>events := events s @ [e]\<rparr>"] t task_row_of_id [OF t]
      by (simp add: s1_def upd_def)
    have v1: "view (s1 e n) b = view s b" for b
      using t by (cases "b = ?a") (simp_all add: view_def rows row_view_def, simp_all add: upd_def s1_def open_msgs_def
        open_reqs_def result_outcome_def trail_of_def)
    show ?thesis
    proof (cases "lw_terminal w")
      case None
      then show ?thesis using fin k1 v1 by (simp add: refines_def)
    next
      case (Some "term")
      then obtain outc where at: "apply_terminal now ?a (lw_owner_epoch w) (tk_phase (upd n t))
          (tk_close_requested (upd n t)) (tk_stop_requested (upd n t)) term (s1 e n) = Inr (outc, s')"
        using fin by (auto simp: upd_def)
      have "refines (s1 e n) ?a s'"
        by (rule apply_terminal_refines [OF k1 _ at]) (simp add: rows)
      then have "refines s ?a s'" by (simp add: refines_def v1)
      then show ?thesis using apply_terminal_effect(4) [OF k1 at] by simp
    qed
  qed
qed

section \<open>Stop, close, resume and reap\<close>

lemma request_stop_refines:
  assumes "store_ok s" and "request_stop_internal now a close cancel s = Inr (d, s')"
  shows "refines s a s' \<and> keys_ok s'"
proof -
  have k: "keys_ok s" using assms(1) by (simp add: store_ok_iff)
  define upd where "upd = (\<lambda>p (t::task_row). t\<lparr>tk_phase := p,
      tk_close_requested := (close \<or> tk_close_requested t),
      tk_stop_requested := (cancel \<or> tk_stop_requested t),
      tk_closed_at := (if close then Some (coalesce (tk_closed_at t) now) else tk_closed_at t)\<rparr>)"
  define s1 where "s1 = (\<lambda>p. s\<lparr>tasks := update_where (\<lambda>t. tk_agent_id t = a) (upd p) (tasks s)\<rparr>)"
  obtain t where t: "task_row_of s a = Some t" "0 \<le> tk_owner_epoch t"
    using assms(2) by (auto simp: request_stop_internal_def query_guard_Inr)
  have res: "if tk_phase t = Terminal then s' = s1 Terminal
      else let s2 = settle_terminal_commands a ''STOP_REQUESTED'' (s1 Cancelling)
           in if tk_phase t = Cancelling then s' = s2
              else \<exists>e rc. insert_ledger now a e (Some (tk_phase t)) Cancelling None rc s2 = Inr s'"
    using assms(2) query_guard_row [OF t]
    by (auto simp: request_stop_internal_def Let_def s1_def upd_def split: if_splits)
  note t = t(1)
  note vr = view_row [OF t]
  let ?i = "(close \<or> tk_close_requested t) \<or> cancel \<or> tk_stop_requested t"
  have v1: "view (s1 p) b = (if b = a then (view s a)\<lparr>av_phase := Some p, av_intent := ?i\<rparr> else view s b)" for p b
    unfolding s1_def using t
    by (subst view_update_tasks [where a = a and t = t])
      (auto simp: upd_def vr task_row_of_id [OF t] intro!: agent_view.equality)
  have k1: "keys_ok (s1 p)" for p
    using k by (simp add: s1_def keys_ok_update_tasks upd_def)
  consider "tk_phase t = Terminal" | "tk_phase t = Cancelling"
    | "tk_phase t \<noteq> Terminal" "tk_phase t \<noteq> Cancelling" by blast
  then show ?thesis
  proof cases
    case 1
    then have s': "s' = s1 Terminal" using res by simp
    have "view s' a = (view s a)\<lparr>av_intent := ?i\<rparr>" using 1 vr(1) by (simp add: s' v1)
    then have "agent_step (view s a) (view s' a)"
      using 1 vr by (auto intro!: agent_step.note_intent)
    then show ?thesis using k1 by (auto simp: s' v1 intro: refinesI)
  next
    case 2
    then have s': "s' = settle_terminal_commands a ''STOP_REQUESTED'' (s1 Cancelling)"
      using res by (simp add: Let_def)
    have "view s' a = (view s a)\<lparr>av_intent := ?i, av_msgs := False, av_reqs := False\<rparr>"
      using 2 vr(1) by (simp add: s' v1 view_settle)
    then have "agent_step (view s a) (view s' a)"
      using 2 vr by (auto intro!: agent_step.stop_again)
    then show ?thesis using k1 by (auto simp: s' v1 view_settle intro: refinesI keys_ok_settle)
  next
    case 3
    then obtain e rc where led: "insert_ledger now a e (Some (tk_phase t)) Cancelling None rc
        (settle_terminal_commands a ''STOP_REQUESTED'' (s1 Cancelling)) = Inr s'"
      using res by (auto simp: Let_def)
    have "view s' a = enter Cancelling ((view s a)\<lparr>av_intent := ?i, av_msgs := False, av_reqs := False\<rparr>)"
      unfolding insert_ledger_view(1) [OF led] using 3 vr(1) by (simp add: v1 view_settle enter_def)
    then have "agent_step (view s a) (view s' a)"
      using 3 vr by (auto intro!: agent_step.stop)
    moreover have "view s' b = view s b" if "b \<noteq> a" for b
      unfolding insert_ledger_view(1) [OF led] using that by (simp add: v1 view_settle)
    ultimately show ?thesis
      using k1 insert_ledger_view(2) [OF led] by (auto intro: refinesI keys_ok_settle)
  qed
qed

lemma reap_task_refines:
  assumes "store_ok s" and "reap_task now a s = Inr (outc, s')"
  shows "refines s a s' \<and> keys_ok s'"
proof -
  have k: "keys_ok s" using assms(1) by (simp add: store_ok_iff)
  define upd where "upd = (\<lambda>t::task_row. t\<lparr>tk_owner_id := None, tk_lease_expires_at := None,
      tk_reaped_at := Some (coalesce (tk_reaped_at t) now)\<rparr>)"
  obtain t where t: "task_row_of s a = Some t"
    and s': "s' = s\<lparr>tasks := update_where (\<lambda>t. tk_agent_id t = a) upd (tasks s)\<rparr>"
    using assms(2) by (auto simp: reap_task_def Let_def query_guard_Inr upd_def split: if_splits)
  have "view s' b = view s b" for b
    unfolding s' using t
    by (subst view_update_tasks [where a = a and t = t])
      (auto simp: upd_def view_row [OF t] task_row_of_id [OF t] intro!: agent_view.equality)
  then show ?thesis
    using k by (simp add: refines_def s' keys_ok_update_tasks upd_def)
qed

lemma view_messages:
  "view (s\<lparr>messages := ms\<rparr>) b = (view s b)\<lparr>av_msgs := list_ex (\<lambda>m. ms_agent_id m = b \<and> msg_open m) ms\<rparr>"
  by (simp add: view_def row_view_def open_msgs_def list_ex_iff)

lemma view_requests:
  "view (s\<lparr>pending_requests := ps\<rparr>) b = (view s b)\<lparr>av_reqs := list_ex (\<lambda>p. pr_agent_id p = b \<and> req_open p) ps\<rparr>"
  by (simp add: view_def row_view_def open_reqs_def list_ex_iff)

lemma view_results:
  "view (s\<lparr>task_results := rs\<rparr>) b = (view s b)\<lparr>av_result :=
     map_option (\<lambda>r. rs_outcome (rr_result r)) (find (\<lambda>r. rr_agent_id r = b) rs)\<rparr>"
  by (simp add: view_def row_view_def result_outcome_def)

lemma view_fields:
  "av_msgs (view s b) = list_ex (\<lambda>m. ms_agent_id m = b \<and> msg_open m) (messages s)"
  "av_reqs (view s b) = list_ex (\<lambda>p. pr_agent_id p = b \<and> req_open p) (pending_requests s)"
  "av_result (view s b) = map_option (\<lambda>r. rs_outcome (rr_result r))
     (find (\<lambda>r. rr_agent_id r = b) (task_results s))"
  by (simp_all add: view_def row_view_def open_msgs_def open_reqs_def result_outcome_def list_ex_iff)

lemma view_artifacts [simp]: "view (s\<lparr>artifacts := x\<rparr>) b = view s b"
  by (simp add: view_def)

lemma list_ex_update_where:
  "(\<And>r. r \<in> set rs \<Longrightarrow> hit r \<Longrightarrow> q (f r) = q r) \<Longrightarrow> list_ex q (update_where hit f rs) = list_ex q rs"
  by (induction rs) auto

lemma find_filter_neq:
  "find (\<lambda>r. k r = b) (filter (\<lambda>r. k r \<noteq> a) rs) = (if b = a then None else find (\<lambda>r. k r = b) rs)"
  by (induction rs) auto

lemma requeue_refines:
  assumes "store_ok s" and "requeue_task_for_resume_with_message now a mid content s = Inr (r, s')"
  shows "refines s a s' \<and> keys_ok s'"
proof -
  have k: "keys_ok s" using assms(1) by (simp add: store_ok_iff)
  define msg where "msg = \<lparr>ms_message_id = mid, ms_agent_id = a, ms_mode = ''queue'',
      ms_content = content, ms_state = MsgQueued, ms_created_at = now, ms_delivered_at = None,
      ms_target_turn_id = None, ms_failure_code = None, ms_failure_message = None\<rparr>"
  let ?hit = "\<lambda>t. tk_agent_id t = a \<and> tk_phase t = Terminal"
  let ?s0 = "s\<lparr>task_results := filter (\<lambda>r. rr_agent_id r \<noteq> a) (task_results s)\<rparr>"
  let ?s1 = "?s0\<lparr>tasks := update_where ?hit requeued (tasks ?s0)\<rparr>"
  obtain t where t: "task_row_of s a = Some t" "tk_phase t = Terminal"
    using assms(2) by (auto simp: requeue_task_for_resume_with_message_def split: if_splits)
  obtain epoch s2 where led: "insert_ledger now a epoch (Some Terminal) Queued None (Some ''RESUME_REQUESTED'') ?s1 = Inr s2"
    and s': "s' = s2\<lparr>messages := messages s2 @ [msg]\<rparr>" and fresh: "query_message s mid = None"
    using assms(2) t
    by (auto simp: requeue_task_for_resume_with_message_def Let_def msg_def split: if_splits option.splits)
  have v1: "view ?s1 b = (if b = a then (view ?s0 a)\<lparr>av_phase := Some Queued, av_outcome := None,
      av_intent := False\<rparr> else view ?s0 b)" for b
    using t by (subst view_update_tasks [where a = a and t = t])
      (auto simp: requeued_def view_row [of ?s0 a t] task_row_of_id [OF t(1)] intro!: agent_view.equality)
  have ms: "messages s2 = messages s" using insert_ledger_view(5) [OF led] by simp
  have vs: "view s' b = (if b = a then enter Queued ((view s a)\<lparr>av_outcome := None, av_intent := False,
      av_msgs := True, av_result := None\<rparr>) else view s b)" for b
    unfolding s' view_messages insert_ledger_view(1) [OF led] v1
    using view_row(1) [OF t(1)] t(2)
    by (auto simp: ms view_results find_filter_neq enter_def msg_def msg_open_def view_fields
        intro!: agent_view.equality)
  have "agent_step (view s a) (view s' a)"
    using view_row(1) [OF t(1)] t(2) by (simp add: vs agent_step.resume)
  moreover have "keys_ok ?s1"
    using k by (simp add: keys_ok_def map_update_where requeued_def)
  then have "keys_ok s2" using insert_ledger_view(2) [OF led] by simp
  then have "keys_ok s'"
    using fresh by (auto simp: s' keys_ok_def msg_def ms query_message_def find_None_iff')
  ultimately show ?thesis by (auto simp: vs intro: refinesI)
qed

section \<open>Result publication\<close>

lemma insert_artifact_frame:
  assumes "insert_artifact_tx now p s = Inr (r, s')"
  shows "s' = s\<lparr>artifacts := artifacts s'\<rparr>"
  using assms by (auto simp: insert_artifact_tx_def split: option.splits if_splits)

lemma store_task_result_cases:
  assumes "store_task_result_with_patch env now a result patch s = Inr (u, s')"
  obtains (same) "s' = s" and "\<exists>r. find (\<lambda>r. rr_agent_id r = a) (task_results s) = Some r
      \<and> rr_result_sha256 r = task_result_digest env (task_result_bytes env result)"
  | (published) tr x upd outc where "query_task s a = Inr (Some tr)" "tu_outcome upd = rs_outcome result"
      "find (\<lambda>r. rr_agent_id r = a) (task_results s) = None" "active_phase (tr_phase tr)"
      "rs_outcome result = Completed \<Longrightarrow> completion_blockers s a = (False, False)"
      "tr_stop_requested tr \<or> tr_close_requested tr \<Longrightarrow> rs_outcome result = Cancelled"
      "apply_terminal now a (tr_owner_epoch tr) (tr_phase tr) (tr_close_requested tr)
         (tr_stop_requested tr) upd (s\<lparr>artifacts := x, task_results := task_results s
            @ [result_row_of env now a (tr_retain_partial tr) result]\<rparr>) = Inr (outc, s')"
      "length (task_result_bytes env result) \<le> max_result_bytes (tr_effective_budget tr)"
proof -
  obtain tr where tr: "query_task s a = Inr (Some tr)"
    using assms by (auto simp: store_task_result_with_patch_def Let_def)
  show ?thesis
  proof (cases "find (\<lambda>r. rr_agent_id r = a) (task_results s)")
    case (Some r)
    then show ?thesis
      using assms tr same by (auto simp: store_task_result_with_patch_def Let_def split: if_splits)
  next
    case None
    define tm where "tm = \<lparr>tu_outcome = rs_outcome result,
       tu_failure_code = (case tr_failure_code tr of Some c \<Rightarrow> Some c
         | None \<Rightarrow> if rs_outcome result \<noteq> Completed \<and> rs_residual_gaps result \<noteq> []
                   then Some (last (rs_residual_gaps result)) else None),
       tu_failure_message = tr_failure_message tr\<rparr>"
    obtain s1 outc where s1: "(case patch of None \<Rightarrow> Inr s
          | Some p \<Rightarrow> rbind (insert_artifact_tx now p s) (\<lambda>(_, s0). Inr s0)) = Inr s1"
      and at: "apply_terminal now a (tr_owner_epoch tr) (tr_phase tr) (tr_close_requested tr)
         (tr_stop_requested tr) tm (s1\<lparr>task_results := task_results s1
            @ [result_row_of env now a (tr_retain_partial tr) result]\<rparr>) = Inr (outc, s')"
      and guards: "active_phase (tr_phase tr)"
        "rs_outcome result = Completed \<Longrightarrow> completion_blockers s a = (False, False)"
        "tr_stop_requested tr \<or> tr_close_requested tr \<Longrightarrow> rs_outcome result = Cancelled"
        "length (task_result_bytes env result) \<le> max_result_bytes (tr_effective_budget tr)"
      using assms tr None
      by (auto simp: store_task_result_with_patch_def Let_def tm_def completion_blockers_def
            prod_eq_iff split: if_splits)
    have "\<exists>x. s1 = s\<lparr>artifacts := x\<rparr>"
    proof (cases patch)
      case None
      then have "s1 = s\<lparr>artifacts := artifacts s\<rparr>" using s1 by simp
      then show ?thesis by blast
    next
      case (Some p)
      then show ?thesis using s1 by (auto dest: insert_artifact_frame)
    qed
    then obtain x where "s1 = s\<lparr>artifacts := x\<rparr>" by blast
    then show ?thesis
      using published [of tr tm x outc] tr None at guards by (simp add: tm_def)
  qed
qed

lemma store_task_result_refines:
  assumes "store_ok s" and "store_task_result_with_patch env now a result patch s = Inr (u, s')"
  shows "refines s a s' \<and> keys_ok s'"
  using assms(2)
proof (cases rule: store_task_result_cases)
  case same
  then show ?thesis using assms(1) by (simp add: store_ok_iff)
next
  case (published tr x upd outc)
  obtain t where t: "task_row_of s a = Some t" and conv: "convert_task_row t = Inr tr"
    using published(1) by (auto simp: query_task_Inr)
  note f = convert_task_row_fields [OF conv]
  let ?row = "result_row_of env now a (tr_retain_partial tr) result"
  let ?s2 = "s\<lparr>artifacts := x, task_results := task_results s @ [?row]\<rparr>"
  have k2: "keys_ok ?s2" using assms(1) by (simp add: store_ok_iff)
  note eff = apply_terminal_effect [OF k2 published(7)]
  have v2: "view ?s2 b = (if b = a then (view s a)\<lparr>av_result := Some (rs_outcome result)\<rparr> else view s b)" for b
    using published(3)
    by (auto simp: view_results find_append result_row_of_def view_fields intro!: agent_view.equality
        split: option.splits)
  have outc: "outc = rs_outcome result"
    using eff(1) published(2,6) by auto
  have "view s' a = enter Terminal ((view s a)\<lparr>av_outcome := Some outc, av_msgs := False,
      av_reqs := False, av_result := Some outc\<rparr>)"
    unfolding eff(3) v2 using view_row(1) [OF t] f(2) outc by (simp add: enter_def)
  moreover have "outc = Completed \<Longrightarrow> \<not> av_msgs (view s a) \<and> \<not> av_reqs (view s a)"
    using published(5) outc by (simp add: view_fields completion_blockers_def completion_blockers_tx_def)
  moreover have "av_intent (view s a) \<Longrightarrow> outc = Cancelled"
    using published(6) outc f view_row(3) [OF t] by auto
  moreover have "av_result (view s a) = None"
    using published(3) by (simp add: view_fields)
  ultimately have "agent_step (view s a) (view s' a)"
    using published(4) f view_row(1) [OF t] by (auto intro!: agent_step.publish)
  moreover have "view s' b = view s b" if "b \<noteq> a" for b
    using eff(2) [OF that] that by (simp add: v2)
  ultimately show ?thesis using eff(4) by (auto intro: refinesI)
qed

section \<open>Messages\<close>

lemma insert_message_refines:
  assumes "store_ok s" and "insert_message now mid a mode content s = Inr (r, s')"
  shows "refines s a s' \<and> keys_ok s'"
proof (cases "s' = s")
  case True
  then show ?thesis using assms(1) by (simp add: store_ok_iff)
next
  case False
  obtain t where t: "task_row_of s a = Some t" "0 \<le> tk_owner_epoch t"
    using assms(2) by (auto simp: insert_message_def query_guard_Inr split: if_splits)
  define msg where "msg = \<lparr>ms_message_id = mid, ms_agent_id = a, ms_mode = mode,
      ms_content = content, ms_state = MsgQueued, ms_created_at = now, ms_delivered_at = None,
      ms_target_turn_id = None, ms_failure_code = None, ms_failure_message = None\<rparr>"
  have s': "s' = s\<lparr>messages := messages s @ [msg]\<rparr>" and fresh: "query_message s mid = None"
    and guard: "tk_phase t \<noteq> Terminal" "\<not> tk_close_requested t" "\<not> tk_stop_requested t"
    using assms(2) False query_guard_row [OF t]
    by (auto simp: insert_message_def msg_def split: if_splits option.splits)
  have "view s' b = (if b = a then (view s a)\<lparr>av_msgs := True\<rparr> else view s b)" for b
    by (auto simp: s' view_messages msg_def msg_open_def view_fields intro!: agent_view.equality)
  moreover have "agent_step (view s a) ((view s a)\<lparr>av_msgs := True\<rparr>)"
    using guard view_row [OF t(1)] by (auto intro!: agent_step.message)
  moreover have "keys_ok s'"
    using assms(1) fresh by (auto simp: s' store_ok_iff keys_ok_def msg_def query_message_def find_None_iff')
  ultimately show ?thesis by (auto intro: refinesI)
qed

text \<open>Changing one message in place either leaves its agent's view alone or settles it.\<close>

lemma update_message_refines:
  assumes "store_ok s" and "\<And>m. hit m \<Longrightarrow> ms_message_id m = mid \<and> msg_open m"
    and keep: "\<And>m. ms_message_id (f m) = ms_message_id m \<and> ms_agent_id (f m) = ms_agent_id m"
    and "s' = s\<lparr>messages := update_where hit f (messages s)\<rparr>"
  shows "(\<exists>a. refines s a s') \<and> keys_ok s'"
proof -
  have k: "keys_ok s'"
    using assms by (auto simp: store_ok_iff keys_ok_update_messages)
  have dist: "distinct (map ms_message_id (messages s))" using assms(1) by (simp add: store_ok_def)
  have v: "view s' b = (view s b)\<lparr>av_msgs :=
      list_ex (\<lambda>m. ms_agent_id m = b \<and> msg_open m) (update_where hit f (messages s))\<rparr>" for b
    by (simp add: assms(4) view_messages)
  show ?thesis
  proof (cases "\<exists>m\<in>set (messages s). hit m")
    case False
    then have "s' = s" using assms(4) by (simp add: update_where_miss)
    then show ?thesis using k by auto
  next
    case True
    then obtain m where m: "m \<in> set (messages s)" "hit m" by blast
    have uniq: "x = m" if "x \<in> set (messages s)" "hit x" for x
      using that m assms(2) dist by (metis (mono_tags, lifting) distinct_map inj_on_def)
    let ?a = "ms_agent_id m"
    have other: "view s' b = view s b" if "b \<noteq> ?a" for b
    proof -
      have "list_ex (\<lambda>m. ms_agent_id m = b \<and> msg_open m) (update_where hit f (messages s))
          \<longleftrightarrow> list_ex (\<lambda>m. ms_agent_id m = b \<and> msg_open m) (messages s)"
        using uniq that keep by (intro list_ex_update_where) metis
      then show ?thesis
        unfolding v using view_fields(1) [of s b] by simp
    qed
    have open_m: "av_msgs (view s ?a)"
      using m assms(2) by (auto simp: view_fields list_ex_iff)
    show ?thesis
    proof (cases "av_msgs (view s' ?a)")
      case True
      then have "view s' ?a = view s ?a" using open_m unfolding v by simp
      then show ?thesis using other k by (auto simp: refines_def)
    next
      case False
      then have "view s' ?a = (view s ?a)\<lparr>av_msgs := False\<rparr>" unfolding v by simp
      then have "agent_step (view s ?a) (view s' ?a)" using open_m by (simp add: agent_step.settle)
      then show ?thesis using other k by (auto intro: refinesI)
    qed
  qed
qed

lemma claim_next_message_refines:
  assumes "store_ok s" and "claim_next_message a s = Inr (r, s')"
  shows "(\<exists>a. refines s a s') \<and> keys_ok s'"
proof (cases "s' = s")
  case True
  then show ?thesis using assms(1) by (auto simp: store_ok_iff)
next
  case False
  then obtain m where fb: "first_by ms_created_at
      (filter (\<lambda>m. ms_agent_id m = a \<and> ms_state m = MsgQueued) (messages s)) = Some m"
    using assms(2)
    by (cases "first_by ms_created_at
          (filter (\<lambda>m. ms_agent_id m = a \<and> ms_state m = MsgQueued) (messages s))")
       (auto simp: claim_next_message_def simp del: first_by_None split: if_splits)
  have "s' = s\<lparr>messages := update_where
        (\<lambda>x. ms_message_id x = ms_message_id m \<and> ms_state x = MsgQueued)
        (\<lambda>x. x\<lparr>ms_state := MsgSending\<rparr>) (messages s)\<rparr>"
    using assms(2) fb False by (auto simp: claim_next_message_def Let_def split: if_splits)
  then show ?thesis
    by (intro update_message_refines [OF assms(1), where mid = "ms_message_id m"
          and hit = "\<lambda>x. ms_message_id x = ms_message_id m \<and> ms_state x = MsgQueued"
          and f = "\<lambda>x. x\<lparr>ms_state := MsgSending\<rparr>"]) (auto simp: msg_open_def)
qed

lemma complete_message_refines:
  assumes "store_ok s" and "complete_message now mid turn s = Inr (r, s')"
  shows "(\<exists>a. refines s a s') \<and> keys_ok s'"
  using assms(2) unfolding complete_message_def Let_def
  by (intro update_message_refines [OF assms(1), where mid = mid
        and hit = "\<lambda>m. ms_message_id m = mid \<and> ms_state m = MsgSending"
        and f = "\<lambda>m. m\<lparr>ms_state := MsgDelivered, ms_delivered_at := Some now, ms_target_turn_id := turn\<rparr>"])
    (auto simp: msg_open_def)

lemma fail_message_refines:
  assumes "store_ok s" and "fail_message mid code text s = Inr (r, s')"
  shows "(\<exists>a. refines s a s') \<and> keys_ok s'"
  using assms(2) unfolding fail_message_def Let_def
  by (intro update_message_refines [OF assms(1), where mid = mid
        and hit = "\<lambda>m. ms_message_id m = mid \<and> msg_open m"
        and f = "\<lambda>m. m\<lparr>ms_state := MsgFailed, ms_failure_code := Some code, ms_failure_message := Some text\<rparr>"])
    auto

section \<open>Pending requests\<close>

lemma insert_pending_refines:
  assumes "store_ok s" and "insert_pending_request now rid a cid ty payload s = Inr (r, s')"
  shows "refines s a s' \<and> keys_ok s'"
proof (cases "s' = s")
  case True
  then show ?thesis using assms(1) by (simp add: store_ok_iff)
next
  case False
  obtain t where t: "task_row_of s a = Some t" "0 \<le> tk_owner_epoch t"
    using assms(2) by (auto simp: insert_pending_request_def query_guard_Inr)
  define req where "req = \<lparr>pr_request_id = rid, pr_agent_id = a, pr_correlation_id = cid,
      pr_request_type = ty, pr_payload_json = payload, pr_state = ReqPending, pr_created_at = now,
      pr_responded_at = None, pr_response_decision = None, pr_response_content = None\<rparr>"
  define s1 where "s1 = s\<lparr>pending_requests := pending_requests s @ [req]\<rparr>"
  let ?hit = "\<lambda>t. tk_agent_id t = a \<and> tk_phase t = Running"
  let ?s2 = "s1\<lparr>tasks := update_where ?hit (\<lambda>t. t\<lparr>tk_phase := WaitingInput\<rparr>) (tasks s1)\<rparr>"
  have guard: "tk_phase t = Running \<or> tk_phase t = WaitingInput" "\<not> tk_close_requested t"
      "\<not> tk_stop_requested t" "\<not> list_ex (\<lambda>p. pr_request_id p = rid
         \<or> (pr_agent_id p = a \<and> pr_correlation_id p = cid)) (pending_requests s)"
    and res: "if tk_phase t = Running
       then insert_ledger now a (nat (tk_owner_epoch t)) (Some Running) WaitingInput None
              (Some ''INPUT_REQUESTED'') ?s2 = Inr s'
       else s' = s1"
    using assms(2) False query_guard_row [OF t]
    by (auto simp: insert_pending_request_def Let_def req_def s1_def split: if_splits)
  have k1: "keys_ok s1"
    using assms(1) guard(4) by (auto simp: s1_def store_ok_iff keys_ok_def req_def list_ex_iff)
  have v1: "view s1 b = (if b = a then (view s a)\<lparr>av_reqs := True\<rparr> else view s b)" for b
    by (auto simp: s1_def view_requests req_def req_open_def view_fields intro!: agent_view.equality)
  have ni: "\<not> av_intent (view s a)" using guard view_row(3) [OF t(1)] by simp
  show ?thesis
  proof (cases "tk_phase t = Running")
    case True
    then have led: "insert_ledger now a (nat (tk_owner_epoch t)) (Some Running) WaitingInput None
              (Some ''INPUT_REQUESTED'') ?s2 = Inr s'" using res by simp
    have t1: "task_row_of s1 a = Some t" using t by (simp add: s1_def)
    have v2: "view ?s2 b = (if b = a then (view s1 a)\<lparr>av_phase := Some WaitingInput\<rparr> else view s1 b)" for b
      using t1 True by (subst view_update_tasks [where a = a and t = t])
        (auto simp: view_row [OF t1] task_row_of_id [OF t1] intro!: agent_view.equality)
    have "view s' a = enter WaitingInput ((view s a)\<lparr>av_reqs := True\<rparr>)"
      unfolding insert_ledger_view(1) [OF led] v2 v1 using True view_row(1) [OF t(1)] by (simp add: enter_def)
    then have "agent_step (view s a) (view s' a)"
      using True ni view_row(1) [OF t(1)] by (auto intro!: agent_step.ask)
    moreover have "view s' b = view s b" if "b \<noteq> a" for b
      unfolding insert_ledger_view(1) [OF led] v2 v1 using that by simp
    ultimately show ?thesis
      using k1 insert_ledger_view(2) [OF led] by (auto simp: keys_ok_update_tasks intro: refinesI)
  next
    case False
    then have "agent_step (view s a) (view s' a)"
      using guard(1) res ni view_row(1) [OF t(1)] by (auto simp: v1 intro!: agent_step.ask_again)
    then show ?thesis using False res k1 by (auto simp: v1 intro: refinesI)
  qed
qed

lemma update_open_request_view:
  assumes "\<And>p. hit p \<Longrightarrow> req_open p \<and> req_open (f p) \<and> pr_agent_id (f p) = pr_agent_id p"
  shows "view (s\<lparr>pending_requests := update_where hit f (pending_requests s)\<rparr>) b = view s b"
proof -
  have "list_ex (\<lambda>p. pr_agent_id p = b \<and> req_open p) (update_where hit f (pending_requests s))
      = list_ex (\<lambda>p. pr_agent_id p = b \<and> req_open p) (pending_requests s)"
    using assms by (intro list_ex_update_where) auto
  then show ?thesis
    using view_fields(2) [of s b] by (simp add: view_requests)
qed

lemma update_open_request_refines:
  assumes "store_ok s"
    and "\<And>p. hit p \<Longrightarrow> req_open p \<and> req_open (f p) \<and> pr_agent_id (f p) = pr_agent_id p
           \<and> pr_request_id (f p) = pr_request_id p"
    and "s' = s\<lparr>pending_requests := update_where hit f (pending_requests s)\<rparr>"
  shows "refines s a s' \<and> keys_ok s'"
  using assms update_open_request_view [of hit f s]
  by (simp add: refines_def store_ok_iff keys_ok_update_requests)

lemma claim_pending_refines:
  assumes "store_ok s" and "claim_pending_response_if_accepting a rid dec content s = Inr (r, s')"
  shows "refines s a s' \<and> keys_ok s'"
proof (cases "s' = s")
  case True
  then show ?thesis using assms(1) by (simp add: store_ok_iff)
next
  case False
  then have "s' = s\<lparr>pending_requests := update_where
       (\<lambda>p. pr_request_id p = rid \<and> pr_agent_id p = a \<and> pr_state p = ReqPending)
       (\<lambda>p. p\<lparr>pr_state := ReqSending, pr_response_decision := Some dec,
              pr_response_content := content\<rparr>) (pending_requests s)\<rparr>"
    using assms(2)
    by (auto simp: claim_pending_response_if_accepting_def split: option.splits if_splits)
  then show ?thesis
    by (rule update_open_request_refines [OF assms(1), rotated]) (simp add: req_open_def)
qed

lemma release_pending_refines:
  assumes "store_ok s" and "release_pending_response a rid s = Inr (r, s')"
  shows "refines s a s' \<and> keys_ok s'"
proof -
  have "s' = s\<lparr>pending_requests := update_where
       (\<lambda>p. pr_request_id p = rid \<and> pr_agent_id p = a \<and> pr_state p = ReqSending)
       (\<lambda>p. p\<lparr>pr_state := ReqPending, pr_response_decision := None,
              pr_response_content := None\<rparr>) (pending_requests s)\<rparr>"
    using assms(2) by (auto simp: release_pending_response_def Let_def)
  then show ?thesis
    by (rule update_open_request_refines [OF assms(1), rotated]) (simp add: req_open_def)
qed

lemma complete_pending_refines:
  assumes "store_ok s" and "complete_pending_response now a rid s = Inr (r, s')"
  shows "refines s a s' \<and> keys_ok s'"
proof -
  define hit where "hit = (\<lambda>p::pending_row. pr_request_id p = rid \<and> pr_agent_id p = a \<and> pr_state p = ReqSending)"
  define f where "f = (\<lambda>p::pending_row. p\<lparr>pr_state := ReqResponded, pr_responded_at := Some now\<rparr>)"
  define s1 where "s1 = s\<lparr>pending_requests := update_where hit f (pending_requests s)\<rparr>"
  have k: "keys_ok s" using assms(1) by (simp add: store_ok_iff)
  have k1: "keys_ok s1" using k by (simp add: s1_def f_def keys_ok_update_requests)
  have other: "view s1 b = view s b" if "b \<noteq> a" for b
  proof -
    have "list_ex (\<lambda>p. pr_agent_id p = b \<and> req_open p) (update_where hit f (pending_requests s))
      = list_ex (\<lambda>p. pr_agent_id p = b \<and> req_open p) (pending_requests s)"
      using that by (intro list_ex_update_where) (auto simp: hit_def f_def)
    then show ?thesis using view_fields(2) [of s b] by (simp add: s1_def view_requests)
  qed
  have va: "view s1 a = (view s a)\<lparr>av_reqs := av_reqs (view s1 a)\<rparr>"
    by (simp add: s1_def view_requests)
  show ?thesis
  proof (cases "count_where hit (pending_requests s) = 1")
    case False
    moreover have "count_where hit (pending_requests s) \<le> 1"
      using count_where_le1 [of pr_request_id "pending_requests s" hit rid] k
      by (auto simp: keys_ok_def hit_def split: option.splits)
    ultimately have "count_where hit (pending_requests s) = 0" by linarith
    then have "s1 = s" by (simp add: s1_def count_where_eq_0 update_where_miss)
    moreover have "s' = s1"
      using assms(2) False by (auto simp: complete_pending_response_def Let_def hit_def f_def s1_def)
    ultimately show ?thesis using k by simp
  next
    case True
    then obtain p0 where "p0 \<in> set (pending_requests s)" "hit p0"
      by (metis count_where_eq_0 zero_neq_one)
    then have reqs: "open_reqs s a"
      by (auto simp: hit_def open_reqs_def req_open_def)
    obtain t where t: "task_row_of s a = Some t" "0 \<le> tk_owner_epoch t"
      using assms(2) True
      by (auto simp: complete_pending_response_def Let_def query_guard_Inr hit_def)
    have ph: "tk_phase t = WaitingInput" using store_ok_row(3) [OF assms(1) t(1)] reqs by simp
    have ni: "\<not> tk_close_requested t" "\<not> tk_stop_requested t"
      using store_ok_row(2) [OF assms(1) t(1)] ph by auto
    have t1: "task_row_of s1 a = Some t" using t by (simp add: s1_def)
    let ?upd = "\<lambda>t. t\<lparr>tk_phase := Running\<rparr>"
    let ?s2 = "s1\<lparr>tasks := update_where (\<lambda>t. tk_agent_id t = a \<and> tk_phase t = WaitingInput) ?upd (tasks s1)\<rparr>"
    have res: "if av_reqs (view s1 a) then s' = s1
       else insert_ledger now a (nat (tk_owner_epoch t)) (Some WaitingInput) Running None
              (Some ''INPUT_RESOLVED'') ?s2 = Inr s'"
      using assms(2) True query_guard_row [OF t1 t(2)] ph ni
      by (auto simp: complete_pending_response_def Let_def hit_def f_def s1_def view_fields split: if_splits)
    show ?thesis
    proof (cases "av_reqs (view s1 a)")
      case True
      then have "view s1 a = view s a" using va reqs view_row(6) [OF t(1)] by simp
      then show ?thesis using True res other k1 by (simp add: refines_def)
    next
      case False
      then have led: "insert_ledger now a (nat (tk_owner_epoch t)) (Some WaitingInput) Running None
              (Some ''INPUT_RESOLVED'') ?s2 = Inr s'" using res by simp
      have v2: "view ?s2 b = (if b = a then (view s1 a)\<lparr>av_phase := Some Running\<rparr> else view s1 b)" for b
        using t1 ph by (subst view_update_tasks [where a = a and t = t])
          (auto simp: view_row [OF t1] task_row_of_id [OF t1] intro!: agent_view.equality)
      have "view s' a = enter Running ((view s a)\<lparr>av_reqs := False\<rparr>)"
        unfolding insert_ledger_view(1) [OF led] v2 using False va ph view_row(1) [OF t(1)]
        by (simp add: enter_def)
      then have "agent_step (view s a) (view s' a)"
        using ph ni view_row [OF t(1)] by (auto intro!: agent_step.answered)
      moreover have "view s' b = view s b" if "b \<noteq> a" for b
        unfolding insert_ledger_view(1) [OF led] v2 using that other by simp
      ultimately show ?thesis
        using k1 insert_ledger_view(2) [OF led] by (auto simp: keys_ok_update_tasks intro: refinesI)
    qed
  qed
qed

end
