(* ===== verification/Systems.thy ===== *)
theory Systems
  imports Prelude
begin

text \<open>
  The two contracts the state machines of the development are proved against, stated once as
  locales. An \<open>inv_system\<close> is a step relation with an invariant every step preserves; a
  \<open>simulation\<close> adds a family of abstract views, one per key, and promises that each step
  changes the view of at most one key, by one step of an abstract machine.
\<close>

locale inv_system =
  fixes step :: "'s \<Rightarrow> 's \<Rightarrow> bool"
    and inv :: "'s \<Rightarrow> bool"
  assumes preserved: "inv s \<Longrightarrow> step s s' \<Longrightarrow> inv s'"
begin

lemma reachable:
  assumes "step\<^sup>*\<^sup>* s s'" and "inv s"
  shows "inv s'"
  using assms by (induction rule: rtranclp_induct) (auto intro: preserved)

lemma reachable_induct:
  assumes "step\<^sup>*\<^sup>* s s'" and "inv s" and "P s"
    and "\<And>x y. inv x \<Longrightarrow> step x y \<Longrightarrow> P x \<Longrightarrow> P y"
  shows "P s'"
  using assms(1)
proof (induction rule: rtranclp_induct)
  case base
  then show ?case by (rule assms(3))
next
  case (step y z)
  then show ?case using assms(4) reachable [OF step.hyps(1) assms(2)] by blast
qed

end

locale simulation = inv_system step inv
  for step :: "'s \<Rightarrow> 's \<Rightarrow> bool" and inv :: "'s \<Rightarrow> bool" +
  fixes abs :: "'s \<Rightarrow> 'k \<Rightarrow> 'v"
    and astep :: "'v \<Rightarrow> 'v \<Rightarrow> bool"
  assumes simulates: "inv s \<Longrightarrow> step s s' \<Longrightarrow>
    \<exists>k. (\<forall>j. j \<noteq> k \<longrightarrow> abs s' j = abs s j) \<and> (abs s' k = abs s k \<or> astep (abs s k) (abs s' k))"
begin

lemma local_step: "inv s \<Longrightarrow> step s s' \<Longrightarrow> abs s' k = abs s k \<or> astep (abs s k) (abs s' k)"
  using simulates by metis

lemma view_trace:
  assumes "step\<^sup>*\<^sup>* s s'" and "inv s"
  shows "astep\<^sup>*\<^sup>* (abs s k) (abs s' k)"
  using assms
proof (induction rule: rtranclp_induct)
  case (step y z)
  then have "abs z k = abs y k \<or> astep (abs y k) (abs z k)"
    using local_step reachable by blast
  then show ?case using step by (metis rtranclp.rtrancl_into_rtrancl)
qed simp

text \<open>A preorder that contains every abstract step relates the views along every run.\<close>

lemma view_preorder:
  assumes "step\<^sup>*\<^sup>* s s'" and "inv s"
    and "\<And>v. le v v" and "\<And>u v w. le u v \<Longrightarrow> le v w \<Longrightarrow> le u w"
    and "\<And>v w. astep v w \<Longrightarrow> le v w"
  shows "le (abs s k) (abs s' k)"
proof -
  have "le v w" if "astep\<^sup>*\<^sup>* v w" for v w
    using that by (induction rule: rtranclp_induct) (auto intro: assms(3-5))
  then show ?thesis using view_trace [OF assms(1,2)] by blast
qed

end

section \<open>Tables under pointwise change\<close>

lemma list_all2_update_where:
  "(\<And>x. x \<in> set xs \<Longrightarrow> R x (if p x then f x else x)) \<Longrightarrow> list_all2 R xs (update_where p f xs)"
  by (induction xs) auto

lemma list_all2_same: "(\<And>x. x \<in> set xs \<Longrightarrow> R x x) \<Longrightarrow> list_all2 R xs xs"
  by (induction xs) auto

lemma list_all2_mono_in:
  "list_all2 R xs ys \<Longrightarrow> (\<And>x y. x \<in> set xs \<Longrightarrow> R x y \<Longrightarrow> S x y) \<Longrightarrow> list_all2 S xs ys"
  by (induction rule: list_all2_induct) auto

lemma count_where_list_all2:
  "list_all2 R xs ys \<Longrightarrow> (\<And>x y. R x y \<Longrightarrow> q y \<Longrightarrow> p x) \<Longrightarrow> count_where q ys \<le> count_where p xs"
  by (induction rule: list_all2_induct) (auto simp: count_where_def)

lemma count_where_append [simp]: "count_where p (xs @ ys) = count_where p xs + count_where p ys"
  by (simp add: count_where_def)

lemma count_where_update_le:
  "count_where p (update_where h f rows) \<le> count_where p rows + count_where h rows"
  by (induction rows) (auto simp: count_where_def)

end
