(* ===== verification/Store_Trace.thy ===== *)
theory Store_Trace
  imports Store_Commands Systems
begin

text \<open>
  Runs of the store. \<open>store_op\<close> names every public write of \<^verbatim>\<open>impl Store\<close> with its arguments;
  \<open>run_op\<close> executes one at a wall-clock time and keeps the old tables when the operation
  returns an error, as the rolled-back transaction does. \<open>store_step\<close> is one operation.
  \<^verbatim>\<open>restore_terminal_after_resume_failure\<close> is kept apart: it does not respect the contract
  (see \<open>Store_Props\<close>).
\<close>

datatype store_op =
    Enqueue new_task
  | ClaimNext string nat nat
  | MarkRunning string nat string "stored_process_identity option" "string option" "turn_state option"
  | AppendLifecycle lifecycle_write
  | TransitionTerminal string nat terminal_update
  | FailClaim string nat string string
  | RequestClose string
  | RequestStop string
  | RequestRuntimeStop string
  | Requeue string string string
  | Reap string
  | StoreResult string task_result "new_artifact option"
  | InsertMessage string string string string
  | ClaimMessage string
  | CompleteMessage string "string option"
  | FailMessage string string string
  | InsertPending string string string string string
  | ClaimPending string string string "string option"
  | CompletePending string string
  | ReleasePending string string

definition committed :: "store \<Rightarrow> ('a \<times> store) store_result \<Rightarrow> store" where
  "committed s r = (case r of Inl _ \<Rightarrow> s | Inr (_, s') \<Rightarrow> s')"

fun run_op :: "store_env \<Rightarrow> int \<Rightarrow> store_op \<Rightarrow> store \<Rightarrow> store" where
  "run_op env now (Enqueue t) s = committed s (enqueue_task_authoritative env now t s)"
| "run_op env now (ClaimNext own g lim) s = committed s (claim_next now own g lim s)"
| "run_op env now (MarkRunning a e rid ident sid turn) s =
     committed s (mark_session_running now a e rid ident sid turn s)"
| "run_op env now (AppendLifecycle w) s = committed s (append_lifecycle now w s)"
| "run_op env now (TransitionTerminal a e u) s = committed s (transition_terminal now a e u s)"
| "run_op env now (FailClaim a e c m) s = committed s (fail_claim now a e c m s)"
| "run_op env now (RequestClose a) s = committed s (request_close now a s)"
| "run_op env now (RequestStop a) s = committed s (request_stop now a s)"
| "run_op env now (RequestRuntimeStop a) s = committed s (request_runtime_stop now a s)"
| "run_op env now (Requeue a m c) s = committed s (requeue_task_for_resume_with_message now a m c s)"
| "run_op env now (Reap a) s = committed s (reap_task now a s)"
| "run_op env now (StoreResult a r p) s = committed s (store_task_result_with_patch env now a r p s)"
| "run_op env now (InsertMessage m a mode c) s = committed s (insert_message now m a mode c s)"
| "run_op env now (ClaimMessage a) s = committed s (claim_next_message a s)"
| "run_op env now (CompleteMessage m t) s = committed s (complete_message now m t s)"
| "run_op env now (FailMessage m c t) s = committed s (fail_message m c t s)"
| "run_op env now (InsertPending r a c ty p) s = committed s (insert_pending_request now r a c ty p s)"
| "run_op env now (ClaimPending a r d c) s = committed s (claim_pending_response_if_accepting a r d c s)"
| "run_op env now (CompletePending a r) s = committed s (complete_pending_response now a r s)"
| "run_op env now (ReleasePending a r) s = committed s (release_pending_response a r s)"

fun run_ops :: "store_env \<Rightarrow> (int \<times> store_op) list \<Rightarrow> store \<Rightarrow> store" where
  "run_ops env [] s = s"
| "run_ops env ((now, op) # rest) s = run_ops env rest (run_op env now op s)"

lemma committedE:
  assumes "P s" and "\<And>v s'. r = Inr (v, s') \<Longrightarrow> P s'"
  shows "P (committed s r)"
  using assms by (auto simp: committed_def split: sum.splits)

section \<open>Every operation refines the abstract agent\<close>

definition simulated :: "store \<Rightarrow> store \<Rightarrow> bool" where
  "simulated s s' \<longleftrightarrow> (\<exists>a. refines s a s') \<and> keys_ok s'"

lemma simulated_same: "store_ok s \<Longrightarrow> simulated s s"
  by (auto simp: simulated_def store_ok_iff)

lemma simulatedI: "refines s a s' \<and> keys_ok s' \<Longrightarrow> simulated s s'"
  and simulatedI': "(\<exists>a. refines s a s') \<and> keys_ok s' \<Longrightarrow> simulated s s'"
  by (auto simp: simulated_def)

lemmas op_simulated =
  enqueue_refines [THEN simulatedI] claim_next_refines [THEN simulatedI']
  mark_session_running_refines [THEN simulatedI] append_lifecycle_refines [THEN simulatedI]
  transition_terminal_refines [THEN simulatedI] request_stop_refines [THEN simulatedI]
  requeue_refines [THEN simulatedI] reap_task_refines [THEN simulatedI]
  store_task_result_refines [THEN simulatedI] insert_message_refines [THEN simulatedI]
  claim_next_message_refines [THEN simulatedI'] complete_message_refines [THEN simulatedI']
  fail_message_refines [THEN simulatedI'] insert_pending_refines [THEN simulatedI]
  claim_pending_refines [THEN simulatedI] complete_pending_refines [THEN simulatedI]
  release_pending_refines [THEN simulatedI]

lemma run_op_simulated:
  assumes "store_ok s"
  shows "simulated s (run_op env now op s)"
  by (cases op) (auto intro!: committedE [where P = "simulated s"] simulated_same [OF assms]
       simp: fail_claim_def request_close_def request_stop_def request_runtime_stop_def
       dest: op_simulated [OF assms])

lemma simulated_store_ok: "store_ok s \<Longrightarrow> simulated s s' \<Longrightarrow> store_ok s'"
  by (auto simp: simulated_def intro: store_okI)

inductive store_step :: "store_env \<Rightarrow> store \<Rightarrow> store \<Rightarrow> bool" for env where
  op: "store_step env s (run_op env now op s)"

inductive_cases store_stepE: "store_step env s s'"

interpretation tables: simulation "store_step env" store_ok view agent_step for env
proof unfold_locales
  show "store_ok s'" if "store_ok s" and "store_step env s s'" for s s'
    using that run_op_simulated [OF that(1)]
    by (auto elim!: store_stepE intro: simulated_store_ok)
  show "\<exists>k. (\<forall>j. j \<noteq> k \<longrightarrow> view s' j = view s j) \<and> (view s' k = view s k \<or> agent_step (view s k) (view s' k))"
    if "store_ok s" and "store_step env s s'" for s s'
    using that run_op_simulated [OF that(1)] by (auto elim!: store_stepE simp: simulated_def refines_def)
qed

lemma store_ok_empty: "store_ok empty_store"
proof -
  have "view empty_store a = absent" for a
    by (simp add: view_def row_view_def absent_def empty_store_def task_row_of_def open_msgs_def
        open_reqs_def result_outcome_def trail_of_def)
  then show ?thesis by (simp add: store_ok_def agent_ok_absent, simp add: empty_store_def)
qed

lemma run_ops_reachable: "(store_step env)\<^sup>*\<^sup>* s (run_ops env ops s)"
proof (induction ops arbitrary: s)
  case (Cons x rest)
  obtain now op where x: "x = (now, op)" by fastforce
  have "store_step env s (run_op env now op s)" by (rule store_step.op)
  then show ?case using Cons [of "run_op env now op s"] by (simp add: x converse_rtranclp_into_rtranclp)
qed simp

lemma reachable_run_ops:
  assumes "(store_step env)\<^sup>*\<^sup>* s s'"
  shows "\<exists>ops. s' = run_ops env ops s"
  using assms
proof (induction rule: rtranclp_induct)
  case base
  have "s = run_ops env [] s" by simp
  then show ?case by blast
next
  case (step y z)
  have snoc: "run_ops env (xs @ ys) u = run_ops env ys (run_ops env xs u)" for xs ys u
    by (induction xs arbitrary: u) auto
  obtain ops where "y = run_ops env ops s" using step by blast
  moreover obtain now op where "z = run_op env now op y" using step by (auto elim: store_stepE)
  ultimately have "z = run_ops env (ops @ [(now, op)]) s" by (simp add: snoc)
  then show ?case by blast
qed

end
