(* ===== verification/Store_Rows.thy ===== *)
theory Store_Rows
  imports Store_Trace
begin

text \<open>
  How the rows of the task table evolve: no operation deletes or reorders a task, what was
  submitted never changes, epochs only grow, every row stays readable. From these follow the
  two exclusion properties of the scheduler: at most one unfinished task per workspace, and
  a bound on the tasks a repository runs at once.
\<close>

definition occupies :: "task_phase \<Rightarrow> bool" where
  "occupies p \<longleftrightarrow> p = Preparing \<or> p = Running \<or> p = WaitingInput"

definition row_keeps :: "task_row \<Rightarrow> task_row \<Rightarrow> bool" where
  "row_keeps t u \<longleftrightarrow>
     tk_agent_id u = tk_agent_id t \<and> tk_idempotency_key u = tk_idempotency_key t
     \<and> tk_semantic_fingerprint u = tk_semantic_fingerprint t
     \<and> tk_repository u = tk_repository t \<and> tk_workspace_path u = tk_workspace_path t
     \<and> tk_group_id u = tk_group_id t \<and> tk_initial_prompt u = tk_initial_prompt t
     \<and> tk_prepared_launch_json u = tk_prepared_launch_json t
     \<and> tk_effective_budget u = tk_effective_budget t \<and> tk_retain_partial u = tk_retain_partial t
     \<and> tk_created_at u = tk_created_at t \<and> tk_owner_epoch t \<le> tk_owner_epoch u
     \<and> (row_readable t \<longrightarrow> row_readable u)"

definition row_calm :: "task_row \<Rightarrow> task_row \<Rightarrow> bool" where
  "row_calm t u \<longleftrightarrow> row_keeps t u \<and> (unfinished (tk_phase u) \<longrightarrow> unfinished (tk_phase t))
                    \<and> (occupies (tk_phase u) \<longrightarrow> occupies (tk_phase t))"

abbreviation calm :: "store \<Rightarrow> store \<Rightarrow> bool" where
  "calm s s' \<equiv> list_all2 row_calm (tasks s) (tasks s')"

lemma row_calm_refl [simp]: "row_calm t t"
  by (simp add: row_calm_def row_keeps_def)

lemma calm_same [simp]: "list_all2 row_calm xs xs"
  by (simp add: list_all2_same)

lemma row_calm_trans: "row_calm t u \<Longrightarrow> row_calm u v \<Longrightarrow> row_calm t v"
  by (auto simp: row_calm_def row_keeps_def)

lemma calm_trans: "list_all2 row_calm xs ys \<Longrightarrow> list_all2 row_calm ys zs \<Longrightarrow> list_all2 row_calm xs zs"
  by (rule list_all2_trans [of row_calm row_calm row_calm]) (auto intro: row_calm_trans)

lemma readable_frame [simp]:
  "row_readable (t\<lparr>tk_phase := v0\<rparr>) = row_readable t"
  "row_readable (t\<lparr>tk_outcome := v1\<rparr>) = row_readable t"
  "row_readable (t\<lparr>tk_completed_at := v2\<rparr>) = row_readable t"
  "row_readable (t\<lparr>tk_failure_code := v3\<rparr>) = row_readable t"
  "row_readable (t\<lparr>tk_failure_message := v4\<rparr>) = row_readable t"
  "row_readable (t\<lparr>tk_turn_state := v5\<rparr>) = row_readable t"
  "row_readable (t\<lparr>tk_closed_at := v6\<rparr>) = row_readable t"
  "row_readable (t\<lparr>tk_close_requested := v7\<rparr>) = row_readable t"
  "row_readable (t\<lparr>tk_stop_requested := v8\<rparr>) = row_readable t"
  "row_readable (t\<lparr>tk_owner_id := v9\<rparr>) = row_readable t"
  "row_readable (t\<lparr>tk_lease_expires_at := v10\<rparr>) = row_readable t"
  "row_readable (t\<lparr>tk_reaped_at := v11\<rparr>) = row_readable t"
  "row_readable (t\<lparr>tk_started_at := v12\<rparr>) = row_readable t"
  "row_readable (t\<lparr>tk_last_heartbeat_at := v13\<rparr>) = row_readable t"
  "row_readable (t\<lparr>tk_zcode_session_id := v14\<rparr>) = row_readable t"
  "row_readable (t\<lparr>tk_runtime_agent_id := v15\<rparr>) = row_readable t"
  by (simp_all add: row_readable_def stored_identity_def cong: option.case_cong)

lemma readable_numbers:
  "row_readable t \<Longrightarrow> 0 \<le> n \<Longrightarrow> row_readable (t\<lparr>tk_last_event_seq := n\<rparr>)"
  "row_readable t \<Longrightarrow> row_readable (t\<lparr>tk_owner_epoch := tk_owner_epoch t + 1\<rparr>)"
  "row_readable t \<Longrightarrow> row_readable (t\<lparr>tk_pid := None, tk_process_group_id := None,
     tk_process_uid := None, tk_process_start_token := None\<rparr>)"
  by (simp_all add: row_readable_def stored_identity_def cong: option.case_cong)

lemmas row_calm_defs = row_calm_def row_keeps_def unfinished_def occupies_def

lemma apply_terminal_calm:
  assumes "apply_terminal now a e p c st tm s = Inr (outc, s')"
  shows "calm s s'"
  using assms
  by (auto simp: apply_terminal_def Let_def insert_ledger_Inr row_calm_defs split: if_splits intro!: list_all2_update_where)

lemma mark_running_calm:
  assumes "mark_session_running now a e rid ident sid turn s = Inr (r, s')"
    and "\<forall>i. ident = Some i \<longrightarrow> int (spi_pid i) \<le> u32_max \<and> int (spi_uid i) \<le> u32_max
          \<and> -2147483648 \<le> spi_process_group_id i \<and> spi_process_group_id i \<le> 2147483647"
  shows "calm s s'"
  using assms
  by (auto simp: mark_session_running_def Let_def insert_ledger_Inr row_calm_defs row_readable_def
      stored_identity_def split: if_splits option.splits intro!: list_all2_update_where)

lemma append_lifecycle_calm:
  assumes "append_lifecycle now w s = Inr (q, s')"
  shows "calm s s'"
proof (cases "s' = s")
  case False
  define upd where "upd = (\<lambda>n (t::task_row). t\<lparr>tk_last_event_seq := n, tk_last_heartbeat_at := Some now,
        tk_turn_state := coalesce (lw_turn_state w) (tk_turn_state t)\<rparr>)"
  have "row_calm t (upd n t)" if "0 \<le> n" for n t
    using readable_numbers(1) that by (auto simp: row_calm_defs upd_def)
  then have step: "list_all2 row_calm (tasks s)
      (update_where (\<lambda>t. tk_agent_id t = lw_agent_id w) (upd n) (tasks s))" if "0 \<le> n" for n
    using that by (intro list_all2_update_where) auto
  obtain t where t: "task_row_of s (lw_agent_id w) = Some t"
    using assms False by (auto simp: append_lifecycle_def query_guard_Inr split: option.splits)
  let ?n = "tk_last_event_seq t + 1"
  have "0 \<le> ?n \<and> list_all2 row_calm
      (update_where (\<lambda>t. tk_agent_id t = lw_agent_id w) (upd ?n) (tasks s)) (tasks s')"
    using assms False t
    by (auto simp: append_lifecycle_def Let_def upd_def dest!: apply_terminal_calm
        split: option.splits if_splits)
  then show ?thesis using step calm_trans by blast
qed simp

lemma transition_terminal_calm: "transition_terminal now a e tm s = Inr (r, s') \<Longrightarrow> calm s s'"
  by (auto simp: transition_terminal_def split: if_splits dest: apply_terminal_calm)

lemma keys_row: "keys_ok s \<Longrightarrow> x \<in> set (tasks s) \<Longrightarrow> task_row_of s (tk_agent_id x) = Some x"
  by (auto simp: task_row_of_def keys_ok_def intro: find_distinct)

lemma request_stop_calm:
  assumes "keys_ok s" and "request_stop_internal now a close cancel s = Inr (d, s')"
  shows "calm s s'"
proof -
  obtain t where t: "task_row_of s a = Some t" "0 \<le> tk_owner_epoch t"
    using assms(2) by (auto simp: request_stop_internal_def query_guard_Inr)
  define upd where "upd = (\<lambda>p (t::task_row). t\<lparr>tk_phase := p,
      tk_close_requested := (close \<or> tk_close_requested t),
      tk_stop_requested := (cancel \<or> tk_stop_requested t),
      tk_closed_at := (if close then Some (coalesce (tk_closed_at t) now) else tk_closed_at t)\<rparr>)"
  let ?p = "if tk_phase t = Terminal then Terminal else Cancelling"
  have "tasks s' = update_where (\<lambda>t. tk_agent_id t = a) (upd ?p) (tasks s)"
    using assms(2) query_guard_row [OF t]
    by (auto simp: request_stop_internal_def Let_def insert_ledger_Inr upd_def split: if_splits)
  moreover have "row_calm t (upd ?p t)"
    by (auto simp: upd_def row_calm_defs)
       (metis task_phase.exhaust)
  moreover have "x = t" if "x \<in> set (tasks s)" "tk_agent_id x = a" for x
    using keys_row [OF assms(1)] that t by fastforce
  ultimately show ?thesis by (auto intro!: list_all2_update_where)
qed

lemma reap_calm: "reap_task now a s = Inr (outc, s') \<Longrightarrow> calm s s'"
  by (auto simp: reap_task_def Let_def query_guard_Inr row_calm_defs
      split: if_splits intro!: list_all2_update_where)

lemma store_result_calm:
  assumes "store_task_result_with_patch env now a result patch s = Inr (u, s')"
  shows "calm s s'"
  using assms
proof (cases rule: store_task_result_cases)
  case (published tr x upd outc)
  then show ?thesis using apply_terminal_calm by fastforce
qed simp

lemma message_ops_tasks:
  "insert_message now m a mode c s = Inr (r, s') \<Longrightarrow> tasks s' = tasks s"
  "claim_next_message a s = Inr (r', s') \<Longrightarrow> tasks s' = tasks s"
  "complete_message now m tn s = Inr (r, s') \<Longrightarrow> tasks s' = tasks s"
  "fail_message m c tx s = Inr (r, s') \<Longrightarrow> tasks s' = tasks s"
  "claim_pending_response_if_accepting a q d ct s = Inr (rc, s') \<Longrightarrow> tasks s' = tasks s"
  "release_pending_response a q s = Inr (r, s') \<Longrightarrow> tasks s' = tasks s"
  by (auto simp: insert_message_def claim_next_message_def complete_message_def fail_message_def Let_def
      claim_pending_response_if_accepting_def release_pending_response_def split: if_splits option.splits)

lemma insert_pending_calm: "insert_pending_request now q a c ty p s = Inr (r, s') \<Longrightarrow> calm s s'"
  by (auto simp: insert_pending_request_def Let_def insert_ledger_Inr row_calm_defs split: if_splits intro!: list_all2_update_where)

lemma complete_pending_calm: "complete_pending_response now a q s = Inr (r, s') \<Longrightarrow> calm s s'"
  by (auto simp: complete_pending_response_def Let_def insert_ledger_Inr row_calm_defs split: if_splits intro!: list_all2_update_where)

section \<open>Submission, claims and resumption\<close>

lemma claim_next_rows:
  assumes "store_ok s" and "claim_next now own g lim s = Inr (r, s')"
  shows "s' = s \<or> (\<exists>cand. claimable s (int lim) cand \<and> cand \<in> set (tasks s)
     \<and> list_all2 (\<lambda>t u. row_keeps t u \<and> (unfinished (tk_phase u) \<longrightarrow> unfinished (tk_phase t))
          \<and> (occupies (tk_phase u) \<longrightarrow> occupies (tk_phase t) \<or> t = cand)) (tasks s) (tasks s'))"
  using assms
proof (cases rule: claim_next_cases)
  case (claimed cand s1 epoch)
  have "claimable s (int lim) cand \<and> cand \<in> set (tasks s)"
    using claimed(1) first_by_Some(1) by fastforce
  moreover have uniq: "x = cand" if "x \<in> set (tasks s)" "tk_agent_id x = tk_agent_id cand" for x
    using keys_row [of s] that claimed(2) assms(1) by (fastforce simp: store_ok_iff)
  have keeps: "row_keeps x x" "row_keeps x (x\<lparr>tk_phase := Preparing, tk_owner_id := Some own,
      tk_owner_epoch := tk_owner_epoch x + 1, tk_started_at := Some (coalesce (tk_started_at x) now),
      tk_last_heartbeat_at := Some now\<rparr>)" for x
    by (auto simp: row_keeps_def row_readable_def stored_identity_def cong: option.case_cong)
  have "list_all2 (\<lambda>t u. row_keeps t u \<and> (unfinished (tk_phase u) \<longrightarrow> unfinished (tk_phase t))
          \<and> (occupies (tk_phase u) \<longrightarrow> occupies (tk_phase t) \<or> t = cand)) (tasks s) (tasks s')"
    unfolding insert_ledger_view(3) [OF claimed(5)] claimed(4)
    using uniq keeps by (auto simp: unfinished_def intro!: list_all2_update_where split: if_splits)
  ultimately show ?thesis by blast
qed simp

lemma requeue_rows:
  assumes "store_ok s" and "requeue_task_for_resume_with_message now a m c s = Inr (r, s')"
  shows "list_all2 (\<lambda>t u. row_keeps t u \<and> (occupies (tk_phase u) \<longrightarrow> occupies (tk_phase t))
       \<and> (unfinished (tk_phase u) \<longrightarrow> unfinished (tk_phase t) \<or> tk_agent_id t = a)) (tasks s) (tasks s')"
    and "\<exists>t. task_row_of s a = Some t \<and> (\<forall>x\<in>set (tasks s). tk_workspace_path x = tk_workspace_path t
       \<and> tk_agent_id x \<noteq> a \<longrightarrow> \<not> unfinished (tk_phase x))"
proof -
  obtain t where t: "task_row_of s a = Some t" "tk_phase t = Terminal"
    using assms(2) by (auto simp: requeue_task_for_resume_with_message_def split: if_splits)
  have rk: "row_keeps t (requeued t)" for t
    using readable_numbers(1) [of _ 0] readable_numbers(3)
    by (auto simp: row_keeps_def requeued_def)
  have ts: "tasks s' = update_where (\<lambda>t. tk_agent_id t = a \<and> tk_phase t = Terminal) requeued (tasks s)"
    using assms(2) t
    by (auto simp: requeue_task_for_resume_with_message_def Let_def insert_ledger_Inr
        split: if_splits option.splits)
  show "list_all2 (\<lambda>t u. row_keeps t u \<and> (occupies (tk_phase u) \<longrightarrow> occupies (tk_phase t))
       \<and> (unfinished (tk_phase u) \<longrightarrow> unfinished (tk_phase t) \<or> tk_agent_id t = a)) (tasks s) (tasks s')"
    unfolding ts
  proof (intro list_all2_update_where)
    fix x
    have "row_keeps x x" by (simp add: row_keeps_def)
    then show "row_keeps x (if tk_agent_id x = a \<and> tk_phase x = Terminal then requeued x else x) \<and>
      (occupies (tk_phase (if tk_agent_id x = a \<and> tk_phase x = Terminal then requeued x else x)) \<longrightarrow> occupies (tk_phase x)) \<and>
      (unfinished (tk_phase (if tk_agent_id x = a \<and> tk_phase x = Terminal then requeued x else x)) \<longrightarrow>
        unfinished (tk_phase x) \<or> tk_agent_id x = a)"
      using rk [of x] by (auto simp: occupies_def requeued_def)
  qed
  have "filter (\<lambda>x. tk_workspace_path x = tk_workspace_path t \<and> tk_agent_id x \<noteq> a
      \<and> unfinished (tk_phase x)) (tasks s) = []"
    using assms(2) t
    by (auto simp: requeue_task_for_resume_with_message_def split: if_splits option.splits)
  then show "\<exists>t. task_row_of s a = Some t \<and> (\<forall>x\<in>set (tasks s). tk_workspace_path x = tk_workspace_path t
       \<and> tk_agent_id x \<noteq> a \<longrightarrow> \<not> unfinished (tk_phase x))"
    using t by (auto simp: filter_empty_conv)
qed

text \<open>Arguments in the range of their Rust types.\<close>

fun op_typed :: "store_op \<Rightarrow> bool" where
  "op_typed (MarkRunning a e rid (Some i) sid turn) \<longleftrightarrow>
     int (spi_pid i) \<le> u32_max \<and> int (spi_uid i) \<le> u32_max
     \<and> -2147483648 \<le> spi_process_group_id i \<and> spi_process_group_id i \<le> 2147483647"
| "op_typed _ \<longleftrightarrow> True"

lemma run_op_calm:
  assumes "store_ok s" and "op_typed op"
    and "\<And>t. op \<noteq> Enqueue t" and "\<And>own g lim. op \<noteq> ClaimNext own g lim" and "\<And>a m c. op \<noteq> Requeue a m c"
  shows "calm s (run_op env now op s)"
proof (cases op)
  case (MarkRunning a e rid ident sid turn)
  have "\<forall>i. ident = Some i \<longrightarrow> int (spi_pid i) \<le> u32_max \<and> int (spi_uid i) \<le> u32_max
          \<and> -2147483648 \<le> spi_process_group_id i \<and> spi_process_group_id i \<le> 2147483647"
    using assms(2) MarkRunning by auto
  then show ?thesis
    unfolding MarkRunning by (auto intro!: committedE [where P = "calm s"] dest: mark_running_calm)
qed (use assms in \<open>auto intro!: committedE [where P = "calm s"] simp: store_ok_iff
       fail_claim_def request_close_def request_stop_def request_runtime_stop_def message_ops_tasks
       dest: append_lifecycle_calm transition_terminal_calm request_stop_calm reap_calm
         store_result_calm insert_pending_calm complete_pending_calm message_ops_tasks\<close>)

lemma enqueue_rows:
  assumes "enqueue_task_authoritative env now task s = Inr (r, s')"
  shows "s' = s \<or> (\<exists>budget. resolve_effective_budget (nt_budget task) = Inr budget
     \<and> tasks s' = tasks s @ [queued_row env now task budget]
     \<and> (direct_submission env task \<longrightarrow> workspace_holder s (nt_workspace_path task) (nt_repository task) = None))"
  using assms
proof (cases rule: enqueue_cases)
  case (created budget)
  then have "tasks s' = tasks s @ [queued_row env now task budget]"
    by (auto simp: insert_queued_def Let_def insert_ledger_Inr)
  then show ?thesis using created by blast
qed simp

lemma queued_row_readable [simp]: "row_readable (queued_row env now task budget)"
  by (simp add: row_readable_def stored_identity_def queued_row_def)

section \<open>Every row stays readable, and submissions never change\<close>

definition rows_extend :: "store \<Rightarrow> store \<Rightarrow> bool" where
  "rows_extend s s' \<longleftrightarrow> (\<exists>new. list_all2 row_keeps (tasks s) (take (length (tasks s)) (tasks s'))
      \<and> drop (length (tasks s)) (tasks s') = new \<and> list_all row_readable new)"

lemma rows_extend_keep:
  assumes "list_all2 R (tasks s) (tasks s')" and "\<And>t u. R t u \<Longrightarrow> row_keeps t u"
  shows "rows_extend s s'"
proof -
  have "list_all2 row_keeps (tasks s) (tasks s')" using assms by (rule list_all2_mono)
  moreover have "length (tasks s') = length (tasks s)" using assms(1) by (simp add: list_all2_lengthD)
  ultimately show ?thesis by (simp add: rows_extend_def)
qed

lemma run_op_rows_extend:
  assumes "store_ok s" and "op_typed op"
  shows "rows_extend s (run_op env now op s)"
proof -
  have same: "rows_extend s s"
    by (rule rows_extend_keep [where R = row_calm]) (simp_all add: row_calm_def)
  consider (enq) t where "op = Enqueue t" | (claim) own g lim where "op = ClaimNext own g lim"
    | (req) a m c where "op = Requeue a m c"
    | (other) "\<And>t. op \<noteq> Enqueue t" "\<And>own g lim. op \<noteq> ClaimNext own g lim" "\<And>a m c. op \<noteq> Requeue a m c"
    by blast
  then show ?thesis
  proof cases
    case enq
    have "list_all2 row_keeps (tasks s) (tasks s)"
      by (intro list_all2_same) (simp add: row_keeps_def)
    then show ?thesis
      unfolding enq run_op.simps
      by (intro committedE [where P = "rows_extend s"] same)
         (auto dest!: enqueue_rows simp: rows_extend_def)
  next
    case claim
    have "rows_extend s s'" if "claim_next now own g lim s = Inr (r, s')" for r s'
      using claim_next_rows [OF assms(1) that] same by (auto elim!: rows_extend_keep)
    then show ?thesis
      unfolding claim run_op.simps by (intro committedE [where P = "rows_extend s"] same)
  next
    case req
    have "rows_extend s s'" if "requeue_task_for_resume_with_message now a m c s = Inr (r, s')" for r s'
      using requeue_rows(1) [OF assms(1) that] by (auto elim!: rows_extend_keep)
    then show ?thesis
      unfolding req run_op.simps by (intro committedE [where P = "rows_extend s"] same)
  next
    case other
    then have "calm s (run_op env now op s)" using assms by (intro run_op_calm) auto
    then show ?thesis by (rule rows_extend_keep) (simp add: row_calm_def)
  qed
qed

inductive typed_step :: "store_env \<Rightarrow> store \<Rightarrow> store \<Rightarrow> bool" for env where
  "op_typed op \<Longrightarrow> typed_step env s (run_op env now op s)"

definition readable_ok :: "store \<Rightarrow> bool" where
  "readable_ok s \<longleftrightarrow> store_ok s \<and> list_all row_readable (tasks s)"

lemma rows_extend_readable:
  assumes "rows_extend s s'" and "list_all row_readable (tasks s)"
  shows "list_all row_readable (tasks s')"
proof -
  have "list_all2 row_keeps xs ys \<Longrightarrow> list_all row_readable xs \<Longrightarrow> list_all row_readable ys" for xs ys
    by (induction rule: list_all2_induct) (auto simp: row_keeps_def)
  then have "list_all row_readable (take (length (tasks s)) (tasks s'))"
      "list_all row_readable (drop (length (tasks s)) (tasks s'))"
    using assms by (auto simp: rows_extend_def)
  then show ?thesis by (metis append_take_drop_id list_all_append)
qed

interpretation readable: inv_system "typed_step env" readable_ok for env
proof unfold_locales
  fix s s' assume inv: "readable_ok s" and step: "typed_step env s s'"
  then obtain now op where op: "op_typed op" "s' = run_op env now op s" by (auto elim: typed_step.cases)
  have "store_ok s'"
    using inv op(2) by (auto simp: readable_ok_def intro: tables.preserved [of _ env] store_step.op)
  then show "readable_ok s'"
    using inv op rows_extend_readable [OF run_op_rows_extend [of s op env now]]
    by (simp add: readable_ok_def)
qed

section \<open>Workspace exclusion\<close>

definition exclusive :: "store \<Rightarrow> bool" where
  "exclusive s \<longleftrightarrow> store_ok s \<and> (\<forall>t\<in>set (tasks s). tk_workspace_path t = tk_repository t)
     \<and> (\<forall>t\<in>set (tasks s). \<forall>u\<in>set (tasks s). unfinished (tk_phase t) \<and> unfinished (tk_phase u)
          \<and> tk_workspace_path t = tk_workspace_path u \<longrightarrow> tk_agent_id t = tk_agent_id u)"

inductive direct_step :: "store_env \<Rightarrow> store \<Rightarrow> store \<Rightarrow> bool" for env where
  "op_typed op \<Longrightarrow> (\<And>t. op = Enqueue t \<Longrightarrow> direct_submission env t) \<Longrightarrow> direct_step env s (run_op env now op s)"

lemma list_all2_pre: "list_all2 R xs ys \<Longrightarrow> y \<in> set ys \<Longrightarrow> \<exists>x\<in>set xs. R x y"
  by (induction rule: list_all2_induct) auto

lemma exclusive_keeps:
  assumes "exclusive s" and "store_ok s'"
    and rel: "list_all2 (\<lambda>t u. row_keeps t u \<and> (unfinished (tk_phase u) \<longrightarrow> unfinished (tk_phase t)
        \<or> tk_agent_id t = a)) (tasks s) (tasks s')"
    and hold: "\<And>t x. t \<in> set (tasks s) \<Longrightarrow> x \<in> set (tasks s) \<Longrightarrow> tk_agent_id t = a \<Longrightarrow>
        tk_workspace_path x = tk_workspace_path t \<Longrightarrow> unfinished (tk_phase x) \<Longrightarrow> tk_agent_id x = a"
  shows "exclusive s'"
proof -
  have pre: "\<exists>x\<in>set (tasks s). row_keeps x y \<and> (unfinished (tk_phase y) \<longrightarrow> unfinished (tk_phase x)
      \<or> tk_agent_id x = a)" if "y \<in> set (tasks s')" for y
    by (rule list_all2_pre [OF rel that])
  have ws: "tk_workspace_path y = tk_repository y" if y: "y \<in> set (tasks s')" for y
  proof -
    obtain x where "x \<in> set (tasks s)" "row_keeps x y" using pre [OF y] by blast
    moreover from this have "tk_workspace_path x = tk_repository x"
      using assms(1) unfolding exclusive_def by blast
    ultimately show ?thesis by (simp add: row_keeps_def)
  qed
  have excl: "tk_agent_id y = tk_agent_id z"
    if y: "y \<in> set (tasks s')" "unfinished (tk_phase y)" and z: "z \<in> set (tasks s')" "unfinished (tk_phase z)"
      and w: "tk_workspace_path y = tk_workspace_path z" for y z
  proof -
    obtain y0 where y0: "y0 \<in> set (tasks s)" "row_keeps y0 y" "unfinished (tk_phase y0) \<or> tk_agent_id y0 = a"
      using pre [OF y(1)] y(2) by blast
    obtain z0 where z0: "z0 \<in> set (tasks s)" "row_keeps z0 z" "unfinished (tk_phase z0) \<or> tk_agent_id z0 = a"
      using pre [OF z(1)] z(2) by blast
    have w0: "tk_workspace_path y0 = tk_workspace_path z0"
      using w y0(2) z0(2) by (simp add: row_keeps_def)
    have "tk_agent_id y0 = tk_agent_id z0"
    proof (cases "unfinished (tk_phase y0) \<and> unfinished (tk_phase z0)")
      case True
      then show ?thesis using assms(1) y0(1) z0(1) w0 unfolding exclusive_def by blast
    next
      case False
      then show ?thesis using y0 z0 w0 hold [of y0 z0] hold [of z0 y0] by metis
    qed
    then show ?thesis using y0(2) z0(2) by (simp add: row_keeps_def)
  qed
  show ?thesis using assms(2) ws excl unfolding exclusive_def by blast
qed

lemma exclusive_unchanged:
  assumes "exclusive s" and "store_ok s'"
    and "list_all2 (\<lambda>t u. row_keeps t u \<and> (unfinished (tk_phase u) \<longrightarrow> unfinished (tk_phase t))) (tasks s) (tasks s')"
  shows "exclusive s'"
proof -
  obtain a where fresh: "a \<notin> tk_agent_id ` set (tasks s)"
    using ex_new_if_finite [OF infinite_UNIV_listI, of "tk_agent_id ` set (tasks s)"] by auto
  have "list_all2 (\<lambda>t u. row_keeps t u \<and> (unfinished (tk_phase u) \<longrightarrow> unfinished (tk_phase t)
      \<or> tk_agent_id t = a)) (tasks s) (tasks s')"
    by (rule list_all2_mono [OF assms(3)]) blast
  then show ?thesis
    by (rule exclusive_keeps [OF assms(1,2)]) (use fresh in blast)
qed

lemma exclusive_enqueue:
  assumes "exclusive s" and "store_ok s'" and "direct_submission env task"
    and "tasks s' = tasks s @ [queued_row env now task budget]"
    and "workspace_holder s (nt_workspace_path task) (nt_repository task) = None"
  shows "exclusive s'"
proof -
  let ?q = "queued_row env now task budget"
  have q: "tk_workspace_path ?q = nt_workspace_path task" "tk_repository ?q = nt_repository task"
      "nt_workspace_path task = nt_repository task"
    using assms(3) by (auto simp: queued_row_def direct_submission_def)
  have free: "\<not> unfinished (tk_phase x)" if "x \<in> set (tasks s)" "tk_workspace_path x = nt_workspace_path task" for x
    using assms(1,5) that q(3) by (auto simp: workspace_holder_def filter_empty_conv exclusive_def)
  have "\<forall>t\<in>set (tasks s'). tk_workspace_path t = tk_repository t"
    using assms(1,4) q by (auto simp: exclusive_def)
  moreover have "tk_agent_id t = tk_agent_id u" if "t \<in> set (tasks s')" "u \<in> set (tasks s')"
      "unfinished (tk_phase t)" "unfinished (tk_phase u)" "tk_workspace_path t = tk_workspace_path u" for t u
  proof (cases "t = ?q \<or> u = ?q")
    case True
    then show ?thesis using that assms(4) q free [of t] free [of u] by auto
  next
    case False
    then have "t \<in> set (tasks s)" "u \<in> set (tasks s)" using that assms(4) by auto
    then show ?thesis using assms(1) that unfolding exclusive_def by blast
  qed
  ultimately show ?thesis using assms(2) unfolding exclusive_def by blast
qed

interpretation workspaces: inv_system "direct_step env" exclusive for env
proof unfold_locales
  fix s s' assume inv: "exclusive s" and step: "direct_step env s s'"
  then obtain now op where op: "op_typed op" "s' = run_op env now op s"
      "\<And>t. op = Enqueue t \<Longrightarrow> direct_submission env t"
    by (auto elim: direct_step.cases)
  have ok: "store_ok s" using inv by (simp add: exclusive_def)
  have ok': "store_ok s'"
    using ok op(2) by (auto intro: tables.preserved [of _ env] store_step.op)
  consider (enq) t where "op = Enqueue t" | (claim) own g lim where "op = ClaimNext own g lim"
    | (req) a m c where "op = Requeue a m c"
    | (other) "\<And>t. op \<noteq> Enqueue t" "\<And>own g lim. op \<noteq> ClaimNext own g lim" "\<And>a m c. op \<noteq> Requeue a m c"
    by blast
  then show "exclusive s'"
  proof cases
    case enq
    have "exclusive s1" if "enqueue_task_authoritative env now t s = Inr (r, s1)" "store_ok s1" for r s1
      using enqueue_rows [OF that(1)] exclusive_enqueue [OF inv that(2)] op(3) [OF enq] inv by auto
    then show ?thesis
      using ok' inv unfolding op(2) enq run_op.simps committed_def by (auto split: sum.splits)
  next
    case claim
    have "exclusive s1" if cl: "claim_next now own g lim s = Inr (r, s1)" and o1: "store_ok s1" for r s1
    proof (cases "s1 = s")
      case False
      then obtain cand where "list_all2 (\<lambda>t u. row_keeps t u \<and> (unfinished (tk_phase u) \<longrightarrow> unfinished (tk_phase t))
          \<and> (occupies (tk_phase u) \<longrightarrow> occupies (tk_phase t) \<or> t = cand)) (tasks s) (tasks s1)"
        using claim_next_rows [OF ok cl] by blast
      then have "list_all2 (\<lambda>t u. row_keeps t u \<and> (unfinished (tk_phase u) \<longrightarrow> unfinished (tk_phase t)))
          (tasks s) (tasks s1)"
        by (rule list_all2_mono) simp
      then show ?thesis
        by (rule exclusive_unchanged [OF inv o1])
    qed (use inv in simp)
    then show ?thesis
      using ok' inv unfolding op(2) claim run_op.simps committed_def by (auto split: sum.splits)
  next
    case req
    have "exclusive s1" if rq: "requeue_task_for_resume_with_message now a m c s = Inr (r, s1)" and o1: "store_ok s1" for r s1
    proof -
      obtain t where t: "task_row_of s a = Some t" "\<forall>x\<in>set (tasks s). tk_workspace_path x = tk_workspace_path t
           \<and> tk_agent_id x \<noteq> a \<longrightarrow> \<not> unfinished (tk_phase x)"
        using requeue_rows(2) [OF ok rq] by blast
      show ?thesis
      proof (rule exclusive_keeps [OF inv o1])
        show "list_all2 (\<lambda>t u. row_keeps t u \<and> (unfinished (tk_phase u) \<longrightarrow> unfinished (tk_phase t)
            \<or> tk_agent_id t = a)) (tasks s) (tasks s1)"
          by (rule list_all2_mono [OF requeue_rows(1) [OF ok rq]]) simp
        show "tk_agent_id x = a" if "t' \<in> set (tasks s)" "x \<in> set (tasks s)" "tk_agent_id t' = a"
            "tk_workspace_path x = tk_workspace_path t'" "unfinished (tk_phase x)" for t' x
          using that t keys_row [of s t'] ok by (auto simp: store_ok_iff)
      qed
    qed
    then show ?thesis
      using ok' inv unfolding op(2) req run_op.simps committed_def by (auto split: sum.splits)
  next
    case other
    then have "calm s s'" unfolding op(2) by (intro run_op_calm ok op(1))
    then have "list_all2 (\<lambda>t u. row_keeps t u \<and> (unfinished (tk_phase u) \<longrightarrow> unfinished (tk_phase t))) (tasks s) (tasks s')"
      by (rule list_all2_mono) (simp add: row_calm_def)
    then show ?thesis by (rule exclusive_unchanged [OF inv ok'])
  qed
qed

section \<open>Capacity of a repository\<close>

definition holding :: "store \<Rightarrow> string \<Rightarrow> nat" where
  "holding s repo = count_where (\<lambda>t. tk_repository t = repo \<and> occupies (tk_phase t)) (tasks s)"

definition within :: "nat \<Rightarrow> store \<Rightarrow> bool" where
  "within lim s \<longleftrightarrow> store_ok s \<and> (\<forall>repo. holding s repo \<le> lim)"

inductive limited_step :: "store_env \<Rightarrow> nat \<Rightarrow> store \<Rightarrow> store \<Rightarrow> bool" for env lim where
  "op_typed op \<Longrightarrow> (\<And>own g l. op = ClaimNext own g l \<Longrightarrow> l \<le> lim) \<Longrightarrow>
     limited_step env lim s (run_op env now op s)"

lemma holding_claim:
  assumes "store_ok s" and "claim_next now own g l s = Inr (r, s')" and "l \<le> lim" and "holding s repo \<le> lim"
  shows "holding s' repo \<le> lim"
proof (cases "s' = s")
  case False
  then obtain cand where cand: "claimable s (int l) cand" "cand \<in> set (tasks s)"
    and rel: "list_all2 (\<lambda>t u. row_keeps t u \<and> (unfinished (tk_phase u) \<longrightarrow> unfinished (tk_phase t))
          \<and> (occupies (tk_phase u) \<longrightarrow> occupies (tk_phase t) \<or> t = cand)) (tasks s) (tasks s')"
    using claim_next_rows [OF assms(1,2)] by blast
  let ?p = "\<lambda>t. tk_repository t = repo \<and> occupies (tk_phase t)"
  have "holding s' repo \<le> count_where (\<lambda>t. ?p t \<or> (t = cand \<and> tk_repository cand = repo)) (tasks s)"
    unfolding holding_def by (rule count_where_list_all2 [OF rel]) (auto simp: row_keeps_def)
  also have "\<dots> \<le> holding s repo + (if tk_repository cand = repo then 1 else 0)"
  proof -
    have dist: "distinct (tasks s)"
      using assms(1) by (auto simp: store_ok_def distinct_map)
    have "count_where (\<lambda>t. ?p t \<or> (t = cand \<and> tk_repository cand = repo)) xs
        \<le> count_where ?p xs + (if tk_repository cand = repo \<and> cand \<in> set xs then 1 else 0)"
      if "distinct xs" for xs
      using that by (induction xs) (auto simp: count_where_def)
    from this [OF dist] show ?thesis by (auto simp: holding_def split: if_splits)
  qed
  also have "\<dots> \<le> lim"
  proof (cases "tk_repository cand = repo")
    case True
    have "holding s repo \<le> count_where (\<lambda>a. tk_repository a = tk_repository cand \<and> active_phase (tk_phase a)) (tasks s)"
      unfolding holding_def True [symmetric]
      by (rule count_where_list_all2 [OF list_all2_same [of _ "(=)"]])
         (auto simp: occupies_def active_phase_def)
    also have "\<dots> < l" using cand(1) by (simp add: claimable_def)
    finally show ?thesis using assms(3) True by simp
  qed (use assms(4) in simp)
  finally show ?thesis .
qed (use assms(4) in simp)

lemma holding_mono:
  assumes "list_all2 R (tasks s) (tasks s')"
    and "\<And>t u. R t u \<Longrightarrow> row_keeps t u \<and> (occupies (tk_phase u) \<longrightarrow> occupies (tk_phase t))"
  shows "holding s' repo \<le> holding s repo"
  unfolding holding_def
proof (rule count_where_list_all2 [OF assms(1)])
  show "tk_repository x = repo \<and> occupies (tk_phase x)"
    if "R x y" "tk_repository y = repo \<and> occupies (tk_phase y)" for x y
    using assms(2) [OF that(1)] that(2) by (simp add: row_keeps_def)
qed

interpretation capacity: inv_system "limited_step env lim" "within lim" for env lim
proof unfold_locales
  fix s s' assume inv: "within lim s" and step: "limited_step env lim s s'"
  then obtain now op where op: "op_typed op" "s' = run_op env now op s"
      "\<And>own g l. op = ClaimNext own g l \<Longrightarrow> l \<le> lim"
    by (auto elim: limited_step.cases)
  have ok: "store_ok s" and le: "holding s repo \<le> lim" for repo
    using inv by (simp_all add: within_def)
  have ok': "store_ok s'"
    using ok op(2) by (auto intro: tables.preserved [of _ env] store_step.op)
  have "holding s' repo \<le> lim" for repo
  proof -
    consider (enq) t where "op = Enqueue t" | (claim) own g l where "op = ClaimNext own g l"
      | (req) a m c where "op = Requeue a m c"
      | (other) "\<And>t. op \<noteq> Enqueue t" "\<And>own g lim. op \<noteq> ClaimNext own g lim" "\<And>a m c. op \<noteq> Requeue a m c"
      by blast
    then show ?thesis
    proof cases
      case enq
      have "holding s1 repo \<le> lim" if "enqueue_task_authoritative env now t s = Inr (r, s1)" for r s1
        using enqueue_rows [OF that] le [of repo]
        by (auto simp: holding_def count_where_def queued_row_def occupies_def)
      then show ?thesis
        unfolding op(2) enq run_op.simps by (intro committedE [where P = "\<lambda>s. holding s repo \<le> lim"] le)
    next
      case claim
      then show ?thesis
        unfolding op(2) claim run_op.simps
        using holding_claim [OF ok _ op(3) [OF claim] le]
        by (intro committedE [where P = "\<lambda>s. holding s repo \<le> lim"] le)
    next
      case req
      have "holding s1 repo \<le> lim"
        if "requeue_task_for_resume_with_message now a m c s = Inr (r, s1)" for r s1
        using holding_mono [OF requeue_rows(1) [OF ok that], of repo] le [of repo] by fastforce
      then show ?thesis
        unfolding op(2) req run_op.simps by (intro committedE [where P = "\<lambda>s. holding s repo \<le> lim"] le)
    next
      case other
      then have "calm s s'" unfolding op(2) by (intro run_op_calm ok op(1))
      then have "holding s' repo \<le> holding s repo"
        by (rule holding_mono) (simp add: row_calm_def)
      then show ?thesis using le [of repo] by linarith
    qed
  qed
  then show "within lim s'" using ok' by (simp add: within_def)
qed

end
