(* ===== verification/Store_Props.thy ===== *)
theory Store_Props
  imports Store_Rows
begin

text \<open>
  What the store promises its clients, as properties of runs from the empty database and of
  single operations. The inputs \<open>demo_env\<close>, \<open>demo_task\<close> and \<open>demo_result\<close> are the concrete
  instances on which the properties with hypotheses are applied.
\<close>

section \<open>Concrete inputs\<close>

definition demo_env :: store_env where
  "demo_env = \<lparr>env_sha256 = (\<lambda>x. x),
     env_to_json = (\<lambda>j. case j of JObject ((k, JString o') # (k', JString s) # _) \<Rightarrow> o' @ s
                               | JArray (v # JString s # _) \<Rightarrow> s | _ \<Rightarrow> ''json''),
     env_parse = (\<lambda>_. Some (JObject [(''direct_workspace'', JBool True)]))\<rparr>"

definition demo_task :: "string \<Rightarrow> string \<Rightarrow> new_task" where
  "demo_task a w = \<lparr>nt_agent_id = a, nt_idempotency_key = a, nt_repository = w, nt_group_id = None,
     nt_workspace_path = w, nt_runtime_hash = None, nt_prepared_launch_json = ''l'',
     nt_prepared_launch_sha256 = ''h'', nt_initial_prompt = ''p'', nt_budget = Omitted,
     nt_retain_partial = False\<rparr>"

definition demo_result :: "task_outcome \<Rightarrow> string \<Rightarrow> task_result" where
  "demo_result outc text = \<lparr>rs_outcome = outc, rs_final_text = text, rs_partial = False,
     rs_base_commit = None, rs_head_commit = None, rs_changed_files = [], rs_diff_stat = None,
     rs_checks = [], rs_residual_gaps = [], rs_artifacts = []\<rparr>"

definition demo_write :: "nat \<Rightarrow> nat \<Rightarrow> lifecycle_write" where
  "demo_write e n = \<lparr>lw_agent_id = ''a'', lw_runtime_agent_id = ''r'', lw_owner_epoch = e,
     lw_source_sequence = n, lw_event_type = ''turn.started'', lw_turn_id = None,
     lw_payload_json = ''{}'', lw_redaction_level = ''safe'', lw_terminal = None,
     lw_turn_state = Some TurnActive\<rparr>"

definition demo_running :: "(int \<times> store_op) list" where
  "demo_running = [(1, Enqueue (demo_task ''a'' ''w'')), (2, ClaimNext ''d'' 4 2),
     (3, MarkRunning ''a'' 1 ''r'' None (Some ''sess'') None)]"

definition demo_store :: store where
  "demo_store = run_ops demo_env demo_running empty_store"

lemmas demo_defs = demo_store_def demo_running_def demo_env_def demo_task_def demo_result_def demo_write_def


lemmas exec_defs = committed_def enqueue_task_authoritative_def validate_task_def first_invalid.simps nonblank_def
  trim_def is_whitespace_def has_nul_def check_budget_def DEFAULT_BUDGET_def MAX_BUDGET_def budget_pairs_def
  MIN_RESULT_BYTES_def query_task_by_idempotency_def query_task_def task_row_of_def direct_submission_def
  workspace_holder_def insert_queued_def queued_row_def insert_ledger_def u64_to_i64_def i64_to_u64_def
  usize_to_i64_def i64_max_def u64_max_def convert_task_row_def stored_identity_def empty_store_def claim_next_def
  first_by_def claimable_def count_where_def active_phase_def mark_session_running_def coalesce_def
  task_fingerprint_def fingerprint_json_def Let_def query_guard_def

lemmas result_defs = store_task_result_with_patch_def validate_result_def validate_result_patch_def
  task_result_digest_def task_result_bytes_def result_json_def completion_blockers_tx_def apply_terminal_def
  settle_terminal_commands_def terminal_turn_state_def result_row_of_def retain_result_def

lemma demo_row:
  "map_option (\<lambda>t. (tk_phase t, tk_owner_epoch t, tk_stop_requested t, tk_close_requested t))
     (task_row_of demo_store ''a'') = Some (Running, 1, False, False)"
  by (simp add: demo_defs exec_defs)

section \<open>The contract on every run\<close>

lemma run_ops_ok: "store_ok (run_ops env ops empty_store)"
  using tables.reachable [OF run_ops_reachable store_ok_empty] .

text \<open>
  C5 (invariant): in every database a sequence of store writes other than the rollback of a failed resumption
  (\<^verbatim>\<open>restore_terminal_after_resume_failure\<close>, which can leave a message open on a terminal task) reaches from the
  empty one, a task that exists is terminal exactly when it has an outcome; a stop or close
  request only stands on a cancelling or terminal task; it waits for input exactly when it
  has an open request; a terminal task has no open message; and a stored result carries the
  task's outcome. An agent without a task row has no messages, requests, results or history.
\<close>

theorem store_contract:
  "case task_row_of (run_ops env ops empty_store) a of
     None \<Rightarrow> \<not> open_msgs (run_ops env ops empty_store) a \<and> \<not> open_reqs (run_ops env ops empty_store) a
        \<and> result_outcome (run_ops env ops empty_store) a = None \<and> trail_of (run_ops env ops empty_store) a = []
   | Some t \<Rightarrow>
       (tk_phase t = Terminal) = (tk_outcome t \<noteq> None)
       \<and> \<not> ((tk_close_requested t \<or> tk_stop_requested t) \<and> tk_phase t \<notin> {Cancelling, Terminal})
       \<and> open_reqs (run_ops env ops empty_store) a = (tk_phase t = WaitingInput)
       \<and> \<not> (open_msgs (run_ops env ops empty_store) a \<and> tk_phase t = Terminal)
       \<and> result_outcome (run_ops env ops empty_store) a \<in> {None, tk_outcome t}"
proof (cases "task_row_of (run_ops env ops empty_store) a")
  case None
  then have "view (run_ops env ops empty_store) a = absent"
    using run_ops_ok [of env ops] by (intro view_absentD) (simp_all add: store_ok_iff)
  then show ?thesis
    using None by (simp add: view_def row_view_def absent_def)
next
  case (Some t)
  note row = store_ok_row [OF run_ops_ok Some]
  show ?thesis
    using Some row(1-4) row(5) by (cases "result_outcome (run_ops env ops empty_store) a") auto
qed

text \<open>
  C1 (refinement): every store write, in every reachable state and whatever its
  arguments, is one step of the abstract agent for at most one agent id and leaves the view
  of every other agent unchanged; a write that returns an error changes nothing. (The writes
  are the public ones except \<^verbatim>\<open>restore_terminal_after_resume_failure\<close>, which does not refine the
  abstract agent.)
\<close>

theorem store_op_refines_agent:
  "\<exists>k. \<forall>j. let s = run_ops env ops empty_store; s' = run_op env now op s in
     view s' j = view s j \<or> (j = k \<and> agent_step (view s k) (view s' k))"
proof -
  let ?s = "run_ops env ops empty_store"
  obtain k where "\<forall>j. j \<noteq> k \<longrightarrow> view (run_op env now op ?s) j = view ?s j"
    and "view (run_op env now op ?s) k = view ?s k \<or> agent_step (view ?s k) (view (run_op env now op ?s) k)"
    using tables.simulates [OF run_ops_ok store_step.op] by blast
  then have "view (run_op env now op ?s) j = view ?s j
      \<or> (j = k \<and> agent_step (view ?s k) (view (run_op env now op ?s) k))" for j
    by (cases "j = k") auto
  then show ?thesis unfolding Let_def by blast
qed

text \<open>
  The lifecycle ledger of an agent is a complete history. Its entries chain
  (each starts in the phase the previous one ended in, the first from no phase) and the last
  one ends in the current phase of the task.
\<close>

theorem ledger_is_complete_history:
  "chain None (trail_of (run_ops env ops empty_store) a)
     = Some (map_option tk_phase (task_row_of (run_ops env ops empty_store) a))"
proof -
  have "agent_ok (view (run_ops env ops empty_store) a)"
    using run_ops_ok by (simp add: store_ok_iff)
  then show ?thesis by (simp add: agent_ok_def view_def row_view_def)
qed

lemma agent_step_grows:
  "agent_step v w \<Longrightarrow> prefix (av_trail v) (av_trail w) \<and> av_epoch v \<le> av_epoch w
     \<and> (av_phase w = None \<longrightarrow> av_phase v = None)"
  by (induction rule: agent_step.induct) (auto simp: enter_def absent_def)

text \<open>
  Histories only grow. Along every continuation of a run the ledger of an agent
  is extended at its end, never rewritten, its owner epoch never decreases, and an agent that
  exists keeps existing.
\<close>

theorem history_only_grows:
  "prefix (trail_of (run_ops env ops empty_store) a)
          (trail_of (run_ops env rest (run_ops env ops empty_store)) a)
   \<and> av_epoch (view (run_ops env ops empty_store) a)
      \<le> av_epoch (view (run_ops env rest (run_ops env ops empty_store)) a)
   \<and> \<not> (task_row_of (run_ops env ops empty_store) a \<noteq> None
        \<and> task_row_of (run_ops env rest (run_ops env ops empty_store)) a = None)"
proof -
  define le where "le = (\<lambda>(v::agent_view) (w::agent_view). prefix (av_trail v) (av_trail w) \<and> av_epoch v \<le> av_epoch w
     \<and> (av_phase w = None \<longrightarrow> av_phase v = None))"
  let ?s = "run_ops env ops empty_store"
  have "le (view ?s a) (view (run_ops env rest ?s) a)"
    by (rule tables.view_preorder [OF run_ops_reachable run_ops_ok])
       (auto simp: le_def dest: agent_step_grows prefix_order.trans intro: agent_step_grows)
  then show ?thesis by (auto simp: le_def view_def row_view_def)
qed

lemma agent_step_intent:
  assumes "agent_step v w" and "av_intent v" and "av_phase v = Some Cancelling"
  shows "av_intent w \<and> (av_phase w = Some Cancelling \<or> av_phase w = Some Terminal \<and> av_outcome w = Some Cancelled)"
  using assms by (induction rule: agent_step.induct) (auto simp: enter_def absent_def)

text \<open>
  Once a stop or close of an unfinished task is recorded, the task can only stay
  cancelling or end as cancelled: the next operation, whatever it is (a late result, a
  completed turn, a new claim), leaves the task in one of these two situations.
\<close>

theorem stop_request_is_final:
  assumes "task_row_of (run_ops env ops empty_store) a = Some t"
    and "tk_phase t \<noteq> Terminal" and "tk_stop_requested t \<or> tk_close_requested t"
  shows "\<exists>t'. task_row_of (run_op env now op (run_ops env ops empty_store)) a = Some t'
      \<and> (tk_stop_requested t' \<or> tk_close_requested t')
      \<and> (tk_phase t' = Cancelling \<or> tk_phase t' = Terminal \<and> tk_outcome t' = Some Cancelled)"
proof -
  let ?s = "run_ops env ops empty_store" and ?s' = "run_op env now op (run_ops env ops empty_store)"
  note vr = view_row [OF assms(1)]
  have c: "av_phase (view ?s a) = Some Cancelling" and i: "av_intent (view ?s a)"
    using store_ok_row(2) [OF run_ops_ok assms(1)] assms(2,3) vr by auto
  have "av_intent (view ?s' a) \<and> (av_phase (view ?s' a) = Some Cancelling
      \<or> av_phase (view ?s' a) = Some Terminal \<and> av_outcome (view ?s' a) = Some Cancelled)"
    using tables.local_step [OF run_ops_ok [of env ops] store_step.op [of env _ now op], of a]
      agent_step_intent c i by metis
  then show ?thesis
    by (cases "task_row_of ?s' a") (auto simp: view_def row_view_def)
qed

theorem stop_request_is_final_witness:
  "\<exists>t'. task_row_of (run_op demo_env 9 (StoreResult ''a'' (demo_result Completed ''done'') None)
       (run_ops demo_env (demo_running @ [(5, RequestStop ''a'')]) empty_store)) ''a'' = Some t'
      \<and> (tk_stop_requested t' \<or> tk_close_requested t')
      \<and> (tk_phase t' = Cancelling \<or> tk_phase t' = Terminal \<and> tk_outcome t' = Some Cancelled)"
  by (rule stop_request_is_final [where t = "the (task_row_of
        (run_ops demo_env (demo_running @ [(5, RequestStop ''a'')]) empty_store) ''a'')"])
     (simp_all add: demo_defs exec_defs request_stop_def request_stop_internal_def settle_terminal_commands_def)

section \<open>Fencing and idempotence\<close>

lemma stale_transition:
  assumes "task_row_of s a = Some t" and "tk_owner_epoch t \<noteq> int e"
  shows "committed s (transition_terminal now a e u s) = s"
  using assms
  by (auto simp: transition_terminal_def committed_def query_guard_def rbind_def i64_to_u64_def
      split: sum.splits option.splits)

lemma stale_append:
  assumes "task_row_of s a = Some t" and "tk_owner_epoch t \<noteq> int e" "lw_agent_id w = a" "lw_owner_epoch w = e"
  shows "committed s (append_lifecycle now w s) = s"
proof -
  have "nat (tk_owner_epoch t) \<noteq> e" if "0 \<le> tk_owner_epoch t"
    using assms(2) that by auto
  then show ?thesis
    using assms
    by (auto simp: append_lifecycle_def committed_def query_guard_def rbind_def i64_to_u64_def u64_to_i64_def
        split: sum.splits option.splits if_splits)
qed

lemma stale_start:
  assumes "keys_ok s" and "task_row_of s a = Some t" and "tk_owner_epoch t \<noteq> int e"
  shows "committed s (mark_session_running now a e rid ident sid turn s) = s"
proof -
  let ?hit = "\<lambda>t. tk_agent_id t = a \<and> tk_owner_epoch t = int e \<and> tk_phase t = Preparing"
  have miss: "count_where ?hit (tasks s) \<noteq> 1"
    using count_hit [OF assms(1), of a] assms(2,3) by auto
  then have "update_where ?hit f (tasks s) = tasks s" for f
    by (intro count_miss [OF assms(1)]) auto
  then show ?thesis
    using miss by (auto simp: mark_session_running_def committed_def Let_def u64_to_i64_def)
qed

text \<open>
  C25 (safety): a worker whose owner epoch is not the task's current one cannot move the task with any write that
  carries an epoch: a start, a lifecycle record with or without a terminal update, a terminal update, a
  failed claim. The tables after such a call are those before it. (Publishing a result and recording a
  permission request carry no epoch and are not covered.)
\<close>

theorem stale_epoch_is_fenced:
  assumes "store_ok s" and "task_row_of s a = Some t" and "tk_owner_epoch t \<noteq> int e"
  shows "run_op env now (TransitionTerminal a e u) s = s
     \<and> run_op env now (FailClaim a e c m) s = s
     \<and> run_op env now (MarkRunning a e rid ident sid turn) s = s
     \<and> (lw_agent_id w = a \<and> lw_owner_epoch w = e \<longrightarrow> run_op env now (AppendLifecycle w) s = s)"
  using stale_transition [OF assms(2,3)] stale_append [OF assms(2,3)] stale_start [OF _ assms(2,3)] assms(1)
  by (simp add: fail_claim_def store_ok_iff)

theorem stale_epoch_is_fenced_witness:
  "run_op demo_env 7 (FailClaim ''a'' 0 ''c'' ''m'') demo_store = demo_store
   \<and> run_op demo_env 7 (AppendLifecycle (demo_write 0 1)) demo_store = demo_store"
proof -
  obtain t where t: "task_row_of demo_store ''a'' = Some t" "tk_owner_epoch t \<noteq> int 0"
    using demo_row by auto
  have ok: "store_ok demo_store" unfolding demo_store_def by (rule run_ops_ok)
  have "lw_agent_id (demo_write 0 1) = ''a''" "lw_owner_epoch (demo_write 0 1) = 0"
    by (simp_all add: demo_write_def)
  then show ?thesis
    using stale_epoch_is_fenced [OF ok t, where w = "demo_write 0 1" and env = demo_env and now = 7
        and c = "''c''" and m = "''m''"] by metis
qed

lemma apply_terminal_frame:
  assumes "apply_terminal now a e p c st u s = Inr (outc, s')"
  shows "events s' = events s" and "task_results s' = task_results s"
  using assms
  by (auto simp: apply_terminal_def Let_def insert_ledger_Inr settle_terminal_commands_def split: if_splits)

text \<open>
  Recording a lifecycle event is idempotent on its source sequence number.
  A record that was accepted, sent again with the same agent, runtime and source sequence
  (and any other content, at any later time), returns the same ledger sequence number and
  changes nothing.
\<close>

theorem append_lifecycle_idempotent:
  assumes "append_lifecycle now w s = Inr (q, s')"
    and "lw_agent_id w' = lw_agent_id w" "lw_runtime_agent_id w' = lw_runtime_agent_id w"
    and "lw_source_sequence w' = lw_source_sequence w"
  shows "append_lifecycle now' w' s' = Inr (q, s')"
proof (cases "find (\<lambda>e. ev_agent_id e = lw_agent_id w \<and> ev_runtime_agent_id e = lw_runtime_agent_id w
    \<and> ev_source_seq e = int (lw_source_sequence w)) (events s)")
  case (Some x)
  then show ?thesis
    using assms by (auto simp: append_lifecycle_def u64_to_i64_def i64_to_u64_def split: if_splits)
next
  case None
  obtain t where t: "task_row_of s (lw_agent_id w) = Some t"
    using assms(1) None by (auto simp: append_lifecycle_def query_guard_Inr)
  let ?n = "tk_last_event_seq t + 1"
  have "0 \<le> ?n" "q = nat ?n" "lw_source_sequence w \<le> i64_max"
    "events s' = events s @ [\<lparr>ev_agent_id = lw_agent_id w, ev_runtime_agent_id = lw_runtime_agent_id w,
        ev_seq = ?n, ev_source_seq = int (lw_source_sequence w), ev_timestamp = now,
        ev_event_type = lw_event_type w, ev_turn_id = lw_turn_id w,
        ev_payload_json = lw_payload_json w, ev_redaction_level = lw_redaction_level w\<rparr>]"
    using assms(1) None t
    by (auto simp: append_lifecycle_def Let_def dest!: apply_terminal_frame(1) split: if_splits option.splits)
  then show ?thesis
    using assms(2-4) None by (simp add: append_lifecycle_def find_append u64_to_i64_def i64_to_u64_def)
qed

theorem append_lifecycle_idempotent_witness:
  "append_lifecycle 9 (demo_write 1 4) (committed demo_store (append_lifecycle 5 (demo_write 1 4) demo_store))
     = Inr (1, committed demo_store (append_lifecycle 5 (demo_write 1 4) demo_store))"
  by (rule append_lifecycle_idempotent [where now = 5 and w = "demo_write 1 4" and s = demo_store])
     (simp_all add: demo_defs exec_defs append_lifecycle_def)

text \<open>
  Enqueueing is idempotent. A submission that was accepted, repeated at any
  later time with nothing in between, is answered with the existing task and changes nothing.
\<close>

theorem enqueue_idempotent:
  assumes "store_ok s" and "enqueue_task_authoritative env now task s = Inr (r, s')"
  shows "\<exists>tr. enqueue_task_authoritative env now' task s' = Inr (SubmittedTask tr Existing, s')
      \<and> tr_agent_id tr = nt_agent_id task"
  using assms(2)
proof (cases rule: enqueue_cases)
  case existing
  then show ?thesis
    using assms(2) by (auto simp: enqueue_task_authoritative_def insert_queued_def Let_def split: option.splits if_splits)
next
  case (created budget)
  let ?row = "queued_row env now task budget"
  have none: "find (\<lambda>t. tk_idempotency_key t = nt_idempotency_key task) (tasks s) = None"
    using created(3) query_idempotency_None by blast
  have ts: "tasks s' = tasks s @ [?row]"
    using insert_queued_refines [OF assms(1) created(2) none created(5)] by simp
  have val: "validate_task task = Inr ()"
    using assms(2) by (auto simp: enqueue_task_authoritative_def)
  have row: "task_row_of s' (nt_agent_id task) = Some ?row"
    using created(2) ts by (simp add: task_row_of_def find_append queued_row_def)
  have key: "find (\<lambda>t. tk_idempotency_key t = nt_idempotency_key task) (tasks s') = Some ?row"
    using none ts by (simp add: find_append queued_row_def)
  obtain tr where tr: "convert_task_row ?row = Inr tr"
    using convert_task_row_readable [of ?row] by auto
  have "tr_agent_id tr = nt_agent_id task"
    using convert_task_row_fields(1) [OF tr] by (simp add: queued_row_def)
  moreover have "tk_agent_id ?row = nt_agent_id task"
    "tk_semantic_fingerprint ?row = task_fingerprint env task budget" by (simp_all add: queued_row_def)
  ultimately show ?thesis
    using val created(1) key row tr
    by (auto simp: enqueue_task_authoritative_def query_task_by_idempotency_def query_task_def)
qed

theorem enqueue_idempotent_witness:
  "\<exists>tr. enqueue_task_authoritative demo_env 8 (demo_task ''a'' ''w'')
        (run_ops demo_env [(1, Enqueue (demo_task ''a'' ''w''))] empty_store)
      = Inr (SubmittedTask tr Existing, run_ops demo_env [(1, Enqueue (demo_task ''a'' ''w''))] empty_store)
      \<and> tr_agent_id tr = nt_agent_id (demo_task ''a'' ''w'')"
  by (rule enqueue_idempotent [OF store_ok_empty, where now = 1 and env = demo_env and task = "demo_task ''a'' ''w''"])
     (simp add: demo_defs exec_defs)

section \<open>Results\<close>

lemma result_published:
  assumes "keys_ok s" and "store_task_result_with_patch env now a result patch s = Inr (u, s')"
  shows "\<exists>r tr. find (\<lambda>r. rr_agent_id r = a) (task_results s') = Some r
     \<and> rr_result_sha256 r = task_result_digest env (task_result_bytes env result)
     \<and> query_task s' a = Inr (Some tr)"
  using assms(2)
proof (cases rule: store_task_result_cases)
  case same
  obtain tr where "query_task s a = Inr (Some tr)"
    using assms(2) by (auto simp: store_task_result_with_patch_def Let_def)
  then show ?thesis using same by auto
next
  case (published tr x upd outc)
  let ?s2 = "s\<lparr>artifacts := x, task_results := task_results s
            @ [result_row_of env now a (tr_retain_partial tr) result]\<rparr>"
  have "task_results s' = task_results ?s2"
    by (rule apply_terminal_frame(2) [OF published(7)])
  moreover obtain t where t: "task_row_of s a = Some t" "convert_task_row t = Inr tr"
    using published(1) by (auto simp: query_task_Inr)
  have calm: "list_all2 row_calm (tasks s) (tasks s')"
    using apply_terminal_calm [OF published(7)] by simp
  have "\<exists>t'. task_row_of s' a = Some t' \<and> row_readable t'"
  proof -
    have "list_all2 row_calm xs ys \<Longrightarrow> find (\<lambda>t. tk_agent_id t = a) xs = Some t \<Longrightarrow>
        \<exists>t'. find (\<lambda>t. tk_agent_id t = a) ys = Some t' \<and> row_calm t t'" for xs ys
    proof (induction rule: list_all2_induct)
      case (Cons x xs y ys)
      have "tk_agent_id y = tk_agent_id x" using Cons.hyps(1) by (simp add: row_calm_def row_keeps_def)
      then show ?case using Cons by (cases "tk_agent_id x = a") simp_all
    qed simp
    then obtain t' where "task_row_of s' a = Some t'" "row_calm t t'"
      using calm t(1) by (auto simp: task_row_of_def)
    moreover have "row_readable t" using t(2) convert_task_row_readable by blast
    ultimately show ?thesis by (auto simp: row_calm_def row_keeps_def)
  qed
  then obtain t' tr' where "task_row_of s' a = Some t'" "convert_task_row t' = Inr tr'"
    using convert_task_row_readable by blast
  moreover have "find (\<lambda>r. rr_agent_id r = a) (task_results ?s2)
      = Some (result_row_of env now a (tr_retain_partial tr) result)"
    using published(3) by (simp add: find_append result_row_of_def)
  moreover have "rr_result_sha256 (result_row_of env now a (tr_retain_partial tr) result)
      = task_result_digest env (task_result_bytes env result)" by (simp add: result_row_of_def)
  ultimately show ?thesis
    unfolding query_task_Inr by metis
qed

text \<open>
  A published result is immutable. After a result is accepted for a task,
  publishing the same result again succeeds and changes nothing, publishing one with another
  digest is a conflict, and the stored result is what readers get.
\<close>

theorem result_is_immutable:
  assumes "store_ok s" and "store_task_result_with_patch env now a result patch s = Inr (u, s')"
  shows "store_task_result_with_patch env now' a result patch s' = Inr ((), s')
     \<and> map_option sr_result_sha256 (stored_result s' a) = Some (task_result_digest env (task_result_bytes env result))
     \<and> (task_result_digest env (task_result_bytes env other) \<noteq> task_result_digest env (task_result_bytes env result)
          \<longrightarrow> committed s' (store_task_result_with_patch env now' a other patch' s') = s'
              \<and> (\<exists>e. store_task_result_with_patch env now' a other patch' s' = Inl e))"
proof -
  obtain r tr where r: "find (\<lambda>r. rr_agent_id r = a) (task_results s') = Some r"
    "rr_result_sha256 r = task_result_digest env (task_result_bytes env result)"
    and q: "query_task s' a = Inr (Some tr)"
    using result_published [OF _ assms(2)] assms(1) by (auto simp: store_ok_iff)
  have v: "validate_result result = Inr ()" "validate_result_patch a result patch = Inr ()"
    using assms(2) by (auto simp: store_task_result_with_patch_def)
  have "\<exists>e. store_task_result_with_patch env now' a other patch' s' = Inl e"
    if "task_result_digest env (task_result_bytes env other) \<noteq> task_result_digest env (task_result_bytes env result)"
    using r q that
    by (auto simp: store_task_result_with_patch_def rbind_def Let_def split: sum.splits)
  moreover have "store_task_result_with_patch env now' a result patch s' = Inr ((), s')"
    using r q v by (simp add: store_task_result_with_patch_def)
  moreover have "map_option sr_result_sha256 (stored_result s' a) = Some (task_result_digest env (task_result_bytes env result))"
    using r by (simp add: stored_result_def query_task_result_def)
  ultimately show ?thesis by (auto simp: committed_def)
qed

theorem result_is_immutable_witness:
  "\<exists>e. store_task_result_with_patch demo_env 9 ''a'' (demo_result Completed ''other'') None
     (committed demo_store (store_task_result_with_patch demo_env 8 ''a'' (demo_result Completed ''done'') None demo_store))
     = Inl e"
proof -
  have ok: "store_ok demo_store" unfolding demo_store_def by (rule run_ops_ok)
  have run: "store_task_result_with_patch demo_env 8 ''a'' (demo_result Completed ''done'') None demo_store
      = Inr ((), committed demo_store
          (store_task_result_with_patch demo_env 8 ''a'' (demo_result Completed ''done'') None demo_store))"
    by (simp add: demo_defs exec_defs result_defs)
  have "task_result_digest demo_env (task_result_bytes demo_env (demo_result Completed ''other''))
      \<noteq> task_result_digest demo_env (task_result_bytes demo_env (demo_result Completed ''done''))"
    by (simp add: demo_defs result_defs)
  then show ?thesis
    using result_is_immutable [OF ok run, where other = "demo_result Completed ''other''" and now' = 9 and patch' = None]
    by blast
qed

text \<open>
  A task is only ever published as completed when it has settled. If publishing
  a completed result changes the store, the task had neither an open message nor an open
  request, no stop or close request stood on it, it was claimed and unfinished, and the
  serialised result is within the task's result budget.
\<close>

theorem completed_only_when_settled:
  assumes "store_task_result_with_patch env now a result patch s = Inr (u, s')"
    and "s' \<noteq> s" and "rs_outcome result = Completed"
  shows "completion_blockers s a = (False, False)
     \<and> (\<exists>t. task_row_of s a = Some t \<and> active_phase (tk_phase t)
          \<and> \<not> tk_stop_requested t \<and> \<not> tk_close_requested t
          \<and> length (task_result_bytes env result) \<le> max_result_bytes (tk_effective_budget t))"
  using assms(1)
proof (cases rule: store_task_result_cases)
  case same
  then show ?thesis using assms(2) by simp
next
  case (published tr x upd outc)
  obtain t where t: "task_row_of s a = Some t" "convert_task_row t = Inr tr"
    using published(1) by (auto simp: query_task_Inr)
  have "active_phase (tk_phase t)" "\<not> tk_stop_requested t" "\<not> tk_close_requested t"
    "length (task_result_bytes env result) \<le> max_result_bytes (tk_effective_budget t)"
    using published(4,6,8) convert_task_row_fields [OF t(2)] assms(3) by auto
  then show ?thesis using t(1) published(5) assms(3) by blast
qed

theorem completed_only_when_settled_witness:
  "completion_blockers demo_store ''a'' = (False, False)"
proof -
  let ?s' = "committed demo_store
      (store_task_result_with_patch demo_env 8 ''a'' (demo_result Completed ''done'') None demo_store)"
  have "store_task_result_with_patch demo_env 8 ''a'' (demo_result Completed ''done'') None demo_store
      = Inr ((), ?s')"
    by (simp add: demo_defs exec_defs result_defs)
  moreover have "length (ledger ?s') \<noteq> length (ledger demo_store)"
    by (simp add: demo_defs exec_defs result_defs)
  then have "?s' \<noteq> demo_store" by metis
  moreover have "rs_outcome (demo_result Completed ''done'') = Completed" by (simp add: demo_result_def)
  ultimately show ?thesis using completed_only_when_settled by blast
qed

end
