(* ===== verification/Store_Sched.thy ===== *)
theory Store_Sched
  imports Store_Props
begin

text \<open>
  Properties of scheduling, listing and command delivery: claims, workspace exclusion,
  repository capacity, pagination, readability, messages and responses, and the one
  operation that leaves the contract.
\<close>

section \<open>Exclusion and capacity\<close>

definition op_direct :: "store_env \<Rightarrow> store_op \<Rightarrow> bool" where
  "op_direct env op \<longleftrightarrow> op_typed op \<and> (case op of Enqueue t \<Rightarrow> direct_submission env t | _ \<Rightarrow> True)"

definition op_limited :: "nat \<Rightarrow> store_op \<Rightarrow> bool" where
  "op_limited lim op \<longleftrightarrow> op_typed op \<and> (case op of ClaimNext own g l \<Rightarrow> l \<le> lim | _ \<Rightarrow> True)"

lemma run_ops_rel:
  assumes "list_all (\<lambda>(now, op). q op) ops"
    and "\<And>now op s. q op \<Longrightarrow> R s (run_op env now op s)"
  shows "R\<^sup>*\<^sup>* s (run_ops env ops s)"
  using assms(1)
proof (induction ops arbitrary: s)
  case (Cons x rest)
  obtain now op where x: "x = (now, op)" by fastforce
  then have "R s (run_op env now op s)" using Cons.prems assms(2) by simp
  then show ?case
    using Cons.IH [of "run_op env now op s"] Cons.prems by (simp add: x converse_rtranclp_into_rtranclp)
qed simp

lemma empty_store_tasks [simp]: "tasks empty_store = []"
  by (simp add: empty_store_def)

text \<open>
  C26 (safety): two unfinished tasks never share a workspace. In every run in which each
  submission is a direct one (its workspace is its repository and the prepared launch is
  marked direct), including resumptions of finished tasks, two unfinished tasks with the
  same workspace are the same task.
\<close>

theorem workspace_exclusive:
  assumes "list_all (\<lambda>(now, op). op_direct env op) ops"
    and "t \<in> set (tasks (run_ops env ops empty_store))" "u \<in> set (tasks (run_ops env ops empty_store))"
    and "unfinished (tk_phase t)" "unfinished (tk_phase u)" "tk_workspace_path t = tk_workspace_path u"
  shows "t = u"
proof -
  have "(direct_step env)\<^sup>*\<^sup>* empty_store (run_ops env ops empty_store)"
    by (rule run_ops_rel [OF assms(1)]) (auto simp: op_direct_def intro: direct_step.intros)
  moreover have "exclusive empty_store" by (simp add: exclusive_def store_ok_empty)
  ultimately have ex: "exclusive (run_ops env ops empty_store)" by (rule workspaces.reachable)
  then have "tk_agent_id t = tk_agent_id u"
    using assms(2-6) unfolding exclusive_def by blast
  moreover have "keys_ok (run_ops env ops empty_store)"
    using ex by (simp add: exclusive_def store_ok_iff)
  ultimately show ?thesis using keys_row assms(2,3) by (metis option.inject)
qed

theorem workspace_exclusive_witness:
  "hd (tasks (run_ops demo_env [(1, Enqueue (demo_task ''a'' ''w'')), (2, Enqueue (demo_task ''b'' ''w''))] empty_store))
   = last (tasks (run_ops demo_env [(1, Enqueue (demo_task ''a'' ''w'')), (2, Enqueue (demo_task ''b'' ''w''))] empty_store))"
  by (rule workspace_exclusive [where env = demo_env
        and ops = "[(1, Enqueue (demo_task ''a'' ''w'')), (2, Enqueue (demo_task ''b'' ''w''))]"])
     (simp_all add: demo_defs exec_defs op_direct_def unfinished_def)

text \<open>
  A repository never has more than the per-workspace limit of tasks that are
  preparing, running or waiting for input, however claims, starts, stops and resumptions
  interleave, as long as no claim was made with a larger limit.
\<close>

theorem repository_capacity:
  assumes "list_all (\<lambda>(now, op). op_limited lim op) ops"
  shows "holding (run_ops env ops empty_store) repo \<le> lim"
proof -
  have "(limited_step env lim)\<^sup>*\<^sup>* empty_store (run_ops env ops empty_store)"
    by (rule run_ops_rel [OF assms(1)]) (auto simp: op_limited_def intro: limited_step.intros)
  moreover have "within lim empty_store"
    by (simp add: within_def store_ok_empty holding_def count_where_def)
  ultimately have "within lim (run_ops env ops empty_store)" by (rule capacity.reachable)
  then show ?thesis by (simp add: within_def)
qed

theorem repository_capacity_witness:
  "holding (run_ops demo_env (demo_running @ [(4, ClaimNext ''d'' 4 1)]) empty_store) ''w'' \<le> 2"
  by (rule repository_capacity) (simp add: op_limited_def demo_running_def)

text \<open>
  A claim takes the oldest task it may take. If it returns a task, that task
  was queued without a close request in a repository below its limit, no other such task was
  created earlier, and it is handed out as preparing under the next owner epoch; if it
  returns nothing, no queued task could be claimed and nothing changed.
\<close>

theorem claim_next_is_fair:
  assumes "store_ok s" and "claim_next now owner g lim s = Inr (r, s')" and "0 < lim"
  shows "case r of
       None \<Rightarrow> s' = s \<and> filter (claimable s (int lim)) (tasks s) = []
     | Some (TaskClaim tr epoch) \<Rightarrow>
         \<exists>t \<in> set (tasks s). claimable s (int lim) t \<and> tr_agent_id tr = tk_agent_id t
           \<and> tr_phase tr = Preparing \<and> int epoch = tk_owner_epoch t + 1
           \<and> list_all (\<lambda>u. tk_created_at t \<le> tk_created_at u) (filter (claimable s (int lim)) (tasks s))"
  using assms(1,2)
proof (cases rule: claim_next_cases)
  case none
  have "filter (claimable s (int lim)) (tasks s) = []"
  proof (rule ccontr)
    assume "filter (claimable s (int lim)) (tasks s) \<noteq> []"
    then obtain cand where "first_by tk_created_at (filter (claimable s (int lim)) (tasks s)) = Some cand"
      using first_by_None by (metis not_None_eq)
    then show False
      using assms(2,3) none(2) by (auto simp: claim_next_def Let_def split: if_splits)
  qed
  then show ?thesis using none by simp
next
  case (claimed cand s1 epoch)
  then obtain tr where tr: "r = Some (TaskClaim tr epoch)" "tr_agent_id tr = tk_agent_id cand"
      "tr_phase tr = Preparing" "int epoch = tk_owner_epoch cand + 1" by blast
  have c: "cand \<in> set (filter (claimable s (int lim)) (tasks s))"
      "list_all (\<lambda>u. tk_created_at cand \<le> tk_created_at u) (filter (claimable s (int lim)) (tasks s))"
    using first_by_Some [OF claimed(1)] by (simp_all add: list_all_iff)
  then show ?thesis using tr by auto
qed

theorem claim_next_is_fair_witness:
  "filter (claimable demo_store 2) (tasks demo_store) = []"
proof -
  have "claim_next 9 ''d'' 4 2 demo_store = Inr (None, demo_store)"
    by (simp add: demo_defs exec_defs)
  moreover have "store_ok demo_store" unfolding demo_store_def by (rule run_ops_ok)
  ultimately show ?thesis using claim_next_is_fair [of demo_store 9 "''d''" 4 2 None demo_store] by simp
qed

section \<open>Reading\<close>

text \<open>
  Reading never fails. In every run whose arguments are in the range of their
  types, looking a task up by id returns a record or nothing, and the startup recovery scan
  returns the record of every claimed task and of every terminal task not yet reaped.
\<close>

theorem reads_never_fail:
  assumes "list_all (\<lambda>(now, op). op_typed op) ops"
  shows "(\<exists>r. get_task (run_ops env ops empty_store) a = Inr r)
     \<and> (\<exists>rs. startup_recovery_tasks (run_ops env ops empty_store) = Inr rs
          \<and> map tr_agent_id rs = map tk_agent_id (sort_key tk_created_at
               (filter (\<lambda>t. active_phase (tk_phase t) \<or> (tk_phase t = Terminal \<and> tk_reaped_at t = None))
                 (tasks (run_ops env ops empty_store)))))"
proof -
  let ?s = "run_ops env ops empty_store"
  have "(typed_step env)\<^sup>*\<^sup>* empty_store ?s"
    by (rule run_ops_rel [OF assms(1)]) (auto intro: typed_step.intros)
  moreover have "readable_ok empty_store" by (simp add: readable_ok_def store_ok_empty)
  ultimately have "readable_ok ?s" by (rule readable.reachable)
  then have k: "keys_ok ?s" and rd: "\<And>t. t \<in> set (tasks ?s) \<Longrightarrow> \<exists>tr. convert_task_row t = Inr tr"
    by (auto simp: readable_ok_def store_ok_iff list_all_iff convert_task_row_readable)
  define conv where "conv = (\<lambda>t. projr (convert_task_row t))"
  have q: "query_task ?s (tk_agent_id t) = Inr (Some (conv t)) \<and> tr_agent_id (conv t) = tk_agent_id t"
    if "t \<in> set (tasks ?s)" for t
    using rd [OF that] keys_row [OF k that] convert_task_row_fields(1) by (auto simp: query_task_def conv_def)
  have "\<exists>r. get_task ?s a = Inr r"
  proof (cases "task_row_of ?s a")
    case (Some t)
    then show ?thesis using q [of t] task_row_of_id [OF Some] by (auto simp: get_task_def)
  qed (simp add: get_task_def query_task_def)
  moreover have "startup_recovery_tasks ?s = Inr (map conv (sort_key tk_created_at
      (filter (\<lambda>t. active_phase (tk_phase t) \<or> (tk_phase t = Terminal \<and> tk_reaped_at t = None)) (tasks ?s))))"
    unfolding startup_recovery_tasks_def by (rule collect_results_cong) (use q in auto)
  moreover have "map tr_agent_id (map conv xs) = map tk_agent_id xs" if "set xs \<subseteq> set (tasks ?s)" for xs
    using that q by (induction xs) auto
  then have "map tr_agent_id (map conv (sort_key tk_created_at (filter P (tasks ?s))))
      = map tk_agent_id (sort_key tk_created_at (filter P (tasks ?s)))" for P
    by (metis (no_types, lifting) filter_is_subset set_sort)
  ultimately show ?thesis by blast
qed

theorem reads_never_fail_witness: "\<exists>r. get_task demo_store ''zz'' = Inr r"
  unfolding demo_store_def
  by (rule reads_never_fail [THEN conjunct1]) (simp add: demo_running_def)

subsection \<open>Pagination\<close>

lemma page_rows_sorted: "sorted_wrt (\<lambda>x y. fst y < fst x) (page_rows s scope filt cur)"
proof -
  have "sorted_wrt (<) (map fst (enumerate 1 (tasks s)))"
    unfolding map_fst_enumerate by (rule sorted_wrt_upt)
  then have "sorted_wrt (\<lambda>x y. fst x < fst y) (enumerate 1 (tasks s))" unfolding sorted_wrt_map .
  then show ?thesis
    unfolding page_rows_def sorted_wrt_rev
    by (rule sorted_wrt_filter)
qed

lemma filter_below_last:
  assumes "sorted_wrt (\<lambda>x y. fst y < fst x) (xs :: (nat \<times> 'a) list)" and "0 < n" and "n \<le> length xs"
  shows "filter (\<lambda>r. fst r < fst (last (take n xs))) xs = drop n xs"
proof -
  have split: "sorted_wrt (\<lambda>x y. fst y < fst x) (take n xs @ drop n xs)" using assms(1) by simp
  have ne: "take n xs \<noteq> []" using assms(2,3) by auto
  have hi: "fst (last (take n xs)) \<le> fst r" if "r \<in> set (take n xs)" for r
  proof -
    have "sorted_wrt (\<lambda>x y. fst y < fst x) (butlast (take n xs) @ [last (take n xs)])"
      using split unfolding append_butlast_last_id [OF ne] by (simp add: sorted_wrt_append del: append_take_drop_id)
    moreover have "r \<in> set (butlast (take n xs)) \<or> r = last (take n xs)"
      using that ne by (metis append_butlast_last_id in_set_butlastD rotate1.simps(2) set_ConsD set_rotate1)
    ultimately show ?thesis by (auto simp: sorted_wrt_append intro: less_imp_le)
  qed
  have lo: "fst r < fst (last (take n xs))" if "r \<in> set (drop n xs)" for r
    using split that last_in_set [OF ne] unfolding sorted_wrt_append by blast
  have "filter (\<lambda>r. fst r < fst (last (take n xs))) (take n xs @ drop n xs) = drop n xs"
    using hi lo by (auto simp: filter_empty_conv not_less simp del: append_take_drop_id)
  then show ?thesis by simp
qed

lemma page_rows_cursor:
  "page_rows s scope filt (Some (int c)) = filter (\<lambda>r. fst r < c) (page_rows s scope filt None)"
  "cur = None \<or> (\<exists>d. cur = Some (int d) \<and> c \<le> d) \<Longrightarrow>
     page_rows s scope filt (Some (int c)) = filter (\<lambda>r. fst r < c) (page_rows s scope filt cur)"
  by (auto simp: page_rows_def rev_filter page_matches_def intro!: filter_cong)

lemma collect_results_map_ids:
  "collect_results (map f xs) = Inr ys \<Longrightarrow> (\<And>x y. x \<in> set xs \<Longrightarrow> f x = Inr y \<Longrightarrow> g y = h x) \<Longrightarrow> map g ys = map h xs"
  by (induction xs arbitrary: ys) auto

lemma query_task_id: "query_task s a = Inr (Some tr) \<Longrightarrow> tr_agent_id tr = a"
  by (auto simp: query_task_Inr dest: task_row_of_id convert_task_row_fields(1))

text \<open>
  Pagination neither loses nor repeats a task. A page holds the first
  \<open>limit\<close> matching tasks, newest first; if there are more, the returned cursor selects
  exactly the remaining ones, and otherwise no cursor is returned.
\<close>

theorem pages_partition_the_listing:
  assumes "list_task_page s scope filt cursor limit = Inr pg"
  shows "map tr_agent_id (pg_tasks pg)
       = map (\<lambda>r. tk_agent_id (snd r)) (take limit (page_rows s scope filt (map_option int cursor)))
     \<and> (case pg_next_cursor pg of
          None \<Rightarrow> drop limit (page_rows s scope filt (map_option int cursor)) = []
        | Some c \<Rightarrow> page_rows s scope filt (Some (int c))
                      = drop limit (page_rows s scope filt (map_option int cursor)))"
proof -
  let ?all = "page_rows s scope filt (map_option int cursor)"
  obtain trs where pos: "0 < limit" and inc: "sat_inc u64_max limit \<le> i64_max"
    and trs: "collect_results (map (\<lambda>r. rbind (query_task s (tk_agent_id (snd r)))
        (ok_or (InvalidState ''listed task disappeared''))) (take limit (take (sat_inc u64_max limit) ?all))) = Inr trs"
    and pg: "pg = \<lparr>pg_tasks = trs, pg_next_cursor =
        (if length (take (sat_inc u64_max limit) ?all) > limit \<and> take limit (take (sat_inc u64_max limit) ?all) \<noteq> []
         then Some (fst (last (take limit (take (sat_inc u64_max limit) ?all)))) else None)\<rparr>"
    using assms by (cases cursor) (auto simp: list_task_page_def Let_def split: if_splits)
  have lim: "limit < u64_max" "sat_inc u64_max limit = Suc limit"
    using inc by (auto simp: sat_inc_def u64_max_def i64_max_def split: if_splits)
  have sel: "take limit (take (Suc limit) ?all) = take limit ?all" by simp
  have ids: "map tr_agent_id trs = map (\<lambda>r. tk_agent_id (snd r)) (take limit ?all)"
    using trs unfolding lim(2) sel by (rule collect_results_map_ids) (auto dest: query_task_id)
  show ?thesis
  proof (cases "limit < length ?all")
    case True
    then have ne: "take limit ?all \<noteq> []" using pos by auto
    define c where "c = fst (last (take limit ?all))"
    have "pg_next_cursor pg = Some c"
      using True ne by (simp add: pg lim(2) sel c_def)
    moreover have "page_rows s scope filt (Some (int c)) = filter (\<lambda>r. fst r < c) ?all"
    proof (rule page_rows_cursor(2))
      have "last (take limit ?all) \<in> set ?all" using ne by (meson in_set_takeD last_in_set)
      then show "map_option int cursor = None \<or> (\<exists>d. map_option int cursor = Some (int d) \<and> c \<le> d)"
        by (cases cursor) (auto simp: c_def page_rows_def page_matches_def)
    qed
    ultimately show ?thesis
      using filter_below_last [OF page_rows_sorted pos, of s scope filt "map_option int cursor"] True ids
      by (simp add: pg c_def)
  next
    case False
    then show ?thesis using ids by (simp add: pg lim(2))
  qed
qed

theorem pages_partition_the_listing_witness:
  "drop 3 (page_rows demo_store \<lparr>sc_repository = Some ''w'', sc_group_id = None\<rparr>
        \<lparr>pf_phase = None, pf_outcome = None\<rparr> (map_option int None)) = []"
proof -
  have "\<exists>pg. list_task_page demo_store \<lparr>sc_repository = Some ''w'', sc_group_id = None\<rparr>
      \<lparr>pf_phase = None, pf_outcome = None\<rparr> None 3 = Inr pg \<and> pg_next_cursor pg = None"
    by (simp add: demo_defs exec_defs list_task_page_def validate_scope_def page_rows_def page_matches_def
        scope_matches_def sat_inc_def)
  then show ?thesis
    using pages_partition_the_listing by fastforce
qed

section \<open>Budgets, encodings, schema\<close>

text \<open>
  Every budget a task runs under is within the hard caps, with no limit zero and
  room for a minimal result; explicit limits are taken as given or refused, an omitted budget
  is the default, and an explicit null is refused.
\<close>

theorem budget_within_caps:
  "(case resolve_effective_budget req of
      Inl e \<Rightarrow> True
    | Inr b \<Rightarrow> list_all (\<lambda>(v, cap). 0 < v \<and> v \<le> cap) (budget_pairs b)
             \<and> MIN_RESULT_BYTES \<le> max_result_bytes b
             \<and> (case req of Omitted \<Rightarrow> b = DEFAULT_BUDGET | BudgetNull \<Rightarrow> False | Limits l \<Rightarrow> b = l))
   \<and> (resolve_effective_budget (Limits l) = Inr l) =
       (list_all (\<lambda>(v, cap). 0 < v \<and> v \<le> cap) (budget_pairs l) \<and> MIN_RESULT_BYTES \<le> max_result_bytes l)
   \<and> resolve_effective_budget Omitted = Inr DEFAULT_BUDGET"
proof -
  have "resolve_effective_budget Omitted = Inr DEFAULT_BUDGET"
    by (simp add: check_budget_def budget_pairs_def DEFAULT_BUDGET_def MAX_BUDGET_def MIN_RESULT_BYTES_def)
  moreover have "case resolve_effective_budget req of Inl e \<Rightarrow> True
    | Inr b \<Rightarrow> list_all (\<lambda>(v, cap). 0 < v \<and> v \<le> cap) (budget_pairs b)
             \<and> MIN_RESULT_BYTES \<le> max_result_bytes b
             \<and> (case req of Omitted \<Rightarrow> b = DEFAULT_BUDGET | BudgetNull \<Rightarrow> False | Limits l \<Rightarrow> b = l)"
    by (cases req) (auto split: sum.splits simp: check_budget_Inr)
  ultimately show ?thesis by (simp add: check_budget_Inr)
qed

text \<open>
  The textual columns are faithful. Reading back the text of a phase, an
  outcome or a turn state gives the value that was written, and every text that reads as a
  value is the text of that value.
\<close>

theorem enumerations_round_trip:
  "(TaskPhase_parse v = Inr p) = (v = TaskPhase_as_str p)
   \<and> (TaskOutcome_parse v = Inr outc) = (v = TaskOutcome_as_str outc)
   \<and> (TurnState_parse v = Inr ts) = (v = TurnState_as_str ts)"
  by (auto dest: phase_parse_Inr outcome_parse_Inr turn_parse_Inr)

text \<open>
  Opening a database is idempotent and never migrates. Opening succeeds only
  on an empty database of version 0 or on one with exactly the current version and tables,
  always ends with the current schema, and leaves a current database as it is.
\<close>

theorem schema_open_idempotent:
  "(case initialize_schema c of
      Inl e \<Rightarrow> e = LegacySchemaUnsupported
        \<and> c \<noteq> \<lparr>cat_version = SCHEMA_VERSION, cat_tables = schema_tables\<rparr>
        \<and> c \<noteq> \<lparr>cat_version = 0, cat_tables = []\<rparr>
    | Inr c' \<Rightarrow> c' = \<lparr>cat_version = SCHEMA_VERSION, cat_tables = schema_tables\<rparr>
        \<and> initialize_schema c' = Inr c' \<and> (cat_tables c = [] \<or> c' = c))"
  by (cases c) (auto simp: initialize_schema_def schema_is_current_def schema_tables_def SCHEMA_VERSION_def)

section \<open>Messages and responses\<close>

lemma query_message_update:
  assumes "\<And>m. ms_message_id (f m) = ms_message_id m"
  shows "query_message (s\<lparr>messages := update_where hit f (messages s)\<rparr>) i
       = map_option (\<lambda>m. if hit m then f m else m) (query_message s i)"
  using find_update_where [of hit ms_message_id f i "messages s"] assms by (simp add: query_message_def)

text \<open>
  A queued message is handed out in order and delivered at most once. A
  claim returns the oldest queued message of a running task and marks it as sending, so the
  next claim cannot return it; completing a message succeeds at most once.
\<close>

theorem message_delivery_at_most_once:
  assumes "store_ok s" and "claim_next_message a s = Inr (Some m, s')"
  shows "ms_agent_id m = a \<and> ms_state m = MsgSending
     \<and> list_all (\<lambda>x. ms_created_at m \<le> ms_created_at x)
          (filter (\<lambda>x. ms_agent_id x = a \<and> ms_state x = MsgQueued) (messages s))
     \<and> (case claim_next_message a s' of Inr (Some m2, s2) \<Rightarrow> ms_message_id m2 \<noteq> ms_message_id m | _ \<Rightarrow> True)
     \<and> (\<exists>s2. complete_message now (ms_message_id m) tn s' = Inr (True, s2)
          \<and> (\<exists>s3. complete_message now' (ms_message_id m) tn' s2 = Inr (False, s3)))"
proof -
  have dist: "distinct (map ms_message_id (messages s))" using assms(1) by (simp add: store_ok_def)
  obtain x where fb: "first_by ms_created_at
      (filter (\<lambda>m. ms_agent_id m = a \<and> ms_state m = MsgQueued) (messages s)) = Some x"
    using assms(2)
    by (cases "first_by ms_created_at (filter (\<lambda>m. ms_agent_id m = a \<and> ms_state m = MsgQueued) (messages s))")
       (auto simp: claim_next_message_def simp del: first_by_None split: if_splits)
  let ?hit = "\<lambda>y. ms_message_id y = ms_message_id x \<and> ms_state y = MsgQueued"
  let ?f = "\<lambda>y. y\<lparr>ms_state := MsgSending\<rparr>"
  have s': "s' = s\<lparr>messages := update_where ?hit ?f (messages s)\<rparr>"
    and m: "query_message s' (ms_message_id x) = Some m"
    using assms(2) fb by (auto simp: claim_next_message_def Let_def split: if_splits)
  have x: "x \<in> set (messages s)" "ms_agent_id x = a" "ms_state x = MsgQueued"
    using first_by_Some(1) [OF fb] by auto
  have "query_message s (ms_message_id x) = Some x"
    using dist x(1) by (auto simp: query_message_def intro: find_distinct)
  then have mx: "m = x\<lparr>ms_state := MsgSending\<rparr>"
    using m x(3) query_message_update [where f = ?f and hit = ?hit and s = s and i = "ms_message_id x"] by (simp add: s')
  have dist': "distinct (map ms_message_id (messages s'))"
    using dist by (simp add: s' map_update_where)
  have mem: "m \<in> set (messages s')" using m by (auto simp: query_message_def dest: find_SomeD)
  have uniq: "y = m" if "y \<in> set (messages s')" "ms_message_id y = ms_message_id m" for y
    using that mem dist' by (metis distinct_map inj_onD)
  have "ms_message_id m2 \<noteq> ms_message_id m" if c2: "claim_next_message a s' = Inr (Some m2, s2)" for m2 s2
  proof -
    obtain y where fy: "first_by ms_created_at
        (filter (\<lambda>m. ms_agent_id m = a \<and> ms_state m = MsgQueued) (messages s')) = Some y"
      using c2
      by (cases "first_by ms_created_at (filter (\<lambda>m. ms_agent_id m = a \<and> ms_state m = MsgQueued) (messages s'))")
         (auto simp: claim_next_message_def simp del: first_by_None split: if_splits)
    have y: "y \<in> set (messages s')" "ms_state y = MsgQueued" using first_by_Some(1) [OF fy] by auto
    have "ms_message_id m2 = ms_message_id y"
      using c2 fy by (auto simp: claim_next_message_def Let_def query_message_def split: if_splits dest: find_SomeD)
    then show ?thesis using uniq [OF y(1)] y(2) mx by auto
  qed
  then have second: "case claim_next_message a s' of Inr (Some m2, s2) \<Rightarrow> ms_message_id m2 \<noteq> ms_message_id m | _ \<Rightarrow> True"
    by (auto split: sum.splits prod.splits option.splits)
  let ?c = "\<lambda>y. ms_message_id y = ms_message_id m \<and> ms_state y = MsgSending"
  have once: "count_where ?c (messages s') = 1"
    using count_where_le1 [OF dist', of ?c "ms_message_id m"] m mx
    by (simp add: query_message_def)
  define g where "g = (\<lambda>y::message_row. y\<lparr>ms_state := MsgDelivered, ms_delivered_at := Some now, ms_target_turn_id := tn\<rparr>)"
  have none: "count_where ?c (update_where ?c g (messages s')) = 0"
  proof -
    have "\<not> ?c (if ?c q then g q else q)" for q by (simp add: g_def)
    then show ?thesis unfolding count_where_eq_0 update_where_def set_map by blast
  qed
  have "complete_message now (ms_message_id m) tn s' = Inr (True, s'\<lparr>messages := update_where ?c g (messages s')\<rparr>)"
    using once by (simp add: complete_message_def Let_def g_def)
  moreover have "\<exists>s3. complete_message now' (ms_message_id m) tn' (s'\<lparr>messages := update_where ?c g (messages s')\<rparr>)
      = Inr (False, s3)"
    using none by (simp add: complete_message_def Let_def)
  ultimately have complete: "\<exists>s2. complete_message now (ms_message_id m) tn s' = Inr (True, s2)
      \<and> (\<exists>s3. complete_message now' (ms_message_id m) tn' s2 = Inr (False, s3))" by blast
  have oldest: "list_all (\<lambda>x. ms_created_at m \<le> ms_created_at x)
      (filter (\<lambda>x. ms_agent_id x = a \<and> ms_state x = MsgQueued) (messages s))"
    using first_by_Some(2) [OF fb] by (simp add: mx list_all_iff)
  show ?thesis using x(2) mx oldest second complete by simp
qed

theorem message_delivery_at_most_once_witness:
  "\<exists>m s'. claim_next_message ''a'' (run_op demo_env 4 (InsertMessage ''m'' ''a'' ''queue'' ''hi'') demo_store) = Inr (Some m, s')
     \<and> ms_agent_id m = ''a'' \<and> ms_state m = MsgSending"
proof -
  let ?s = "run_op demo_env 4 (InsertMessage ''m'' ''a'' ''queue'' ''hi'') demo_store"
  have "store_ok ?s"
    unfolding demo_store_def by (rule tables.preserved [OF run_ops_ok store_step.op])
  moreover have "\<exists>m s'. claim_next_message ''a'' ?s = Inr (Some m, s')"
    by (simp add: demo_defs exec_defs insert_message_def claim_next_message_def query_message_def)
  ultimately show ?thesis using message_delivery_at_most_once by blast
qed

lemma query_pending_update:
  assumes "\<And>p. pr_request_id (f p) = pr_request_id p"
  shows "query_pending_request (s\<lparr>pending_requests := update_where hit f (pending_requests s)\<rparr>) i
       = map_option (\<lambda>p. if hit p then f p else p) (query_pending_request s i)"
  using find_update_where [of hit pr_request_id f i "pending_requests s"] assms
  by (simp add: query_pending_request_def)

text \<open>
  A pending request is answered by one responder. After a claim for a
  request succeeds, every further claim is told that the request is already being sent;
  releasing the claim restores the request exactly as it was before it, and completing it
  makes every later claim see a responded request.
\<close>

theorem response_claim_is_exclusive:
  assumes "store_ok s" and "claim_pending_response_if_accepting a q dec content s = Inr (Claimed, s')"
    and "query_pending_request s q = Some p"
  shows "claim_pending_response_if_accepting a q dec' content' s' = Inr (NotPending ReqSending, s')
     \<and> (\<exists>s2. release_pending_response a q s' = Inr (True, s2)
          \<and> query_pending_request s2 q = Some (p\<lparr>pr_response_decision := None, pr_response_content := None\<rparr>))
     \<and> (case complete_pending_response now a q s' of Inl e \<Rightarrow> True
        | Inr (ok, s2) \<Rightarrow> ok
            \<and> claim_pending_response_if_accepting a q dec' content' s2 = Inr (NotPending ReqResponded, s2))"
proof -
  define hit where "hit = (\<lambda>p::pending_row. pr_request_id p = q \<and> pr_agent_id p = a \<and> pr_state p = ReqPending)"
  define sending where "sending = (\<lambda>p::pending_row. pr_request_id p = q \<and> pr_agent_id p = a \<and> pr_state p = ReqSending)"
  define f where "f = (\<lambda>p::pending_row. p\<lparr>pr_state := ReqSending, pr_response_decision := Some dec,
      pr_response_content := content\<rparr>)"
  have p: "pr_agent_id p = a" "pr_state p = ReqPending" "pr_request_id p = q"
    and s': "s' = s\<lparr>pending_requests := update_where hit f (pending_requests s)\<rparr>"
    using assms(2,3)
    by (auto simp: claim_pending_response_if_accepting_def hit_def f_def query_pending_request_def
        dest: find_SomeD split: option.splits if_splits)
  have q': "query_pending_request s' q = Some (f p)"
    unfolding s' using assms(3) p by (subst query_pending_update) (simp_all add: f_def hit_def)
  have dist: "distinct (map pr_request_id (pending_requests s'))"
    using assms(1) by (simp add: s' store_ok_def map_update_where f_def)
  have once: "count_where sending (pending_requests s') = 1"
    using count_where_le1 [OF dist, of sending q] q' p
    by (simp add: query_pending_request_def sending_def f_def)
  have again: "claim_pending_response_if_accepting a q dec' content' s' = Inr (NotPending ReqSending, s')"
    using q' p by (simp add: claim_pending_response_if_accepting_def f_def)
  define rel where "rel = (\<lambda>p::pending_row. p\<lparr>pr_state := ReqPending, pr_response_decision := None,
      pr_response_content := None\<rparr>)"
  let ?s2 = "s'\<lparr>pending_requests := update_where sending rel (pending_requests s')\<rparr>"
  have "release_pending_response a q s' = Inr (True, ?s2)"
    using once by (simp add: release_pending_response_def Let_def sending_def rel_def)
  moreover have "query_pending_request ?s2 q = Some (p\<lparr>pr_response_decision := None, pr_response_content := None\<rparr>)"
    using q' p by (subst query_pending_update) (simp_all add: rel_def f_def sending_def)
  moreover have "case complete_pending_response now a q s' of Inl e \<Rightarrow> True
        | Inr (ok, s2) \<Rightarrow> ok
            \<and> claim_pending_response_if_accepting a q dec' content' s2 = Inr (NotPending ReqResponded, s2)"
  proof -
    define don where "don = (\<lambda>p::pending_row. p\<lparr>pr_state := ReqResponded, pr_responded_at := Some now\<rparr>)"
    let ?s1 = "s'\<lparr>pending_requests := update_where sending don (pending_requests s')\<rparr>"
    have q1: "query_pending_request ?s1 q = Some (don (f p))"
      using q' p by (subst query_pending_update) (simp_all add: don_def f_def sending_def)
    have "r \<and> pending_requests s2 = pending_requests ?s1"
      if "complete_pending_response now a q s' = Inr (r, s2)" for r s2
      using that once
      by (auto simp: complete_pending_response_def Let_def sending_def don_def insert_ledger_Inr split: if_splits)
    then have "r \<and> query_pending_request s2 q = Some (don (f p))"
      if "complete_pending_response now a q s' = Inr (r, s2)" for r s2
      using that q1 by (auto simp: query_pending_request_def)
    then show ?thesis
      using p by (auto simp: claim_pending_response_if_accepting_def don_def f_def split: sum.splits)
  qed
  ultimately show ?thesis using again by blast
qed

theorem response_claim_is_exclusive_witness:
  "\<exists>s'. claim_pending_response_if_accepting ''a'' ''q'' ''allow'' None
        (run_op demo_env 5 (InsertPending ''q'' ''a'' ''c'' ''permission'' ''{}'') demo_store) = Inr (Claimed, s')
     \<and> claim_pending_response_if_accepting ''a'' ''q'' ''deny'' None s' = Inr (NotPending ReqSending, s')"
proof -
  let ?s = "run_op demo_env 5 (InsertPending ''q'' ''a'' ''c'' ''permission'' ''{}'') demo_store"
  have ok: "store_ok ?s"
    unfolding demo_store_def by (rule tables.preserved [OF run_ops_ok store_step.op])
  have "\<exists>s'. claim_pending_response_if_accepting ''a'' ''q'' ''allow'' None ?s = Inr (Claimed, s')"
    by (simp add: demo_defs exec_defs insert_pending_request_def claim_pending_response_if_accepting_def
        query_pending_request_def)
  then obtain s' where run: "claim_pending_response_if_accepting ''a'' ''q'' ''allow'' None ?s = Inr (Claimed, s')"
    by blast
  have "\<exists>p. query_pending_request ?s ''q'' = Some p"
    by (simp add: demo_defs exec_defs insert_pending_request_def query_pending_request_def)
  then obtain p where p: "query_pending_request ?s ''q'' = Some p" by blast
  show ?thesis using run response_claim_is_exclusive [OF ok run p] by blast
qed

section \<open>The rollback of a failed resumption\<close>

text \<open>
  Rolling back a failed resumption does not restore the task's invariants. When a
  terminal task is requeued with a message and then put back by
  \<^verbatim>\<open>restore_terminal_after_resume_failure\<close>, the task is terminal again but the message that
  was queued for it is still open, and the ledger still ends in the queued phase.
\<close>

theorem resume_rollback_leaves_orphan_message:
  assumes "store_ok s" and "query_task s a = Inr (Some original)"
    and "requeue_task_for_resume_with_message now a mid content s = Inr (u, s1)"
    and "restore_terminal_after_resume_failure env now' original result s1 = Inr (u', s2)"
  shows "map_option tk_phase (task_row_of s2 a) = Some Terminal \<and> open_msgs s2 a
     \<and> chain None (trail_of s2 a) = Some (Some Queued)"
proof -
  have id: "tr_agent_id original = a" by (rule query_task_id [OF assms(2)])
  have "store_ok s1"
    using requeue_refines [OF assms(1,3)] store_okI [OF assms(1)] by blast
  have refs: "refines s a s1" using requeue_refines [OF assms(1,3)] by blast
  obtain t where t: "task_row_of s a = Some t" "tk_phase t = Terminal"
    using assms(3) by (auto simp: requeue_task_for_resume_with_message_def split: if_splits)
  let ?hit = "\<lambda>t. tk_agent_id t = a \<and> tk_phase t = Terminal"
  have msgs: "open_msgs s1 a" and ts: "tasks s1 = update_where ?hit requeued (tasks s)"
    using assms(3) t
    by (auto simp: requeue_task_for_resume_with_message_def Let_def insert_ledger_Inr open_msgs_def msg_open_def
        split: if_splits option.splits)
  have "task_row_of s1 a = map_option (\<lambda>t. if ?hit t then requeued t else t) (task_row_of s a)"
    unfolding task_row_of_def ts by (rule find_update_where) (simp add: requeued_def)
  then have ph: "map_option tk_phase (task_row_of s1 a) = Some Queued"
    using t task_row_of_id [OF t(1)] by (simp add: requeued_def)
  obtain seq where frame: "messages s2 = messages s1" "ledger s2 = ledger s1"
    "tasks s2 = update_where (\<lambda>t. tk_agent_id t = a) (restore_row original seq) (tasks s1)"
    using assms(4) id
    by (auto simp: restore_terminal_after_resume_failure_def Let_def split: if_splits option.splits)
  obtain t1 where t1: "task_row_of s1 a = Some t1" using ph by auto
  have "task_row_of s2 a = map_option (\<lambda>t. if tk_agent_id t = a then restore_row original seq t else t) (task_row_of s1 a)"
    unfolding task_row_of_def frame(3) by (rule find_update_where) (simp add: restore_row_def)
  then have "map_option tk_phase (task_row_of s2 a) = Some Terminal"
    using t1 task_row_of_id [OF t1] by (simp add: restore_row_def)
  moreover have "chain None (trail_of s1 a) = Some (Some Queued)"
    using \<open>store_ok s1\<close> ph by (auto simp: store_ok_iff agent_ok_def view_def row_view_def)
  ultimately show ?thesis
    using msgs frame by (simp add: open_msgs_def trail_of_def)
qed

theorem resume_rollback_leaves_orphan_message_witness:
  "\<exists>s original s1 s2. query_task s ''a'' = Inr (Some original)
     \<and> requeue_task_for_resume_with_message 9 ''a'' ''m'' ''go'' s = Inr ((), s1)
     \<and> restore_terminal_after_resume_failure demo_env 10 original None s1 = Inr ((), s2)
     \<and> map_option tk_phase (task_row_of s2 ''a'') = Some Terminal \<and> open_msgs s2 ''a''"
proof -
  define u where "u = \<lparr>tu_outcome = Completed, tu_failure_code = None, tu_failure_message = None\<rparr>"
  define s where "s = run_op demo_env 8 (TransitionTerminal ''a'' 1 u) demo_store"
  have ok: "store_ok s"
    unfolding demo_store_def s_def by (rule tables.preserved [OF run_ops_ok store_step.op])
  note ev = s_def u_def demo_defs exec_defs transition_terminal_def apply_terminal_def
    settle_terminal_commands_def terminal_turn_state_def
  have "\<exists>original s1 s2. query_task s ''a'' = Inr (Some original)
     \<and> requeue_task_for_resume_with_message 9 ''a'' ''m'' ''go'' s = Inr ((), s1)
     \<and> restore_terminal_after_resume_failure demo_env 10 original None s1 = Inr ((), s2)"
    by (simp add: ev requeue_task_for_resume_with_message_def requeued_def query_message_def
        restore_terminal_after_resume_failure_def)
  then obtain original s1 s2 where run: "query_task s ''a'' = Inr (Some original)"
      "requeue_task_for_resume_with_message 9 ''a'' ''m'' ''go'' s = Inr ((), s1)"
      "restore_terminal_after_resume_failure demo_env 10 original None s1 = Inr ((), s2)" by blast
  show ?thesis using run resume_rollback_leaves_orphan_message [OF ok run] by blast
qed

end
