(* ===== verification/Protocol.thy ===== *)
theory Protocol
  imports Json
begin

text \<open>
  The wire protocol of \<^verbatim>\<open>crates/zcode-protocol/src/lib.rs\<close>: envelopes of one line of JSON,
  their classification by \<^verbatim>\<open>parse_line\<close>, the strict projections of runtime answers, and the
  selection of an offered permission response.

  The text of a line is turned into a JSON value, and a value into text, by \<^verbatim>\<open>serde_json\<close>:
  both are fields of \<open>wire_env\<close>, together with the wording of its errors. The derived
  \<^verbatim>\<open>Deserialize\<close> of the three envelopes (unknown fields refused, defaults for absent members)
  is written out.
\<close>

section \<open>Envelopes\<close>

datatype wire_id = WireInteger int | WireString string

record request_envelope =
  rq_id :: wire_id
  rq_method :: string
  rq_params :: json

record response_envelope =
  rp_id :: wire_id
  rp_result :: "json option"
  rp_error :: "json option"

record event_envelope =
  en_method :: string
  en_params :: json

datatype wire_message =
    Request request_envelope
  | Response response_envelope
  | Event event_envelope
  | UnknownEvent string json

definition RequestEnvelope_new :: "wire_id \<Rightarrow> string \<Rightarrow> json \<Rightarrow> request_envelope" where
  "RequestEnvelope_new i m p = \<lparr>rq_id = i, rq_method = m, rq_params = p\<rparr>"

definition ResponseEnvelope_success :: "wire_id \<Rightarrow> json \<Rightarrow> response_envelope" where
  "ResponseEnvelope_success i r = \<lparr>rp_id = i, rp_result = Some r, rp_error = None\<rparr>"

definition ResponseEnvelope_failure :: "wire_id \<Rightarrow> json \<Rightarrow> response_envelope" where
  "ResponseEnvelope_failure i e = \<lparr>rp_id = i, rp_result = None, rp_error = Some e\<rparr>"

subsection \<open>Their JSON form\<close>

fun wire_id_json :: "wire_id \<Rightarrow> json" where
  "wire_id_json (WireInteger n) = JNum n"
| "wire_id_json (WireString s) = JString s"

definition request_json :: "request_envelope \<Rightarrow> json" where
  "request_json r = JObject [(''id'', wire_id_json (rq_id r)), (''method'', JString (rq_method r)),
                             (''params'', rq_params r)]"

definition response_json :: "response_envelope \<Rightarrow> json" where
  "response_json r = JObject ((''id'', wire_id_json (rp_id r))
     # (case rp_result r of None \<Rightarrow> [] | Some v \<Rightarrow> [(''result'', v)])
     @ (case rp_error r of None \<Rightarrow> [] | Some v \<Rightarrow> [(''error'', v)]))"

text \<open>An untagged enum: an integer of 64 bits, else a string.\<close>

fun read_wire_id :: "json \<Rightarrow> wire_id option" where
  "read_wire_id (JNum n) = (if - 9223372036854775808 \<le> n \<and> n \<le> 9223372036854775807
                            then Some (WireInteger n) else None)"
| "read_wire_id (JString s) = Some (WireString s)"
| "read_wire_id _ = None"

definition only_fields :: "string list \<Rightarrow> (string \<times> json) list \<Rightarrow> bool" where
  "only_fields names ms \<longleftrightarrow> list_all (\<lambda>(k, v). k \<in> set names) ms"

definition read_request :: "(string \<times> json) list \<Rightarrow> request_envelope option" where
  "read_request ms =
     (if \<not> only_fields [''id'', ''method'', ''params''] ms then None
      else Option.bind (Option.bind (map_of ms ''id'') read_wire_id) (\<lambda>i.
           Option.bind (Option.bind (map_of ms ''method'') json_as_str) (\<lambda>m.
             Some \<lparr>rq_id = i, rq_method = m,
                   rq_params = (case map_of ms ''params'' of None \<Rightarrow> JNull | Some p \<Rightarrow> p)\<rparr>)))"

definition read_opt_value :: "string \<Rightarrow> (string \<times> json) list \<Rightarrow> json option" where
  "read_opt_value k ms = (case map_of ms k of None \<Rightarrow> None | Some JNull \<Rightarrow> None | Some v \<Rightarrow> Some v)"

definition read_response :: "(string \<times> json) list \<Rightarrow> response_envelope option" where
  "read_response ms =
     (if \<not> only_fields [''id'', ''result'', ''error''] ms then None
      else Option.bind (Option.bind (map_of ms ''id'') read_wire_id) (\<lambda>i.
             Some \<lparr>rp_id = i, rp_result = read_opt_value ''result'' ms,
                   rp_error = read_opt_value ''error'' ms\<rparr>))"

definition read_event :: "(string \<times> json) list \<Rightarrow> event_envelope option" where
  "read_event ms =
     (if \<not> only_fields [''method'', ''params''] ms then None
      else Option.bind (Option.bind (map_of ms ''method'') json_as_str) (\<lambda>m.
             Some \<lparr>en_method = m,
                   en_params = (case map_of ms ''params'' of None \<Rightarrow> JNull | Some p \<Rightarrow> p)\<rparr>))"

section \<open>Classifying a line\<close>

datatype parse_error =
    InvalidJson string
  | NotObject
  | MissingKind
  | InvalidEnvelope string
  | ContradictoryResponse

record wire_env =
  we_from_str :: "string \<Rightarrow> string + json"
  we_to_string :: "json \<Rightarrow> string"
  we_envelope_error :: "json \<Rightarrow> string"

definition SESSION_EVENT :: string where
  "SESSION_EVENT = ''session/event''"

definition from_value :: "wire_env \<Rightarrow> json \<Rightarrow> ('e \<Rightarrow> wire_message) \<Rightarrow> 'e option \<Rightarrow> parse_error + wire_message" where
  "from_value env v wrap r = (case r of None \<Rightarrow> Inl (InvalidEnvelope (we_envelope_error env v))
                                      | Some x \<Rightarrow> Inr (wrap x))"

definition known_event :: "string \<Rightarrow> (string \<times> json) list \<Rightarrow> bool" where
  "known_event method ms \<longleftrightarrow> method = SESSION_EVENT
     \<and> (case Option.bind (map_of ms ''params'') (json_get_str ''type'') of
          None \<Rightarrow> False
        | Some kind \<Rightarrow> kind = ''turn.started'' \<or> kind = ''turn.completed'' \<or> kind = ''turn.failed'')"

definition parse_value :: "wire_env \<Rightarrow> json \<Rightarrow> parse_error + wire_message" where
  "parse_value env v =
     rbind (ok_or NotObject (json_as_object v)) (\<lambda>ms.
       if obj_has ''jsonrpc'' ms
       then Inl (InvalidEnvelope ''jsonrpc is not part of the strict ZCode envelope'')
       else if obj_has ''id'' ms \<and> (obj_has ''result'' ms \<or> obj_has ''error'' ms)
       then if obj_has ''result'' ms \<and> obj_has ''error'' ms then Inl ContradictoryResponse
            else if (case (case map_of ms ''result'' of None \<Rightarrow> map_of ms ''error'' | Some r \<Rightarrow> Some r) of
                       None \<Rightarrow> True | Some w \<Rightarrow> w = JNull)
            then Inl (InvalidEnvelope ''response requires exactly one non-null result or error'')
            else from_value env v Response (read_response ms)
       else case Option.bind (map_of ms ''method'') json_as_str of
              None \<Rightarrow> Inl MissingKind
            | Some method \<Rightarrow>
                if obj_has ''id'' ms then from_value env v Request (read_request ms)
                else if known_event method ms then from_value env v Event (read_event ms)
                else Inr (UnknownEvent method v))"

definition parse_line :: "wire_env \<Rightarrow> string \<Rightarrow> parse_error + wire_message" where
  "parse_line env line =
     (case we_from_str env line of Inl e \<Rightarrow> Inl (InvalidJson e) | Inr v \<Rightarrow> parse_value env v)"

definition encode :: "wire_env \<Rightarrow> json \<Rightarrow> string" where
  "encode env v = we_to_string env v"

datatype lifecycle_order = NotLifecycle | InOrder | OutOfOrder string

definition classify_lifecycle :: "string \<Rightarrow> bool \<Rightarrow> lifecycle_order" where
  "classify_lifecycle method turn_active =
     (if method = ''turn.started'' \<and> \<not> turn_active then InOrder
      else if method = ''turn.started'' then OutOfOrder ''turn.completed or turn.failed''
      else if (method = ''turn.completed'' \<or> method = ''turn.failed'') \<and> turn_active then InOrder
      else if method = ''turn.completed'' \<or> method = ''turn.failed'' then OutOfOrder ''turn.started''
      else NotLifecycle)"

definition event_type :: "event_envelope \<Rightarrow> string option" where
  "event_type e = (if en_method e = SESSION_EVENT then json_get_str ''type'' (en_params e) else None)"

definition turn_id_from_result :: "json \<Rightarrow> string option" where
  "turn_id_from_result r = json_get_str ''turnId'' r"

section \<open>Projections\<close>

datatype projection_error =
    Missing string
  | Invalid string
  | UnobservedAlternate string
  | ModelConflict

type_synonym 'a projected = "projection_error + 'a"

definition normalized_zai_model :: "string \<Rightarrow> string option" where
  "normalized_zai_model v =
     (if v = [] \<or> length v > 128 \<or> has_nul v then None
      else Option.bind (case split_once (CHR ''/'') v of
                          Some (p, m) \<Rightarrow> if p = ''zai'' then Some m else None
                        | None \<Rightarrow> Some v) (\<lambda>model.
             if model = [] \<or> CHR ''/'' \<in> set model then None else Some (to_ascii_lowercase model)))"

definition reject_alternate :: "(string \<times> json) list \<Rightarrow> string \<Rightarrow> string \<Rightarrow> unit projected" where
  "reject_alternate ms key path = (if obj_has key ms then Inl (UnobservedAlternate path) else Inr ())"

definition optional_object ::
    "(string \<times> json) list \<Rightarrow> string \<Rightarrow> string \<Rightarrow> (string \<times> json) list option projected" where
  "optional_object ms key path =
     (case map_of ms key of None \<Rightarrow> Inr None
      | Some v \<Rightarrow> rbind (ok_or (Invalid path) (json_as_object v)) (\<lambda>o'. Inr (Some o')))"

definition required_bounded_string :: "json option \<Rightarrow> string \<Rightarrow> nat \<Rightarrow> string projected" where
  "required_bounded_string v path max_len =
     rbind (ok_or (Missing path) v) (\<lambda>v.
     rbind (ok_or (Invalid path) (json_as_str v)) (\<lambda>s.
       if s = [] \<or> length s > max_len \<or> has_nul s then Inl (Invalid path) else Inr s))"

definition model_field :: "(string \<times> json) list \<Rightarrow> string \<Rightarrow> string option projected" where
  "model_field ms path =
     (case map_of ms ''modelId'' of None \<Rightarrow> Inr None
      | Some v \<Rightarrow> rbind (required_bounded_string (Some v) path 128) (\<lambda>s.
          if normalized_zai_model s = None then Inl (Invalid path) else Inr (Some s)))"

definition settings_current_model :: "(string \<times> json) list \<Rightarrow> string option projected" where
  "settings_current_model root =
     rbind (optional_object root ''settings'' ''result.settings'') (\<lambda>settings.
       case settings of None \<Rightarrow> Inr None | Some settings \<Rightarrow>
     rbind (optional_object settings ''model'' ''result.settings.model'') (\<lambda>model.
       case model of None \<Rightarrow> Inr None | Some model \<Rightarrow>
     rbind (reject_alternate model ''value'' ''result.settings.model.value'') (\<lambda>_.
     rbind (optional_object model ''current'' ''result.settings.model.current'') (\<lambda>current.
       case current of None \<Rightarrow> Inr None | Some current \<Rightarrow>
     rbind (reject_alternate current ''id'' ''result.settings.model.current.id'') (\<lambda>_.
       model_field current ''result.settings.model.current.modelId'')))))"

definition session_consistency_model :: "(string \<times> json) list \<Rightarrow> string option projected" where
  "session_consistency_model session =
     rbind (optional_object session ''model'' ''result.session.model'') (\<lambda>model.
       case model of None \<Rightarrow> Inr None | Some model \<Rightarrow> model_field model ''result.session.model.modelId'')"

record session_create_projection =
  sp_session_id :: string
  sp_requested_model :: "string option"

definition SessionCreateProjection_from_result :: "json \<Rightarrow> session_create_projection projected" where
  "SessionCreateProjection_from_result result =
     rbind (ok_or (Invalid ''result'') (json_as_object result)) (\<lambda>root.
     rbind (reject_alternate root ''sessionId'' ''result.sessionId'') (\<lambda>_.
     rbind (reject_alternate root ''session_id'' ''result.session_id'') (\<lambda>_.
     rbind (reject_alternate root ''modelId'' ''result.modelId'') (\<lambda>_.
     rbind (reject_alternate root ''model'' ''result.model'') (\<lambda>_.
     rbind (ok_or (Missing ''result.session.sessionId'') (map_of root ''session'')) (\<lambda>sv.
     rbind (ok_or (Invalid ''result.session'') (json_as_object sv)) (\<lambda>session.
     rbind (reject_alternate session ''id'' ''result.session.id'') (\<lambda>_.
     rbind (reject_alternate session ''session_id'' ''result.session.session_id'') (\<lambda>_.
     rbind (reject_alternate session ''modelId'' ''result.session.modelId'') (\<lambda>_.
     rbind (reject_alternate session ''settings'' ''result.session.settings'') (\<lambda>_.
     rbind (required_bounded_string (map_of session ''sessionId'') ''result.session.sessionId'' 512) (\<lambda>session_id.
     rbind (settings_current_model root) (\<lambda>requested_model.
     rbind (session_consistency_model session) (\<lambda>consistency_model.
       case (requested_model, consistency_model) of
         (Some requested, Some observed) \<Rightarrow>
           if normalized_zai_model requested \<noteq> normalized_zai_model observed then Inl ModelConflict
           else Inr \<lparr>sp_session_id = session_id, sp_requested_model = requested_model\<rparr>
       | (None, Some _) \<Rightarrow> Inl (Missing ''result.settings.model.current.modelId'')
       | _ \<Rightarrow> Inr \<lparr>sp_session_id = session_id, sp_requested_model = requested_model\<rparr>))))))))))))))"

record workspace_diagnostic_projection =
  wp_current_model :: "string option"
  wp_available_models :: "string list"

definition catalog_item :: "json \<Rightarrow> string projected" where
  "catalog_item item =
     rbind (ok_or (Invalid ''result.modelCatalog.available[]'') (json_as_object item)) (\<lambda>ms.
     rbind (ok_or (Invalid ''result.modelCatalog.available[].ref'')
              (Option.bind (map_of ms ''ref'') json_as_object)) (\<lambda>reference.
       required_bounded_string (map_of reference ''modelId'')
         ''result.modelCatalog.available[].ref.modelId'' 128))"

definition catalog_models :: "(string \<times> json) list \<Rightarrow> string list projected" where
  "catalog_models root =
     rbind (optional_object root ''modelCatalog'' ''result.modelCatalog'') (\<lambda>catalog.
       case catalog of None \<Rightarrow> Inr []
       | Some catalog \<Rightarrow>
           case map_of catalog ''available'' of None \<Rightarrow> Inr []
           | Some available \<Rightarrow>
               rbind (ok_or (Invalid ''result.modelCatalog.available'') (json_as_array available)) (\<lambda>items.
                 collect_results (map catalog_item items)))"

definition WorkspaceDiagnosticProjection_from_result :: "json \<Rightarrow> workspace_diagnostic_projection projected" where
  "WorkspaceDiagnosticProjection_from_result result =
     rbind (ok_or (Invalid ''result'') (json_as_object result)) (\<lambda>root.
     rbind (settings_current_model root) (\<lambda>current_model.
     rbind (catalog_models root) (\<lambda>available.
       Inr \<lparr>wp_current_model = current_model, wp_available_models = remdups_adj (sort available)\<rparr>)))"

section \<open>Permission responses\<close>

definition offered_permission_response :: "json \<Rightarrow> string \<Rightarrow> json option" where
  "offered_permission_response params decision =
     Option.bind (if decision = ''allow'' then Some ''allow_once''
                  else if decision = ''deny'' then Some ''deny'' else None) (\<lambda>expected_kind.
     Option.bind (json_get ''options'' params) (\<lambda>ov.
     Option.bind (json_as_array ov) (\<lambda>options.
       case filter (\<lambda>o'. json_get_str ''kind'' o' = Some expected_kind) options of
         [option] \<Rightarrow>
           Option.bind (Option.bind (json_get ''response'' option) json_as_object) (\<lambda>response.
             if Option.bind (map_of response ''decision'') json_as_str = Some decision
             then Some (JObject response) else None)
       | _ \<Rightarrow> None)))"

section \<open>Facts\<close>

lemma from_value_Inr [simp]: "from_value env v wrap r = Inr m \<longleftrightarrow> (\<exists>x. r = Some x \<and> m = wrap x)"
  by (auto simp: from_value_def split: option.splits)

lemma json_as_object_Some [simp]: "json_as_object v = Some ms \<longleftrightarrow> v = JObject ms"
  by (cases v) auto

lemma json_as_str_Some [simp]: "json_as_str v = Some s \<longleftrightarrow> v = JString s"
  by (cases v) auto

lemma json_as_array_Some [simp]: "json_as_array v = Some vs \<longleftrightarrow> v = JArray vs"
  by (cases v) auto

lemma reject_alternate_Inr [simp]: "reject_alternate ms k p = Inr u \<longleftrightarrow> \<not> obj_has k ms"
  by (auto simp: reject_alternate_def)

lemma bind_Some_iff: "Option.bind m f = Some y \<longleftrightarrow> (\<exists>x. m = Some x \<and> f x = Some y)"
  by (cases m) auto

lemma required_bounded_string_Inr:
  "required_bounded_string v path n = Inr s \<longleftrightarrow> v = Some (JString s) \<and> s \<noteq> [] \<and> length s \<le> n \<and> \<not> has_nul s"
  by (auto simp: required_bounded_string_def split: if_splits)

lemma read_wire_id_json:
  "read_wire_id (wire_id_json i) = Some i \<longleftrightarrow>
     (case i of WireInteger n \<Rightarrow> - 9223372036854775808 \<le> n \<and> n \<le> 9223372036854775807 | WireString s \<Rightarrow> True)"
  by (cases i) auto

text \<open>
  What a line can be. A parsed line never mixes kinds: a response has an id
  and exactly one of result and error, not null; a request has an id and a method and neither
  result nor error; an event has no id, is a session event, and its type is one of the three
  turn boundaries; every other notification is kept whole as an unknown event.
\<close>

theorem parse_line_classification:
  assumes "parse_line env line = Inr m"
  shows "\<exists>ms. we_from_str env line = Inr (JObject ms) \<and> map_of ms ''jsonrpc'' = None
     \<and> (case m of
          Response r \<Rightarrow> map_of ms ''id'' \<noteq> None
            \<and> ((rp_result r = map_of ms ''result'' \<and> rp_result r \<notin> {None, Some JNull}
                  \<and> rp_error r = None \<and> map_of ms ''error'' = None)
             \<or> (rp_error r = map_of ms ''error'' \<and> rp_error r \<notin> {None, Some JNull}
                  \<and> rp_result r = None \<and> map_of ms ''result'' = None))
        | Request r \<Rightarrow> map_of ms ''id'' = Some (wire_id_json (rq_id r))
            \<and> map_of ms ''method'' = Some (JString (rq_method r))
            \<and> map_of ms ''result'' = None \<and> map_of ms ''error'' = None
        | Event e \<Rightarrow> map_of ms ''id'' = None \<and> en_method e = SESSION_EVENT
            \<and> event_type e \<in> {Some ''turn.started'', Some ''turn.completed'', Some ''turn.failed''}
        | UnknownEvent method raw \<Rightarrow> map_of ms ''id'' = None \<and> raw = JObject ms
            \<and> map_of ms ''method'' = Some (JString method))"
proof -
  obtain ms where ms: "we_from_str env line = Inr (JObject ms)" and nj: "\<not> obj_has ''jsonrpc'' ms"
    using assms by (auto simp: parse_line_def parse_value_def split: sum.splits if_splits)
  have pv: "parse_value env (JObject ms) = Inr m" using assms ms by (simp add: parse_line_def)
  show ?thesis
  proof (cases m)
    case (Response r)
    have "obj_has ''id'' ms" "obj_has ''result'' ms \<or> obj_has ''error'' ms"
        "\<not> (obj_has ''result'' ms \<and> obj_has ''error'' ms)" "read_response ms = Some r"
        "(case map_of ms ''result'' of None \<Rightarrow> map_of ms ''error'' | Some x \<Rightarrow> Some x) \<noteq> Some JNull"
      using pv Response nj
      by (auto simp: parse_value_def split: if_splits option.splits)
    then show ?thesis
      using ms nj Response
      by (auto simp: obj_has_def read_response_def bind_Some_iff read_opt_value_def split: if_splits option.splits json.splits)
  next
    case (Request r)
    have "obj_has ''id'' ms" "\<not> obj_has ''result'' ms" "\<not> obj_has ''error'' ms" "read_request ms = Some r"
      using pv Request nj by (auto simp: parse_value_def split: if_splits option.splits)
    then show ?thesis
      using ms nj Request
      by (auto simp: obj_has_def read_request_def bind_Some_iff split: if_splits elim!: read_wire_id.elims)
  next
    case (Event e)
    obtain mth where "\<not> obj_has ''id'' ms" "Option.bind (map_of ms ''method'') json_as_str = Some mth"
        "known_event mth ms" "read_event ms = Some e"
      using pv Event nj by (auto simp: parse_value_def split: if_splits option.splits)
    then show ?thesis
      using ms nj Event
      by (auto simp: obj_has_def read_event_def bind_Some_iff known_event_def event_type_def split: if_splits option.splits)
  next
    case (UnknownEvent mth raw)
    have "\<not> obj_has ''id'' ms" "Option.bind (map_of ms ''method'') json_as_str = Some mth" "raw = JObject ms"
      using pv UnknownEvent nj by (auto simp: parse_value_def split: if_splits option.splits)
    then show ?thesis
      using ms nj UnknownEvent by (auto simp: obj_has_def bind_Some_iff)
  qed
qed

definition demo_wire :: "json \<Rightarrow> wire_env" where
  "demo_wire v = \<lparr>we_from_str = (\<lambda>_. Inr v), we_to_string = (\<lambda>_. ''line''), we_envelope_error = (\<lambda>_. ''bad'')\<rparr>"

theorem parse_line_classification_witness:
  "\<exists>ms. we_from_str (demo_wire (JObject [(''id'', JNum 3), (''result'', JBool True)])) ''line'' = Inr (JObject ms)
     \<and> map_of ms ''jsonrpc'' = None"
proof -
  have "parse_line (demo_wire (JObject [(''id'', JNum 3), (''result'', JBool True)])) ''line''
      = Inr (Response \<lparr>rp_id = WireInteger 3, rp_result = Some (JBool True), rp_error = None\<rparr>)"
    by (simp add: demo_wire_def parse_line_def parse_value_def obj_has_def from_value_def read_response_def
        only_fields_def read_opt_value_def)
  from parse_line_classification [OF this] show ?thesis by blast
qed

text \<open>
  The daemon's own envelopes survive the wire. If reading inverts printing for
  the JSON values at hand, a request with any method and parameters, and a success or failure response
  with a non-null body, is read back as the same envelope; a response with a null body is
  refused.
\<close>

theorem envelopes_round_trip:
  assumes "list_all (\<lambda>x. we_from_str env (we_to_string env x) = Inr x)
      [request_json (RequestEnvelope_new i m p), response_json (ResponseEnvelope_success i v),
       response_json (ResponseEnvelope_failure i v), response_json (ResponseEnvelope_success i JNull)]"
    and "read_wire_id (wire_id_json i) = Some i"
  shows "parse_line env (encode env (request_json (RequestEnvelope_new i m p))) = Inr (Request (RequestEnvelope_new i m p))
     \<and> (v \<noteq> JNull \<longrightarrow>
          parse_line env (encode env (response_json (ResponseEnvelope_success i v))) = Inr (Response (ResponseEnvelope_success i v))
        \<and> parse_line env (encode env (response_json (ResponseEnvelope_failure i v))) = Inr (Response (ResponseEnvelope_failure i v)))
     \<and> (\<exists>e. parse_line env (encode env (response_json (ResponseEnvelope_success i JNull))) = Inl (InvalidEnvelope e))"
proof -
  note d = parse_line_def encode_def parse_value_def obj_has_def from_value_def only_fields_def read_opt_value_def
  have "parse_line env (encode env (request_json (RequestEnvelope_new i m p))) = Inr (Request (RequestEnvelope_new i m p))"
    using assms by (simp add: d request_json_def RequestEnvelope_new_def read_request_def)
  moreover have "parse_line env (encode env (response_json (ResponseEnvelope_success i v))) = Inr (Response (ResponseEnvelope_success i v))
        \<and> parse_line env (encode env (response_json (ResponseEnvelope_failure i v))) = Inr (Response (ResponseEnvelope_failure i v))"
    if "v \<noteq> JNull"
    using assms that
    by (cases v) (simp_all add: d response_json_def ResponseEnvelope_success_def ResponseEnvelope_failure_def read_response_def)
  moreover have "\<exists>e. parse_line env (encode env (response_json (ResponseEnvelope_success i JNull))) = Inl (InvalidEnvelope e)"
    using assms by (simp add: d response_json_def ResponseEnvelope_success_def)
  ultimately show ?thesis by blast
qed

definition demo_printer :: wire_env where
  "demo_printer = \<lparr>
     we_from_str = (\<lambda>s. if s = ''request'' then Inr (request_json (RequestEnvelope_new (WireInteger 1) ''session/send'' JNull))
                     else if s = ''ok'' then Inr (response_json (ResponseEnvelope_success (WireInteger 1) (JBool True)))
                     else if s = ''error'' then Inr (response_json (ResponseEnvelope_failure (WireInteger 1) (JBool True)))
                     else Inr (response_json (ResponseEnvelope_success (WireInteger 1) JNull))),
     we_to_string = (\<lambda>v. if json_get ''method'' v \<noteq> None then ''request''
                      else if json_get ''error'' v \<noteq> None then ''error''
                      else if json_get ''result'' v = Some JNull then ''null'' else ''ok''),
     we_envelope_error = (\<lambda>_. ''bad'')\<rparr>"

theorem envelopes_round_trip_witness:
  "parse_line demo_printer (encode demo_printer (response_json (ResponseEnvelope_failure (WireInteger 1) (JBool True))))
     = Inr (Response (ResponseEnvelope_failure (WireInteger 1) (JBool True)))"
proof -
  have "list_all (\<lambda>x. we_from_str demo_printer (we_to_string demo_printer x) = Inr x)
      [request_json (RequestEnvelope_new (WireInteger 1) ''session/send'' JNull),
       response_json (ResponseEnvelope_success (WireInteger 1) (JBool True)),
       response_json (ResponseEnvelope_failure (WireInteger 1) (JBool True)),
       response_json (ResponseEnvelope_success (WireInteger 1) JNull)]"
    by (simp add: demo_printer_def request_json_def response_json_def RequestEnvelope_new_def
        ResponseEnvelope_success_def ResponseEnvelope_failure_def)
  from envelopes_round_trip [OF this] show ?thesis by simp
qed

section \<open>Models, sessions and permissions\<close>

lemma ascii_lower_below:
  assumes "of_char d < (97 :: nat)" and "ascii_lower_char c = d"
  shows "c = d"
proof (cases "65 \<le> (of_char c :: nat) \<and> (of_char c :: nat) \<le> 90")
  case True
  then have "d = char_of ((of_char c :: nat) + 32)" using assms(2) by (simp add: ascii_lower_char_def)
  then have "(of_char d :: nat) = of_char c + 32" using True by simp
  then show ?thesis using assms(1) True by simp
next
  case False
  then show ?thesis using assms(2) by (auto simp: ascii_lower_char_def)
qed

lemma lowercase_keeps:
  assumes "of_char d < (97 :: nat)" and "d \<notin> set m"
  shows "d \<notin> set (to_ascii_lowercase m)"
proof
  assume "d \<in> set (to_ascii_lowercase m)"
  then obtain c where "c \<in> set m" "ascii_lower_char c = d"
    unfolding to_ascii_lowercase_def set_map by blast
  moreover from this(2) have "c = d" by (rule ascii_lower_below [OF assms(1)])
  ultimately show False using assms(2) by simp
qed

lemma normalized_zai_model_Some:
  assumes "normalized_zai_model v = Some n"
  shows "length v \<le> 128 \<and> (\<exists>m. (v = m \<or> v = ''zai/'' @ m) \<and> m \<noteq> [] \<and> CHR ''/'' \<notin> set m
     \<and> CHR 0x00 \<notin> set m \<and> n = to_ascii_lowercase m)"
proof (cases "split_once (CHR ''/'') v")
  case None
  then have "CHR ''/'' \<notin> set v" by (simp add: split_once_None)
  then have "v \<noteq> []" "length v \<le> 128" "CHR 0x00 \<notin> set v" "n = to_ascii_lowercase v" "CHR ''/'' \<notin> set v"
    using None assms by (simp_all add: normalized_zai_model_def has_nul_def split: if_splits)
  then show ?thesis by blast
next
  case (Some ab)
  obtain a b where ab: "ab = (a, b)" by fastforce
  then have v: "v = a @ CHR ''/'' # b"
    using Some by (simp add: split_once_Some)
  have "a = ''zai''" "b \<noteq> []" "CHR ''/'' \<notin> set b" "n = to_ascii_lowercase b" "length v \<le> 128" "CHR 0x00 \<notin> set v"
    using assms Some ab by (simp_all add: normalized_zai_model_def has_nul_def split: if_splits)
  then show ?thesis using v by (intro conjI exI [of _ b]) simp_all
qed

text \<open>
  Model names are compared in one normal form. The normal form of a name is
  lower case, not empty, without a slash and at most 128 bytes; normalising it again changes
  nothing, and a bare name and the same name under the provider prefix have the same one.
\<close>

theorem model_normal_form:
  "(case normalized_zai_model v of None \<Rightarrow> True
    | Some n \<Rightarrow> n \<noteq> [] \<and> length n \<le> 128 \<and> CHR ''/'' \<notin> set n \<and> to_ascii_lowercase n = n
             \<and> normalized_zai_model n = Some n)
   \<and> (normalized_zai_model (''zai/'' @ v) = normalized_zai_model v \<or> length v > 124 \<or> CHR ''/'' \<in> set v)"
proof
  show "case normalized_zai_model v of None \<Rightarrow> True
    | Some n \<Rightarrow> n \<noteq> [] \<and> length n \<le> 128 \<and> CHR ''/'' \<notin> set n \<and> to_ascii_lowercase n = n
             \<and> normalized_zai_model n = Some n"
  proof (cases "normalized_zai_model v")
    case (Some n)
    then obtain m where m: "v = m \<or> v = ''zai/'' @ m" "m \<noteq> []" "CHR ''/'' \<notin> set m" "CHR 0x00 \<notin> set m"
        "n = to_ascii_lowercase m" "length v \<le> 128"
      using normalized_zai_model_Some by blast
    have n: "n \<noteq> []" "length n \<le> 128" "CHR ''/'' \<notin> set n" "CHR 0x00 \<notin> set n" "to_ascii_lowercase n = n"
      using m lowercase_keeps [of "CHR ''/''" m] lowercase_keeps [of "CHR 0x00" m]
      by (auto simp: to_ascii_lowercase_def)
    moreover have "split_once (CHR ''/'') n = None" using n(3) by (simp add: split_once_None)
    ultimately have "normalized_zai_model n = Some n"
      by (simp add: normalized_zai_model_def has_nul_def)
    then show ?thesis using Some n by simp
  qed simp
  show "normalized_zai_model (''zai/'' @ v) = normalized_zai_model v \<or> length v > 124 \<or> CHR ''/'' \<in> set v"
  proof (cases "length v > 124 \<or> CHR ''/'' \<in> set v")
    case False
    then have "split_once (CHR ''/'') v = None" by (simp add: split_once_None)
    then show ?thesis using False by (auto simp: normalized_zai_model_def has_nul_def)
  qed simp
qed

lemma optional_object_Inr [simp]:
  "optional_object ms k p = Inr r \<longleftrightarrow>
     (case map_of ms k of None \<Rightarrow> r = None | Some v \<Rightarrow> (\<exists>o'. v = JObject o' \<and> r = Some o'))"
  by (auto simp: optional_object_def split: option.splits)

lemma model_field_Inr:
  assumes "model_field ms p = Inr (Some s)"
  shows "map_of ms ''modelId'' = Some (JString s) \<and> normalized_zai_model s \<noteq> None"
  using assms by (auto simp: model_field_def required_bounded_string_Inr split: option.splits if_splits)

text \<open>
  A session is only accepted from the pinned place. When the projection of a
  create result succeeds, the session id is the bounded string at \<^verbatim>\<open>result.session.sessionId\<close>,
  none of the alternate spellings is present beside it, and a model the session reports is
  the requested model up to its normal form.
\<close>

theorem session_projection_is_pinned:
  assumes "SessionCreateProjection_from_result result = Inr sp"
  shows "\<exists>root session. result = JObject root \<and> map_of root ''session'' = Some (JObject session)
     \<and> map_of session ''sessionId'' = Some (JString (sp_session_id sp))
     \<and> sp_session_id sp \<noteq> [] \<and> length (sp_session_id sp) \<le> 512 \<and> \<not> has_nul (sp_session_id sp)
     \<and> \<not> list_ex (\<lambda>k. obj_has k root) [''sessionId'', ''session_id'', ''modelId'', ''model'']
     \<and> \<not> list_ex (\<lambda>k. obj_has k session) [''id'', ''session_id'', ''modelId'', ''settings'']
     \<and> settings_current_model root = Inr (sp_requested_model sp)
     \<and> (case session_consistency_model session of Inl e \<Rightarrow> False
        | Inr None \<Rightarrow> True
        | Inr (Some observed) \<Rightarrow> (\<exists>m. sp_requested_model sp = Some m
              \<and> normalized_zai_model m = normalized_zai_model observed))"
  using assms
  by (auto simp: SessionCreateProjection_from_result_def required_bounded_string_Inr
      split: option.splits if_splits)

definition demo_session :: json where
  "demo_session = JObject [(''session'', JObject [(''sessionId'', JString ''s1'')])]"

theorem session_projection_is_pinned_witness:
  "\<exists>root session. demo_session = JObject root \<and> map_of root ''session'' = Some (JObject session)
     \<and> map_of session ''sessionId'' = Some (JString ''s1'')"
proof -
  have "SessionCreateProjection_from_result demo_session = Inr \<lparr>sp_session_id = ''s1'', sp_requested_model = None\<rparr>"
    by (simp add: demo_session_def SessionCreateProjection_from_result_def reject_alternate_def obj_has_def
        required_bounded_string_def has_nul_def settings_current_model_def session_consistency_model_def
        optional_object_def)
  from session_projection_is_pinned [OF this] show ?thesis by auto
qed

text \<open>
  The workspace diagnostic lists each available model once, in byte order,
  and lists exactly the models of the catalogue.
\<close>

lemma distinct_remdups_adj_sorted: "sorted xs \<Longrightarrow> distinct (remdups_adj xs)"
  by (induction xs rule: remdups_adj.induct) (auto simp: order.antisym)

theorem diagnostic_models_sorted:
  assumes "WorkspaceDiagnosticProjection_from_result (JObject root) = Inr wp"
  shows "sorted (wp_available_models wp) \<and> distinct (wp_available_models wp)
     \<and> (\<exists>models. catalog_models root = Inr models \<and> set (wp_available_models wp) = set models)"
proof -
  obtain models where m: "catalog_models root = Inr models"
    and w: "wp_available_models wp = remdups_adj (sort models)"
    using assms by (auto simp: WorkspaceDiagnosticProjection_from_result_def)
  have "sorted (sort models)" by simp
  then have "sorted (remdups_adj (sort models))" "distinct (remdups_adj (sort models))"
    by (simp_all add: distinct_remdups_adj_sorted)
  then show ?thesis using m w by auto
qed

theorem diagnostic_models_sorted_witness:
  "\<exists>wp. WorkspaceDiagnosticProjection_from_result (JObject []) = Inr wp
     \<and> sorted (wp_available_models wp) \<and> distinct (wp_available_models wp)"
proof -
  have "WorkspaceDiagnosticProjection_from_result (JObject []) = Inr \<lparr>wp_current_model = None, wp_available_models = []\<rparr>"
    by (simp add: WorkspaceDiagnosticProjection_from_result_def settings_current_model_def catalog_models_def
        optional_object_def)
  from this diagnostic_models_sorted [OF this] show ?thesis by blast
qed

text \<open>
  A permission is only answered with what the runtime offered. The response sent
  for a decision is the response object of the one option whose kind matches it, and that
  object itself carries the decision; nothing is sent for another decision, or when no option
  or more than one matches.
\<close>

theorem permission_response_is_offered:
  assumes "offered_permission_response params decision = Some response"
  shows "(decision = ''allow'' \<or> decision = ''deny'')
     \<and> json_get_str ''decision'' response = Some decision
     \<and> (\<exists>options option. json_get ''options'' params = Some (JArray options)
          \<and> filter (\<lambda>o'. json_get_str ''kind'' o'
                     = Some (if decision = ''allow'' then ''allow_once'' else ''deny'')) options = [option]
          \<and> json_get ''response'' option = Some response)"
proof -
  obtain kind options where k: "decision = ''allow'' \<and> kind = ''allow_once'' \<or> decision = ''deny'' \<and> kind = ''deny''"
    and o1: "json_get ''options'' params = Some (JArray options)"
    and c: "(case filter (\<lambda>o'. json_get_str ''kind'' o' = Some kind) options of
         [option] \<Rightarrow> Option.bind (Option.bind (json_get ''response'' option) json_as_object) (\<lambda>response.
             if Option.bind (map_of response ''decision'') json_as_str = Some decision
             then Some (JObject response) else None)
       | _ \<Rightarrow> None) = Some response"
    using assms by (auto simp: offered_permission_response_def bind_Some_iff split: if_splits)
  obtain option where f: "filter (\<lambda>o'. json_get_str ''kind'' o' = Some kind) options = [option]"
    using c by (auto split: list.splits)
  obtain rs where r: "json_get ''response'' option = Some (JObject rs)"
      "map_of rs ''decision'' = Some (JString decision)" "response = JObject rs"
    using c unfolding f by (auto simp: bind_Some_iff split: if_splits)
  have "(if decision = ''allow'' then ''allow_once'' else ''deny'') = kind" using k by auto
  then show ?thesis
    using k o1 f r by (auto simp: json_get_str_Some)
qed

definition demo_permission :: json where
  "demo_permission = JObject [(''options'', JArray [JObject [(''kind'', JString ''deny''),
     (''response'', JObject [(''decision'', JString ''deny'')])]])]"

theorem permission_response_is_offered_witness:
  "json_get_str ''decision'' (JObject [(''decision'', JString ''deny'')]) = Some ''deny''"
proof -
  have "offered_permission_response demo_permission ''deny'' = Some (JObject [(''decision'', JString ''deny'')])"
    by (simp add: offered_permission_response_def demo_permission_def json_get_str_def)
  from permission_response_is_offered [OF this] show ?thesis by blast
qed

end
