(* ===== verification/Driver_Stream.thy ===== *)
theory Driver_Stream
  imports Protocol Systems
begin

text \<open>
  The reading half of \<^verbatim>\<open>crates/zcode-driver/src/lib.rs\<close>: one bounded line at a time from the
  runtime's standard output (\<^verbatim>\<open>read_bounded_line\<close>), the reader thread that classifies lines
  and lifecycle order (\<^verbatim>\<open>read_loop\<close>), and the dispatcher that matches responses with the
  requests that wait for them (\<^verbatim>\<open>spawn_dispatcher\<close>, \<^verbatim>\<open>begin_request\<close>, \<^verbatim>\<open>PendingRequest\<close>).

  The pipe is the list of what successive one-byte reads return: a byte, or an error; its
  end is the end of the stream. The reader's output is the list of what it sends; a receiver
  that goes away sees a prefix of it.
\<close>

section \<open>Bounded lines\<close>

definition MAX_NDJSON_LINE_BYTES :: nat where
  "MAX_NDJSON_LINE_BYTES = 1048576"

definition newline :: char where "newline = CHR 0x0A"

definition carriage :: char where "carriage = CHR 0x0D"

datatype stream_read = ReadByte char | ReadFailed

datatype line_result = LineEof | LineError | Line string nat

fun read_line_from :: "string \<Rightarrow> nat \<Rightarrow> stream_read list \<Rightarrow> line_result \<times> stream_read list" where
  "read_line_from line count [] = (if count = 0 then LineEof else Line line count, [])"
| "read_line_from line count (ReadFailed # rest) = (LineError, rest)"
| "read_line_from line count (ReadByte c # rest) =
     (if c = newline
      then (Line (if line \<noteq> [] \<and> last line = carriage then butlast line else line) (Suc count), rest)
      else if length line < MAX_NDJSON_LINE_BYTES then read_line_from (line @ [c]) (Suc count) rest
      else (Line [] (Suc MAX_NDJSON_LINE_BYTES), rest))"

definition read_bounded_line :: "stream_read list \<Rightarrow> line_result \<times> stream_read list" where
  "read_bounded_line input = read_line_from [] 0 input"

lemma read_line_from_shrinks:
  assumes "read_line_from line count input = (Line l n, rest)" and "input \<noteq> []"
  shows "length rest < length input"
  using assms
proof (induction line count input rule: read_line_from.induct)
  case (3 line count c rest')
  show ?case
  proof (cases "rest' = []")
    case True
    then show ?thesis using 3 by (auto split: if_splits)
  next
    case False
    then show ?thesis using 3 by (fastforce split: if_splits)
  qed
qed auto

lemma read_bounded_line_shrinks:
  assumes "read_bounded_line input = (Line l n, rest)"
  shows "length rest < length input"
  using assms read_line_from_shrinks [of "[]" 0 input l n rest]
  by (cases input) (auto simp: read_bounded_line_def)

section \<open>Lossy decoding\<close>

text \<open>
  \<^verbatim>\<open>String::from_utf8_lossy\<close>: well-formed UTF-8 is kept; each maximal prefix of a sequence
  that turns out ill-formed becomes one replacement character. \<open>utf8_tail\<close> gives the range
  of the second byte and the number of further continuation bytes for a leading byte.
\<close>

definition utf8_tail :: "nat \<Rightarrow> (nat \<times> nat \<times> nat) option" where
  "utf8_tail b =
     (if 194 \<le> b \<and> b \<le> 223 then Some (128, 191, 0)
      else if b = 224 then Some (160, 191, 1)
      else if b = 237 then Some (128, 159, 1)
      else if 225 \<le> b \<and> b \<le> 239 then Some (128, 191, 1)
      else if b = 240 then Some (144, 191, 2)
      else if 241 \<le> b \<and> b \<le> 243 then Some (128, 191, 2)
      else if b = 244 then Some (128, 143, 2)
      else None)"

fun utf8_more :: "nat \<Rightarrow> string \<Rightarrow> string \<Rightarrow> bool \<times> string \<times> string" where
  "utf8_more 0 acc bs = (True, acc, bs)"
| "utf8_more (Suc n) acc [] = (False, acc, [])"
| "utf8_more (Suc n) acc (c # bs) = (if utf8_cont c then utf8_more n (acc @ [c]) bs else (False, acc, c # bs))"

definition utf8_step :: "char \<Rightarrow> string \<Rightarrow> bool \<times> string \<times> string" where
  "utf8_step b bs =
     (if (of_char b :: nat) < 128 then (True, [b], bs)
      else case utf8_tail (of_char b) of
             None \<Rightarrow> (False, [b], bs)
           | Some (lo, hi, n) \<Rightarrow>
               (case bs of
                  [] \<Rightarrow> (False, [b], [])
                | c # cs \<Rightarrow> if lo \<le> of_char c \<and> of_char c \<le> hi then utf8_more n [b, c] cs
                           else (False, [b], c # cs)))"

lemma utf8_more_shrinks: "utf8_more n acc bs = (ok, s, rest) \<Longrightarrow> length rest \<le> length bs"
  by (induction n acc bs rule: utf8_more.induct) (auto split: if_splits dest: le_SucI)

lemma utf8_step_shrinks: "utf8_step b bs = (ok, s, rest) \<Longrightarrow> length rest \<le> length bs"
  by (auto simp: utf8_step_def split: if_splits option.splits list.splits prod.splits dest: utf8_more_shrinks)

definition replacement :: string where
  "replacement = [CHR 0xEF, CHR 0xBF, CHR 0xBD]"

function from_utf8_lossy :: "string \<Rightarrow> string" where
  "from_utf8_lossy [] = []"
| "from_utf8_lossy (b # bs) =
     (case utf8_step b bs of (ok, s, rest) \<Rightarrow> (if ok then s else replacement) @ from_utf8_lossy rest)"
  by pat_completeness auto
termination
  by (relation "measure length") (auto dest!: sym [of "(_, _, _)"] utf8_step_shrinks)

lemma from_utf8_lossy_ascii: "list_all (\<lambda>c. (of_char c :: nat) < 128) s \<Longrightarrow> from_utf8_lossy s = s"
  by (induction s) (auto simp: utf8_step_def)

section \<open>The reader thread\<close>

datatype child_exit = Exited "int option" | Signaled int | ExitUnknown

datatype inbound =
    Message wire_message
  | Lifecycle nat string lifecycle_order
  | Malformed string
  | OversizedLine nat
  | ChildExited child_exit
  | UnmatchedResponse wire_id string

text \<open>The text of a parse error in a \<^verbatim>\<open>Malformed\<close> record; quoting of payloads is a parameter.\<close>

fun debug_parse_error :: "(string \<Rightarrow> string) \<Rightarrow> parse_error \<Rightarrow> string" where
  "debug_parse_error render (InvalidJson e) = ''InvalidJson('' @ render e @ '')''"
| "debug_parse_error render NotObject = ''NotObject''"
| "debug_parse_error render MissingKind = ''MissingKind''"
| "debug_parse_error render (InvalidEnvelope e) = ''InvalidEnvelope('' @ render e @ '')''"
| "debug_parse_error render ContradictoryResponse = ''ContradictoryResponse''"

definition next_turn_active :: "string \<Rightarrow> bool \<Rightarrow> bool" where
  "next_turn_active kind turn_active =
     (let order = classify_lifecycle kind turn_active;
          started = (if kind = ''turn.started'' \<and> order = InOrder then True else turn_active)
      in if (kind = ''turn.completed'' \<or> kind = ''turn.failed'') \<and> order = InOrder then False else started)"

definition message_kind :: "wire_message \<Rightarrow> string option" where
  "message_kind m = (case m of Event e \<Rightarrow> event_type e | _ \<Rightarrow> None)"

definition read_step ::
    "wire_env \<Rightarrow> (string \<Rightarrow> string) \<Rightarrow> nat \<Rightarrow> bool \<Rightarrow> string \<Rightarrow> inbound list \<times> bool" where
  "read_step env render sequence turn_active line =
     (case parse_line env (from_utf8_lossy line) of
        Inl e \<Rightarrow> ([Malformed (debug_parse_error render e)], turn_active)
      | Inr msg \<Rightarrow>
          (case message_kind msg of
             None \<Rightarrow> ([Message msg], turn_active)
           | Some kind \<Rightarrow> ([Lifecycle sequence kind (classify_lifecycle kind turn_active), Message msg],
                           next_turn_active kind turn_active)))"

function read_loop_from ::
    "wire_env \<Rightarrow> (string \<Rightarrow> string) \<Rightarrow> nat \<Rightarrow> bool \<Rightarrow> stream_read list \<Rightarrow> inbound list" where
  "read_loop_from env render sequence turn_active input =
     (case read_bounded_line input of
        (Line line bytes, rest) \<Rightarrow>
          if bytes \<le> MAX_NDJSON_LINE_BYTES
          then (case read_step env render (Suc sequence) turn_active line of
                  (sent, active) \<Rightarrow> sent @ read_loop_from env render (Suc sequence) active rest)
          else [OversizedLine bytes]
      | (LineEof, _) \<Rightarrow> []
      | (LineError, _) \<Rightarrow> [])"
  by pat_completeness auto
termination
  by (relation "measure (\<lambda>(env, render, sequence, turn_active, input). length input)")
     (auto dest!: sym [of "(_, _)"] read_bounded_line_shrinks)

declare read_loop_from.simps [simp del]

definition read_loop :: "wire_env \<Rightarrow> (string \<Rightarrow> string) \<Rightarrow> stream_read list \<Rightarrow> inbound list" where
  "read_loop env render input = read_loop_from env render 0 False input"

section \<open>Requests and the dispatcher\<close>

definition show_int :: "int \<Rightarrow> string" where
  "show_int i = (if i < 0 then CHR ''-'' # show_nat (nat (- i)) else show_nat (nat i))"

definition response_key :: "(string \<Rightarrow> string) \<Rightarrow> wire_id \<Rightarrow> string" where
  "response_key escape i = (case i of WireInteger n \<Rightarrow> show_int n
                                    | WireString s \<Rightarrow> CHR 0x22 # escape s @ [CHR 0x22])"

datatype request_error =
    Timeout
  | RequestCancelled
  | RequestChildExited child_exit
  | StreamClosed
  | WriteFailed string
  | Remote json

text \<open>
  A waiter is the channel of one \<^verbatim>\<open>PendingRequest\<close>, a subscriber the channel of one receiver of
  broadcasts (dropped at the first broadcast that finds its receiver gone). \<open>dp_answered\<close>
  records what was sent to each waiter.
\<close>

record subscriber =
  sub_alive :: bool
  sub_queue :: "inbound list"

record dispatcher =
  dp_next_id :: nat
  dp_next_waiter :: nat
  dp_pending :: "(string \<times> nat) list"
  dp_answered :: "(nat \<times> (request_error + response_envelope)) list"
  dp_subscribers :: "subscriber list"

definition remove_key :: "string \<Rightarrow> (string \<times> nat) list \<Rightarrow> (string \<times> nat) list" where
  "remove_key k ps = filter (\<lambda>(k', w). k' \<noteq> k) ps"

definition begin_request ::
    "(string \<Rightarrow> string) \<Rightarrow> (request_envelope \<Rightarrow> string option) \<Rightarrow> string \<Rightarrow> json
     \<Rightarrow> dispatcher \<Rightarrow> (request_error + string \<times> nat) \<times> dispatcher" where
  "begin_request escape send method params d =
     (let n = dp_next_id d; d1 = d\<lparr>dp_next_id := (n + 1) mod 2 ^ 64\<rparr>
      in if n > i64_max then (Inl StreamClosed, d1)
         else
           let key = response_key escape (WireInteger (int n)); w = dp_next_waiter d;
               had = (map_of (dp_pending d) key \<noteq> None);
               d2 = d1\<lparr>dp_next_waiter := Suc w, dp_pending := remove_key key (dp_pending d) @ [(key, w)]\<rparr>
           in if had then (Inl StreamClosed, d2)
              else case send (RequestEnvelope_new (WireInteger (int n)) method params) of
                     Some e \<Rightarrow> (Inl (WriteFailed e), d2\<lparr>dp_pending := remove_key key (dp_pending d2)\<rparr>)
                   | None \<Rightarrow> (Inr (key, w), d2))"

datatype received = Received "request_error + response_envelope" | ReceiveTimeout | Disconnected

definition PendingRequest_wait ::
    "string \<Rightarrow> received \<Rightarrow> dispatcher \<Rightarrow> (request_error + response_envelope) \<times> dispatcher" where
  "PendingRequest_wait key r d =
     (let result = (case r of Received x \<Rightarrow> x | ReceiveTimeout \<Rightarrow> Inl Timeout | Disconnected \<Rightarrow> Inl StreamClosed)
      in (rbind result (\<lambda>resp. case rp_error resp of Some e \<Rightarrow> Inl (Remote e) | None \<Rightarrow> Inr resp),
          d\<lparr>dp_pending := remove_key key (dp_pending d)\<rparr>))"

definition PendingRequest_cancel :: "string \<Rightarrow> dispatcher \<Rightarrow> dispatcher" where
  "PendingRequest_cancel key d = d\<lparr>dp_pending := remove_key key (dp_pending d)\<rparr>"

definition broadcast :: "inbound \<Rightarrow> dispatcher \<Rightarrow> dispatcher" where
  "broadcast m d = d\<lparr>dp_subscribers :=
     map (\<lambda>s. s\<lparr>sub_queue := sub_queue s @ [m]\<rparr>) (filter sub_alive (dp_subscribers d))\<rparr>"

definition fail_all :: "request_error \<Rightarrow> dispatcher \<Rightarrow> dispatcher" where
  "fail_all e d = d\<lparr>dp_answered := dp_answered d @ map (\<lambda>(k, w). (w, Inl e)) (dp_pending d),
                    dp_pending := []\<rparr>"

fun dispatch :: "(string \<Rightarrow> string) \<Rightarrow> inbound \<Rightarrow> dispatcher \<Rightarrow> dispatcher" where
  "dispatch escape (Message (Response r)) d =
     (let key = response_key escape (rp_id r)
      in case map_of (dp_pending d) key of
           Some w \<Rightarrow> d\<lparr>dp_pending := remove_key key (dp_pending d),
                        dp_answered := dp_answered d @ [(w, Inr r)]\<rparr>
         | None \<Rightarrow> broadcast (UnmatchedResponse (rp_id r)
                      (if rp_error r \<noteq> None then ''error'' else ''result'')) d)"
| "dispatch escape (ChildExited e) d = broadcast (ChildExited e) (fail_all (RequestChildExited e) d)"
| "dispatch escape m d = broadcast m d"

definition dispatcher_end :: "dispatcher \<Rightarrow> dispatcher" where
  "dispatcher_end d = (fail_all StreamClosed d)\<lparr>dp_subscribers := []\<rparr>"

definition subscribe :: "dispatcher \<Rightarrow> dispatcher" where
  "subscribe d = d\<lparr>dp_subscribers := dp_subscribers d @ [\<lparr>sub_alive = True, sub_queue = []\<rparr>]\<rparr>"

section \<open>Framing\<close>

lemma read_line_from_frame:
  assumes "newline \<notin> set l" and "length line + length l \<le> MAX_NDJSON_LINE_BYTES"
  shows "read_line_from line n (map ReadByte l @ ReadByte newline # rest)
       = (Line (if line @ l \<noteq> [] \<and> last (line @ l) = carriage then butlast (line @ l) else line @ l)
            (n + length l + 1), rest)"
  using assms by (induction l arbitrary: line n) auto

definition strip_carriage :: "string \<Rightarrow> string" where
  "strip_carriage l = (if l \<noteq> [] \<and> last l = carriage then butlast l else l)"

definition frame :: "string \<Rightarrow> stream_read list" where
  "frame l = map ReadByte (l @ [newline])"

text \<open>What the reader sends for a sequence of lines, without any framing.\<close>

fun reader_spec :: "wire_env \<Rightarrow> (string \<Rightarrow> string) \<Rightarrow> nat \<Rightarrow> bool \<Rightarrow> string list \<Rightarrow> inbound list" where
  "reader_spec env render sequence active [] = []"
| "reader_spec env render sequence active (l # ls) =
     (case read_step env render (Suc sequence) active (strip_carriage l) of
        (sent, active') \<Rightarrow> sent @ reader_spec env render (Suc sequence) active' ls)"

lemma read_loop_from_frames:
  assumes "list_all (\<lambda>l. newline \<notin> set l \<and> length l < MAX_NDJSON_LINE_BYTES) ls"
  shows "read_loop_from env render sequence active (concat (map frame ls)) = reader_spec env render sequence active ls"
  using assms
proof (induction ls arbitrary: sequence active)
  case Nil
  then show ?case by (simp add: read_loop_from.simps read_bounded_line_def)
next
  case (Cons l ls)
  have "read_bounded_line (concat (map frame (l # ls)))
      = (Line (strip_carriage l) (length l + 1), concat (map frame ls))"
    using Cons.prems read_line_from_frame [of l "[]" 0 "concat (map frame ls)"]
    by (simp add: read_bounded_line_def frame_def strip_carriage_def)
  then show ?case
    using Cons by (subst read_loop_from.simps) (auto split: prod.splits)
qed

text \<open>
  Framing is transparent. Lines without a newline and shorter than the limit,
  written one after the other with a newline each, are delivered one by one, in order and
  complete (less a trailing carriage return), whatever they contain.
\<close>

theorem frames_are_reassembled:
  assumes "list_all (\<lambda>l. newline \<notin> set l \<and> length l < MAX_NDJSON_LINE_BYTES) lines"
  shows "read_loop env render (concat (map frame lines)) = reader_spec env render 0 False lines"
  unfolding read_loop_def by (rule read_loop_from_frames [OF assms])

theorem frames_are_reassembled_witness:
  "read_loop (demo_wire JNull) id (concat (map frame [''{}'', ''[1]'']))
     = reader_spec (demo_wire JNull) id 0 False [''{}'', ''[1]'']"
  by (rule frames_are_reassembled) (simp add: newline_def MAX_NDJSON_LINE_BYTES_def)

text \<open>
  Reading a line takes bounded memory and stops at the limit. Whatever the
  runtime writes, the text kept of a line is at most the limit, a call consumes at most one
  read more than the limit, and a line that is reported longer than the limit ends the
  stream: its oversize record is the last thing the reader sends.
\<close>

lemma read_line_from_bounds:
  assumes "read_line_from line n input = (Line l k, rest)" and "length line \<le> MAX_NDJSON_LINE_BYTES" and "length line = n"
  shows "length l \<le> MAX_NDJSON_LINE_BYTES \<and> k \<le> Suc MAX_NDJSON_LINE_BYTES
     \<and> length input \<le> length rest + (Suc MAX_NDJSON_LINE_BYTES - n)"
  using assms
proof (induction line n input rule: read_line_from.induct)
  case (3 line n c rest')
  show ?case
  proof (cases "c \<noteq> newline \<and> length line < MAX_NDJSON_LINE_BYTES")
    case True
    then show ?thesis using 3 by fastforce
  next
    case False
    then show ?thesis using 3 by (auto split: if_splits)
  qed
qed (auto split: if_splits)

definition not_oversized :: "inbound \<Rightarrow> bool" where
  "not_oversized m = (case m of OversizedLine k \<Rightarrow> False | _ \<Rightarrow> True)"

lemma read_step_not_oversized: "list_all not_oversized (fst (read_step env render n a l))"
  by (auto simp: read_step_def not_oversized_def split: sum.splits option.splits)

lemma list_all_butlast_append:
  "list_all p xs \<Longrightarrow> list_all p (butlast ys) \<Longrightarrow> list_all p (butlast (xs @ ys))"
  by (auto simp: butlast_append list_all_iff dest: in_set_butlastD)

lemma oversize_last:
  "list_all not_oversized (butlast (read_loop_from env render sequence active input))"
proof (induction env render sequence active input rule: read_loop_from.induct)
  case (1 env render sequence active input)
  show ?case
  proof (cases "\<exists>l bytes rest. read_bounded_line input = (Line l bytes, rest) \<and> bytes \<le> MAX_NDJSON_LINE_BYTES")
    case True
    then obtain l bytes rest where r: "read_bounded_line input = (Line l bytes, rest)" "bytes \<le> MAX_NDJSON_LINE_BYTES"
      by blast
    obtain sent active' where st: "read_step env render (Suc sequence) active l = (sent, active')" by fastforce
    have "list_all not_oversized (butlast (read_loop_from env render (Suc sequence) active' rest))"
      by (rule "1.IH" [OF r(1) [symmetric] refl r(2) st [symmetric]])
    moreover have "list_all not_oversized sent"
      using read_step_not_oversized [of env render "Suc sequence" active l] st by simp
    ultimately show ?thesis
      using r st by (subst read_loop_from.simps) (simp add: list_all_butlast_append)
  next
    case False
    then show ?thesis
      by (subst read_loop_from.simps) (auto split: prod.splits line_result.splits)
  qed
qed

theorem reading_is_bounded:
  "(case read_bounded_line input of
      (Line l k, rest) \<Rightarrow> length l \<le> MAX_NDJSON_LINE_BYTES \<and> k \<le> Suc MAX_NDJSON_LINE_BYTES
         \<and> length input \<le> length rest + Suc MAX_NDJSON_LINE_BYTES
    | _ \<Rightarrow> True)
   \<and> list_all not_oversized (butlast (read_loop env render input))"
proof -
  have "length l \<le> MAX_NDJSON_LINE_BYTES \<and> k \<le> Suc MAX_NDJSON_LINE_BYTES
         \<and> length input \<le> length rest + Suc MAX_NDJSON_LINE_BYTES"
    if "read_bounded_line input = (Line l k, rest)" for l k rest
    using read_line_from_bounds [of "[]" 0 input l k rest] that by (simp add: read_bounded_line_def)
  then show ?thesis
    by (auto split: prod.splits line_result.splits simp: read_loop_def oversize_last)
qed

section \<open>Turn order\<close>

lemma parse_event_kind:
  assumes "parse_line env line = Inr (Event e)"
  shows "event_type e \<in> {Some ''turn.started'', Some ''turn.completed'', Some ''turn.failed''}"
proof -
  obtain ms where ms: "we_from_str env line = Inr (JObject ms)" "parse_value env (JObject ms) = Inr (Event e)"
    using assms by (auto simp: parse_line_def parse_value_def split: sum.splits)
  obtain mth where "Option.bind (map_of ms ''method'') json_as_str = Some mth"
      "known_event mth ms" "read_event ms = Some e"
    using ms(2) by (auto simp: parse_value_def split: if_splits option.splits)
  then show ?thesis
    by (auto simp: read_event_def bind_Some_iff known_event_def event_type_def split: if_splits option.splits)
qed

fun in_order_kinds :: "inbound list \<Rightarrow> string list" where
  "in_order_kinds [] = []"
| "in_order_kinds (Lifecycle n k InOrder # ms) = k # in_order_kinds ms"
| "in_order_kinds (m # ms) = in_order_kinds ms"

fun alternates :: "bool \<Rightarrow> string list \<Rightarrow> bool" where
  "alternates active [] = True"
| "alternates False (k # ks) = (k = ''turn.started'' \<and> alternates True ks)"
| "alternates True (k # ks) = ((k = ''turn.completed'' \<or> k = ''turn.failed'') \<and> alternates False ks)"

fun sequences :: "inbound list \<Rightarrow> nat list" where
  "sequences [] = []"
| "sequences (Lifecycle n k ord # ms) = n # sequences ms"
| "sequences (m # ms) = sequences ms"

lemma in_order_kinds_append: "in_order_kinds (xs @ ys) = in_order_kinds xs @ in_order_kinds ys"
  by (induction xs rule: in_order_kinds.induct) auto

lemma sequences_append: "sequences (xs @ ys) = sequences xs @ sequences ys"
  by (induction xs rule: sequences.induct) auto

lemma read_step_order:
  assumes "read_step env render n active l = (sent, active')"
  shows "alternates active' ks \<Longrightarrow> alternates active (in_order_kinds sent @ ks)"
    and "sequences sent = [] \<or> sequences sent = [n]"
proof -
  have turn: "alternates active (in_order_kinds [Lifecycle n k (classify_lifecycle k active), Message m] @ ks)"
    if "alternates (next_turn_active k active) ks" for k m
    using that
    by (auto simp: classify_lifecycle_def next_turn_active_def Let_def split: if_splits)
  have "(alternates active' ks \<longrightarrow> alternates active (in_order_kinds sent @ ks))
      \<and> (sequences sent = [] \<or> sequences sent = [n])"
  proof (cases "parse_line env (from_utf8_lossy l)")
    case (Inl e)
    then show ?thesis using assms by (auto simp: read_step_def)
  next
    case (Inr msg)
    then show ?thesis
      using assms turn by (cases "message_kind msg") (auto simp: read_step_def)
  qed
  then show "alternates active' ks \<Longrightarrow> alternates active (in_order_kinds sent @ ks)"
    and "sequences sent = [] \<or> sequences sent = [n]" by auto
qed

lemma read_loop_order:
  "alternates active (in_order_kinds (read_loop_from env render n active input))
   \<and> sorted_wrt (<) (n # sequences (read_loop_from env render n active input))"
proof (induction env render n active input rule: read_loop_from.induct)
  case (1 env render n active input)
  show ?case
  proof (cases "\<exists>l bytes rest. read_bounded_line input = (Line l bytes, rest) \<and> bytes \<le> MAX_NDJSON_LINE_BYTES")
    case True
    then obtain l bytes rest where r: "read_bounded_line input = (Line l bytes, rest)" "bytes \<le> MAX_NDJSON_LINE_BYTES"
      by blast
    obtain sent active' where st: "read_step env render (Suc n) active l = (sent, active')" by fastforce
    have IH: "alternates active' (in_order_kinds (read_loop_from env render (Suc n) active' rest))
       \<and> sorted_wrt (<) (Suc n # sequences (read_loop_from env render (Suc n) active' rest))"
      by (rule "1.IH" [OF r(1) [symmetric] refl r(2) st [symmetric]])
    have eq: "read_loop_from env render n active input = sent @ read_loop_from env render (Suc n) active' rest"
      using r st by (subst read_loop_from.simps) simp
    show ?thesis
      using IH read_step_order [OF st] unfolding eq in_order_kinds_append sequences_append by auto
  next
    case False
    then have "in_order_kinds (read_loop_from env render n active input) = []
        \<and> sequences (read_loop_from env render n active input) = []"
      by (subst (1 2) read_loop_from.simps) (auto split: prod.splits line_result.splits)
    then show ?thesis by simp
  qed
qed

text \<open>
  Turns alternate. Whatever the runtime sends, the lifecycle records the reader
  reports as in order are a turn start, then a completion or failure, then a start again, and
  so on from an idle session; and their sequence numbers strictly increase.
\<close>

theorem turns_alternate:
  "alternates False (in_order_kinds (read_loop env render input))
   \<and> sorted_wrt (<) (sequences (read_loop env render input))"
  using read_loop_order [of False env render 0 input] by (simp add: read_loop_def)

section \<open>Matching responses with requests\<close>

lemma digits_val_snoc: "digits_val (ds @ [c]) = 10 * digits_val ds + digit_val c"
  by (simp add: digits_val_def)

lemma digits_val_show_nat: "digits_val (show_nat n) = n"
proof (induction n rule: show_nat.induct)
  case (1 n)
  have d: "digit_val (char_of (48 + k)) = k" if "k < 10" for k :: nat
    using that by (simp add: digit_val_def)
  show ?case
  proof (cases "n < 10")
    case True
    then show ?thesis using d [of n] by (subst show_nat.simps) (simp add: digits_val_def)
  next
    case False
    then show ?thesis
      using 1 d [of "n mod 10"] by (subst show_nat.simps) (simp add: digits_val_snoc)
  qed
qed

lemma show_nat_head: "\<exists>d ds. show_nat n = d # ds \<and> is_ascii_digit d"
proof (induction n rule: show_nat.induct)
  case (1 n)
  show ?case
  proof (cases "n < 10")
    case True
    then show ?thesis by (subst show_nat.simps) (simp add: is_ascii_digit_def)
  next
    case False
    then show ?thesis using 1 by (subst show_nat.simps) auto
  qed
qed

lemma show_int_inj: "show_int i = show_int j \<Longrightarrow> i = j"
proof -
  assume eq: "show_int i = show_int j"
  obtain d ds where d: "show_nat (nat i) = d # ds" "is_ascii_digit d" using show_nat_head by blast
  obtain c cs where c: "show_nat (nat j) = c # cs" "is_ascii_digit c" using show_nat_head by blast
  have nd: "\<not> is_ascii_digit (CHR ''-'')" by (simp add: is_ascii_digit_def)
  have inj: "show_nat a = show_nat b \<Longrightarrow> a = b" for a b by (metis digits_val_show_nat)
  show "i = j"
    using eq d c nd inj [of "nat i" "nat j"] inj [of "nat (- i)" "nat (- j)"]
    by (auto simp: show_int_def split: if_splits)
qed

lemma response_key_integer: "response_key escape i = response_key escape (WireInteger n) \<Longrightarrow> i = WireInteger n"
proof (cases i)
  case (WireInteger m)
  then show "response_key escape i = response_key escape (WireInteger n) \<Longrightarrow> i = WireInteger n"
    using show_int_inj by (auto simp: response_key_def)
next
  case (WireString s)
  obtain d ds where d: "show_nat (nat n) = d # ds" "is_ascii_digit d" using show_nat_head by blast
  have "\<not> is_ascii_digit (CHR 0x22)" by (simp add: is_ascii_digit_def)
  then have "response_key escape i \<noteq> response_key escape (WireInteger n)"
    using WireString d by (auto simp: response_key_def show_int_def)
  then show "response_key escape i = response_key escape (WireInteger n) \<Longrightarrow> i = WireInteger n" by blast
qed

text \<open>
  The events of the driver's shared state: a request starts, the dispatcher handles what the
  reader or the monitor sent, a caller gives up or finishes waiting, someone subscribes, the
  stream ends.
\<close>

inductive driver_step :: "(string \<Rightarrow> string) \<Rightarrow> dispatcher \<Rightarrow> dispatcher \<Rightarrow> bool" for escape where
  begin_req: "driver_step escape d (snd (begin_request escape send m p d))"
| handle: "driver_step escape d (dispatch escape msg d)"
| give_up: "driver_step escape d (PendingRequest_cancel key d)"
| waited: "driver_step escape d (snd (PendingRequest_wait key r d))"
| listen: "driver_step escape d (subscribe d)"
| close: "driver_step escape d (dispatcher_end d)"

inductive_cases driver_stepE: "driver_step escape d d'"

definition dispatcher_ok :: "dispatcher \<Rightarrow> bool" where
  "dispatcher_ok d \<longleftrightarrow>
     distinct (map fst (dp_pending d)) \<and> distinct (map snd (dp_pending d) @ map fst (dp_answered d))
     \<and> list_all (\<lambda>w. w < dp_next_waiter d) (map snd (dp_pending d) @ map fst (dp_answered d))"

abbreviation waiters :: "(string \<times> nat) list \<Rightarrow> nat set" where
  "waiters ps \<equiv> set (map snd ps)"

abbreviation served :: "dispatcher \<Rightarrow> nat set" where
  "served d \<equiv> set (map fst (dp_answered d))"

lemma dispatcher_ok_iff:
  "dispatcher_ok d \<longleftrightarrow>
     distinct (map fst (dp_pending d)) \<and> distinct (map snd (dp_pending d)) \<and> distinct (map fst (dp_answered d))
     \<and> waiters (dp_pending d) \<inter> served d = {}
     \<and> waiters (dp_pending d) \<subseteq> {..<dp_next_waiter d} \<and> served d \<subseteq> {..<dp_next_waiter d}"
  by (auto simp: dispatcher_ok_def list_all_iff)

lemma remove_key_simps:
  "waiters (remove_key k ps) \<subseteq> waiters ps"
  "distinct (map fst ps) \<Longrightarrow> distinct (map fst (remove_key k ps))"
  "distinct (map snd ps) \<Longrightarrow> distinct (map snd (remove_key k ps))"
  "k \<notin> set (map fst (remove_key k ps))"
  by (auto simp: remove_key_def distinct_map_filter)

lemma dispatcher_ok_remove:
  "dispatcher_ok d \<Longrightarrow> dispatcher_ok (d\<lparr>dp_pending := remove_key k (dp_pending d)\<rparr>)"
  unfolding dispatcher_ok_iff
  using remove_key_simps(1) [of k "dp_pending d"] remove_key_simps(2,3) [of "dp_pending d" k]
  by (simp del: set_map) blast

lemma dispatcher_ok_broadcast [simp]: "dispatcher_ok (broadcast m d) = dispatcher_ok d"
  by (simp add: dispatcher_ok_def broadcast_def)

lemma dispatcher_ok_fail_all: "dispatcher_ok d \<Longrightarrow> dispatcher_ok (fail_all e d)"
  by (auto simp: dispatcher_ok_def fail_all_def list_all_iff comp_def case_prod_unfold)

lemma dispatcher_ok_answer:
  assumes "dispatcher_ok d" and "map_of (dp_pending d) key = Some w"
  shows "dispatcher_ok (d\<lparr>dp_pending := remove_key key (dp_pending d), dp_answered := dp_answered d @ [(w, r)]\<rparr>)"
proof -
  have mem: "(key, w) \<in> set (dp_pending d)" using assms(2) by (rule map_of_SomeD)
  have fresh: "w \<notin> set (map snd (remove_key key (dp_pending d)))"
  proof
    assume "w \<in> set (map snd (remove_key key (dp_pending d)))"
    then obtain k' where "(k', w) \<in> set (dp_pending d)" "k' \<noteq> key" by (auto simp: remove_key_def)
    moreover have "distinct (map snd (dp_pending d))" using assms(1) by (simp add: dispatcher_ok_def)
    ultimately show False using mem unfolding distinct_map inj_on_def by (metis fst_conv snd_conv)
  qed
  have "w \<in> set (map snd (dp_pending d))" using mem by force
  then show ?thesis
    using assms(1) fresh remove_key_simps(1) [of key "dp_pending d"] remove_key_simps(2,3) [of "dp_pending d" key]
    unfolding dispatcher_ok_iff by (simp del: set_map) blast
qed

lemma dispatcher_ok_begin:
  assumes "dispatcher_ok d"
  shows "dispatcher_ok (snd (begin_request escape send m p d))"
proof -
  define key where "key = response_key escape (WireInteger (int (dp_next_id d)))"
  let ?w = "dp_next_waiter d" and ?id = "(dp_next_id d + 1) mod 2 ^ 64"
  let ?d2 = "d\<lparr>dp_next_id := ?id, dp_next_waiter := Suc ?w, dp_pending := remove_key key (dp_pending d) @ [(key, ?w)]\<rparr>"
  have "?w \<notin> waiters (remove_key key (dp_pending d))" "?w \<notin> served d"
    using assms remove_key_simps(1) [of key "dp_pending d"] unfolding dispatcher_ok_iff by blast+
  then have "dispatcher_ok ?d2"
    using assms remove_key_simps(1,4) [of key "dp_pending d"] remove_key_simps(2,3) [of "dp_pending d" key]
    unfolding dispatcher_ok_iff by (auto simp del: set_map simp: subset_eq less_Suc_eq)
  moreover have "dispatcher_ok (d\<lparr>dp_next_id := ?id\<rparr>)"
    using assms by (simp add: dispatcher_ok_def)
  moreover have "dispatcher_ok (?d2\<lparr>dp_pending := remove_key key (dp_pending ?d2)\<rparr>)"
    using dispatcher_ok_remove [OF calculation(1)] .
  ultimately show ?thesis
    by (simp add: begin_request_def Let_def key_def split: option.splits)
qed

interpretation driver_table: inv_system "driver_step escape" dispatcher_ok for escape
proof unfold_locales
  fix d d' assume ok: "dispatcher_ok d" and step: "driver_step escape d d'"
  from step show "dispatcher_ok d'"
  proof cases
    case (begin_req send m p)
    then show ?thesis using dispatcher_ok_begin [OF ok] by simp
  next
    case (handle msg)
    then show ?thesis
      using ok dispatcher_ok_answer [OF ok] dispatcher_ok_fail_all [OF ok]
      by (cases "(escape, msg, d)" rule: dispatch.cases) (auto simp: Let_def split: option.splits)
  next
    case (close)
    then show ?thesis using dispatcher_ok_fail_all [OF ok]
      by (simp add: dispatcher_end_def) (simp add: dispatcher_ok_def)
  qed (use ok dispatcher_ok_remove in \<open>auto simp: PendingRequest_cancel_def PendingRequest_wait_def Let_def subscribe_def dispatcher_ok_def\<close>)
qed

definition dispatcher_start :: dispatcher where
  "dispatcher_start = \<lparr>dp_next_id = 1, dp_next_waiter = 0, dp_pending = [], dp_answered = [],
     dp_subscribers = [\<lparr>sub_alive = True, sub_queue = []\<rparr>]\<rparr>"

text \<open>
  C33 (safety): no request is answered twice. However requests, responses, time-outs,
  cancellations, the exit of the runtime and the end of the stream interleave, a waiter is
  sent at most one answer, and one that was answered is no longer pending.
\<close>

theorem request_answered_at_most_once:
  assumes "(driver_step escape)\<^sup>*\<^sup>* dispatcher_start d"
  shows "distinct (map fst (dp_answered d)) \<and> set (map fst (dp_answered d)) \<inter> set (map snd (dp_pending d)) = {}
     \<and> distinct (map fst (dp_pending d))"
proof -
  have "dispatcher_ok dispatcher_start" by (simp add: dispatcher_ok_def dispatcher_start_def)
  then have "dispatcher_ok d" using driver_table.reachable [OF assms] by blast
  then show ?thesis by (auto simp: dispatcher_ok_def)
qed

theorem request_answered_at_most_once_witness:
  "distinct (map fst (dp_answered (dispatch id (ChildExited ExitUnknown)
     (snd (begin_request id (\<lambda>_. None) ''m'' JNull dispatcher_start)))))"
proof -
  let ?d = "snd (begin_request id (\<lambda>_. None) ''m'' JNull dispatcher_start)"
  have "(driver_step id)\<^sup>*\<^sup>* dispatcher_start (dispatch id (ChildExited ExitUnknown) ?d)"
    using driver_step.begin_req [of id dispatcher_start "\<lambda>_. None" "''m''" JNull]
      driver_step.handle [of id ?d "ChildExited ExitUnknown"]
    by (meson r_into_rtranclp rtranclp.rtrancl_into_rtrancl)
  from request_answered_at_most_once [OF this] show ?thesis by blast
qed

text \<open>
  A response reaches the request it names and no other. After a request is
  started, the response with its id is sent to its waiter and frees it; a response with any
  other id leaves it pending; and when the runtime exits, it is told so.
\<close>

theorem response_reaches_its_request:
  assumes "dispatcher_ok d" and "begin_request escape send m p d = (Inr (key, w), d1)"
  shows "(\<exists>n. n = dp_next_id d \<and> n \<le> i64_max
        \<and> (if rp_id r = WireInteger (int n)
           then dp_answered (dispatch escape (Message (Response r)) d1) = dp_answered d @ [(w, Inr r)]
              \<and> map_of (dp_pending (dispatch escape (Message (Response r)) d1)) key = None
           else map_of (dp_pending (dispatch escape (Message (Response r)) d1)) key = Some w))
     \<and> (w, Inl (RequestChildExited ex)) \<in> set (dp_answered (dispatch escape (ChildExited ex) d1))
     \<and> dp_pending (dispatch escape (ChildExited ex) d1) = []"
proof -
  let ?n = "dp_next_id d"
  have n: "?n \<le> i64_max" and key: "key = response_key escape (WireInteger (int ?n))" and w: "w = dp_next_waiter d"
    and new: "map_of (dp_pending d) key = None"
    and d1: "d1 = d\<lparr>dp_next_id := (?n + 1) mod 2 ^ 64, dp_next_waiter := Suc w,
        dp_pending := remove_key key (dp_pending d) @ [(key, w)]\<rparr>"
    using assms(2) by (auto simp: begin_request_def Let_def split: if_splits option.splits)
  have rk: "remove_key key (dp_pending d) = dp_pending d"
    using new by (force simp: remove_key_def map_of_eq_None_iff intro!: filter_True)
  have look: "map_of (dp_pending d1) key = Some w"
    using new by (simp add: d1 rk map_add_def)
  have gone: "map_of (remove_key k ps) k = None" for k ps
    by (auto simp: remove_key_def map_of_eq_None_iff)
  have keep: "k \<noteq> key \<Longrightarrow> map_of (remove_key k ps) key = map_of ps key" for k ps
    by (induction ps) (auto simp: remove_key_def)
  have "if rp_id r = WireInteger (int ?n)
     then dp_answered (dispatch escape (Message (Response r)) d1) = dp_answered d @ [(w, Inr r)]
        \<and> map_of (dp_pending (dispatch escape (Message (Response r)) d1)) key = None
     else map_of (dp_pending (dispatch escape (Message (Response r)) d1)) key = Some w"
  proof (cases "rp_id r = WireInteger (int ?n)")
    case True
    then show ?thesis using look gone by (simp add: key [symmetric] Let_def) (simp add: d1)
  next
    case False
    then have "response_key escape (rp_id r) \<noteq> key" using response_key_integer key by blast
    then show ?thesis
      using False look keep by (auto simp: Let_def broadcast_def split: option.splits)
  qed
  moreover have "(w, Inl (RequestChildExited ex)) \<in> set (dp_answered (dispatch escape (ChildExited ex) d1))
     \<and> dp_pending (dispatch escape (ChildExited ex) d1) = []"
    by (auto simp: broadcast_def fail_all_def d1)
  ultimately show ?thesis using n by blast
qed

theorem response_reaches_its_request_witness:
  "dp_answered (dispatch id (Message (Response (ResponseEnvelope_success (WireInteger 1) (JBool True))))
       (snd (begin_request id (\<lambda>_. None) ''m'' JNull dispatcher_start)))
     = [(0, Inr (ResponseEnvelope_success (WireInteger 1) (JBool True)))]"
proof -
  have ok: "dispatcher_ok dispatcher_start" by (simp add: dispatcher_ok_def dispatcher_start_def)
  have run: "begin_request id (\<lambda>_. None) ''m'' JNull dispatcher_start
      = (Inr (response_key id (WireInteger 1), 0), snd (begin_request id (\<lambda>_. None) ''m'' JNull dispatcher_start))"
    by (simp add: begin_request_def dispatcher_start_def i64_max_def Let_def)
  show ?thesis
    using response_reaches_its_request [OF ok run, of "ResponseEnvelope_success (WireInteger 1) (JBool True)"]
    by (simp add: dispatcher_start_def ResponseEnvelope_success_def)
qed

end
