(* ===== verification/Budget.thy ===== *)
theory Budget
  imports Driver_Stream Store_Model
begin

text \<open>
  The runtime budget of \<^verbatim>\<open>crates/zcode-agentd/src/budget.rs\<close>: turns and tool calls are counted
  by distinct identity from the inbound stream of the driver, the first violation is kept,
  and the wall-clock deadline is checked when the violation is read. Instants are
  milliseconds since an arbitrary origin; \<open>instant_max\<close> bounds what the clock can represent.
\<close>

datatype budget_violation =
    WallTime
  | TurnLimit
  | ToolCallLimit
  | AmbiguousTurnIdentity
  | AmbiguousToolIdentity

fun reason_code :: "budget_violation \<Rightarrow> string" where
  "reason_code WallTime = ''WALL_TIME_DEADLINE_EXCEEDED''"
| "reason_code TurnLimit = ''TURN_BUDGET_EXHAUSTED''"
| "reason_code ToolCallLimit = ''TOOL_CALL_BUDGET_EXHAUSTED''"
| "reason_code AmbiguousTurnIdentity = ''TURN_IDENTITY_AMBIGUOUS''"
| "reason_code AmbiguousToolIdentity = ''TOOL_CALL_IDENTITY_AMBIGUOUS''"

text \<open>The two hash sets are lists without repetition.\<close>

record runtime_budget =
  rb_deadline :: nat
  rb_max_turns :: nat
  rb_max_tool_calls :: nat
  rb_turns :: "string list"
  rb_tool_calls :: "string list"
  rb_violation :: "budget_violation option"

definition with_limits :: "nat \<Rightarrow> nat \<Rightarrow> nat \<Rightarrow> nat \<Rightarrow> nat \<Rightarrow> runtime_budget" where
  "with_limits instant_max now wall_time_ms turns calls = \<lparr>
     rb_deadline = (if now + wall_time_ms \<le> instant_max then now + wall_time_ms else now),
     rb_max_turns = turns, rb_max_tool_calls = calls,
     rb_turns = [], rb_tool_calls = [], rb_violation = None\<rparr>"

definition from_effective :: "nat \<Rightarrow> nat \<Rightarrow> effective_budget \<Rightarrow> runtime_budget" where
  "from_effective instant_max now limits =
     with_limits instant_max now (absolute_wall_time_ms limits) (max_turns limits) (max_tool_calls limits)"

definition MAX_RUNTIME_ID_BYTES :: nat where
  "MAX_RUNTIME_ID_BYTES = 512"

definition valid_runtime_identity :: "json \<Rightarrow> string option" where
  "valid_runtime_identity v =
     Option.bind (json_as_str v) (\<lambda>s.
       if s \<noteq> [] \<and> length s \<le> MAX_RUNTIME_ID_BYTES \<and> \<not> has_nul s then Some s else None)"

definition unique_event_identity :: "event_envelope \<Rightarrow> string \<Rightarrow> string option" where
  "unique_event_identity e key =
     (let nested = Option.bind (json_get ''payload'' (en_params e)) (json_get key);
          top_level = json_get key (en_params e)
      in case (map_option valid_runtime_identity nested, map_option valid_runtime_identity top_level) of
           (Some (Some a), Some (Some b)) \<Rightarrow> if a = b then Some a else None
         | (Some (Some a), None) \<Rightarrow> Some a
         | (None, Some (Some b)) \<Rightarrow> Some b
         | _ \<Rightarrow> None)"

definition observe_turn :: "event_envelope \<Rightarrow> runtime_budget \<Rightarrow> runtime_budget" where
  "observe_turn e b =
     (case unique_event_identity e ''turnId'' of
        None \<Rightarrow> b\<lparr>rb_violation := Some AmbiguousTurnIdentity\<rparr>
      | Some i \<Rightarrow>
          let b1 = b\<lparr>rb_turns := List.insert i (rb_turns b)\<rparr>
          in if length (rb_turns b1) > rb_max_turns b then b1\<lparr>rb_violation := Some TurnLimit\<rparr> else b1)"

definition observe_tool :: "event_envelope \<Rightarrow> runtime_budget \<Rightarrow> runtime_budget" where
  "observe_tool e b =
     (case unique_event_identity e ''toolCallId'' of
        None \<Rightarrow> b\<lparr>rb_violation := Some AmbiguousToolIdentity\<rparr>
      | Some i \<Rightarrow>
          let b1 = b\<lparr>rb_tool_calls := List.insert i (rb_tool_calls b)\<rparr>
          in if length (rb_tool_calls b1) > rb_max_tool_calls b
             then b1\<lparr>rb_violation := Some ToolCallLimit\<rparr> else b1)"

fun observe :: "inbound \<Rightarrow> runtime_budget \<Rightarrow> runtime_budget" where
  "observe (Message (Event e)) b =
     (case event_type e of
        None \<Rightarrow> b
      | Some kind \<Rightarrow>
          if rb_violation b \<noteq> None then b
          else if kind = ''turn.started'' then observe_turn e b
          else if kind = ''tool.updated'' then observe_tool e b
          else b)"
| "observe _ b = b"

definition violation :: "nat \<Rightarrow> runtime_budget \<Rightarrow> budget_violation option \<times> runtime_budget" where
  "violation now b =
     (if rb_violation b = None \<and> rb_deadline b \<le> now
      then (Some WallTime, b\<lparr>rb_violation := Some WallTime\<rparr>) else (rb_violation b, b))"

definition remaining :: "nat \<Rightarrow> runtime_budget \<Rightarrow> nat option" where
  "remaining now b = (if now \<le> rb_deadline b then Some (rb_deadline b - now) else None)"

definition observe_all :: "inbound list \<Rightarrow> runtime_budget \<Rightarrow> runtime_budget" where
  "observe_all ms b = fold observe ms b"

section \<open>Facts\<close>

definition budget_ok :: "runtime_budget \<Rightarrow> bool" where
  "budget_ok b \<longleftrightarrow> distinct (rb_turns b) \<and> distinct (rb_tool_calls b)
     \<and> (rb_violation b = None \<longrightarrow> length (rb_turns b) \<le> rb_max_turns b
          \<and> length (rb_tool_calls b) \<le> rb_max_tool_calls b)
     \<and> length (rb_turns b) \<le> Suc (rb_max_turns b) \<and> length (rb_tool_calls b) \<le> Suc (rb_max_tool_calls b)"

lemma length_insert_le: "length (List.insert x xs) \<le> Suc (length xs)"
  by (simp add: List.insert_def)

lemma observe_turn_ok:
  assumes "budget_ok b" and "rb_violation b = None"
  shows "budget_ok (observe_turn e b) \<and> rb_max_turns (observe_turn e b) = rb_max_turns b
     \<and> rb_max_tool_calls (observe_turn e b) = rb_max_tool_calls b"
  using assms length_insert_le [of "the (unique_event_identity e ''turnId'')" "rb_turns b"]
  by (cases "unique_event_identity e ''turnId''") (auto simp: observe_turn_def budget_ok_def Let_def)

lemma observe_tool_ok:
  assumes "budget_ok b" and "rb_violation b = None"
  shows "budget_ok (observe_tool e b) \<and> rb_max_turns (observe_tool e b) = rb_max_turns b
     \<and> rb_max_tool_calls (observe_tool e b) = rb_max_tool_calls b"
  using assms length_insert_le [of "the (unique_event_identity e ''toolCallId'')" "rb_tool_calls b"]
  by (cases "unique_event_identity e ''toolCallId''") (auto simp: observe_tool_def budget_ok_def Let_def)

lemma observe_ok:
  "budget_ok b \<Longrightarrow> budget_ok (observe m b) \<and> rb_max_turns (observe m b) = rb_max_turns b
     \<and> rb_max_tool_calls (observe m b) = rb_max_tool_calls b"
  using observe_turn_ok observe_tool_ok
  by (cases "(m, b)" rule: observe.cases) (auto split: option.splits)

lemma observe_sticky: "rb_violation b \<noteq> None \<Longrightarrow> observe m b = b"
  by (cases "(m, b)" rule: observe.cases) (auto split: option.splits)

lemma observe_all_sticky: "rb_violation b \<noteq> None \<Longrightarrow> observe_all ms b = b"
  unfolding observe_all_def by (induction ms arbitrary: b) (auto simp: observe_sticky)

fun turn_start :: "inbound \<Rightarrow> event_envelope option" where
  "turn_start (Message (Event e)) = (if event_type e = Some ''turn.started'' then Some e else None)"
| "turn_start _ = None"

definition turn_ids :: "inbound list \<Rightarrow> string option list" where
  "turn_ids ms = map (\<lambda>e. unique_event_identity e ''turnId'') (List.map_filter turn_start ms)"

lemma turn_ids_simps [simp]:
  "turn_ids [] = []"
  "turn_ids (m # ms) = (case turn_start m of None \<Rightarrow> [] | Some e \<Rightarrow> [unique_event_identity e ''turnId'']) @ turn_ids ms"
  by (auto simp: turn_ids_def List.map_filter_def split: option.splits)

lemma observe_turn_ids:
  assumes "rb_violation (observe m b) = None"
  shows "rb_violation b = None"
    and "case turn_start m of None \<Rightarrow> rb_turns (observe m b) = rb_turns b
       | Some e \<Rightarrow> (\<exists>i. unique_event_identity e ''turnId'' = Some i \<and> set (rb_turns (observe m b)) = insert i (set (rb_turns b)))"
proof -
  show v: "rb_violation b = None" using assms observe_sticky [of b m] by (cases "rb_violation b") auto
  show "case turn_start m of None \<Rightarrow> rb_turns (observe m b) = rb_turns b
       | Some e \<Rightarrow> (\<exists>i. unique_event_identity e ''turnId'' = Some i \<and> set (rb_turns (observe m b)) = insert i (set (rb_turns b)))"
    using assms v
    by (cases "(m, b)" rule: observe.cases)
       (auto simp: observe_turn_def observe_tool_def Let_def split: option.splits if_splits)
qed

lemma observe_all_turn_ids:
  assumes "rb_violation (observe_all ms b) = None" and "budget_ok b"
  shows "None \<notin> set (turn_ids ms)
     \<and> set (rb_turns (observe_all ms b)) = set (rb_turns b) \<union> the ` set (turn_ids ms)
     \<and> budget_ok (observe_all ms b) \<and> rb_max_turns (observe_all ms b) = rb_max_turns b"
  using assms
proof (induction ms arbitrary: b)
  case Nil
  then show ?case by (simp add: observe_all_def)
next
  case (Cons m ms)
  have step: "observe_all (m # ms) b = observe_all ms (observe m b)" by (simp add: observe_all_def)
  have v1: "rb_violation (observe m b) = None"
    using Cons.prems(1) observe_all_sticky [of "observe m b" ms] unfolding step
    by (cases "rb_violation (observe m b)") auto
  have ok1: "budget_ok (observe m b)" "rb_max_turns (observe m b) = rb_max_turns b"
    using observe_ok [OF Cons.prems(2), of m] by auto
  have "None \<notin> set (turn_ids ms)
     \<and> set (rb_turns (observe_all ms (observe m b))) = set (rb_turns (observe m b)) \<union> the ` set (turn_ids ms)
     \<and> budget_ok (observe_all ms (observe m b)) \<and> rb_max_turns (observe_all ms (observe m b)) = rb_max_turns (observe m b)"
    using Cons.prems(1) unfolding step by (rule Cons.IH [OF _ ok1(1)])
  then show ?case
    using observe_turn_ids(2) [OF v1] ok1 unfolding step by (auto split: option.splits)
qed

text \<open>
  The turn budget is enforced. As long as no violation is recorded, every turn
  start in the stream had one unambiguous identity, and the number of distinct turns started
  is at most the budget; repeated reports of a turn count once.
\<close>

theorem turn_budget_enforced:
  assumes "rb_violation (observe_all ms (with_limits instant_max now wall turns calls)) = None"
  shows "None \<notin> set (turn_ids ms) \<and> card (set (turn_ids ms)) \<le> turns"
proof -
  let ?b = "with_limits instant_max now wall turns calls"
  have ok: "budget_ok ?b" by (simp add: budget_ok_def with_limits_def)
  note r = observe_all_turn_ids [OF assms ok]
  have nn: "None \<notin> set (turn_ids ms)" using r by blast
  have eq: "set (rb_turns (observe_all ms ?b)) = the ` set (turn_ids ms)"
    using r by (simp add: with_limits_def)
  have inj: "inj_on the (set (turn_ids ms))"
  proof (rule inj_onI)
    fix x y assume mem: "x \<in> set (turn_ids ms)" "y \<in> set (turn_ids ms)" "the x = the y"
    then have "x \<noteq> None" "y \<noteq> None" using nn by metis+
    then show "x = y" using mem(3) by (metis option.expand)
  qed
  have "card (set (turn_ids ms)) = card (set (rb_turns (observe_all ms ?b)))"
    unfolding eq by (rule card_image [OF inj, symmetric])
  also have "\<dots> = length (rb_turns (observe_all ms ?b))"
    by (rule distinct_card) (use r in \<open>simp add: budget_ok_def\<close>)
  also have "\<dots> \<le> rb_max_turns (observe_all ms ?b)"
    using r assms by (simp add: budget_ok_def)
  also have "\<dots> = turns" using r by (simp add: with_limits_def)
  finally show ?thesis using nn by blast
qed

definition demo_turn :: "string \<Rightarrow> inbound" where
  "demo_turn i = Message (Event \<lparr>en_method = ''session/event'', en_params =
     JObject [(''type'', JString ''turn.started''), (''turnId'', JString i)]\<rparr>)"

theorem turn_budget_enforced_witness:
  "card (set (turn_ids [demo_turn ''a'', demo_turn ''a'', demo_turn ''b''])) \<le> 2"
proof -
  have "rb_violation (observe_all [demo_turn ''a'', demo_turn ''a'', demo_turn ''b''] (with_limits 100 0 50 2 1)) = None"
    by (simp add: observe_all_def demo_turn_def with_limits_def event_type_def SESSION_EVENT_def json_get_str_def
        observe_turn_def unique_event_identity_def valid_runtime_identity_def has_nul_def MAX_RUNTIME_ID_BYTES_def
        List.insert_def)
  from turn_budget_enforced [OF this] show ?thesis by blast
qed

lemma read_loop_event_kind:
  "Message (Event e) \<in> set (read_loop_from env render n active input) \<Longrightarrow>
     event_type e \<in> {Some ''turn.started'', Some ''turn.completed'', Some ''turn.failed''}"
proof (induction env render n active input rule: read_loop_from.induct)
  case (1 env render n active input)
  show ?case
  proof (cases "\<exists>l bytes rest. read_bounded_line input = (Line l bytes, rest) \<and> bytes \<le> MAX_NDJSON_LINE_BYTES")
    case True
    then obtain l bytes rest where r: "read_bounded_line input = (Line l bytes, rest)" "bytes \<le> MAX_NDJSON_LINE_BYTES"
      by blast
    obtain sent active' where st: "read_step env render (Suc n) active l = (sent, active')" by fastforce
    have eq: "read_loop_from env render n active input = sent @ read_loop_from env render (Suc n) active' rest"
      using r st by (subst read_loop_from.simps) simp
    show ?thesis
    proof (cases "Message (Event e) \<in> set sent")
      case True
      then have "parse_line env (from_utf8_lossy l) = Inr (Event e)"
        using st by (auto simp: read_step_def split: sum.splits option.splits)
      then show ?thesis by (rule parse_event_kind)
    next
      case False
      then have "Message (Event e) \<in> set (read_loop_from env render (Suc n) active' rest)"
        using "1.prems" unfolding eq by simp
      then show ?thesis by (rule "1.IH" [OF r(1) [symmetric] refl r(2) st [symmetric]])
    qed
  next
    case False
    obtain r rest where rb: "read_bounded_line input = (r, rest)" by fastforce
    have "Message (Event e) \<notin> set (read_loop_from env render n active input)"
      using False rb by (subst read_loop_from.simps) (auto split: line_result.splits)
    then show ?thesis using "1.prems" by blast
  qed
qed

text \<open>
  C39 (error): the tool-call budget is never enforced on a runtime's output. The reader turns a
  line into an event only for the three turn boundaries, so the reports of tool calls reach
  the budget as unknown events: whatever the runtime writes and however small the budget, no
  tool call is counted and neither tool-call violation is ever recorded.
\<close>

theorem tool_call_budget_never_enforced:
  "rb_tool_calls (observe_all (read_loop env render input) (from_effective instant_max now limits)) = []
   \<and> rb_violation (observe_all (read_loop env render input) (from_effective instant_max now limits))
       \<in> {None, Some TurnLimit, Some AmbiguousTurnIdentity}"
proof -
  have gen: "rb_tool_calls (observe_all ms b) = [] \<and> rb_violation (observe_all ms b) \<in> {None, Some TurnLimit, Some AmbiguousTurnIdentity}"
    if "\<And>e. Message (Event e) \<in> set ms \<Longrightarrow> event_type e \<noteq> Some ''tool.updated''"
      "rb_tool_calls b = []" "rb_violation b \<in> {None, Some TurnLimit, Some AmbiguousTurnIdentity}" for ms b
    using that
  proof (induction ms arbitrary: b)
    case Nil
    then show ?case by (simp add: observe_all_def)
  next
    case (Cons m ms)
    have "rb_tool_calls (observe m b) = [] \<and> rb_violation (observe m b) \<in> {None, Some TurnLimit, Some AmbiguousTurnIdentity}"
      using Cons.prems
      by (cases "(m, b)" rule: observe.cases) (auto simp: observe_turn_def Let_def split: option.splits)
    then show ?case using Cons.IH [of "observe m b"] Cons.prems by (simp add: observe_all_def)
  qed
  have "event_type e \<noteq> Some ''tool.updated''" if "Message (Event e) \<in> set (read_loop env render input)" for e
    using read_loop_event_kind [of e env render 0 False input] that by (auto simp: read_loop_def)
  then show ?thesis by (intro gen) (auto simp: from_effective_def with_limits_def)
qed

end
