(* ===== verification/Driver_Stop.thy ===== *)
theory Driver_Stop
  imports Driver_Stream "HOL-Library.Word"
begin

text \<open>
  Stopping the runtime, from \<^verbatim>\<open>crates/zcode-driver/src/lib.rs\<close>: the protocol by which
  concurrent callers of \<^verbatim>\<open>stop_and_reap\<close> elect one of them to stop the process
  (\<^verbatim>\<open>begin_stop\<close>, \<^verbatim>\<open>finish_stop\<close>), the checks of process identity, and the escalation from
  SIGTERM to SIGKILL (\<^verbatim>\<open>perform_stop\<close>, \<^verbatim>\<open>stop_and_reap_persisted_process_group\<close>).
\<close>

section \<open>Electing the caller that stops the process\<close>

datatype io_kind = NotFoundKind | WouldBlockKind | InvalidInputKind | TimedOutKind | OtherKind

record io_error =
  ie_kind :: io_kind
  ie_message :: string

datatype stop_outcome = AlreadyExited child_exit | TerminatedExit child_exit

datatype stop_state =
    StopRunning nat
  | Stopping nat nat
  | Stopped stop_outcome
  | StopFailed nat io_error nat

text \<open>
  A caller is where its thread stands: not yet calling, asleep on the condition variable
  (waiting for the generation it registered with, or for the waiters of a failed attempt to
  leave) with the flag saying whether it was notified since, performing the stop, or returned.
\<close>

datatype caller =
    Idle
  | AwaitStop nat bool
  | AwaitDrain bool
  | Performing nat
  | Returned "io_error + stop_outcome"

record stop_sys =
  ss_state :: stop_state
  ss_callers :: "caller list"

fun notify :: "caller \<Rightarrow> caller" where
  "notify (AwaitStop g n) = AwaitStop g True"
| "notify (AwaitDrain n) = AwaitDrain True"
| "notify c = c"

text \<open>One pass of the outer loop of \<^verbatim>\<open>begin_stop\<close> under the lock.\<close>

fun begin_stop :: "stop_state \<Rightarrow> stop_state \<times> caller" where
  "begin_stop (Stopped outcome) = (Stopped outcome, Returned (Inr outcome))"
| "begin_stop (StopRunning g) = (Stopping (sat_inc u64_max g) 0, Performing (sat_inc u64_max g))"
| "begin_stop (StopFailed g f w) =
     (if w = 0 then (Stopping (sat_inc u64_max g) 0, Performing (sat_inc u64_max g))
      else (StopFailed g f w, AwaitDrain False))"
| "begin_stop (Stopping g w) = (Stopping g (sat_inc u64_max w), AwaitStop g False)"

text \<open>
  The inner loop after a wake-up, for a caller registered with generation \<open>waiting_for\<close>. The
  flag tells whether the last waiter of a failed attempt left, which notifies everyone.
\<close>

definition wake_stop :: "nat \<Rightarrow> stop_state \<Rightarrow> stop_state \<times> caller \<times> bool" where
  "wake_stop waiting_for st =
     (case st of
        Stopped outcome \<Rightarrow> (st, Returned (Inr outcome), False)
      | StopFailed g f w \<Rightarrow>
          if g = waiting_for then (StopFailed g f (w - 1), Returned (Inl f), w - 1 = 0)
          else (let (st', c) = begin_stop st in (st', c, False))
      | Stopping g w \<Rightarrow>
          if g = waiting_for then (st, AwaitStop waiting_for False, False)
          else (let (st', c) = begin_stop st in (st', c, False))
      | StopRunning g \<Rightarrow> (let (st', c) = begin_stop st in (st', c, False)))"

definition finish_stop :: "nat \<Rightarrow> io_error + stop_outcome \<Rightarrow> stop_state \<Rightarrow> stop_state" where
  "finish_stop generation result st =
     (let waiters = (case st of Stopping g w \<Rightarrow> if g = generation then w else 0 | _ \<Rightarrow> 0)
      in case result of Inr outcome \<Rightarrow> Stopped outcome | Inl f \<Rightarrow> StopFailed generation f waiters)"

inductive stop_step :: "stop_sys \<Rightarrow> stop_sys \<Rightarrow> bool" where
  call: "i < length (ss_callers y) \<Longrightarrow> ss_callers y ! i = Idle \<Longrightarrow> begin_stop (ss_state y) = (st, c) \<Longrightarrow>
    stop_step y \<lparr>ss_state = st, ss_callers = (ss_callers y)[i := c]\<rparr>"
| drained: "i < length (ss_callers y) \<Longrightarrow> ss_callers y ! i = AwaitDrain n \<Longrightarrow> begin_stop (ss_state y) = (st, c) \<Longrightarrow>
    stop_step y \<lparr>ss_state = st, ss_callers = (ss_callers y)[i := c]\<rparr>"
| woken: "i < length (ss_callers y) \<Longrightarrow> ss_callers y ! i = AwaitStop g n \<Longrightarrow> wake_stop g (ss_state y) = (st, c, all) \<Longrightarrow>
    stop_step y \<lparr>ss_state = st,
      ss_callers = (if all then map notify else id) ((ss_callers y)[i := c])\<rparr>"
| finish: "i < length (ss_callers y) \<Longrightarrow> ss_callers y ! i = Performing g \<Longrightarrow>
    stop_step y \<lparr>ss_state = finish_stop g r (ss_state y),
      ss_callers = map notify ((ss_callers y)[i := Returned r])\<rparr>"

inductive_cases stop_stepE: "stop_step y y'"

section \<open>The invariant of the election\<close>

fun performing :: "caller \<Rightarrow> bool" where
  "performing (Performing g) = True"
| "performing c = False"

fun waiting :: "caller \<Rightarrow> bool" where
  "waiting (AwaitStop g n) = True"
| "waiting c = False"

fun notified :: "caller \<Rightarrow> bool" where
  "notified (AwaitStop g n) = n"
| "notified (AwaitDrain n) = n"
| "notified c = True"

fun gen_is :: "nat \<Rightarrow> caller \<Rightarrow> bool" where
  "gen_is g (AwaitStop h n) = (h = g)"
| "gen_is g (Performing h) = (h = g)"
| "gen_is g c = True"

fun quiet :: "caller \<Rightarrow> bool" where
  "quiet Idle = True"
| "quiet (Returned r) = True"
| "quiet c = False"

fun agrees :: "stop_state \<Rightarrow> caller \<Rightarrow> bool" where
  "agrees st (Returned (Inr outcome)) = (st = Stopped outcome)"
| "agrees st c = True"

definition stop_ok :: "stop_sys \<Rightarrow> bool" where
  "stop_ok y \<longleftrightarrow> length (ss_callers y) \<le> u64_max \<and> list_all (agrees (ss_state y)) (ss_callers y)
     \<and> (case ss_state y of
          StopRunning g \<Rightarrow> list_all quiet (ss_callers y)
        | Stopping g w \<Rightarrow> count_where performing (ss_callers y) = 1 \<and> list_all (gen_is g) (ss_callers y)
            \<and> w = count_where waiting (ss_callers y)
        | StopFailed g f w \<Rightarrow> count_where performing (ss_callers y) = 0 \<and> list_all (gen_is g) (ss_callers y)
            \<and> w = count_where waiting (ss_callers y)
            \<and> list_all (\<lambda>c. waiting c \<longrightarrow> notified c) (ss_callers y)
            \<and> (w = 0 \<longrightarrow> list_all notified (ss_callers y))
        | Stopped outcome \<Rightarrow> count_where performing (ss_callers y) = 0 \<and> list_all notified (ss_callers y))"

lemma count_where_le_length: "count_where p xs \<le> length xs"
  by (simp add: count_where_def)

lemma count_where_update:
  assumes "i < length xs"
  shows "count_where p (xs[i := y]) + (if p (xs ! i) then 1 else 0) = count_where p xs + (if p y then 1 else 0)"
  using assms
proof (induction xs arbitrary: i)
  case (Cons x xs)
  then show ?case by (cases i) (auto simp: count_where_def)
qed simp

lemma list_all_update: "list_all p xs \<Longrightarrow> p y \<Longrightarrow> list_all p (xs[i := y])"
  by (auto simp: list_all_iff dest: subsetD [OF set_update_subset_insert])

lemma notify_simps [simp]:
  "performing (notify c) = performing c" "waiting (notify c) = waiting c" "notified (notify c)"
  "gen_is g (notify c) = gen_is g c" "agrees st (notify c) = agrees st c" "quiet (notify c) = quiet c"
  by (cases c; simp)+

lemma count_where_notify [simp]:
  "count_where performing (map notify xs) = count_where performing xs"
  "count_where waiting (map notify xs) = count_where waiting xs"
  by (simp_all add: count_where_def filter_map comp_def)

lemma list_all_notify [simp]:
  "list_all notified (map notify xs)" "list_all (gen_is g) (map notify xs) = list_all (gen_is g) xs"
  "list_all (agrees st) (map notify xs) = list_all (agrees st) xs"
  "list_all (\<lambda>c. waiting c \<longrightarrow> notified c) (map notify xs)"
  by (simp_all add: list_all_iff)

lemma agrees_any:
  assumes "list_all (agrees st) xs" and "\<And>outcome. st \<noteq> Stopped outcome"
  shows "list_all (agrees st') xs"
proof -
  have "agrees st c \<Longrightarrow> agrees st' c" for c
    using assms(2) by (cases "(st, c)" rule: agrees.cases) auto
  then show ?thesis using assms(1) by (auto simp: list_all_iff)
qed

lemma no_gen: "count_where waiting xs = 0 \<Longrightarrow> count_where performing xs = 0 \<Longrightarrow> list_all (gen_is g) xs"
proof -
  have "\<not> waiting c \<Longrightarrow> \<not> performing c \<Longrightarrow> gen_is g c" for c by (cases c) auto
  then show "count_where waiting xs = 0 \<Longrightarrow> count_where performing xs = 0 \<Longrightarrow> list_all (gen_is g) xs"
    by (auto simp: count_where_eq_0 list_all_iff)
qed

lemma quiet_counts: "list_all quiet xs \<Longrightarrow> count_where waiting xs = 0 \<and> count_where performing xs = 0"
proof -
  have "quiet c \<Longrightarrow> \<not> waiting c \<and> \<not> performing c" for c by (cases c) auto
  then show "list_all quiet xs \<Longrightarrow> count_where waiting xs = 0 \<and> count_where performing xs = 0"
    by (auto simp: count_where_eq_0 list_all_iff)
qed

lemma begin_stop_ok:
  assumes ok: "stop_ok y" and i: "i < length (ss_callers y)"
    and pc: "\<not> performing (ss_callers y ! i)" "\<not> waiting (ss_callers y ! i)"
    and run: "begin_stop (ss_state y) = (st, c)"
  shows "stop_ok \<lparr>ss_state = st, ss_callers = (ss_callers y)[i := c]\<rparr>"
proof -
  let ?xs = "ss_callers y"
  have len: "length ?xs \<le> u64_max" and ag: "list_all (agrees (ss_state y)) ?xs"
    using ok by (auto simp: stop_ok_def)
  note cw = count_where_update [OF i, of waiting c] and cp = count_where_update [OF i, of performing c]
  show ?thesis
  proof (cases "ss_state y")
    case (StopRunning g)
    then have q: "count_where waiting ?xs = 0" "count_where performing ?xs = 0"
      using ok quiet_counts by (auto simp: stop_ok_def)
    have "c = Performing (sat_inc u64_max g)" "st = Stopping (sat_inc u64_max g) 0"
      using run StopRunning by auto
    then show ?thesis
      using cw cp q pc len agrees_any [OF ag, of st] no_gen [OF q] StopRunning
      by (auto simp: stop_ok_def intro!: list_all_update)
  next
    case (Stopping g w)
    have w: "w = count_where waiting ?xs" and p1: "count_where performing ?xs = 1" and gi: "list_all (gen_is g) ?xs"
      using ok Stopping by (auto simp: stop_ok_def)
    have "count_where waiting ?xs < length ?xs"
    proof -
      have "count_where waiting (?xs[i := AwaitStop 0 True]) = Suc (count_where waiting ?xs)"
        using count_where_update [OF i, of waiting "AwaitStop 0 True"] pc by simp
      then show ?thesis using count_where_le_length [of waiting "?xs[i := AwaitStop 0 True]"] by simp
    qed
    then have s: "sat_inc u64_max w = Suc w" using len w by (simp add: sat_inc_def)
    have "c = AwaitStop g False" "st = Stopping g (Suc w)" using run Stopping s by auto
    then show ?thesis
      using cw cp w p1 gi pc len agrees_any [OF ag, of st] Stopping
      by (auto simp: stop_ok_def intro!: list_all_update)
  next
    case (Stopped outcome)
    then have "c = Returned (Inr outcome)" "st = Stopped outcome" using run by auto
    then show ?thesis
      using ok cp pc Stopped by (auto simp: stop_ok_def intro!: list_all_update)
  next
    case (StopFailed g f w)
    have w: "w = count_where waiting ?xs" and p0: "count_where performing ?xs = 0" and gi: "list_all (gen_is g) ?xs"
      and nt: "list_all (\<lambda>c. waiting c \<longrightarrow> notified c) ?xs"
      using ok StopFailed by (auto simp: stop_ok_def)
    show ?thesis
    proof (cases "w = 0")
      case True
      then have "c = Performing (sat_inc u64_max g)" "st = Stopping (sat_inc u64_max g) 0"
        using run StopFailed by auto
      then show ?thesis
        using cw cp w p0 True pc len agrees_any [OF ag, of st] no_gen [of ?xs] StopFailed
        by (auto simp: stop_ok_def intro!: list_all_update)
    next
      case False
      then have "c = AwaitDrain False" "st = StopFailed g f w" using run StopFailed by auto
      then show ?thesis
        using cw cp w p0 gi nt False pc len ag StopFailed
        by (auto simp: stop_ok_def intro!: list_all_update)
    qed
  qed
qed

lemma wake_stop_ok:
  assumes ok: "stop_ok y" and i: "i < length (ss_callers y)" and pc: "ss_callers y ! i = AwaitStop g n"
    and run: "wake_stop g (ss_state y) = (st, c, all)"
  shows "stop_ok \<lparr>ss_state = st, ss_callers = (if all then map notify else id) ((ss_callers y)[i := c])\<rparr>"
proof -
  let ?xs = "ss_callers y"
  have len: "length ?xs \<le> u64_max" and ag: "list_all (agrees (ss_state y)) ?xs"
    using ok by (auto simp: stop_ok_def)
  have mem: "AwaitStop g n \<in> set ?xs" using i pc nth_mem by metis
  note cw = count_where_update [OF i, of waiting c] and cp = count_where_update [OF i, of performing c]
  show ?thesis
  proof (cases "ss_state y")
    case (StopRunning h)
    then show ?thesis using ok mem by (auto simp: stop_ok_def list_all_iff)
  next
    case (Stopping h w)
    then have "h = g" using ok mem by (auto simp: stop_ok_def list_all_iff)
    then have "c = AwaitStop g False" "st = Stopping g w" "\<not> all"
      using run Stopping by (auto simp: wake_stop_def)
    then show ?thesis
      using ok cw cp pc len ag Stopping \<open>h = g\<close> by (auto simp: stop_ok_def intro!: list_all_update)
  next
    case (Stopped outcome)
    then have "c = Returned (Inr outcome)" "st = Stopped outcome" "\<not> all"
      using run by (auto simp: wake_stop_def)
    then show ?thesis
      using ok cp pc Stopped by (auto simp: stop_ok_def intro!: list_all_update)
  next
    case (StopFailed h f w)
    have w: "w = count_where waiting ?xs" and p0: "count_where performing ?xs = 0" and gi: "list_all (gen_is h) ?xs"
      and nt: "list_all (\<lambda>c. waiting c \<longrightarrow> notified c) ?xs"
      using ok StopFailed by (auto simp: stop_ok_def)
    have "h = g" using gi mem by (auto simp: list_all_iff)
    then have c: "c = Returned (Inl f)" "st = StopFailed g f (w - 1)" "all = (w - 1 = 0)"
      using run StopFailed by (auto simp: wake_stop_def)
    have cnt: "count_where waiting (?xs[i := c]) = w - 1" "count_where performing (?xs[i := c]) = 0"
      using cw cp pc c w p0 by auto
    have ag': "list_all (agrees st) (?xs[i := c])"
      using agrees_any [OF ag, of st] StopFailed c by (auto intro!: list_all_update)
    have gi': "list_all (gen_is g) (?xs[i := c])" using gi \<open>h = g\<close> c by (auto intro!: list_all_update)
    have nt': "list_all (\<lambda>c. waiting c \<longrightarrow> notified c) (?xs[i := c])" using nt c by (auto intro!: list_all_update)
    show ?thesis
      using cnt ag' gi' nt' len c by (cases "w - 1 = 0") (simp_all add: stop_ok_def)
  qed
qed

lemma finish_stop_ok:
  assumes ok: "stop_ok y" and i: "i < length (ss_callers y)" and pc: "ss_callers y ! i = Performing g"
  shows "stop_ok \<lparr>ss_state = finish_stop g r (ss_state y), ss_callers = map notify ((ss_callers y)[i := Returned r])\<rparr>"
proof -
  let ?xs = "ss_callers y" and ?c = "Returned r"
  have len: "length ?xs \<le> u64_max" and ag: "list_all (agrees (ss_state y)) ?xs"
    using ok by (auto simp: stop_ok_def)
  have mem: "Performing g \<in> set ?xs" using i pc nth_mem by metis
  then have "count_where performing ?xs \<noteq> 0" unfolding count_where_eq_0 by (metis performing.simps(1))
  moreover have "\<not> list_all quiet ?xs" using mem unfolding list_all_iff by (metis quiet.simps(5))
  ultimately obtain h w where st: "ss_state y = Stopping h w"
    using ok by (cases "ss_state y") (auto simp: stop_ok_def)
  then have w: "w = count_where waiting ?xs" and p1: "count_where performing ?xs = 1"
    and gh: "list_all (gen_is h) ?xs"
    using ok by (auto simp: stop_ok_def)
  have hg: "h = g" using gh mem unfolding list_all_iff by (metis gen_is.simps(2))
  have gi: "list_all (gen_is g) ?xs" using gh hg by simp
  have cnt: "count_where waiting (?xs[i := ?c]) = w" "count_where performing (?xs[i := ?c]) = 0"
    using count_where_update [OF i, of waiting ?c] count_where_update [OF i, of performing ?c] pc w p1 by auto
  have "agrees (finish_stop g r (ss_state y)) ?c"
    by (cases r) (simp_all add: finish_stop_def)
  then have ag': "list_all (agrees (finish_stop g r (ss_state y))) (?xs[i := ?c])"
    using agrees_any [OF ag, of "finish_stop g r (ss_state y)"] st by (auto intro!: list_all_update)
  have gi': "list_all (gen_is g) (?xs[i := ?c])" using gi by (auto intro!: list_all_update)
  show ?thesis
    using cnt ag' gi' len st hg by (cases r) (simp_all add: stop_ok_def finish_stop_def)
qed

interpretation election: inv_system stop_step stop_ok
proof unfold_locales
  fix y y' assume ok: "stop_ok y" and step: "stop_step y y'"
  from step show "stop_ok y'"
    by cases (use ok begin_stop_ok wake_stop_ok finish_stop_ok in auto)
qed

definition stop_start :: "nat \<Rightarrow> stop_sys" where
  "stop_start n = \<lparr>ss_state = StopRunning 0, ss_callers = replicate n Idle\<rparr>"

lemma stop_start_ok: "n \<le> u64_max \<Longrightarrow> stop_ok (stop_start n)"
  by (simp add: stop_ok_def stop_start_def list_all_iff)

text \<open>
  C24 (safety): one stop at a time, one outcome. However the calls of any number of threads
  interleave, with spurious wake-ups and failed attempts, at most one caller is performing
  the stop, and all callers that are told the process was stopped are told the same outcome,
  which is the recorded one.
\<close>

theorem stop_is_exclusive:
  assumes "stop_step\<^sup>*\<^sup>* (stop_start n) y" and "n \<le> u64_max"
  shows "count_where performing (ss_callers y) \<le> 1
     \<and> (\<forall>o1\<in>{r. Returned (Inr r) \<in> set (ss_callers y)}. ss_state y = Stopped o1)"
proof -
  have ok: "stop_ok y" using election.reachable [OF assms(1) stop_start_ok [OF assms(2)]] .
  have "count_where performing (ss_callers y) \<le> 1"
    using ok quiet_counts [of "ss_callers y"] by (auto simp: stop_ok_def split: stop_state.splits)
  moreover have "ss_state y = Stopped o1" if "Returned (Inr o1) \<in> set (ss_callers y)" for o1
    using ok that by (auto simp: stop_ok_def list_all_iff dest: bspec [of _ _ "Returned (Inr o1)"])
  ultimately show ?thesis by blast
qed

definition demo_stopping :: stop_sys where
  "demo_stopping = \<lparr>ss_state = Stopping 1 0, ss_callers = [Performing 1, Idle]\<rparr>"

lemma demo_stopping_reachable: "stop_step\<^sup>*\<^sup>* (stop_start 2) demo_stopping"
proof -
  have "stop_step (stop_start 2) \<lparr>ss_state = Stopping 1 0, ss_callers = (ss_callers (stop_start 2))[0 := Performing 1]\<rparr>"
    by (rule stop_step.call) (simp_all add: stop_start_def sat_inc_def u64_max_def numeral_2_eq_2)
  then show ?thesis by (simp add: demo_stopping_def stop_start_def numeral_2_eq_2 r_into_rtranclp)
qed

theorem stop_is_exclusive_witness: "count_where performing (ss_callers demo_stopping) \<le> 1"
  using stop_is_exclusive [OF demo_stopping_reachable] by (simp add: u64_max_def)

text \<open>
  C27 (liveness): no caller is left asleep. In every reachable state in which some caller of
  \<^verbatim>\<open>stop_and_reap\<close> has not returned, some caller can go on: it is performing the stop, or it is
  asleep but has been notified since it fell asleep.
\<close>

theorem stop_never_deadlocks:
  assumes "stop_step\<^sup>*\<^sup>* (stop_start n) y" and "n \<le> u64_max" and "\<not> list_all quiet (ss_callers y)"
  shows "\<exists>c\<in>set (ss_callers y). performing c \<or> (\<not> quiet c \<and> notified c)"
proof -
  have ok: "stop_ok y" using election.reachable [OF assms(1) stop_start_ok [OF assms(2)]] .
  obtain c where c: "c \<in> set (ss_callers y)" "\<not> quiet c" using assms(3) by (auto simp: list_all_iff)
  show ?thesis
  proof (cases "ss_state y")
    case (StopRunning g)
    then show ?thesis using ok assms(3) by (simp add: stop_ok_def)
  next
    case (Stopping g w)
    then have "count_where performing (ss_callers y) \<noteq> 0" using ok by (simp add: stop_ok_def)
    then show ?thesis by (auto simp: count_where_eq_0)
  next
    case (Stopped outcome)
    then show ?thesis using ok c by (auto simp: stop_ok_def list_all_iff)
  next
    case (StopFailed g f w)
    show ?thesis
    proof (cases "w = 0")
      case True
      then show ?thesis using ok c StopFailed by (auto simp: stop_ok_def list_all_iff)
    next
      case False
      then obtain d where d: "d \<in> set (ss_callers y)" "waiting d"
        using count_where_eq_0 [of waiting "ss_callers y"] ok StopFailed by (auto simp: stop_ok_def)
      then have "notified d" using ok StopFailed by (auto simp: stop_ok_def list_all_iff)
      moreover have "\<not> quiet d" using d(2) by (cases d) auto
      ultimately show ?thesis using d(1) by blast
    qed
  qed
qed

theorem stop_never_deadlocks_witness:
  "\<exists>c\<in>set (ss_callers demo_stopping). performing c \<or> (\<not> quiet c \<and> notified c)"
  by (rule stop_never_deadlocks [OF demo_stopping_reachable]) (simp_all add: u64_max_def demo_stopping_def)

section \<open>Process identity\<close>

record process_identity =
  pi_pid :: "32 word"
  pi_pgid :: "32 word"
  pi_uid :: "32 word"
  pi_start_token :: string

text \<open>
  \<open>pi_pgid\<close> is a signed 32-bit value: comparisons read it with \<open>sint\<close>, and the cast of an
  unsigned process id to it keeps the bits.
\<close>

definition io_other :: "string \<Rightarrow> io_error" where
  "io_other m = \<lparr>ie_kind = OtherKind, ie_message = m\<rparr>"

definition validate_group_target :: "32 word \<Rightarrow> io_error + 32 word" where
  "validate_group_target pgid =
     (if sint pgid \<le> 1 \<or> sint pgid = - 2147483648
      then Inl \<lparr>ie_kind = InvalidInputKind, ie_message = ''process-group id is not signal-safe''\<rparr>
      else Inr (- pgid))"

definition validate_spawn_identity :: "32 word \<Rightarrow> process_identity \<Rightarrow> io_error + unit" where
  "validate_spawn_identity child_pid identity =
     (if pi_pid identity \<noteq> child_pid \<or> pi_pid identity \<le> 1 \<or> sint (pi_pgid identity) \<le> 1
         \<or> pi_pgid identity \<noteq> child_pid \<or> pi_start_token identity = []
      then Inl (io_other ''spawned child identity is incomplete or not group-isolated'')
      else Inr ())"

definition validate_same_identity :: "process_identity \<Rightarrow> process_identity \<Rightarrow> io_error + unit" where
  "validate_same_identity expected observed =
     (if expected \<noteq> observed then Inl (io_other ''process identity changed; refusing to signal'')
      else rbind (validate_group_target (pi_pgid expected)) (\<lambda>_. Inr ()))"

definition validate_live_group_after_term :: "process_identity \<Rightarrow> process_identity list \<Rightarrow> io_error + unit" where
  "validate_live_group_after_term leader members =
     rbind (validate_group_target (pi_pgid leader)) (\<lambda>_.
       if list_ex (\<lambda>m. pi_pid m \<le> 1 \<or> pi_pgid m \<noteq> pi_pgid leader \<or> pi_uid m \<noteq> pi_uid leader
                       \<or> pi_start_token m = []) members
       then Inl (io_other ''process-group membership is ambiguous; refusing to signal'')
       else Inr ())"

definition validate_owned_group :: "process_identity \<Rightarrow> process_identity list \<Rightarrow> io_error + unit" where
  "validate_owned_group leader members =
     (if members = [] \<or> \<not> list_ex (\<lambda>m. m = leader) members
      then Inl (io_other ''owned process-group membership does not contain the leader'')
      else validate_live_group_after_term leader members)"

text \<open>
  A group signal never reaches beyond one foreign group. Whatever 32-bit value
  is given, either it is refused or the target handed to the kill system call is the exact
  negation of a group id above one: never a process, never the caller's own group (zero), and
  never every process (minus one); the negation does not overflow.
\<close>

theorem signal_target_is_one_group:
  "case validate_group_target pgid of
     Inl e \<Rightarrow> sint pgid \<le> 1
   | Inr target \<Rightarrow> sint target = - sint pgid \<and> sint target < - 1"
proof (cases "sint pgid \<le> 1")
  case True
  then show ?thesis by (simp add: validate_group_target_def)
next
  case False
  have r: "- (2 ^ 31) \<le> - sint pgid \<and> - sint pgid < 2 ^ 31"
    using sint_greater_eq [of pgid] sint_less [of pgid] False by simp
  have "sint (- pgid) = signed_take_bit 31 (- sint pgid)"
    by (simp add: sint_word_minus)
  also have "\<dots> = - sint pgid"
    using r by (simp add: signed_take_bit_int_eq_self)
  finally show ?thesis using False by (simp add: validate_group_target_def)
qed

section \<open>Observing and signalling\<close>

text \<open>
  The operating system is the record \<open>os\<close> of what its calls return and how they move its own
  state: waiting for the child, observing a process and the members of a group, sending a
  signal. \<open>io_state\<close> pairs that state with the log of the signals sent so far.
\<close>

record 's os =
  os_try_wait :: "'s \<Rightarrow> (io_error + child_exit option) \<times> 's"
  os_observe :: "32 word \<Rightarrow> 's \<Rightarrow> (io_error + process_identity) \<times> 's"
  os_members :: "32 word \<Rightarrow> 's \<Rightarrow> (io_error + process_identity list) \<times> 's"
  os_kill :: "32 word \<Rightarrow> nat \<Rightarrow> 's \<Rightarrow> (io_error + unit) \<times> 's"
  os_is_esrch :: "io_error \<Rightarrow> bool"

type_synonym 's io_state = "'s \<times> (32 word \<times> nat) list"
type_synonym ('s, 'a) io = "'s io_state \<Rightarrow> (io_error + 'a) \<times> 's io_state"

definition io_call :: "('s \<Rightarrow> (io_error + 'a) \<times> 's) \<Rightarrow> ('s, 'a) io" where
  "io_call f st = (case f (fst st) of (r, s) \<Rightarrow> (r, (s, snd st)))"

definition io_lift :: "io_error + 'a \<Rightarrow> ('s, 'a) io" where
  "io_lift r st = (r, st)"

definition io_bind :: "('s, 'a) io \<Rightarrow> ('a \<Rightarrow> ('s, 'b) io) \<Rightarrow> ('s, 'b) io" where
  "io_bind m f st = (case m st of (Inl e, st') \<Rightarrow> (Inl e, st') | (Inr x, st') \<Rightarrow> f x st')"

text \<open>\<^verbatim>\<open>match\<close> on the result of a call, errors included.\<close>

definition io_match :: "('s, 'a) io \<Rightarrow> (io_error + 'a \<Rightarrow> ('s, 'b) io) \<Rightarrow> ('s, 'b) io" where
  "io_match m f st = (case m st of (r, st') \<Rightarrow> f r st')"

definition TERM_SIGNAL :: nat where "TERM_SIGNAL = 15"

definition KILL_SIGNAL :: nat where "KILL_SIGNAL = 9"

definition observe_process :: "'s os \<Rightarrow> 32 word \<Rightarrow> ('s, process_identity) io" where
  "observe_process os pid =
     (if pid \<le> 1 \<or> pid > 0x7FFFFFFF
      then io_lift (Inl \<lparr>ie_kind = InvalidInputKind, ie_message = ''process id is not signal-safe''\<rparr>)
      else io_call (os_observe os pid))"

fun observe_group_retry :: "'s os \<Rightarrow> 32 word \<Rightarrow> nat \<Rightarrow> io_error option \<Rightarrow> ('s, process_identity list) io" where
  "observe_group_retry os pgid 0 last_error =
     io_lift (Inl (case last_error of Some e \<Rightarrow> e | None \<Rightarrow> io_other ''process-group observation failed''))"
| "observe_group_retry os pgid (Suc n) last_error =
     io_match (io_call (os_members os pgid)) (\<lambda>r. case r of
         Inr members \<Rightarrow> io_lift (Inr members)
       | Inl e \<Rightarrow> if ie_kind e = WouldBlockKind then observe_group_retry os pgid n (Some e)
                  else io_lift (Inl e))"

definition MEMBER_OBSERVATION_RETRIES :: nat where
  "MEMBER_OBSERVATION_RETRIES = 4"

definition observe_process_group :: "'s os \<Rightarrow> 32 word \<Rightarrow> ('s, process_identity list) io" where
  "observe_process_group os pgid =
     io_bind (io_lift (validate_group_target pgid)) (\<lambda>_.
       observe_group_retry os pgid MEMBER_OBSERVATION_RETRIES None)"

definition signal_group :: "'s os \<Rightarrow> 32 word \<Rightarrow> nat \<Rightarrow> ('s, unit) io" where
  "signal_group os pgid signal =
     io_bind (io_lift (validate_group_target pgid)) (\<lambda>target st.
       (case os_kill os target signal (fst st) of
          (Inr _, s) \<Rightarrow> (Inr (), (s, snd st @ [(target, signal)]))
        | (Inl e, s) \<Rightarrow> (if os_is_esrch os e then Inr () else Inl e, (s, snd st @ [(target, signal)]))))"

text \<open>
  Waiting for the group to die: \<open>polls\<close> is the number of ten-millisecond polls before the
  deadline passes.
\<close>

fun wait_for_group_death ::
    "'s os \<Rightarrow> 32 word \<Rightarrow> nat \<Rightarrow> child_exit option \<Rightarrow> ('s, child_exit option) io" where
  "wait_for_group_death os pgid polls leader_exit =
     io_bind (if leader_exit = None then io_call (os_try_wait os) else io_lift (Inr leader_exit)) (\<lambda>leader_exit.
     io_match (observe_process_group os pgid) (\<lambda>r.
       let again = (case polls of 0 \<Rightarrow> io_lift (Inr None)
                                | Suc n \<Rightarrow> wait_for_group_death os pgid n leader_exit)
       in case r of
            Inr members \<Rightarrow>
              (case (members, leader_exit) of ([], Some exit) \<Rightarrow> io_lift (Inr (Some exit)) | _ \<Rightarrow> again)
          | Inl e \<Rightarrow> if ie_kind e = WouldBlockKind then again else io_lift (Inl e)))"

declare wait_for_group_death.simps [simp del]

definition ensure_group_empty :: "'s os \<Rightarrow> 32 word \<Rightarrow> ('s, unit) io" where
  "ensure_group_empty os pgid =
     io_bind (observe_process_group os pgid) (\<lambda>members.
       io_lift (if members = [] then Inr ()
                else Inl (io_other ''process leader exited while descendants remain; refusing unproven cleanup'')))"

definition reap_exited :: "'s os \<Rightarrow> process_identity \<Rightarrow> child_exit \<Rightarrow> ('s, stop_outcome) io" where
  "reap_exited os identity exit =
     io_bind (ensure_group_empty os (pi_pgid identity)) (\<lambda>_. io_lift (Inr (AlreadyExited exit)))"

definition terminate_group ::
    "'s os \<Rightarrow> process_identity \<Rightarrow> nat \<Rightarrow> ('s, stop_outcome) io" where
  "terminate_group os identity polls =
     io_bind (signal_group os (pi_pgid identity) TERM_SIGNAL) (\<lambda>_.
     io_bind (wait_for_group_death os (pi_pgid identity) polls None) (\<lambda>dead.
       case dead of
         Some exit \<Rightarrow> io_lift (Inr (TerminatedExit exit))
       | None \<Rightarrow>
           io_bind (observe_process_group os (pi_pgid identity)) (\<lambda>members.
           io_bind (io_lift (validate_live_group_after_term identity members)) (\<lambda>_.
           io_bind (signal_group os (pi_pgid identity) KILL_SIGNAL) (\<lambda>_.
           io_bind (wait_for_group_death os (pi_pgid identity) polls None) (\<lambda>dead.
             case dead of
               Some exit \<Rightarrow> io_lift (Inr (TerminatedExit exit))
             | None \<Rightarrow> io_lift (Inl \<lparr>ie_kind = TimedOutKind, ie_message = ''process group survived SIGKILL''\<rparr>)))))))"

definition perform_stop ::
    "'s os \<Rightarrow> 32 word option \<Rightarrow> process_identity \<Rightarrow> nat \<Rightarrow> ('s, stop_outcome) io" where
  "perform_stop os child identity polls =
     io_bind (io_lift (ok_or (io_other ''Driver lost its owned Child handle'') child)) (\<lambda>child_id.
     io_bind (io_call (os_try_wait os)) (\<lambda>status.
       case status of
         Some exit \<Rightarrow> reap_exited os identity exit
       | None \<Rightarrow>
           io_bind (io_lift (validate_spawn_identity child_id identity)) (\<lambda>_.
           io_match (observe_process os child_id) (\<lambda>r.
             case r of
               Inr observed \<Rightarrow>
                 io_bind (io_lift (validate_same_identity identity observed)) (\<lambda>_.
                 io_bind (observe_process_group os (pi_pgid identity)) (\<lambda>members.
                 io_bind (io_lift (validate_owned_group identity members)) (\<lambda>_.
                   terminate_group os identity polls)))
             | Inl e \<Rightarrow>
                 if ie_kind e = NotFoundKind
                 then io_bind (io_call (os_try_wait os)) (\<lambda>status.
                        case status of
                          Some exit \<Rightarrow> reap_exited os identity exit
                        | None \<Rightarrow>
                            io_bind (wait_for_group_death os (pi_pgid identity) polls None) (\<lambda>dead.
                              case dead of
                                Some exit \<Rightarrow> io_lift (Inr (AlreadyExited exit))
                              | None \<Rightarrow> io_lift (Inl e)))
                 else io_lift (Inl e)))))"

fun wait_for_persisted_group_death :: "'s os \<Rightarrow> 32 word \<Rightarrow> nat \<Rightarrow> ('s, bool) io" where
  "wait_for_persisted_group_death os pgid polls =
     io_match (observe_process_group os pgid) (\<lambda>r.
       let again = (case polls of 0 \<Rightarrow> io_lift (Inr False)
                                | Suc n \<Rightarrow> wait_for_persisted_group_death os pgid n)
       in case r of
            Inr members \<Rightarrow> if members = [] then io_lift (Inr True) else again
          | Inl e \<Rightarrow> if ie_kind e = WouldBlockKind then again else io_lift (Inl e))"

declare wait_for_persisted_group_death.simps [simp del]

definition signal_persisted :: "'s os \<Rightarrow> process_identity \<Rightarrow> nat \<Rightarrow> ('s, unit) io" where
  "signal_persisted os identity polls =
     io_bind (signal_group os (pi_pgid identity) TERM_SIGNAL) (\<lambda>_.
     io_bind (wait_for_persisted_group_death os (pi_pgid identity) polls) (\<lambda>dead.
       if dead then io_lift (Inr ())
       else
         io_bind (observe_process_group os (pi_pgid identity)) (\<lambda>members.
         io_bind (io_lift (validate_live_group_after_term identity members)) (\<lambda>_.
         io_bind (signal_group os (pi_pgid identity) KILL_SIGNAL) (\<lambda>_.
         io_bind (wait_for_persisted_group_death os (pi_pgid identity) polls) (\<lambda>dead.
           io_lift (if dead then Inr ()
                    else Inl \<lparr>ie_kind = TimedOutKind,
                              ie_message = ''persisted process group survived SIGKILL''\<rparr>)))))))"

definition stop_and_reap_persisted_process_group :: "'s os \<Rightarrow> process_identity \<Rightarrow> nat \<Rightarrow> ('s, unit) io" where
  "stop_and_reap_persisted_process_group os identity polls =
     io_bind (io_lift (validate_spawn_identity (pi_pid identity) identity)) (\<lambda>_.
     io_match (observe_process os (pi_pid identity)) (\<lambda>r.
       case r of
         Inr observed \<Rightarrow>
           io_bind (io_lift (validate_same_identity identity observed)) (\<lambda>_.
           io_bind (observe_process_group os (pi_pgid identity)) (\<lambda>members.
           io_bind (io_lift (validate_owned_group identity members)) (\<lambda>_.
             signal_persisted os identity polls)))
       | Inl e \<Rightarrow>
           if ie_kind e = NotFoundKind
           then io_bind (observe_process_group os (pi_pgid identity)) (\<lambda>members.
                  if members = [] then io_lift (Inr ())
                  else io_bind (io_lift (validate_live_group_after_term identity members)) (\<lambda>_.
                         signal_persisted os identity polls))
           else io_lift (Inl e)))"

section \<open>Which signals are sent\<close>

definition emits :: "('s, 'a) io \<Rightarrow> (32 word \<times> nat) list set \<Rightarrow> bool" where
  "emits m L \<longleftrightarrow> (\<forall>st. \<exists>l\<in>L. snd (snd (m st)) = snd st @ l)"

lemma emits_call [intro]: "emits (io_call f) {[]}"
  by (auto simp: emits_def io_call_def split: prod.splits)

lemma emits_lift [intro]: "emits (io_lift r) {[]}"
  by (auto simp: emits_def io_lift_def)

lemma emits_lift': "[] \<in> L \<Longrightarrow> emits (io_lift r) L"
  by (auto simp: emits_def io_lift_def)

lemma emits_mono: "emits m L \<Longrightarrow> L \<subseteq> M \<Longrightarrow> emits m M"
  unfolding emits_def by blast

lemma emits_silentD: "emits m {[]} \<Longrightarrow> m st = (r, st') \<Longrightarrow> snd st' = snd st"
  unfolding emits_def by (metis append_Nil2 singletonD snd_conv)

lemma emits_log: "emits m L \<Longrightarrow> snd (snd (m (s, []))) \<in> L"
  unfolding emits_def by (metis append_Nil snd_conv)

lemma emits_silent: "emits m {[]} \<Longrightarrow> [] \<in> L \<Longrightarrow> emits m L"
  by (rule emits_mono) auto

lemma emits_bind:
  assumes "emits m {[]}" and "\<And>x. emits (f x) L" and "[] \<in> L"
  shows "emits (io_bind m f) L"
  unfolding emits_def
proof
  fix st
  obtain r st' where m: "m st = (r, st')" by (cases "m st")
  then have "snd st' = snd st" by (rule emits_silentD [OF assms(1)])
  then show "\<exists>l\<in>L. snd (snd (io_bind m f st)) = snd st @ l"
    using m assms(2,3) by (cases r; cases st') (auto simp: io_bind_def emits_def)
qed

lemma emits_match:
  assumes "emits m {[]}" and "\<And>x. emits (f x) L"
  shows "emits (io_match m f) L"
  unfolding emits_def
proof
  fix st
  obtain r st' where m: "m st = (r, st')" by (cases "m st")
  then have "snd st' = snd st" by (rule emits_silentD [OF assms(1)])
  then show "\<exists>l\<in>L. snd (snd (io_match m f st)) = snd st @ l"
    using m assms(2) by (cases st') (auto simp: io_match_def emits_def)
qed

lemma emits_observe [intro]: "emits (observe_process os pid) {[]}"
  by (auto simp: observe_process_def)

lemma emits_retry: "emits (observe_group_retry os pgid n e) {[]}"
  by (induction n arbitrary: e)
     (auto intro!: emits_match split: sum.splits)

lemma emits_members [intro]: "emits (observe_process_group os pgid) {[]}"
  unfolding observe_process_group_def by (auto intro!: emits_bind emits_retry)

lemma emits_wait [intro]: "emits (wait_for_group_death os pgid polls leader) {[]}"
proof (induction polls arbitrary: leader)
  case 0
  show ?case
    by (subst wait_for_group_death.simps)
       (auto intro!: emits_bind emits_match split: sum.splits option.splits list.splits simp: Let_def)
next
  case (Suc n)
  then show ?case
    by (subst wait_for_group_death.simps)
       (auto intro!: emits_bind emits_match split: sum.splits option.splits list.splits simp: Let_def)
qed

lemma emits_wait_persisted [intro]: "emits (wait_for_persisted_group_death os pgid polls) {[]}"
proof (induction polls)
  case 0
  show ?case
    by (subst wait_for_persisted_group_death.simps) (auto intro!: emits_match split: sum.splits simp: Let_def)
next
  case (Suc n)
  then show ?case
    by (subst wait_for_persisted_group_death.simps) (auto intro!: emits_match split: sum.splits simp: Let_def)
qed

text \<open>Sending one signal to the group and going on.\<close>

lemma emits_signal_bind:
  assumes "\<And>x. emits (f x) L"
  shows "emits (io_bind (signal_group os pgid sig) f) ({[], [(- pgid, sig)]} \<union> (\<lambda>l. (- pgid, sig) # l) ` L)"
  unfolding emits_def
proof
  fix st :: "'a io_state"
  have sub: "\<exists>l\<in>L. snd (snd (f x st')) = snd st' @ l" for x st'
    using assms unfolding emits_def by blast
  show "\<exists>l\<in>{[], [(- pgid, sig)]} \<union> (\<lambda>l. (- pgid, sig) # l) ` L. snd (snd (io_bind (signal_group os pgid sig) f st)) = snd st @ l"
  proof (cases "validate_group_target pgid")
    case (Inl e)
    then show ?thesis by (auto simp: io_bind_def signal_group_def io_lift_def)
  next
    case (Inr target)
    then have tg: "target = - pgid" by (auto simp: validate_group_target_def split: if_splits)
    obtain r s where k: "os_kill os target sig (fst st) = (r, s)" by fastforce
    let ?log = "snd st @ [(- pgid, sig)]"
    have "signal_group os pgid sig st = (case r of Inr _ \<Rightarrow> Inr () | Inl e \<Rightarrow> if os_is_esrch os e then Inr () else Inl e, (s, ?log))"
      using Inr k tg by (auto simp: signal_group_def io_bind_def io_lift_def split: sum.splits)
    then consider "io_bind (signal_group os pgid sig) f st = f () (s, ?log)"
      | e where "io_bind (signal_group os pgid sig) f st = (Inl e, (s, ?log))"
      by (cases r) (auto simp: io_bind_def split: if_splits)
    then show ?thesis
    proof cases
      case 1
      then show ?thesis using sub [of "()" "(s, ?log)"] by auto
    next
      case 2
      then show ?thesis by auto
    qed
  qed
qed

abbreviation escalation :: "process_identity \<Rightarrow> (32 word \<times> nat) list set" where
  "escalation i \<equiv> {[], [(- pi_pgid i, TERM_SIGNAL)], [(- pi_pgid i, TERM_SIGNAL), (- pi_pgid i, KILL_SIGNAL)]}"

lemma emits_terminate: "emits (terminate_group os identity polls) (escalation identity)"
proof -
  have kill: "emits (io_bind (signal_group os (pi_pgid identity) KILL_SIGNAL) f) {[], [(- pi_pgid identity, KILL_SIGNAL)]}"
    if "\<And>x. emits (f x) {[]}" for f :: "unit \<Rightarrow> ('a, stop_outcome) io"
    by (rule emits_mono [OF emits_signal_bind [OF that]]) auto
  show ?thesis
    unfolding terminate_group_def
    by (rule emits_mono [OF emits_signal_bind [where L = "{[], [(- pi_pgid identity, KILL_SIGNAL)]}"]])
       (auto intro!: emits_bind kill emits_lift' emits_members emits_wait emits_wait_persisted split: option.splits)
qed

lemma emits_persisted: "emits (signal_persisted os identity polls) (escalation identity)"
proof -
  have kill: "emits (io_bind (signal_group os (pi_pgid identity) KILL_SIGNAL) f) {[], [(- pi_pgid identity, KILL_SIGNAL)]}"
    if "\<And>x. emits (f x) {[]}" for f :: "unit \<Rightarrow> ('a, unit) io"
    by (rule emits_mono [OF emits_signal_bind [OF that]]) auto
  show ?thesis
    unfolding signal_persisted_def
    by (rule emits_mono [OF emits_signal_bind [where L = "{[], [(- pi_pgid identity, KILL_SIGNAL)]}"]])
       (auto intro!: emits_bind kill emits_lift' emits_members emits_wait emits_wait_persisted split: option.splits)
qed

lemma emits_reap [intro]: "emits (reap_exited os identity exit) {[]}"
  unfolding reap_exited_def ensure_group_empty_def by (auto intro!: emits_bind emits_members)

lemma emits_perform: "emits (perform_stop os child identity polls) (escalation identity)"
  unfolding perform_stop_def
  by (auto intro!: emits_bind emits_match emits_terminate emits_members emits_observe emits_call emits_lift'
        emits_silent [OF emits_reap] emits_wait split: option.splits sum.splits)

lemma emits_perform_persisted:
  "emits (stop_and_reap_persisted_process_group os identity polls) (escalation identity)"
  unfolding stop_and_reap_persisted_process_group_def
  by (auto intro!: emits_bind emits_match emits_persisted emits_members emits_observe emits_lift' split: sum.splits)

text \<open>
  Stopping escalates in order and only at its own group. Whatever the operating
  system answers, an attempt to stop the driver's process, or a persisted process group after
  a restart, sends nothing, or SIGTERM, or SIGTERM and then SIGKILL, always to the negated
  group id of the recorded identity.
\<close>

theorem stop_signals_are_ordered:
  "snd (snd (perform_stop os child identity polls (s, []))) \<in> escalation identity
   \<and> snd (snd (stop_and_reap_persisted_process_group os identity polls (s, []))) \<in> escalation identity"
  by (rule conjI [OF emits_log [OF emits_perform] emits_log [OF emits_perform_persisted]])

text \<open>
  A recycled process id is never signalled. If no observation of the child's
  process id returns the recorded identity (same group, owner and start time), stopping the
  driver sends no signal at all.
\<close>

theorem no_signal_without_identity:
  assumes "\<And>s p. fst (os_observe os p s) \<noteq> Inr identity"
  shows "snd (snd (perform_stop os child identity polls (s, log))) = log"
proof -
  have "emits (perform_stop os child identity polls) {[]}"
    unfolding perform_stop_def
  proof (intro emits_bind emits_call emits_lift; (intro insertI1)?)
    fix child_id status
    let ?other = "\<lambda>r. case r of
               Inr observed \<Rightarrow>
                 io_bind (io_lift (validate_same_identity identity observed)) (\<lambda>_.
                 io_bind (observe_process_group os (pi_pgid identity)) (\<lambda>members.
                 io_bind (io_lift (validate_owned_group identity members)) (\<lambda>_.
                   terminate_group os identity polls)))
             | Inl e \<Rightarrow>
                 if ie_kind e = NotFoundKind
                 then io_bind (io_call (os_try_wait os)) (\<lambda>status.
                        case status of
                          Some exit \<Rightarrow> reap_exited os identity exit
                        | None \<Rightarrow>
                            io_bind (wait_for_group_death os (pi_pgid identity) polls None) (\<lambda>dead.
                              case dead of
                                Some exit \<Rightarrow> io_lift (Inr (AlreadyExited exit))
                              | None \<Rightarrow> io_lift (Inl e)))
                 else io_lift (Inl e)"
    have fails: "emits (?other r) {[]}" if "r \<noteq> Inr identity" for r
    proof (cases r)
      case (Inl e)
      then show ?thesis
        by (auto intro!: emits_bind emits_call emits_lift' emits_reap emits_wait split: option.splits)
    next
      case (Inr observed)
      then have "validate_same_identity identity observed = Inl (io_other ''process identity changed; refusing to signal'')"
        using that by (auto simp: validate_same_identity_def)
      then show ?thesis using Inr by (auto simp: emits_def io_bind_def io_lift_def)
    qed
    have "emits (io_match (observe_process os child_id) ?other) {[]}"
      unfolding emits_def
    proof
      fix st
      obtain r st' where o1: "observe_process os child_id st = (r, st')" by (cases "observe_process os child_id st")
      have "r \<noteq> Inr identity"
        using o1 assms [of child_id "fst st"]
        by (auto simp: observe_process_def io_lift_def io_call_def split: if_splits prod.splits)
      moreover have "snd st' = snd st"
        by (rule emits_silentD [OF emits_observe o1])
      ultimately show "\<exists>l\<in>{[]}. snd (snd (io_match (observe_process os child_id) ?other st)) = snd st @ l"
        using o1 fails [of r] by (cases st') (auto simp: io_match_def emits_def)
    qed
    then show "emits (case status of Some exit \<Rightarrow> reap_exited os identity exit
       | None \<Rightarrow> io_bind (io_lift (validate_spawn_identity child_id identity)) (\<lambda>_.
           io_match (observe_process os child_id) ?other)) {[]}"
      by (auto intro!: emits_bind emits_lift' emits_reap split: option.splits)
  qed
  then show ?thesis by (auto simp: emits_def)
qed

definition demo_os :: "'w os" where
  "demo_os = \<lparr>os_try_wait = (\<lambda>s. (Inr None, s)),
     os_observe = (\<lambda>p s. (Inr \<lparr>pi_pid = p, pi_pgid = p, pi_uid = 0, pi_start_token = ''linux:2''\<rparr>, s)),
     os_members = (\<lambda>g s. (Inr [], s)), os_kill = (\<lambda>t n s. (Inr (), s)), os_is_esrch = (\<lambda>e. False)\<rparr>"

theorem no_signal_without_identity_witness:
  "snd (snd (perform_stop demo_os (Some 7) \<lparr>pi_pid = 7, pi_pgid = 7, pi_uid = 0, pi_start_token = ''linux:1''\<rparr> 3 ((), [])))
     = []"
  by (rule no_signal_without_identity) (simp add: demo_os_def)

end
