(* ===== verification/Paths.thy ===== *)
theory Paths
  imports Prelude
begin

text \<open>
  The part of \<^verbatim>\<open>std::path\<close> the policy relies on, for Unix paths: the components of a path
  (repeated separators and inner or trailing \<^verbatim>\<open>.\<close> components are dropped), and comparison,
  prefix test, joining and splitting, which Rust defines on components. A path is its bytes;
  a path the library returns (a parent, the rest after a prefix) is written without
  redundant separators.

  A file system is the record \<open>file_system\<close> of the answers it gives: these are not code of
  the repository, and the theorems hold for every such record.
\<close>

datatype component = RootDir | CurDir | ParentDir | Normal string

fun as_os_str :: "component \<Rightarrow> string" where
  "as_os_str RootDir = ''/''"
| "as_os_str CurDir = ''.''"
| "as_os_str ParentDir = ''..''"
| "as_os_str (Normal s) = s"

definition body_component :: "string \<Rightarrow> component option" where
  "body_component p = (if p = [] \<or> p = ''.'' then None
                       else Some (if p = ''..'' then ParentDir else Normal p))"

definition body_components :: "string \<Rightarrow> component list" where
  "body_components s = List.map_filter body_component (split_on CHR ''/'' s)"

definition is_absolute :: "string \<Rightarrow> bool" where
  "is_absolute p \<longleftrightarrow> starts_with ''/'' p"

definition components :: "string \<Rightarrow> component list" where
  "components p =
     (if is_absolute p then RootDir # body_components (tl p)
      else (if hd (split_on CHR ''/'' p) = ''.'' then [CurDir] else []) @ body_components p)"

definition path_eq :: "string \<Rightarrow> string \<Rightarrow> bool" where
  "path_eq a b \<longleftrightarrow> components a = components b"

definition path_starts_with :: "string \<Rightarrow> string \<Rightarrow> bool" where
  "path_starts_with base p \<longleftrightarrow> prefix (components base) (components p)"

fun join_with :: "char \<Rightarrow> string list \<Rightarrow> string" where
  "join_with d [] = []"
| "join_with d [p] = p"
| "join_with d (p # q # ps) = p @ d # join_with d (q # ps)"

definition render :: "component list \<Rightarrow> string" where
  "render cs = (case cs of RootDir # rest \<Rightarrow> CHR ''/'' # join_with CHR ''/'' (map as_os_str rest)
                         | _ \<Rightarrow> join_with CHR ''/'' (map as_os_str cs))"

definition path_strip_prefix :: "string \<Rightarrow> string \<Rightarrow> string option" where
  "path_strip_prefix base p = (if path_starts_with base p
     then Some (render (drop (length (components base)) (components p))) else None)"

definition path_join :: "string \<Rightarrow> string \<Rightarrow> string" where
  "path_join a b = (if is_absolute b \<or> a = [] then b
                    else if last a = CHR ''/'' then a @ b else a @ CHR ''/'' # b)"

definition path_parent :: "string \<Rightarrow> string option" where
  "path_parent p = (let cs = components p
     in if cs = [] \<or> last cs = RootDir then None else Some (render (butlast cs)))"

definition file_name :: "string \<Rightarrow> string option" where
  "file_name p = (let cs = components p
     in if cs = [] then None else case last cs of Normal s \<Rightarrow> Some s | _ \<Rightarrow> None)"

definition has_parent_dir :: "string \<Rightarrow> bool" where
  "has_parent_dir p \<longleftrightarrow> ParentDir \<in> set (components p)"

datatype entry_lookup = EntryFound | EntryNotFound | EntryError

record file_system =
  fs_canonicalize :: "string \<Rightarrow> string option"
  fs_symlink_metadata :: "string \<Rightarrow> entry_lookup"
  fs_is_dir :: "string \<Rightarrow> bool"
  fs_is_file :: "string \<Rightarrow> bool"

section \<open>Components and their rendering\<close>

definition body_ok :: "component \<Rightarrow> bool" where
  "body_ok c \<longleftrightarrow> body_component (as_os_str c) = Some c \<and> CHR ''/'' \<notin> set (as_os_str c)"

lemma split_on_join_with:
  "ps \<noteq> [] \<Longrightarrow> list_all (\<lambda>p. d \<notin> set p) ps \<Longrightarrow> split_on d (join_with d ps) = ps"
proof (induction d ps rule: join_with.induct)
  case (2 d p)
  then show ?case by (induction p) auto
next
  case (3 d p q ps)
  have "split_on d (p @ d # s) = p # split_on d s" if "d \<notin> set p" for s
    using that by (induction p) auto
  with 3 show ?case by auto
qed simp

lemma body_components_ok: "list_all body_ok (body_components s)"
proof -
  have "body_ok c" if "p \<in> set (split_on CHR ''/'' s)" "body_component p = Some c" for p c
    using that split_on_pieces [OF that(1)]
    by (auto simp: body_ok_def body_component_def split: if_splits)
  then show ?thesis
    by (auto simp: body_components_def list_all_iff map_filter_def)
qed

lemma body_components_render:
  assumes "list_all body_ok cs"
  shows "body_components (join_with CHR ''/'' (map as_os_str cs)) = cs"
proof (cases "cs = []")
  case False
  have "list_all (\<lambda>p. CHR ''/'' \<notin> set p) (map as_os_str cs)"
    using assms by (auto simp: list_all_iff body_ok_def)
  moreover have "List.map_filter body_component (map as_os_str cs) = cs"
    using assms by (induction cs) (auto simp: body_ok_def map_filter_simps)
  ultimately show ?thesis
    using False by (simp add: body_components_def split_on_join_with)
qed (simp add: body_components_def body_component_def map_filter_simps)

lemma join_with_head:
  assumes "ps \<noteq> []" and "hd ps \<noteq> []"
  shows "join_with d ps \<noteq> [] \<and> hd (join_with d ps) = hd (hd ps)"
  using assms by (cases ps rule: list.exhaust; cases "tl ps") auto

lemma body_ok_head:
  assumes "body_ok c"
  shows "as_os_str c \<noteq> []" and "hd (as_os_str c) \<noteq> CHR ''/''" and "as_os_str c \<noteq> ''.''"
proof -
  show ne: "as_os_str c \<noteq> []" and "as_os_str c \<noteq> ''.''"
    using assms by (auto simp: body_ok_def body_component_def split: if_splits)
  show "hd (as_os_str c) \<noteq> CHR ''/''"
    using assms hd_in_set [OF ne] by (metis body_ok_def)
qed

text \<open>A component list as a path has it: a root or a leading dot only at the front.\<close>

definition comps_ok :: "component list \<Rightarrow> bool" where
  "comps_ok cs \<longleftrightarrow> list_all body_ok (if cs \<noteq> [] \<and> hd cs \<in> {RootDir, CurDir} then tl cs else cs)"

lemma components_ok: "comps_ok (components p)"
  using body_components_ok [of p] body_components_ok [of "tl p"]
  by (cases "body_components p") (auto simp: comps_ok_def components_def body_ok_def)

lemma is_absolute_Cons [simp]: "is_absolute (c # s) \<longleftrightarrow> c = CHR ''/''" "\<not> is_absolute []"
  by (auto simp: is_absolute_def starts_with_def)

lemma render_relative:
  assumes "list_all body_ok cs"
  shows "components (join_with CHR ''/'' (map as_os_str cs)) = cs"
proof (cases cs)
  case Nil
  then show ?thesis
    by (simp add: components_def body_components_def body_component_def map_filter_simps)
next
  case (Cons c rest)
  have c: "as_os_str c \<noteq> []" "hd (as_os_str c) \<noteq> CHR ''/''" "as_os_str c \<noteq> ''.''"
    using assms Cons body_ok_head by auto
  have "\<not> is_absolute (join_with CHR ''/'' (map as_os_str cs))"
    using join_with_head [of "map as_os_str cs" "CHR ''/''"] c Cons
    by (cases "join_with CHR ''/'' (map as_os_str cs)") auto
  moreover have "split_on CHR ''/'' (join_with CHR ''/'' (map as_os_str cs)) = map as_os_str cs"
    using assms Cons by (intro split_on_join_with) (auto simp: list_all_iff body_ok_def)
  ultimately show ?thesis
    using c(3) Cons body_components_render [OF assms] by (simp add: components_def)
qed

lemma components_render:
  assumes "comps_ok cs"
  shows "components (render cs) = cs"
proof -
  consider rest where "cs = RootDir # rest" | rest where "cs = CurDir # rest" | "cs = [] \<or> hd cs \<notin> {RootDir, CurDir}"
    by (cases cs) auto
  then show ?thesis
  proof cases
    case (1 rest)
    then have "list_all body_ok rest" using assms by (simp add: comps_ok_def)
    then show ?thesis
      using body_components_render [of rest] 1 by (simp add: components_def render_def)
  next
    case (2 rest)
    then have r: "list_all body_ok rest" using assms by (simp add: comps_ok_def)
    have sp: "split_on CHR ''/'' (join_with CHR ''/'' (map as_os_str (CurDir # rest))) = map as_os_str (CurDir # rest)"
      using r by (intro split_on_join_with) (auto simp: list_all_iff body_ok_def)
    have "List.map_filter body_component (map as_os_str rest) = rest"
      using r by (induction rest) (auto simp: body_ok_def map_filter_simps)
    then have "body_components (render cs) = rest"
      using sp 2 by (simp add: body_components_def render_def body_component_def map_filter_simps)
    moreover have "\<not> is_absolute (render cs)"
      using 2 by (cases rest) (auto simp: render_def)
    ultimately show ?thesis
      using sp 2 by (simp add: components_def render_def)
  next
    case 3
    then have "list_all body_ok cs" "render cs = join_with CHR ''/'' (map as_os_str cs)"
      using assms by (auto simp: comps_ok_def render_def split: list.splits component.splits)
    then show ?thesis by (simp add: render_relative)
  qed
qed

lemma comps_ok_butlast: "comps_ok cs \<Longrightarrow> comps_ok (butlast cs)"
proof (cases cs)
  case (Cons c rest)
  assume "comps_ok cs"
  then show ?thesis
    using Cons by (cases rest) (auto simp: comps_ok_def list_all_iff dest: in_set_butlastD split: if_splits)
qed simp

lemma path_parent_components:
  "path_parent p = Some q \<Longrightarrow> components q = butlast (components p) \<and> components p \<noteq> []"
  by (auto simp: path_parent_def Let_def components_render comps_ok_butlast components_ok split: if_splits)

lemma path_starts_with_refl [simp]: "path_starts_with p p"
  by (simp add: path_starts_with_def)

lemma path_starts_with_trans:
  "path_starts_with a b \<Longrightarrow> path_starts_with b c \<Longrightarrow> path_starts_with a c"
  by (auto simp: path_starts_with_def)

end
