(* ===== verification/Policy_Shell.thy ===== *)
theory Policy_Shell
  imports Paths Json
begin

text \<open>
  The grammar of the read-only shell of \<^verbatim>\<open>crates/zcode-agent-preparation/src/policy.rs\<close>: the
  tokenizer for one simple command, the names that are treated as credentials or as agent
  metadata, the option grammars of the allowed programs (which arguments they take as paths)
  and of the allowed git subcommands. Loops over an argument vector with an index are
  recursions over its rest; \<open>None\<close> is the source's \<^verbatim>\<open>None\<close>.
\<close>

section \<open>Names that are never touched\<close>

definition credential_names :: "string list" where
  "credential_names = [''.ssh'', ''.git'', ''.env'', ''.env.local'', ''.env.production'', ''.aws'',
     ''.gnupg'', ''.netrc'', ''.npmrc'', ''credentials'', ''credentials.json'', ''auth.json'',
     ''id_rsa'', ''id_ed25519'', ''known_hosts'', ''authorized_keys'']"

definition credential_component :: "string \<Rightarrow> bool" where
  "credential_component v \<longleftrightarrow>
     v \<in> set credential_names
     \<or> contains_str ''access_token'' v \<or> contains_str ''api_key'' v \<or> contains_str ''secret_key'' v
     \<or> ends_with ''.pem'' v \<or> ends_with ''.key'' v \<or> ends_with ''.p12'' v
     \<or> ends_with ''.pfx'' v \<or> ends_with ''.jks'' v \<or> ends_with ''.kdbx'' v"

definition is_credential_path :: "string \<Rightarrow> bool" where
  "is_credential_path path \<longleftrightarrow>
     list_ex (\<lambda>c. credential_component (to_ascii_lowercase (as_os_str c))) (components path)"

definition is_agent_metadata_path :: "string \<Rightarrow> bool" where
  "is_agent_metadata_path path \<longleftrightarrow>
     ''.agent-work'' \<in> set (split_on CHR ''/''
        (to_ascii_lowercase (map (\<lambda>c. if c = CHR 0x5C then CHR ''/'' else c) path)))"

section \<open>One simple command\<close>

definition AGENT_BASH_COMMAND_FAMILIES :: "string list" where
  "AGENT_BASH_COMMAND_FAMILIES = [''pwd'', ''ls'', ''stat'', ''wc'', ''head'', ''tail'', ''cat'',
     ''grep'', ''rg'', ''sed'', ''find'', ''git'', ''shasum'', ''cksum'']"

definition agent_bash_program_allowed :: "string \<Rightarrow> bool" where
  "agent_bash_program_allowed program \<longleftrightarrow> program \<in> set AGENT_BASH_COMMAND_FAMILIES"

definition single_quote :: char where "single_quote = CHR 0x27"

definition double_quote :: char where "double_quote = CHR 0x22"

definition shell_metacharacters :: string where
  "shell_metacharacters = '';&|><$'' @ [CHR 0x60] @ ''(){}*?[]#!'' @ [CHR 0x5C]"

text \<open>
  The loop over \<^verbatim>\<open>command.chars()\<close>: the open quote, the word being read and the words read so
  far. A word that is empty when it ends, also an empty pair of quotes, is dropped.
\<close>

fun tokenize_chars :: "string list \<Rightarrow> string option \<Rightarrow> string \<Rightarrow> string list \<Rightarrow> string list option" where
  "tokenize_chars [] quote current result =
     (if quote \<noteq> None then None
      else Some (if current \<noteq> [] then result @ [current] else result))"
| "tokenize_chars (ch # chs) (Some delimiter) current result =
     (if ch = delimiter then tokenize_chars chs None current result
      else tokenize_chars chs (Some delimiter) (current @ ch) result)"
| "tokenize_chars (ch # chs) None current result =
     (if ch = [single_quote] \<or> ch = [double_quote] then tokenize_chars chs (Some ch) current result
      else if is_whitespace ch
           then tokenize_chars chs None [] (if current \<noteq> [] then result @ [current] else result)
      else if ch \<in> (\<lambda>c. [c]) ` set shell_metacharacters then None
      else tokenize_chars chs None (current @ ch) result)"

definition MAX_COMMAND_BYTES :: nat where "MAX_COMMAND_BYTES = 16384"

definition tokenize_agent_bash :: "string \<Rightarrow> string list option" where
  "tokenize_agent_bash command =
     (if command = [] \<or> length command > MAX_COMMAND_BYTES \<or> CHR 0x0A \<in> set command \<or> CHR 0x0D \<in> set command
      then None
      else case tokenize_chars (utf8_chars command) None [] [] of
             None \<Rightarrow> None
           | Some result \<Rightarrow> if length result > 128 \<or> result = [] then None else Some result)"

section \<open>Path operands of the allowed programs\<close>

definition inline_option :: "string list \<Rightarrow> string \<Rightarrow> bool" where
  "inline_option options arg \<longleftrightarrow> list_ex (\<lambda>opt. starts_with (opt @ ''='') arg) options"

fun simple_operands_from ::
    "string list \<Rightarrow> string list \<Rightarrow> bool \<Rightarrow> string list \<Rightarrow> string list \<Rightarrow> string list option" where
  "simple_operands_from bools vals ended paths [] = Some paths"
| "simple_operands_from bools vals ended paths (arg # rest) =
     (if arg = ''-'' then None
      else if \<not> ended \<and> arg = ''--'' then simple_operands_from bools vals True paths rest
      else if \<not> ended \<and> (arg \<in> set bools \<or> inline_option vals arg)
           then simple_operands_from bools vals ended paths rest
      else if \<not> ended \<and> arg \<in> set vals
           then (case rest of [] \<Rightarrow> None | _ # rest' \<Rightarrow> simple_operands_from bools vals ended paths rest')
      else if \<not> ended \<and> starts_with ''-'' arg then None
      else simple_operands_from bools vals ended (paths @ [arg]) rest)"

definition simple_path_operands :: "string list \<Rightarrow> string list \<Rightarrow> string list \<Rightarrow> string list option" where
  "simple_path_operands args bools vals = simple_operands_from bools vals False [] args"

definition required_path_operands :: "string list \<Rightarrow> string list \<Rightarrow> string list \<Rightarrow> string list option" where
  "required_path_operands args bools vals =
     Option.bind (simple_path_operands args bools vals) (\<lambda>paths. if paths \<noteq> [] then Some paths else None)"

definition count_option :: "string \<Rightarrow> bool" where
  "count_option arg \<longleftrightarrow>
     (case strip_prefix ''-'' arg of None \<Rightarrow> False | Some v \<Rightarrow> v \<noteq> [] \<and> list_all is_ascii_digit v)
     \<or> inline_option [''-n'', ''--lines'', ''-c'', ''--bytes''] arg"

fun head_tail_from :: "string \<Rightarrow> bool \<Rightarrow> string list \<Rightarrow> string list \<Rightarrow> string list option" where
  "head_tail_from program ended paths [] = (if paths \<noteq> [] then Some paths else None)"
| "head_tail_from program ended paths (arg # rest) =
     (if \<not> ended \<and> arg = ''--'' then head_tail_from program True paths rest
      else if \<not> ended \<and> arg \<in> {''-q'', ''-v'', ''--quiet'', ''--silent'', ''--verbose''}
           then head_tail_from program ended paths rest
      else if \<not> ended \<and> program = ''tail'' \<and> arg \<in> {''-f'', ''-F'', ''--follow'', ''--retry''} then None
      else if \<not> ended \<and> count_option arg then head_tail_from program ended paths rest
      else if \<not> ended \<and> arg \<in> {''-n'', ''--lines'', ''-c'', ''--bytes''}
           then (case rest of [] \<Rightarrow> None | _ # rest' \<Rightarrow> head_tail_from program ended paths rest')
      else if \<not> ended \<and> starts_with ''-'' arg then None
      else head_tail_from program ended (paths @ [arg]) rest)"

definition head_tail_path_operands :: "string \<Rightarrow> string list \<Rightarrow> string list option" where
  "head_tail_path_operands program args = head_tail_from program False [] args"

subsection \<open>grep and ripgrep\<close>

definition rg_boolean_long :: "string list" where
  "rg_boolean_long = [
     ''--line-number'', ''--with-filename'', ''--no-filename'', ''--ignore-case'',
     ''--case-sensitive'', ''--smart-case'', ''--fixed-strings'', ''--files'',
     ''--files-with-matches'', ''--files-without-match'', ''--count'', ''--count-matches'',
     ''--only-matching'', ''--word-regexp'', ''--line-regexp'', ''--json'', ''--stats'',
     ''--heading'', ''--no-heading'', ''--column'', ''--pcre2'', ''--color=never'']"

definition grep_boolean_long :: "string list" where
  "grep_boolean_long = [
     ''--with-filename'', ''--no-filename'', ''--ignore-case'', ''--no-messages'',
     ''--invert-match'', ''--line-number'', ''--files-with-matches'',
     ''--files-without-match'', ''--count'', ''--only-matching'', ''--word-regexp'',
     ''--line-regexp'', ''--fixed-strings'', ''--extended-regexp'', ''--perl-regexp'',
     ''--binary-files=without-match'', ''--binary-files=text'', ''--color=never'']"

definition rg_value_long :: "string list" where
  "rg_value_long = [
     ''--regexp'', ''--glob'', ''--type'', ''--type-not'', ''--max-count'',
     ''--after-context'', ''--before-context'', ''--context'', ''--file'', ''--ignore-file'',
     ''--encoding'', ''--sort'', ''--sortr'']"

definition grep_value_long :: "string list" where
  "grep_value_long = [
     ''--regexp'', ''--file'', ''--max-count'', ''--after-context'', ''--before-context'',
     ''--context'', ''--include'', ''--exclude'', ''--exclude-dir'', ''--exclude-from'',
     ''--directories'', ''--devices'']"

definition rg_refused :: "string list" where
  "rg_refused = [''--pre'', ''--pre-glob'', ''--hostname-bin'', ''--search-zip'', ''--follow'']"

record grep_state =
  gs_paths :: "string list"
  gs_pattern_specified :: bool
  gs_files_mode :: bool
  gs_options_ended :: bool

definition boolean_short :: "bool \<Rightarrow> string" where
  "boolean_short ripgrep = (if ripgrep then ''nHhIiSsFUlcvqwo'' else ''HhIiLnqsvEFPowx'')"

definition value_short :: "bool \<Rightarrow> string" where
  "value_short ripgrep = (if ripgrep then ''egtmABC'' else ''efmABC'')"

definition boolean_long :: "bool \<Rightarrow> string list" where
  "boolean_long ripgrep = (if ripgrep then rg_boolean_long else grep_boolean_long)"

definition value_long :: "bool \<Rightarrow> string list" where
  "value_long ripgrep = (if ripgrep then rg_value_long else grep_value_long)"

definition option_name :: "string \<Rightarrow> string" where
  "option_name arg = (case split_once CHR ''='' arg of None \<Rightarrow> arg | Some (name, _) \<Rightarrow> name)"

text \<open>The state after a value option with the value it takes.\<close>

definition grep_value :: "string \<Rightarrow> string \<Rightarrow> grep_state \<Rightarrow> grep_state" where
  "grep_value opt value st =
     st\<lparr>gs_pattern_specified := (gs_pattern_specified st \<or> opt \<in> {''--regexp'', ''--file''}),
        gs_paths := gs_paths st @ (if opt \<in> {''--file'', ''--ignore-file'', ''--exclude-from''} then [value] else [])\<rparr>"

definition grep_short_value :: "string \<Rightarrow> string \<Rightarrow> grep_state \<Rightarrow> grep_state" where
  "grep_short_value cluster value st =
     st\<lparr>gs_pattern_specified := (gs_pattern_specified st \<or> cluster = ''e'' \<or> cluster = ''f''),
        gs_paths := gs_paths st @ (if cluster = ''f'' then [value] else [])\<rparr>"

fun grep_from :: "bool \<Rightarrow> grep_state \<Rightarrow> string list \<Rightarrow> grep_state option" where
  "grep_from ripgrep st [] = Some st"
| "grep_from ripgrep st (arg # rest) =
     (if \<not> gs_options_ended st \<and> arg = ''--'' then grep_from ripgrep (st\<lparr>gs_options_ended := True\<rparr>) rest
      else if \<not> gs_options_ended st \<and> ripgrep \<and> (arg \<in> set rg_refused \<or> inline_option rg_refused arg) then None
      else if \<not> gs_options_ended st \<and> starts_with ''--'' arg then
        (if arg \<in> set (boolean_long ripgrep)
         then grep_from ripgrep (st\<lparr>gs_files_mode := (gs_files_mode st \<or> arg = ''--files'')\<rparr>) rest
         else if option_name arg \<notin> set (value_long ripgrep) then None
         else (case split_once CHR ''='' arg of
                 Some (name, value) \<Rightarrow> grep_from ripgrep (grep_value name value st) rest
               | None \<Rightarrow> (case rest of [] \<Rightarrow> None
                          | value # rest' \<Rightarrow> grep_from ripgrep (grep_value arg value st) rest')))
      else if \<not> gs_options_ended st \<and> arg = ''-'' then grep_from ripgrep (st\<lparr>gs_paths := gs_paths st @ [arg]\<rparr>) rest
      else if \<not> gs_options_ended st \<and> starts_with ''-'' arg then
        (if length (tl arg) = 1 \<and> contains_str (tl arg) (value_short ripgrep)
         then (case rest of [] \<Rightarrow> None
               | value # rest' \<Rightarrow> grep_from ripgrep (grep_short_value (tl arg) value st) rest')
         else if \<not> list_all (\<lambda>c. c \<in> set (boolean_short ripgrep)) (tl arg) then None
         else grep_from ripgrep st rest)
      else if gs_files_mode st \<or> gs_pattern_specified st
           then grep_from ripgrep (st\<lparr>gs_paths := gs_paths st @ [arg]\<rparr>) rest
      else grep_from ripgrep (st\<lparr>gs_pattern_specified := True\<rparr>) rest)"

definition grep_like_path_operands :: "string list \<Rightarrow> bool \<Rightarrow> string list option" where
  "grep_like_path_operands args ripgrep =
     (case grep_from ripgrep \<lparr>gs_paths = [], gs_pattern_specified = False, gs_files_mode = False,
                              gs_options_ended = False\<rparr> args of
        None \<Rightarrow> None
      | Some st \<Rightarrow> if (\<not> gs_files_mode st \<and> \<not> gs_pattern_specified st) \<or> (\<not> ripgrep \<and> gs_paths st = [])
                   then None else Some (gs_paths st))"

subsection \<open>sed and find\<close>

definition valid_number :: "string \<Rightarrow> bool" where
  "valid_number v \<longleftrightarrow> v \<noteq> [] \<and> list_all is_ascii_digit v
     \<and> (case parse_uint u64_max v of None \<Rightarrow> False | Some n \<Rightarrow> n \<le> 10000)"

definition valid_sed_range :: "string \<Rightarrow> bool" where
  "valid_sed_range rng =
     (let body = (if rng \<noteq> [] \<and> last rng = CHR ''p'' then butlast rng else [])
      in case split_on CHR '','' body of
           [first] \<Rightarrow> valid_number first
         | [first, second] \<Rightarrow> valid_number first \<and> valid_number second
         | _ \<Rightarrow> False)"

definition valid_agent_sed :: "string list \<Rightarrow> bool" where
  "valid_agent_sed args =
     (case args of
        flag # rng # file # files \<Rightarrow>
          flag = ''-n'' \<and> valid_sed_range rng \<and> list_all (\<lambda>arg. \<not> starts_with ''-'' arg) (file # files)
      | _ \<Rightarrow> False)"

fun find_tests_from :: "string list \<Rightarrow> string list \<Rightarrow> string list option" where
  "find_tests_from paths [] = Some paths"
| "find_tests_from paths (arg # rest) =
     (if arg \<in> {''-L'', ''-H'', ''-delete'', ''-exec'', ''-execdir'', ''-ok'', ''-okdir'', ''-prune'', ''-ls'',
                ''-print'', ''-print0'', ''-fprint'', ''-fprint0'', ''-fprintf'', ''-fls'', ''-printf'',
                ''-writable''} then None
      else if arg \<in> {''-maxdepth'', ''-mindepth''} then
        (case rest of [] \<Rightarrow> None
         | value # rest' \<Rightarrow> (case parse_uint 255 value of None \<Rightarrow> None
             | Some n \<Rightarrow> if n > 50 then None else find_tests_from paths rest'))
      else if arg = ''-type'' then
        (case rest of [] \<Rightarrow> None
         | value # rest' \<Rightarrow> if length value \<noteq> 1 \<or> hd value \<notin> set ''fdlpsbc'' then None
                            else find_tests_from paths rest')
      else if arg \<in> {''-name'', ''-iname'', ''-path'', ''-ipath'', ''-size'', ''-mtime'', ''-mmin''} then
        (case rest of [] \<Rightarrow> None
         | value # rest' \<Rightarrow> if value = [] \<or> starts_with ''-'' value then None else find_tests_from paths rest')
      else if arg = ''-newer'' then
        (case rest of [] \<Rightarrow> None
         | value # rest' \<Rightarrow> if value = [] then None else find_tests_from (paths @ [value]) rest')
      else if arg \<in> {''-empty'', ''-readable'', ''-quit''} then find_tests_from paths rest
      else None)"

definition valid_agent_find :: "string list \<Rightarrow> string list option" where
  "valid_agent_find args =
     (let paths = takeWhile (\<lambda>a. \<not> starts_with ''-'' a) args
      in if paths = [] then None
         else find_tests_from paths (dropWhile (\<lambda>a. \<not> starts_with ''-'' a) args))"

section \<open>git\<close>

definition valid_positive_integer :: "string \<Rightarrow> bool" where
  "valid_positive_integer v \<longleftrightarrow> (case parse_uint 4294967295 v of None \<Rightarrow> False | Some n \<Rightarrow> n > 0)"

definition valid_nonnegative_integer :: "string \<Rightarrow> bool" where
  "valid_nonnegative_integer v \<longleftrightarrow> parse_uint 65535 v \<noteq> None"

definition unsafe_agent_git_object_path :: "string \<Rightarrow> bool" where
  "unsafe_agent_git_object_path arg =
     (case split_once CHR '':'' arg of
        None \<Rightarrow> False
      | Some (_, p) \<Rightarrow> p = [] \<or> is_absolute p \<or> has_parent_dir p \<or> is_credential_path p
                        \<or> is_agent_metadata_path p)"

definition safe_agent_git_operand :: "string \<Rightarrow> bool" where
  "safe_agent_git_operand arg \<longleftrightarrow>
     arg \<noteq> [] \<and> \<not> starts_with ''/'' arg \<and> \<not> starts_with ''~'' arg
     \<and> list_all (\<lambda>c. c \<noteq> [] \<and> c \<noteq> ''..'') (split_on CHR ''/'' arg)
     \<and> \<not> is_credential_path arg \<and> \<not> is_agent_metadata_path arg \<and> \<not> unsafe_agent_git_object_path arg"

fun branch_from :: "bool \<Rightarrow> string list \<Rightarrow> bool" where
  "branch_from list_mode [] = True"
| "branch_from list_mode (arg # rest) =
     (if arg = ''--list'' then branch_from True rest
      else if arg \<in> {''--all'', ''--remotes'', ''--verbose'', ''-a'', ''-r'', ''-v'', ''-vv''} then branch_from list_mode rest
      else if starts_with ''-'' arg then False
      else if list_mode then branch_from list_mode rest
      else False)"

definition valid_agent_git_branch :: "string list \<Rightarrow> bool" where
  "valid_agent_git_branch args \<longleftrightarrow> args = [] \<or> args = [''--show-current''] \<or> branch_from False args"

definition git_status_flags :: "string list" where
  "git_status_flags = [
     ''--short'', ''-s'', ''--branch'', ''-b'', ''--porcelain'', ''--long'',
     ''--no-ahead-behind'', ''--show-stash'', ''--no-renames'']"

definition valid_agent_git_status :: "string list \<Rightarrow> bool" where
  "valid_agent_git_status args = list_all (\<lambda>arg.
     starts_with ''-'' arg
     \<and> (arg \<in> set git_status_flags
        \<or> strip_prefix ''--porcelain='' arg \<in> {Some ''v1'', Some ''v2''}
        \<or> strip_prefix ''--untracked-files='' arg \<in> {Some ''no'', Some ''normal'', Some ''all''})) args"

definition git_diff_flags :: "string list" where
  "git_diff_flags = [
     ''--cached'', ''--staged'', ''--stat'', ''--shortstat'', ''--numstat'', ''--name-only'',
     ''--name-status'', ''--check'', ''--binary'', ''--full-index'', ''--no-color'',
     ''--minimal'', ''--patience'', ''--histogram'', ''--ignore-space-change'',
     ''--ignore-all-space'', ''--ignore-blank-lines'', ''--exit-code'', ''--quiet'',
     ''--find-renames'', ''--find-copies'', ''--relative'', ''--merge-base'', ''--no-renames'',
     ''--word-diff'', ''-p'', ''-s'']"

definition git_log_flags :: "string list" where
  "git_log_flags = [
     ''--oneline'', ''--graph'', ''--all'', ''--branches'', ''--tags'', ''--remotes'',
     ''--reverse'', ''--topo-order'', ''--date-order'', ''--author-date-order'',
     ''--first-parent'', ''--merges'', ''--no-merges'', ''--name-only'', ''--name-status'',
     ''--stat'', ''--shortstat'', ''--numstat'', ''--patch'', ''--no-patch'', ''--decorate'',
     ''--no-decorate'', ''--full-history'', ''--simplify-merges'', ''--dense'', ''--sparse'',
     ''--boundary'', ''--left-right'', ''--cherry-pick'', ''--cherry-mark'',
     ''--ancestry-path'', ''--bisect'', ''-p'']"

definition git_show_flags :: "string list" where
  "git_show_flags = [
     ''--stat'', ''--name-only'', ''--name-status'', ''--no-color'', ''--no-patch'', ''-s'',
     ''--oneline'', ''--decorate'', ''--no-decorate'']"

definition git_diff_value_options :: "string list" where
  "git_diff_value_options = [
     ''--unified'', ''--diff-filter'', ''--submodule'', ''--word-diff'', ''--word-diff-regex'',
     ''--find-renames'', ''--find-copies'', ''--color'', ''--src-prefix'', ''--dst-prefix'',
     ''--line-prefix'', ''--inter-hunk-context'']"

definition git_log_value_options :: "string list" where
  "git_log_value_options = [
     ''--max-count'', ''--skip'', ''--since'', ''--until'', ''--after'', ''--before'',
     ''--author'', ''--committer'', ''--grep'', ''--pretty'', ''--format'', ''--date'',
     ''--decorate'', ''--diff-filter'', ''--unified'', ''--color'']"

definition git_show_value_options :: "string list" where
  "git_show_value_options = [''--format'', ''--pretty'', ''--color'']"

definition git_flags :: "string \<Rightarrow> string list" where
  "git_flags subcommand =
     (if subcommand = ''diff'' then git_diff_flags
      else if subcommand = ''log'' then git_log_flags
      else if subcommand = ''show'' then git_show_flags else [])"

definition git_value_options :: "string \<Rightarrow> string list" where
  "git_value_options subcommand =
     (if subcommand = ''diff'' then git_diff_value_options
      else if subcommand = ''log'' then git_log_value_options
      else if subcommand = ''show'' then git_show_value_options else [])"

definition git_exec_option :: "string \<Rightarrow> bool" where
  "git_exec_option arg \<longleftrightarrow>
     arg \<in> {''--output'', ''--ext-diff'', ''--textconv'', ''--no-index'', ''--show-signature'', ''--exec'', ''--stdin''}
     \<or> inline_option [''--output'', ''--exec'', ''--ext-diff'', ''--textconv'', ''--no-index''] arg"

definition valid_git_value :: "string \<Rightarrow> string \<Rightarrow> bool" where
  "valid_git_value name value \<longleftrightarrow>
     \<not> ((name \<in> {''--max-count'', ''--skip''} \<and> \<not> valid_positive_integer value)
       \<or> (name \<in> {''--unified'', ''--inter-hunk-context''} \<and> \<not> valid_nonnegative_integer value))"

fun diff_like_from :: "string \<Rightarrow> bool \<Rightarrow> string list \<Rightarrow> bool" where
  "diff_like_from subcommand paths_mode [] = True"
| "diff_like_from subcommand paths_mode (arg # rest) =
     (if arg = ''--'' then diff_like_from subcommand True rest
      else if paths_mode then safe_agent_git_operand arg \<and> diff_like_from subcommand paths_mode rest
      else if git_exec_option arg then False
      else if starts_with ''-'' arg then
        (if arg \<in> set (git_flags subcommand) then diff_like_from subcommand paths_mode rest
         else if subcommand = ''log'' \<and> starts_with ''-n'' arg then
           (if drop 2 arg \<noteq> [] then valid_positive_integer (drop 2 arg) \<and> diff_like_from subcommand paths_mode rest
            else (case rest of [] \<Rightarrow> False
                  | value # rest' \<Rightarrow> valid_positive_integer value \<and> diff_like_from subcommand paths_mode rest'))
         else if option_name arg \<notin> set (git_value_options subcommand) then False
         else (case split_once CHR ''='' arg of
                 Some (name, value) \<Rightarrow>
                   value \<noteq> [] \<and> valid_git_value name value \<and> diff_like_from subcommand paths_mode rest
               | None \<Rightarrow> (case rest of [] \<Rightarrow> False
                   | value # rest' \<Rightarrow> \<not> starts_with ''-'' value \<and> value \<noteq> [] \<and> valid_git_value arg value
                                      \<and> diff_like_from subcommand paths_mode rest')))
      else safe_agent_git_operand arg \<and> diff_like_from subcommand paths_mode rest)"

definition valid_agent_git_diff_like :: "string \<Rightarrow> string list \<Rightarrow> bool" where
  "valid_agent_git_diff_like subcommand args = diff_like_from subcommand False args"

definition git_rev_parse_flags :: "string list" where
  "git_rev_parse_flags = [
     ''--verify'', ''--quiet'', ''-q'', ''--show-toplevel'', ''--show-prefix'',
     ''--is-inside-work-tree'', ''--is-bare-repository'', ''--is-shallow-repository'',
     ''--show-object-format'']"

definition valid_agent_git_rev_parse :: "string list \<Rightarrow> bool" where
  "valid_agent_git_rev_parse args \<longleftrightarrow> args \<noteq> [] \<and> list_all (\<lambda>arg.
     if starts_with ''-'' arg
     then arg \<in> set git_rev_parse_flags
          \<or> (case strip_prefix ''--short='' arg of None \<Rightarrow> False | Some v \<Rightarrow> list_all is_ascii_digit v)
          \<or> arg = ''--short''
     else safe_agent_git_operand arg) args"

definition valid_agent_git_cat_file :: "string list \<Rightarrow> bool" where
  "valid_agent_git_cat_file args =
     (case args of [flag, operand] \<Rightarrow> flag \<in> {''-e'', ''-p'', ''-t'', ''-s''} \<and> safe_agent_git_operand operand
                 | _ \<Rightarrow> False)"

definition git_ls_files_flags :: "string list" where
  "git_ls_files_flags = [
     ''--cached'', ''--deleted'', ''--modified'', ''--others'', ''--ignored'', ''--stage'',
     ''--unmerged'', ''--killed'', ''--directory'', ''--empty-directory'', ''--full-name'',
     ''--error-unmatch'', ''--deduplicate'', ''-c'', ''-d'', ''-m'', ''-o'', ''-i'', ''-u'',
     ''-s'', ''-t'', ''-k'']"

fun ls_files_from :: "bool \<Rightarrow> string list \<Rightarrow> bool" where
  "ls_files_from paths_mode [] = True"
| "ls_files_from paths_mode (arg # rest) =
     (if arg = ''--'' then ls_files_from True rest
      else if paths_mode then safe_agent_git_operand arg \<and> ls_files_from paths_mode rest
      else arg \<in> set git_ls_files_flags \<and> ls_files_from paths_mode rest)"

definition valid_agent_git_ls_files :: "string list \<Rightarrow> bool" where
  "valid_agent_git_ls_files args = ls_files_from False args"

definition valid_agent_git :: "string list \<Rightarrow> bool" where
  "valid_agent_git args =
     (case (if args \<noteq> [] \<and> hd args = ''--no-pager'' then tl args else args) of
        [] \<Rightarrow> False
      | subcommand # sub_args \<Rightarrow>
          if subcommand = ''status'' then valid_agent_git_status sub_args
          else if subcommand \<in> {''diff'', ''show'', ''log''} then valid_agent_git_diff_like subcommand sub_args
          else if subcommand = ''rev-parse'' then valid_agent_git_rev_parse sub_args
          else if subcommand = ''cat-file'' then valid_agent_git_cat_file sub_args
          else if subcommand = ''ls-files'' then valid_agent_git_ls_files sub_args
          else if subcommand = ''branch'' then valid_agent_git_branch sub_args
          else False)"

definition git_path_operands :: "string list \<Rightarrow> string list option" where
  "git_path_operands args =
     (let command_index = (if ''--no-pager'' \<in> set args then 1 else 0)
      in if command_index < length args
         then Some (tl (dropWhile (\<lambda>a. a \<noteq> ''--'') (drop (command_index + 1) args)))
         else None)"

section \<open>Which arguments are paths\<close>

definition ls_flags :: "string list" where
  "ls_flags = [
     ''-a'', ''-A'', ''-l'', ''-d'', ''-h'', ''-n'', ''-i'', ''-1'', ''-G'', ''--all'',
     ''--almost-all'', ''--directory'', ''--human-readable'', ''--inode'',
     ''--numeric-uid-gid'', ''--color=never'', ''--group-directories-first'']"

definition stat_flags :: "string list" where
  "stat_flags = [
     ''-L'', ''-x'', ''--dereference'', ''--file-system'', ''--terse'']"

definition wc_flags :: "string list" where
  "wc_flags = [
     ''-c'', ''-l'', ''-m'', ''-w'', ''-L'', ''--bytes'', ''--chars'', ''--lines'',
     ''--max-line-length'', ''--words'']"

definition cat_flags :: "string list" where
  "cat_flags = [
     ''-A'', ''-b'', ''-E'', ''-n'', ''-s'', ''-t'', ''-T'', ''-u'', ''-v'', ''--number'',
     ''--number-nonblank'', ''--show-all'', ''--show-ends'', ''--show-tabs'',
     ''--squeeze-blank'']"

definition sum_flags :: "string list" where
  "sum_flags = [
     ''-b'', ''-p'', ''-t'', ''-U'', ''-0'', ''--tag'', ''-l'']"

definition agent_bash_path_operands :: "string \<Rightarrow> string list \<Rightarrow> string list option" where
  "agent_bash_path_operands program args =
     (if program = ''pwd'' then (if list_all (\<lambda>a. a \<in> {''-L'', ''-P''}) args then Some [] else None)
      else if program = ''ls'' then simple_path_operands args ls_flags [''--time-style'']
      else if program = ''stat'' then simple_path_operands args stat_flags [''-f'', ''-c'', ''--format'', ''--printf'']
      else if program = ''wc'' then required_path_operands args wc_flags []
      else if program = ''head'' \<or> program = ''tail'' then head_tail_path_operands program args
      else if program = ''cat'' then required_path_operands args cat_flags []
      else if program = ''grep'' then grep_like_path_operands args False
      else if program = ''rg'' then grep_like_path_operands args True
      else if program = ''sed'' then (if valid_agent_sed args then Some (drop 2 args) else None)
      else if program = ''find'' then valid_agent_find args
      else if program = ''git'' then git_path_operands args
      else if program = ''shasum'' \<or> program = ''cksum''
           then required_path_operands args sum_flags [''-a'', ''--algorithm'', ''--length'']
      else None)"

lemmas shell_simps = tokenize_agent_bash_def agent_bash_program_allowed_def agent_bash_path_operands_def
  required_path_operands_def simple_path_operands_def head_tail_path_operands_def grep_like_path_operands_def

end
