(* ===== verification/Policy.thy ===== *)
theory Policy
  imports Policy_Shell
begin

text \<open>
  The permission decisions of \<^verbatim>\<open>PolicyLauncher\<close> in \<^verbatim>\<open>crates/zcode-agent-preparation/src/policy.rs\<close>:
  building a launcher, deciding a request for a tool (a file operation, a prepared command, a
  shell command of the read-only grammar of \<open>Policy_Shell\<close>) and resolving the path a write
  would really reach. The file system is an argument. A decision of the shell may panic on a
  slice out of range: \<open>None\<close> is that panic.
\<close>

section \<open>Data\<close>

datatype access_mode = ReadOnly | WorkspaceWrite

datatype external_decision = Allow | Deny

text \<open>The errors of \<^verbatim>\<open>lib.rs\<close>; what an I/O or JSON error wraps is left out.\<close>

datatype preparation_error =
    InvalidManifest string
  | InvalidPath string string
  | PathEscape string string
  | SymlinkInput string
  | MissingInput string
  | MutableReference string
  | ForbiddenInput string
  | CredentialInput string
  | GitError string
  | WorktreeError string
  | PolicyError string
  | IdempotencyConflict string
  | IoError
  | JsonError

record prepared_command =
  pc_program :: string
  pc_args :: "string list"
  pc_cwd :: string
  pc_timeout_ms :: nat
  pc_max_output_bytes :: nat
  pc_environment :: "(string \<times> string) list"
  pc_readonly_safe :: bool

datatype permission_request =
    ReadRequest string
  | WriteRequest string
  | EditRequest string
  | DeleteRequest string
  | MoveRequest string string
  | ExecuteRequest string "string list" string
  | NetworkRequest string
  | GitRefMutation
  | CredentialRead string

record permission_decision =
  pd_allowed :: bool
  pd_reason :: string

datatype entry_state = Existing | Missing

record policy_launcher =
  pl_worktree :: string
  pl_scratch_root :: string
  pl_report_target :: string
  pl_readable_inputs :: "string list"
  pl_commands :: "(string \<times> prepared_command) list"
  pl_network_allowed :: bool
  pl_access_mode :: access_mode
  pl_tracked_write_roots :: "string list"

definition deny :: "string \<Rightarrow> permission_decision" where
  "deny reason = \<lparr>pd_allowed = False, pd_reason = reason\<rparr>"

section \<open>Building a launcher\<close>

definition protected_worktree_path :: "string \<Rightarrow> string \<Rightarrow> bool" where
  "protected_worktree_path worktree target =
     (case path_strip_prefix worktree target of
        None \<Rightarrow> False
      | Some relative \<Rightarrow>
          list_ex (\<lambda>c. as_os_str c \<in> {''.git'', ''.agent-work'', ''.gitmodules''}) (components relative))"

definition lexical_confined_path :: "string \<Rightarrow> string \<Rightarrow> preparation_error + string" where
  "lexical_confined_path root value =
     (if is_absolute value \<or> has_parent_dir value
      then Inl (InvalidPath value ''path must be repository-relative and confined'')
      else Inr (path_join root value))"

definition canonical_or_io :: "file_system \<Rightarrow> string \<Rightarrow> preparation_error + string" where
  "canonical_or_io fs p = ok_or IoError (fs_canonicalize fs p)"

definition PolicyLauncher_new ::
    "file_system \<Rightarrow> string \<Rightarrow> string \<Rightarrow> string \<Rightarrow> string list \<Rightarrow> (string \<times> prepared_command) list \<Rightarrow> bool
     \<Rightarrow> preparation_error + policy_launcher" where
  "PolicyLauncher_new fs worktree scratch_root report_target readable_inputs commands network_allowed =
     rbind (canonical_or_io fs worktree) (\<lambda>wt.
     rbind (canonical_or_io fs scratch_root) (\<lambda>scratch.
     rbind (ok_or (InvalidPath report_target ''report target has no parent'') (path_parent report_target)) (\<lambda>parent.
     rbind (canonical_or_io fs parent) (\<lambda>report_parent.
     rbind (ok_or (InvalidPath report_target ''report target has no file name'') (file_name report_target)) (\<lambda>name.
     rbind (collect_results (map (canonical_or_io fs) readable_inputs)) (\<lambda>inputs.
       Inr \<lparr>pl_worktree = wt, pl_scratch_root = scratch, pl_report_target = path_join report_parent name,
            pl_readable_inputs = inputs, pl_commands = commands, pl_network_allowed = network_allowed,
            pl_access_mode = ReadOnly, pl_tracked_write_roots = []\<rparr>))))))"

definition confined_write_root :: "policy_launcher \<Rightarrow> string \<Rightarrow> preparation_error + string" where
  "confined_write_root launcher root =
     rbind (lexical_confined_path (pl_worktree launcher) root) (\<lambda>r.
       if protected_worktree_path (pl_worktree launcher) r
       then Inl (PolicyError ''tracked write root targets protected metadata'') else Inr r)"

definition for_general ::
    "file_system \<Rightarrow> string \<Rightarrow> string \<Rightarrow> string \<Rightarrow> string list \<Rightarrow> (string \<times> prepared_command) list
     \<Rightarrow> access_mode \<Rightarrow> string list \<Rightarrow> preparation_error + policy_launcher" where
  "for_general fs worktree scratch_root artifact_target readable_inputs commands access_mode tracked_write_roots =
     rbind (PolicyLauncher_new fs worktree scratch_root artifact_target readable_inputs commands False) (\<lambda>launcher.
     rbind (if access_mode = WorkspaceWrite
            then collect_results (map (confined_write_root launcher) tracked_write_roots)
            else if tracked_write_roots \<noteq> []
            then Inl (PolicyError ''read-only access cannot define tracked write roots'')
            else Inr tracked_write_roots) (\<lambda>roots.
       Inr (launcher\<lparr>pl_access_mode := access_mode, pl_tracked_write_roots := roots\<rparr>)))"

section \<open>Where a path leads\<close>

definition resolve_job_path :: "policy_launcher \<Rightarrow> string \<Rightarrow> string" where
  "resolve_job_path pl v = (if is_absolute v then v else path_join (pl_worktree pl) v)"

definition is_agent_root :: "policy_launcher \<Rightarrow> string \<Rightarrow> bool" where
  "is_agent_root pl path \<longleftrightarrow> path_starts_with (pl_worktree pl) path
     \<or> list_ex (\<lambda>root. path_starts_with root path) (pl_readable_inputs pl)"

definition enters_agent_metadata :: "policy_launcher \<Rightarrow> string \<Rightarrow> bool" where
  "enters_agent_metadata pl path \<longleftrightarrow>
     list_ex is_agent_metadata_path
       (List.map_filter (\<lambda>root. path_strip_prefix root path) (pl_worktree pl # pl_readable_inputs pl))"

definition resolved_write_denial :: "policy_launcher \<Rightarrow> string \<Rightarrow> string option" where
  "resolved_write_denial pl target =
     (case path_parent (pl_report_target pl) of
        None \<Rightarrow> Some ''write_path_unverifiable''
      | Some report_root \<Rightarrow>
          if path_starts_with (pl_worktree pl) target then
            (if protected_worktree_path (pl_worktree pl) target then Some ''protected_worktree_metadata_denied''
             else case pl_access_mode pl of
               WorkspaceWrite \<Rightarrow> if list_ex (\<lambda>root. path_starts_with root target) (pl_tracked_write_roots pl)
                                 then None else Some ''tracked_path_not_allowlisted''
             | ReadOnly \<Rightarrow> Some ''tracked_writes_denied_for_access_mode'')
          else if path_starts_with report_root target then Some ''daemon_artifact_root_denied''
          else if path_eq target (pl_scratch_root pl) \<or> path_eq target report_root
               \<or> (\<not> path_starts_with (pl_scratch_root pl) target \<and> \<not> path_starts_with report_root target)
          then Some ''write_outside_artifact_roots_denied'' else None)"

definition canonical_parent_entry :: "file_system \<Rightarrow> string \<Rightarrow> string + string" where
  "canonical_parent_entry fs path =
     rbind (ok_or ''write_path_unverifiable'' (path_parent path)) (\<lambda>parent.
     rbind (ok_or ''write_path_unverifiable'' (file_name path)) (\<lambda>name.
     rbind (ok_or ''write_path_unverifiable'' (fs_canonicalize fs parent)) (\<lambda>real_parent.
       if \<not> fs_is_dir fs real_parent then Inl ''write_path_unverifiable'' else Inr (path_join real_parent name))))"

text \<open>The loop walks up to the deepest entry that exists; every step removes a component.\<close>

function resolve_from :: "file_system \<Rightarrow> string \<Rightarrow> string list \<Rightarrow> string option" where
  "resolve_from fs current missing =
     (case fs_symlink_metadata fs current of
        EntryFound \<Rightarrow>
          (case fs_canonicalize fs current of
             None \<Rightarrow> None
           | Some canonical \<Rightarrow> if \<not> fs_is_dir fs canonical then None
                               else Some (foldl path_join canonical (rev missing)))
      | EntryNotFound \<Rightarrow>
          (case file_name current of
             None \<Rightarrow> None
           | Some name \<Rightarrow> (case path_parent current of
                             None \<Rightarrow> None
                           | Some parent \<Rightarrow> resolve_from fs parent (missing @ [name])))
      | EntryError \<Rightarrow> None)"
  by pat_completeness auto
termination
  by (relation "measure (\<lambda>(fs, current, missing). length (components current))")
     (auto dest!: path_parent_components)

declare resolve_from.simps [simp del]

definition resolve_nonexistent_entry :: "file_system \<Rightarrow> string \<Rightarrow> string option" where
  "resolve_nonexistent_entry fs path = resolve_from fs path []"

definition denial_or :: "policy_launcher \<Rightarrow> string \<Rightarrow> entry_state \<Rightarrow> string + entry_state" where
  "denial_or pl candidate state =
     (case resolved_write_denial pl candidate of Some reason \<Rightarrow> Inl reason | None \<Rightarrow> Inr state)"

definition lexical_entry_state :: "file_system \<Rightarrow> policy_launcher \<Rightarrow> string \<Rightarrow> bool \<Rightarrow> string + entry_state" where
  "lexical_entry_state fs pl path must_exist =
     (if \<not> is_absolute path \<or> has_parent_dir path then Inl ''write_path_unverifiable''
      else case resolved_write_denial pl path of
        Some reason \<Rightarrow> Inl reason
      | None \<Rightarrow>
          (case fs_symlink_metadata fs path of
             EntryFound \<Rightarrow> rbind (canonical_parent_entry fs path) (\<lambda>candidate. denial_or pl candidate Existing)
           | EntryNotFound \<Rightarrow>
               if must_exist then Inl ''write_path_unverifiable''
               else (case resolve_nonexistent_entry fs path of
                       None \<Rightarrow> Inl ''write_path_unverifiable''
                     | Some candidate \<Rightarrow> denial_or pl candidate Missing)
           | EntryError \<Rightarrow> Inl ''write_path_unverifiable''))"

definition lexical_entry_denial :: "file_system \<Rightarrow> policy_launcher \<Rightarrow> string \<Rightarrow> bool \<Rightarrow> string option" where
  "lexical_entry_denial fs pl path must_exist =
     (case lexical_entry_state fs pl path must_exist of Inl reason \<Rightarrow> Some reason | Inr _ \<Rightarrow> None)"

definition canonical_write_denial :: "file_system \<Rightarrow> policy_launcher \<Rightarrow> string \<Rightarrow> string option" where
  "canonical_write_denial fs pl path =
     (case fs_canonicalize fs path of
        None \<Rightarrow> Some ''write_path_unverifiable''
      | Some canonical \<Rightarrow> resolved_write_denial pl canonical)"

definition followed_write_denial :: "file_system \<Rightarrow> policy_launcher \<Rightarrow> string \<Rightarrow> bool \<Rightarrow> string option" where
  "followed_write_denial fs pl path must_exist =
     (case lexical_entry_state fs pl path must_exist of
        Inr Existing \<Rightarrow> canonical_write_denial fs pl path
      | Inr Missing \<Rightarrow> None
      | Inl reason \<Rightarrow> Some reason)"

section \<open>Deciding a request\<close>

definition hard_deny_reason :: "file_system \<Rightarrow> policy_launcher \<Rightarrow> permission_request \<Rightarrow> string option" where
  "hard_deny_reason fs pl request =
     (case request of
        NetworkRequest _ \<Rightarrow> if \<not> pl_network_allowed pl then Some ''network_not_enforced_and_request_denied'' else None
      | GitRefMutation \<Rightarrow> Some ''git_ref_mutation_denied''
      | CredentialRead _ \<Rightarrow> Some ''credential_read_denied''
      | ReadRequest path \<Rightarrow>
          if is_credential_path path then Some ''credential_read_denied''
          else (case fs_canonicalize fs path of
                  None \<Rightarrow> Some ''read_path_unverifiable''
                | Some real \<Rightarrow>
                    if enters_agent_metadata pl real then Some ''agent_metadata_read_denied''
                    else if is_agent_root pl real then None
                    else Some ''read_path_escape_denied'')
      | WriteRequest path \<Rightarrow> followed_write_denial fs pl path False
      | EditRequest path \<Rightarrow> followed_write_denial fs pl path True
      | DeleteRequest path \<Rightarrow> lexical_entry_denial fs pl path True
      | MoveRequest source destination \<Rightarrow>
          (case lexical_entry_denial fs pl source True of
             Some reason \<Rightarrow> Some reason
           | None \<Rightarrow> lexical_entry_denial fs pl destination False)
      | ExecuteRequest program args cwd \<Rightarrow>
          if list_ex (\<lambda>(i, c). path_eq (pc_program c) program \<and> pc_args c = args \<and> path_eq (pc_cwd c) cwd)
               (pl_commands pl) then None
          else Some ''command_not_allowlisted'')"

definition decide :: "file_system \<Rightarrow> policy_launcher \<Rightarrow> permission_request \<Rightarrow> external_decision \<Rightarrow> permission_decision" where
  "decide fs pl request external =
     (case hard_deny_reason fs pl request of
        Some reason \<Rightarrow> deny reason
      | None \<Rightarrow> if external = Deny then deny ''external_policy_denied''
                else \<lparr>pd_allowed = True, pd_reason = ''allowed_by_bounded_policy''\<rparr>)"

definition path_confined :: "file_system \<Rightarrow> policy_launcher \<Rightarrow> string \<Rightarrow> bool \<Rightarrow> string \<Rightarrow> bool" where
  "path_confined fs pl cwd require_file arg =
     (if arg = ''-'' \<or> starts_with ''~'' arg \<or> has_parent_dir arg \<or> is_credential_path arg
         \<or> is_agent_metadata_path arg then False
      else case fs_canonicalize fs (if is_absolute arg then arg else path_join cwd arg) of
             None \<Rightarrow> False
           | Some real \<Rightarrow>
               if \<not> is_agent_root pl real \<or> is_credential_path real \<or> enters_agent_metadata pl real then False
               else \<not> require_file \<or> fs_is_file fs real)"

definition agent_paths_confined :: "file_system \<Rightarrow> policy_launcher \<Rightarrow> string list \<Rightarrow> string \<Rightarrow> bool \<Rightarrow> bool" where
  "agent_paths_confined fs pl args cwd require_file = list_all (path_confined fs pl cwd require_file) args"

definition bash_cwd :: "file_system \<Rightarrow> policy_launcher \<Rightarrow> json \<Rightarrow> string option" where
  "bash_cwd fs pl input =
     (case fs_canonicalize fs (case json_get_str ''cwd'' input of None \<Rightarrow> pl_worktree pl | Some c \<Rightarrow> c) of
        None \<Rightarrow> None
      | Some path \<Rightarrow> if is_agent_root pl path then Some path else None)"

definition reads_a_file :: "string \<Rightarrow> bool" where
  "reads_a_file program \<longleftrightarrow> program \<in> {''cat'', ''wc'', ''head'', ''tail'', ''sed'', ''shasum'', ''cksum''}"

definition decide_argv :: "file_system \<Rightarrow> policy_launcher \<Rightarrow> string \<Rightarrow> string list \<Rightarrow> permission_decision option" where
  "decide_argv fs pl cwd argv =
     (let program = (case argv of [] \<Rightarrow> [] | p # _ \<Rightarrow> p); args = tl argv
      in if \<not> agent_bash_program_allowed program then Some (deny ''command_not_allowlisted'')
         else if program = ''sed'' \<and> \<not> valid_agent_sed args then Some (deny ''sed_form_not_bounded'')
         else if program = ''git'' \<and> length argv < 2 then None
         else if program = ''git'' \<and> list_ex (\<lambda>a. is_credential_path a \<or> is_agent_metadata_path a) (drop 2 argv)
              then Some (deny ''git_sensitive_path_denied'')
         else if program = ''git'' \<and> \<not> valid_agent_git args then Some (deny ''git_option_or_mutation_denied'')
         else case agent_bash_path_operands program args of
                None \<Rightarrow> Some (deny ''command_option_not_allowlisted'')
              | Some path_args \<Rightarrow>
                  if ''-'' \<in> set path_args then Some (deny ''stdin_input_denied'')
                  else if \<not> agent_paths_confined fs pl path_args cwd (reads_a_file program)
                       then Some (deny ''path_outside_agent_roots'')
                  else Some \<lparr>pd_allowed = True, pd_reason = ''agent_bash_allowlisted''\<rparr>)"

definition decide_agent_bash ::
    "file_system \<Rightarrow> policy_launcher \<Rightarrow> json \<Rightarrow> external_decision \<Rightarrow> permission_decision option" where
  "decide_agent_bash fs pl input external =
     (if external = Deny then Some (deny ''external_policy_denied'')
      else case json_get_str ''command'' input of
        None \<Rightarrow> Some (deny ''bash_command_missing'')
      | Some command \<Rightarrow>
          (case bash_cwd fs pl input of
             None \<Rightarrow> Some (deny ''cwd_outside_agent_roots'')
           | Some cwd \<Rightarrow>
               (case tokenize_agent_bash command of
                  None \<Rightarrow> Some (deny ''shell_composition_or_expansion_denied'')
                | Some argv \<Rightarrow> decide_argv fs pl cwd argv)))"

definition zcode_file_path :: "json \<Rightarrow> string option" where
  "zcode_file_path input =
     (case (json_get ''file_path'' input, json_get ''path'' input) of
        (Some f, None) \<Rightarrow> json_as_str f
      | (None, Some p) \<Rightarrow> json_as_str p
      | (Some f, Some p) \<Rightarrow>
          (case (json_as_str f, json_as_str p) of
             (Some a, Some b) \<Rightarrow> if a = b then Some a else None
           | _ \<Rightarrow> None)
      | (None, None) \<Rightarrow> None)"

definition execute_request :: "policy_launcher \<Rightarrow> json \<Rightarrow> permission_request option" where
  "execute_request pl input =
     (case (json_get_str ''program'' input,
            Option.bind (Option.bind (json_get ''args'' input) json_as_array) (\<lambda>vs. those (map json_as_str vs)),
            json_get_str ''cwd'' input) of
        (Some program, Some args, Some cwd) \<Rightarrow> Some (ExecuteRequest program args (resolve_job_path pl cwd))
      | _ \<Rightarrow> None)"

definition move_request :: "policy_launcher \<Rightarrow> json \<Rightarrow> permission_request option" where
  "move_request pl input =
     (case (json_get_str ''source'' input, json_get_str ''destination'' input) of
        (Some s, Some d) \<Rightarrow> Some (MoveRequest (resolve_job_path pl s) (resolve_job_path pl d))
      | _ \<Rightarrow> None)"

definition tool_request :: "policy_launcher \<Rightarrow> string \<Rightarrow> json \<Rightarrow> permission_request option" where
  "tool_request pl tool input =
     (let path = map_option (resolve_job_path pl) (zcode_file_path input)
      in if tool = ''read'' then map_option ReadRequest path
         else if tool \<in> {''grep'', ''glob''}
              then map_option (\<lambda>p. ReadRequest (resolve_job_path pl p)) (json_get_str ''path'' input)
         else if tool = ''write'' then map_option WriteRequest path
         else if tool = ''edit'' then map_option EditRequest path
         else if tool = ''delete'' then map_option DeleteRequest path
         else if tool = ''move'' then move_request pl input
         else if tool = ''network'' then map_option NetworkRequest (json_get_str ''target'' input)
         else if tool = ''git_ref_mutation'' then Some GitRefMutation
         else if tool \<in> {''execute'', ''terminal''} then execute_request pl input
         else None)"

definition request_input :: "json \<Rightarrow> json" where
  "request_input params = (case json_get ''input'' params of None \<Rightarrow> JNull | Some i \<Rightarrow> i)"

definition decide_zcode_permission ::
    "file_system \<Rightarrow> policy_launcher \<Rightarrow> json \<Rightarrow> external_decision \<Rightarrow> permission_decision option" where
  "decide_zcode_permission fs pl params external =
     (case json_get_str ''toolName'' params of
        None \<Rightarrow> Some (deny ''permission_tool_missing'')
      | Some tool \<Rightarrow>
          if tool = ''Bash'' then
            (if pl_access_mode pl \<noteq> ReadOnly then Some (deny ''permission_request_unrecognized'')
             else decide_agent_bash fs pl (request_input params) external)
          else Some (case tool_request pl (to_ascii_lowercase tool) (request_input params) of
                       Some request \<Rightarrow> decide fs pl request external
                     | None \<Rightarrow> deny ''permission_request_unrecognized''))"

end
