(* ===== verification/Policy_Props.thy ===== *)
theory Policy_Props
  imports Policy
begin

text \<open>
  What the policy guarantees and where it does not: the targets of file operations, the paths
  of shell commands, the git grammar, the tokenizer, and the commands that escape the checks.
\<close>

section \<open>Writes\<close>

text \<open>Where a launcher lets a resolved path be written.\<close>

definition metadata_names :: "string set" where
  "metadata_names = {''.git'', ''.agent-work'', ''.gitmodules''}"

definition writable :: "policy_launcher \<Rightarrow> string \<Rightarrow> bool" where
  "writable pl t \<longleftrightarrow>
     (if path_starts_with (pl_worktree pl) t
      then pl_access_mode pl = WorkspaceWrite
         \<and> list_ex (\<lambda>root. path_starts_with root t) (pl_tracked_write_roots pl)
         \<and> list_all (\<lambda>c. as_os_str c \<notin> metadata_names) (drop (length (components (pl_worktree pl))) (components t))
      else path_starts_with (pl_scratch_root pl) t \<and> \<not> path_eq t (pl_scratch_root pl)
         \<and> (case path_parent (pl_report_target pl) of None \<Rightarrow> False | Some root \<Rightarrow> \<not> path_starts_with root t))"

text \<open>The entry a path names, and what is reached when its last component is followed.\<close>

definition entry_target :: "file_system \<Rightarrow> string \<Rightarrow> string option" where
  "entry_target fs p =
     (case fs_symlink_metadata fs p of
        EntryFound \<Rightarrow> (case canonical_parent_entry fs p of Inr t \<Rightarrow> Some t | Inl _ \<Rightarrow> None)
      | EntryNotFound \<Rightarrow> resolve_nonexistent_entry fs p
      | EntryError \<Rightarrow> None)"

fun entry_paths :: "permission_request \<Rightarrow> string list" where
  "entry_paths (WriteRequest p) = [p]"
| "entry_paths (EditRequest p) = [p]"
| "entry_paths (DeleteRequest p) = [p]"
| "entry_paths (MoveRequest s d) = [s, d]"
| "entry_paths _ = []"

fun followed_paths :: "permission_request \<Rightarrow> string list" where
  "followed_paths (WriteRequest p) = [p]"
| "followed_paths (EditRequest p) = [p]"
| "followed_paths _ = []"

lemma comps_ok_drop: "comps_ok cs \<Longrightarrow> comps_ok (drop n cs)"
proof (cases n)
  case (Suc m)
  assume "comps_ok cs"
  then have "list_all body_ok (drop n cs)"
    using Suc by (cases cs) (auto simp: comps_ok_def list_all_iff split: if_splits dest: in_set_dropD)
  then show ?thesis
    by (cases "drop n cs") (auto simp: comps_ok_def)
qed simp

lemma protected_worktree_path_iff:
  assumes "path_starts_with wt t"
  shows "protected_worktree_path wt t \<longleftrightarrow>
     \<not> list_all (\<lambda>c. as_os_str c \<notin> metadata_names) (drop (length (components wt)) (components t))"
  using assms
  by (auto simp: protected_worktree_path_def path_strip_prefix_def components_render comps_ok_drop components_ok
      metadata_names_def list_ex_iff list_all_iff)

lemma resolved_write_denial_None:
  "resolved_write_denial pl t = None \<Longrightarrow> writable pl t"
  by (auto simp: resolved_write_denial_def writable_def protected_worktree_path_iff
      split: option.splits if_splits access_mode.splits)

lemma lexical_entry_ok:
  assumes "lexical_entry_state fs pl p must = Inr st"
  shows "\<exists>t. entry_target fs p = Some t \<and> writable pl t"
    and "st = Existing \<longleftrightarrow> fs_symlink_metadata fs p = EntryFound"
  using assms
  by (auto simp: lexical_entry_state_def entry_target_def denial_or_def rbind_Inr
      split: if_splits option.splits entry_lookup.splits dest: resolved_write_denial_None)

lemma followed_write_ok:
  assumes "followed_write_denial fs pl p must = None"
  shows "\<exists>t. entry_target fs p = Some t \<and> writable pl t"
    and "fs_symlink_metadata fs p = EntryFound \<Longrightarrow> \<exists>t. fs_canonicalize fs p = Some t \<and> writable pl t"
proof -
  obtain st where st: "lexical_entry_state fs pl p must = Inr st"
    and ex: "st = Existing \<Longrightarrow> canonical_write_denial fs pl p = None"
    using assms by (auto simp: followed_write_denial_def split: sum.splits entry_state.splits)
  show "\<exists>t. entry_target fs p = Some t \<and> writable pl t"
    by (rule lexical_entry_ok(1) [OF st])
  assume "fs_symlink_metadata fs p = EntryFound"
  then have "canonical_write_denial fs pl p = None"
    using ex lexical_entry_ok(2) [OF st] by simp
  then show "\<exists>t. fs_canonicalize fs p = Some t \<and> writable pl t"
    by (auto simp: canonical_write_denial_def split: option.splits dest: resolved_write_denial_None)
qed

lemma decide_allowed: "pd_allowed (decide fs pl r e) \<longleftrightarrow> hard_deny_reason fs pl r = None \<and> e = Allow"
  by (cases e) (auto simp: decide_def deny_def split: option.splits)

text \<open>
  C11 (safety): writes stay where the launcher allows them. If a request to write, edit, delete
  or move is allowed, every entry it names resolves, through the real parent directory of an
  existing entry or the deepest existing ancestor of a new one, to a writable place. A write or an edit of an
  existing entry follows it, and there the place the entry leads to is writable as well; a deletion or a
  move concerns the named entry itself, a link included, and not what it leads to. A place in the worktree is
  writable only in workspace-write mode, below a tracked root and outside git and agent
  metadata; any other only strictly inside the scratch root and outside the artifact root.
\<close>

theorem writes_are_confined:
  assumes "pd_allowed (decide fs pl request external)"
  shows "list_all (\<lambda>p. \<exists>t. entry_target fs p = Some t \<and> writable pl t) (entry_paths request)
     \<and> list_all (\<lambda>p. fs_symlink_metadata fs p = EntryFound \<longrightarrow> (\<exists>t. fs_canonicalize fs p = Some t \<and> writable pl t))
         (followed_paths request)"
  using assms followed_write_ok
  by (cases request)
     (auto simp: decide_allowed hard_deny_reason_def lexical_entry_denial_def
       split: option.splits sum.splits dest: lexical_entry_ok(1))

definition demo_fs :: file_system where
  "demo_fs = \<lparr>fs_canonicalize = Some, fs_symlink_metadata = \<lambda>_. EntryFound, fs_is_dir = \<lambda>_. True,
              fs_is_file = \<lambda>_. True\<rparr>"

definition demo_launcher :: "access_mode \<Rightarrow> policy_launcher" where
  "demo_launcher mode = \<lparr>pl_worktree = ''/w'', pl_scratch_root = ''/s'', pl_report_target = ''/r/x'',
     pl_readable_inputs = [], pl_commands = [], pl_network_allowed = False, pl_access_mode = mode,
     pl_tracked_write_roots = (if mode = WorkspaceWrite then [''/w/src''] else [])\<rparr>"

lemmas path_eval = components_def body_components_def body_component_def is_absolute_def str_simps
  path_starts_with_def path_eq_def path_parent_def file_name_def path_join_def render_def Let_def
  map_filter_simps path_strip_prefix_def has_parent_dir_def

theorem writes_are_confined_witness:
  "\<exists>t. entry_target demo_fs ''/w/src/a'' = Some t \<and> writable (demo_launcher WorkspaceWrite) t"
proof -
  have "pd_allowed (decide demo_fs (demo_launcher WorkspaceWrite) (EditRequest ''/w/src/a'') Allow)"
    by (simp add: decide_allowed hard_deny_reason_def followed_write_denial_def lexical_entry_state_def
        resolved_write_denial_def canonical_parent_entry_def canonical_write_denial_def denial_or_def
        protected_worktree_path_def demo_fs_def demo_launcher_def path_eval)
  then show ?thesis
    using writes_are_confined [of demo_fs "demo_launcher WorkspaceWrite" "EditRequest ''/w/src/a''" Allow] by simp
qed

section \<open>Reads\<close>

text \<open>
  Reads stay inside the agent's roots. If a read, grep or glob request is allowed,
  the path it names (the two spellings agree when both are given) resolves to a real path
  inside the worktree or a readable input, not inside agent metadata, and no component of the
  path as it was given is a credential name.
\<close>

theorem reads_are_confined:
  assumes "decide_zcode_permission fs pl params external = Some d" and "pd_allowed d"
    and "json_get_str ''toolName'' params = Some tool" and "to_ascii_lowercase tool \<in> {''read'', ''grep'', ''glob''}"
  shows "\<exists>v real. (zcode_file_path (request_input params) = Some v \<or> json_get_str ''path'' (request_input params) = Some v)
     \<and> fs_canonicalize fs (resolve_job_path pl v) = Some real \<and> is_agent_root pl real
     \<and> \<not> enters_agent_metadata pl real \<and> \<not> is_credential_path (resolve_job_path pl v)"
proof -
  have nb: "tool \<noteq> ''Bash''"
    using assms(4) by (auto simp: to_ascii_lowercase_def ascii_lower_char_def)
  then obtain request where rq: "tool_request pl (to_ascii_lowercase tool) (request_input params) = Some request"
    and "pd_allowed (decide fs pl request external)"
    using assms(1-3) by (auto simp: decide_zcode_permission_def deny_def split: option.splits)
  then have hd: "hard_deny_reason fs pl request = None" by (simp add: decide_allowed)
  obtain v where "request = ReadRequest (resolve_job_path pl v)"
      "zcode_file_path (request_input params) = Some v \<or> json_get_str ''path'' (request_input params) = Some v"
    using rq assms(4) by (auto simp: tool_request_def Let_def split: if_splits)
  then show ?thesis
    using hd by (auto simp: hard_deny_reason_def split: if_splits option.splits)
qed

theorem reads_are_confined_witness:
  "\<exists>v real. (zcode_file_path (request_input (JObject [(''toolName'', JString ''read''), (''input'', JObject [(''path'', JString ''a'')])])) = Some v
      \<or> json_get_str ''path'' (request_input (JObject [(''toolName'', JString ''read''), (''input'', JObject [(''path'', JString ''a'')])])) = Some v)
     \<and> fs_canonicalize demo_fs (resolve_job_path (demo_launcher ReadOnly) v) = Some real
     \<and> is_agent_root (demo_launcher ReadOnly) real \<and> \<not> enters_agent_metadata (demo_launcher ReadOnly) real
     \<and> \<not> is_credential_path (resolve_job_path (demo_launcher ReadOnly) v)"
  by (rule reads_are_confined [where external = Allow and tool = "''read''"
        and d = "\<lparr>pd_allowed = True, pd_reason = ''allowed_by_bounded_policy''\<rparr>"])
     (simp_all add: decide_zcode_permission_def tool_request_def request_input_def json_get_str_def zcode_file_path_def
        resolve_job_path_def decide_def hard_deny_reason_def is_credential_path_def credential_component_def
        credential_names_def enters_agent_metadata_def is_agent_metadata_path_def is_agent_root_def
        to_ascii_lowercase_def ascii_lower_char_def ends_with_def demo_fs_def demo_launcher_def path_eval)

text \<open>
  The credential check of a read is lexical only. A path that does not itself look
  like a credential but leads, through a link, to a credential file inside the worktree is
  allowed to be read by the read tool; the same path is refused as an operand of a shell
  command, which also checks where the path leads.
\<close>

theorem read_follows_link_to_credential:
  assumes "\<not> is_credential_path p" and "fs_canonicalize fs p = Some real" and "is_credential_path real"
    and "is_agent_root pl real" and "\<not> enters_agent_metadata pl real" and "is_absolute p"
  shows "pd_allowed (decide fs pl (ReadRequest p) Allow) \<and> \<not> path_confined fs pl cwd require_file p"
  using assms by (simp add: decide_allowed hard_deny_reason_def path_confined_def)

theorem read_follows_link_to_credential_witness:
  "pd_allowed (decide (demo_fs\<lparr>fs_canonicalize := \<lambda>_. Some ''/w/.env''\<rparr>) (demo_launcher ReadOnly) (ReadRequest ''/w/n'') Allow)
   \<and> \<not> path_confined (demo_fs\<lparr>fs_canonicalize := \<lambda>_. Some ''/w/.env''\<rparr>) (demo_launcher ReadOnly) ''/w'' True ''/w/n''"
  by (rule read_follows_link_to_credential [where real = "''/w/.env''"])
     (simp_all add: is_credential_path_def credential_component_def credential_names_def enters_agent_metadata_def
        is_agent_metadata_path_def is_agent_root_def to_ascii_lowercase_def ascii_lower_char_def ends_with_def
        demo_fs_def demo_launcher_def path_eval)

section \<open>Shell commands\<close>

lemma decide_argv_allowed:
  assumes "decide_argv fs pl cwd argv = Some d" and "pd_allowed d"
  obtains program args paths where "argv = program # args" and "program \<in> set AGENT_BASH_COMMAND_FAMILIES"
    and "program = ''git'' \<longrightarrow> valid_agent_git args" and "agent_bash_path_operands program args = Some paths"
    and "agent_paths_confined fs pl paths cwd (reads_a_file program)"
proof (cases argv)
  case Nil
  then show ?thesis
    using assms by (auto simp: decide_argv_def agent_bash_program_allowed_def AGENT_BASH_COMMAND_FAMILIES_def deny_def)
next
  case (Cons program args)
  then show ?thesis
    using assms that by (auto simp: decide_argv_def agent_bash_program_allowed_def deny_def Let_def
        split: if_splits option.splits)
qed

definition operand_target :: "file_system \<Rightarrow> string \<Rightarrow> string \<Rightarrow> string option" where
  "operand_target fs cwd a = fs_canonicalize fs (if is_absolute a then a else path_join cwd a)"

lemma path_confined_target:
  "path_confined fs pl cwd require_file a \<Longrightarrow>
     \<exists>real. operand_target fs cwd a = Some real \<and> is_agent_root pl real \<and> \<not> is_credential_path real
       \<and> \<not> enters_agent_metadata pl real \<and> (require_file \<longrightarrow> fs_is_file fs real)"
  by (auto simp: path_confined_def operand_target_def split: if_splits option.splits)

text \<open>
  C12 (safety): what an allowed shell command is. It runs in a real directory of the agent's
  roots; its words are those of the tokenizer; its program is one of the fourteen families,
  and a git command is in the read-only grammar; and every argument the grammar takes as a
  path resolves into the agent's roots, to no credential and no agent metadata, and to a
  regular file for the programs that print files.
\<close>

theorem bash_commands_are_confined:
  assumes "decide_agent_bash fs pl input external = Some d" and "pd_allowed d"
  shows "\<exists>cwd command program args paths.
       bash_cwd fs pl input = Some cwd \<and> is_agent_root pl cwd
     \<and> json_get_str ''command'' input = Some command \<and> tokenize_agent_bash command = Some (program # args)
     \<and> program \<in> set AGENT_BASH_COMMAND_FAMILIES \<and> (program = ''git'' \<longrightarrow> valid_agent_git args)
     \<and> agent_bash_path_operands program args = Some paths
     \<and> list_all (\<lambda>a. \<exists>real. operand_target fs cwd a = Some real \<and> is_agent_root pl real
          \<and> \<not> is_credential_path real \<and> \<not> enters_agent_metadata pl real
          \<and> (reads_a_file program \<longrightarrow> fs_is_file fs real)) paths"
proof -
  obtain command cwd argv where c: "json_get_str ''command'' input = Some command" "bash_cwd fs pl input = Some cwd"
      "tokenize_agent_bash command = Some argv" "decide_argv fs pl cwd argv = Some d"
    using assms by (auto simp: decide_agent_bash_def deny_def split: if_splits option.splits)
  obtain program args paths where p: "argv = program # args" "program \<in> set AGENT_BASH_COMMAND_FAMILIES"
      "program = ''git'' \<longrightarrow> valid_agent_git args" "agent_bash_path_operands program args = Some paths"
      "agent_paths_confined fs pl paths cwd (reads_a_file program)"
    by (rule decide_argv_allowed [OF c(4) assms(2)])
  have "is_agent_root pl cwd"
    using c(2) by (auto simp: bash_cwd_def split: option.splits if_splits)
  moreover have "list_all (\<lambda>a. \<exists>real. operand_target fs cwd a = Some real \<and> is_agent_root pl real
      \<and> \<not> is_credential_path real \<and> \<not> enters_agent_metadata pl real
      \<and> (reads_a_file program \<longrightarrow> fs_is_file fs real)) paths"
    using p(5) by (auto simp: agent_paths_confined_def list_all_iff intro!: path_confined_target)
  ultimately show ?thesis
    using c p by blast
qed

theorem bash_commands_are_confined_witness:
  "\<exists>cwd command program args paths.
       bash_cwd demo_fs (demo_launcher ReadOnly) (JObject [(''command'', JString ''cat a'')]) = Some cwd
     \<and> is_agent_root (demo_launcher ReadOnly) cwd
     \<and> json_get_str ''command'' (JObject [(''command'', JString ''cat a'')]) = Some command
     \<and> tokenize_agent_bash command = Some (program # args)
     \<and> program \<in> set AGENT_BASH_COMMAND_FAMILIES \<and> (program = ''git'' \<longrightarrow> valid_agent_git args)
     \<and> agent_bash_path_operands program args = Some paths
     \<and> list_all (\<lambda>a. \<exists>real. operand_target demo_fs cwd a = Some real \<and> is_agent_root (demo_launcher ReadOnly) real
          \<and> \<not> is_credential_path real \<and> \<not> enters_agent_metadata (demo_launcher ReadOnly) real
          \<and> (reads_a_file program \<longrightarrow> fs_is_file demo_fs real)) paths"
  by (rule bash_commands_are_confined [where external = Allow
        and d = "\<lparr>pd_allowed = True, pd_reason = ''agent_bash_allowlisted''\<rparr>"])
     (simp_all add: decide_agent_bash_def json_get_str_def bash_cwd_def tokenize_agent_bash_def MAX_COMMAND_BYTES_def
        utf8_cont_def shell_metacharacters_def single_quote_def double_quote_def is_whitespace_def decide_argv_def
        agent_bash_program_allowed_def AGENT_BASH_COMMAND_FAMILIES_def agent_bash_path_operands_def
        required_path_operands_def simple_path_operands_def inline_option_def cat_flags_def starts_with_def
        reads_a_file_def agent_paths_confined_def path_confined_def is_credential_path_def credential_component_def
        credential_names_def enters_agent_metadata_def is_agent_metadata_path_def is_agent_root_def
        to_ascii_lowercase_def ascii_lower_char_def ends_with_def demo_fs_def demo_launcher_def path_eval)

text \<open>
  One command makes the decision panic. The decision of a permission request fails
  to return exactly when the request is a shell command of a read-only launcher, allowed by
  the caller, in an agent directory, whose only word is \<^verbatim>\<open>git\<close>.
\<close>

theorem only_bare_git_panics:
  "decide_zcode_permission fs pl params external = None \<longleftrightarrow>
     json_get_str ''toolName'' params = Some ''Bash'' \<and> pl_access_mode pl = ReadOnly \<and> external = Allow
     \<and> bash_cwd fs pl (request_input params) \<noteq> None
     \<and> Option.bind (json_get_str ''command'' (request_input params)) tokenize_agent_bash = Some [''git'']"
proof -
  have git: "agent_bash_program_allowed ''git''" "\<not> agent_bash_program_allowed []"
    by (simp_all add: agent_bash_program_allowed_def AGENT_BASH_COMMAND_FAMILIES_def)
  have argv: "decide_argv fs pl cwd argv = None \<longleftrightarrow> argv = [''git'']" for cwd argv
    using git by (cases argv) (simp_all add: decide_argv_def Let_def split: option.split)
  show ?thesis
    by (cases external)
       (auto simp: decide_zcode_permission_def decide_agent_bash_def argv split: option.splits)
qed

section \<open>The tokenizer\<close>

lemma dropWhile_takeWhile_stop:
  assumes "b = [] \<or> \<not> P (hd b)"
  shows "takeWhile P (a @ b) = takeWhile P a \<and> dropWhile P (a @ b) = dropWhile P a @ b"
  using assms by (induction a) (auto simp: takeWhile_eq_Nil_iff dropWhile_eq_self_iff)

lemma utf8_chars_append:
  assumes "b = [] \<or> \<not> utf8_cont (hd b)"
  shows "utf8_chars (a @ b) = utf8_chars a @ utf8_chars b"
proof (induction a rule: utf8_chars.induct)
  case (2 c cs)
  then show ?case
    using dropWhile_takeWhile_stop [where P = utf8_cont, OF assms, of cs] by simp
qed simp

lemma utf8_chars_ascii: "\<not> utf8_cont c \<Longrightarrow> cs = [] \<or> \<not> utf8_cont (hd cs) \<Longrightarrow> utf8_chars (c # cs) = [c] # utf8_chars cs"
  using utf8_chars_append [of cs "[c]"] by simp

lemma tokenize_quote_run:
  "[d] \<notin> set cs \<Longrightarrow>
     tokenize_chars (cs @ [d] # rest) (Some [d]) current result = tokenize_chars rest None (current @ concat cs) result"
  by (induction cs arbitrary: current) auto

lemma utf8_char_single: "[d] \<in> set (utf8_chars s) \<Longrightarrow> d \<in> set s"
  using concat_utf8_chars [of s] by (metis UN_I list.set_intros(1) set_concat)

definition quoted :: "char \<Rightarrow> string \<Rightarrow> string" where
  "quoted q word = q # word @ [q]"

definition quotable :: "char \<Rightarrow> string \<Rightarrow> bool" where
  "quotable q word \<longleftrightarrow> q \<notin> set word \<and> CHR 0x0A \<notin> set word \<and> CHR 0x0D \<notin> set word
     \<and> (word = [] \<or> \<not> utf8_cont (hd word))"

lemma quotes_ascii [simp]:
  "\<not> utf8_cont single_quote" "\<not> utf8_cont double_quote" "\<not> utf8_cont CHR '' ''" "is_whitespace '' ''"
  "CHR '' '' \<noteq> single_quote" "CHR '' '' \<noteq> double_quote"
  by (simp_all add: utf8_cont_def single_quote_def double_quote_def is_whitespace_def)

lemma tokenize_quoted:
  assumes "q = single_quote \<or> q = double_quote" and "quotable q word" and "rest = [] \<or> \<not> utf8_cont (hd rest)"
  shows "tokenize_chars (utf8_chars (quoted q word @ rest)) None current result
       = tokenize_chars (utf8_chars rest) None (current @ word) result"
proof -
  have q: "\<not> utf8_cont q" using assms(1) by auto
  have "utf8_chars (quoted q word @ rest) = [q] # utf8_chars (word @ q # rest)"
    using assms(2) q by (cases word) (auto simp: quoted_def quotable_def intro!: utf8_chars_ascii)
  also have "\<dots> = [q] # utf8_chars word @ [q] # utf8_chars rest"
    using q assms(3) by (simp add: utf8_chars_append utf8_chars_ascii del: utf8_chars.simps)
  finally have cs: "utf8_chars (quoted q word @ rest) = [q] # utf8_chars word @ [q] # utf8_chars rest" .
  have "[q] \<notin> set (utf8_chars word)"
    using assms(2) utf8_char_single by (auto simp: quotable_def)
  from tokenize_quote_run [OF this] show ?thesis
    unfolding cs using assms(1) by auto
qed

lemma tokenize_quoted_words:
  assumes "list_all (quotable single_quote) words" and "[] \<notin> set words"
  shows "tokenize_chars (utf8_chars (join_with CHR '' '' (map (quoted single_quote) words))) None [] result
       = Some (result @ words)"
  using assms
proof (induction words arbitrary: result)
  case Nil
  then show ?case by simp
next
  case (Cons w ws)
  have w: "quotable single_quote w" "w \<noteq> []" and ws: "list_all (quotable single_quote) ws" "[] \<notin> set ws"
    using Cons.prems by auto
  let ?tail = "join_with CHR '' '' (map (quoted single_quote) ws)"
  show ?case
  proof (cases "ws = []")
    case True
    then show ?thesis
      using w tokenize_quoted [of single_quote w "[]" "[]" result] by simp
  next
    case False
    have tail: "\<not> utf8_cont (hd ?tail)"
      using join_with_head [of "map (quoted single_quote) ws" "CHR '' ''"] False
      by (cases ws) (auto simp: quoted_def)
    have "tokenize_chars (utf8_chars (quoted single_quote w @ CHR '' '' # ?tail)) None [] result
        = tokenize_chars (utf8_chars (CHR '' '' # ?tail)) None ([] @ w) result"
      using w by (intro tokenize_quoted) auto
    also have "utf8_chars (CHR '' '' # ?tail) = '' '' # utf8_chars ?tail"
      using tail by (intro utf8_chars_ascii) auto
    also have "tokenize_chars ('' '' # utf8_chars ?tail) None ([] @ w) result
        = tokenize_chars (utf8_chars ?tail) None [] (result @ [w])"
      using w(2) by simp
    also have "\<dots> = Some ((result @ [w]) @ ws)"
      by (rule Cons.IH [OF ws])
    also have "quoted single_quote w @ CHR '' '' # ?tail = join_with CHR '' '' (map (quoted single_quote) (w # ws))"
      using False by (cases ws) simp_all
    finally show ?thesis by simp
  qed
qed

lemma set_join_with: "set (join_with d ps) \<subseteq> insert d (\<Union> (set ` set ps))"
  by (induction d ps rule: join_with.induct) auto

text \<open>
  Quoting protects words. Up to 128 non-empty words without single quotes or
  line breaks, each put in single quotes and separated by spaces, are tokenized to exactly
  these words, whatever metacharacters and white space they contain, as long as the command
  is within the size limit.
\<close>

theorem quoted_words_round_trip:
  assumes "list_all (quotable single_quote) words" and "[] \<notin> set words" and "words \<noteq> []" and "length words \<le> 128"
    and "length (join_with CHR '' '' (map (quoted single_quote) words)) \<le> MAX_COMMAND_BYTES"
  shows "tokenize_agent_bash (join_with CHR '' '' (map (quoted single_quote) words)) = Some words"
proof -
  let ?c = "join_with CHR '' '' (map (quoted single_quote) words)"
  have "?c \<noteq> []"
    using join_with_head [of "map (quoted single_quote) words" "CHR '' ''"] assms(3)
    by (cases words) (auto simp: quoted_def)
  moreover have "c \<notin> set ?c" if brk: "c \<in> {CHR 0x0A, CHR 0x0D}" for c
  proof
    assume "c \<in> set ?c"
    then obtain w where "w \<in> set words" "c \<in> set (quoted single_quote w)"
      using brk subsetD [OF set_join_with [of "CHR '' ''" "map (quoted single_quote) words"], of c] by auto
    then show False
      using brk assms(1) by (auto simp: quoted_def quotable_def list_all_iff single_quote_def)
  qed
  ultimately show ?thesis
    using assms by (simp add: tokenize_agent_bash_def tokenize_quoted_words)
qed

theorem quoted_words_round_trip_witness:
  "tokenize_agent_bash (join_with CHR '' '' (map (quoted single_quote) [''rg'', ''a|b; c''])) = Some [''rg'', ''a|b; c'']"
  by (rule quoted_words_round_trip)
     (simp_all add: quotable_def quoted_def single_quote_def utf8_cont_def MAX_COMMAND_BYTES_def)

text \<open>
  A command without quotes has no metacharacters. If such a command is tokenized,
  none of its characters is a shell metacharacter, and its words are its characters without
  the white space, in order.
\<close>

lemma tokenize_plain:
  assumes "tokenize_chars cs None current result = Some words"
    and "[single_quote] \<notin> set cs" "[double_quote] \<notin> set cs"
  shows "set cs \<inter> (\<lambda>c. [c]) ` set shell_metacharacters = {}
     \<and> concat words = concat result @ current @ concat (filter (\<lambda>c. \<not> is_whitespace c) cs)"
  using assms
proof (induction cs arbitrary: current result)
  case (Cons ch chs)
  have ws: "\<not> is_whitespace [c]" if "c \<in> set shell_metacharacters" for c
    using that by (auto simp: shell_metacharacters_def is_whitespace_def)
  show ?case
    using Cons.prems Cons.IH [of "[]" "if current \<noteq> [] then result @ [current] else result"]
      Cons.IH [of "current @ ch" result] ws
    by (auto split: if_splits)
qed (auto split: if_splits)

theorem unquoted_commands_are_plain:
  assumes "tokenize_agent_bash command = Some words" and "single_quote \<notin> set command" and "double_quote \<notin> set command"
  shows "list_all (\<lambda>ch. ch \<notin> (\<lambda>c. [c]) ` set shell_metacharacters) (utf8_chars command)
     \<and> concat words = concat (filter (\<lambda>ch. \<not> is_whitespace ch) (utf8_chars command))"
proof -
  have "tokenize_chars (utf8_chars command) None [] [] = Some words"
    using assms(1) by (auto simp: tokenize_agent_bash_def split: if_splits option.splits)
  from tokenize_plain [OF this] show ?thesis
    using assms(2,3) utf8_char_single by (auto simp: list_all_iff)
qed

theorem unquoted_commands_are_plain_witness:
  "concat [''ls'', ''-l''] = concat (filter (\<lambda>ch. \<not> is_whitespace ch) (utf8_chars ''ls -l''))"
  using unquoted_commands_are_plain [of "''ls -l''" "[''ls'', ''-l'']"]
  by (simp add: tokenize_agent_bash_def single_quote_def double_quote_def MAX_COMMAND_BYTES_def utf8_cont_def
      is_whitespace_def shell_metacharacters_def)

end
