(* ===== verification/Policy_Commands.thy ===== *)
theory Policy_Commands
  imports Policy_Props
begin

text \<open>
  The shell grammar examined: which arguments of an allowed command are checked as paths, what
  an allowed git command can do, and the commands whose file arguments or expansions escape
  the checks.
\<close>

section \<open>Path operands\<close>

lemma simple_operands_all:
  assumes "simple_operands_from bools [] ended paths args = Some all" and "list_all (starts_with ''-'') bools"
  shows "set paths \<subseteq> set all \<and> set (filter (\<lambda>a. ended \<or> \<not> starts_with ''-'' a) args) \<subseteq> set all"
  using assms
proof (induction bools "[] :: string list" ended paths args rule: simple_operands_from.induct)
  case (2 bools ended paths arg rest)
  show ?case
    using "2.prems" "2.hyps"
    by (auto simp: inline_option_def list_all_iff starts_with_def split: if_splits)
qed simp

text \<open>
  Every file a printing command names is checked. For \<^verbatim>\<open>cat\<close>, \<^verbatim>\<open>wc\<close> and \<^verbatim>\<open>sed\<close>, when the
  arguments are accepted at least one of them is a path, and every argument that does not
  start with a dash (for \<^verbatim>\<open>sed\<close>, after the range) is among the paths that are resolved.
\<close>

theorem printed_files_are_checked:
  assumes "agent_bash_path_operands program args = Some paths" and "program \<in> {''cat'', ''wc'', ''sed''}"
  shows "paths \<noteq> [] \<and> set (filter (\<lambda>a. \<not> starts_with ''-'' a) (if program = ''sed'' then drop 2 args else args)) \<subseteq> set paths"
proof (cases "program = ''sed''")
  case True
  then show ?thesis
    using assms(1) by (auto simp: agent_bash_path_operands_def valid_agent_sed_def split: if_splits list.splits)
next
  case False
  then obtain bools where "simple_operands_from bools [] False [] args = Some paths" "paths \<noteq> []"
      "bools = cat_flags \<or> bools = wc_flags"
    using assms by (auto simp: agent_bash_path_operands_def required_path_operands_def simple_path_operands_def
        split: if_splits bind_splits)
  moreover from this have "list_all (starts_with ''-'') bools"
    by (auto simp: cat_flags_def wc_flags_def starts_with_def)
  ultimately show ?thesis
    using simple_operands_all [of bools False "[]" args paths] False by auto
qed

theorem printed_files_are_checked_witness:
  "set (filter (\<lambda>a. \<not> starts_with ''-'' a) [''-n'', ''a'', ''--'', ''-b'']) \<subseteq> set [''a'', ''-b'']"
  using printed_files_are_checked [of "''cat''" "[''-n'', ''a'', ''--'', ''-b'']" "[''a'', ''-b'']"]
  by (simp add: agent_bash_path_operands_def required_path_operands_def simple_path_operands_def cat_flags_def
      inline_option_def str_simps)

section \<open>Arguments that escape\<close>

text \<open>A byte that stands for itself in a shell word.\<close>

definition plain_byte :: "char \<Rightarrow> bool" where
  "plain_byte c \<longleftrightarrow> 33 \<le> (of_char c :: nat) \<and> (of_char c :: nat) < 127 \<and> c \<noteq> single_quote \<and> c \<noteq> double_quote
     \<and> c \<notin> set shell_metacharacters"

lemma plain_byte_simps:
  assumes "plain_byte c"
  shows "\<not> utf8_cont c" and "\<not> is_whitespace [c]" and "c \<noteq> CHR 0x0A" and "c \<noteq> CHR 0x0D"
  using assms by (auto simp: plain_byte_def utf8_cont_def is_whitespace_def)

lemma tokenize_plain_word:
  assumes "list_all plain_byte w" and "rest = [] \<or> \<not> utf8_cont (hd rest)"
  shows "tokenize_chars (utf8_chars (w @ rest)) None current result
       = tokenize_chars (utf8_chars rest) None (current @ w) result"
  using assms(1)
proof (induction w arbitrary: current)
  case (Cons c w)
  have c: "plain_byte c" and w: "list_all plain_byte w" using Cons.prems by auto
  have "w @ rest = [] \<or> \<not> utf8_cont (hd (w @ rest))"
    using w assms(2) plain_byte_simps(1) by (cases w) auto
  then have "utf8_chars (c # w @ rest) = [c] # utf8_chars (w @ rest)"
    by (rule utf8_chars_ascii [OF plain_byte_simps(1) [OF c]])
  then have "tokenize_chars (utf8_chars ((c # w) @ rest)) None current result
      = tokenize_chars (utf8_chars (w @ rest)) None (current @ [c]) result"
    using c plain_byte_simps [OF c] by (auto simp: plain_byte_def simp del: utf8_chars.simps)
  then show ?case
    using Cons.IH [OF w, of "current @ [c]"] by simp
qed simp

lemma tokenize_space:
  assumes "rest = [] \<or> \<not> utf8_cont (hd rest)"
  shows "tokenize_chars (utf8_chars (CHR '' '' # rest)) None current result
       = tokenize_chars (utf8_chars rest) None [] (if current \<noteq> [] then result @ [current] else result)"
  using utf8_chars_ascii [of "CHR '' ''" rest] assms by (simp del: utf8_chars.simps)

definition bash_request :: "string \<Rightarrow> json" where
  "bash_request command = JObject [(''command'', JString command)]"

lemma decide_rg:
  assumes "fs_canonicalize fs (pl_worktree pl) = Some (pl_worktree pl)"
    and "tokenize_agent_bash command = Some (''rg'' # args)" and "grep_like_path_operands args True = Some []"
  shows "decide_agent_bash fs pl (bash_request command) Allow
       = Some \<lparr>pd_allowed = True, pd_reason = ''agent_bash_allowlisted''\<rparr>"
  using assms
  by (simp add: decide_agent_bash_def bash_request_def json_get_str_def bash_cwd_def is_agent_root_def decide_argv_def
      agent_bash_program_allowed_def AGENT_BASH_COMMAND_FAMILIES_def agent_bash_path_operands_def agent_paths_confined_def)

lemma rg_plain: "list_all plain_byte ''rg''" "list_all plain_byte ''-e''" "list_all plain_byte ''x''"
  by (simp_all add: plain_byte_def single_quote_def double_quote_def shell_metacharacters_def)

lemma rg_pattern_only:
  assumes "w \<noteq> []" and "hd w \<noteq> CHR ''-''"
  shows "grep_like_path_operands [w] True = Some []" and "grep_like_path_operands [w, ''-e'', ''x''] True = Some []"
  using assms
  by (cases w; simp add: grep_like_path_operands_def inline_option_def rg_refused_def grep_short_value_def
        value_short_def starts_with_def)+

lemma tokenize_command:
  assumes "tokenize_chars (utf8_chars c) None [] [] = Some words" and "c \<noteq> []" and "length c \<le> MAX_COMMAND_BYTES"
    and "CHR 0x0A \<notin> set c" and "CHR 0x0D \<notin> set c" and "words \<noteq> []" and "length words \<le> 128"
  shows "tokenize_agent_bash c = Some words"
  using assms by (simp add: tokenize_agent_bash_def)

lemma plain_no_break: "list_all plain_byte w \<Longrightarrow> CHR 0x0A \<notin> set w \<and> CHR 0x0D \<notin> set w"
  using plain_byte_simps(3,4) by (auto simp: list_all_iff)

lemma rg_prefix:
  assumes "rest = [] \<or> \<not> utf8_cont (hd rest)"
  shows "tokenize_chars (utf8_chars (''rg '' @ rest)) None [] [] = tokenize_chars (utf8_chars rest) None [] [''rg'']"
  using tokenize_plain_word [OF rg_plain(1), of "CHR '' '' # rest" "[]" "[]"] tokenize_space [OF assms, of "''rg''" "[]"]
  by (simp del: utf8_chars.simps)

lemma tokenize_empty_quotes:
  assumes "list_all plain_byte q" and "q \<noteq> []" and "length q \<le> 16000"
  shows "tokenize_agent_bash (''rg '' @ quoted single_quote [] @ CHR '' '' # q) = Some [''rg'', q]"
proof (rule tokenize_command)
  have q: "\<not> utf8_cont (hd q)" using assms plain_byte_simps(1) by (cases q) auto
  have "tokenize_chars (utf8_chars (''rg '' @ quoted single_quote [] @ CHR '' '' # q)) None [] []
      = tokenize_chars (utf8_chars (quoted single_quote [] @ CHR '' '' # q)) None [] [''rg'']"
    by (rule rg_prefix) (simp add: quoted_def)
  also have "\<dots> = tokenize_chars (utf8_chars (CHR '' '' # q)) None ([] @ []) [''rg'']"
    by (rule tokenize_quoted) (simp_all add: quotable_def)
  also have "\<dots> = tokenize_chars (utf8_chars (q @ [])) None [] [''rg'']"
    using tokenize_space [of q "[]" "[''rg'']"] q by (simp del: utf8_chars.simps)
  also have "\<dots> = Some [''rg'', q]"
    using tokenize_plain_word [OF assms(1), of "[]" "[]" "[''rg'']"] assms(2) by simp
  finally show "tokenize_chars (utf8_chars (''rg '' @ quoted single_quote [] @ CHR '' '' # q)) None [] [] = Some [''rg'', q]" .
qed (use assms plain_no_break in \<open>auto simp: quoted_def MAX_COMMAND_BYTES_def single_quote_def\<close>)

lemma tokenize_late_pattern:
  assumes "list_all plain_byte q" and "q \<noteq> []" and "length q \<le> 16000"
  shows "tokenize_agent_bash (''rg '' @ q @ '' -e x'') = Some [''rg'', q, ''-e'', ''x'']"
proof (rule tokenize_command)
  have q: "\<not> utf8_cont (hd (q @ '' -e x''))" using assms plain_byte_simps(1) by (cases q) auto
  have "tokenize_chars (utf8_chars (''rg '' @ q @ '' -e x'')) None [] []
      = tokenize_chars (utf8_chars (q @ '' -e x'')) None [] [''rg'']"
    by (rule rg_prefix) (use q in simp)
  also have "\<dots> = tokenize_chars (utf8_chars ('' -e x'')) None q [''rg'']"
    using tokenize_plain_word [OF assms(1), of "'' -e x''" "[]" "[''rg'']"] by (simp del: utf8_chars.simps)
  also have "\<dots> = tokenize_chars (utf8_chars (''-e'' @ '' x'')) None [] [''rg'', q]"
    using tokenize_space [of "''-e x''" q "[''rg'']"] assms(2) by (simp add: utf8_cont_def del: utf8_chars.simps)
  also have "\<dots> = tokenize_chars (utf8_chars ('' x'')) None ''-e'' [''rg'', q]"
    using tokenize_plain_word [OF rg_plain(2), of "'' x''" "[]" "[''rg'', q]"] by (simp del: utf8_chars.simps)
  also have "\<dots> = tokenize_chars (utf8_chars (''x'' @ [])) None [] [''rg'', q, ''-e'']"
    using tokenize_space [of "''x''" "''-e''" "[''rg'', q]"] by (simp add: utf8_cont_def del: utf8_chars.simps)
  also have "\<dots> = Some [''rg'', q, ''-e'', ''x'']"
    using tokenize_plain_word [OF rg_plain(3), of "[]" "[]" "[''rg'', q, ''-e'']"] by simp
  finally show "tokenize_chars (utf8_chars (''rg '' @ q @ '' -e x'')) None [] [] = Some [''rg'', q, ''-e'', ''x'']" .
qed (use assms plain_no_break in \<open>auto simp: MAX_COMMAND_BYTES_def\<close>)

lemma tokenize_double_quoted:
  assumes "quotable double_quote w" and "w \<noteq> []" and "length w \<le> 16000"
  shows "tokenize_agent_bash (''rg '' @ quoted double_quote w) = Some [''rg'', w]"
proof (rule tokenize_command)
  have "tokenize_chars (utf8_chars (''rg '' @ quoted double_quote w)) None [] []
      = tokenize_chars (utf8_chars (quoted double_quote w @ [])) None [] [''rg'']"
    using rg_prefix [of "quoted double_quote w"] by (simp add: quoted_def del: utf8_chars.simps)
  also have "\<dots> = Some [''rg'', w]"
    using tokenize_quoted [of double_quote w "[]" "[]" "[''rg'']"] assms by simp
  finally show "tokenize_chars (utf8_chars (''rg '' @ quoted double_quote w)) None [] [] = Some [''rg'', w]" .
qed (use assms in \<open>auto simp: quoted_def quotable_def MAX_COMMAND_BYTES_def double_quote_def\<close>)

text \<open>
  What a shell makes of a command without expansions, the reference for the next property: blanks end a word, a
  backslash keeps the next byte, and quotes keep what they enclose and always make a word, an empty one too.
  \<open>rg_searched\<close> are the paths \<^verbatim>\<open>rg\<close> searches, as its manual has it: the first positional argument is the
  pattern unless \<^verbatim>\<open>-e\<close> gives one, every other is a path.
\<close>

fun shell_words :: "string \<Rightarrow> char option \<Rightarrow> string option \<Rightarrow> string list" where
  "shell_words [] quote word = (case word of None \<Rightarrow> [] | Some w \<Rightarrow> [w])"
| "shell_words (c # cs) (Some q) word =
     (if c = q then shell_words cs None word else shell_words cs (Some q) (map_option (\<lambda>w. w @ [c]) word))"
| "shell_words (c # cs) None word =
     (let w = (case word of None \<Rightarrow> [] | Some w \<Rightarrow> w) in
      if c = CHR '' '' then (case word of None \<Rightarrow> shell_words cs None None | Some w \<Rightarrow> w # shell_words cs None None)
      else if c = single_quote \<or> c = double_quote then shell_words cs (Some c) (Some w)
      else if c = CHR 0x5C then (case cs of [] \<Rightarrow> [w @ [c]] | d # ds \<Rightarrow> shell_words ds None (Some (w @ [d])))
      else shell_words cs None (Some (w @ [c])))"

fun rg_positionals :: "string list \<Rightarrow> string list" where
  "rg_positionals [] = []"
| "rg_positionals (a # args) =
     (if a = ''-e'' then rg_positionals (drop 1 args) else a # rg_positionals args)"

definition rg_searched :: "string list \<Rightarrow> string list" where
  "rg_searched words =
     (let args = tl words in if ''-e'' \<in> set args then rg_positionals args else tl (rg_positionals args))"

definition shell_plain :: "string \<Rightarrow> bool" where
  "shell_plain w \<longleftrightarrow> w \<noteq> [] \<and> list_all plain_byte w \<and> CHR 0x5C \<notin> set w \<and> hd w \<noteq> CHR ''~''"

lemma shell_words_plain:
  "list_all plain_byte w \<Longrightarrow> CHR 0x5C \<notin> set w
     \<Longrightarrow> shell_words (w @ rest) None (Some v) = shell_words rest None (Some (v @ w))"
  by (induction w arbitrary: v) (auto simp: plain_byte_def)

lemma shell_words_start:
  assumes "shell_plain w"
  shows "shell_words (w @ rest) None None = shell_words rest None (Some w)"
proof -
  obtain c cs where w: "w = c # cs" using assms by (cases w) (auto simp: shell_plain_def)
  then have "shell_words (w @ rest) None None = shell_words (cs @ rest) None (Some [c])"
    using assms by (auto simp: shell_plain_def plain_byte_def)
  then show ?thesis using assms w shell_words_plain [of cs rest "[c]"] by (simp add: shell_plain_def)
qed

lemma shell_words_blank: "shell_words (CHR '' '' # cs) None (Some w) = w # shell_words cs None None"
  by simp

lemma rg_shell_plain: "shell_plain ''rg''" "shell_plain ''-e''" "shell_plain ''x''"
  using rg_plain by (simp_all add: shell_plain_def)

lemma searched_by_shell:
  assumes "shell_plain q" and "hd q \<noteq> CHR ''-''"
  shows "q \<in> set (rg_searched (shell_words (''rg '' @ quoted single_quote [] @ CHR '' '' # q) None None))"
    and "q \<in> set (rg_searched (shell_words (''rg '' @ q @ '' -e x'') None None))"
proof -
  have q: "q \<noteq> ''-e''" using assms by auto
  have start: "shell_words (''rg '' @ rest) None None = ''rg'' # shell_words rest None None" for rest
    using shell_words_start [OF rg_shell_plain(1), of "CHR '' '' # rest"] by simp
  have whole: "shell_words q None None = [q]" using shell_words_start [OF assms(1), of "[]"] by simp
  have late: "shell_words ''-e x'' None None = [''-e'', ''x'']"
    by (simp add: single_quote_def double_quote_def)
  have "shell_words (''rg '' @ quoted single_quote [] @ CHR '' '' # q) None None = [''rg'', [], q]"
    unfolding start using whole by (simp add: quoted_def single_quote_def double_quote_def)
  then show "q \<in> set (rg_searched (shell_words (''rg '' @ quoted single_quote [] @ CHR '' '' # q) None None))"
    using q by (simp add: rg_searched_def Let_def)
  have "shell_words (''rg '' @ q @ '' -e x'') None None = [''rg'', q, ''-e'', ''x'']"
    unfolding start using shell_words_start [OF assms(1), of "'' -e x''"] late by simp
  then show "q \<in> set (rg_searched (shell_words (''rg '' @ q @ '' -e x'') None None))"
    using q by (simp add: rg_searched_def Let_def)
qed

definition bash_permission :: "string \<Rightarrow> json" where
  "bash_permission command = JObject [(''toolName'', JString ''Bash''), (''input'', bash_request command)]"

text \<open>
  C40 (error): three forms of a search command are allowed by the policy of a read-only task, whatever path or command they
  name. For every launcher in read-only mode whose worktree is canonical, a request to run \<^verbatim>\<open>rg\<close> in the
  worktree is allowed when the command has an empty quoted pattern before the path (the tokenizer drops the pattern and
  takes the path for it), the path before an explicit \<^verbatim>\<open>-e\<close> pattern (taken as the pattern), or a command
  substitution in double quotes (not refused inside quotes). In the first two the path is one \<^verbatim>\<open>rg\<close> searches
  when a shell splits the command, in or outside the agent's roots. The path is of bytes that need no quoting, does not start
  with a dash or a tilde and has at most 16000 bytes; the substituted command has at most 15000 and no quote or line break.
\<close>

theorem search_arguments_escape:
  assumes "pl_access_mode pl = ReadOnly" and "fs_canonicalize fs (pl_worktree pl) = Some (pl_worktree pl)"
    and "shell_plain q" and "hd q \<noteq> CHR ''-''" and "length q \<le> 16000"
    and "quotable double_quote (''$('' @ e @ '')'')" and "length e \<le> 15000"
  shows "list_all (\<lambda>c. decide_zcode_permission fs pl (bash_permission c) Allow
       = Some \<lparr>pd_allowed = True, pd_reason = ''agent_bash_allowlisted''\<rparr>)
       [''rg '' @ quoted single_quote [] @ CHR '' '' # q, ''rg '' @ q @ '' -e x'', ''rg '' @ quoted double_quote (''$('' @ e @ '')'')]
     \<and> q \<in> set (rg_searched (shell_words (''rg '' @ quoted single_quote [] @ CHR '' '' # q) None None))
     \<and> q \<in> set (rg_searched (shell_words (''rg '' @ q @ '' -e x'') None None))"
proof -
  have bash: "decide_zcode_permission fs pl (bash_permission c) Allow = decide_agent_bash fs pl (bash_request c) Allow" for c
    using assms(1) by (simp add: decide_zcode_permission_def bash_permission_def json_get_str_def request_input_def)
  have q: "list_all plain_byte q" "q \<noteq> []" using assms(3) by (auto simp: shell_plain_def)
  have "tokenize_agent_bash (''rg '' @ quoted double_quote (''$('' @ e @ '')'')) = Some [''rg'', ''$('' @ e @ '')'']"
    using assms(6,7) by (intro tokenize_double_quoted) auto
  then show ?thesis
    using decide_rg [OF assms(2) tokenize_empty_quotes [OF q assms(5)] rg_pattern_only(1) [OF q(2) assms(4)]]
      decide_rg [OF assms(2) tokenize_late_pattern [OF q assms(5)] rg_pattern_only(2) [OF q(2) assms(4)]]
      decide_rg [OF assms(2) _ rg_pattern_only(1) [of "''$('' @ e @ '')''"]] searched_by_shell [OF assms(3,4)]
    by (simp add: bash)
qed

theorem search_arguments_escape_witness:
  "decide_zcode_permission demo_fs (demo_launcher ReadOnly) (bash_permission (''rg '' @ quoted single_quote [] @ '' /etc/passwd'')) Allow
       = Some \<lparr>pd_allowed = True, pd_reason = ''agent_bash_allowlisted''\<rparr>
     \<and> ''/etc/passwd'' \<in> set (rg_searched (shell_words (''rg '' @ quoted single_quote [] @ '' /etc/passwd'') None None))"
  using search_arguments_escape [of "demo_launcher ReadOnly" demo_fs "''/etc/passwd''" "''id''"]
  by (simp add: demo_fs_def demo_launcher_def shell_plain_def plain_byte_def single_quote_def double_quote_def
      shell_metacharacters_def quotable_def utf8_cont_def del: shell_words.simps)

section \<open>git\<close>

lemma exec_option_dash: "git_exec_option a \<Longrightarrow> starts_with ''-'' a"
  by (auto simp: git_exec_option_def inline_option_def starts_with_def) (cases a; auto)+

lemma positive_integer_dash: "valid_positive_integer v \<Longrightarrow> \<not> starts_with ''-'' v"
  by (cases v) (auto simp: valid_positive_integer_def parse_uint_def Let_def starts_with_def is_ascii_digit_def
      split: if_splits option.splits)

definition git_option_ok :: "string \<Rightarrow> string \<Rightarrow> bool" where
  "git_option_ok sub a \<longleftrightarrow> \<not> git_exec_option a
     \<and> (starts_with ''-'' a \<longrightarrow> a \<in> set (git_flags sub) \<or> option_name a \<in> set (git_value_options sub) \<or> starts_with ''-n'' a)"

text \<open>One round of the loop before the separator takes one argument, or an option and its value.\<close>

lemma diff_like_step:
  assumes "diff_like_from sub False (arg # rest)" and "arg \<noteq> ''--''"
  shows "git_option_ok sub arg \<and> (diff_like_from sub False rest
     \<or> (\<exists>v rest'. rest = v # rest' \<and> \<not> starts_with ''-'' v \<and> diff_like_from sub False rest'))"
proof -
  note step = assms(1) [unfolded diff_like_from.simps(2)]
  have ex: "\<not> git_exec_option arg" using step assms(2) by (auto split: if_splits)
  show ?thesis
  proof (cases "starts_with ''-'' arg \<and> arg \<notin> set (git_flags sub)")
    case False
    then show ?thesis using step assms(2) ex by (auto simp: git_option_ok_def simp del: diff_like_from.simps split: if_splits)
  next
    case True
    show ?thesis
    proof (cases "sub = ''log'' \<and> starts_with ''-n'' arg")
      case n: True
      then have "git_option_ok sub arg" using ex by (simp add: git_option_ok_def)
      then show ?thesis
        using step assms(2) ex True n positive_integer_dash
        by (cases "drop 2 arg = []"; cases rest) (auto simp del: diff_like_from.simps)
    next
      case n: False
      then have "git_option_ok sub arg" using step assms(2) ex True by (auto simp: git_option_ok_def simp del: diff_like_from.simps split: if_splits)
      then show ?thesis
        using step assms(2) ex True n
        by (cases "split_once CHR ''='' arg"; cases rest) (auto simp del: diff_like_from.simps split: if_splits)
    qed
  qed
qed

lemma diff_like_options:
  assumes "diff_like_from sub False args"
  shows "list_all (git_option_ok sub) (takeWhile (\<lambda>a. a \<noteq> ''--'') args)
     \<and> diff_like_from sub True (tl (dropWhile (\<lambda>a. a \<noteq> ''--'') args))"
  using assms
proof (induction args rule: length_induct)
  case (1 args)
  show ?case
  proof (cases "args = [] \<or> hd args = ''--''")
    case True
    then show ?thesis using "1.prems" by (cases args) auto
  next
    case False
    then obtain arg rest where args: "args = arg # rest" "arg \<noteq> ''--''" by (cases args) auto
    have dash: "git_option_ok sub v" if "\<not> starts_with ''-'' v" for v
      using that exec_option_dash by (auto simp: git_option_ok_def)
    have sep: "starts_with ''-'' ''--''" by (simp add: starts_with_def)
    show ?thesis
      using diff_like_step [of sub arg rest] "1.prems" "1.IH" args dash sep
      by (auto simp del: diff_like_from.simps)
  qed
qed

lemma diff_like_operands: "diff_like_from sub True args \<Longrightarrow> list_all (\<lambda>a. a = ''--'' \<or> safe_agent_git_operand a) args"
  by (induction args) (auto split: if_splits)

text \<open>
  An allowed git command only reads. After an optional \<^verbatim>\<open>--no-pager\<close> its first word is
  one of eight reading subcommands, so no option can precede it. For \<^verbatim>\<open>diff\<close>, \<^verbatim>\<open>show\<close> and \<^verbatim>\<open>log\<close>, no
  argument before the separator \<^verbatim>\<open>--\<close> writes a file or runs a helper, every option there is
  one of the listed ones, and every path after the separator is relative, without parent
  components, and names no credential and no agent metadata.
\<close>

theorem git_commands_only_read:
  assumes "valid_agent_git args"
  shows "\<exists>sub rest. args \<in> {sub # rest, ''--no-pager'' # sub # rest}
     \<and> sub \<in> {''status'', ''diff'', ''show'', ''log'', ''rev-parse'', ''cat-file'', ''ls-files'', ''branch''}
     \<and> (sub \<in> {''diff'', ''show'', ''log''} \<longrightarrow>
          list_all (git_option_ok sub) (takeWhile (\<lambda>a. a \<noteq> ''--'') rest)
        \<and> list_all (\<lambda>a. a = ''--'' \<or> safe_agent_git_operand a) (dropWhile (\<lambda>a. a \<noteq> ''--'') rest))"
proof -
  obtain sub rest where sr: "(if args \<noteq> [] \<and> hd args = ''--no-pager'' then tl args else args) = sub # rest"
    using assms by (auto simp: valid_agent_git_def split: list.splits)
  show ?thesis
  proof (intro exI conjI impI)
    show "args \<in> {sub # rest, ''--no-pager'' # sub # rest}"
      using sr by (cases args) (auto split: if_splits)
    show "sub \<in> {''status'', ''diff'', ''show'', ''log'', ''rev-parse'', ''cat-file'', ''ls-files'', ''branch''}"
      using assms sr by (auto simp: valid_agent_git_def split: if_splits)
    assume "sub \<in> {''diff'', ''show'', ''log''}"
    then have "diff_like_from sub False rest"
      using assms sr by (auto simp: valid_agent_git_def valid_agent_git_diff_like_def simp del: diff_like_from.simps)
    note opts = diff_like_options [OF this]
    then show "list_all (git_option_ok sub) (takeWhile (\<lambda>a. a \<noteq> ''--'') rest)" ..
    show "list_all (\<lambda>a. a = ''--'' \<or> safe_agent_git_operand a) (dropWhile (\<lambda>a. a \<noteq> ''--'') rest)"
      using diff_like_operands [OF conjunct2 [OF opts]] hd_dropWhile [of "\<lambda>a. a \<noteq> ''--''" rest]
      by (cases "dropWhile (\<lambda>a. a \<noteq> ''--'') rest") (auto simp del: dropWhile_eq_Nil_conv)
  qed
qed

theorem git_commands_only_read_witness:
  "\<exists>sub rest. [''--no-pager'', ''log'', ''-n3''] \<in> {sub # rest, ''--no-pager'' # sub # rest}
     \<and> sub \<in> {''status'', ''diff'', ''show'', ''log'', ''rev-parse'', ''cat-file'', ''ls-files'', ''branch''}
     \<and> (sub \<in> {''diff'', ''show'', ''log''} \<longrightarrow>
          list_all (git_option_ok sub) (takeWhile (\<lambda>a. a \<noteq> ''--'') rest)
        \<and> list_all (\<lambda>a. a = ''--'' \<or> safe_agent_git_operand a) (dropWhile (\<lambda>a. a \<noteq> ''--'') rest))"
  by (rule git_commands_only_read)
     (simp add: valid_agent_git_def valid_agent_git_diff_like_def git_exec_option_def inline_option_def starts_with_def
       git_flags_def git_log_flags_def valid_positive_integer_def parse_uint_def is_ascii_digit_def digits_val_def digit_val_def)

end
