(* ===== verification/Policy_Prepared.thy ===== *)
theory Policy_Prepared
  imports Policy_Props
begin

text \<open>
  The prepared validation commands of \<^verbatim>\<open>crates/zcode-agent-preparation/src/policy.rs\<close>: which program
  and arguments may become a named command (\<^verbatim>\<open>prepare_command\<close>), with the strict grammar for git,
  and what is checked again before a named command runs (\<^verbatim>\<open>run_cancellable\<close>). Creating a
  directory and running the child process are arguments.
\<close>

section \<open>The strict git grammar\<close>

definition strict_git_flags :: "string \<Rightarrow> string list" where
  "strict_git_flags verb =
     (if verb = ''diff'' then
        [''--no-ext-diff'', ''--no-textconv'', ''--cached'', ''--staged'', ''--stat'', ''--name-only'',
         ''--name-status'', ''--check'', ''--binary'', ''--full-index'', ''--no-renames'', ''--exit-code'',
         ''--quiet'', ''--no-color'', ''--patch'', ''--no-patch'', ''-p'', ''-s'']
      else if verb = ''status'' then
        [''--short'', ''-s'', ''--branch'', ''-b'', ''--porcelain'', ''--long'', ''--no-ahead-behind'',
         ''--show-stash'', ''--no-renames'']
      else if verb = ''log'' then
        [''--no-ext-diff'', ''--no-textconv'', ''--stat'', ''--name-only'', ''--name-status'', ''--no-color'',
         ''--no-patch'', ''-s'', ''--oneline'', ''--decorate'', ''--no-decorate'', ''--first-parent'', ''--all'']
      else if verb = ''show'' then
        [''--no-ext-diff'', ''--no-textconv'', ''--stat'', ''--name-only'', ''--name-status'', ''--no-color'',
         ''--no-patch'', ''-s'', ''--oneline'', ''--decorate'', ''--no-decorate'']
      else if verb = ''rev-parse'' then
        [''--verify'', ''--quiet'', ''-q'', ''--short'', ''--show-toplevel'', ''--show-prefix'',
         ''--is-inside-work-tree'', ''--is-bare-repository'', ''--is-shallow-repository'', ''--show-object-format'']
      else [])"

definition git_flag_allowed :: "string \<Rightarrow> string \<Rightarrow> bool" where
  "git_flag_allowed verb argument \<longleftrightarrow> argument \<in> set (strict_git_flags verb)"

definition validate_git_path_value :: "string \<Rightarrow> string \<Rightarrow> string \<Rightarrow> preparation_error + unit" where
  "validate_git_path_value value worktree scratch_root =
     (if value = [] \<or> starts_with ''-'' value then Inl (PolicyError ''Git pathspec is empty or option-like'')
      else if is_absolute value \<and> \<not> path_starts_with worktree value \<and> \<not> path_starts_with scratch_root value
           then Inl (PolicyError ''Git pathspec escapes job roots'')
      else if has_parent_dir value then Inl (PolicyError ''Git pathspec contains parent traversal'')
      else if is_credential_path value then Inl (PolicyError ''Git credential-oriented pathspec is forbidden'')
      else Inr ())"

definition prefixed :: "string \<Rightarrow> (string \<Rightarrow> bool) \<Rightarrow> string \<Rightarrow> bool" where
  "prefixed p ok argument = (case strip_prefix p argument of None \<Rightarrow> False | Some v \<Rightarrow> ok v)"

text \<open>The options with a value in the same argument, by verb.\<close>

definition git_inline_allowed :: "string \<Rightarrow> string \<Rightarrow> bool" where
  "git_inline_allowed verb argument \<longleftrightarrow>
     prefixed ''--max-count='' (\<lambda>v. verb = ''log'' \<and> valid_positive_integer v) argument
     \<or> prefixed ''--unified='' (\<lambda>v. verb = ''diff'' \<and> valid_nonnegative_integer v) argument
     \<or> (case (case strip_prefix ''--format='' argument of None \<Rightarrow> strip_prefix ''--pretty='' argument | Some v \<Rightarrow> Some v) of
          None \<Rightarrow> False | Some v \<Rightarrow> verb \<in> {''log'', ''show''} \<and> v \<noteq> [])
     \<or> prefixed ''--color='' (\<lambda>v. verb \<in> {''diff'', ''log'', ''show''} \<and> v = ''never'') argument
     \<or> prefixed ''--porcelain='' (\<lambda>v. verb = ''status'' \<and> v \<in> {''v1'', ''v2''}) argument
     \<or> prefixed ''--untracked-files='' (\<lambda>v. verb = ''status'' \<and> v \<in> {''no'', ''normal'', ''all''}) argument"

definition strict_grammar_error :: "string \<Rightarrow> string \<Rightarrow> preparation_error" where
  "strict_grammar_error verb argument =
     PolicyError (''Git '' @ verb @ '' option is not in the strict read-only grammar: '' @ argument)"

text \<open>
  The loop of \<^verbatim>\<open>validate_git_args\<close>, with the pathspec mode and the two flags that switch off
  external programs; it returns the two flags.
\<close>

fun git_args_from ::
    "string \<Rightarrow> string \<Rightarrow> string \<Rightarrow> bool \<Rightarrow> bool \<Rightarrow> bool \<Rightarrow> string list \<Rightarrow> preparation_error + bool \<times> bool" where
  "git_args_from verb wt scratch pathspecs no_ext no_textconv [] = Inr (no_ext, no_textconv)"
| "git_args_from verb wt scratch pathspecs no_ext no_textconv (argument # rest) =
     (if pathspecs then
        rbind (validate_git_path_value argument wt scratch) (\<lambda>_.
          git_args_from verb wt scratch pathspecs no_ext no_textconv rest)
      else if argument = ''--'' then git_args_from verb wt scratch True no_ext no_textconv rest
      else if \<not> starts_with ''-'' argument \<or> argument = ''-'' then
        (if verb = ''status''
         then Inl (PolicyError ''Git status pathspecs must follow an explicit -- separator'')
         else git_args_from verb wt scratch pathspecs no_ext no_textconv rest)
      else
        (let no_ext' = (no_ext \<or> argument = ''--no-ext-diff''); no_textconv' = (no_textconv \<or> argument = ''--no-textconv'')
         in if git_flag_allowed verb argument \<or> git_inline_allowed verb argument
            then git_args_from verb wt scratch pathspecs no_ext' no_textconv' rest
            else if argument \<in> {''-n'', ''--max-count''} then
              (case rest of
                 [] \<Rightarrow> Inl (PolicyError ''Git max-count option requires a value'')
               | value # rest' \<Rightarrow>
                   if verb = ''log'' \<and> valid_positive_integer value
                   then git_args_from verb wt scratch pathspecs no_ext' no_textconv' rest'
                   else Inl (strict_grammar_error verb argument))
            else Inl (strict_grammar_error verb argument)))"

definition strict_git_verbs :: "string list" where
  "strict_git_verbs = [''diff'', ''status'', ''log'', ''show'', ''rev-parse'']"

definition patch_verbs :: "string list" where
  "patch_verbs = [''diff'', ''log'', ''show'']"

definition validate_git_args :: "string list \<Rightarrow> string \<Rightarrow> string \<Rightarrow> preparation_error + unit" where
  "validate_git_args args worktree scratch_root =
     (let verb = (case args of [] \<Rightarrow> [] | v # _ \<Rightarrow> v)
      in if verb \<notin> set strict_git_verbs
         then Inl (PolicyError ''Git command may read state but may not mutate refs or files'')
         else rbind (git_args_from verb worktree scratch_root False False False (tl args)) (\<lambda>(no_ext, no_textconv).
           if verb \<in> set patch_verbs \<and> (\<not> no_ext \<or> \<not> no_textconv)
           then Inl (PolicyError (''Git '' @ verb @ '' must explicitly disable external diff and textconv execution''))
           else Inr ()))"

section \<open>Programs and arguments\<close>

definition network_clients :: "string list" where
  "network_clients = [''curl'', ''wget'', ''ssh'', ''scp'', ''sftp'', ''nc'', ''ncat'', ''telnet'', ''ftp'']"

definition shell_interpreters :: "string list" where
  "shell_interpreters = [''sh'', ''bash'', ''zsh'', ''fish'']"

definition check_argument :: "string \<Rightarrow> string \<Rightarrow> string \<Rightarrow> bool \<Rightarrow> string \<Rightarrow> preparation_error + unit" where
  "check_argument program worktree scratch_root network_allowed argument =
     (let lowercase = to_ascii_lowercase argument
      in if has_nul argument \<or> CHR 0x0A \<in> set argument \<or> CHR 0x0D \<in> set argument
         then Inl (PolicyError ''command arguments may not contain control separators'')
         else if \<not> network_allowed \<and> (contains_str ''http://'' lowercase \<or> contains_str ''https://'' lowercase
                \<or> starts_with ''ssh://'' lowercase \<or> starts_with ''git@'' lowercase)
         then Inl (PolicyError ''network-oriented command argument is forbidden'')
         else if is_absolute argument \<and> \<not> path_starts_with worktree argument
                \<and> \<not> path_starts_with scratch_root argument \<and> \<not> path_eq argument program
         then Inl (PolicyError ''absolute command argument escapes job roots'')
         else if has_parent_dir argument
         then Inl (PolicyError ''parent traversal in command argument is forbidden'')
         else if is_credential_path argument
         then Inl (PolicyError ''credential-oriented command argument is forbidden'')
         else Inr ())"

fun check_arguments :: "(string \<Rightarrow> preparation_error + unit) \<Rightarrow> string list \<Rightarrow> preparation_error + unit" where
  "check_arguments check [] = Inr ()"
| "check_arguments check (a # as) = rbind (check a) (\<lambda>_. check_arguments check as)"

definition program_name :: "string \<Rightarrow> string" where
  "program_name program = to_ascii_lowercase (case file_name program of None \<Rightarrow> [] | Some n \<Rightarrow> n)"

definition validate_program_and_args ::
    "string \<Rightarrow> string list \<Rightarrow> string \<Rightarrow> string \<Rightarrow> bool \<Rightarrow> preparation_error + unit" where
  "validate_program_and_args program args worktree scratch_root network_allowed =
     (let name = program_name program
      in if \<not> network_allowed \<and> name \<in> set network_clients
         then Inl (PolicyError ''known network client is forbidden'')
         else if name \<in> set shell_interpreters
         then Inl (PolicyError ''shell interpreters are not validation commands'')
         else if name = ''env'' \<and> args \<noteq> []
         then Inl (PolicyError ''env may inspect the sanitized environment but cannot launch another command'')
         else rbind (if name = ''git'' then validate_git_args args worktree scratch_root else Inr ()) (\<lambda>_.
              check_arguments (check_argument program worktree scratch_root network_allowed) args))"

definition sanitized_environment :: "string \<Rightarrow> (string \<times> string) list" where
  "sanitized_environment scratch_root =
     [(''HOME'', path_join scratch_root ''home''), (''TMPDIR'', path_join scratch_root ''tmp''),
      (''PATH'', ''/usr/bin:/bin:/usr/sbin:/sbin''), (''LANG'', ''C''), (''LC_ALL'', ''C'')]"

definition prepare_command ::
    "file_system \<Rightarrow> (string \<Rightarrow> bool) \<Rightarrow> (string \<Rightarrow> string) \<Rightarrow> string \<Rightarrow> string list \<Rightarrow> string \<Rightarrow> string \<Rightarrow> string
     \<Rightarrow> nat \<times> nat \<times> bool \<Rightarrow> preparation_error + prepared_command" where
  "prepare_command fs create_dir_all io_message program args cwd worktree scratch_root bounds =
     (case bounds of (timeout_ms, max_output_bytes, network_allowed) \<Rightarrow>
        if timeout_ms = 0 \<or> max_output_bytes = 0
        then Inl (InvalidManifest ''validation command bounds must be non-zero'')
        else
          rbind (ok_or (InvalidPath program (io_message program)) (fs_canonicalize fs program)) (\<lambda>prog.
          if \<not> fs_is_file fs prog then Inl (InvalidPath prog ''command is not a regular file'')
          else
          rbind (ok_or (InvalidPath cwd (io_message cwd)) (fs_canonicalize fs cwd)) (\<lambda>dir.
          if \<not> path_starts_with worktree dir then Inl (PathEscape dir worktree)
          else
          rbind (validate_program_and_args prog args worktree scratch_root network_allowed) (\<lambda>_.
          if \<not> create_dir_all (path_join scratch_root ''home'') \<or> \<not> create_dir_all (path_join scratch_root ''tmp'')
          then Inl IoError
          else Inr \<lparr>pc_program = prog, pc_args = args, pc_cwd = dir, pc_timeout_ms = timeout_ms,
                    pc_max_output_bytes = max_output_bytes, pc_environment = sanitized_environment scratch_root,
                    pc_readonly_safe = False\<rparr>))))"

definition run_cancellable ::
    "file_system \<Rightarrow> (prepared_command \<Rightarrow> preparation_error + 'o) \<Rightarrow> policy_launcher \<Rightarrow> string
     \<Rightarrow> preparation_error + 'o" where
  "run_cancellable fs execute pl command_id =
     (case map_of (pl_commands pl) command_id of
        None \<Rightarrow> Inl (PolicyError (''command '' @ command_id @ '' is not in the exact allowlist''))
      | Some prepared \<Rightarrow>
          (let stale = Inl (PolicyError ''named command path identity is no longer valid'')
           in rbind (canonical_or_io fs (pl_worktree pl)) (\<lambda>wt.
              if \<not> path_eq wt (pl_worktree pl) then stale
              else rbind (canonical_or_io fs (pc_cwd prepared)) (\<lambda>cwd.
              if \<not> path_eq cwd (pc_cwd prepared) \<or> \<not> path_starts_with (pl_worktree pl) (pc_cwd prepared) then stale
              else rbind (canonical_or_io fs (pc_program prepared)) (\<lambda>program.
              if \<not> path_eq program (pc_program prepared) \<or> \<not> fs_is_file fs (pc_program prepared) then stale
              else
                (let decision = decide fs pl (ExecuteRequest (pc_program prepared) (pc_args prepared) (pc_cwd prepared)) Allow
                 in if \<not> pd_allowed decision then Inl (PolicyError (pd_reason decision)) else execute prepared))))))"

section \<open>What a prepared command can do\<close>

lemma check_arguments_ok: "check_arguments check as = Inr u \<longleftrightarrow> list_all (\<lambda>a. check a = Inr ()) as"
  by (induction as) (auto simp: rbind_Inr)

lemma valid_positive_no_dash: "valid_positive_integer v \<Longrightarrow> \<not> starts_with ''-'' v"
  by (cases v) (auto simp: valid_positive_integer_def parse_uint_def Let_def starts_with_def is_ascii_digit_def
      split: if_splits option.splits)

text \<open>One accepted option is allowed as a flag or with its value; a count takes the next argument.\<close>

definition strict_option :: "string \<Rightarrow> string \<Rightarrow> bool" where
  "strict_option verb a \<longleftrightarrow> git_flag_allowed verb a \<or> git_inline_allowed verb a \<or> (verb = ''log'' \<and> a \<in> {''-n'', ''--max-count''})
     \<or> \<not> starts_with ''-'' a \<or> a = ''-''"

lemma git_args_step:
  assumes "git_args_from verb wt scratch False e t (a # rest) = Inr r" and "a \<noteq> ''--''"
  shows "strict_option verb a \<and> (\<exists>e2 t2. (e2 \<longrightarrow> e \<or> a = ''--no-ext-diff'') \<and> (t2 \<longrightarrow> t \<or> a = ''--no-textconv'')
     \<and> (git_args_from verb wt scratch False e2 t2 rest = Inr r
        \<or> (\<exists>v rest'. rest = v # rest' \<and> valid_positive_integer v \<and> git_args_from verb wt scratch False e2 t2 rest' = Inr r)))"
proof -
  note step = assms(1) [unfolded git_args_from.simps(2) Let_def]
  show ?thesis
  proof (cases "\<not> starts_with ''-'' a \<or> a = ''-''")
    case True
    then have "strict_option verb a" "git_args_from verb wt scratch False e t rest = Inr r"
      using step assms(2) by (auto simp: strict_option_def simp del: git_args_from.simps split: if_splits)
    then show ?thesis by blast
  next
    case False
    let ?e = "e \<or> a = ''--no-ext-diff''" and ?t = "t \<or> a = ''--no-textconv''"
    have "strict_option verb a \<and> (git_args_from verb wt scratch False ?e ?t rest = Inr r
        \<or> (\<exists>v rest'. rest = v # rest' \<and> valid_positive_integer v \<and> git_args_from verb wt scratch False ?e ?t rest' = Inr r))"
      using step assms(2) False
      by (cases rest) (auto simp: strict_option_def simp del: git_args_from.simps split: if_splits)
    then show ?thesis by blast
  qed
qed

lemma git_args_paths:
  assumes "git_args_from verb wt scratch True e t args = Inr (e', t')"
  shows "e' = e \<and> t' = t \<and> list_all (\<lambda>a. validate_git_path_value a wt scratch = Inr ()) args"
  using assms by (induction args) (auto simp: rbind_Inr)

lemma git_args_options:
  assumes "git_args_from verb wt scratch False e t args = Inr (e', t')"
  shows "list_all (strict_option verb) (takeWhile (\<lambda>a. a \<noteq> ''--'') args)
     \<and> (e' \<longrightarrow> e \<or> ''--no-ext-diff'' \<in> set (takeWhile (\<lambda>a. a \<noteq> ''--'') args))
     \<and> (t' \<longrightarrow> t \<or> ''--no-textconv'' \<in> set (takeWhile (\<lambda>a. a \<noteq> ''--'') args))
     \<and> list_all (\<lambda>a. validate_git_path_value a wt scratch = Inr ()) (tl (dropWhile (\<lambda>a. a \<noteq> ''--'') args))"
  using assms
proof (induction args arbitrary: e t rule: length_induct)
  case (1 args)
  show ?case
  proof (cases "args = [] \<or> hd args = ''--''")
    case True
    then show ?thesis using "1.prems" by (cases args) (auto dest: git_args_paths)
  next
    case False
    then obtain a rest where args: "args = a # rest" "a \<noteq> ''--''" by (cases args) auto
    obtain e2 t2 where st: "strict_option verb a" "e2 \<longrightarrow> e \<or> a = ''--no-ext-diff''" "t2 \<longrightarrow> t \<or> a = ''--no-textconv''"
        and nxt: "git_args_from verb wt scratch False e2 t2 rest = Inr (e', t')
          \<or> (\<exists>v rest'. rest = v # rest' \<and> valid_positive_integer v \<and> git_args_from verb wt scratch False e2 t2 rest' = Inr (e', t'))"
      using git_args_step [OF "1.prems" [unfolded args(1)] args(2)]
      by (elim conjE exE) (rule that; assumption)
    have v: "strict_option verb v \<and> v \<noteq> ''--''" if "valid_positive_integer v" for v
      using valid_positive_no_dash [OF that] by (auto simp: strict_option_def starts_with_def)
    from nxt show ?thesis
    proof
      assume "git_args_from verb wt scratch False e2 t2 rest = Inr (e', t')"
      then show ?thesis
        using "1.IH" [rule_format, of rest e2 t2] st args by (auto simp del: git_args_from.simps)
    next
      assume "\<exists>v rest'. rest = v # rest' \<and> valid_positive_integer v \<and> git_args_from verb wt scratch False e2 t2 rest' = Inr (e', t')"
      then obtain w rest' where "rest = w # rest'" "valid_positive_integer w"
          "git_args_from verb wt scratch False e2 t2 rest' = Inr (e', t')" by blast
      then show ?thesis
        using "1.IH" [rule_format, of rest' e2 t2] st args v [of w] by (auto simp del: git_args_from.simps)
    qed
  qed
qed

lemma check_argument_ok:
  "check_argument program wt scratch network a = Inr () \<longleftrightarrow>
     \<not> has_nul a \<and> CHR 0x0A \<notin> set a \<and> CHR 0x0D \<notin> set a
     \<and> (network \<or> \<not> (contains_str ''http://'' (to_ascii_lowercase a) \<or> contains_str ''https://'' (to_ascii_lowercase a)
          \<or> starts_with ''ssh://'' (to_ascii_lowercase a) \<or> starts_with ''git@'' (to_ascii_lowercase a)))
     \<and> (is_absolute a \<longrightarrow> path_starts_with wt a \<or> path_starts_with scratch a \<or> path_eq a program)
     \<and> \<not> has_parent_dir a \<and> \<not> is_credential_path a"
  unfolding check_argument_def Let_def by auto

lemma validate_program_ok:
  assumes "validate_program_and_args program args wt scratch network = Inr u"
  shows "program_name program \<notin> set shell_interpreters \<and> (network \<or> program_name program \<notin> set network_clients)
     \<and> list_all (\<lambda>a. check_argument program wt scratch network a = Inr ()) args
     \<and> (program_name program = ''git'' \<longrightarrow> validate_git_args args wt scratch = Inr ())"
proof -
  have "rbind (if program_name program = ''git'' then validate_git_args args wt scratch else Inr ()) (\<lambda>_.
      check_arguments (check_argument program wt scratch network) args) = Inr u"
    and "program_name program \<notin> set shell_interpreters" "network \<or> program_name program \<notin> set network_clients"
    using assms unfolding validate_program_and_args_def Let_def by (metis sum.distinct(1))+
  then show ?thesis
    by (auto simp: rbind_Inr check_arguments_ok split: if_splits)
qed

lemma prepare_command_ok:
  assumes "prepare_command fs mkdirs msg program args cwd wt scratch (timeout, output, network) = Inr c"
  shows "validate_program_and_args (pc_program c) args wt scratch network = Inr ()
     \<and> fs_canonicalize fs program = Some (pc_program c) \<and> fs_is_file fs (pc_program c)
     \<and> fs_canonicalize fs cwd = Some (pc_cwd c) \<and> path_starts_with wt (pc_cwd c)
     \<and> pc_timeout_ms c = timeout \<and> 0 < timeout \<and> pc_max_output_bytes c = output \<and> 0 < output
     \<and> map fst (pc_environment c) = [''HOME'', ''TMPDIR'', ''PATH'', ''LANG'', ''LC_ALL''] \<and> pc_args c = args"
  using assms by (auto simp: prepare_command_def rbind_Inr sanitized_environment_def split: if_splits)

text \<open>
  A prepared command is bounded and sanitised. When a command is accepted, its
  program is a real regular file that is no shell and, without network permission, no known
  network client; it runs in a real directory of the worktree with non-zero bounds and exactly
  the five variables of the sanitised environment; and no argument contains a separator, a
  parent component or a credential name, or is an absolute path outside the worktree and the
  scratch root other than the program.
\<close>

theorem prepared_commands_are_bounded:
  assumes "prepare_command fs mkdirs msg program args cwd wt scratch (timeout, output, network) = Inr c"
  shows "fs_canonicalize fs program = Some (pc_program c) \<and> fs_is_file fs (pc_program c)
     \<and> program_name (pc_program c) \<notin> set shell_interpreters
     \<and> (network \<or> program_name (pc_program c) \<notin> set network_clients)
     \<and> fs_canonicalize fs cwd = Some (pc_cwd c) \<and> path_starts_with wt (pc_cwd c)
     \<and> 0 < pc_timeout_ms c \<and> 0 < pc_max_output_bytes c
     \<and> map fst (pc_environment c) = [''HOME'', ''TMPDIR'', ''PATH'', ''LANG'', ''LC_ALL'']
     \<and> list_all (\<lambda>a. \<not> has_nul a \<and> CHR 0x0A \<notin> set a \<and> \<not> has_parent_dir a \<and> \<not> is_credential_path a
          \<and> (is_absolute a \<longrightarrow> path_starts_with wt a \<or> path_starts_with scratch a \<or> path_eq a (pc_program c))) (pc_args c)"
proof -
  note p = prepare_command_ok [OF assms]
  note v = validate_program_ok [OF conjunct1 [OF p]]
  show ?thesis
    using p v by (auto simp: check_argument_ok list_all_iff)
qed

theorem prepared_commands_are_bounded_witness:
  "\<exists>c. prepare_command demo_fs (\<lambda>_. True) id ''/bin/ls'' [''-l'', ''a''] ''/w'' ''/w'' ''/s'' (5, 6, False) = Inr c
     \<and> path_starts_with ''/w'' (pc_cwd c)"
proof -
  have "\<exists>c. prepare_command demo_fs (\<lambda>_. True) id ''/bin/ls'' [''-l'', ''a''] ''/w'' ''/w'' ''/s'' (5, 6, False) = Inr c"
    by (simp add: prepare_command_def demo_fs_def validate_program_and_args_def check_argument_def program_name_def
        network_clients_def shell_interpreters_def is_credential_path_def credential_component_def credential_names_def
        has_nul_def to_ascii_lowercase_def ascii_lower_char_def ends_with_def path_eval)
  then show ?thesis
    using prepared_commands_are_bounded [of demo_fs "\<lambda>_. True" id "''/bin/ls''" "[''-l'', ''a'']" "''/w''" "''/w''" "''/s''" 5 6 False]
    by blast
qed

text \<open>
  A prepared git command only reads and runs no helper. The verb is one of five;
  every option before the separator is in the strict list of the verb; for \<^verbatim>\<open>diff\<close>, \<^verbatim>\<open>log\<close> and
  \<^verbatim>\<open>show\<close> both switches against external diff and text conversion programs are present before
  the separator; and every pathspec after it stays in the job roots.
\<close>

theorem prepared_git_only_reads:
  assumes "validate_git_args (verb # args) wt scratch = Inr ()"
  shows "verb \<in> set strict_git_verbs
     \<and> list_all (strict_option verb) (takeWhile (\<lambda>a. a \<noteq> ''--'') args)
     \<and> (verb \<in> set patch_verbs \<longrightarrow> {''--no-ext-diff'', ''--no-textconv''} \<subseteq> set (takeWhile (\<lambda>a. a \<noteq> ''--'') args))
     \<and> list_all (\<lambda>a. \<not> starts_with ''-'' a \<and> \<not> has_parent_dir a \<and> \<not> is_credential_path a
          \<and> (is_absolute a \<longrightarrow> path_starts_with wt a \<or> path_starts_with scratch a)) (tl (dropWhile (\<lambda>a. a \<noteq> ''--'') args))"
proof -
  obtain e t where g: "git_args_from verb wt scratch False False False args = Inr (e, t)"
    and v: "verb \<in> set strict_git_verbs" and et: "verb \<in> set patch_verbs \<longrightarrow> e \<and> t"
    using assms by (auto simp: validate_git_args_def rbind_Inr simp del: git_args_from.simps split: if_splits)
  note opts = git_args_options [OF g]
  have "list_all (\<lambda>a. \<not> starts_with ''-'' a \<and> \<not> has_parent_dir a \<and> \<not> is_credential_path a
      \<and> (is_absolute a \<longrightarrow> path_starts_with wt a \<or> path_starts_with scratch a)) (tl (dropWhile (\<lambda>a. a \<noteq> ''--'') args))"
    by (rule list.pred_mono_strong [of "\<lambda>a. validate_git_path_value a wt scratch = Inr ()"])
       (use opts in \<open>auto simp: validate_git_path_value_def split: if_splits\<close>)
  then show ?thesis using opts v et by auto
qed

theorem prepared_git_only_reads_witness:
  "{''--no-ext-diff'', ''--no-textconv''} \<subseteq> set (takeWhile (\<lambda>a. a \<noteq> ''--'') [''--no-ext-diff'', ''--no-textconv'', ''--'', ''a''])"
  using prepared_git_only_reads [of "''diff''" "[''--no-ext-diff'', ''--no-textconv'', ''--'', ''a'']" "''/w''" "''/s''"]
  by (simp add: validate_git_args_def strict_git_verbs_def patch_verbs_def git_flag_allowed_def strict_git_flags_def starts_with_def validate_git_path_value_def
      is_credential_path_def credential_component_def credential_names_def to_ascii_lowercase_def ascii_lower_char_def
      ends_with_def path_eval)

text \<open>
  Only a named command runs, unchanged, and only while the worktree, its directory and its
  program are still what they were when it was prepared.
\<close>

theorem only_named_commands_run:
  assumes "run_cancellable fs execute pl command_id = Inr result"
  shows "\<exists>c. map_of (pl_commands pl) command_id = Some c \<and> execute c = Inr result
     \<and> list_all (\<lambda>p. \<exists>real. fs_canonicalize fs p = Some real \<and> path_eq real p) [pl_worktree pl, pc_cwd c, pc_program c]
     \<and> path_starts_with (pl_worktree pl) (pc_cwd c) \<and> fs_is_file fs (pc_program c)"
  using assms
  by (auto simp: run_cancellable_def canonical_or_io_def rbind_Inr Let_def split: option.splits if_splits)

end
