(* ===== verification/Policy_Denial.thy ===== *)
theory Policy_Denial
  imports Policy_Props
begin

text \<open>
  How a refusal is reported (\<^verbatim>\<open>permission_denial_semantics\<close> and what it calls in
  \<^verbatim>\<open>crates/zcode-agent-preparation/src/policy.rs\<close>): the identity of the denied operation, the reason, whether
  to retry, and the text sent back to the agent.
\<close>

record denial_semantics =
  ds_program_family :: string
  ds_category :: string
  ds_reason_code :: string
  ds_operand_class :: string
  ds_retry_class :: string
  ds_recommended_action :: string

definition AGENT_BASH_POLICY_VERSION :: string where
  "AGENT_BASH_POLICY_VERSION = ''zcode-agent-bash/v1.0.0''"

definition denial_fingerprint :: "denial_semantics \<Rightarrow> string" where
  "denial_fingerprint d = ''family='' @ ds_program_family d @ '';category='' @ ds_category d
     @ '';reason='' @ ds_reason_code d @ '';operand='' @ ds_operand_class d"

definition denial_feedback :: "denial_semantics \<Rightarrow> bool \<Rightarrow> string" where
  "denial_feedback d repeated =
     (if repeated
      then ''DENY[policy_version='' @ AGENT_BASH_POLICY_VERSION
         @ '';code=REPEATED_DENIED_OPERATION;retry=do_not_retry_equivalent;next=use_read_or_existing_inputs;original_code=''
         @ ds_reason_code d @ '']''
      else ''DENY[policy_version='' @ AGENT_BASH_POLICY_VERSION @ '';code='' @ ds_reason_code d
         @ '';retry='' @ ds_retry_class d @ '';next='' @ ds_recommended_action d @ '']'')"

type_synonym denial_identity = "string \<times> string \<times> string \<times> string"

definition read_denial_identity :: "string \<Rightarrow> json \<Rightarrow> string \<Rightarrow> denial_identity" where
  "read_denial_identity tool input reason =
     (let path = (if tool = ''read'' then zcode_file_path input else json_get_str ''path'' input)
      in if reason = ''credential_read_denied'' \<or> (case path of None \<Rightarrow> False | Some p \<Rightarrow> is_credential_path p)
         then (tool, ''path'', ''credential_read_denied'', ''sensitive_path'')
         else if reason \<in> {''read_path_escape_denied'', ''agent_metadata_read_denied''}
              \<or> (case path of None \<Rightarrow> False | Some p \<Rightarrow> has_parent_dir p)
         then (tool, ''path'', ''read_path_escape_denied'', ''outside_scope'')
         else (tool, ''path'', reason, if path \<noteq> None then ''unavailable_path'' else ''missing_path''))"

fun git_denial_category :: "string list \<Rightarrow> string" where
  "git_denial_category [] = ''unknown''"
| "git_denial_category (v # rest) =
     (if v \<in> {''-C'', ''-c'', ''--git-dir'', ''--work-tree''} then git_denial_category (drop 1 rest)
      else if starts_with ''--git-dir='' v \<or> starts_with ''--work-tree='' v \<or> starts_with ''-c'' v \<or> v = ''--no-pager''
           then git_denial_category rest
      else to_ascii_lowercase (dropWhile (\<lambda>c. c = CHR ''-'') v))"

definition git_mutations :: "string list" where
  "git_mutations = [''add'', ''apply'', ''branch'', ''checkout'', ''clean'', ''commit'', ''merge'', ''mv'', ''rebase'',
     ''reset'', ''restore'', ''rm'', ''switch'', ''tag'']"

definition git_denial_operand_class :: "string list \<Rightarrow> string" where
  "git_denial_operand_class args =
     (if ''-C'' \<in> set args then ''cwd_override''
      else if list_ex (\<lambda>v. v = ''-c'' \<or> starts_with ''-c'' v) args then ''config_override''
      else if list_ex (\<lambda>v. v \<in> {''--git-dir'', ''--work-tree''} \<or> starts_with ''--git-dir='' v
             \<or> starts_with ''--work-tree='' v) args then ''repository_override''
      else if list_ex (\<lambda>v. v \<in> {''--output'', ''--ext-diff'', ''--textconv'', ''--no-index''}
             \<or> starts_with ''--output='' v) args then ''write_option''
      else if list_ex (\<lambda>v. is_credential_path v \<or> is_agent_metadata_path v) args then ''sensitive_path''
      else if args \<noteq> [] \<and> hd args \<in> set git_mutations then ''mutation''
      else ''option_or_operand'')"

definition lowercase_file_name :: "string option \<Rightarrow> string" where
  "lowercase_file_name p = to_ascii_lowercase (case Option.bind p file_name of None \<Rightarrow> ''unknown'' | Some n \<Rightarrow> n)"

definition program_denial_identity :: "string \<Rightarrow> string list \<Rightarrow> denial_identity" where
  "program_denial_identity family args =
     (let credential = list_ex is_credential_path args; metadata = list_ex is_agent_metadata_path args;
          operand_class = (if credential \<or> metadata then ''sensitive_path''
                           else if list_ex (starts_with ''-'') args then ''option''
                           else if args = [] then ''missing_path'' else ''path'');
          reason = (if operand_class = ''sensitive_path'' \<and> metadata then ''agent_metadata_read_denied''
                    else if operand_class = ''sensitive_path'' then ''credential_read_denied''
                    else if operand_class = ''missing_path'' then ''command_option_not_allowlisted''
                    else ''external_policy_denied'')
      in (family, family, reason, operand_class))"

definition bash_denial_identity :: "string \<Rightarrow> denial_identity" where
  "bash_denial_identity command =
     (case tokenize_agent_bash command of
        None \<Rightarrow> (''shell'', ''composition'', ''shell_composition_or_expansion_denied'',
                 if CHR 0x0A \<in> set command \<or> CHR 0x0D \<in> set command then ''multiline'' else ''compound_command'')
      | Some argv \<Rightarrow>
          (let family = lowercase_file_name (case argv of [] \<Rightarrow> None | p # _ \<Rightarrow> Some p); args = tl argv
           in if \<not> agent_bash_program_allowed family
              then (family, ''program'', ''command_not_allowlisted'', ''program'')
              else if family = ''git'' then
                (let operand_class = git_denial_operand_class args
                 in (family, git_denial_category args,
                     if operand_class = ''sensitive_path'' then ''git_sensitive_path_denied''
                     else ''git_option_or_mutation_denied'', operand_class))
              else program_denial_identity family args))"

definition network_programs :: "string list" where
  "network_programs = [''curl'', ''wget'', ''ssh'', ''scp'', ''sftp'', ''nc'', ''ncat'', ''telnet'']"

definition build_programs :: "string list" where
  "build_programs = [''cargo'', ''rustc'', ''npm'', ''npx'', ''pnpm'', ''yarn'', ''bun'', ''docker'', ''make'', ''cmake'',
     ''pytest'', ''python'', ''python3'', ''go'']"

definition sensitive_words :: "string list" where
  "sensitive_words = [''credential'', ''sensitive'', ''secret'', ''network'', ''write'', ''mutation'', ''outside'',
     ''escape'', ''protected'', ''agent_metadata'']"

definition denial_recovery :: "string \<Rightarrow> string \<Rightarrow> string \<Rightarrow> string \<Rightarrow> string \<times> string" where
  "denial_recovery tool family reason operand_class =
     (if starts_with ''shell_'' reason \<or> contains_str ''multiline'' reason
         \<or> reason = ''shell_composition_or_expansion_denied'' then (''split_once'', ''split_into_single_commands'')
      else if tool = ''read'' \<and> reason \<in> {''read_path_unverifiable'', ''permission_request_unrecognized''}
           then (''simplify_once'', ''correct_read_path_once'')
      else if family = ''git'' \<and> operand_class \<in> {''cwd_override'', ''config_override'', ''repository_override''}
           then (''simplify_once'', ''remove_denied_option_once'')
      else if contains_str ''option_not_allowlisted'' reason \<and> operand_class \<notin> {''write_option'', ''mutation'', ''sensitive_path''}
           then (''simplify_once'', ''remove_denied_option_once'')
      else if reason \<in> {''command_not_allowlisted'', ''program_not_allowlisted''} then
        (if family \<in> set network_programs then (''do_not_retry_equivalent'', ''stop_evidence_path'')
         else if family \<in> set build_programs then (''use_named_check'', ''use_named_check'')
         else (''use_read'', ''use_read_or_prepared_inputs''))
      else if list_ex (\<lambda>w. contains_str w reason) sensitive_words \<or> reason = ''external_policy_denied''
           \<or> operand_class \<in> {''write_option'', ''mutation'', ''sensitive_path'', ''outside_scope''}
           then (''do_not_retry_equivalent'', ''stop_evidence_path'')
      else (''use_read'', ''use_read_or_prepared_inputs''))"

definition denial_identity_of :: "string \<Rightarrow> json \<Rightarrow> string \<Rightarrow> denial_identity" where
  "denial_identity_of tool input reason =
     (if tool = ''bash'' then
        (case json_get_str ''command'' input of
           Some command \<Rightarrow> bash_denial_identity command
         | None \<Rightarrow> (''bash'', ''command'', ''bash_command_missing'', ''missing_command''))
      else if tool \<in> {''read'', ''grep'', ''glob''} then read_denial_identity tool input reason
      else if tool \<in> {''write'', ''edit'', ''delete'', ''move''} then (tool, ''write'', ''write_denied'', ''mutation'')
      else if tool \<in> {''execute'', ''terminal''} then
        (lowercase_file_name (json_get_str ''program'' input), ''execute'', ''command_not_allowlisted'', ''program'')
      else if tool = ''network'' then (''network'', ''network'', ''network_not_enforced_and_request_denied'', ''network'')
      else if tool = ''git_ref_mutation'' then (''git'', ''ref_mutation'', ''git_ref_mutation_denied'', ''mutation'')
      else if starts_with ''mcp__'' tool
           then (''named_check'', ''named_check'', ''permission_request_unrecognized'', ''named_check'')
      else (tool, ''unknown'', ''permission_request_unrecognized'', ''unknown''))"

definition permission_denial_semantics :: "json \<Rightarrow> string \<Rightarrow> denial_semantics option" where
  "permission_denial_semantics params validated_reason =
     (let tool = to_ascii_lowercase (case json_get_str ''toolName'' params of None \<Rightarrow> ''unknown'' | Some t \<Rightarrow> t)
      in case denial_identity_of tool (request_input params) validated_reason of
           (family, category, inferred, operand_class) \<Rightarrow>
             (let reason = (if validated_reason = [] then inferred else validated_reason)
              in case denial_recovery tool family reason operand_class of
                   (retry, action) \<Rightarrow>
                     Some \<lparr>ds_program_family = family, ds_category = category, ds_reason_code = reason,
                           ds_operand_class = operand_class, ds_retry_class = retry, ds_recommended_action = action\<rparr>))"

definition decide_zcode_permission_validated ::
    "file_system \<Rightarrow> policy_launcher \<Rightarrow> json \<Rightarrow> external_decision
     \<Rightarrow> (permission_decision \<times> denial_semantics option) option" where
  "decide_zcode_permission_validated fs pl params external =
     map_option (\<lambda>decision.
       (decision,
        if \<not> pd_allowed decision
        then permission_denial_semantics params
               (if external = Deny then ''external_policy_denied'' else pd_reason decision)
        else None)) (decide_zcode_permission fs pl params external)"

definition validated_zcode_denial ::
    "file_system \<Rightarrow> policy_launcher \<Rightarrow> json \<Rightarrow> external_decision \<Rightarrow> denial_semantics option option" where
  "validated_zcode_denial fs pl params external =
     map_option snd (decide_zcode_permission_validated fs pl params external)"

definition external_zcode_denial :: "json \<Rightarrow> denial_semantics option" where
  "external_zcode_denial params = permission_denial_semantics params ''external_policy_denied''"

section \<open>Reasons\<close>

text \<open>Every reason a decision of the policy can give.\<close>

definition policy_reasons :: "string list" where
  "policy_reasons = [''permission_tool_missing'', ''permission_request_unrecognized'', ''external_policy_denied'',
     ''bash_command_missing'', ''cwd_outside_agent_roots'', ''shell_composition_or_expansion_denied'',
     ''command_not_allowlisted'', ''sed_form_not_bounded'', ''git_sensitive_path_denied'', ''git_option_or_mutation_denied'',
     ''command_option_not_allowlisted'', ''stdin_input_denied'', ''path_outside_agent_roots'',
     ''network_not_enforced_and_request_denied'', ''git_ref_mutation_denied'', ''credential_read_denied'',
     ''read_path_unverifiable'', ''agent_metadata_read_denied'', ''read_path_escape_denied'', ''write_path_unverifiable'',
     ''protected_worktree_metadata_denied'', ''tracked_path_not_allowlisted'', ''tracked_writes_denied_for_access_mode'',
     ''daemon_artifact_root_denied'', ''write_outside_artifact_roots_denied'']"

lemma write_denial_reasons:
  "resolved_write_denial pl t = Some r \<Longrightarrow> r \<in> set policy_reasons"
  by (auto simp: resolved_write_denial_def policy_reasons_def split: option.splits if_splits access_mode.splits)

lemma unverifiable_reason: "''write_path_unverifiable'' \<in> set policy_reasons"
  by (simp add: policy_reasons_def)

lemma parent_entry_reason: "canonical_parent_entry fs p = Inl r \<Longrightarrow> r = ''write_path_unverifiable''"
  by (auto simp: canonical_parent_entry_def rbind_def ok_or_def split: option.splits sum.splits if_splits)

lemma entry_reasons: "lexical_entry_state fs pl p must = Inl r \<Longrightarrow> r \<in> set policy_reasons"
  by (auto simp: lexical_entry_state_def denial_or_def rbind_def unverifiable_reason
      split: if_splits option.splits entry_lookup.splits sum.splits dest: write_denial_reasons parent_entry_reason)

lemma followed_reasons: "followed_write_denial fs pl p must = Some r \<Longrightarrow> r \<in> set policy_reasons"
  by (auto simp: followed_write_denial_def canonical_write_denial_def unverifiable_reason
      split: sum.splits entry_state.splits option.splits dest: entry_reasons write_denial_reasons)

lemma hard_deny_reasons: "hard_deny_reason fs pl request = Some r \<Longrightarrow> r \<in> set policy_reasons"
proof (cases request)
  case (ReadRequest p)
  assume "hard_deny_reason fs pl request = Some r"
  then show ?thesis
    unfolding ReadRequest by (auto simp: hard_deny_reason_def policy_reasons_def split: if_splits option.splits)
qed (auto simp: hard_deny_reason_def lexical_entry_denial_def policy_reasons_def [symmetric]
      intro: followed_reasons entry_reasons split: if_splits option.splits sum.splits;
     simp add: policy_reasons_def)+

lemma decide_reasons: "\<not> pd_allowed (decide fs pl request e) \<Longrightarrow> pd_reason (decide fs pl request e) \<in> set policy_reasons"
  by (auto simp: decide_def deny_def split: option.splits if_splits dest: hard_deny_reasons)
     (simp add: policy_reasons_def)

lemma decide_argv_reasons:
  assumes "decide_argv fs pl cwd argv = Some d" and "\<not> pd_allowed d"
  shows "pd_reason d \<in> set policy_reasons"
proof -
  have "d \<in> deny ` {''command_not_allowlisted'', ''sed_form_not_bounded'', ''git_sensitive_path_denied'',
      ''git_option_or_mutation_denied'', ''command_option_not_allowlisted'', ''stdin_input_denied'', ''path_outside_agent_roots''}"
    using assms unfolding decide_argv_def Let_def by (auto split: if_splits option.splits)
  then show ?thesis by (auto simp: deny_def policy_reasons_def)
qed

lemma zcode_reasons:
  assumes "decide_zcode_permission fs pl params e = Some d" and "\<not> pd_allowed d"
  shows "pd_reason d \<in> set policy_reasons"
proof -
  have "pd_reason (deny r) \<in> set policy_reasons"
    if "r \<in> {''permission_tool_missing'', ''permission_request_unrecognized'', ''external_policy_denied'',
        ''bash_command_missing'', ''cwd_outside_agent_roots'', ''shell_composition_or_expansion_denied''}" for r
    using that by (auto simp: deny_def policy_reasons_def)
  then show ?thesis
    using assms
    by (auto simp: decide_zcode_permission_def decide_agent_bash_def
        split: option.splits if_splits dest: decide_argv_reasons decide_reasons)
qed

lemma policy_reasons_not_Nil: "[] \<notin> set policy_reasons"
  by (simp add: policy_reasons_def)

definition retry_classes :: "string list" where
  "retry_classes = [''split_once'', ''simplify_once'', ''do_not_retry_equivalent'', ''use_named_check'', ''use_read'']"

definition recommended_actions :: "string list" where
  "recommended_actions = [''split_into_single_commands'', ''correct_read_path_once'', ''remove_denied_option_once'',
     ''stop_evidence_path'', ''use_named_check'', ''use_read_or_prepared_inputs'']"

lemma denial_recovery_closed:
  "fst (denial_recovery tool family reason operand) \<in> set retry_classes
   \<and> snd (denial_recovery tool family reason operand) \<in> set recommended_actions"
  unfolding denial_recovery_def by (auto simp: retry_classes_def recommended_actions_def)

lemma denial_semantics_reason:
  assumes "permission_denial_semantics params reason = Some d" and "reason \<noteq> []"
  shows "ds_reason_code d = reason \<and> ds_retry_class d \<in> set retry_classes \<and> ds_recommended_action d \<in> set recommended_actions"
  using assms
  by (auto simp: permission_denial_semantics_def Let_def split: prod.splits)
     (metis denial_recovery_closed fst_conv snd_conv)+

text \<open>
  A refusal is always explained, and only in the policy's own words. A
  validated decision carries a denial exactly when it refuses; the reason of the denial is the
  decision's reason, or the fixed external reason when the caller refused; and reason, retry
  class and recommended action come from closed lists, so the feedback never repeats text of
  the request.
\<close>

theorem denials_use_closed_vocabulary:
  assumes "decide_zcode_permission_validated fs pl params external = Some (decision, denial)"
  shows "case denial of
       None \<Rightarrow> pd_allowed decision
     | Some d \<Rightarrow> \<not> pd_allowed decision
         \<and> ds_reason_code d = (if external = Deny then ''external_policy_denied'' else pd_reason decision)
         \<and> ds_reason_code d \<in> set policy_reasons \<and> ds_retry_class d \<in> set retry_classes
         \<and> ds_recommended_action d \<in> set recommended_actions"
proof (cases "pd_allowed decision")
  case True
  then show ?thesis using assms by (auto simp: decide_zcode_permission_validated_def)
next
  case False
  let ?reason = "if external = Deny then ''external_policy_denied'' else pd_reason decision"
  have "pd_reason decision \<in> set policy_reasons"
    using assms False zcode_reasons by (auto simp: decide_zcode_permission_validated_def)
  then have reason: "?reason \<in> set policy_reasons" by (auto simp: policy_reasons_def)
  then have "?reason \<noteq> []" using policy_reasons_not_Nil by metis
  moreover obtain d where "denial = Some d" "permission_denial_semantics params ?reason = Some d"
    using assms False by (auto simp: decide_zcode_permission_validated_def permission_denial_semantics_def Let_def split: prod.splits)
  ultimately show ?thesis
    using denial_semantics_reason reason False by auto
qed

theorem denials_use_closed_vocabulary_witness:
  "case Some \<lparr>ds_program_family = ''unknown'', ds_category = ''unknown'', ds_reason_code = ''permission_tool_missing'',
        ds_operand_class = ''unknown'', ds_retry_class = ''use_read'', ds_recommended_action = ''use_read_or_prepared_inputs''\<rparr> of
       None \<Rightarrow> False
     | Some d \<Rightarrow> ds_reason_code d \<in> set policy_reasons \<and> ds_retry_class d \<in> set retry_classes"
  using denials_use_closed_vocabulary [of demo_fs "demo_launcher ReadOnly" "JObject []" Allow "deny ''permission_tool_missing''"
      "Some \<lparr>ds_program_family = ''unknown'', ds_category = ''unknown'', ds_reason_code = ''permission_tool_missing'',
        ds_operand_class = ''unknown'', ds_retry_class = ''use_read'', ds_recommended_action = ''use_read_or_prepared_inputs''\<rparr>"]
  by (simp add: decide_zcode_permission_validated_def decide_zcode_permission_def json_get_str_def deny_def
      permission_denial_semantics_def denial_identity_of_def request_input_def denial_recovery_def sensitive_words_def
      to_ascii_lowercase_def ascii_lower_char_def str_simps Let_def)

definition sensitive_reasons :: "string list" where
  "sensitive_reasons = [''credential_read_denied'', ''agent_metadata_read_denied'', ''read_path_escape_denied'',
     ''path_outside_agent_roots'', ''cwd_outside_agent_roots'', ''external_policy_denied'', ''git_ref_mutation_denied'',
     ''network_not_enforced_and_request_denied'', ''protected_worktree_metadata_denied'',
     ''tracked_writes_denied_for_access_mode'', ''write_outside_artifact_roots_denied'', ''git_sensitive_path_denied'']"

definition final_reason :: "string \<Rightarrow> bool" where
  "final_reason reason \<longleftrightarrow> (list_ex (\<lambda>w. contains_str w reason) sensitive_words \<or> reason = ''external_policy_denied'')
     \<and> \<not> starts_with ''shell_'' reason \<and> \<not> contains_str ''multiline'' reason \<and> \<not> contains_str ''option_not_allowlisted'' reason
     \<and> reason \<notin> set [''shell_composition_or_expansion_denied'', ''read_path_unverifiable'', ''permission_request_unrecognized'',
        ''command_not_allowlisted'', ''program_not_allowlisted'']"

lemma final_sensitive: "list_all final_reason sensitive_reasons"
  by code_simp

text \<open>
  A refusal that protects something never invites a retry: with a sensitive reason the retry
  class is final, unless the command is a git command that overrides its directory, its
  configuration or its repository, where removing the option once is suggested.
\<close>

theorem sensitive_denials_are_final:
  assumes "permission_denial_semantics params reason = Some d" and "reason \<in> set sensitive_reasons"
    and "ds_program_family d \<noteq> ''git'' \<or> ds_operand_class d \<notin> {''cwd_override'', ''config_override'', ''repository_override''}"
  shows "ds_retry_class d = ''do_not_retry_equivalent'' \<and> ds_recommended_action d = ''stop_evidence_path''"
proof -
  have "final_reason reason"
    using final_sensitive assms(2) by (auto simp: list_all_iff)
  then have "denial_recovery tool family reason operand = (''do_not_retry_equivalent'', ''stop_evidence_path'')"
    if "family \<noteq> ''git'' \<or> operand \<notin> {''cwd_override'', ''config_override'', ''repository_override''}" for tool family operand
    using that unfolding denial_recovery_def final_reason_def by auto
  moreover have "reason \<noteq> []" using assms(2) by (auto simp: sensitive_reasons_def)
  ultimately show ?thesis
    using assms(1,3)
    by (auto simp: permission_denial_semantics_def Let_def split: prod.splits)
qed

end
