(* ===== verification/Runtime_Owner.thy ===== *)
theory Runtime_Owner
  imports Driver_Stop Policy_Denial Systems
begin

text \<open>
  The owner of one runtime process (\<^verbatim>\<open>crates/zcode-agentd/src/lib.rs\<close>): the turn tracker, the
  publisher of lifecycle records, the cache of offered permission answers, the event pump that
  feeds them from the driver, and the callers that end the process. Every function here is one
  critical section of the code; the threads that run them are interleaved by \<open>owner_step\<close>.
  Instants are natural numbers, read from the clock by the caller and passed in.
\<close>

section \<open>Outcomes of a runtime\<close>

datatype runtime_loss =
    InvalidIdentity
  | UnsupportedIdentity
  | MissingLeader
  | IdentityMismatch
  | UnknownMembership
  | SessionLost
  | StopFailedLoss string
  | EventStreamLost

datatype runtime_terminal =
    RuntimeStopped stop_outcome
  | RuntimeCompleted stop_outcome
  | FailedTurn stop_outcome
  | RuntimeExited child_exit
  | FailedRuntimeLost runtime_loss
  | Orphaned runtime_loss

fun terminal_proves_process_group_reaped :: "runtime_terminal \<Rightarrow> bool" where
  "terminal_proves_process_group_reaped (RuntimeStopped o') = True"
| "terminal_proves_process_group_reaped (RuntimeCompleted o') = True"
| "terminal_proves_process_group_reaped (FailedTurn o') = True"
| "terminal_proves_process_group_reaped t = False"

section \<open>The turn tracker\<close>

datatype turn_boundary = TurnCompleted | TurnFailed

record turn_snapshot =
  ts_generation :: nat
  ts_active :: bool
  ts_boundary :: "turn_boundary option"

record turn_tracker = turn_snapshot +
  tt_model_request_started_at :: "nat option"
  tt_last_stream_activity_at :: "nat option"

definition TurnTracker_new :: turn_tracker where
  "TurnTracker_new = \<lparr>ts_generation = 0, ts_active = False, ts_boundary = None,
     tt_model_request_started_at = None, tt_last_stream_activity_at = None\<rparr>"

definition end_turn :: "turn_boundary \<Rightarrow> turn_tracker \<Rightarrow> turn_tracker" where
  "end_turn b t = t\<lparr>ts_active := False, ts_boundary := Some b,
     tt_model_request_started_at := None, tt_last_stream_activity_at := None\<rparr>"

text \<open>The kind of the lifecycle event an inbound record carries, if any.\<close>

definition inbound_event_type :: "inbound \<Rightarrow> string option" where
  "inbound_event_type m = (case m of Message (Event e) \<Rightarrow> event_type e | _ \<Rightarrow> None)"

text \<open>
  \<open>now\<close> is the time read for the activity mark and \<open>now'\<close> the one read when a turn starts. The
  flag says whether waiters are notified.
\<close>

definition TurnTracker_observe :: "nat \<Rightarrow> nat \<Rightarrow> inbound \<Rightarrow> turn_tracker \<Rightarrow> turn_tracker \<times> bool" where
  "TurnTracker_observe now now' m t =
     (let t1 = (if ts_active t then t\<lparr>tt_last_stream_activity_at := Some now\<rparr> else t)
      in case inbound_event_type m of
           None \<Rightarrow> (t1, False)
         | Some kind \<Rightarrow>
             if kind = ''turn.started''
             then (t1\<lparr>ts_generation := sat_inc u64_max (ts_generation t1), ts_active := True, ts_boundary := None,
                     tt_model_request_started_at := Some now', tt_last_stream_activity_at := Some now'\<rparr>, True)
             else if kind = ''turn.completed'' \<and> ts_active t1 then (end_turn TurnCompleted t1, True)
             else if kind = ''turn.failed'' \<and> ts_active t1 then (end_turn TurnFailed t1, True)
             else (t1, False))"

definition TurnTracker_snapshot :: "turn_tracker \<Rightarrow> turn_snapshot" where
  "TurnTracker_snapshot t = turn_snapshot.truncate t"

definition checked_duration_since :: "nat \<Rightarrow> nat \<Rightarrow> nat option" where
  "checked_duration_since now earlier = (if earlier \<le> now then Some (now - earlier) else None)"

record runtime_activity_snapshot =
  ra_turn :: turn_snapshot
  ra_model_request_elapsed :: "nat option"
  ra_transport_idle_elapsed :: "nat option"

definition TurnTracker_activity_snapshot :: "nat \<Rightarrow> turn_tracker \<Rightarrow> runtime_activity_snapshot" where
  "TurnTracker_activity_snapshot now t =
     \<lparr>ra_turn = TurnTracker_snapshot t,
      ra_model_request_elapsed = Option.bind (tt_model_request_started_at t) (checked_duration_since now),
      ra_transport_idle_elapsed = Option.bind (tt_last_stream_activity_at t) (checked_duration_since now)\<rparr>"

text \<open>
  A loop that waits on a condition variable until a predicate holds or the deadline passes. The
  list holds what the thread meets: the time it reads before it sleeps, the state it finds when
  it wakes and whether the wait timed out. \<open>None\<close> means it is still asleep at the end of the list.
\<close>

fun wait_until :: "nat \<Rightarrow> ('t \<Rightarrow> bool) \<Rightarrow> 't \<Rightarrow> (nat \<times> 't \<times> bool) list \<Rightarrow> 't option option" where
  "wait_until deadline pred st [] = (if pred st then Some (Some st) else None)"
| "wait_until deadline pred st ((now, st', timed_out) # ws) =
     (if pred st then Some (Some st)
      else if now \<ge> deadline then Some None
      else if timed_out \<and> \<not> pred st' then Some None
      else wait_until deadline pred st' ws)"

definition started_after :: "nat \<Rightarrow> turn_tracker \<Rightarrow> bool" where
  "started_after previous t \<longleftrightarrow> ts_generation t > previous"

definition boundary_after :: "nat \<Rightarrow> turn_tracker \<Rightarrow> bool" where
  "boundary_after generation t \<longleftrightarrow> ts_generation t \<ge> generation \<and> \<not> ts_active t \<and> ts_boundary t \<noteq> None"

section \<open>The publisher\<close>

datatype runtime_event = DriverEvent inbound | TerminalEvent runtime_terminal

record lifecycle_record =
  lr_sequence :: nat
  lr_event :: runtime_event

datatype owner_state = OwnerRunning | OwnerStopping | OwnerTerminal runtime_terminal

text \<open>\<open>pb_emitted\<close> is what the sink received so far, oldest first.\<close>

record publisher =
  pb_next_sequence :: nat
  pb_owner :: owner_state
  pb_exit_boundary_delivered :: bool
  pb_emitted :: "lifecycle_record list"

definition Publisher_new :: publisher where
  "Publisher_new = \<lparr>pb_next_sequence = 1, pb_owner = OwnerRunning, pb_exit_boundary_delivered = False, pb_emitted = []\<rparr>"

definition emit_locked :: "runtime_event \<Rightarrow> publisher \<Rightarrow> publisher" where
  "emit_locked e p = p\<lparr>pb_next_sequence := sat_inc u64_max (pb_next_sequence p),
     pb_emitted := pb_emitted p @ [\<lparr>lr_sequence = pb_next_sequence p, lr_event = e\<rparr>]\<rparr>"

definition publish_terminal_locked :: "runtime_terminal \<Rightarrow> publisher \<Rightarrow> publisher" where
  "publish_terminal_locked t p = emit_locked (TerminalEvent t) (p\<lparr>pb_owner := OwnerTerminal t\<rparr>)"

definition is_child_exit :: "inbound \<Rightarrow> bool" where
  "is_child_exit m \<longleftrightarrow> (case m of ChildExited e \<Rightarrow> True | _ \<Rightarrow> False)"

definition emit_driver :: "inbound \<Rightarrow> runtime_terminal option \<Rightarrow> publisher \<Rightarrow> publisher" where
  "emit_driver m exit_terminal p =
     (case pb_owner p of
        OwnerTerminal t \<Rightarrow> p
      | _ \<Rightarrow>
         (let p1 = emit_locked (DriverEvent m) p;
              p2 = (if is_child_exit m then p1\<lparr>pb_exit_boundary_delivered := True\<rparr> else p1)
          in case exit_terminal of
               None \<Rightarrow> p2
             | Some t \<Rightarrow> if pb_owner p2 = OwnerRunning then publish_terminal_locked t p2 else p2))"

definition begin_stopping :: "publisher \<Rightarrow> runtime_terminal option \<times> publisher" where
  "begin_stopping p =
     (case pb_owner p of
        OwnerTerminal t \<Rightarrow> (Some t, p)
      | OwnerRunning \<Rightarrow> (None, p\<lparr>pb_owner := OwnerStopping\<rparr>)
      | OwnerStopping \<Rightarrow> (None, p))"

definition publish_terminal :: "runtime_terminal \<Rightarrow> publisher \<Rightarrow> runtime_terminal \<times> publisher" where
  "publish_terminal t p =
     (case pb_owner p of
        OwnerTerminal existing \<Rightarrow> (existing, p)
      | _ \<Rightarrow> (t, publish_terminal_locked t p))"

text \<open>
  One pass of the loop in \<^verbatim>\<open>wait_for_exit_boundary\<close>: what it returns after a look at the state,
  or \<open>None\<close> to wait. \<open>expired\<close>: the deadline has passed when the clock is read.
\<close>

definition exit_boundary_look :: "publisher \<Rightarrow> bool \<Rightarrow> runtime_terminal option option" where
  "exit_boundary_look p expired =
     (if pb_exit_boundary_delivered p then Some None
      else case pb_owner p of
             OwnerTerminal t \<Rightarrow> Some (Some t)
           | _ \<Rightarrow> if expired then Some (Some (FailedRuntimeLost EventStreamLost)) else None)"

text \<open>
  \<open>looks\<close> pairs each look with the state found after the wait that follows it and whether that
  wait timed out.
\<close>

fun wait_for_exit_boundary :: "publisher \<Rightarrow> (bool \<times> publisher \<times> bool) list \<Rightarrow> runtime_terminal option option" where
  "wait_for_exit_boundary p [] = exit_boundary_look p False"
| "wait_for_exit_boundary p ((expired, p', timed_out) # ws) =
     (case exit_boundary_look p expired of
        Some r \<Rightarrow> Some r
      | None \<Rightarrow>
          if timed_out \<and> \<not> pb_exit_boundary_delivered p' then Some (Some (FailedRuntimeLost EventStreamLost))
          else wait_for_exit_boundary p' ws)"

definition owner_terminal :: "publisher \<Rightarrow> runtime_terminal option" where
  "owner_terminal p = (case pb_owner p of OwnerTerminal t \<Rightarrow> Some t | _ \<Rightarrow> None)"

definition wait_terminal ::
    "nat \<Rightarrow> publisher \<Rightarrow> (nat \<times> publisher \<times> bool) list \<Rightarrow> runtime_terminal option option" where
  "wait_terminal deadline p ws =
     map_option (\<lambda>r. Option.bind r owner_terminal)
       (wait_until deadline (\<lambda>p. owner_terminal p \<noteq> None) p ws)"

section \<open>Offered permission answers\<close>

record permission_responses =
  pr_allow :: json
  pr_deny :: json
  pr_params :: json

record permission_cache =
  pc_requests :: "(string \<times> permission_responses) list"
  pc_denied :: "string list"

definition cache_empty :: permission_cache where
  "cache_empty = \<lparr>pc_requests = [], pc_denied = []\<rparr>"

definition MAX_PENDING_PERMISSION_RESPONSES :: nat where
  "MAX_PENDING_PERMISSION_RESPONSES = 128"

definition drop_key :: "string \<Rightarrow> (string \<times> 'a) list \<Rightarrow> (string \<times> 'a) list" where
  "drop_key k kvs = filter (\<lambda>(k', v). k' \<noteq> k) kvs"

definition offered_responses :: "json \<Rightarrow> permission_responses option" where
  "offered_responses params =
     (case (offered_permission_response params ''allow'', offered_permission_response params ''deny'') of
        (Some allowed, Some denied) \<Rightarrow> Some \<lparr>pr_allow = allowed, pr_deny = denied, pr_params = params\<rparr>
      | _ \<Rightarrow> None)"

definition cache_observe :: "string \<Rightarrow> json \<Rightarrow> permission_cache \<Rightarrow> permission_cache" where
  "cache_observe key params c =
     (let reused = (map_of (pc_requests c) key \<noteq> None); rest = drop_key key (pc_requests c)
      in case offered_responses params of
           Some offered \<Rightarrow>
             if \<not> reused \<and> length rest < MAX_PENDING_PERMISSION_RESPONSES
             then c\<lparr>pc_requests := (key, offered) # rest\<rparr> else c\<lparr>pc_requests := rest\<rparr>
         | None \<Rightarrow> c\<lparr>pc_requests := rest\<rparr>)"

definition effective_denial :: "denial_semantics option \<Rightarrow> permission_responses \<Rightarrow> denial_semantics option" where
  "effective_denial validated offered =
     (case validated of Some d \<Rightarrow> Some d | None \<Rightarrow> external_zcode_denial (pr_params offered))"

definition STOP_EVIDENCE_PATH :: string where
  "STOP_EVIDENCE_PATH = '' Stop this evidence path; use Read, prepared inputs, or record a coverage gap.''"

definition cache_response :: "string \<Rightarrow> string \<Rightarrow> denial_semantics option \<Rightarrow> permission_cache \<Rightarrow> json option" where
  "cache_response key decision validated c =
     Option.bind (map_of (pc_requests c) key) (\<lambda>offered.
       if decision = ''allow'' then Some (pr_allow offered)
       else if decision = ''deny''
       then Option.bind (effective_denial validated offered) (\<lambda>denial.
            (let repeated = (denial_fingerprint denial \<in> set (pc_denied c));
                 feedback = denial_feedback denial repeated
             in map_option (\<lambda>ms. JObject (obj_insert ''reason''
                    (JString (if repeated then feedback @ STOP_EVIDENCE_PATH else feedback)) ms))
                  (json_as_object (pr_deny offered))))
       else None)"

definition cache_complete :: "string \<Rightarrow> permission_cache \<Rightarrow> permission_cache" where
  "cache_complete key c = c\<lparr>pc_requests := drop_key key (pc_requests c)\<rparr>"

definition record_denial :: "string \<Rightarrow> denial_semantics option \<Rightarrow> permission_cache \<Rightarrow> permission_cache" where
  "record_denial key validated c =
     (case Option.bind (map_of (pc_requests c) key)
             (\<lambda>offered. map_option denial_fingerprint (effective_denial validated offered)) of
        None \<Rightarrow> c
      | Some f \<Rightarrow> if length (pc_denied c) < MAX_PENDING_PERMISSION_RESPONSES
                 then c\<lparr>pc_denied := List.insert f (pc_denied c)\<rparr> else c)"

section \<open>The event pump and the callers that end the process\<close>

definition SESSION_REQUEST_RUNTIME_PREFERENCES :: string where
  "SESSION_REQUEST_RUNTIME_PREFERENCES = ''session/requestRuntimePreferences''"

definition INTERACTION_REQUEST_PERMISSION :: string where
  "INTERACTION_REQUEST_PERMISSION = ''interaction/requestPermission''"

text \<open>What an exit of the child means, given the members its group still has.\<close>

definition exit_terminal :: "child_exit \<Rightarrow> io_error + process_identity list \<Rightarrow> turn_snapshot \<Rightarrow> runtime_terminal" where
  "exit_terminal exit members turn =
     (case members of
        Inr [] \<Rightarrow>
          if exit = Exited (Some 0)
          then (if \<not> ts_active turn \<and> ts_boundary turn = Some TurnCompleted
                then RuntimeCompleted (AlreadyExited exit) else FailedRuntimeLost EventStreamLost)
          else RuntimeExited exit
      | _ \<Rightarrow> Orphaned UnknownMembership)"

definition finished_terminal :: "turn_boundary option \<Rightarrow> stop_outcome \<Rightarrow> runtime_terminal" where
  "finished_terminal boundary outcome =
     (case boundary of
        Some TurnCompleted \<Rightarrow> RuntimeCompleted outcome
      | Some TurnFailed \<Rightarrow> FailedTurn outcome
      | None \<Rightarrow> RuntimeStopped outcome)"

text \<open>
  Where a thread stands. The pump: waiting for the driver, having received an event, about to
  emit it, about to clear the cache after an exit, about to report a lost stream, ended. A
  caller of \<^verbatim>\<open>finish_process\<close>: not yet called, stopping the driver, waiting for the exit record,
  about to clear the cache, about to publish, returned.
\<close>

datatype pump =
    PumpReady
  | PumpTurn inbound
  | PumpEmit inbound "runtime_terminal option"
  | PumpClear
  | PumpLost
  | PumpDone

datatype finisher =
    FinishCall "turn_boundary option"
  | FinishStop "turn_boundary option"
  | FinishWait "turn_boundary option" stop_outcome
  | FinishClear "turn_boundary option" runtime_terminal
  | FinishPublish "turn_boundary option" runtime_terminal
  | FinishReturn "turn_boundary option" runtime_terminal

text \<open>
  \<open>ow_reaped\<close> records, for the proofs only, that the process group is known to be gone: the
  driver's stop succeeded, or the pump saw the child exit and found its group empty. \<open>ow_asked\<close>
  lists, for the proofs only, the permission requests the pump received, under their cache keys.
\<close>

record owner =
  ow_publisher :: publisher
  ow_tracker :: turn_tracker
  ow_cache :: permission_cache
  ow_pump :: pump
  ow_finishers :: "finisher list"
  ow_reaped :: bool
  ow_asked :: "(string \<times> json) list"

text \<open>
  The pump has received a record: requests for preferences are answered at once (\<open>responded\<close>: the
  driver took the answer), permission requests are put in the cache.
\<close>

definition pump_receive :: "(string \<Rightarrow> string) \<Rightarrow> bool \<Rightarrow> inbound \<Rightarrow> owner \<Rightarrow> owner" where
  "pump_receive escape responded m w =
     (case m of
        Message (Request r) \<Rightarrow>
          if rq_method r = SESSION_REQUEST_RUNTIME_PREFERENCES
          then (if responded then w\<lparr>ow_pump := PumpTurn m\<rparr> else w\<lparr>ow_pump := PumpLost\<rparr>)
          else if rq_method r = INTERACTION_REQUEST_PERMISSION
          then w\<lparr>ow_cache := cache_observe (response_key escape (rq_id r)) (rq_params r) (ow_cache w),
                 ow_asked := ow_asked w @ [(response_key escape (rq_id r), rq_params r)], ow_pump := PumpTurn m\<rparr>
          else w\<lparr>ow_pump := PumpTurn m\<rparr>
      | _ \<Rightarrow> w\<lparr>ow_pump := PumpTurn m\<rparr>)"

definition pump_turn :: "nat \<Rightarrow> nat \<Rightarrow> io_error + process_identity list \<Rightarrow> inbound \<Rightarrow> owner \<Rightarrow> owner" where
  "pump_turn now now' members m w =
     (let t = fst (TurnTracker_observe now now' m (ow_tracker w))
      in w\<lparr>ow_tracker := t,
           ow_pump := PumpEmit m (case m of ChildExited exit \<Rightarrow> Some (exit_terminal exit members (TurnTracker_snapshot t))
                                          | _ \<Rightarrow> None),
           ow_reaped := (ow_reaped w \<or> (is_child_exit m \<and> members = Inr []))\<rparr>)"

definition pump_emit :: "inbound \<Rightarrow> runtime_terminal option \<Rightarrow> owner \<Rightarrow> owner" where
  "pump_emit m t w = w\<lparr>ow_publisher := emit_driver m t (ow_publisher w),
     ow_pump := (if is_child_exit m then PumpClear else PumpReady)\<rparr>"

definition set_finisher :: "nat \<Rightarrow> finisher \<Rightarrow> owner \<Rightarrow> owner" where
  "set_finisher i f w = w\<lparr>ow_finishers := (ow_finishers w)[i := f]\<rparr>"

inductive owner_step :: "owner \<Rightarrow> owner \<Rightarrow> bool" where
  receive: "ow_pump w = PumpReady \<Longrightarrow> owner_step w (pump_receive escape responded m w)"
| turn: "ow_pump w = PumpTurn m \<Longrightarrow> owner_step w (pump_turn now now' members m w)"
| emit: "ow_pump w = PumpEmit m t \<Longrightarrow> owner_step w (pump_emit m t w)"
| clear: "ow_pump w = PumpClear \<Longrightarrow> owner_step w (w\<lparr>ow_cache := cache_empty, ow_pump := PumpDone\<rparr>)"
| disconnected: "ow_pump w = PumpReady \<Longrightarrow> owner_step w (w\<lparr>ow_cache := cache_empty, ow_pump := PumpLost\<rparr>)"
| lost: "ow_pump w = PumpLost \<Longrightarrow>
    owner_step w (w\<lparr>ow_publisher := snd (publish_terminal (FailedRuntimeLost EventStreamLost) (ow_publisher w)),
                    ow_pump := PumpDone\<rparr>)"
| shutdown: "ow_pump w = PumpReady \<Longrightarrow> owner_step w (w\<lparr>ow_pump := PumpDone\<rparr>)"
| began: "i < length (ow_finishers w) \<Longrightarrow> ow_finishers w ! i = FinishCall b \<Longrightarrow>
    begin_stopping (ow_publisher w) = (r, p) \<Longrightarrow>
    owner_step w (set_finisher i (case r of Some t \<Rightarrow> FinishReturn b t | None \<Rightarrow> FinishStop b) (w\<lparr>ow_publisher := p\<rparr>))"
| stopped: "i < length (ow_finishers w) \<Longrightarrow> ow_finishers w ! i = FinishStop b \<Longrightarrow>
    owner_step w (set_finisher i (FinishWait b outcome) (w\<lparr>ow_reaped := True\<rparr>))"
| stop_failed: "i < length (ow_finishers w) \<Longrightarrow> ow_finishers w ! i = FinishStop b \<Longrightarrow>
    owner_step w (set_finisher i (FinishClear b (FailedRuntimeLost (StopFailedLoss message))) w)"
| boundary: "i < length (ow_finishers w) \<Longrightarrow> ow_finishers w ! i = FinishWait b outcome \<Longrightarrow>
    exit_boundary_look (ow_publisher w) expired = Some r \<Longrightarrow>
    owner_step w (set_finisher i (FinishClear b (case r of Some t \<Rightarrow> t | None \<Rightarrow> finished_terminal b outcome)) w)"
| timed_out: "i < length (ow_finishers w) \<Longrightarrow> ow_finishers w ! i = FinishWait b outcome \<Longrightarrow>
    \<not> pb_exit_boundary_delivered (ow_publisher w) \<Longrightarrow>
    owner_step w (set_finisher i (FinishClear b (FailedRuntimeLost EventStreamLost)) w)"
| cleared: "i < length (ow_finishers w) \<Longrightarrow> ow_finishers w ! i = FinishClear b t \<Longrightarrow>
    owner_step w (set_finisher i (FinishPublish b t) (w\<lparr>ow_cache := cache_empty\<rparr>))"
| publish: "i < length (ow_finishers w) \<Longrightarrow> ow_finishers w ! i = FinishPublish b t \<Longrightarrow>
    publish_terminal t (ow_publisher w) = (t', p) \<Longrightarrow>
    owner_step w (set_finisher i (FinishReturn b t') (w\<lparr>ow_publisher := p\<rparr>))"
| denied: "owner_step w (w\<lparr>ow_cache := record_denial key validated (ow_cache w)\<rparr>)"
| responded: "owner_step w (w\<lparr>ow_cache := cache_complete key (ow_cache w)\<rparr>)"

inductive_cases owner_stepE: "owner_step w w'"

text \<open>A freshly spawned owner, with the callers that will ever end it.\<close>

definition owner_spawn :: "turn_boundary option list \<Rightarrow> owner" where
  "owner_spawn bs = \<lparr>ow_publisher = Publisher_new, ow_tracker = TurnTracker_new, ow_cache = cache_empty,
     ow_pump = PumpReady, ow_finishers = map FinishCall bs, ow_reaped = False, ow_asked = []\<rparr>"

section \<open>After a restart of the daemon\<close>

text \<open>
  \<^verbatim>\<open>classify_restart\<close> on a platform that can observe processes (\<open>macos\<close>) or not. An operating
  system call that fails with \<^verbatim>\<open>NotFound\<close> means the process is gone.
\<close>

definition foreign_member :: "process_identity \<Rightarrow> process_identity \<Rightarrow> bool" where
  "foreign_member identity m \<longleftrightarrow> pi_pgid m \<noteq> pi_pgid identity \<or> pi_uid m \<noteq> pi_uid identity \<or> pi_start_token m = []"

definition missing_or_unsupported :: "io_error \<Rightarrow> runtime_terminal" where
  "missing_or_unsupported e = Orphaned (if ie_kind e = NotFoundKind then MissingLeader else UnsupportedIdentity)"

definition classify_restart :: "bool \<Rightarrow> 's os \<Rightarrow> process_identity \<Rightarrow> 's io_state \<Rightarrow> runtime_terminal \<times> 's io_state" where
  "classify_restart macos os identity st =
     (if pi_pid identity \<le> 1 \<or> sint (pi_pgid identity) \<le> 1 \<or> pi_pid identity \<noteq> pi_pgid identity
         \<or> pi_start_token identity = []
      then (Orphaned InvalidIdentity, st)
      else if \<not> macos then (Orphaned UnsupportedIdentity, st)
      else case observe_process os (pi_pid identity) st of
        (Inl e, st1) \<Rightarrow> (missing_or_unsupported e, st1)
      | (Inr first, st1) \<Rightarrow>
          if first \<noteq> identity then (Orphaned IdentityMismatch, st1)
          else case observe_process_group os (pi_pgid identity) st1 of
            (Inl e, st2) \<Rightarrow> (Orphaned UnknownMembership, st2)
          | (Inr members, st2) \<Rightarrow>
              if members = [] \<or> \<not> list_ex (\<lambda>m. m = identity) members \<or> list_ex (foreign_member identity) members
              then (Orphaned UnknownMembership, st2)
              else case observe_process os (pi_pid identity) st2 of
                (Inl e, st3) \<Rightarrow> (missing_or_unsupported e, st3)
              | (Inr second, st3) \<Rightarrow>
                  (if second = first then FailedRuntimeLost SessionLost else Orphaned IdentityMismatch, st3))"

lemma snapshot_simps [simp]:
  "ts_generation (TurnTracker_snapshot t) = ts_generation t" "ts_active (TurnTracker_snapshot t) = ts_active t"
  "ts_boundary (TurnTracker_snapshot t) = ts_boundary t"
  by (simp_all add: TurnTracker_snapshot_def turn_snapshot.truncate_def)

end
