(* ===== verification/Runtime_Ends.thy ===== *)
theory Runtime_Ends
  imports Runtime_Owner
begin

text \<open>
  What holds of the owner of a runtime however its threads interleave: one terminal, known to
  everyone and backed by what happened to the process; bounded permission answers that are
  exactly the offered ones; and a restart that neither signals nor claims more than it saw.
\<close>

section \<open>The publisher's invariant\<close>

definition terminal_free :: "lifecycle_record list \<Rightarrow> bool" where
  "terminal_free rs \<longleftrightarrow> list_all (\<lambda>r. case lr_event r of TerminalEvent t \<Rightarrow> False | _ \<Rightarrow> True) rs"

definition exit_emitted :: "lifecycle_record list \<Rightarrow> bool" where
  "exit_emitted rs \<longleftrightarrow> list_ex (\<lambda>r. case lr_event r of DriverEvent m \<Rightarrow> is_child_exit m | _ \<Rightarrow> False) rs"

definition numbered :: "lifecycle_record list \<Rightarrow> bool" where
  "numbered rs \<longleftrightarrow> map lr_sequence rs = map (\<lambda>i. min u64_max (Suc i)) [0..<length rs]"

definition publisher_ok :: "publisher \<Rightarrow> bool" where
  "publisher_ok p \<longleftrightarrow> numbered (pb_emitted p) \<and> pb_next_sequence p = min u64_max (Suc (length (pb_emitted p)))
     \<and> (pb_exit_boundary_delivered p \<longleftrightarrow> exit_emitted (pb_emitted p))
     \<and> (case pb_owner p of
          OwnerTerminal t \<Rightarrow> \<exists>rs n. pb_emitted p = rs @ [\<lparr>lr_sequence = n, lr_event = TerminalEvent t\<rparr>] \<and> terminal_free rs
        | _ \<Rightarrow> terminal_free (pb_emitted p))"

lemma record_list_simps [simp]:
  "terminal_free []" "terminal_free (rs @ [r]) \<longleftrightarrow> terminal_free rs \<and> (\<forall>t. lr_event r \<noteq> TerminalEvent t)"
  "\<not> exit_emitted []"
  "exit_emitted (rs @ [r]) \<longleftrightarrow> exit_emitted rs \<or> (\<exists>m. lr_event r = DriverEvent m \<and> is_child_exit m)"
  "numbered []" "numbered (rs @ [r]) \<longleftrightarrow> numbered rs \<and> lr_sequence r = min u64_max (Suc (length rs))"
  by (auto simp: terminal_free_def exit_emitted_def numbered_def split: runtime_event.splits)

lemma publisher_ok_new: "publisher_ok Publisher_new"
  by (simp add: publisher_ok_def Publisher_new_def u64_max_def)

lemma sat_inc_min [simp]: "sat_inc m (min m (Suc n)) = min m (Suc (Suc n))"
  by (auto simp: sat_inc_def min_def)

lemma publisher_ok_emit: "publisher_ok p \<Longrightarrow> publisher_ok (emit_driver m t p)"
  by (cases "pb_owner p"; cases t)
     (auto simp: publisher_ok_def emit_driver_def publish_terminal_locked_def emit_locked_def Let_def)

lemma publisher_ok_publish: "publisher_ok p \<Longrightarrow> publisher_ok (snd (publish_terminal t p))"
  by (cases "pb_owner p")
     (auto simp: publisher_ok_def publish_terminal_def publish_terminal_locked_def emit_locked_def)

lemma publisher_ok_begin: "publisher_ok p \<Longrightarrow> publisher_ok (snd (begin_stopping p))"
  by (cases "pb_owner p") (auto simp: publisher_ok_def begin_stopping_def)

lemmas publisher_ok_intros = publisher_ok_emit publisher_ok_publish publisher_ok_begin

text \<open>No operation takes a published terminal back or forgets the exit record.\<close>

definition publisher_extends :: "publisher \<Rightarrow> publisher \<Rightarrow> bool" where
  "publisher_extends p p' \<longleftrightarrow> (\<forall>t. pb_owner p = OwnerTerminal t \<longrightarrow> pb_owner p' = OwnerTerminal t \<and> pb_emitted p' = pb_emitted p)
     \<and> (pb_exit_boundary_delivered p \<longrightarrow> pb_exit_boundary_delivered p')
     \<and> (\<exists>rs. pb_emitted p' = pb_emitted p @ rs)"

lemma publisher_extends_ops:
  "publisher_extends p p"
  "publisher_extends p (emit_driver m t p)"
  "publisher_extends p (snd (publish_terminal t' p))"
  "publisher_extends p (snd (begin_stopping p))"
  by (cases "pb_owner p"; cases t;
      auto simp: publisher_extends_def emit_driver_def publish_terminal_def begin_stopping_def
        publish_terminal_locked_def emit_locked_def Let_def)+

lemma publish_terminal_result: "publish_terminal t p = (t', p') \<Longrightarrow> pb_owner p' = OwnerTerminal t' \<and> t' \<in> {t} \<union> {x. pb_owner p = OwnerTerminal x}"
  by (cases "pb_owner p") (auto simp: publish_terminal_def publish_terminal_locked_def emit_locked_def)

section \<open>The owner's invariant\<close>

fun fin_boundary :: "finisher \<Rightarrow> turn_boundary option" where
  "fin_boundary (FinishCall b) = b"
| "fin_boundary (FinishStop b) = b"
| "fin_boundary (FinishWait b outcome) = b"
| "fin_boundary (FinishClear b t) = b"
| "fin_boundary (FinishPublish b t) = b"
| "fin_boundary (FinishReturn b t) = b"

definition turn_ended_completed :: "owner \<Rightarrow> bool" where
  "turn_ended_completed w \<longleftrightarrow> \<not> ts_active (ow_tracker w) \<and> ts_boundary (ow_tracker w) = Some TurnCompleted"

text \<open>What must have happened before a terminal may be reported.\<close>

definition evidence :: "owner \<Rightarrow> runtime_terminal \<Rightarrow> bool" where
  "evidence w t \<longleftrightarrow>
     (terminal_proves_process_group_reaped t \<longrightarrow> ow_reaped w \<and> pb_exit_boundary_delivered (ow_publisher w))
     \<and> ((\<exists>oc. t = RuntimeCompleted oc) \<longrightarrow>
          (ow_pump w \<in> {PumpClear, PumpDone} \<and> turn_ended_completed w)
          \<or> Some TurnCompleted \<in> fin_boundary ` set (ow_finishers w))"

fun finisher_ok :: "owner \<Rightarrow> finisher \<Rightarrow> bool" where
  "finisher_ok w (FinishReturn b t) = (pb_owner (ow_publisher w) = OwnerTerminal t)"
| "finisher_ok w (FinishWait b outcome) = ow_reaped w"
| "finisher_ok w (FinishClear b t) = evidence w t"
| "finisher_ok w (FinishPublish b t) = evidence w t"
| "finisher_ok w f = True"

fun pump_ok :: "owner \<Rightarrow> pump \<Rightarrow> bool" where
  "pump_ok w (PumpEmit m None) = (\<not> is_child_exit m)"
| "pump_ok w (PumpEmit m (Some t)) = (is_child_exit m \<and> (terminal_proves_process_group_reaped t \<longrightarrow> ow_reaped w)
     \<and> ((\<exists>oc. t = RuntimeCompleted oc) \<longrightarrow> turn_ended_completed w))"
| "pump_ok w p = True"

definition owner_ok :: "owner \<Rightarrow> bool" where
  "owner_ok w \<longleftrightarrow> publisher_ok (ow_publisher w)
     \<and> (\<forall>t. pb_owner (ow_publisher w) = OwnerTerminal t \<longrightarrow> evidence w t)
     \<and> list_all (finisher_ok w) (ow_finishers w) \<and> pump_ok w (ow_pump w)"

text \<open>A step that keeps the owner going forward keeps what is known about it.\<close>

definition advances :: "owner \<Rightarrow> owner \<Rightarrow> bool" where
  "advances w w' \<longleftrightarrow> publisher_extends (ow_publisher w) (ow_publisher w') \<and> (ow_reaped w \<longrightarrow> ow_reaped w')
     \<and> map fin_boundary (ow_finishers w') = map fin_boundary (ow_finishers w)
     \<and> (ow_pump w \<in> {PumpClear, PumpDone} \<longrightarrow> ow_pump w' \<in> {PumpClear, PumpDone} \<and> ow_tracker w' = ow_tracker w)"

lemma advances_evidence:
  assumes "advances w w'" and "evidence w t"
  shows "evidence w' t"
proof -
  have "fin_boundary ` set (ow_finishers w') = fin_boundary ` set (ow_finishers w)"
    using assms(1) by (metis advances_def list.set_map)
  then show ?thesis
    using assms by (auto simp: advances_def evidence_def publisher_extends_def turn_ended_completed_def)
qed

lemma advances_finisher: "advances w w' \<Longrightarrow> finisher_ok w f \<Longrightarrow> finisher_ok w' f"
  by (cases f) (auto simp: advances_evidence, auto simp: advances_def publisher_extends_def)

lemma set_finisher_boundary:
  "fin_boundary (fs ! i) = fin_boundary f \<Longrightarrow> map fin_boundary (fs[i := f]) = map fin_boundary fs"
  by (metis list_update_id map_update)

lemma advances_set_finisher:
  assumes "advances w v" and "fin_boundary (ow_finishers w ! i) = fin_boundary f" and "ow_finishers v = ow_finishers w"
  shows "advances w (set_finisher i f v)"
  using assms set_finisher_boundary [of "ow_finishers w" i f] by (simp add: advances_def set_finisher_def)

lemma advances_refl: "advances w w"
  by (simp add: advances_def publisher_extends_ops(1))

lemma step_advances: "owner_step w w' \<Longrightarrow> advances w w'"
proof (induction rule: owner_step.induct)
  case (began i w b r p)
  then show ?case
    using publisher_extends_ops(4) [of "ow_publisher w"]
    by (intro advances_set_finisher) (auto simp: advances_def split: option.split)
next
  case (publish i w b t t' p)
  then show ?case
    using publisher_extends_ops(3) [of "ow_publisher w" t]
    by (intro advances_set_finisher) (auto simp: advances_def)
qed (auto simp: publisher_extends_ops advances_def set_finisher_def set_finisher_boundary pump_receive_def pump_turn_def
       pump_emit_def Let_def split: inbound.splits wire_message.splits)

text \<open>
  The invariant is kept by a step that advances, keeps the publisher well formed and
  establishes what is new: a terminal just published, the caller that moved, the pump.
\<close>

lemma owner_ok_advance:
  assumes "owner_ok w" and "advances w w'" and "publisher_ok (ow_publisher w')"
    and "\<And>t. pb_owner (ow_publisher w') = OwnerTerminal t \<Longrightarrow> pb_owner (ow_publisher w) \<noteq> OwnerTerminal t \<Longrightarrow> evidence w' t"
    and "ow_finishers w' = ow_finishers w \<or> (\<exists>i f. ow_finishers w' = (ow_finishers w)[i := f] \<and> finisher_ok w' f)"
    and "pump_ok w' (ow_pump w')"
  shows "owner_ok w'"
proof -
  have "list_all (finisher_ok w') (ow_finishers w)"
    using assms(1,2) advances_finisher by (auto simp: owner_ok_def list_all_iff)
  then have "list_all (finisher_ok w') (ow_finishers w')"
    using assms(5) set_update_subset_insert by (fastforce simp: list_all_iff)
  moreover have "evidence w' t" if "pb_owner (ow_publisher w') = OwnerTerminal t" for t
    using that assms(1,4) advances_evidence [OF assms(2)] by (cases "pb_owner (ow_publisher w) = OwnerTerminal t") (auto simp: owner_ok_def)
  ultimately show ?thesis
    using assms(3,6) by (simp add: owner_ok_def)
qed

lemma pump_ok_frame:
  "pump_ok w p \<Longrightarrow> (ow_reaped w \<longrightarrow> ow_reaped w') \<Longrightarrow> ow_tracker w' = ow_tracker w \<Longrightarrow> pump_ok w' p"
  by (cases "(w, p)" rule: pump_ok.cases) (auto simp: turn_ended_completed_def)

lemma boundary_cases:
  obtains "b = None" | "b = Some TurnCompleted" | "b = Some TurnFailed"
  by (metis option.exhaust turn_boundary.exhaust)

text \<open>The terminal a caller that ended its wait is about to publish.\<close>

lemma evidence_finished:
  assumes "owner_ok w" and "i < length (ow_finishers w)" and "ow_finishers w ! i = FinishWait b outcome"
    and "exit_boundary_look (ow_publisher w) expired = Some r"
  shows "evidence w (case r of Some t \<Rightarrow> t | None \<Rightarrow> finished_terminal b outcome)"
proof (cases r)
  case None
  have "FinishWait b outcome \<in> set (ow_finishers w)" using assms(2,3) nth_mem by metis
  then have "ow_reaped w" and "b \<in> fin_boundary ` set (ow_finishers w)"
    using assms(1) by (auto simp: owner_ok_def list_all_iff intro: rev_image_eqI)
  moreover have "pb_exit_boundary_delivered (ow_publisher w)"
    using assms(4) None by (auto simp: exit_boundary_look_def split: if_splits owner_state.splits)
  ultimately show ?thesis
    using None by (cases b rule: boundary_cases) (simp_all add: evidence_def finished_terminal_def)
next
  case (Some t)
  then have "pb_owner (ow_publisher w) = OwnerTerminal t \<or> t = FailedRuntimeLost EventStreamLost"
    using assms(4) by (auto simp: exit_boundary_look_def split: if_splits owner_state.splits)
  then show ?thesis
    using assms(1) Some by (auto simp: owner_ok_def evidence_def)
qed

lemma evidence_lost [simp]: "evidence w (FailedRuntimeLost l)"
  by (simp add: evidence_def)

lemma exit_terminal_evidence:
  "terminal_proves_process_group_reaped (exit_terminal e members turn) \<Longrightarrow> members = Inr []"
  "exit_terminal e members turn = RuntimeCompleted oc \<Longrightarrow> \<not> ts_active turn \<and> ts_boundary turn = Some TurnCompleted"
  by (auto simp: exit_terminal_def split: sum.splits list.splits if_splits)

lemma pump_step_ok:
  assumes "owner_ok w" and "ow_pump w = PumpTurn m"
  shows "owner_ok (pump_turn now now' members m w)"
  using assms step_advances [OF owner_step.turn [OF assms(2)], of now now' members]
  by (intro owner_ok_advance [OF assms(1)])
     (auto simp: pump_turn_def Let_def owner_ok_def is_child_exit_def turn_ended_completed_def split: inbound.splits
      dest!: exit_terminal_evidence)

lemma emit_step_ok:
  assumes "owner_ok w" and "ow_pump w = PumpEmit m t"
  shows "owner_ok (pump_emit m t w)"
proof (rule owner_ok_advance [OF assms(1)])
  have po: "pump_ok w (PumpEmit m t)" using assms by (simp add: owner_ok_def)
  fix t' assume "pb_owner (ow_publisher (pump_emit m t w)) = OwnerTerminal t'" "pb_owner (ow_publisher w) \<noteq> OwnerTerminal t'"
  then have "t = Some t'" and ex: "pb_exit_boundary_delivered (emit_driver m t (ow_publisher w)) \<or> \<not> is_child_exit m"
    by (auto simp: pump_emit_def emit_driver_def publish_terminal_locked_def emit_locked_def Let_def
        split: owner_state.splits option.splits if_splits)
  then show "evidence (pump_emit m t w) t'"
    using po by (auto simp: evidence_def pump_emit_def turn_ended_completed_def)
qed (use assms step_advances [OF owner_step.emit [OF assms(2)]] in
      \<open>auto simp: pump_emit_def owner_ok_def intro: publisher_ok_emit\<close>)

text \<open>A caller that moves without touching the publisher.\<close>

lemma owner_ok_moved:
  assumes "owner_ok w" and "owner_step w w'" and "w' = set_finisher i f v" and "finisher_ok w' f"
    and "ow_publisher v = ow_publisher w" "ow_pump v = ow_pump w" "ow_tracker v = ow_tracker w" "ow_finishers v = ow_finishers w"
  shows "owner_ok w'"
proof (rule owner_ok_advance [OF assms(1) step_advances [OF assms(2)]])
  show "ow_finishers w' = ow_finishers w \<or> (\<exists>i f. ow_finishers w' = (ow_finishers w)[i := f] \<and> finisher_ok w' f)"
    using assms(3,4,8) by (auto simp: set_finisher_def)
  show "pump_ok w' (ow_pump w')"
    using assms(1,3,6,7) step_advances [OF assms(2)] pump_ok_frame [of w "ow_pump w" w']
    by (auto simp: owner_ok_def set_finisher_def advances_def)
qed (use assms in \<open>auto simp: owner_ok_def set_finisher_def\<close>)

lemma owner_step_ok:
  assumes "owner_ok w" and "owner_step w w'"
  shows "owner_ok w'"
  using assms(2)
proof (cases rule: owner_step.cases)
  case (turn m now now' members)
  then show ?thesis using assms(1) pump_step_ok by simp
next
  case (emit m t)
  then show ?thesis using assms(1) emit_step_ok by simp
next
  case (began i b r p)
  then show ?thesis
    using assms(1) publisher_ok_begin [of "ow_publisher w"]
    by (intro owner_ok_advance [OF assms(1) step_advances [OF assms(2)]])
       (auto simp: set_finisher_def owner_ok_def begin_stopping_def pump_ok_frame [of w]
          split: owner_state.splits option.split intro!: exI [of _ i])
next
  case (boundary i b outcome expired r)
  then show ?thesis
    using evidence_finished [OF assms(1) boundary(2-4)] advances_evidence [OF step_advances [OF assms(2)]]
    by (intro owner_ok_moved [OF assms boundary(1)]) auto
next
  case (cleared i b t)
  have "FinishClear b t \<in> set (ow_finishers w)" using cleared nth_mem by metis
  then have "evidence w' t"
    using assms(1) advances_evidence [OF step_advances [OF assms(2)]] by (auto simp: owner_ok_def list_all_iff)
  then show ?thesis
    by (intro owner_ok_moved [OF assms cleared(1)]) auto
next
  case (stopped i b outcome)
  show ?thesis by (rule owner_ok_moved [OF assms stopped(1)]) (simp_all add: stopped(1) set_finisher_def)
next
  case (stop_failed i b message)
  show ?thesis by (rule owner_ok_moved [OF assms stop_failed(1)]) simp_all
next
  case (timed_out i b outcome)
  show ?thesis by (rule owner_ok_moved [OF assms timed_out(1)]) simp_all
next
  case (receive escape responded m)
  then show ?thesis
    using assms(1)
    by (intro owner_ok_advance [OF assms(1) step_advances [OF assms(2)]])
       (auto simp: pump_receive_def owner_ok_def split: inbound.splits wire_message.splits)
next
  case lost
  then show ?thesis
    using assms(1) publisher_ok_publish [of "ow_publisher w" "FailedRuntimeLost EventStreamLost"]
      publish_terminal_result [of "FailedRuntimeLost EventStreamLost" "ow_publisher w", OF surjective_pairing]
    by (intro owner_ok_advance [OF assms(1) step_advances [OF assms(2)]]) (auto simp: owner_ok_def)
next
  case (publish i b t t' p)
  have "FinishPublish b t \<in> set (ow_finishers w)" using publish nth_mem by metis
  then have "evidence w t" using assms(1) by (auto simp: owner_ok_def list_all_iff)
  then show ?thesis
    using assms(1) publish publisher_ok_publish [of "ow_publisher w" t] publish_terminal_result [OF publish(4)]
      advances_evidence [OF step_advances [OF assms(2)]]
    by (intro owner_ok_advance [OF assms(1) step_advances [OF assms(2)]])
       (auto simp: set_finisher_def owner_ok_def pump_ok_frame [of w] intro!: exI [of _ i])
qed (use assms(1) in \<open>(intro owner_ok_advance [OF assms(1) step_advances [OF assms(2)]];
       auto simp: owner_ok_def pump_ok_frame [of w])+\<close>)

interpretation owner: inv_system owner_step owner_ok
  by unfold_locales (rule owner_step_ok)

lemma owner_ok_spawn: "owner_ok (owner_spawn bs)"
  using publisher_ok_new by (auto simp: owner_ok_def owner_spawn_def list_all_iff) (simp add: Publisher_new_def)

text \<open>
  C6 (invariant): a runtime ends once, and everyone learns the same. However the event pump and
  any number of calls that end the process interleave, the sink receives records numbered from
  one without gaps, at most one of them terminal, and nothing after it; and every call that
  returned was told the terminal that was published.
\<close>

theorem runtime_ends_once:
  assumes "owner_step\<^sup>*\<^sup>* (owner_spawn bs) w"
  shows "numbered (pb_emitted (ow_publisher w))
     \<and> (case owner_terminal (ow_publisher w) of
          None \<Rightarrow> terminal_free (pb_emitted (ow_publisher w))
        | Some t \<Rightarrow> \<exists>rs n. pb_emitted (ow_publisher w) = rs @ [\<lparr>lr_sequence = n, lr_event = TerminalEvent t\<rparr>] \<and> terminal_free rs)
     \<and> list_all (\<lambda>f. case f of FinishReturn b t \<Rightarrow> owner_terminal (ow_publisher w) = Some t | _ \<Rightarrow> True) (ow_finishers w)"
proof -
  have ok: "owner_ok w" by (rule owner.reachable [OF assms owner_ok_spawn])
  have "owner_terminal (ow_publisher w) = Some t" if "FinishReturn b t \<in> set (ow_finishers w)" for b t
    using ok that by (auto simp: owner_ok_def owner_terminal_def list_all_iff)
  moreover have "publisher_ok (ow_publisher w)" using ok by (simp add: owner_ok_def)
  ultimately show ?thesis
    by (auto simp: publisher_ok_def owner_terminal_def list_all_iff split: owner_state.splits finisher.split)
qed

text \<open>
  A terminal that promises the process group is gone keeps its word. When the
  published terminal is one of those \<^verbatim>\<open>terminal_proves_process_group_reaped\<close> accepts, the driver's stop
  succeeded or the child exited with an empty group, and the exit record was delivered before
  it. A completed runtime moreover ended its last turn as completed, or was ended by a call
  made for a completed turn.
\<close>

theorem reaped_terminals_are_sound:
  assumes "owner_step\<^sup>*\<^sup>* (owner_spawn bs) w" and "owner_terminal (ow_publisher w) = Some t"
    and "terminal_proves_process_group_reaped t"
  shows "ow_reaped w \<and> exit_emitted (butlast (pb_emitted (ow_publisher w)))
     \<and> ((\<exists>oc. t = RuntimeCompleted oc) \<longrightarrow> turn_ended_completed w \<or> Some TurnCompleted \<in> set bs)"
proof -
  have ok: "owner_ok w" by (rule owner.reachable [OF assms(1) owner_ok_spawn])
  have "map fin_boundary (ow_finishers w) = map fin_boundary (ow_finishers (owner_spawn bs))"
    by (rule owner.reachable_induct [OF assms(1) owner_ok_spawn]) (auto dest: step_advances simp: advances_def)
  then have "map fin_boundary (ow_finishers w) = bs" by (simp add: owner_spawn_def comp_def)
  then have "fin_boundary ` set (ow_finishers w) = set bs" by (metis list.set_map)
  moreover have "evidence w t" and "publisher_ok (ow_publisher w)"
    and "pb_owner (ow_publisher w) = OwnerTerminal t"
    using ok assms(2) by (auto simp: owner_ok_def owner_terminal_def split: owner_state.splits)
  ultimately show ?thesis
    using assms(3) by (auto simp: evidence_def publisher_ok_def butlast_append)
qed

text \<open>A run: one caller stops the process, the pump delivers the exit, the caller publishes.\<close>

lemma demo_owner_run:
  "\<exists>w. owner_step\<^sup>*\<^sup>* (owner_spawn [None]) w \<and> owner_terminal (ow_publisher w) = Some (RuntimeStopped (AlreadyExited ExitUnknown))"
proof -
  define x where "x = ChildExited ExitUnknown"
  define p1 where "p1 = Publisher_new\<lparr>pb_owner := OwnerStopping\<rparr>"
  define w1 where "w1 = owner_spawn [None]\<lparr>ow_publisher := p1, ow_finishers := [FinishWait None (AlreadyExited ExitUnknown)], ow_reaped := True\<rparr>"
  define w2 where "w2 = pump_emit x (Some (RuntimeExited ExitUnknown)) (pump_turn 0 0 (Inr []) x (pump_receive id True x w1))"
  define w3 where "w3 = set_finisher 0 (FinishReturn None (RuntimeStopped (AlreadyExited ExitUnknown)))
    (w2\<lparr>ow_cache := cache_empty, ow_publisher := snd (publish_terminal (RuntimeStopped (AlreadyExited ExitUnknown)) (ow_publisher w2))\<rparr>)"
  have s1: "owner_step\<^sup>*\<^sup>* (owner_spawn [None]) w1"
    using owner_step.began [of 0 "owner_spawn [None]" None None p1]
      owner_step.stopped [of 0 "owner_spawn [None]\<lparr>ow_publisher := p1, ow_finishers := [FinishStop None]\<rparr>" None "AlreadyExited ExitUnknown"]
    by (auto simp: begin_stopping_def p1_def w1_def set_finisher_def owner_spawn_def Publisher_new_def
        intro: converse_rtranclp_into_rtranclp)
  have s2: "owner_step\<^sup>*\<^sup>* w1 w2"
  proof -
    have "owner_step w1 (pump_receive id True x w1)"
      by (rule owner_step.receive) (simp add: w1_def owner_spawn_def)
    moreover have "owner_step (pump_receive id True x w1) (pump_turn 0 0 (Inr []) x (pump_receive id True x w1))"
      by (rule owner_step.turn) (simp add: pump_receive_def x_def)
    moreover have "owner_step (pump_turn 0 0 (Inr []) x (pump_receive id True x w1)) w2"
      unfolding w2_def by (rule owner_step.emit) (simp add: pump_turn_def x_def exit_terminal_def Let_def)
    ultimately show ?thesis by (meson converse_rtranclp_into_rtranclp rtranclp.rtrancl_refl)
  qed
  have w2: "ow_finishers w2 = [FinishWait None (AlreadyExited ExitUnknown)]" "pb_exit_boundary_delivered (ow_publisher w2)"
      "pb_owner (ow_publisher w2) = OwnerStopping"
    by (simp_all add: w2_def w1_def p1_def pump_emit_def pump_turn_def pump_receive_def x_def emit_driver_def emit_locked_def
        is_child_exit_def Let_def owner_spawn_def)
  have s3: "owner_step\<^sup>*\<^sup>* w2 w3"
  proof -
    define f where "f = FinishClear None (RuntimeStopped (AlreadyExited ExitUnknown))"
    define g where "g = FinishPublish None (RuntimeStopped (AlreadyExited ExitUnknown))"
    have "owner_step w2 (set_finisher 0 f w2)"
      using owner_step.boundary [of 0 w2 None _ True None] w2 by (simp add: exit_boundary_look_def finished_terminal_def f_def)
    moreover have "owner_step (set_finisher 0 f w2) (set_finisher 0 g (set_finisher 0 f w2\<lparr>ow_cache := cache_empty\<rparr>))"
      unfolding g_def by (rule owner_step.cleared) (simp_all add: set_finisher_def f_def w2)
    moreover have "owner_step (set_finisher 0 g (set_finisher 0 f w2\<lparr>ow_cache := cache_empty\<rparr>)) w3"
      using owner_step.publish [of 0 "set_finisher 0 g (set_finisher 0 f w2\<lparr>ow_cache := cache_empty\<rparr>)" None _ _ _, OF _ _ surjective_pairing]
      by (simp add: set_finisher_def g_def f_def w2 w3_def publish_terminal_def)
    ultimately show ?thesis by (meson converse_rtranclp_into_rtranclp rtranclp.rtrancl_refl)
  qed
  have "owner_terminal (ow_publisher w3) = Some (RuntimeStopped (AlreadyExited ExitUnknown))"
    by (simp add: w3_def set_finisher_def publish_terminal_def w2 publish_terminal_locked_def emit_locked_def owner_terminal_def)
  then show ?thesis using s1 s2 s3 by (meson rtranclp_trans)
qed

theorem runtime_ends_once_witness:
  "\<exists>w :: owner. numbered (pb_emitted (ow_publisher w))
     \<and> (case owner_terminal (ow_publisher w) of
          None \<Rightarrow> terminal_free (pb_emitted (ow_publisher w))
        | Some t \<Rightarrow> \<exists>rs n. pb_emitted (ow_publisher w) = rs @ [\<lparr>lr_sequence = n, lr_event = TerminalEvent t\<rparr>] \<and> terminal_free rs)
     \<and> list_all (\<lambda>f. case f of FinishReturn b t \<Rightarrow> owner_terminal (ow_publisher w) = Some t | _ \<Rightarrow> True) (ow_finishers w)
     \<and> owner_terminal (ow_publisher w) = Some (RuntimeStopped (AlreadyExited ExitUnknown))"
proof -
  obtain w where "owner_step\<^sup>*\<^sup>* (owner_spawn [None]) w"
      "owner_terminal (ow_publisher w) = Some (RuntimeStopped (AlreadyExited ExitUnknown))"
    using demo_owner_run by blast
  then show ?thesis using runtime_ends_once [of "[None]" w] by (intro exI [of _ w]) blast
qed

theorem reaped_terminals_are_sound_witness:
  "\<exists>w :: owner. owner_terminal (ow_publisher w) = Some (RuntimeStopped (AlreadyExited ExitUnknown))
     \<and> ow_reaped w \<and> exit_emitted (butlast (pb_emitted (ow_publisher w)))"
proof -
  obtain w where "owner_step\<^sup>*\<^sup>* (owner_spawn [None]) w"
      "owner_terminal (ow_publisher w) = Some (RuntimeStopped (AlreadyExited ExitUnknown))"
    using demo_owner_run by blast
  then show ?thesis using reaped_terminals_are_sound [of "[None]" w] by (intro exI [of _ w]) simp
qed

section \<open>Permission answers\<close>

definition cache_ok :: "permission_cache \<Rightarrow> bool" where
  "cache_ok c \<longleftrightarrow> distinct (map fst (pc_requests c)) \<and> length (pc_requests c) \<le> MAX_PENDING_PERMISSION_RESPONSES
     \<and> distinct (pc_denied c) \<and> length (pc_denied c) \<le> MAX_PENDING_PERMISSION_RESPONSES
     \<and> list_all (\<lambda>(k, offered). offered_responses (pr_params offered) = Some offered) (pc_requests c)"

lemma drop_key_subset:
  "length (drop_key k kvs) \<le> length kvs" "x \<in> set (drop_key k kvs) \<Longrightarrow> x \<in> set kvs"
  by (auto simp: drop_key_def)

lemma drop_key_simps [simp]:
  "map_of (drop_key k kvs) k' = (if k' = k then None else map_of kvs k')"
  "k \<notin> fst ` set (drop_key k kvs)"
  "distinct (map fst kvs) \<Longrightarrow> distinct (map fst (drop_key k kvs))"
  by (induction kvs) (auto simp: drop_key_def)

lemma offered_responses_fields:
  "offered_responses params = Some offered \<Longrightarrow> pr_params offered = params
     \<and> offered_permission_response params ''allow'' = Some (pr_allow offered)
     \<and> offered_permission_response params ''deny'' = Some (pr_deny offered)"
  by (auto simp: offered_responses_def split: option.splits)

lemma cache_ok_ops:
  assumes "cache_ok c"
  shows "cache_ok (cache_observe k params c)" and "cache_ok (cache_complete k c)" and "cache_ok (record_denial k v c)"
    and "cache_ok cache_empty"
proof -
  have dk: "cache_ok (c\<lparr>pc_requests := drop_key k (pc_requests c)\<rparr>)" for k
    using assms le_trans [OF drop_key_subset(1)] by (auto simp: cache_ok_def list_all_iff dest: drop_key_subset(2))
  show "cache_ok (cache_observe k params c)"
  proof (cases "offered_responses params")
    case None
    then show ?thesis using dk by (simp add: cache_observe_def Let_def)
  next
    case (Some offered)
    then show ?thesis
      using dk [of k] offered_responses_fields [OF Some] drop_key_simps(2) [of k "pc_requests c"]
      by (auto simp: cache_observe_def Let_def cache_ok_def)
  qed
  show "cache_ok (cache_complete k c)" using dk by (simp add: cache_complete_def)
  show "cache_ok (record_denial k v c)"
    using assms by (auto simp: record_denial_def cache_ok_def List.insert_def split: option.split)
  show "cache_ok cache_empty" by (simp add: cache_ok_def cache_empty_def)
qed

lemma cache_step_ok: "cache_ok (ow_cache w) \<Longrightarrow> owner_step w w' \<Longrightarrow> cache_ok (ow_cache w')"
  by (erule owner_stepE)
     (auto simp: cache_ok_ops pump_receive_def pump_turn_def pump_emit_def set_finisher_def Let_def
       split: inbound.splits wire_message.splits)

interpretation cache: inv_system owner_step "\<lambda>w. cache_ok (ow_cache w)"
  by unfold_locales (rule cache_step_ok)

text \<open>What waits in the cache is what was asked under that key.\<close>

definition asked_ok :: "owner \<Rightarrow> bool" where
  "asked_ok w \<longleftrightarrow> (\<lambda>(k, x). (k, pr_params x)) ` set (pc_requests (ow_cache w)) \<subseteq> set (ow_asked w)"

lemma cache_observe_requests:
  "set (pc_requests (cache_observe k params c)) \<subseteq> set (pc_requests c) \<union> {(k, x) | x. pr_params x = params}"
  by (auto simp: cache_observe_def Let_def dest: drop_key_subset(2) offered_responses_fields split: option.splits if_splits)

lemma asked_step_ok: "asked_ok w \<Longrightarrow> owner_step w w' \<Longrightarrow> asked_ok w'"
  by (erule owner_stepE)
     (auto simp: asked_ok_def pump_receive_def pump_turn_def pump_emit_def set_finisher_def Let_def cache_empty_def
        cache_complete_def record_denial_def dest!: subsetD [OF cache_observe_requests] dest: drop_key_subset(2)
       split: inbound.splits wire_message.splits option.splits if_splits)

interpretation asked: inv_system owner_step asked_ok
  by unfold_locales (rule asked_step_ok)

text \<open>
  C30 (safety): a permission is only ever answered with what the runtime offered for it. In every
  reachable owner, an answer from the cache is one that a request received under that key offered;
  allowing sends the offered response as it is, and denying sends the offered one with nothing
  changed but its reason; any other decision gets no answer. At most 128 requests and 128
  denials are remembered, one per key, and a request that reuses a waiting key makes both
  unanswerable.
\<close>

theorem permission_answers_are_offered:
  assumes "owner_step\<^sup>*\<^sup>* (owner_spawn bs) w"
  shows "(cache_response key decision validated (ow_cache w) = Some answer \<longrightarrow>
           (\<exists>params. (key, params) \<in> set (ow_asked w) \<and> ((decision = ''allow'' \<and> offered_permission_response params ''allow'' = Some answer)
             \<or> (decision = ''deny'' \<and> (\<exists>ms ms'. offered_permission_response params ''deny'' = Some (JObject ms)
                  \<and> answer = JObject ms' \<and> (\<forall>k. k \<noteq> ''reason'' \<longrightarrow> map_of ms' k = map_of ms k))))))
       \<and> length (pc_requests (ow_cache w)) \<le> 128 \<and> distinct (map fst (pc_requests (ow_cache w)))
       \<and> length (pc_denied (ow_cache w)) \<le> 128
       \<and> (key \<in> fst ` set (pc_requests (ow_cache w)) \<longrightarrow>
            cache_response key decision validated (cache_observe key params' (ow_cache w)) = None)"
proof -
  have ok: "cache_ok (ow_cache w)"
    by (rule cache.reachable [OF assms]) (simp add: owner_spawn_def cache_ok_ops cache_ok_def cache_empty_def)
  have offered: "offered_responses (pr_params x) = Some x" if "map_of (pc_requests (ow_cache w)) key = Some x" for x
    using ok map_of_SomeD [OF that] by (auto simp: cache_ok_def list_all_iff)
  have "\<exists>params. (key, params) \<in> set (ow_asked w) \<and> ((decision = ''allow'' \<and> offered_permission_response params ''allow'' = Some answer)
      \<or> (decision = ''deny'' \<and> (\<exists>ms ms'. offered_permission_response params ''deny'' = Some (JObject ms)
           \<and> answer = JObject ms' \<and> (\<forall>k. k \<noteq> ''reason'' \<longrightarrow> map_of ms' k = map_of ms k))))"
    if ans: "cache_response key decision validated (ow_cache w) = Some answer"
  proof -
    obtain x where x: "map_of (pc_requests (ow_cache w)) key = Some x"
      using ans by (auto simp: cache_response_def bind_eq_Some_conv)
    then have o: "offered_permission_response (pr_params x) ''allow'' = Some (pr_allow x)"
        "offered_permission_response (pr_params x) ''deny'' = Some (pr_deny x)"
      using offered_responses_fields [OF offered [OF x]] by simp_all
    have "asked_ok w" by (rule asked.reachable [OF assms]) (simp add: asked_ok_def owner_spawn_def cache_empty_def)
    then have "(key, pr_params x) \<in> set (ow_asked w)" using map_of_SomeD [OF x] by (force simp: asked_ok_def)
    then show ?thesis
      using ans x o by (intro exI [of _ "pr_params x"])
        (auto simp: cache_response_def bind_eq_Some_conv Let_def map_of_obj_insert json_as_object_Some split: if_splits)
  qed
  moreover have "cache_response key decision validated (cache_observe key params' (ow_cache w)) = None"
    if "key \<in> fst ` set (pc_requests (ow_cache w))"
  proof -
    have "map_of (pc_requests (ow_cache w)) key \<noteq> None" using that by (simp add: map_of_eq_None_iff)
    then show ?thesis by (auto simp: cache_response_def cache_observe_def Let_def split: option.split)
  qed
  ultimately show ?thesis
    using ok by (simp add: cache_ok_def MAX_PENDING_PERMISSION_RESPONSES_def)
qed

definition demo_options :: json where
  "demo_options = JObject [(''options'', JArray (map (\<lambda>(kind, decision). JObject [(''kind'', JString kind),
     (''response'', JObject [(''decision'', JString decision)])]) [(''allow_once'', ''allow''), (''deny'', ''deny'')]))]"

definition demo_asked :: owner where
  "demo_asked = pump_receive id True
     (Message (Request \<lparr>rq_id = WireInteger 7, rq_method = INTERACTION_REQUEST_PERMISSION, rq_params = demo_options\<rparr>))
     (owner_spawn [])"

theorem permission_answers_are_offered_witness:
  "\<exists>params. (response_key id (WireInteger 7), params) \<in> set (ow_asked demo_asked)
     \<and> offered_permission_response params ''allow'' = Some (JObject [(''decision'', JString ''allow'')])"
proof -
  have "owner_step\<^sup>*\<^sup>* (owner_spawn []) demo_asked"
    unfolding demo_asked_def by (rule r_into_rtranclp, rule owner_step.receive) (simp add: owner_spawn_def)
  moreover have "cache_response (response_key id (WireInteger 7)) ''allow'' None (ow_cache demo_asked) = Some (JObject [(''decision'', JString ''allow'')])"
    by (simp add: demo_asked_def pump_receive_def cache_response_def cache_observe_def offered_responses_def
        offered_permission_response_def demo_options_def json_get_str_def owner_spawn_def cache_empty_def drop_key_def
        SESSION_REQUEST_RUNTIME_PREFERENCES_def INTERACTION_REQUEST_PERMISSION_def response_key_def show_int_def
        MAX_PENDING_PERMISSION_RESPONSES_def Let_def)
  ultimately show ?thesis
    using permission_answers_are_offered [of "[]" demo_asked "response_key id (WireInteger 7)" "''allow''" None] by blast
qed

section \<open>Restart\<close>

lemma observe_keeps_log:
  "observe_process os pid st = (r, st') \<Longrightarrow> snd st' = snd st"
  "observe_process_group os pgid st = (r', st') \<Longrightarrow> snd st' = snd st"
  by (rule emits_silentD [OF emits_observe], assumption) (rule emits_silentD [OF emits_members], assumption)

text \<open>
  After a restart the daemon neither signals a process nor claims one is gone. The
  classification of a recorded identity sends no signal and never returns a terminal that
  promises a reaped group. It finds a lost session only where processes can be observed, for a
  well-formed identity that was seen alive and unchanged before and after its group was read,
  with the leader in the group and no foreign member; in every other case the process is
  reported orphaned.
\<close>

theorem restart_is_conservative:
  assumes "classify_restart macos os identity st = (t, st')"
  shows "snd st' = snd st \<and> \<not> terminal_proves_process_group_reaped t
    \<and> (t = FailedRuntimeLost SessionLost \<and> macos \<and> pi_pid identity > 1 \<and> pi_pgid identity = pi_pid identity
        \<and> (\<exists>st1 st2 members. observe_process os (pi_pid identity) st = (Inr identity, st1)
             \<and> observe_process_group os (pi_pgid identity) st1 = (Inr members, st2) \<and> identity \<in> set members
             \<and> list_all (\<lambda>m. \<not> foreign_member identity m) members
             \<and> observe_process os (pi_pid identity) st2 = (Inr identity, st'))
      \<or> (\<exists>loss. t = Orphaned loss \<and> loss \<noteq> SessionLost))"
proof (cases "macos \<and> \<not> (pi_pid identity \<le> 1 \<or> sint (pi_pgid identity) \<le> 1 \<or> pi_pid identity \<noteq> pi_pgid identity
     \<or> pi_start_token identity = [])")
  case False
  then show ?thesis
    using assms by (auto simp: classify_restart_def split: if_splits)
next
  case True
  obtain r1 st1 where s1: "observe_process os (pi_pid identity) st = (r1, st1)" by (rule prod.exhaust)
  obtain r2 st2 where s2: "observe_process_group os (pi_pgid identity) st1 = (r2, st2)" by (rule prod.exhaust)
  obtain r3 st3 where s3: "observe_process os (pi_pid identity) st2 = (r3, st3)" by (rule prod.exhaust)
  have log: "snd st1 = snd st" "snd st2 = snd st" "snd st3 = snd st"
    using s1 s2 s3 observe_keeps_log by metis+
  show ?thesis
    using assms True s1 s2 s3 log
    by (cases r1; cases r2; cases r3)
       (auto simp: classify_restart_def missing_or_unsupported_def list_ex_iff list_all_iff not_le simp del: split_paired_Ex
         split: if_splits)
qed

theorem restart_is_conservative_witness:
  "\<not> terminal_proves_process_group_reaped (fst (classify_restart True demo_os
       \<lparr>pi_pid = 7, pi_pgid = 7, pi_uid = 0, pi_start_token = ''linux:2''\<rparr> ((), [])))"
  using restart_is_conservative [OF surjective_pairing, of True demo_os
      "\<lparr>pi_pid = 7, pi_pgid = 7, pi_uid = 0, pi_start_token = ''linux:2''\<rparr>" "((), [])"] by (rule conjunct1 [OF conjunct2])

end
