(* ===== verification/Runtime_Session.thy ===== *)
theory Runtime_Session
  imports Runtime_Owner
begin

text \<open>
  The commands a runtime owner sends (\<^verbatim>\<open>impl RuntimeOwner\<close> in \<^verbatim>\<open>crates/zcode-agentd/src/lib.rs\<close>):
  creating or resuming a session, sending a turn, stopping it, closing the session, answering a
  request. The world \<open>'w\<close> is everything that moves beside the calling thread: the clock, the
  driver and the event pump. Each call on it is a field of \<open>runtime_io\<close>.
\<close>

datatype runtime_command_error =
    CommandUnsupported
  | CommandTimeout
  | CommandTransport string
  | CommandRemote json
  | InvalidSession string

fun command_error_text :: "runtime_command_error \<Rightarrow> string" where
  "command_error_text CommandUnsupported = ''runtime command plane is unsupported''"
| "command_error_text CommandTimeout = ''runtime command deadline elapsed''"
| "command_error_text (CommandTransport m) = ''runtime command transport failed''"
| "command_error_text (CommandRemote v) = ''runtime command was rejected''"
| "command_error_text (InvalidSession m) = ''invalid session response: '' @ m"

text \<open>\<^verbatim>\<open>{exit:?}\<close> of a child exit, and the texts of \<^verbatim>\<open>RequestError\<close>.\<close>

fun debug_child_exit :: "child_exit \<Rightarrow> string" where
  "debug_child_exit (Exited None) = ''Exited(None)''"
| "debug_child_exit (Exited (Some c)) = ''Exited(Some('' @ show_int c @ ''))''"
| "debug_child_exit (Signaled s) = ''Signaled('' @ show_int s @ '')''"
| "debug_child_exit ExitUnknown = ''Unknown''"

fun request_error_text :: "request_error \<Rightarrow> string" where
  "request_error_text Timeout = ''request deadline elapsed''"
| "request_error_text RequestCancelled = ''request was cancelled''"
| "request_error_text (RequestChildExited e) = ''runtime exited while request was pending: '' @ debug_child_exit e"
| "request_error_text StreamClosed = ''runtime response stream closed''"
| "request_error_text (WriteFailed m) = ''runtime request write failed''"
| "request_error_text (Remote v) = ''runtime returned an application error''"

fun command_error_from :: "request_error \<Rightarrow> runtime_command_error" where
  "command_error_from Timeout = CommandTimeout"
| "command_error_from (Remote v) = CommandRemote v"
| "command_error_from e = CommandTransport (request_error_text e)"

definition control_failure_code :: "runtime_command_error \<Rightarrow> string" where
  "control_failure_code e = (if e = CommandTimeout then ''CONTROL_DEADLINE_EXCEEDED'' else ''CONTROL_RUNTIME_FAILED'')"

section \<open>Models\<close>

definition validate_requested_model :: "string option \<Rightarrow> string option \<Rightarrow> string + unit" where
  "validate_requested_model requested observed =
     (case requested of
        None \<Rightarrow> Inr ()
      | Some r \<Rightarrow>
          rbind (ok_or ''MODEL_REQUEST_INVALID'' (normalized_zai_model r)) (\<lambda>r'.
          rbind (ok_or ''MODEL_NOT_OBSERVED'' (Option.bind observed normalized_zai_model)) (\<lambda>o'.
            if r' \<noteq> o' then Inl ''MODEL_MISMATCH'' else Inr ())))"

definition requested_model_from_prepared_launch :: "(string \<Rightarrow> json option) \<Rightarrow> string option \<Rightarrow> string option" where
  "requested_model_from_prepared_launch from_str prepared =
     Option.bind (Option.bind prepared from_str) (json_get_str ''model'')"

section \<open>Commands\<close>

text \<open>
  \<open>io_wakeups\<close> is what the thread meets while it waits for the turn tracker, as \<open>wait_until\<close>
  takes it. \<open>io_instant_max\<close> bounds what the clock can represent.
\<close>

record 'w runtime_io =
  io_now :: "'w \<Rightarrow> nat \<times> 'w"
  io_instant_max :: nat
  io_request :: "string \<Rightarrow> json \<Rightarrow> nat \<Rightarrow> 'w \<Rightarrow> (request_error + response_envelope) \<times> 'w"
  io_respond :: "wire_id \<Rightarrow> json \<Rightarrow> nat \<Rightarrow> 'w \<Rightarrow> (request_error + unit) \<times> 'w"
  io_turns :: "'w \<Rightarrow> turn_tracker"
  io_wakeups :: "'w \<Rightarrow> (nat \<times> turn_tracker \<times> bool) list \<times> 'w"
  io_cache :: "'w \<Rightarrow> permission_cache"
  io_set_cache :: "permission_cache \<Rightarrow> 'w \<Rightarrow> 'w"

text \<open>\<open>se_sent\<close> logs the requests handed to the driver, with the time each was given, and \<open>se_answers\<close>
  what the driver returned for each.\<close>

record 'w session =
  se_world :: 'w
  se_session_id :: "string option"
  se_stop_boundaries :: nat
  se_sent :: "(string \<times> json \<times> nat) list"
  se_answers :: "(request_error + response_envelope) list"

text \<open>The result \<open>None\<close> is a command that does not return: still waiting, or ended by a panic.\<close>

type_synonym ('w, 'a) command = "'w session \<Rightarrow> (runtime_command_error + 'a) option \<times> 'w session"

definition cmd_result :: "runtime_command_error + 'a \<Rightarrow> ('w, 'a) command" where
  "cmd_result r s = (Some r, s)"

definition cmd_bind :: "('w, 'a) command \<Rightarrow> ('a \<Rightarrow> ('w, 'b) command) \<Rightarrow> ('w, 'b) command" where
  "cmd_bind m f s = (case m s of
       (None, s') \<Rightarrow> (None, s')
     | (Some (Inl e), s') \<Rightarrow> (Some (Inl e), s')
     | (Some (Inr x), s') \<Rightarrow> f x s')"

definition cmd_now :: "'w runtime_io \<Rightarrow> ('w, nat) command" where
  "cmd_now io s = (case io_now io (se_world s) of (t, w) \<Rightarrow> (Some (Inr t), s\<lparr>se_world := w\<rparr>))"

definition checked_deadline :: "'w runtime_io \<Rightarrow> nat \<Rightarrow> ('w, nat) command" where
  "checked_deadline io timeout =
     cmd_bind (cmd_now io) (\<lambda>now.
       cmd_result (if now + timeout \<le> io_instant_max io then Inr (now + timeout) else Inl CommandTimeout))"

definition remaining_runtime_time :: "'w runtime_io \<Rightarrow> nat \<Rightarrow> ('w, nat) command" where
  "remaining_runtime_time io deadline =
     cmd_bind (cmd_now io) (\<lambda>now.
       cmd_result (if now < deadline then Inr (deadline - now) else Inl CommandTimeout))"

definition driver_request :: "'w runtime_io \<Rightarrow> string \<Rightarrow> json \<Rightarrow> nat \<Rightarrow> ('w, response_envelope) command" where
  "driver_request io method params timeout s =
     (case io_request io method params timeout (se_world s) of
        (r, w) \<Rightarrow> (Some (case r of Inl e \<Rightarrow> Inl (command_error_from e) | Inr x \<Rightarrow> Inr x),
                   s\<lparr>se_world := w, se_sent := se_sent s @ [(method, params, timeout)], se_answers := se_answers s @ [r]\<rparr>))"

definition request_before :: "'w runtime_io \<Rightarrow> string \<Rightarrow> json \<Rightarrow> nat \<Rightarrow> ('w, response_envelope) command" where
  "request_before io method params deadline =
     cmd_bind (remaining_runtime_time io deadline) (driver_request io method params)"

text \<open>\<^verbatim>\<open>wait_started_after\<close> and \<^verbatim>\<open>wait_boundary_after\<close>; their deadline is taken from a second clock reading.\<close>

definition wait_turns :: "'w runtime_io \<Rightarrow> (turn_tracker \<Rightarrow> bool) \<Rightarrow> nat \<Rightarrow> ('w, turn_snapshot) command" where
  "wait_turns io pred timeout =
     cmd_bind (cmd_now io) (\<lambda>now s.
       (case io_wakeups io (se_world s) of
          (ws, w) \<Rightarrow>
            (map_option (\<lambda>r. case r of None \<Rightarrow> Inl CommandTimeout | Some t \<Rightarrow> Inr (TurnTracker_snapshot t))
               (wait_until (now + timeout) pred (io_turns io (se_world s)) ws), s\<lparr>se_world := w\<rparr>)))"

definition validate_session :: "string \<Rightarrow> ('w, unit) command" where
  "validate_session sid s =
     (Some (if se_session_id s = Some sid then Inr ()
            else Inl (InvalidSession ''session id does not belong to this runtime'')), s)"

definition SESSION_CREATE :: string where "SESSION_CREATE = ''session/create''"
definition SESSION_RESUME :: string where "SESSION_RESUME = ''session/resume''"
definition SESSION_SUBSCRIBE :: string where "SESSION_SUBSCRIBE = ''session/subscribe''"
definition SESSION_SEND :: string where "SESSION_SEND = ''session/send''"
definition SESSION_STOP :: string where "SESSION_STOP = ''session/stop''"
definition SESSION_CLOSE :: string where "SESSION_CLOSE = ''session/close''"

record stdio_mcp_server =
  ms_name :: string
  ms_command :: string
  ms_args :: "string list"
  ms_env :: "(string \<times> string) list"

definition mcp_server_json :: "stdio_mcp_server \<Rightarrow> json" where
  "mcp_server_json m = JObject [(''name'', JString (ms_name m)), (''command'', JString (ms_command m)),
     (''args'', JArray (map JString (ms_args m))),
     (''env'', JArray (map (\<lambda>(n, v). JObject [(''name'', JString n), (''value'', JString v)]) (ms_env m)))]"

definition mcp_servers_member :: "stdio_mcp_server list \<Rightarrow> (string \<times> json) list" where
  "mcp_servers_member servers =
     (if servers = [] then [] else [(''mcpServers'', JArray (map mcp_server_json servers))])"

definition workspace_json :: "string \<Rightarrow> json" where
  "workspace_json path = JObject [(''workspaceKey'', JString path), (''workspacePath'', JString path)]"

definition create_params :: "string \<Rightarrow> stdio_mcp_server list \<Rightarrow> json" where
  "create_params path servers = JObject ((''workspace'', workspace_json path) # mcp_servers_member servers)"

definition resume_params :: "string \<Rightarrow> string \<Rightarrow> stdio_mcp_server list \<Rightarrow> json" where
  "resume_params sid path servers =
     JObject ([(''sessionId'', JString sid), (''workspace'', workspace_json path)] @ mcp_servers_member servers)"

definition subscribe_params :: "string \<Rightarrow> json" where
  "subscribe_params sid = JObject [(''sessionId'', JString sid), (''deliveryKind'', JString ''desktop-continuous''),
     (''includeSnapshot'', JBool True)]"

definition send_params :: "string \<Rightarrow> string \<Rightarrow> json" where
  "send_params sid content = JObject [(''sessionId'', JString sid), (''content'', JString content)]"

definition session_params :: "string \<Rightarrow> json" where
  "session_params sid = JObject [(''sessionId'', JString sid)]"

definition send_turn_before :: "'w runtime_io \<Rightarrow> string \<Rightarrow> string \<Rightarrow> nat \<Rightarrow> ('w, string option) command" where
  "send_turn_before io sid content deadline =
     cmd_bind (validate_session sid) (\<lambda>_ s.
       (let previous = ts_generation (io_turns io (se_world s)) in
        cmd_bind (request_before io SESSION_SEND (send_params sid content) deadline) (\<lambda>response.
        cmd_bind (remaining_runtime_time io deadline) (\<lambda>remaining.
        cmd_bind (wait_turns io (started_after previous) remaining) (\<lambda>_.
          cmd_result (Inr (Option.bind (rp_result response) turn_id_from_result))))) s))"

definition send_turn :: "'w runtime_io \<Rightarrow> string \<Rightarrow> string \<Rightarrow> nat \<Rightarrow> ('w, string option) command" where
  "send_turn io sid content timeout =
     cmd_bind (checked_deadline io timeout) (send_turn_before io sid content)"

text \<open>\<^verbatim>\<open>Instant::now() + timeout\<close> panics where \<^verbatim>\<open>checked_add\<close> would fail.\<close>

definition stop_turn :: "'w runtime_io \<Rightarrow> string \<Rightarrow> nat \<Rightarrow> ('w, turn_snapshot) command" where
  "stop_turn io sid timeout =
     cmd_bind (cmd_now io) (\<lambda>now s.
       if now + timeout > io_instant_max io then (None, s)
       else
         cmd_bind (validate_session sid) (\<lambda>_ s.
           (let current = TurnTracker_snapshot (io_turns io (se_world s)) in
            if \<not> ts_active current then (Some (Inr current), s)
            else
              cmd_bind (request_before io SESSION_STOP (session_params sid) (now + timeout)) (\<lambda>_.
              cmd_bind (remaining_runtime_time io (now + timeout)) (\<lambda>remaining.
              cmd_bind (wait_turns io (boundary_after (ts_generation current)) remaining) (\<lambda>boundary s.
                (Some (Inr boundary), s\<lparr>se_stop_boundaries := (se_stop_boundaries s + 1) mod 2 ^ 64\<rparr>)))) s)) s)"

definition close_session :: "'w runtime_io \<Rightarrow> string \<Rightarrow> nat \<Rightarrow> ('w, unit) command" where
  "close_session io sid timeout =
     cmd_bind (validate_session sid) (\<lambda>_.
     cmd_bind (driver_request io SESSION_CLOSE (session_params sid) timeout) (\<lambda>_. cmd_result (Inr ())))"

record session_ready =
  sr_session_id :: string
  sr_initial_turn_id :: "string option"
  sr_observed_model :: "string option"

definition own_session :: "string \<Rightarrow> ('w, unit) command" where
  "own_session sid s = (Some (Inr ()), s\<lparr>se_session_id := Some sid\<rparr>)"

text \<open>\<open>show_projection\<close> is the text of a projection error.\<close>

definition bootstrap_session_with_mcp_for_requested_model ::
    "'w runtime_io \<Rightarrow> (projection_error \<Rightarrow> string) \<Rightarrow> string \<Rightarrow> string \<Rightarrow> stdio_mcp_server list \<Rightarrow> string option
     \<Rightarrow> nat \<Rightarrow> ('w, session_ready) command" where
  "bootstrap_session_with_mcp_for_requested_model io show_projection path prompt servers requested_model timeout =
     cmd_bind (checked_deadline io timeout) (\<lambda>deadline.
     cmd_bind (request_before io SESSION_CREATE (create_params path servers) deadline) (\<lambda>created.
     cmd_bind (cmd_result (ok_or (InvalidSession ''session/create result is missing'') (rp_result created))) (\<lambda>result.
     cmd_bind (cmd_result (case SessionCreateProjection_from_result result of
                 Inl e \<Rightarrow> Inl (InvalidSession (''session/create projection is invalid: '' @ show_projection e))
               | Inr p \<Rightarrow> Inr p)) (\<lambda>projection.
     cmd_bind (cmd_result (case validate_requested_model requested_model (sp_requested_model projection) of
                 Inl code \<Rightarrow> Inl (InvalidSession code) | Inr u \<Rightarrow> Inr u)) (\<lambda>_.
     cmd_bind (request_before io SESSION_SUBSCRIBE (subscribe_params (sp_session_id projection)) deadline) (\<lambda>_.
     cmd_bind (own_session (sp_session_id projection)) (\<lambda>_.
     cmd_bind (send_turn_before io (sp_session_id projection) prompt deadline) (\<lambda>turn_id.
       cmd_result (Inr \<lparr>sr_session_id = sp_session_id projection, sr_initial_turn_id = turn_id,
                        sr_observed_model = sp_requested_model projection\<rparr>)))))))))"

definition resume_session_with_mcp ::
    "'w runtime_io \<Rightarrow> string option \<Rightarrow> string \<Rightarrow> stdio_mcp_server list \<Rightarrow> nat \<Rightarrow> ('w, session_ready) command" where
  "resume_session_with_mcp io persisted path servers timeout =
     cmd_bind (cmd_result (ok_or (InvalidSession ''task has no persisted session id'') persisted)) (\<lambda>sid.
     cmd_bind (checked_deadline io timeout) (\<lambda>deadline.
     cmd_bind (request_before io SESSION_RESUME (resume_params sid path servers) deadline) (\<lambda>_.
     cmd_bind (request_before io SESSION_SUBSCRIBE (subscribe_params sid) deadline) (\<lambda>_.
     cmd_bind (own_session sid) (\<lambda>_.
       cmd_result (Inr \<lparr>sr_session_id = sid, sr_initial_turn_id = None, sr_observed_model = None\<rparr>))))))"

definition update_cache :: "'w runtime_io \<Rightarrow> (permission_cache \<Rightarrow> permission_cache) \<Rightarrow> ('w, unit) command" where
  "update_cache io f s = (Some (Inr ()), s\<lparr>se_world := io_set_cache io (f (io_cache io (se_world s))) (se_world s)\<rparr>)"

definition respond_request ::
    "'w runtime_io \<Rightarrow> wire_env \<Rightarrow> (string \<Rightarrow> string) \<Rightarrow> string \<Rightarrow> string \<Rightarrow> denial_semantics option \<Rightarrow> nat
     \<Rightarrow> ('w, unit) command" where
  "respond_request io env escape correlation decision validated deadline =
     cmd_bind (cmd_result (ok_or (InvalidSession ''stored request correlation is invalid'')
                 (case we_from_str env correlation of Inl e \<Rightarrow> None | Inr v \<Rightarrow> read_wire_id v))) (\<lambda>wid.
     if decision \<noteq> ''allow'' \<and> decision \<noteq> ''deny'' then cmd_result (Inl CommandUnsupported)
     else
       (let key = response_key escape wid in
        cmd_bind (\<lambda>s. (Some (ok_or (InvalidSession ''runtime offered no matching permission response'')
                         (cache_response key decision validated (io_cache io (se_world s)))), s)) (\<lambda>result.
        cmd_bind (\<lambda>s. case io_respond io wid result deadline (se_world s) of
                        (r, w) \<Rightarrow> (Some (case r of Inl e \<Rightarrow> Inl (command_error_from e) | Inr u \<Rightarrow> Inr u),
                                   s\<lparr>se_world := w\<rparr>)) (\<lambda>_.
        cmd_bind (update_cache io (if decision = ''deny'' then record_denial key validated else id)) (\<lambda>_.
          update_cache io (cache_complete key))))))"

section \<open>Waiting\<close>

lemma wait_until_hit: "pred st \<Longrightarrow> wait_until deadline pred st ws = Some (Some st)"
  by (cases "(deadline, pred, st, ws)" rule: wait_until.cases) auto

lemma wait_until_ends:
  "(n, y, b) \<in> set ws \<Longrightarrow> pred y \<or> b \<or> n \<ge> deadline \<Longrightarrow> wait_until deadline pred st ws \<noteq> None"
  by (induction deadline pred st ws rule: wait_until.induct) (auto simp: wait_until_hit)

lemma wait_until_found:
  "wait_until deadline pred st ws = Some (Some x) \<Longrightarrow> pred x \<and> x \<in> insert st ((\<lambda>(n, y, b). y) ` set ws)"
  by (induction deadline pred st ws rule: wait_until.induct) (auto split: if_splits)

definition gave_up :: "nat \<Rightarrow> ('t \<Rightarrow> bool) \<Rightarrow> (nat \<times> 't \<times> bool) list \<Rightarrow> bool" where
  "gave_up deadline pred ws \<longleftrightarrow> (\<exists>pre n y b rest. ws = pre @ (n, y, b) # rest
     \<and> list_all (\<lambda>(n, y, b). \<not> pred y) pre \<and> (n \<ge> deadline \<or> b \<and> \<not> pred y))"

lemma wait_until_gave_up:
  "wait_until deadline pred st ws = Some None \<Longrightarrow> \<not> pred st \<and> gave_up deadline pred ws"
proof (induction deadline pred st ws rule: wait_until.induct)
  case (2 deadline pred st now st' timed_out ws)
  show ?case
  proof (cases "now \<ge> deadline \<or> timed_out \<and> \<not> pred st'")
    case True
    then show ?thesis
      using 2 by (auto simp: gave_up_def intro!: exI [of _ "[]"] split: if_splits)
  next
    case False
    then have "\<not> pred st" and ih: "\<not> pred st' \<and> gave_up deadline pred ws" using 2 by (auto split: if_splits)
    from ih obtain pre n y b rest where "ws = pre @ (n, y, b) # rest" "list_all (\<lambda>(n, y, b). \<not> pred y) pre"
        "n \<ge> deadline \<or> b \<and> \<not> pred y"
      unfolding gave_up_def by blast
    then show ?thesis
      using \<open>\<not> pred st\<close> ih unfolding gave_up_def by (intro conjI exI [of _ "(now, st', timed_out) # pre"]) auto
  qed
qed (auto split: if_splits)

text \<open>
  A wait on the turn tracker ends. As soon as one wake-up
  finds the predicate true, times out, or reads a clock past the deadline, the loop returns; it
  returns a state only if the predicate holds there, and gives up only if the predicate held in
  neither the first state nor any state it was woken in before it gave up.
\<close>

theorem waits_end:
  assumes "(now, st', timed_out) \<in> set ws" and "pred st' \<or> timed_out \<or> now \<ge> deadline"
  shows "case wait_until deadline pred st ws of
            None \<Rightarrow> False
          | Some (Some x) \<Rightarrow> pred x \<and> x \<in> insert st ((\<lambda>(n, y, b). y) ` set ws)
          | Some None \<Rightarrow> \<not> pred st \<and> gave_up deadline pred ws"
proof (cases "wait_until deadline pred st ws")
  case None
  then show ?thesis using wait_until_ends [of now st' timed_out ws pred deadline st] assms by simp
next
  case (Some r)
  then show ?thesis
    by (cases r) (auto dest: wait_until_found wait_until_gave_up)
qed

definition demo_wakeups :: "(nat \<times> turn_tracker \<times> bool) list" where
  "demo_wakeups = [(1, TurnTracker_new, False), (2, TurnTracker_new\<lparr>ts_generation := 1\<rparr>, False)]"

theorem waits_end_witness:
  "case wait_until 5 (started_after 0) TurnTracker_new demo_wakeups of
      None \<Rightarrow> False
    | Some (Some x) \<Rightarrow> started_after 0 x \<and> x \<in> insert TurnTracker_new ((\<lambda>(n, y, b). y) ` set demo_wakeups)
    | Some None \<Rightarrow> \<not> started_after 0 TurnTracker_new \<and> gave_up 5 (started_after 0) demo_wakeups"
  by (rule waits_end [of 2 "TurnTracker_new\<lparr>ts_generation := 1\<rparr>" False])
     (simp_all add: started_after_def demo_wakeups_def)

section \<open>What a command sends\<close>

text \<open>Commands that touch neither the session nor the requests.\<close>

definition silent :: "('w, 'a) command \<Rightarrow> bool" where
  "silent m \<longleftrightarrow> (\<forall>s. se_sent (snd (m s)) = se_sent s \<and> se_answers (snd (m s)) = se_answers s \<and> se_session_id (snd (m s)) = se_session_id s
     \<and> se_stop_boundaries (snd (m s)) = se_stop_boundaries s)"

lemma silent_bind: "silent m \<Longrightarrow> (\<And>x. silent (f x)) \<Longrightarrow> silent (cmd_bind m f)"
  by (auto simp: silent_def cmd_bind_def split: prod.splits option.splits sum.splits) (metis snd_conv)+

lemma silent_basic:
  "silent (cmd_result r)" "silent (cmd_now io)" "silent (validate_session sid)" "silent (update_cache io g)"
  by (auto simp: silent_def cmd_result_def cmd_now_def validate_session_def update_cache_def split: prod.splits)

lemma silent_time: "silent (checked_deadline io timeout)" "silent (remaining_runtime_time io deadline)"
  unfolding checked_deadline_def remaining_runtime_time_def by (intro silent_bind silent_basic)+

lemma silent_wait: "silent (wait_turns io pred timeout)"
  unfolding wait_turns_def by (intro silent_bind silent_basic) (auto simp: silent_def split: prod.splits)

lemmas silent_intros = silent_bind silent_basic silent_time silent_wait

lemma silentD: "silent m \<Longrightarrow> m s = (r, s') \<Longrightarrow> se_sent s' = se_sent s \<and> se_answers s' = se_answers s \<and> se_session_id s' = se_session_id s
    \<and> se_stop_boundaries s' = se_stop_boundaries s"
  by (auto simp: silent_def dest: spec [of _ s])

text \<open>A bind that returned either failed in its first part or ran its second.\<close>

lemma cmd_bindE:
  assumes "cmd_bind m f s = (r, s')"
  obtains (failed) e where "m s = (e, s')" and "\<And>x. r \<noteq> Some (Inr x)" and "\<And>x. e \<noteq> Some (Inr x)"
  | (passed) x s1 where "m s = (Some (Inr x), s1)" and "f x s1 = (r, s')"
  using assms by (auto simp: cmd_bind_def split: prod.splits option.splits sum.splits)

lemma driver_request_sends:
  assumes "driver_request io method params t s = (r, s')"
  shows "se_sent s' = se_sent s @ [(method, params, t)] \<and> se_session_id s' = se_session_id s
     \<and> se_stop_boundaries s' = se_stop_boundaries s
     \<and> (\<exists>a. se_answers s' = se_answers s @ [a] \<and> (\<forall>x. r = Some (Inr x) \<longrightarrow> a = Inr x))"
  using assms by (auto simp: driver_request_def split: prod.splits sum.splits)

lemma remaining_positive:
  "remaining_runtime_time io deadline s = (Some (Inr t), s') \<Longrightarrow> 0 < t"
  by (auto simp: remaining_runtime_time_def cmd_bind_def cmd_now_def cmd_result_def split: prod.splits if_splits)

lemma request_before_sends:
  assumes "request_before io method params deadline s = (r, s')"
  obtains (unsent) "se_sent s' = se_sent s" "se_session_id s' = se_session_id s" "\<And>x. r \<noteq> Some (Inr x)"
      "se_stop_boundaries s' = se_stop_boundaries s" "se_answers s' = se_answers s"
  | (sent) t a where "se_sent s' = se_sent s @ [(method, params, t)]" "se_session_id s' = se_session_id s" "0 < t"
      "se_stop_boundaries s' = se_stop_boundaries s" "se_answers s' = se_answers s @ [a]" "\<And>x. r = Some (Inr x) \<Longrightarrow> a = Inr x"
  using assms [unfolded request_before_def]
proof (cases rule: cmd_bindE)
  case (failed e)
  then show ?thesis using unsent silentD [OF silent_time(2) failed(1)] by simp
next
  case (passed t s1)
  then show ?thesis
    using sent [of t] silentD [OF silent_time(2) passed(1)] driver_request_sends [OF passed(2)] remaining_positive [OF passed(1)]
    by auto
qed

lemma send_turn_before_sends:
  assumes "send_turn_before io sid content deadline s = (r, s')"
  shows "se_session_id s' = se_session_id s
    \<and> (se_sent s' = se_sent s \<and> se_answers s' = se_answers s \<and> (\<forall>x. r \<noteq> Some (Inr x))
       \<or> (\<exists>t>0. \<exists>a. se_sent s' = se_sent s @ [(SESSION_SEND, send_params sid content, t)] \<and> se_answers s' = se_answers s @ [a]
            \<and> (\<forall>turn. r = Some (Inr turn) \<longrightarrow> (\<exists>x. a = Inr x \<and> turn = Option.bind (rp_result x) turn_id_from_result))))"
  using assms [unfolded send_turn_before_def]
proof (cases rule: cmd_bindE)
  case (failed e)
  then show ?thesis using silentD [OF silent_basic(3) failed(1)] by simp
next
  case (passed x s1)
  have s1: "s1 = s" using passed(1) by (auto simp: validate_session_def split: if_splits)
  note rest = passed(2) [unfolded Let_def]
  then show ?thesis
  proof (cases rule: cmd_bindE)
    case (failed e)
    then show ?thesis by (cases rule: request_before_sends) (auto simp: s1)
  next
    case (passed response s2)
    let ?tail = "cmd_bind (remaining_runtime_time io deadline) (\<lambda>remaining.
        cmd_bind (wait_turns io (started_after (ts_generation (io_turns io (se_world s1)))) remaining) (\<lambda>_.
          cmd_result (Inr (Option.bind (rp_result response) turn_id_from_result))))"
    have "silent ?tail" by (intro silent_intros)
    note quiet = silentD [OF this passed(2)]
    have turn: "turn = Option.bind (rp_result response) turn_id_from_result" if "r = Some (Inr turn)" for turn
      using passed(2) that by (auto simp: cmd_bind_def cmd_result_def split: prod.splits option.splits sum.splits)
    from passed(1) show ?thesis
      by (cases rule: request_before_sends) (use quiet turn in \<open>auto simp: s1\<close>)
  qed
qed

text \<open>
  The session a command may talk to: the answer to the creation request names it, and the model in the
  answer is the requested one.
\<close>

definition pinned_session ::
    "string option \<Rightarrow> request_error + response_envelope \<Rightarrow> session_create_projection \<Rightarrow> bool" where
  "pinned_session requested answer p \<longleftrightarrow>
     (\<exists>created result. answer = Inr created \<and> rp_result created = Some result
        \<and> SessionCreateProjection_from_result result = Inr p)
     \<and> validate_requested_model requested (sp_requested_model p) = Inr ()"

text \<open>The requests a bootstrap sends and the answers it got: it goes on to the subscription only with an answer
  that pins a session, and to the prompt only when the subscription succeeded.\<close>

inductive bootstrap_log ::
    "string \<Rightarrow> string \<Rightarrow> stdio_mcp_server list \<Rightarrow> string option
     \<Rightarrow> (string \<times> json \<times> nat) list \<Rightarrow> (request_error + response_envelope) list \<Rightarrow> bool"
  for path prompt servers requested where
  nothing: "bootstrap_log path prompt servers requested [] []"
| creates: "0 < t \<Longrightarrow> bootstrap_log path prompt servers requested [(SESSION_CREATE, create_params path servers, t)] [a]"
| subscribes: "bootstrap_log path prompt servers requested [k] [a] \<Longrightarrow> pinned_session requested a p \<Longrightarrow> 0 < u
    \<Longrightarrow> bootstrap_log path prompt servers requested [k, (SESSION_SUBSCRIBE, subscribe_params (sp_session_id p), u)] [a, b]"
| prompts: "bootstrap_log path prompt servers requested [k, l] [a, Inr x] \<Longrightarrow> pinned_session requested a p \<Longrightarrow> 0 < v
    \<Longrightarrow> bootstrap_log path prompt servers requested [k, l, (SESSION_SEND, send_params (sp_session_id p) prompt, v)] [a, Inr x, b]"

lemma own_session_effect:
  "own_session sid s = (r, s') \<Longrightarrow> r = Some (Inr ()) \<and> se_sent s' = se_sent s \<and> se_answers s' = se_answers s \<and> se_session_id s' = Some sid"
  by (auto simp: own_session_def)

text \<open>The part of the bootstrap after the session was accepted.\<close>

lemma bootstrap_pinned_tail:
  assumes run: "cmd_bind (request_before io SESSION_SUBSCRIBE (subscribe_params (sp_session_id p)) deadline) (\<lambda>_.
      cmd_bind (own_session (sp_session_id p)) (\<lambda>_.
      cmd_bind (send_turn_before io (sp_session_id p) prompt deadline) (\<lambda>turn_id.
        cmd_result (Inr \<lparr>sr_session_id = sp_session_id p, sr_initial_turn_id = turn_id,
                         sr_observed_model = sp_requested_model p\<rparr>)))) s = (r, s')"
    and before: "se_sent s = l @ [k]" "se_answers s = as @ [a]" "bootstrap_log path prompt servers requested [k] [a]"
    and pinned: "pinned_session requested a p"
  shows "\<exists>ks bs. se_sent s' = l @ ks \<and> se_answers s' = as @ bs \<and> bootstrap_log path prompt servers requested ks bs
    \<and> (\<forall>ready. r = Some (Inr ready) \<longrightarrow> length ks = 3 \<and> hd bs = a \<and> sr_session_id ready = sp_session_id p
         \<and> sr_observed_model ready = sp_requested_model p \<and> se_session_id s' = Some (sp_session_id p)
         \<and> (\<exists>x. last bs = Inr x \<and> sr_initial_turn_id ready = Option.bind (rp_result x) turn_id_from_result))"
  using run
proof (cases rule: cmd_bindE)
  case (failed e)
  from failed(1) show ?thesis
  proof (cases rule: request_before_sends)
    case unsent
    then show ?thesis using before failed(2) by (intro exI [of _ "[k]"] exI [of _ "[a]"]) auto
  next
    case (sent u b)
    then show ?thesis
      using before failed(2) subscribes [OF before(3) pinned sent(3)]
      by (intro exI [of _ "[k, (SESSION_SUBSCRIBE, subscribe_params (sp_session_id p), u)]"] exI [of _ "[a, b]"]) auto
  qed
next
  case (passed x s1)
  from passed(1) obtain u where u: "se_sent s1 = l @ [k, (SESSION_SUBSCRIBE, subscribe_params (sp_session_id p), u)]" "0 < u"
    "se_answers s1 = as @ [a, Inr x]"
    by (cases rule: request_before_sends) (auto simp: before)
  from passed(2) obtain s2 where s2: "se_sent s2 = se_sent s1" "se_answers s2 = se_answers s1" "se_session_id s2 = Some (sp_session_id p)"
    and rest: "cmd_bind (send_turn_before io (sp_session_id p) prompt deadline) (\<lambda>turn_id.
        cmd_result (Inr \<lparr>sr_session_id = sp_session_id p, sr_initial_turn_id = turn_id,
                         sr_observed_model = sp_requested_model p\<rparr>)) s2 = (r, s')"
    by (cases rule: cmd_bindE) (auto dest!: own_session_effect)
  note log = subscribes [OF before(3) pinned u(2), of "Inr x"]
  from rest obtain q where q: "send_turn_before io (sp_session_id p) prompt deadline s2 = (q, s')"
    "\<And>ready. r = Some (Inr ready) \<Longrightarrow> \<exists>turn. q = Some (Inr turn) \<and> ready = \<lparr>sr_session_id = sp_session_id p,
       sr_initial_turn_id = turn, sr_observed_model = sp_requested_model p\<rparr>"
    by (cases rule: cmd_bindE) (auto simp: cmd_result_def)
  from send_turn_before_sends [OF q(1)] show ?thesis
  proof (elim conjE disjE exE)
    assume unsent: "se_sent s' = se_sent s2" "se_answers s' = se_answers s2" "\<forall>y. q \<noteq> Some (Inr y)"
    then have "r \<noteq> Some (Inr ready)" for ready using q(2) by blast
    then show ?thesis using unsent(1,2) s2 u log by (metis (no_types, lifting))
  next
    fix v b
    assume sent: "se_session_id s' = se_session_id s2" "0 < v" "se_sent s' = se_sent s2 @ [(SESSION_SEND, send_params (sp_session_id p) prompt, v)]"
      "se_answers s' = se_answers s2 @ [b]"
      "\<forall>turn. q = Some (Inr turn) \<longrightarrow> (\<exists>x. b = Inr x \<and> turn = Option.bind (rp_result x) turn_id_from_result)"
    show ?thesis
      using sent q(2) s2 u prompts [OF log pinned sent(2), of b]
      by (intro exI [of _ "[k, (SESSION_SUBSCRIBE, subscribe_params (sp_session_id p), u),
          (SESSION_SEND, send_params (sp_session_id p) prompt, v)]"] exI [of _ "[a, Inr x, b]"]) fastforce
  qed
qed

text \<open>The part of the bootstrap after the runtime answered the creation request.\<close>

lemma bootstrap_created_tail:
  assumes run: "cmd_bind (cmd_result (ok_or (InvalidSession ''session/create result is missing'') (rp_result created))) (\<lambda>result.
     cmd_bind (cmd_result (case SessionCreateProjection_from_result result of
                 Inl e \<Rightarrow> Inl (InvalidSession (''session/create projection is invalid: '' @ show_projection e))
               | Inr p \<Rightarrow> Inr p)) (\<lambda>projection.
     cmd_bind (cmd_result (case validate_requested_model requested (sp_requested_model projection) of
                 Inl code \<Rightarrow> Inl (InvalidSession code) | Inr u \<Rightarrow> Inr u)) (\<lambda>_. accepted projection))) s = (r, s')"
  obtains (refused) "s' = s" "\<And>x. r \<noteq> Some (Inr x)"
  | (pinned) p where "pinned_session requested (Inr created) p" "accepted p s = (r, s')"
proof (cases "rp_result created")
  case None
  then show ?thesis using run by (intro refused) (auto simp: cmd_bind_def cmd_result_def ok_or_def)
next
  case (Some result)
  show ?thesis
  proof (cases "SessionCreateProjection_from_result result")
    case (Inl e)
    then show ?thesis using run Some by (intro refused) (auto simp: cmd_bind_def cmd_result_def ok_or_def)
  next
    case p: (Inr p)
    show ?thesis
    proof (cases "validate_requested_model requested (sp_requested_model p)")
      case (Inl code)
      then show ?thesis using run Some p by (intro refused) (auto simp: cmd_bind_def cmd_result_def ok_or_def)
    next
      case (Inr u)
      then show ?thesis
        using run Some p by (intro pinned [of p]) (auto simp: pinned_session_def cmd_bind_def cmd_result_def ok_or_def)
    qed
  qed
qed

text \<open>
  C31 (safety): a prompt only ever reaches the session that was created for it. Whatever the runtime, the clock and the
  event pump do, starting a session sends a creation request, then a subscription, then the prompt, in this order and each
  with time left, and stops at the first failure: the subscription is sent only when the answer to the creation
  request of this very start names a session and its model is the requested one, the prompt only when the
  subscription was answered without an error, and both name that session. When the start succeeds all three were sent and
  answered, that session is the owner's, and the reported model and turn are those of the answers.
\<close>

theorem prompt_reaches_only_its_session:
  assumes "bootstrap_session_with_mcp_for_requested_model io show_projection path prompt servers requested timeout s = (r, s')"
  shows "\<exists>ks as. se_sent s' = se_sent s @ ks \<and> se_answers s' = se_answers s @ as \<and> bootstrap_log path prompt servers requested ks as
    \<and> (\<forall>ready. r = Some (Inr ready) \<longrightarrow> length ks = 3
         \<and> (\<exists>p x. pinned_session requested (hd as) p \<and> last as = Inr x \<and> sr_session_id ready = sp_session_id p
              \<and> sr_observed_model ready = sp_requested_model p
              \<and> sr_initial_turn_id ready = Option.bind (rp_result x) turn_id_from_result
              \<and> se_session_id s' = Some (sp_session_id p)))"
  using assms [unfolded bootstrap_session_with_mcp_for_requested_model_def]
proof (cases rule: cmd_bindE)
  case (failed e)
  then show ?thesis using silentD [OF silent_time(1) failed(1)] by (intro exI [of _ "[]"]) (auto intro: bootstrap_log.intros)
next
  case (passed deadline s1)
  note s1 = silentD [OF silent_time(1) passed(1)]
  from passed(2) show ?thesis
  proof (cases rule: cmd_bindE)
    case (failed e)
    from failed(1) show ?thesis
    proof (cases rule: request_before_sends)
      case unsent
      then show ?thesis using s1 failed(2) by (intro exI [of _ "[]"]) (auto intro: bootstrap_log.intros)
    next
      case (sent t a)
      then show ?thesis
        using s1 failed(2) creates [OF sent(3), of path prompt servers requested a]
        by (intro exI [of _ "[(SESSION_CREATE, create_params path servers, t)]"] exI [of _ "[a]"]) auto
    qed
  next
    case (passed created s2)
    from passed(1) obtain t where t: "se_sent s2 = se_sent s @ [(SESSION_CREATE, create_params path servers, t)]"
      "se_answers s2 = se_answers s @ [Inr created]" "0 < t"
      using s1 by (cases rule: request_before_sends) auto
    note log = creates [OF t(3), of path prompt servers requested "Inr created"]
    from passed(2) show ?thesis
    proof (cases rule: bootstrap_created_tail)
      case refused
      then show ?thesis using t log by blast
    next
      case (pinned p)
      from bootstrap_pinned_tail [OF pinned(2) t(1,2) log pinned(1)] obtain ks bs where tail: "se_sent s' = se_sent s @ ks"
        "se_answers s' = se_answers s @ bs" "bootstrap_log path prompt servers requested ks bs"
        "\<forall>ready. r = Some (Inr ready) \<longrightarrow> length ks = 3 \<and> hd bs = Inr created \<and> sr_session_id ready = sp_session_id p
           \<and> sr_observed_model ready = sp_requested_model p \<and> se_session_id s' = Some (sp_session_id p)
           \<and> (\<exists>x. last bs = Inr x \<and> sr_initial_turn_id ready = Option.bind (rp_result x) turn_id_from_result)"
        by blast
      show ?thesis using tail(1-3) by (intro exI conjI) (use tail(4) pinned(1) in auto)
    qed
  qed
qed

definition demo_io :: "unit runtime_io" where
  "demo_io = \<lparr>io_now = \<lambda>w. (0, w), io_instant_max = 100,
     io_request = \<lambda>m p t w. (Inr \<lparr>rp_id = WireInteger 1, rp_result = Some (JObject [(''session'', JObject [(''sessionId'', JString ''s'')])]),
                               rp_error = None\<rparr>, w),
     io_respond = \<lambda>i v d w. (Inr (), w), io_turns = \<lambda>w. TurnTracker_new,
     io_wakeups = \<lambda>w. ([(1, TurnTracker_new\<lparr>ts_generation := 1\<rparr>, False)], w),
     io_cache = \<lambda>w. cache_empty, io_set_cache = \<lambda>c w. w\<rparr>"

definition fresh_session :: "unit session" where
  "fresh_session = \<lparr>se_world = (), se_session_id = None, se_stop_boundaries = 0, se_sent = [], se_answers = []\<rparr>"

theorem prompt_reaches_only_its_session_witness:
  "\<exists>ks as p. bootstrap_log ''/w'' ''hello'' [] None ks as \<and> length ks = 3 \<and> pinned_session None (hd as) p \<and> sp_session_id p = ''s''"
proof -
  let ?run = "bootstrap_session_with_mcp_for_requested_model demo_io (\<lambda>e. []) ''/w'' ''hello'' [] None 9 fresh_session"
  have "fst ?run = Some (Inr \<lparr>sr_session_id = ''s'', sr_initial_turn_id = None, sr_observed_model = None\<rparr>)"
    by (simp add: bootstrap_session_with_mcp_for_requested_model_def cmd_bind_def cmd_result_def checked_deadline_def
        cmd_now_def request_before_def remaining_runtime_time_def driver_request_def demo_io_def fresh_session_def ok_or_def
        SessionCreateProjection_from_result_def rbind_def reject_alternate_def obj_has_def validate_requested_model_def
        own_session_def send_turn_before_def validate_session_def wait_turns_def started_after_def TurnTracker_new_def
        turn_id_from_result_def json_get_str_def required_bounded_string_def has_nul_def
        settings_current_model_def session_consistency_model_def optional_object_def Let_def)
  then have "?run = (Some (Inr \<lparr>sr_session_id = ''s'', sr_initial_turn_id = None, sr_observed_model = None\<rparr>), snd ?run)"
    by (metis prod.collapse)
  from prompt_reaches_only_its_session [OF this] show ?thesis by force
qed

section \<open>Commands for a session\<close>

lemma wait_turns_result:
  "wait_turns io pred timeout s = (Some (Inr snapshot), s') \<Longrightarrow> \<exists>t. pred t \<and> snapshot = TurnTracker_snapshot t"
  by (fastforce simp: wait_turns_def cmd_bind_def cmd_now_def dest: wait_until_found split: prod.splits option.splits)

text \<open>The part of a stop after the session and the active turn were checked.\<close>

lemma stop_active_turn:
  assumes run: "cmd_bind (request_before io SESSION_STOP params deadline) (\<lambda>_.
      cmd_bind (remaining_runtime_time io deadline) (\<lambda>remaining.
      cmd_bind (wait_turns io (boundary_after generation) remaining) (\<lambda>boundary s.
        (Some (Inr boundary), s\<lparr>se_stop_boundaries := (se_stop_boundaries s + 1) mod 2 ^ 64\<rparr>)))) s = (Some r, s')"
  shows "case r of
      Inr snapshot \<Rightarrow> (\<exists>t>0. se_sent s' = se_sent s @ [(SESSION_STOP, params, t)])
        \<and> se_stop_boundaries s' = (se_stop_boundaries s + 1) mod 2 ^ 64
        \<and> \<not> ts_active snapshot \<and> ts_boundary snapshot \<noteq> None \<and> ts_generation snapshot \<ge> generation
    | Inl e \<Rightarrow> se_stop_boundaries s' = se_stop_boundaries s
        \<and> (se_sent s' = se_sent s \<or> (\<exists>t>0. se_sent s' = se_sent s @ [(SESSION_STOP, params, t)]))"
  using run
proof (cases rule: cmd_bindE)
  case (failed e)
  from failed(1) show ?thesis
    by (cases rule: request_before_sends) (use failed(2) in \<open>auto split: sum.split\<close>)
next
  case (passed x s1)
  from passed(1) obtain t where t: "se_sent s1 = se_sent s @ [(SESSION_STOP, params, t)]" "0 < t" "se_stop_boundaries s1 = se_stop_boundaries s"
    by (cases rule: request_before_sends) auto
  from passed(2) show ?thesis
  proof (cases rule: cmd_bindE)
    case (failed e)
    then show ?thesis using silentD [OF silent_time(2) failed(1)] t by (auto split: sum.split)
  next
    case (passed remaining s2)
    note s2 = silentD [OF silent_time(2) passed(1)]
    from passed(2) show ?thesis
    proof (cases rule: cmd_bindE)
      case (failed e)
      then show ?thesis using silentD [OF silent_wait failed(1)] s2 t by (auto split: sum.split)
    next
      case (passed boundary s3)
      then show ?thesis
        using silentD [OF silent_wait passed(1)] wait_turns_result [OF passed(1)] s2 t
        by (auto simp: boundary_after_def split: sum.split)
    qed
  qed
qed

text \<open>
  What stopping a turn means. If the call returns a snapshot no turn is active in
  it. With no turn active nothing is sent and the current snapshot is returned; otherwise exactly
  one stop request went out, the snapshot shows the boundary of that turn or a later one, and it
  is counted. A session the owner does not hold is refused and nothing is sent.
\<close>

theorem stop_turn_reaches_boundary:
  assumes "stop_turn io sid timeout s = (Some r, s')"
  shows "(case r of
            Inr snapshot \<Rightarrow> \<not> ts_active snapshot \<and> se_session_id s = Some sid
              \<and> (se_sent s' = se_sent s \<and> se_stop_boundaries s' = se_stop_boundaries s
                 \<or> (\<exists>t>0. se_sent s' = se_sent s @ [(SESSION_STOP, session_params sid, t)]
                      \<and> se_stop_boundaries s' = (se_stop_boundaries s + 1) mod 2 ^ 64
                      \<and> ts_boundary snapshot \<noteq> None))
          | Inl e \<Rightarrow> se_stop_boundaries s' = se_stop_boundaries s
              \<and> (se_sent s' = se_sent s \<or> (\<exists>t>0. se_sent s' = se_sent s @ [(SESSION_STOP, session_params sid, t)])))
       \<and> (se_session_id s \<noteq> Some sid \<longrightarrow>
            r = Inl (InvalidSession ''session id does not belong to this runtime'') \<and> se_sent s' = se_sent s)"
proof -
  obtain now s1 where now: "cmd_now io s = (Some (Inr now), s1)" by (cases "io_now io (se_world s)") (simp add: cmd_now_def)
  note s1 = silentD [OF silent_basic(2) now]
  have run: "cmd_bind (validate_session sid) (\<lambda>_ s.
       (let current = TurnTracker_snapshot (io_turns io (se_world s)) in
        if \<not> ts_active current then (Some (Inr current), s)
        else cmd_bind (request_before io SESSION_STOP (session_params sid) (now + timeout)) (\<lambda>_.
             cmd_bind (remaining_runtime_time io (now + timeout)) (\<lambda>remaining.
             cmd_bind (wait_turns io (boundary_after (ts_generation current)) remaining) (\<lambda>boundary s.
               (Some (Inr boundary), s\<lparr>se_stop_boundaries := (se_stop_boundaries s + 1) mod 2 ^ 64\<rparr>)))) s)) s1 = (Some r, s')"
    using assms now by (auto simp: stop_turn_def cmd_bind_def [of "cmd_now io"] split: if_splits)
  show ?thesis
  proof (cases "se_session_id s = Some sid \<and> ts_active (io_turns io (se_world s1))")
    case False
    then show ?thesis
      using run s1 by (auto simp: cmd_bind_def [of "validate_session sid"] validate_session_def Let_def split: if_splits)
  next
    case True
    then show ?thesis
      using run s1 stop_active_turn [of io "session_params sid" "now + timeout" "ts_generation (io_turns io (se_world s1))" s1 r s']
      by (auto simp: cmd_bind_def [of "validate_session sid"] validate_session_def Let_def split: sum.splits)
  qed
qed

theorem stop_turn_reaches_boundary_witness:
  "fst (stop_turn demo_io ''s'' 9 fresh_session) = Some (Inl (InvalidSession ''session id does not belong to this runtime''))"
proof -
  have "\<exists>r. fst (stop_turn demo_io ''s'' 9 fresh_session) = Some r"
    by (simp add: stop_turn_def cmd_bind_def cmd_now_def demo_io_def fresh_session_def validate_session_def)
  then obtain r where "stop_turn demo_io ''s'' 9 fresh_session = (Some r, snd (stop_turn demo_io ''s'' 9 fresh_session))"
    by (metis prod.collapse)
  then have "fst (stop_turn demo_io ''s'' 9 fresh_session) = Some r" by (rule arg_cong [of _ _ fst, THEN trans]) simp
  moreover have "se_session_id fresh_session \<noteq> Some ''s''" by (simp add: fresh_session_def)
  ultimately show ?thesis using stop_turn_reaches_boundary [OF \<open>_ = (Some r, _)\<close>] by blast
qed

end
