(* ===== verification/Activity.thy ===== *)
theory Activity
  imports Runtime_Owner Store_Model
begin

text \<open>
  Passive activity of a runtime (\<^verbatim>\<open>PassiveActivityTracker\<close> and the parsers it uses in
  \<^verbatim>\<open>crates/zcode-agentd/src/lib.rs\<close>): what is counted from the event stream, the text it collects,
  the snapshot taken of it and the timeout derived from the snapshot. Instants are nanoseconds,
  wall times milliseconds, strings UTF-8 bytes; a hash map is an association list.
\<close>

definition PASSIVE_ACTIVITY_WINDOW :: nat where "PASSIVE_ACTIVITY_WINDOW = 60 * 1000000000"
definition MAX_ACTIVITY_IDENTITIES :: nat where "MAX_ACTIVITY_IDENTITIES = 65536"
definition MAX_LATEST_TEXT_BYTES :: nat where "MAX_LATEST_TEXT_BYTES = 8 * 1024"
definition MAX_ACTIVITY_ID_BYTES :: nat where "MAX_ACTIVITY_ID_BYTES = 512"

datatype passive_tool_kind = ReadTool | BashTool | OtherTool

datatype activity_source = SessionSource | TelemetrySource | RuntimeSource

datatype activity_sample_kind =
    ReasoningDelta nat
  | TextDelta nat
  | ToolStartedSample passive_tool_kind
  | ToolCompletedSample
  | ToolFailedSample

record activity_sample =
  as_source :: activity_source
  as_observed_at :: nat
  as_kind :: activity_sample_kind

datatype activity_transition =
    ModelStarted
  | ModelCompleted
  | ToolScheduled
  | ToolStarted
  | ToolCompleted
  | ToolFailed
  | PermissionRequested
  | PermissionResolved
  | ActivityTurnStarted
  | ActivityTurnCompleted
  | ActivityTurnFailed

record parsed_activity =
  pa_source :: activity_source
  pa_identity :: "string option"
  pa_stream_key :: "string option"
  pa_sample :: "activity_sample_kind option"
  pa_text_delta :: "string option"
  pa_transition :: "activity_transition option"
  pa_request_id :: "string option"
  pa_tool_call_id :: "string option"
  pa_tool_kind :: passive_tool_kind
  pa_telemetry_known :: bool

definition ParsedActivity_runtime :: parsed_activity where
  "ParsedActivity_runtime = \<lparr>pa_source = RuntimeSource, pa_identity = None, pa_stream_key = None, pa_sample = None,
     pa_text_delta = None, pa_transition = None, pa_request_id = None, pa_tool_call_id = None,
     pa_tool_kind = OtherTool, pa_telemetry_known = True\<rparr>"

section \<open>Reading an event\<close>

definition activity_id :: "json option \<Rightarrow> string option" where
  "activity_id v = (case Option.bind v json_as_str of
       Some s \<Rightarrow> if s \<noteq> [] \<and> length s \<le> MAX_ACTIVITY_ID_BYTES \<and> \<not> has_nul s then Some s else None
     | None \<Rightarrow> None)"

definition classify_passive_tool :: "json option \<Rightarrow> passive_tool_kind" where
  "classify_passive_tool v =
     (case Option.bind v json_as_str of
        Some s \<Rightarrow> if s = ''Read'' \<or> s = ''read'' then ReadTool
                 else if s = ''Bash'' \<or> s = ''bash'' then BashTool else OtherTool
      | None \<Rightarrow> OtherTool)"

definition stream_key :: "json \<Rightarrow> json \<Rightarrow> string \<Rightarrow> string option" where
  "stream_key params payload channel =
     (case (activity_id (json_get ''turnId'' params), activity_id (json_get ''assistantMessageId'' payload)) of
        (Some turn_id, Some message_id) \<Rightarrow> Some (turn_id @ '':'' @ message_id @ '':'' @ channel)
      | (None, Some message_id) \<Rightarrow> Some (message_id @ '':'' @ channel)
      | _ \<Rightarrow> None)"

definition parse_model_activity :: "parsed_activity \<Rightarrow> json \<Rightarrow> bool \<Rightarrow> parsed_activity" where
  "parse_model_activity parsed payload started =
     (let request_id = activity_id (json_get ''requestId'' payload) in
      parsed\<lparr>pa_request_id := request_id,
        pa_identity := map_option (\<lambda>i. ''model:'' @ i @ '':'' @ (if started then ''started'' else ''completed'')) request_id,
        pa_transition := Some (if started then ModelStarted else ModelCompleted)\<rparr>)"

definition parse_permission_activity :: "parsed_activity \<Rightarrow> json \<Rightarrow> bool \<Rightarrow> parsed_activity" where
  "parse_permission_activity parsed payload requested =
     (let request_id = activity_id (json_get ''requestId'' payload) in
      parsed\<lparr>pa_request_id := request_id, pa_tool_call_id := activity_id (json_get ''toolCallId'' payload),
        pa_tool_kind := classify_passive_tool (json_get ''toolName'' payload),
        pa_identity := map_option (\<lambda>i. ''permission:'' @ i @ '':'' @ (if requested then ''requested'' else ''resolved'')) request_id,
        pa_transition := Some (if requested then PermissionRequested else PermissionResolved)\<rparr>)"

definition tool_phase :: "string \<Rightarrow> activity_transition option" where
  "tool_phase phase =
     (if phase = ''scheduled'' then Some ToolScheduled
      else if phase = ''started'' then Some ToolStarted
      else if phase \<in> {''result'', ''tool_result'', ''completed''} then Some ToolCompleted
      else if phase \<in> {''error'', ''tool_error'', ''failed''} then Some ToolFailed
      else None)"

definition tool_phase_name :: "activity_transition \<Rightarrow> string" where
  "tool_phase_name p = (case p of ToolScheduled \<Rightarrow> ''scheduled'' | ToolStarted \<Rightarrow> ''started''
     | ToolCompleted \<Rightarrow> ''completed'' | _ \<Rightarrow> ''failed'')"

definition parse_tool_activity :: "parsed_activity \<Rightarrow> json \<Rightarrow> activity_source \<Rightarrow> parsed_activity" where
  "parse_tool_activity parsed payload source =
     (let text = json_get_str (if source = TelemetrySource then ''phase'' else ''kind'') payload;
          phase = Option.bind text tool_phase;
          unknown = (case text of Some t \<Rightarrow> tool_phase t = None \<and> t \<noteq> ''batch'' \<and> source = TelemetrySource | None \<Rightarrow> False);
          tool_call_id = activity_id (json_get ''toolCallId'' payload);
          kind = classify_passive_tool (json_get ''toolName'' payload);
          p1 = parsed\<lparr>pa_telemetry_known := (pa_telemetry_known parsed \<and> \<not> unknown), pa_tool_call_id := tool_call_id,
                      pa_tool_kind := kind, pa_transition := phase\<rparr>
      in case (tool_call_id, phase) of
           (Some i, Some ph) \<Rightarrow>
             p1\<lparr>pa_identity := Some (''tool:'' @ i @ '':'' @ tool_phase_name ph),
                pa_sample := (case ph of ToolStarted \<Rightarrow> Some (ToolStartedSample kind)
                                       | ToolCompleted \<Rightarrow> Some ToolCompletedSample
                                       | ToolFailed \<Rightarrow> Some ToolFailedSample
                                       | _ \<Rightarrow> None)\<rparr>
         | _ \<Rightarrow> p1)"

text \<open>The streaming records of a session, with the reasoning or text channel they belong to.\<close>

definition parse_stream_delta :: "parsed_activity \<Rightarrow> json \<Rightarrow> json \<Rightarrow> bool \<Rightarrow> parsed_activity" where
  "parse_stream_delta parsed params payload reasoning =
     (let delta = json_get_str ''delta'' payload; bytes = (case delta of Some d \<Rightarrow> length d | None \<Rightarrow> 0);
          p1 = parsed\<lparr>pa_stream_key := stream_key params payload (if reasoning then ''reasoning'' else ''text''),
                      pa_identity := map_option (\<lambda>i. ''stream:'' @ i) (activity_id (json_get ''eventId'' params))\<rparr>
      in if reasoning then p1\<lparr>pa_sample := Some (ReasoningDelta bytes)\<rparr>
         else p1\<lparr>pa_sample := Some (TextDelta bytes), pa_text_delta := delta\<rparr>)"

definition parse_turn :: "parsed_activity \<Rightarrow> json \<Rightarrow> activity_transition \<Rightarrow> string \<Rightarrow> parsed_activity" where
  "parse_turn parsed params transition phase =
     parsed\<lparr>pa_transition := Some transition,
       pa_identity := map_option (\<lambda>i. ''turn:'' @ i @ '':'' @ phase)
         (case activity_id (json_get ''eventId'' params) of
            Some i \<Rightarrow> Some i | None \<Rightarrow> activity_id (json_get ''turnId'' params))\<rparr>"

definition json_or_null :: "json option \<Rightarrow> json" where
  "json_or_null v = (case v of Some x \<Rightarrow> x | None \<Rightarrow> JNull)"

definition parse_session_activity :: "parsed_activity \<Rightarrow> json \<Rightarrow> activity_source \<Rightarrow> parsed_activity" where
  "parse_session_activity parsed params source =
     (let payload = json_or_null (json_get ''payload'' params); payload_kind = json_get_str ''kind'' payload;
          payload_type = json_get_str ''type'' payload
      in case json_get_str ''type'' params of
           None \<Rightarrow> parsed
         | Some kind \<Rightarrow>
             if kind = ''model.streaming'' \<and> payload_kind = Some ''reasoning_delta''
             then parse_stream_delta parsed params payload True
             else if kind = ''model.streaming'' \<and> payload_kind = Some ''text_delta''
             then parse_stream_delta parsed params payload False
             else if kind = ''tool.updated'' \<or> kind = ''streamRecovery.updated''
             then parse_tool_activity parsed payload source
             else if kind = ''session.updated'' \<and> payload_type = Some ''model_request_started''
             then parse_model_activity parsed payload True
             else if kind = ''session.updated'' \<and> payload_type = Some ''model_request_completed''
             then parse_model_activity parsed payload False
             else if kind = ''permission.requested'' then parse_permission_activity parsed payload True
             else if kind = ''permission.resolved'' then parse_permission_activity parsed payload False
             else if kind = ''turn.started'' then parse_turn parsed params ActivityTurnStarted ''started''
             else if kind = ''turn.completed'' then parse_turn parsed params ActivityTurnCompleted ''completed''
             else if kind = ''turn.failed'' then parse_turn parsed params ActivityTurnFailed ''failed''
             else parsed)"

definition parse_chunk :: "parsed_activity \<Rightarrow> json \<Rightarrow> bool \<Rightarrow> parsed_activity" where
  "parse_chunk parsed params reasoning =
     (case Option.bind (json_get ''chunkLength'' params) json_as_u64 of
        None \<Rightarrow> parsed\<lparr>pa_telemetry_known := False\<rparr>
      | Some bytes \<Rightarrow>
          parsed\<lparr>pa_stream_key := stream_key params params (if reasoning then ''reasoning'' else ''text''),
            pa_identity := map_option (\<lambda>i. ''stream:'' @ i) (activity_id (json_get ''eventId'' params)),
            pa_sample := Some (if reasoning then ReasoningDelta bytes else TextDelta bytes)\<rparr>)"

definition parse_telemetry_activity :: "parsed_activity \<Rightarrow> json \<Rightarrow> activity_source \<Rightarrow> parsed_activity" where
  "parse_telemetry_activity parsed0 params source =
     (let parsed = parsed0\<lparr>pa_telemetry_known := True\<rparr>; unknown = parsed\<lparr>pa_telemetry_known := False\<rparr> in
      case json_get_str ''kind'' params of
        None \<Rightarrow> unknown
      | Some kind \<Rightarrow>
          if kind = ''stream.chunk''
          then (case json_get_str ''channel'' params of
                  Some c \<Rightarrow> if c = ''thought'' then parse_chunk parsed params True
                           else if c = ''text'' then parse_chunk parsed params False else unknown
                | None \<Rightarrow> unknown)
          else if kind = ''tool.lifecycle'' then parse_tool_activity parsed params source
          else if kind = ''model.request.status''
          then (let status = json_get_str ''status'' params in
                if status = Some ''model_request_started'' then parse_model_activity parsed params True
                else if status = Some ''model_request_completed'' then parse_model_activity parsed params False
                else unknown)
          else if kind = ''permission.lifecycle''
          then (let phase = json_get_str ''phase'' params in
                if phase = Some ''requested'' then parse_permission_activity parsed params True
                else if phase = Some ''resolved'' then parse_permission_activity parsed params False
                else unknown)
          else if kind = ''turn.started'' then parsed\<lparr>pa_transition := Some ActivityTurnStarted\<rparr>
          else if kind = ''turn.completed'' then parsed\<lparr>pa_transition := Some ActivityTurnCompleted\<rparr>
          else if kind = ''turn.failed'' then parsed\<lparr>pa_transition := Some ActivityTurnFailed\<rparr>
          else if kind = ''usage.delta'' then parsed
          else unknown)"

definition TELEMETRY_EVENT :: string where "TELEMETRY_EVENT = ''v4/telemetry/event''"

definition parse_activity_message :: "string \<Rightarrow> json \<Rightarrow> activity_source \<Rightarrow> parsed_activity" where
  "parse_activity_message method params source =
     (let parsed = ParsedActivity_runtime\<lparr>pa_source := source, pa_telemetry_known := (source \<noteq> TelemetrySource)\<rparr>
      in if method = SESSION_EVENT then parse_session_activity parsed params source
         else if method = TELEMETRY_EVENT then parse_telemetry_activity parsed params source
         else parsed)"

definition INTERACTION_REQUEST_USER_INPUT :: string where
  "INTERACTION_REQUEST_USER_INPUT = ''interaction/requestUserInput''"

definition parse_passive_activity :: "runtime_event \<Rightarrow> parsed_activity" where
  "parse_passive_activity event =
     (case event of
        DriverEvent (Message (Event e)) \<Rightarrow> parse_activity_message (en_method e) (en_params e) SessionSource
      | DriverEvent (Message (UnknownEvent method raw)) \<Rightarrow>
          parse_activity_message method (json_or_null (json_get ''params'' raw))
            (if method = TELEMETRY_EVENT then TelemetrySource else if method = SESSION_EVENT then SessionSource else RuntimeSource)
      | DriverEvent (Message (Request r)) \<Rightarrow>
          if rq_method r = INTERACTION_REQUEST_PERMISSION \<or> rq_method r = INTERACTION_REQUEST_USER_INPUT
          then parse_permission_activity ParsedActivity_runtime (rq_params r) True
          else ParsedActivity_runtime
      | _ \<Rightarrow> ParsedActivity_runtime)"

section \<open>The tracker\<close>

record activity_state =
  ac_revision :: nat
  ac_last_runtime_event_at :: "(nat \<times> nat) option"
  ac_active_model_requests :: "(string \<times> nat) list"
  ac_last_model_delta_at :: "nat option"
  ac_latest_text_tail :: string
  ac_latest_text_updated_at :: "nat option"
  ac_latest_text_truncated :: bool
  ac_terminal_text :: string
  ac_terminal_text_limit :: nat
  ac_terminal_text_oversized :: bool
  ac_active_tools :: "(string \<times> passive_tool_kind \<times> nat) list"
  ac_samples :: "(string \<times> activity_sample) list"
  ac_sample_order :: "string list"
  ac_telemetry_degraded :: bool

definition PassiveActivityTracker_new :: "nat \<Rightarrow> activity_state" where
  "PassiveActivityTracker_new limit = \<lparr>ac_revision = 0, ac_last_runtime_event_at = None, ac_active_model_requests = [],
     ac_last_model_delta_at = None, ac_latest_text_tail = [], ac_latest_text_updated_at = None,
     ac_latest_text_truncated = False, ac_terminal_text = [], ac_terminal_text_limit = limit,
     ac_terminal_text_oversized = False, ac_active_tools = [], ac_samples = [], ac_sample_order = [],
     ac_telemetry_degraded = False\<rparr>"

definition sat_add :: "nat \<Rightarrow> nat \<Rightarrow> nat" where
  "sat_add a b = min u64_max (a + b)"

text \<open>Draining up to the first character boundary at or after \<open>split\<close>.\<close>

definition drain_to_boundary :: "nat \<Rightarrow> string \<Rightarrow> string" where
  "drain_to_boundary split text = dropWhile utf8_cont (drop split text)"

definition append_latest_text :: "string \<Rightarrow> nat \<Rightarrow> activity_state \<Rightarrow> activity_state" where
  "append_latest_text delta wall_now st =
     (let st1 =
        (if ac_terminal_text_oversized st then st
         else if sat_add (length (ac_terminal_text st)) (length delta) \<le> ac_terminal_text_limit st
         then st\<lparr>ac_terminal_text := ac_terminal_text st @ delta\<rparr>
         else st\<lparr>ac_terminal_text := [], ac_terminal_text_oversized := True\<rparr>);
          tail = ac_latest_text_tail st1 @ delta;
          st2 = (if length tail > MAX_LATEST_TEXT_BYTES
                 then st1\<lparr>ac_latest_text_tail := drain_to_boundary (length tail - MAX_LATEST_TEXT_BYTES) tail,
                          ac_latest_text_truncated := True\<rparr>
                 else st1\<lparr>ac_latest_text_tail := tail\<rparr>)
      in st2\<lparr>ac_latest_text_updated_at := Some wall_now\<rparr>)"

text \<open>Recording the sample of an identity; the flag says whether the event is counted.\<close>

definition admit_sample :: "parsed_activity \<Rightarrow> nat \<Rightarrow> activity_state \<Rightarrow> bool \<times> activity_state" where
  "admit_sample parsed now st =
     (case (pa_identity parsed, pa_sample parsed) of
        (Some identity, Some kind) \<Rightarrow>
          (let sample = \<lparr>as_source = pa_source parsed, as_observed_at = now, as_kind = kind\<rparr> in
           case map_of (ac_samples st) identity of
             Some existing \<Rightarrow>
               if as_source existing = TelemetrySource \<and> pa_source parsed = SessionSource
               then (True, st\<lparr>ac_samples := (identity, sample) # drop_key identity (ac_samples st)\<rparr>)
               else (False, st)
           | None \<Rightarrow> (True, st\<lparr>ac_samples := (identity, sample) # ac_samples st,
                               ac_sample_order := ac_sample_order st @ [identity]\<rparr>))
      | _ \<Rightarrow> (True, st))"

function trim_samples :: "activity_state \<Rightarrow> activity_state" where
  "trim_samples st =
     (if length (ac_sample_order st) > MAX_ACTIVITY_IDENTITIES
      then trim_samples (st\<lparr>ac_sample_order := tl (ac_sample_order st),
                            ac_samples := drop_key (hd (ac_sample_order st)) (ac_samples st)\<rparr>)
      else st)"
  by pat_completeness auto
termination by (relation "measure (\<lambda>st. length (ac_sample_order st))") auto

declare trim_samples.simps [simp del]

definition is_model_delta :: "activity_sample_kind option \<Rightarrow> bool" where
  "is_model_delta k = (case k of Some (ReasoningDelta b) \<Rightarrow> True | Some (TextDelta b) \<Rightarrow> True | _ \<Rightarrow> False)"

definition apply_transition :: "parsed_activity \<Rightarrow> nat \<Rightarrow> activity_state \<Rightarrow> activity_state" where
  "apply_transition parsed now st =
     (case pa_transition parsed of
        Some ModelStarted \<Rightarrow>
          (let request_id = (case pa_request_id parsed of Some i \<Rightarrow> i | None \<Rightarrow> ''model-request'') in
           if map_of (ac_active_model_requests st) request_id = None
           then st\<lparr>ac_active_model_requests := (request_id, now) # ac_active_model_requests st,
                   ac_last_model_delta_at := Some now\<rparr>
           else st)
      | Some ModelCompleted \<Rightarrow>
          st\<lparr>ac_active_model_requests :=
               (case pa_request_id parsed of Some i \<Rightarrow> drop_key i (ac_active_model_requests st) | None \<Rightarrow> [])\<rparr>
      | Some t \<Rightarrow>
          if t \<in> {ToolScheduled, ToolStarted}
          then (case pa_tool_call_id parsed of
                  Some i \<Rightarrow> if map_of (ac_active_tools st) i = None
                           then st\<lparr>ac_active_tools := (i, pa_tool_kind parsed, now) # ac_active_tools st\<rparr> else st
                | None \<Rightarrow> st)
          else if t \<in> {ToolCompleted, ToolFailed, PermissionResolved}
          then (case pa_tool_call_id parsed of
                  Some i \<Rightarrow> st\<lparr>ac_active_tools := drop_key i (ac_active_tools st)\<rparr>
                | None \<Rightarrow> st)
          else if t \<in> {ActivityTurnCompleted, ActivityTurnFailed}
          then st\<lparr>ac_active_model_requests := [], ac_active_tools := []\<rparr>
          else st
      | None \<Rightarrow> st)"

definition mark_event :: "parsed_activity \<Rightarrow> nat \<Rightarrow> nat \<Rightarrow> activity_state \<Rightarrow> activity_state" where
  "mark_event parsed now wall_now st =
     st\<lparr>ac_revision := sat_inc u64_max (ac_revision st), ac_last_runtime_event_at := Some (now, wall_now),
        ac_telemetry_degraded := (ac_telemetry_degraded st
          \<or> (pa_source parsed = TelemetrySource \<and> \<not> pa_telemetry_known parsed))\<rparr>"

definition mark_delta :: "bool \<Rightarrow> parsed_activity \<Rightarrow> nat \<Rightarrow> activity_state \<Rightarrow> activity_state" where
  "mark_delta admitted parsed now st =
     (if admitted \<and> is_model_delta (pa_sample parsed) then st\<lparr>ac_last_model_delta_at := Some now\<rparr> else st)"

definition collect_text :: "bool \<Rightarrow> parsed_activity \<Rightarrow> nat \<Rightarrow> activity_state \<Rightarrow> activity_state" where
  "collect_text admitted parsed wall_now st =
     (case pa_text_delta parsed of
        Some delta \<Rightarrow> if admitted then append_latest_text delta wall_now st else st
      | None \<Rightarrow> st)"

definition observe_at :: "runtime_event \<Rightarrow> nat \<Rightarrow> nat \<Rightarrow> activity_state \<Rightarrow> activity_state" where
  "observe_at event now wall_now st =
     (let parsed = parse_passive_activity event;
          (admitted, st1) = admit_sample parsed now (mark_event parsed now wall_now st)
      in apply_transition parsed now
           (collect_text admitted parsed wall_now (mark_delta admitted parsed now (trim_samples st1))))"

section \<open>Snapshots and timeouts\<close>

record activity_window =
  aw_reasoning_delta_events :: nat
  aw_reasoning_delta_bytes :: nat
  aw_text_delta_events :: nat
  aw_text_delta_bytes :: nat
  aw_tool_calls_started :: nat
  aw_tool_calls_completed :: nat
  aw_tool_calls_failed :: nat
  aw_read_calls :: nat
  aw_bash_calls :: nat
  aw_other_tool_calls :: nat

definition empty_window :: activity_window where
  "empty_window = \<lparr>aw_reasoning_delta_events = 0, aw_reasoning_delta_bytes = 0, aw_text_delta_events = 0,
     aw_text_delta_bytes = 0, aw_tool_calls_started = 0, aw_tool_calls_completed = 0, aw_tool_calls_failed = 0,
     aw_read_calls = 0, aw_bash_calls = 0, aw_other_tool_calls = 0\<rparr>"

fun count_sample :: "activity_sample_kind \<Rightarrow> activity_window \<Rightarrow> activity_window" where
  "count_sample (ReasoningDelta b) w = w\<lparr>aw_reasoning_delta_events := sat_add (aw_reasoning_delta_events w) 1,
     aw_reasoning_delta_bytes := sat_add (aw_reasoning_delta_bytes w) b\<rparr>"
| "count_sample (TextDelta b) w = w\<lparr>aw_text_delta_events := sat_add (aw_text_delta_events w) 1,
     aw_text_delta_bytes := sat_add (aw_text_delta_bytes w) b\<rparr>"
| "count_sample (ToolStartedSample kind) w =
     (let w1 = w\<lparr>aw_tool_calls_started := sat_add (aw_tool_calls_started w) 1\<rparr> in
      case kind of
        ReadTool \<Rightarrow> w1\<lparr>aw_read_calls := sat_add (aw_read_calls w) 1\<rparr>
      | BashTool \<Rightarrow> w1\<lparr>aw_bash_calls := sat_add (aw_bash_calls w) 1\<rparr>
      | OtherTool \<Rightarrow> w1\<lparr>aw_other_tool_calls := sat_add (aw_other_tool_calls w) 1\<rparr>)"
| "count_sample ToolCompletedSample w = w\<lparr>aw_tool_calls_completed := sat_add (aw_tool_calls_completed w) 1\<rparr>"
| "count_sample ToolFailedSample w = w\<lparr>aw_tool_calls_failed := sat_add (aw_tool_calls_failed w) 1\<rparr>"

definition activity_window_at :: "nat \<Rightarrow> activity_state \<Rightarrow> activity_window" where
  "activity_window_at now st =
     fold count_sample
       (map (\<lambda>(k, s). as_kind s) (filter (\<lambda>(k, s). now - as_observed_at s \<le> PASSIVE_ACTIVITY_WINDOW) (ac_samples st)))
       empty_window"

definition duration_millis :: "nat \<Rightarrow> nat" where
  "duration_millis d = min u64_max (d div 1000000)"

definition least_of :: "nat list \<Rightarrow> nat option" where
  "least_of xs = (if xs = [] then None else Some (Min (set xs)))"

definition greatest_of :: "nat list \<Rightarrow> nat option" where
  "greatest_of xs = (if xs = [] then None else Some (Max (set xs)))"

record activity_snapshot =
  sn_revision :: nat
  sn_last_runtime_event_at :: "nat option"
  sn_last_activity_age_ms :: "nat option"
  sn_model_request_active :: bool
  sn_model_request_age_ms :: "nat option"
  sn_model_last_delta_age_ms :: "nat option"
  sn_latest_text_tail :: string
  sn_latest_text_updated_at :: "nat option"
  sn_latest_text_truncated :: bool
  sn_active_tools :: "(string \<times> passive_tool_kind) list"
  sn_oldest_active_tool_age_ms :: "nat option"
  sn_window_60s :: activity_window
  sn_telemetry_degraded :: bool

definition snapshot_at :: "nat \<Rightarrow> activity_state \<Rightarrow> activity_snapshot" where
  "snapshot_at now st =
     \<lparr>sn_revision = ac_revision st,
      sn_last_runtime_event_at = map_option snd (ac_last_runtime_event_at st),
      sn_last_activity_age_ms = map_option (\<lambda>(at, w). duration_millis (now - at)) (ac_last_runtime_event_at st),
      sn_model_request_active = (ac_active_model_requests st \<noteq> []),
      sn_model_request_age_ms = map_option (\<lambda>at. duration_millis (now - at)) (least_of (map snd (ac_active_model_requests st))),
      sn_model_last_delta_age_ms = map_option (\<lambda>at. duration_millis (now - at)) (ac_last_model_delta_at st),
      sn_latest_text_tail = ac_latest_text_tail st,
      sn_latest_text_updated_at = ac_latest_text_updated_at st,
      sn_latest_text_truncated = ac_latest_text_truncated st,
      sn_active_tools = sort_key fst (map (\<lambda>(i, kind, at). (i, kind)) (ac_active_tools st)),
      sn_oldest_active_tool_age_ms = greatest_of (map (\<lambda>(i, kind, at). duration_millis (now - at)) (ac_active_tools st)),
      sn_window_60s = activity_window_at now st,
      sn_telemetry_degraded = ac_telemetry_degraded st\<rparr>"

datatype terminal_text = TerminalVisible string | TerminalMissing | TerminalOversized

definition take_terminal_text :: "activity_state \<Rightarrow> terminal_text \<times> activity_state" where
  "take_terminal_text st =
     (if ac_terminal_text_oversized st then (TerminalOversized, st)
      else if trim (ac_terminal_text st) = [] then (TerminalMissing, st\<lparr>ac_terminal_text := []\<rparr>)
      else (TerminalVisible (ac_terminal_text st), st\<lparr>ac_terminal_text := []\<rparr>))"

definition runtime_timeout_reason :: "effective_budget \<Rightarrow> activity_snapshot \<Rightarrow> nat option \<Rightarrow> string option" where
  "runtime_timeout_reason limits activity input_wait_age =
     (case input_wait_age of
        Some age \<Rightarrow> if age \<ge> input_wait_timeout_ms limits then Some ''INPUT_WAIT_TIMEOUT'' else None
      | None \<Rightarrow>
          case sn_oldest_active_tool_age_ms activity of
            Some age \<Rightarrow> if age \<ge> tool_call_timeout_ms limits then Some ''TOOL_CALL_TIMEOUT'' else None
          | None \<Rightarrow>
              if sn_model_request_active activity
              then (case (case sn_model_last_delta_age_ms activity of Some a \<Rightarrow> Some a | None \<Rightarrow> sn_model_request_age_ms activity) of
                      Some age \<Rightarrow> if age \<ge> model_stream_idle_timeout_ms limits then Some ''MODEL_STREAM_IDLE_TIMEOUT'' else None
                    | None \<Rightarrow> None)
              else (case sn_last_activity_age_ms activity of
                      Some age \<Rightarrow> if age \<ge> runtime_activity_idle_timeout_ms limits
                                 then Some ''RUNTIME_ACTIVITY_IDLE_TIMEOUT'' else None
                    | None \<Rightarrow> None))"

end
