(* ===== verification/Activity_Props.thy ===== *)
theory Activity_Props
  imports Activity
begin

text \<open>
  What holds of the activity tracker after any events: its memory is bounded, and the text it
  collects is the text that was streamed, each piece once.
\<close>

definition observe_all :: "(runtime_event \<times> nat \<times> nat) list \<Rightarrow> activity_state \<Rightarrow> activity_state" where
  "observe_all es st = fold (\<lambda>(event, now, wall_now). observe_at event now wall_now) es st"

section \<open>Bounds\<close>

definition samples_ok :: "activity_state \<Rightarrow> bool" where
  "samples_ok st \<longleftrightarrow> distinct (ac_sample_order st) \<and> distinct (map fst (ac_samples st))
     \<and> fst ` set (ac_samples st) = set (ac_sample_order st)"

definition texts_ok :: "activity_state \<Rightarrow> bool" where
  "texts_ok st \<longleftrightarrow> length (ac_latest_text_tail st) \<le> MAX_LATEST_TEXT_BYTES
     \<and> length (ac_terminal_text st) \<le> ac_terminal_text_limit st
     \<and> (ac_terminal_text_oversized st \<longrightarrow> ac_terminal_text st = [])"

definition activity_ok :: "activity_state \<Rightarrow> bool" where
  "activity_ok st \<longleftrightarrow> samples_ok st \<and> texts_ok st \<and> length (ac_sample_order st) \<le> MAX_ACTIVITY_IDENTITIES"

lemma drop_key_keys: "fst ` set (drop_key k kvs) = fst ` set kvs - {k}"
  by (force simp: drop_key_def)

lemma drop_key_distinct: "distinct (map fst kvs) \<Longrightarrow> distinct (map fst (drop_key k kvs))"
  by (induction kvs) (auto simp: drop_key_def)

lemma trim_samples_ok:
  "samples_ok st \<Longrightarrow> texts_ok st \<Longrightarrow> activity_ok (trim_samples st)
     \<and> ac_terminal_text_limit (trim_samples st) = ac_terminal_text_limit st"
proof (induction st rule: trim_samples.induct)
  case (1 st)
  show ?case
  proof (cases "length (ac_sample_order st) > MAX_ACTIVITY_IDENTITIES")
    case True
    then obtain i rest where o: "ac_sample_order st = i # rest" by (cases "ac_sample_order st") auto
    let ?st = "st\<lparr>ac_sample_order := rest, ac_samples := drop_key i (ac_samples st)\<rparr>"
    have "samples_ok ?st" "texts_ok ?st"
      using 1 o by (auto simp: samples_ok_def texts_ok_def drop_key_keys drop_key_distinct)
    then show ?thesis
      using 1 True o trim_samples.simps [of st] by simp
  next
    case False
    then show ?thesis using 1 by (simp add: trim_samples.simps activity_ok_def)
  qed
qed

lemma admit_sample_ok:
  assumes "activity_ok st" and "admit_sample parsed now st = (admitted, st')"
  shows "samples_ok st' \<and> texts_ok st' \<and> ac_terminal_text_limit st' = ac_terminal_text_limit st"
proof -
  have ok: "samples_ok st" "texts_ok st" using assms(1) by (simp_all add: activity_ok_def)
  show ?thesis
  proof (cases "\<exists>i kind. pa_identity parsed = Some i \<and> pa_sample parsed = Some kind")
    case False
    then show ?thesis using assms(2) ok by (auto simp: admit_sample_def split: option.splits)
  next
    case True
    then obtain i kind where p: "pa_identity parsed = Some i" "pa_sample parsed = Some kind" by blast
    let ?sample = "\<lparr>as_source = pa_source parsed, as_observed_at = now, as_kind = kind\<rparr>"
    show ?thesis
    proof (cases "map_of (ac_samples st) i")
      case None
      then have "i \<notin> set (ac_sample_order st)" "i \<notin> fst ` set (ac_samples st)"
        using ok(1) by (auto simp: map_of_eq_None_iff samples_ok_def)
      moreover have "st' = st\<lparr>ac_samples := (i, ?sample) # ac_samples st, ac_sample_order := ac_sample_order st @ [i]\<rparr>"
        using assms(2) p None by (simp add: admit_sample_def)
      ultimately show ?thesis using ok by (simp add: samples_ok_def texts_ok_def)
    next
      case (Some existing)
      then have "i \<in> fst ` set (ac_samples st)" by (metis map_of_eq_None_iff option.distinct(1))
      then have "samples_ok (st\<lparr>ac_samples := (i, ?sample) # drop_key i (ac_samples st)\<rparr>)"
        using ok(1) by (simp add: samples_ok_def drop_key_keys drop_key_distinct insert_absorb)
      then show ?thesis
        using assms(2) ok p Some by (simp add: admit_sample_def texts_ok_def Let_def split: if_splits) (auto simp: texts_ok_def)
    qed
  qed
qed

lemma drain_bound: "length (drain_to_boundary (length t - n) t) \<le> n"
  using length_dropWhile_le [of utf8_cont "drop (length t - n) t"] by (simp add: drain_to_boundary_def)

lemma append_text_samples:
  "ac_samples (append_latest_text delta wall_now st) = ac_samples st"
  "ac_sample_order (append_latest_text delta wall_now st) = ac_sample_order st"
  "ac_terminal_text_limit (append_latest_text delta wall_now st) = ac_terminal_text_limit st"
  by (simp_all add: append_latest_text_def Let_def)

lemma append_text_texts:
  assumes "ac_terminal_text_limit st < u64_max" and "texts_ok st"
  shows "texts_ok (append_latest_text delta wall_now st)"
proof -
  have "length (ac_latest_text_tail (append_latest_text delta wall_now st)) \<le> MAX_LATEST_TEXT_BYTES"
    using drain_bound [of "ac_latest_text_tail st @ delta"] by (simp add: append_latest_text_def Let_def del: length_append)
  then show ?thesis
    using assms by (auto simp: texts_ok_def append_latest_text_def Let_def sat_add_def)
qed

text \<open>A transition touches the active requests and tools only.\<close>

lemma apply_transition_shape:
  "\<exists>models delta tools. apply_transition parsed now st =
     st\<lparr>ac_active_model_requests := models, ac_last_model_delta_at := delta, ac_active_tools := tools\<rparr>"
proof -
  have same: "\<exists>models delta tools. st = st\<lparr>ac_active_model_requests := models, ac_last_model_delta_at := delta, ac_active_tools := tools\<rparr>"
    by (intro exI [of _ "ac_active_model_requests st"] exI [of _ "ac_last_model_delta_at st"] exI [of _ "ac_active_tools st"]) simp
  have models: "\<exists>models delta tools. st\<lparr>ac_active_model_requests := m, ac_last_model_delta_at := d\<rparr> =
      st\<lparr>ac_active_model_requests := models, ac_last_model_delta_at := delta, ac_active_tools := tools\<rparr>" for m d
    by (intro exI [of _ m] exI [of _ d] exI [of _ "ac_active_tools st"]) simp
  have ended: "\<exists>models delta tools. st\<lparr>ac_active_model_requests := m, ac_active_tools := t\<rparr> =
      st\<lparr>ac_active_model_requests := models, ac_last_model_delta_at := delta, ac_active_tools := tools\<rparr>" for m t
    by (intro exI [of _ m] exI [of _ "ac_last_model_delta_at st"] exI [of _ t]) simp
  show ?thesis
  proof (cases "pa_transition parsed")
    case None
    then show ?thesis using same by (simp add: apply_transition_def)
  next
    case (Some t)
    then show ?thesis
      using same models [where d = "ac_last_model_delta_at st"] models ended ended [where m = "ac_active_model_requests st"]
      by (cases t) (simp_all add: apply_transition_def Let_def split: option.split)
  qed
qed

lemma apply_transition_frame [simp]:
  "ac_terminal_text_limit (apply_transition parsed now st) = ac_terminal_text_limit st"
  "ac_terminal_text (apply_transition parsed now st) = ac_terminal_text st"
  "ac_terminal_text_oversized (apply_transition parsed now st) = ac_terminal_text_oversized st"
  "ac_latest_text_tail (apply_transition parsed now st) = ac_latest_text_tail st"
  "ac_latest_text_truncated (apply_transition parsed now st) = ac_latest_text_truncated st"
  "ac_samples (apply_transition parsed now st) = ac_samples st"
  "ac_sample_order (apply_transition parsed now st) = ac_sample_order st"
  using apply_transition_shape [of parsed now st] by auto

lemmas activity_ok_defs = activity_ok_def samples_ok_def texts_ok_def

lemma apply_transition_ok [simp]: "activity_ok (apply_transition parsed now st) = activity_ok st"
  by (simp add: activity_ok_defs)

lemma collect_text_ok:
  assumes "activity_ok st" and "ac_terminal_text_limit st < u64_max"
  shows "activity_ok (collect_text admitted parsed wall_now st)
    \<and> ac_terminal_text_limit (collect_text admitted parsed wall_now st) = ac_terminal_text_limit st"
  using assms append_text_texts [of st]
  by (simp add: collect_text_def activity_ok_def samples_ok_def append_text_samples split: option.split)

lemma observe_at_ok:
  assumes "activity_ok st" and "ac_terminal_text_limit st < u64_max"
  shows "activity_ok (observe_at event now wall_now st)
    \<and> ac_terminal_text_limit (observe_at event now wall_now st) = ac_terminal_text_limit st"
proof -
  let ?p = "parse_passive_activity event"
  have ok: "activity_ok (mark_event ?p now wall_now st)" "ac_terminal_text_limit (mark_event ?p now wall_now st) = ac_terminal_text_limit st"
    using assms by (simp_all add: activity_ok_defs mark_event_def)
  obtain admitted st1 where a: "admit_sample ?p now (mark_event ?p now wall_now st) = (admitted, st1)" by (rule prod.exhaust)
  have "activity_ok (trim_samples st1) \<and> ac_terminal_text_limit (trim_samples st1) = ac_terminal_text_limit st"
    using trim_samples_ok [of st1] admit_sample_ok [OF ok(1) a] ok(2) by simp
  then have "activity_ok (mark_delta admitted ?p now (trim_samples st1))
      \<and> ac_terminal_text_limit (mark_delta admitted ?p now (trim_samples st1)) = ac_terminal_text_limit st"
    by (simp add: mark_delta_def activity_ok_defs)
  then have "activity_ok (collect_text admitted ?p wall_now (mark_delta admitted ?p now (trim_samples st1)))
      \<and> ac_terminal_text_limit (collect_text admitted ?p wall_now (mark_delta admitted ?p now (trim_samples st1))) = ac_terminal_text_limit st"
    using assms(2) collect_text_ok by metis
  then show ?thesis
    using a by (simp add: observe_at_def Let_def)
qed

lemma activity_ok_new: "activity_ok (PassiveActivityTracker_new limit)"
  by (simp add: activity_ok_def samples_ok_def texts_ok_def PassiveActivityTracker_new_def)

text \<open>
  The tracker's memory is bounded. Whatever events arrive, it remembers at most
  65,536 identities, each with exactly one sample, at most 8 KiB of the latest text, and never
  more collected text than the limit it was given, and none of it once that limit was exceeded.
  (The limit is below the largest 64-bit value, where the length comparison would saturate.)
\<close>

theorem activity_is_bounded:
  assumes "limit < u64_max"
  shows "let st = observe_all es (PassiveActivityTracker_new limit) in
     length (ac_samples st) \<le> 65536 \<and> distinct (map fst (ac_samples st))
     \<and> fst ` set (ac_samples st) = set (ac_sample_order st)
     \<and> length (ac_latest_text_tail st) \<le> 8192 \<and> length (ac_terminal_text st) \<le> limit
     \<and> (fst (take_terminal_text st) = TerminalOversized \<longrightarrow> ac_terminal_text st = [])"
proof -
  have fold: "activity_ok (observe_all es st) \<and> ac_terminal_text_limit (observe_all es st) = ac_terminal_text_limit st"
    if "activity_ok st" "ac_terminal_text_limit st < u64_max" for st
    using that observe_at_ok unfolding observe_all_def by (induction es arbitrary: st) auto
  let ?st = "observe_all es (PassiveActivityTracker_new limit)"
  have ok: "activity_ok ?st" "ac_terminal_text_limit ?st = limit"
    using fold [OF activity_ok_new, of limit] assms by (simp_all add: PassiveActivityTracker_new_def)
  have "length (ac_samples ?st) = length (ac_sample_order ?st)"
    using ok(1) by (metis activity_ok_def samples_ok_def distinct_card length_map list.set_map)
  then show ?thesis
    using ok by (auto simp: Let_def activity_ok_def samples_ok_def texts_ok_def MAX_ACTIVITY_IDENTITIES_def
        MAX_LATEST_TEXT_BYTES_def take_terminal_text_def)
qed

theorem activity_is_bounded_witness:
  "let st = observe_all [(TerminalEvent (Orphaned SessionLost), 1, 1)] (PassiveActivityTracker_new 10) in
     length (ac_samples st) \<le> 65536 \<and> distinct (map fst (ac_samples st))
     \<and> fst ` set (ac_samples st) = set (ac_sample_order st)
     \<and> length (ac_latest_text_tail st) \<le> 8192 \<and> length (ac_terminal_text st) \<le> 10
     \<and> (fst (take_terminal_text st) = TerminalOversized \<longrightarrow> ac_terminal_text st = [])"
  by (rule activity_is_bounded) (simp add: u64_max_def)

section \<open>The collected text\<close>

text \<open>
  The reference: of a whole text, the longest end of at most \<open>n\<close> bytes that starts at a character.
\<close>

definition text_end :: "nat \<Rightarrow> string \<Rightarrow> string" where
  "text_end n t = (if length t > n then drain_to_boundary (length t - n) t else t)"

definition starts_at_char :: "string \<Rightarrow> bool" where
  "starts_at_char t \<longleftrightarrow> t = [] \<or> \<not> utf8_cont (hd t)"

lemma text_end_step:
  assumes "starts_at_char d"
  shows "text_end n (text_end n t @ d) = text_end n (t @ d)"
proof (cases "length t > n")
  case False
  then show ?thesis by (simp add: text_end_def)
next
  case True
  define c e where "c = takeWhile utf8_cont (drop (length t - n) t)" and "e = dropWhile utf8_cont (drop (length t - n) t)"
  have t: "drop (length t - n) t = c @ e" by (simp add: c_def e_def)
  have n: "length c + length e = n" using arg_cong [OF t, of length] True by simp
  have te: "text_end n t = e" using True by (simp add: text_end_def drain_to_boundary_def e_def)
  have ed: "starts_at_char (e @ d)"
  proof (cases "e = []")
    case True
    then show ?thesis using assms by simp
  next
    case False
    then show ?thesis using hd_dropWhile [of utf8_cont "drop (length t - n) t"] by (simp add: starts_at_char_def e_def)
  qed
  have "drop (length t + length d - n) (t @ d) = drop (length d) (drop (length t - n) (t @ d))"
    using True by (simp add: add.commute)
  also have "\<dots> = drop (length d) (c @ e @ d)" using True t by simp
  finally have rhs: "text_end n (t @ d) = dropWhile utf8_cont (drop (length d) (c @ e @ d))"
    using True by (simp add: text_end_def drain_to_boundary_def)
  show ?thesis
  proof (cases "length e + length d \<le> n")
    case True
    have "utf8_cont x" if "x \<in> set (drop (length d) c)" for x
      using in_set_dropD [OF that] unfolding c_def by (rule conjunct2 [OF set_takeWhileD])
    then have "dropWhile utf8_cont (drop (length d) c @ e @ d) = dropWhile utf8_cont (e @ d)"
      by (rule dropWhile_append2)
    also have "\<dots> = e @ d" using ed by (auto simp: starts_at_char_def dropWhile_eq_self_iff)
    finally show ?thesis using True n unfolding te rhs by (simp add: text_end_def)
  next
    case False
    then have "length e + length d - n = length d - length c" and "length c \<le> length d" using n by auto
    then show ?thesis using False unfolding te rhs by (simp add: text_end_def drain_to_boundary_def)
  qed
qed

lemma append_text_fields:
  assumes "\<not> ac_terminal_text_oversized st \<longrightarrow> length (ac_terminal_text st) \<le> ac_terminal_text_limit st"
    and "ac_terminal_text_limit st < u64_max"
  shows "ac_terminal_text (append_latest_text d w st) =
       (if ac_terminal_text_oversized st then ac_terminal_text st
        else if length (ac_terminal_text st @ d) \<le> ac_terminal_text_limit st then ac_terminal_text st @ d else [])"
    and "ac_terminal_text_oversized (append_latest_text d w st) \<longleftrightarrow>
       ac_terminal_text_oversized st \<or> length (ac_terminal_text st @ d) > ac_terminal_text_limit st"
    and "ac_latest_text_tail (append_latest_text d w st) = text_end MAX_LATEST_TEXT_BYTES (ac_latest_text_tail st @ d)"
  using assms by (auto simp: append_latest_text_def Let_def sat_add_def text_end_def)

text \<open>The texts of a state are those of one whole text.\<close>

definition collected :: "string \<Rightarrow> activity_state \<Rightarrow> bool" where
  "collected whole st \<longleftrightarrow>
     ac_terminal_text st = (if length whole \<le> ac_terminal_text_limit st then whole else [])
     \<and> (ac_terminal_text_oversized st \<longleftrightarrow> length whole > ac_terminal_text_limit st)
     \<and> ac_latest_text_tail st = text_end MAX_LATEST_TEXT_BYTES whole"

lemma collected_append:
  assumes "collected whole st" and "ac_terminal_text_limit st < u64_max" and "starts_at_char d"
  shows "collected (whole @ d) (append_latest_text d w st)"
proof -
  have "\<not> ac_terminal_text_oversized st \<longrightarrow> length (ac_terminal_text st) \<le> ac_terminal_text_limit st"
    using assms(1) by (auto simp: collected_def)
  note f = append_text_fields [OF this assms(2), of d w]
  show ?thesis
    using assms text_end_step [OF assms(3)] f by (auto simp: collected_def append_text_samples)
qed

section \<open>Streamed text, each piece once\<close>

text \<open>A text delta as the runtime streams it: a session event the wire parser reports as unknown.\<close>

definition text_event :: "string \<Rightarrow> string \<Rightarrow> runtime_event" where
  "text_event i d = DriverEvent (Message (UnknownEvent SESSION_EVENT (JObject [(''method'', JString SESSION_EVENT),
     (''params'', JObject [(''type'', JString ''model.streaming''), (''eventId'', JString i),
       (''payload'', JObject [(''kind'', JString ''text_delta''), (''delta'', JString d)])])])))"

definition valid_activity_id :: "string \<Rightarrow> bool" where
  "valid_activity_id i \<longleftrightarrow> i \<noteq> [] \<and> length i \<le> MAX_ACTIVITY_ID_BYTES \<and> \<not> has_nul i"

lemma parse_text_event:
  assumes "valid_activity_id i"
  shows "parse_passive_activity (text_event i d) =
     ParsedActivity_runtime\<lparr>pa_source := SessionSource, pa_identity := Some (''stream:'' @ i),
       pa_sample := Some (TextDelta (length d)), pa_text_delta := Some d\<rparr>"
  using assms by (simp add: parse_passive_activity_def text_event_def parse_activity_message_def parse_session_activity_def
      parse_stream_delta_def json_or_null_def json_get_str_def activity_id_def valid_activity_id_def stream_key_def
      SESSION_EVENT_def TELEMETRY_EVENT_def ParsedActivity_runtime_def)

lemma trim_samples_small: "length (ac_sample_order st) \<le> MAX_ACTIVITY_IDENTITIES \<Longrightarrow> trim_samples st = st"
  by (simp add: trim_samples.simps)

text \<open>What the tracker knows after the pieces \<open>seen\<close>: their identities, all from the session, and their text.\<close>

definition tracks :: "(string \<times> string) list \<Rightarrow> string \<Rightarrow> activity_state \<Rightarrow> bool" where
  "tracks seen whole st \<longleftrightarrow> collected whole st
     \<and> fst ` set (ac_samples st) = (\<lambda>(i, d). ''stream:'' @ i) ` set seen
     \<and> list_all (\<lambda>(k, s). as_source s = SessionSource) (ac_samples st)
     \<and> length (ac_sample_order st) \<le> length seen"

lemma observe_text_event:
  assumes "tracks seen whole st" and "valid_activity_id i" and "starts_at_char d"
    and "ac_terminal_text_limit st < u64_max" and "length seen < MAX_ACTIVITY_IDENTITIES"
  shows "tracks (seen @ [(i, d)]) (if i \<in> fst ` set seen then whole else whole @ d) (observe_at (text_event i d) now wall_now st)
    \<and> ac_terminal_text_limit (observe_at (text_event i d) now wall_now st) = ac_terminal_text_limit st"
proof -
  let ?p = "parse_passive_activity (text_event i d)" and ?k = "''stream:'' @ i"
  note p = parse_text_event [OF assms(2), of d]
  let ?m = "mark_event ?p now wall_now st"
  have lim: "ac_terminal_text_limit ?m < u64_max" using assms(4) by (simp add: mark_event_def)
  have m: "collected whole ?m" "fst ` set (ac_samples ?m) = (\<lambda>(i, d). ''stream:'' @ i) ` set seen"
      "list_all (\<lambda>(k, s). as_source s = SessionSource) (ac_samples ?m)" "length (ac_sample_order ?m) \<le> length seen"
    using assms(1) by (auto simp: tracks_def mark_event_def collected_def)
  have seen: "?k \<in> fst ` set (ac_samples ?m) \<longleftrightarrow> i \<in> fst ` set seen" unfolding m(2) by force
  show ?thesis
  proof (cases "i \<in> fst ` set seen")
    case True
    then obtain existing where "map_of (ac_samples ?m) ?k = Some existing" using seen by (metis map_of_eq_None_iff not_None_eq)
    moreover from this have "as_source existing = SessionSource" using m(3) by (auto simp: list_all_iff dest: map_of_SomeD)
    ultimately have "observe_at (text_event i d) now wall_now st = ?m"
      using m(4) assms(5) by (simp add: observe_at_def Let_def p admit_sample_def ParsedActivity_runtime_def trim_samples_small
          mark_delta_def collect_text_def apply_transition_def)
    then show ?thesis using m True seen unfolding tracks_def by (auto simp: mark_event_def)
  next
    case False
    then have none: "map_of (ac_samples ?m) ?k = None" using seen by (metis map_of_eq_None_iff)
    define x where "x = ?m\<lparr>ac_samples := (?k, \<lparr>as_source = SessionSource, as_observed_at = now, as_kind = TextDelta (length d)\<rparr>) # ac_samples ?m,
        ac_sample_order := ac_sample_order ?m @ [?k], ac_last_model_delta_at := Some now\<rparr>"
    have "observe_at (text_event i d) now wall_now st = append_latest_text d wall_now x"
      using m(4) assms(5) none by (simp add: observe_at_def Let_def p admit_sample_def ParsedActivity_runtime_def trim_samples_small
          mark_delta_def collect_text_def apply_transition_def is_model_delta_def x_def)
    moreover have "collected whole x" "ac_terminal_text_limit x = ac_terminal_text_limit st"
      using m(1) by (simp_all add: x_def collected_def mark_event_def)
    ultimately show ?thesis
      using collected_append [of whole x d wall_now] assms(3,4) m(2-4) False
      unfolding tracks_def by (simp add: append_text_samples x_def)
  qed
qed

fun first_pieces :: "string list \<Rightarrow> (string \<times> string) list \<Rightarrow> string" where
  "first_pieces seen [] = []"
| "first_pieces seen ((i, d) # ps) = (if i \<in> set seen then first_pieces seen ps else d @ first_pieces (i # seen) ps)"

lemma first_pieces_cong: "set seen = set seen' \<Longrightarrow> first_pieces seen ps = first_pieces seen' ps"
proof (induction ps arbitrary: seen seen')
  case (Cons p ps)
  obtain i d where p: "p = (i, d)" by (rule prod.exhaust)
  show ?case
    using Cons.IH [of seen seen'] Cons.IH [of "i # seen" "i # seen'"] Cons.prems by (simp add: p)
qed simp

type_synonym streamed = "string \<times> string \<times> nat \<times> nat"

definition streamed_event :: "streamed \<Rightarrow> runtime_event \<times> nat \<times> nat" where
  "streamed_event x = (case x of (i, d, now, wall_now) \<Rightarrow> (text_event i d, now, wall_now))"

definition piece :: "streamed \<Rightarrow> string \<times> string" where
  "piece x = (case x of (i, d, now, wall_now) \<Rightarrow> (i, d))"

definition streamable :: "streamed \<Rightarrow> bool" where
  "streamable x = (case x of (i, d, now, wall_now) \<Rightarrow> valid_activity_id i \<and> starts_at_char d)"

lemma streamed_simps [simp]:
  "streamed_event (i, d, now, wall_now) = (text_event i d, now, wall_now)" "piece (i, d, now, wall_now) = (i, d)"
  "streamable (i, d, now, wall_now) \<longleftrightarrow> valid_activity_id i \<and> starts_at_char d"
  by (simp_all add: streamed_event_def piece_def streamable_def)

lemma observe_streamed:
  assumes "tracks seen whole st" and "list_all streamable xs" and "ac_terminal_text_limit st < u64_max"
    and "length seen + length xs \<le> MAX_ACTIVITY_IDENTITIES"
  shows "tracks (seen @ map piece xs) (whole @ first_pieces (map fst seen) (map piece xs)) (observe_all (map streamed_event xs) st)
    \<and> ac_terminal_text_limit (observe_all (map streamed_event xs) st) = ac_terminal_text_limit st"
  using assms
proof (induction xs arbitrary: seen whole st)
  case Nil
  then show ?case by (simp add: observe_all_def)
next
  case (Cons x xs)
  obtain i d now wall_now where x: "x = (i, d, now, wall_now)" by (rule prod_cases4)
  let ?st = "observe_at (text_event i d) now wall_now st"
  have step: "tracks (seen @ [(i, d)]) (if i \<in> fst ` set seen then whole else whole @ d) ?st"
      "ac_terminal_text_limit ?st = ac_terminal_text_limit st"
    using observe_text_event [of seen whole st i d now wall_now] Cons.prems by (auto simp: x)
  have all: "observe_all (map streamed_event (x # xs)) st = observe_all (map streamed_event xs) ?st"
    by (simp add: observe_all_def x)
  have whole: "(if i \<in> fst ` set seen then whole else whole @ d) @ first_pieces (map fst (seen @ [(i, d)])) (map piece xs)
      = whole @ first_pieces (map fst seen) (map piece (x # xs))"
    using first_pieces_cong [of "map fst seen @ [i]" "map fst seen"] first_pieces_cong [of "map fst seen @ [i]" "i # map fst seen"]
    by (simp add: x insert_absorb)
  have "tracks ((seen @ [(i, d)]) @ map piece xs) ((if i \<in> fst ` set seen then whole else whole @ d)
        @ first_pieces (map fst (seen @ [(i, d)])) (map piece xs)) (observe_all (map streamed_event xs) ?st)
      \<and> ac_terminal_text_limit (observe_all (map streamed_event xs) ?st) = ac_terminal_text_limit ?st"
    using Cons.prems step(2) by (intro Cons.IH [OF step(1)]) auto
  then show ?case
    unfolding all whole step(2) by (simp add: x)
qed

text \<open>
  C32 (equivalence): the text a runtime streamed is collected exactly, each piece once. For every
  sequence of at most 65,536 text deltas that all carry a valid event id, delivered once or repeatedly at
  any times (a delta without an id, or repeated after more identities than are kept, would be taken again), the text handed over at the end is the concatenation of the pieces in the order of
  their first delivery, or the report that it is missing (only white space) or too long; and
  the tail shown in between is the end of that same whole text, cut at a character.
\<close>

theorem streamed_text_is_exact:
  assumes "list_all streamable xs" and "length xs \<le> 65536" and "limit < u64_max"
  shows "let st = observe_all (map streamed_event xs) (PassiveActivityTracker_new limit);
             whole = first_pieces [] (map piece xs)
         in fst (take_terminal_text st) =
              (if length whole > limit then TerminalOversized
               else if trim whole = [] then TerminalMissing else TerminalVisible whole)
          \<and> sn_latest_text_tail (snapshot_at now st) = text_end 8192 whole"
proof -
  have "tracks [] [] (PassiveActivityTracker_new limit)"
    by (simp add: tracks_def collected_def PassiveActivityTracker_new_def text_end_def)
  from observe_streamed [OF this assms(1)] assms(2,3)
  have "collected (first_pieces [] (map piece xs)) (observe_all (map streamed_event xs) (PassiveActivityTracker_new limit))
     \<and> ac_terminal_text_limit (observe_all (map streamed_event xs) (PassiveActivityTracker_new limit)) = limit"
    by (simp add: tracks_def PassiveActivityTracker_new_def MAX_ACTIVITY_IDENTITIES_def)
  then show ?thesis
    by (auto simp: Let_def collected_def take_terminal_text_def snapshot_at_def MAX_LATEST_TEXT_BYTES_def)
qed

theorem streamed_text_is_exact_witness:
  "fst (take_terminal_text (observe_all (map streamed_event [(''a'', ''He'', 1, 1), (''b'', ''y'', 2, 2), (''a'', ''He'', 3, 3)])
     (PassiveActivityTracker_new 10))) = TerminalVisible ''Hey''"
proof -
  let ?xs = "[(''a'', ''He'', 1, 1), (''b'', ''y'', 2, 2), (''a'', ''He'', 3, 3)] :: streamed list"
  have "trim ''Hey'' \<noteq> []" by (simp add: trim_def utf8_cont_def is_whitespace_def)
  moreover have "list_all streamable ?xs"
    by (simp add: valid_activity_id_def starts_at_char_def utf8_cont_def has_nul_def MAX_ACTIVITY_ID_BYTES_def)
  ultimately show ?thesis
    using streamed_text_is_exact [of ?xs 10 0] by (simp add: u64_max_def Let_def)
qed

section \<open>After a turn\<close>

text \<open>
  When a turn has ended no model request and no tool is active any more, so the only timeouts
  left are those of a wait for input and of a silent runtime.
\<close>

theorem turn_end_clears_activity:
  assumes "pa_transition (parse_passive_activity event) \<in> {Some ActivityTurnCompleted, Some ActivityTurnFailed}"
  shows "let snapshot = snapshot_at later (observe_at event now wall_now st) in
      sn_active_tools snapshot = [] \<and> \<not> sn_model_request_active snapshot
      \<and> runtime_timeout_reason limits snapshot input_wait \<in>
          {None, Some ''INPUT_WAIT_TIMEOUT'', Some ''RUNTIME_ACTIVITY_IDLE_TIMEOUT''}"
proof -
  have "ac_active_tools (apply_transition (parse_passive_activity event) now x) = []
      \<and> ac_active_model_requests (apply_transition (parse_passive_activity event) now x) = []" for x
    using assms by (auto simp: apply_transition_def)
  then have "ac_active_tools (observe_at event now wall_now st) = [] \<and> ac_active_model_requests (observe_at event now wall_now st) = []"
    by (simp add: observe_at_def Let_def split: prod.split)
  then show ?thesis
    by (simp add: snapshot_at_def Let_def runtime_timeout_reason_def greatest_of_def split: option.split)
qed

end
