(* ===== verification/Lifecycle_Sink.thy ===== *)
theory Lifecycle_Sink
  imports Runtime_Session Activity Budget Store_Ops
begin

text \<open>
  Where the records of a runtime meet the store (\<^verbatim>\<open>crates/zcode-agentd/src/lib.rs\<close>): the phase a
  runtime is in for the scheduler, the deadline of a control operation, the sink that writes
  lifecycle records, and the way a result is built and published when a runtime has ended.
\<close>

section \<open>The runtime's phase\<close>

datatype lifecycle_phase = PhaseRunning | StopRequested | StopAcknowledged | ForceTerminating | PhaseTerminal

record runtime_lifecycle =
  rl_phase :: lifecycle_phase
  rl_runtime_generation :: nat
  rl_turn_generation :: nat
  rl_stop_requested_at :: "nat option"
  rl_observed_boundary :: "turn_boundary option"
  rl_force_termination_count :: nat
  rl_late_event_count :: nat

definition MAX_BOUNDED_LATE_EVENT_DIAGNOSTICS :: nat where "MAX_BOUNDED_LATE_EVENT_DIAGNOSTICS = 64"

definition RuntimeLifecycle_new :: "nat \<Rightarrow> runtime_lifecycle" where
  "RuntimeLifecycle_new generation = \<lparr>rl_phase = PhaseRunning, rl_runtime_generation = generation, rl_turn_generation = 0,
     rl_stop_requested_at = None, rl_observed_boundary = None, rl_force_termination_count = 0, rl_late_event_count = 0\<rparr>"

definition lifecycle_request_stop :: "nat \<Rightarrow> turn_snapshot \<Rightarrow> runtime_lifecycle \<Rightarrow> runtime_lifecycle" where
  "lifecycle_request_stop now turn l =
     (if rl_phase l = PhaseRunning
      then l\<lparr>rl_phase := StopRequested, rl_turn_generation := ts_generation turn, rl_stop_requested_at := Some now\<rparr>
      else l)"

definition acknowledge_boundary :: "turn_snapshot \<Rightarrow> runtime_lifecycle \<Rightarrow> bool \<times> runtime_lifecycle" where
  "acknowledge_boundary turn l =
     (if rl_phase l \<in> {StopRequested, StopAcknowledged} \<and> ts_generation turn = rl_turn_generation l
         \<and> \<not> ts_active turn \<and> ts_boundary turn \<noteq> None
      then (True, l\<lparr>rl_phase := StopAcknowledged, rl_observed_boundary := ts_boundary turn\<rparr>)
      else (False, l))"

definition force_terminating :: "runtime_lifecycle \<Rightarrow> runtime_lifecycle" where
  "force_terminating l =
     (if rl_phase l \<notin> {ForceTerminating, PhaseTerminal}
      then l\<lparr>rl_phase := ForceTerminating, rl_force_termination_count := sat_inc u64_max (rl_force_termination_count l)\<rparr>
      else l)"

definition terminalize :: "runtime_lifecycle \<Rightarrow> runtime_lifecycle" where
  "terminalize l = l\<lparr>rl_phase := PhaseTerminal\<rparr>"

definition ingress_reason :: "runtime_lifecycle \<Rightarrow> string option" where
  "ingress_reason l =
     (case rl_phase l of
        PhaseRunning \<Rightarrow> None
      | PhaseTerminal \<Rightarrow> Some ''LATE_AFTER_STOP''
      | _ \<Rightarrow> Some ''TASK_STOPPING'')"

definition admit_event :: "runtime_lifecycle \<Rightarrow> bool \<times> runtime_lifecycle" where
  "admit_event l =
     (if rl_phase l = PhaseRunning then (True, l)
      else (False, l\<lparr>rl_late_event_count :=
              min (sat_inc u64_max (rl_late_event_count l)) MAX_BOUNDED_LATE_EVENT_DIAGNOSTICS\<rparr>))"

section \<open>Control deadlines\<close>

text \<open>
  Times in nanoseconds; every clock reading of the code is an argument. \<open>DURATION_MAX\<close> is the
  largest duration the standard library represents.
\<close>

definition DURATION_MAX :: nat where "DURATION_MAX = 2 ^ 64 * 1000000000 - 1"

definition deadline_remaining :: "nat \<Rightarrow> nat \<Rightarrow> nat option" where
  "deadline_remaining expires_at now = (if now < expires_at then Some (expires_at - now) else None)"

definition runtime_phase_deadline :: "nat \<Rightarrow> nat \<Rightarrow> nat \<Rightarrow> nat \<Rightarrow> nat option" where
  "runtime_phase_deadline expires_at now now' stop_grace =
     Option.bind (deadline_remaining expires_at now) (\<lambda>left.
       (let cleanup = min (if stop_grace * 3 \<le> DURATION_MAX then stop_grace * 3 else left) (left div 2) in
        if cleanup \<le> expires_at \<and> expires_at - cleanup > now' then Some (expires_at - cleanup) else None))"

definition runtime_phase :: "nat \<Rightarrow> nat \<Rightarrow> nat \<Rightarrow> nat \<Rightarrow> nat \<Rightarrow> nat option" where
  "runtime_phase expires_at now now' now'' stop_grace =
     Option.bind (runtime_phase_deadline expires_at now now' stop_grace) (\<lambda>deadline. deadline_remaining deadline now'')"

definition cleanup_grace :: "nat \<Rightarrow> nat \<Rightarrow> nat \<Rightarrow> nat" where
  "cleanup_grace expires_at now configured =
     (case deadline_remaining expires_at now of Some left \<Rightarrow> min configured (left div 3) | None \<Rightarrow> 0)"

section \<open>What is written of a record\<close>

record lifecycle_projection =
  lp_event_type :: string
  lp_payload :: json
  lp_redaction_level :: string

fun lifecycle_order_name :: "lifecycle_order \<Rightarrow> string" where
  "lifecycle_order_name NotLifecycle = ''not_lifecycle''"
| "lifecycle_order_name InOrder = ''in_order''"
| "lifecycle_order_name (OutOfOrder e) = ''out_of_order''"

definition child_exit_name :: "child_exit \<Rightarrow> string" where
  "child_exit_name e = (case e of
       Exited (Some c) \<Rightarrow> if c = 0 then ''exited_success'' else ''exited_failure''
     | Exited None \<Rightarrow> ''exited_unknown''
     | Signaled s \<Rightarrow> ''signaled''
     | ExitUnknown \<Rightarrow> ''unknown'')"

fun stop_outcome_name :: "stop_outcome \<Rightarrow> string" where
  "stop_outcome_name (AlreadyExited e) = ''already_exited''"
| "stop_outcome_name (TerminatedExit e) = ''terminated''"

fun runtime_loss_name :: "runtime_loss \<Rightarrow> string" where
  "runtime_loss_name InvalidIdentity = ''invalid_identity''"
| "runtime_loss_name UnsupportedIdentity = ''unsupported_identity''"
| "runtime_loss_name MissingLeader = ''missing_leader''"
| "runtime_loss_name IdentityMismatch = ''identity_mismatch''"
| "runtime_loss_name UnknownMembership = ''unknown_membership''"
| "runtime_loss_name SessionLost = ''session_lost''"
| "runtime_loss_name (StopFailedLoss m) = ''stop_failed''"
| "runtime_loss_name EventStreamLost = ''event_stream_lost''"

definition runtime_loss_redaction :: "runtime_loss \<Rightarrow> string" where
  "runtime_loss_redaction l = (case l of StopFailedLoss m \<Rightarrow> ''redacted'' | _ \<Rightarrow> ''allowlisted'')"

definition projected :: "string \<Rightarrow> (string \<times> json) list \<Rightarrow> string \<Rightarrow> lifecycle_projection" where
  "projected t members level = \<lparr>lp_event_type = t, lp_payload = JObject members, lp_redaction_level = level\<rparr>"

definition opt_json :: "string option \<Rightarrow> json" where
  "opt_json v = (case v of Some x \<Rightarrow> JString x | None \<Rightarrow> JNull)"

fun lifecycle_projection_of :: "runtime_event \<Rightarrow> string option \<Rightarrow> lifecycle_projection" where
  "lifecycle_projection_of (DriverEvent (Message (Request r))) pending =
     projected ''driver.message'' [(''kind'', JString ''request''), (''method'', JString (rq_method r)),
       (''request_id'', opt_json pending)] ''redacted''"
| "lifecycle_projection_of (DriverEvent (Message (Response r))) pending =
     projected ''driver.message'' [(''kind'', JString ''response''),
       (''outcome'', JString (if rp_error r \<noteq> None then ''error'' else ''result''))] ''redacted''"
| "lifecycle_projection_of (DriverEvent (Message (Event e))) pending =
     projected ''driver.message'' [(''kind'', JString ''event''), (''method'', JString (en_method e)),
       (''type'', opt_json (event_type e))] ''redacted''"
| "lifecycle_projection_of (DriverEvent (Message (UnknownEvent m raw))) pending =
     projected ''raw.unknown'' [(''kind'', JString ''unknown_event''), (''raw'', JString ''[REDACTED]'')] ''redacted''"
| "lifecycle_projection_of (DriverEvent (Lifecycle n m order)) pending =
     projected ''driver.lifecycle'' [(''kind'', JString ''lifecycle''), (''sequence'', JNum (int n)), (''method'', JString m),
       (''order'', JString (lifecycle_order_name order))] ''allowlisted''"
| "lifecycle_projection_of (DriverEvent (Malformed d)) pending =
     projected ''driver.malformed'' [(''kind'', JString ''malformed''), (''detail'', JString ''[REDACTED]'')] ''redacted''"
| "lifecycle_projection_of (DriverEvent (OversizedLine n)) pending =
     projected ''driver.oversized_line'' [(''kind'', JString ''oversized_line''), (''bytes'', JNum (int n))] ''allowlisted''"
| "lifecycle_projection_of (DriverEvent (ChildExited e)) pending =
     projected ''driver.child_exited'' [(''kind'', JString ''child_exited''), (''outcome'', JString (child_exit_name e))] ''allowlisted''"
| "lifecycle_projection_of (DriverEvent (UnmatchedResponse i outcome)) pending =
     projected ''driver.unmatched_response'' [(''kind'', JString ''unmatched_response''), (''outcome'', JString outcome)] ''redacted''"
| "lifecycle_projection_of (TerminalEvent (RuntimeStopped x)) pending =
     projected ''runtime.stopped'' [(''kind'', JString ''stopped''), (''outcome'', JString (stop_outcome_name x))] ''allowlisted''"
| "lifecycle_projection_of (TerminalEvent (RuntimeCompleted x)) pending =
     projected ''runtime.completed'' [(''kind'', JString ''completed''), (''outcome'', JString (stop_outcome_name x))] ''allowlisted''"
| "lifecycle_projection_of (TerminalEvent (FailedTurn x)) pending =
     projected ''runtime.turn_failed'' [(''kind'', JString ''turn_failed''), (''outcome'', JString (stop_outcome_name x))] ''allowlisted''"
| "lifecycle_projection_of (TerminalEvent (RuntimeExited e)) pending =
     projected ''runtime.exited'' [(''kind'', JString ''exited''), (''outcome'', JString (child_exit_name e))] ''allowlisted''"
| "lifecycle_projection_of (TerminalEvent (FailedRuntimeLost l)) pending =
     projected ''runtime.failed_runtime_lost'' [(''kind'', JString ''failed_runtime_lost''), (''reason'', JString (runtime_loss_name l))]
       (runtime_loss_redaction l)"
| "lifecycle_projection_of (TerminalEvent (Orphaned l)) pending =
     projected ''runtime.orphaned'' [(''kind'', JString ''orphaned''), (''reason'', JString (runtime_loss_name l))]
       (runtime_loss_redaction l)"

section \<open>The sink\<close>

record sink_id =
  sk_agent_id :: string
  sk_runtime_agent_id :: string
  sk_owner_epoch :: nat

record sink_write_state =
  sk_first_error :: "string option"
  sk_last_source_sequence :: nat
  sk_pending_terminal_sequence :: "nat option"
  sk_terminal_written :: bool

record sink =
  sk_store :: store
  sk_lifecycle :: runtime_lifecycle
  sk_budget :: "runtime_budget option"
  sk_activity :: activity_state
  sk_write :: sink_write_state

text \<open>\<open>show_error\<close> is the text of a store error; \<open>now\<close> the store's clock.\<close>

record sink_env =
  sv_store :: store_env
  sv_escape :: "string \<Rightarrow> string"
  sv_show_error :: "store_error \<Rightarrow> string"

definition sink_failed :: "string \<Rightarrow> sink \<Rightarrow> sink" where
  "sink_failed message k = k\<lparr>sk_write := (sk_write k)\<lparr>sk_first_error := Some message\<rparr>\<rparr>"

definition asks_input :: "runtime_event \<Rightarrow> request_envelope option" where
  "asks_input e = (case e of
       DriverEvent (Message (Request r)) \<Rightarrow>
         if rq_method r = INTERACTION_REQUEST_PERMISSION \<or> rq_method r = INTERACTION_REQUEST_USER_INPUT then Some r else None
     | _ \<Rightarrow> None)"

definition record_turn_state :: "runtime_event \<Rightarrow> turn_state option" where
  "record_turn_state e = (case e of
       DriverEvent (Lifecycle n m order) \<Rightarrow>
         if m = ''turn.started'' then Some TurnActive
         else if m = ''turn.completed'' then Some TurnIdle
         else if m = ''turn.failed'' then Some turn_state.TurnFailed else None
     | _ \<Rightarrow> None)"

definition lifecycle_write_of ::
    "sink_env \<Rightarrow> sink_id \<Rightarrow> nat \<Rightarrow> runtime_event \<Rightarrow> string option \<Rightarrow> turn_state option \<Rightarrow> lifecycle_write" where
  "lifecycle_write_of env i sequence e pending turn =
     (let p = lifecycle_projection_of e pending in
      \<lparr>lw_agent_id = sk_agent_id i, lw_runtime_agent_id = sk_runtime_agent_id i, lw_owner_epoch = sk_owner_epoch i,
       lw_source_sequence = sequence, lw_event_type = lp_event_type p, lw_turn_id = None,
       lw_payload_json = env_to_json (sv_store env) (lp_payload p), lw_redaction_level = lp_redaction_level p,
       lw_terminal = None, lw_turn_state = turn\<rparr>)"

definition publish_request :: "sink_env \<Rightarrow> sink_id \<Rightarrow> int \<Rightarrow> lifecycle_record \<Rightarrow> sink \<Rightarrow> string + string option \<times> sink" where
  "publish_request env i now r k =
     (case asks_input (lr_event r) of
        None \<Rightarrow> Inr (None, k)
      | Some q \<Rightarrow>
          (let request_id = sk_agent_id i @ '':request:'' @ show_nat (lr_sequence r) in
           case insert_pending_request now request_id (sk_agent_id i) (response_key (sv_escape env) (rq_id q))
                  (if rq_method q = INTERACTION_REQUEST_PERMISSION then ''permission'' else ''unsupported_input'')
                  (env_to_json (sv_store env) (rq_params q)) (sk_store k) of
             Inl e \<Rightarrow> Inl (sv_show_error env e)
           | Inr (inserted, s) \<Rightarrow> Inr (Some request_id, k\<lparr>sk_store := s\<rparr>)))"

definition write_record :: "sink_env \<Rightarrow> sink_id \<Rightarrow> int \<Rightarrow> int \<Rightarrow> lifecycle_record \<Rightarrow> sink \<Rightarrow> sink" where
  "write_record env i now now' r k =
     (case publish_request env i now r k of
        Inl message \<Rightarrow> sink_failed message k
      | Inr (pending, k1) \<Rightarrow>
          (case append_lifecycle now' (lifecycle_write_of env i (lr_sequence r) (lr_event r) pending (record_turn_state (lr_event r)))
                  (sk_store k1) of
             Inl e \<Rightarrow> sink_failed (sv_show_error env e) k1
           | Inr (q, s) \<Rightarrow> k1\<lparr>sk_store := s\<rparr>))"

definition is_terminal_event :: "runtime_event \<Rightarrow> bool" where
  "is_terminal_event e = (case e of TerminalEvent t \<Rightarrow> True | _ \<Rightarrow> False)"

definition sink_observe :: "runtime_event \<Rightarrow> nat \<Rightarrow> nat \<Rightarrow> sink \<Rightarrow> sink" where
  "sink_observe e instant wall k =
     k\<lparr>sk_budget := (case e of DriverEvent m \<Rightarrow> map_option (observe m) (sk_budget k) | _ \<Rightarrow> sk_budget k),
       sk_activity := observe_at e instant wall (sk_activity k)\<rparr>"

text \<open>\<open>now\<close> and \<open>now'\<close> are the store's clock at the two writes, \<open>instant\<close> and \<open>wall\<close> the tracker's.\<close>

definition sink_emit :: "sink_env \<Rightarrow> sink_id \<Rightarrow> int \<Rightarrow> int \<Rightarrow> nat \<Rightarrow> nat \<Rightarrow> lifecycle_record \<Rightarrow> sink \<Rightarrow> sink" where
  "sink_emit env i now now' instant wall r k =
     (case admit_event (sk_lifecycle k) of
        (False, l) \<Rightarrow> k\<lparr>sk_lifecycle := l\<rparr>
      | (True, l) \<Rightarrow>
          (let k1 = sink_observe (lr_event r) instant wall (k\<lparr>sk_lifecycle := l\<rparr>) in
           if sk_first_error (sk_write k1) \<noteq> None then k1
           else
             (let k2 = k1\<lparr>sk_write := (sk_write k1)\<lparr>sk_last_source_sequence :=
                             max (sk_last_source_sequence (sk_write k1)) (lr_sequence r)\<rparr>\<rparr> in
              if is_terminal_event (lr_event r)
              then k2\<lparr>sk_write := (sk_write k2)\<lparr>sk_pending_terminal_sequence := Some (lr_sequence r)\<rparr>\<rparr>
              else write_record env i now now' r k2)))"

datatype natural_completion_admission = AdmissionReady | AdmissionDeferred bool bool | AdmissionBypass

definition begin_natural_completion :: "sink_id \<Rightarrow> sink \<Rightarrow> natural_completion_admission \<times> sink" where
  "begin_natural_completion i k =
     (if rl_phase (sk_lifecycle k) \<noteq> PhaseRunning then (AdmissionBypass, k)
      else case completion_blockers (sk_store k) (sk_agent_id i) of
             (pending, queued) \<Rightarrow>
               if pending \<or> queued then (AdmissionDeferred pending queued, k)
               else (AdmissionReady, k\<lparr>sk_lifecycle := terminalize (sk_lifecycle k)\<rparr>))"

section \<open>Results\<close>

datatype completion_outcome =
    CompletionCompleted
  | CompletionFailed
  | CompletionCancelled
  | CompletionTimedOut
  | CompletionBudgetExhausted
  | CompletionRuntimeLost
  | CompletionResultInvalid

record changes_patch =
  cp_artifact_id :: string
  cp_sha256 :: string
  cp_size_bytes :: nat
  cp_head_commit :: "string option"
  cp_base_sha :: string
  cp_changed_paths :: "string list"
  cp_diff_stat :: "string option"

record general_completion =
  gc_outcome :: completion_outcome
  gc_reason_code :: "string option"
  gc_summary :: string
  gc_checks :: "string list"
  gc_residual_gaps :: "string list"
  gc_changes_patch :: "changes_patch option"
  gc_cleaned :: bool

fun task_outcome_of :: "completion_outcome \<Rightarrow> task_outcome" where
  "task_outcome_of CompletionCompleted = Completed"
| "task_outcome_of CompletionFailed = Failed"
| "task_outcome_of CompletionCancelled = Cancelled"
| "task_outcome_of CompletionTimedOut = TimedOut"
| "task_outcome_of CompletionBudgetExhausted = BudgetExhausted"
| "task_outcome_of CompletionRuntimeLost = RuntimeLost"
| "task_outcome_of CompletionResultInvalid = ResultInvalid"

text \<open>\<^verbatim>\<open>{:?}\<close> of a completion outcome.\<close>

fun debug_completion_outcome :: "completion_outcome \<Rightarrow> string" where
  "debug_completion_outcome CompletionCompleted = ''Completed''"
| "debug_completion_outcome CompletionFailed = ''Failed''"
| "debug_completion_outcome CompletionCancelled = ''Cancelled''"
| "debug_completion_outcome CompletionTimedOut = ''TimedOut''"
| "debug_completion_outcome CompletionBudgetExhausted = ''BudgetExhausted''"
| "debug_completion_outcome CompletionRuntimeLost = ''RuntimeLost''"
| "debug_completion_outcome CompletionResultInvalid = ''ResultInvalid''"

definition result_gaps :: "general_completion \<Rightarrow> string list" where
  "result_gaps c = (case gc_reason_code c of
       Some reason \<Rightarrow> if reason \<in> set (gc_residual_gaps c) then gc_residual_gaps c else gc_residual_gaps c @ [reason]
     | None \<Rightarrow> gc_residual_gaps c)"

definition result_summary :: "general_completion \<Rightarrow> string" where
  "result_summary c =
     (if trim (gc_summary c) = []
      then (case gc_reason_code c of
              Some reason \<Rightarrow> reason
            | None \<Rightarrow> ''general task ended with '' @ debug_completion_outcome (gc_outcome c))
      else gc_summary c)"

definition task_result_of :: "general_completion \<Rightarrow> task_result" where
  "task_result_of c =
     (let primary = gc_changes_patch c in
      \<lparr>rs_outcome = task_outcome_of (gc_outcome c), rs_final_text = result_summary c,
       rs_partial = (gc_outcome c \<noteq> CompletionCompleted),
       rs_base_commit = map_option cp_base_sha primary,
       rs_head_commit = Option.bind primary cp_head_commit,
       rs_changed_files = (case primary of Some p \<Rightarrow> cp_changed_paths p | None \<Rightarrow> []),
       rs_diff_stat = Option.bind primary cp_diff_stat,
       rs_checks = gc_checks c, rs_residual_gaps = result_gaps c,
       rs_artifacts = (case primary of
           Some p \<Rightarrow> [\<lparr>ra_kind = ChangesPatch, ra_artifact_id = cp_artifact_id p, ra_sha256 = cp_sha256 p\<rparr>]
         | None \<Rightarrow> [])\<rparr>)"

definition bare_result :: "task_outcome \<Rightarrow> string \<Rightarrow> bool \<Rightarrow> string \<Rightarrow> task_result" where
  "bare_result outcome text partial gap =
     \<lparr>rs_outcome = outcome, rs_final_text = text, rs_partial = partial, rs_base_commit = None, rs_head_commit = None,
      rs_changed_files = [], rs_diff_stat = None, rs_checks = [], rs_residual_gaps = [gap], rs_artifacts = []\<rparr>"

definition minimal_task_result :: "completion_outcome \<Rightarrow> string \<Rightarrow> string \<Rightarrow> task_result" where
  "minimal_task_result outcome summary reason_text =
     bare_result (task_outcome_of outcome) (if trim summary = [] then reason_text else summary)
       (outcome \<noteq> CompletionCompleted) reason_text"

definition bounded_cancelled_task_result :: task_result where
  "bounded_cancelled_task_result = bare_result Cancelled ''task cancelled'' True ''CANCELLED''"

definition bounded_result_invalid_task_result :: task_result where
  "bounded_result_invalid_task_result =
     bare_result ResultInvalid ''result unavailable'' True ''GENERAL_COMPLETION_PERSIST_FAILED''"

text \<open>\<open>finalize\<close> stands for \<^verbatim>\<open>GeneralFinalizer::finalize\<close>, which drives git in the workspace.\<close>

definition finalized_general ::
    "(completion_outcome \<Rightarrow> general_completion) \<Rightarrow> completion_outcome \<Rightarrow> string \<Rightarrow> string \<Rightarrow> general_completion" where
  "finalized_general finalize outcome reason_text message =
     (let c = finalize outcome;
          c1 = (if trim (gc_summary c) = []
                then c\<lparr>gc_summary := (if trim message = [] then reason_text else message)\<rparr> else c)
      in if gc_reason_code c1 = None \<and> outcome \<noteq> CompletionCompleted
         then c1\<lparr>gc_reason_code := Some reason_text\<rparr> else c1)"

definition unreaped_general :: "completion_outcome \<Rightarrow> string \<Rightarrow> string \<Rightarrow> general_completion" where
  "unreaped_general outcome reason_text message =
     \<lparr>gc_outcome = outcome, gc_reason_code = (if outcome \<noteq> CompletionCompleted then Some reason_text else None),
      gc_summary = (if trim message = [] then reason_text else message), gc_checks = [], gc_residual_gaps = [],
      gc_changes_patch = None, gc_cleaned = False\<rparr>"

definition invalidate_untransportable_completion :: "general_completion \<Rightarrow> general_completion" where
  "invalidate_untransportable_completion c =
     c\<lparr>gc_outcome := CompletionResultInvalid, gc_reason_code := Some ''RESULT_RESPONSE_FRAME_EXCEEDED'',
       gc_summary := ''terminal result exceeds private RPC response frame'', gc_checks := [], gc_residual_gaps := []\<rparr>"

definition compact_untransportable_artifact_projection :: "general_completion \<Rightarrow> general_completion" where
  "compact_untransportable_artifact_projection c =
     c\<lparr>gc_changes_patch := map_option (\<lambda>p. p\<lparr>cp_changed_paths := [], cp_diff_stat := None\<rparr>) (gc_changes_patch c)\<rparr>"

section \<open>Publishing a result\<close>

definition store_result_with_cancel_precedence ::
    "store_env \<Rightarrow> int \<Rightarrow> int \<Rightarrow> string \<Rightarrow> task_result \<Rightarrow> new_artifact option \<Rightarrow> unit store_tx" where
  "store_result_with_cancel_precedence env now now' agent_id result patch s =
     (case store_task_result_with_patch env now agent_id result patch s of
        Inr r \<Rightarrow> Inr r
      | Inl e \<Rightarrow>
          (case e of
             Conflict m \<Rightarrow>
               rbind (get_task s agent_id) (\<lambda>found.
               rbind (ok_or (InvalidState ''terminal result task disappeared'') found) (\<lambda>task.
                 if (tr_stop_requested task \<or> tr_close_requested task) \<and> rs_outcome result \<noteq> Cancelled
                    \<and> stored_result s agent_id = None
                 then store_task_result env now' agent_id bounded_cancelled_task_result s
                 else Inl e))
           | _ \<Rightarrow> Inl e))"

record artifact_metadata =
  am_artifact_id :: string
  am_kind :: string
  am_sha256 :: string
  am_size_bytes :: nat

text \<open>
  \<open>fits\<close> stands for \<^verbatim>\<open>terminal_result_response_fits\<close>: whether the response that reports the result
  fits a frame of the private RPC.
\<close>

type_synonym response_fits = "task_record \<Rightarrow> task_result \<Rightarrow> artifact_metadata list \<Rightarrow> bool"

definition general_result_response_fits ::
    "response_fits \<Rightarrow> store \<Rightarrow> string \<Rightarrow> general_completion \<Rightarrow> task_result \<Rightarrow> bool store_result" where
  "general_result_response_fits fits s agent_id completion result =
     rbind (get_task s agent_id) (\<lambda>found.
     rbind (ok_or (InvalidState ''terminal result task disappeared'') found) (\<lambda>task.
       Inr (fits (task\<lparr>tr_reaped_at := None\<rparr>) result
              (case gc_changes_patch completion of
                 Some p \<Rightarrow> [\<lparr>am_artifact_id = cp_artifact_id p, am_kind = ''changes_patch'', am_sha256 = cp_sha256 p,
                            am_size_bytes = cp_size_bytes p\<rparr>]
               | None \<Rightarrow> []))))"

definition persist_general_result ::
    "response_fits \<Rightarrow> store_env \<Rightarrow> int \<Rightarrow> int \<Rightarrow> string \<Rightarrow> string \<Rightarrow> general_completion \<Rightarrow> unit store_tx" where
  "persist_general_result fits env now now' agent_id artifact_root completion s =
     (let result = task_result_of completion in
      rbind (general_result_response_fits fits s agent_id completion result) (\<lambda>ok.
        if \<not> ok then Inl (InvalidState ''task result exceeds private RPC response frame'')
        else
          (let patch = map_option (\<lambda>p. \<lparr>na_artifact_id = cp_artifact_id p, na_agent_id = agent_id,
                 na_artifact_type = ''changes_patch'', na_path = path_join artifact_root ''changes.patch'',
                 na_sha256 = cp_sha256 p, na_bytes = cp_size_bytes p\<rparr>) (gc_changes_patch completion) in
           store_result_with_cancel_precedence env now now' agent_id result patch s)))"

definition phase_of_task :: "store \<Rightarrow> string \<Rightarrow> task_phase store_result" where
  "phase_of_task s agent_id =
     rbind (get_task s agent_id) (\<lambda>found. ok_or (InvalidState ''terminal task disappeared'') (map_option tr_phase found))"

text \<open>
  An error leaves what was committed before it: the function returns the sink as it is then.
  \<open>clock\<close> gives the store's time at each of the four writes.
\<close>

definition finish_general ::
    "response_fits \<Rightarrow> sink_env \<Rightarrow> sink_id \<Rightarrow> (nat \<Rightarrow> int) \<Rightarrow> runtime_terminal \<Rightarrow> string \<Rightarrow> general_completion \<Rightarrow> sink
     \<Rightarrow> task_phase store_result \<times> sink" where
  "finish_general fits env i clock terminal artifact_root completion k =
     (case sk_first_error (sk_write k) of
        Some e \<Rightarrow> (Inl (InvalidState e), k)
      | None \<Rightarrow>
        if sk_terminal_written (sk_write k) then (phase_of_task (sk_store k) (sk_agent_id i), k)
        else
          (let sequence = (case sk_pending_terminal_sequence (sk_write k) of
                 Some q \<Rightarrow> q | None \<Rightarrow> sat_inc u64_max (sk_last_source_sequence (sk_write k))) in
           case append_lifecycle (clock 0) (lifecycle_write_of env i sequence (TerminalEvent terminal) None None) (sk_store k) of
             Inl e \<Rightarrow> (Inl e, k)
           | Inr (q, s1) \<Rightarrow>
               (case persist_general_result fits (sv_store env) (clock 1) (clock 2) (sk_agent_id i) artifact_root completion s1 of
                  Inl e \<Rightarrow> (Inl e, k\<lparr>sk_store := s1\<rparr>)
                | Inr (u, s2) \<Rightarrow>
                    (case (if gc_cleaned completion \<and> terminal_proves_process_group_reaped terminal
                           then map_sum id snd (reap_task (clock 3) (sk_agent_id i) s2) else Inr s2) of
                       Inl e \<Rightarrow> (Inl e, k\<lparr>sk_store := s2\<rparr>)
                     | Inr s3 \<Rightarrow>
                         (phase_of_task s3 (sk_agent_id i),
                          k\<lparr>sk_store := s3, sk_write := (sk_write k)\<lparr>sk_terminal_written := True\<rparr>\<rparr>)))))"

end
