(* ===== verification/Sink_Props.thy ===== *)
theory Sink_Props
  imports Lifecycle_Sink Store_Sched
begin

text \<open>
  The sink against the store: what it writes carries no payload of the runtime, nothing is
  written once a stop was asked for, a finished runtime leaves a terminal task with its result,
  and a request to stop wins over a late result.
\<close>

section \<open>Redaction\<close>

text \<open>
  A record without its payload: the parameters, results and texts the runtime chose are gone;
  kinds, methods, numbers and the type of a session event remain.
\<close>

fun redacted :: "runtime_event \<Rightarrow> runtime_event" where
  "redacted (DriverEvent (Message (Request r))) =
     DriverEvent (Message (Request \<lparr>rq_id = WireInteger 0, rq_method = rq_method r, rq_params = JNull\<rparr>))"
| "redacted (DriverEvent (Message (Response r))) =
     DriverEvent (Message (Response \<lparr>rp_id = WireInteger 0, rp_result = None, rp_error = map_option (\<lambda>_. JNull) (rp_error r)\<rparr>))"
| "redacted (DriverEvent (Message (Event e))) =
     DriverEvent (Message (Event \<lparr>en_method = en_method e, en_params =
       (case event_type e of Some t \<Rightarrow> JObject [(''type'', JString t)] | None \<Rightarrow> JNull)\<rparr>))"
| "redacted (DriverEvent (Message (UnknownEvent m raw))) = DriverEvent (Message (UnknownEvent [] JNull))"
| "redacted (DriverEvent (Lifecycle n m (OutOfOrder e))) = DriverEvent (Lifecycle n m (OutOfOrder []))"
| "redacted (DriverEvent (Malformed d)) = DriverEvent (Malformed [])"
| "redacted (DriverEvent (UnmatchedResponse i outcome)) = DriverEvent (UnmatchedResponse (WireInteger 0) outcome)"
| "redacted (TerminalEvent (FailedRuntimeLost (StopFailedLoss m))) = TerminalEvent (FailedRuntimeLost (StopFailedLoss []))"
| "redacted (TerminalEvent (Orphaned (StopFailedLoss m))) = TerminalEvent (Orphaned (StopFailedLoss []))"
| "redacted e = e"

text \<open>
  Nothing the runtime says reaches the lifecycle table. What is written of a record
  is the same as for the record with its payload removed, whatever the payload is.
\<close>

theorem lifecycle_rows_are_redacted:
  "lifecycle_write_of env i sequence e pending turn = lifecycle_write_of env i sequence (redacted e) pending turn"
proof -
  have "lifecycle_projection_of e pending = lifecycle_projection_of (redacted e) pending"
    by (cases e rule: redacted.cases)
       (auto simp: runtime_loss_redaction_def opt_json_def event_type_def json_get_str_def split: option.splits)
  then show ?thesis by (simp add: lifecycle_write_of_def)
qed

section \<open>After a stop was asked for\<close>

text \<open>What the scheduler and the event pump do to a sink while other components leave the store alone.\<close>

inductive sink_step :: "sink_env \<Rightarrow> sink_id \<Rightarrow> sink \<Rightarrow> sink \<Rightarrow> bool" for env i where
  emitted: "sink_step env i k (sink_emit env i now now' instant wall r k)"
| natural: "sink_step env i k (snd (begin_natural_completion i k))"
| stop: "sink_step env i k (k\<lparr>sk_lifecycle := lifecycle_request_stop now turn (sk_lifecycle k)\<rparr>)"
| acknowledge: "sink_step env i k (k\<lparr>sk_lifecycle := snd (acknowledge_boundary turn (sk_lifecycle k))\<rparr>)"
| force: "sink_step env i k (k\<lparr>sk_lifecycle := force_terminating (sk_lifecycle k)\<rparr>)"
| terminal: "sink_step env i k (k\<lparr>sk_lifecycle := terminalize (sk_lifecycle k)\<rparr>)"

inductive_cases sink_stepE: "sink_step env i k k'"

lemmas lifecycle_defs = lifecycle_request_stop_def acknowledge_boundary_def force_terminating_def terminalize_def
  admit_event_def begin_natural_completion_def

definition stopped_as :: "sink \<Rightarrow> sink \<Rightarrow> bool" where
  "stopped_as k0 k \<longleftrightarrow> rl_phase (sk_lifecycle k) \<noteq> PhaseRunning \<and> sk_store k = sk_store k0 \<and> sk_budget k = sk_budget k0
     \<and> sk_activity k = sk_activity k0 \<and> sk_write k = sk_write k0
     \<and> rl_late_event_count (sk_lifecycle k) \<le> max 64 (rl_late_event_count (sk_lifecycle k0))"

lemma stopped_stays: "stopped_as k0 k \<Longrightarrow> sink_step env i k k' \<Longrightarrow> stopped_as k0 k'"
  by (erule sink_stepE)
     (auto simp: stopped_as_def sink_emit_def lifecycle_defs MAX_BOUNDED_LATE_EVENT_DIAGNOSTICS_def min_def
       split: prod.splits if_splits)

interpretation stopped_sink: inv_system "sink_step env i" "stopped_as k0" for env i k0
  by unfold_locales (rule stopped_stays)

text \<open>
  Once a stop was asked for, or the runtime completed, nothing of it is recorded any
  more. From a sink whose runtime is no longer running, whatever records still arrive and
  whatever the scheduler does to the runtime's phase, the store, the budget, the activity and
  the write state stay as they are, the runtime never counts as running again, and at most 64
  late records are counted.
\<close>

theorem nothing_recorded_after_stop:
  assumes "rl_phase (sk_lifecycle k) \<noteq> PhaseRunning" and "(sink_step env i)\<^sup>*\<^sup>* k k'"
  shows "rl_phase (sk_lifecycle k') \<noteq> PhaseRunning \<and> ingress_reason (sk_lifecycle k') \<noteq> None
     \<and> sk_store k' = sk_store k \<and> sk_budget k' = sk_budget k \<and> sk_activity k' = sk_activity k \<and> sk_write k' = sk_write k
     \<and> rl_late_event_count (sk_lifecycle k') \<le> max 64 (rl_late_event_count (sk_lifecycle k))"
proof -
  have "stopped_as k k'"
    by (rule stopped_sink.reachable [OF assms(2)]) (use assms(1) in \<open>simp add: stopped_as_def\<close>)
  then show ?thesis by (auto simp: stopped_as_def ingress_reason_def split: lifecycle_phase.splits)
qed

definition demo_sink :: sink where
  "demo_sink = \<lparr>sk_store = empty_store, sk_lifecycle = terminalize (RuntimeLifecycle_new 1), sk_budget = None,
     sk_activity = PassiveActivityTracker_new 10,
     sk_write = \<lparr>sk_first_error = None, sk_last_source_sequence = 0, sk_pending_terminal_sequence = None, sk_terminal_written = False\<rparr>\<rparr>"

definition demo_sink_env :: sink_env where
  "demo_sink_env = \<lparr>sv_store = demo_env, sv_escape = id, sv_show_error = StoreError_code\<rparr>"

definition demo_sink_id :: sink_id where
  "demo_sink_id = \<lparr>sk_agent_id = ''a'', sk_runtime_agent_id = ''r'', sk_owner_epoch = 1\<rparr>"

theorem nothing_recorded_after_stop_witness:
  "sk_store (sink_emit demo_sink_env demo_sink_id 1 2 3 4
       \<lparr>lr_sequence = 1, lr_event = TerminalEvent (Orphaned SessionLost)\<rparr> demo_sink) = empty_store"
proof -
  have "rl_phase (sk_lifecycle demo_sink) \<noteq> PhaseRunning" by (simp add: demo_sink_def terminalize_def)
  from nothing_recorded_after_stop [OF this r_into_rtranclp [of "sink_step demo_sink_env demo_sink_id", OF sink_step.emitted]]
  have "sk_store (sink_emit demo_sink_env demo_sink_id 1 2 3 4
       \<lparr>lr_sequence = 1, lr_event = TerminalEvent (Orphaned SessionLost)\<rparr> demo_sink) = sk_store demo_sink" by blast
  then show ?thesis by (simp add: demo_sink_def)
qed

section \<open>Publishing a result\<close>

text \<open>Every write of the sink is an operation of the store, so the store's contract carries over.\<close>

lemma op_keeps_store_ok:
  assumes "store_ok s"
  shows "append_lifecycle now w s = Inr (q, s') \<Longrightarrow> store_ok s'"
    and "insert_pending_request now r a c ty p s = Inr (b, s') \<Longrightarrow> store_ok s'"
    and "store_task_result_with_patch env now a result patch s = Inr (u, s') \<Longrightarrow> store_ok s'"
    and "reap_task now a s = Inr (outc, s') \<Longrightarrow> store_ok s'"
  using simulated_store_ok [OF assms run_op_simulated [OF assms, of env now "AppendLifecycle w"]]
    simulated_store_ok [OF assms run_op_simulated [OF assms, of env now "InsertPending r a c ty p"]]
    simulated_store_ok [OF assms run_op_simulated [OF assms, of env now "StoreResult a result patch"]]
    simulated_store_ok [OF assms run_op_simulated [OF assms, of env now "Reap a"]]
  by (auto simp: committed_def)

lemma result_now_stored:
  assumes "store_task_result_with_patch env now a result patch s = Inr (u, s')"
    and "find (\<lambda>r. rr_agent_id r = a) (task_results s) = None"
  shows "result_outcome s' a = Some (rs_outcome result)"
  using assms(1)
proof (cases rule: store_task_result_cases)
  case same
  then show ?thesis using assms(2) by auto
next
  case (published tr x upd outc)
  have "task_results s' = task_results s @ [result_row_of env now a (tr_retain_partial tr) result]"
    using apply_terminal_frame(2) [OF published(7)] by simp
  then show ?thesis
    using assms(2) by (simp add: result_outcome_def find_append result_row_of_def)
qed

lemma outcome_of_result:
  assumes "store_ok s" and "result_outcome s a = Some outc" and "task_row_of s a = Some t"
  shows "tk_outcome t = Some outc \<and> tk_phase t = Terminal"
  using store_ok_row [OF assms(1,3)] assms(2) by simp

text \<open>
  C10 (safety): a request to stop or close wins over a late result. If publishing the result of a
  task on which stop or close was requested, and which has no result yet, succeeds, then the
  task is terminal with the outcome cancelled, whatever outcome the runtime's result carries.
\<close>

theorem cancellation_wins:
  assumes "store_ok s" and "store_result_with_cancel_precedence env now now' a result patch s = Inr (u, s')"
    and "get_task s a = Inr (Some task)" and "tr_stop_requested task \<or> tr_close_requested task"
    and "stored_result s a = None"
  shows "\<exists>t. task_row_of s' a = Some t \<and> tk_phase t = Terminal \<and> tk_outcome t = Some Cancelled"
proof -
  have none: "find (\<lambda>r. rr_agent_id r = a) (task_results s) = None"
    using assms(5) by (auto simp: stored_result_def query_task_result_def split: option.splits)
  have cancelled: ?thesis
    if run: "store_task_result_with_patch env t0 a r p s = Inr (u, s')" and "rs_outcome r = Cancelled" for t0 r p
  proof -
    have "keys_ok s" using assms(1) by (simp add: store_ok_iff)
    from result_published [OF this run] obtain tr where "query_task s' a = Inr (Some tr)" by blast
    then obtain t where t: "task_row_of s' a = Some t" by (auto simp: query_task_Inr)
    show ?thesis
      using outcome_of_result [OF op_keeps_store_ok(3) [OF assms(1) run] result_now_stored [OF run none] t] t that(2) by simp
  qed
  show ?thesis
  proof (cases "store_task_result_with_patch env now a result patch s")
    case (Inr x)
    then have run: "store_task_result_with_patch env now a result patch s = Inr (u, s')"
      using assms(2) by (simp add: store_result_with_cancel_precedence_def)
    then have "rs_outcome result = Cancelled"
      by (cases rule: store_task_result_cases) (use none assms(3,4) in \<open>auto simp: get_task_def\<close>)
    then show ?thesis using cancelled run by blast
  next
    case (Inl e)
    then have "store_task_result env now' a bounded_cancelled_task_result s = Inr (u, s')"
      using assms(2,3) by (auto simp: store_result_with_cancel_precedence_def split: store_error.splits if_splits)
    then show ?thesis
      using cancelled by (simp add: store_task_result_def bounded_cancelled_task_result_def bare_result_def)
  qed
qed

lemmas stop_defs = request_stop_def request_stop_internal_def settle_terminal_commands_def

definition demo_stopping_store :: store where
  "demo_stopping_store = run_ops demo_env (demo_running @ [(4, RequestStop ''a'')]) empty_store"

theorem cancellation_wins_witness:
  "\<exists>s' t. store_result_with_cancel_precedence demo_env 8 9 ''a'' (demo_result Completed ''done'') None demo_stopping_store = Inr ((), s')
     \<and> task_row_of s' ''a'' = Some t \<and> tk_outcome t = Some Cancelled"
proof -
  have ok: "store_ok demo_stopping_store" unfolding demo_stopping_store_def by (rule run_ops_ok)
  have run: "\<exists>s'. store_result_with_cancel_precedence demo_env 8 9 ''a'' (demo_result Completed ''done'') None demo_stopping_store = Inr ((), s')"
    by (simp add: store_result_with_cancel_precedence_def bounded_cancelled_task_result_def bare_result_def store_task_result_def
        stored_result_def get_task_def demo_stopping_store_def demo_defs exec_defs stop_defs result_defs query_task_result_def)
  have task: "\<exists>task. get_task demo_stopping_store ''a'' = Inr (Some task) \<and> tr_stop_requested task"
    by (simp add: get_task_def demo_stopping_store_def demo_defs exec_defs stop_defs)
  have none: "stored_result demo_stopping_store ''a'' = None"
    by (simp add: stored_result_def query_task_result_def demo_stopping_store_def demo_defs exec_defs stop_defs)
  show ?thesis using run task cancellation_wins [OF ok _ _ _ none] by blast
qed

lemma persist_is_store:
  assumes "persist_general_result fits env now now' a root completion s = Inr (u, s')"
  obtains t0 r p where "store_task_result_with_patch env t0 a r p s = Inr (u, s')"
    and "r = task_result_of completion \<or> r = bounded_cancelled_task_result"
  using assms
  by (auto simp: persist_general_result_def store_result_with_cancel_precedence_def store_task_result_def Let_def
      split: if_splits sum.splits store_error.splits)

lemma result_row_after_publish:
  assumes "store_ok s" and "store_task_result_with_patch env t0 a r p s = Inr (u, s')"
  shows "store_ok s' \<and> result_outcome s' a \<noteq> None"
proof -
  have "keys_ok s" using assms(1) by (simp add: store_ok_iff)
  from result_published [OF this assms(2)] show ?thesis
    using op_keeps_store_ok(3) [OF assms] by (auto simp: result_outcome_def)
qed

lemma phase_of_terminal:
  assumes "store_ok s" and "result_outcome s a \<noteq> None" and "phase_of_task s a = Inr phase"
  shows "phase = Terminal \<and> (\<exists>t. task_row_of s a = Some t \<and> tk_phase t = Terminal \<and> tk_outcome t = result_outcome s a)"
proof -
  obtain tr where tr: "query_task s a = Inr (Some tr)" "phase = tr_phase tr"
    using assms(3) by (auto simp: phase_of_task_def get_task_def ok_or_def split: option.splits)
  then obtain t where t: "task_row_of s a = Some t" "convert_task_row t = Inr tr" by (auto simp: query_task_Inr)
  obtain outc where "result_outcome s a = Some outc" using assms(2) by blast
  with outcome_of_result [OF assms(1) this t(1)] show ?thesis
    using t tr(2) convert_task_row_fields(2) [OF t(2)] by simp
qed

text \<open>
  A runtime that was finished leaves a terminal task with its result, once. If
  finishing succeeds on a well-formed store, the task is terminal, a result is stored whose
  outcome is the task's, the store is well formed again, and the sink remembers that it is done:
  finishing again, with any other outcome, returns the same phase and changes nothing. A sink
  that failed to write a record refuses to finish at all.
\<close>

theorem finished_runtime_is_terminal:
  assumes "store_ok (sk_store k)" and "\<not> sk_terminal_written (sk_write k)"
    and "finish_general fits env i clock terminal root completion k = (Inr phase, k')"
  shows "phase = Terminal \<and> store_ok (sk_store k')
     \<and> (\<exists>t outc. task_row_of (sk_store k') (sk_agent_id i) = Some t \<and> tk_phase t = Terminal \<and> tk_outcome t = Some outc
            \<and> result_outcome (sk_store k') (sk_agent_id i) = Some outc)
     \<and> finish_general fits' env' i clock' terminal' root' completion' k' = (Inr Terminal, k')
     \<and> sk_first_error (sk_write k) = None"
proof -
  let ?a = "sk_agent_id i"
  obtain w q s1 u s2 s3 where
      1: "append_lifecycle (clock 0) w (sk_store k) = Inr (q, s1)"
    and 2: "persist_general_result fits (sv_store env) (clock 1) (clock 2) ?a root completion s1 = Inr (u, s2)"
    and 3: "(if gc_cleaned completion \<and> terminal_proves_process_group_reaped terminal
             then map_sum id snd (reap_task (clock 3) ?a s2) else Inr s2) = Inr s3"
    and ph: "phase_of_task s3 ?a = Inr phase"
    and k': "k' = k\<lparr>sk_store := s3, sk_write := (sk_write k)\<lparr>sk_terminal_written := True\<rparr>\<rparr>"
    and err: "sk_first_error (sk_write k) = None"
    using assms(2,3) unfolding finish_general_def Let_def
    by (auto split: option.splits sum.splits prod.splits if_splits)
  have ok1: "store_ok s1" by (rule op_keeps_store_ok(1) [OF assms(1) 1])
  obtain t0 r p where st: "store_task_result_with_patch (sv_store env) t0 ?a r p s1 = Inr (u, s2)"
    by (rule persist_is_store [OF 2])
  have ok2: "store_ok s2" "result_outcome s2 ?a \<noteq> None" using result_row_after_publish [OF ok1 st] by simp_all
  have ok3: "store_ok s3 \<and> result_outcome s3 ?a \<noteq> None"
  proof (cases "gc_cleaned completion \<and> terminal_proves_process_group_reaped terminal")
    case False
    then show ?thesis using 3 ok2 by (auto split: if_splits)
  next
    case True
    then obtain outc where reap: "reap_task (clock 3) ?a s2 = Inr (outc, s3)"
      using 3 by (cases "reap_task (clock 3) ?a s2") auto
    then have "task_results s3 = task_results s2"
      by (auto simp: reap_task_def Let_def split: if_splits)
    then show ?thesis using op_keeps_store_ok(4) [OF ok2(1) reap] ok2(2) by (simp add: result_outcome_def)
  qed
  then have t: "phase = Terminal" "\<exists>t. task_row_of s3 ?a = Some t \<and> tk_phase t = Terminal \<and> tk_outcome t = result_outcome s3 ?a"
    using phase_of_terminal [OF _ _ ph] by simp_all
  then show ?thesis
    using ok3 k' err ph by (auto simp: finish_general_def)
qed

definition demo_completion :: general_completion where
  "demo_completion = \<lparr>gc_outcome = CompletionCompleted, gc_reason_code = None, gc_summary = ''done'', gc_checks = [],
     gc_residual_gaps = [], gc_changes_patch = None, gc_cleaned = False\<rparr>"

definition demo_end :: lifecycle_write where
  "demo_end = lifecycle_write_of demo_sink_env demo_sink_id 1 (TerminalEvent (Orphaned SessionLost)) None None"

definition demo_logged_store :: store where
  "demo_logged_store = run_op demo_env 10 (AppendLifecycle demo_end) demo_store"

lemmas logged_defs = demo_logged_store_def demo_end_def demo_sink_env_def demo_sink_id_def lifecycle_write_of_def projected_def
  runtime_loss_redaction_def append_lifecycle_def demo_defs exec_defs

lemma demo_logged: "\<exists>q. append_lifecycle 10 demo_end demo_store = Inr (q, demo_logged_store)"
  by (simp add: logged_defs)

lemma demo_reported:
  "\<exists>s t. store_task_result_with_patch demo_env 11 ''a'' (task_result_of demo_completion) None demo_logged_store = Inr ((), s)
     \<and> get_task s ''a'' = Inr (Some t)"
proof -
  have "task_result_of demo_completion = demo_result Completed ''done''" by code_simp
  then show ?thesis by (simp add: logged_defs result_defs get_task_def)
qed

lemma demo_finished:
  "\<exists>p. fst (finish_general (\<lambda>t r m. True) demo_sink_env demo_sink_id (\<lambda>n. 10 + int n) (Orphaned SessionLost) ''/r'' demo_completion
      (demo_sink\<lparr>sk_store := demo_store\<rparr>)) = Inr p"
proof -
  obtain q where 1: "append_lifecycle 10 demo_end demo_store = Inr (q, demo_logged_store)" using demo_logged by blast
  obtain s t where 2: "store_task_result_with_patch demo_env 11 ''a'' (task_result_of demo_completion) None demo_logged_store = Inr ((), s)"
    and 3: "get_task s ''a'' = Inr (Some t)" using demo_reported by blast
  have "\<exists>t. get_task demo_logged_store ''a'' = Inr (Some t)"
    by (simp add: logged_defs get_task_def)
  then have "persist_general_result (\<lambda>t r m. True) demo_env 11 12 ''a'' ''/r'' demo_completion demo_logged_store = Inr ((), s)"
    using 2 by (auto simp: persist_general_result_def general_result_response_fits_def store_result_with_cancel_precedence_def demo_completion_def)
  moreover have "\<not> gc_cleaned demo_completion" by (simp add: demo_completion_def)
  moreover have "lifecycle_write_of demo_sink_env demo_sink_id (sat_inc u64_max 0) (TerminalEvent (Orphaned SessionLost)) None None = demo_end"
    by (simp add: demo_end_def sat_inc_def u64_max_def)
  ultimately show ?thesis
    using 1 3 by (simp add: finish_general_def demo_sink_def phase_of_task_def demo_sink_id_def demo_sink_env_def)
qed

theorem finished_runtime_is_terminal_witness:
  "\<exists>k'. finish_general (\<lambda>t r m. True) demo_sink_env demo_sink_id (\<lambda>n. 10 + int n) (Orphaned SessionLost) ''/r'' demo_completion
      (demo_sink\<lparr>sk_store := demo_store\<rparr>) = (Inr Terminal, k')
    \<and> finish_general (\<lambda>t r m. False) demo_sink_env demo_sink_id (\<lambda>n. 0) (Orphaned SessionLost) ''/'' demo_completion k' = (Inr Terminal, k')"
proof -
  let ?k = "demo_sink\<lparr>sk_store := demo_store\<rparr>"
  let ?run = "finish_general (\<lambda>t r m. True) demo_sink_env demo_sink_id (\<lambda>n. 10 + int n) (Orphaned SessionLost) ''/r'' demo_completion ?k"
  have ok: "store_ok (sk_store ?k)" unfolding demo_store_def by (simp add: run_ops_ok)
  have new: "\<not> sk_terminal_written (sk_write ?k)" by (simp add: demo_sink_def)
  obtain p where p: "?run = (Inr p, snd ?run)" using demo_finished by (metis prod.collapse)
  show ?thesis
    using p finished_runtime_is_terminal [OF ok new p, of "\<lambda>t r m. False" demo_sink_env "\<lambda>n. 0" "Orphaned SessionLost" "''/''" demo_completion]
    by (intro exI [of _ "snd ?run"]) auto
qed
end
