(* ===== verification/General_Route.thy ===== *)
theory General_Route
  imports Policy_Prepared Store_Model
begin

text \<open>
  What a stored task is bound to: the catalogue of named validation commands an operator
  publishes (\<^verbatim>\<open>GeneralCommandCatalog\<close>) and the contract the daemon adds to a prepared task
  (\<^verbatim>\<open>bind_general_daemon_contract\<close>) and checks again before it runs it (\<^verbatim>\<open>task_route\<close>).

  The derived \<^verbatim>\<open>Serialize\<close> and \<^verbatim>\<open>Deserialize\<close> of \<^verbatim>\<open>PreparedGeneralTask\<close> are the fields of \<open>prepared_serde\<close>. Those
  of the contract, which refuses unknown members, are written out.
\<close>

section \<open>The command catalogue\<close>

definition GENERAL_COMMAND_CATALOG_SCHEMA :: string where
  "GENERAL_COMMAND_CATALOG_SCHEMA = ''zcode-general-command-catalog/v1''"

definition MAX_GENERAL_CHECK_OUTPUT_BYTES :: nat where "MAX_GENERAL_CHECK_OUTPUT_BYTES = 8 * 1024"

definition MAX_VALIDATION_COMMAND_TIMEOUT_MS :: nat where "MAX_VALIDATION_COMMAND_TIMEOUT_MS = 3600000"

record validation_command =
  vc_program :: string
  vc_args :: "string list"
  vc_cwd :: string
  vc_timeout_ms :: nat
  vc_max_output_bytes :: nat

record named_command =
  nc_command :: validation_command
  nc_readonly_safe :: bool

record catalog_entry =
  ce_repository :: string
  ce_command_id :: string
  ce_command :: validation_command
  ce_allowed_access_modes :: "access_mode list"
  ce_readonly_safe :: bool

record published_command =
  pb_command :: named_command
  pb_allowed_access_modes :: "access_mode list"

text \<open>The map from repository and command id; a repository is keyed by its path components, as \<^verbatim>\<open>PathBuf\<close> compares.\<close>

type_synonym catalog = "((component list \<times> string) \<times> published_command) list"

definition is_alphanumeric :: "char \<Rightarrow> bool" where
  "is_alphanumeric c \<longleftrightarrow> (CHR ''0'' \<le> c \<and> c \<le> CHR ''9'') \<or> (CHR ''a'' \<le> c \<and> c \<le> CHR ''z'') \<or> (CHR ''A'' \<le> c \<and> c \<le> CHR ''Z'')"

definition valid_general_command_id :: "string \<Rightarrow> bool" where
  "valid_general_command_id v \<longleftrightarrow> v \<noteq> [] \<and> length v \<le> 256
     \<and> list_all (\<lambda>c. is_alphanumeric c \<or> c \<in> {CHR ''-'', CHR ''_'', CHR ''.'', CHR '':''}) v"

definition canonical_general_repository :: "file_system \<Rightarrow> string \<Rightarrow> preparation_error + string" where
  "canonical_general_repository fs path =
     (if \<not> is_absolute path then Inl (InvalidPath path ''repository must be absolute'')
      else rbind (canonical_or_io fs path) (\<lambda>p.
        if \<not> fs_is_dir fs p then Inl (InvalidPath p ''workspace is not a directory'') else Inr p))"

definition confined_relative :: "string \<Rightarrow> preparation_error + string" where
  "confined_relative path =
     (if path = [] \<or> is_absolute path \<or> list_ex (\<lambda>c. c = ParentDir \<or> c = RootDir) (components path)
      then Inl (InvalidPath path ''path must be canonical repository-relative'')
      else Inr (render (components path)))"

definition validate_general_named_command ::
    "file_system \<Rightarrow> (string \<Rightarrow> bool) \<Rightarrow> (string \<Rightarrow> string) \<Rightarrow> string \<Rightarrow> string \<Rightarrow> named_command \<Rightarrow> preparation_error + unit" where
  "validate_general_named_command fs create_dir_all io_message repository scratch_root named =
     rbind (confined_relative (vc_cwd (nc_command named))) (\<lambda>relative_cwd.
     rbind (prepare_command fs create_dir_all io_message (vc_program (nc_command named)) (vc_args (nc_command named))
              (path_join repository relative_cwd) repository scratch_root
              (vc_timeout_ms (nc_command named), vc_max_output_bytes (nc_command named), False)) (\<lambda>_. Inr ()))"

text \<open>
  \<^verbatim>\<open>load\<close> from the parsed file on. \<open>scratch\<close> is the temporary directory made for each entry, or
  \<open>None\<close> where it could not be made; \<open>show\<close> is the text of a preparation error.
\<close>

record catalog_io =
  cg_fs :: file_system
  cg_create_dir_all :: "string \<Rightarrow> bool"
  cg_io_message :: "string \<Rightarrow> string"
  cg_scratch :: "catalog_entry \<Rightarrow> string + string"
  cg_show :: "preparation_error \<Rightarrow> string"

definition check_entry :: "catalog_io \<Rightarrow> catalog_entry \<Rightarrow> string + (component list \<times> string) \<times> published_command" where
  "check_entry io entry =
     rbind (map_sum (cg_show io) id (canonical_general_repository (cg_fs io) (ce_repository entry))) (\<lambda>canonical.
     if \<not> path_eq canonical (ce_repository entry) then Inl ''command catalog repository must already be canonical''
     else if \<not> valid_general_command_id (ce_command_id entry) then Inl ''command catalog contains an invalid command id''
     else if ce_allowed_access_modes entry = [] \<or> \<not> distinct (ce_allowed_access_modes entry)
     then Inl ''command catalog access_modes must be non-empty and unique''
     else if ce_readonly_safe entry \<and> ReadOnly \<notin> set (ce_allowed_access_modes entry)
     then Inl ''readonly-safe command must be published for read_only''
     else if vc_timeout_ms (ce_command entry) > MAX_VALIDATION_COMMAND_TIMEOUT_MS
     then Inl ''named check timeout exceeds 3600000 ms''
     else if vc_max_output_bytes (ce_command entry) > MAX_GENERAL_CHECK_OUTPUT_BYTES
     then Inl ''named check output cap exceeds 8192 bytes''
     else
       (let command = \<lparr>nc_command = ce_command entry, nc_readonly_safe = ce_readonly_safe entry\<rparr> in
        rbind (map_sum (\<lambda>e. ''command catalog validation scratch is unavailable: '' @ e) id (cg_scratch io entry)) (\<lambda>scratch.
        rbind (map_sum (cg_show io) id (validate_general_named_command (cg_fs io) (cg_create_dir_all io) (cg_io_message io)
                 canonical scratch command)) (\<lambda>_.
          Inr ((components canonical, ce_command_id entry),
               \<lparr>pb_command = command, pb_allowed_access_modes = ce_allowed_access_modes entry\<rparr>)))))"

fun load_entries :: "catalog_io \<Rightarrow> catalog_entry list \<Rightarrow> catalog \<Rightarrow> string + catalog" where
  "load_entries io [] commands = Inr commands"
| "load_entries io (entry # rest) commands =
     rbind (check_entry io entry) (\<lambda>(key, published).
       if map_of commands key \<noteq> None then Inl ''command catalog contains a duplicate repository and command id''
       else load_entries io rest ((key, published) # commands))"

definition catalog_load :: "catalog_io \<Rightarrow> string \<Rightarrow> catalog_entry list \<Rightarrow> string + catalog" where
  "catalog_load io schema entries =
     (if schema \<noteq> GENERAL_COMMAND_CATALOG_SCHEMA then Inl ''command catalog schema is unsupported''
      else load_entries io entries [])"

fun resolve_ids ::
    "catalog \<Rightarrow> component list \<Rightarrow> access_mode \<Rightarrow> string list \<Rightarrow> string list \<Rightarrow> string + (string \<times> named_command) list" where
  "resolve_ids cat repository mode seen [] = Inr []"
| "resolve_ids cat repository mode seen (command_id # rest) =
     (if \<not> valid_general_command_id command_id \<or> command_id \<in> set seen
      then Inl ''general command ids must be valid and unique''
      else case map_of cat (repository, command_id) of
             None \<Rightarrow> Inl (''general command '' @ command_id @ '' is not published for this repository'')
           | Some published \<Rightarrow>
               if mode \<notin> set (pb_allowed_access_modes published)
                  \<or> (mode = ReadOnly \<and> \<not> nc_readonly_safe (pb_command published))
               then Inl (''general command '' @ command_id @ '' is unavailable for this access_mode'')
               else rbind (resolve_ids cat repository mode (command_id # seen) rest) (\<lambda>resolved.
                      Inr ((command_id, pb_command published) # resolved)))"

definition resolve_commands ::
    "catalog_io \<Rightarrow> catalog \<Rightarrow> string \<Rightarrow> access_mode \<Rightarrow> string list \<Rightarrow> string + (string \<times> named_command) list" where
  "resolve_commands io cat repository mode command_ids =
     (if command_ids = [] then Inr []
      else rbind (map_sum (cg_show io) id (canonical_general_repository (cg_fs io) repository)) (\<lambda>canonical.
             resolve_ids cat (components canonical) mode [] command_ids))"

section \<open>The daemon's contract\<close>

definition GENERAL_TASK_SCHEMA :: string where "GENERAL_TASK_SCHEMA = ''zcode-general-task/v1''"

definition GENERAL_DAEMON_CONTRACT_SCHEMA :: string where
  "GENERAL_DAEMON_CONTRACT_SCHEMA = ''zcode-general-daemon-contract/v1''"

record prepared_worktree =
  pw_repository :: string
  pw_path :: string
  pw_scratch_worktrees_root :: string
  pw_diagnostic_root :: string
  pw_head_sha :: string
  pw_source_refs_before :: string
  pw_source_refs_before_sha256 :: string
  pw_source_refs_before_truncated :: bool
  pw_source_status_before :: string
  pw_source_status_before_sha256 :: string
  pw_source_status_before_truncated :: bool

record prepared_attachment =
  pa_logical_name :: string
  pa_prepared_path :: string
  pa_sha256 :: string
  pa_size_bytes :: nat

record prepared_context =
  px_repository_relative :: string
  px_sha256 :: string
  px_size_bytes :: nat

text \<open>The two members of \<^verbatim>\<open>workspace\<close> are \<open>pg_workspace_path\<close> and \<open>pg_workspace_scratch_root\<close>.\<close>

record prepared_task =
  pg_schema :: string
  pg_agent_id :: string
  pg_repository :: string
  pg_workspace_path :: string
  pg_workspace_scratch_root :: string
  pg_base_sha :: string
  pg_access_mode :: access_mode
  pg_prompt_path :: string
  pg_prompt_sha256 :: string
  pg_context :: "prepared_context list"
  pg_attachments :: "prepared_attachment list"
  pg_write_manifest :: "string list"
  pg_direct_workspace :: bool
  pg_direct_read_only_snapshot_sha256 :: "string option"
  pg_worktree :: prepared_worktree
  pg_scratch_root :: string
  pg_artifact_root :: string
  pg_effective_budget :: effective_budget
  pg_validation_commands :: "(string \<times> prepared_command) list"
  pg_retain_partial :: bool
  pg_idempotency_key :: string
  pg_manifest_sha256 :: string
  pg_prepared_sha256 :: string

record daemon_contract =
  dc_schema :: string
  dc_original_manifest_sha256 :: string
  dc_prepared_sha256 :: string
  dc_required_command_ids :: "string list"

record prepared_serde =
  ps_encode :: "prepared_task \<Rightarrow> json"
  ps_decode :: "json \<Rightarrow> prepared_task option"

fun json_strings :: "json list \<Rightarrow> string list option" where
  "json_strings [] = Some []"
| "json_strings (v # vs) = Option.bind (json_as_str v) (\<lambda>s. map_option (\<lambda>ss. s # ss) (json_strings vs))"

definition contract_json :: "daemon_contract \<Rightarrow> json" where
  "contract_json c = JObject [(''schema'', JString (dc_schema c)),
     (''original_manifest_sha256'', JString (dc_original_manifest_sha256 c)),
     (''prepared_sha256'', JString (dc_prepared_sha256 c)),
     (''required_command_ids'', JArray (map JString (dc_required_command_ids c)))]"

definition read_contract :: "json \<Rightarrow> daemon_contract option" where
  "read_contract v =
     Option.bind (json_as_object v) (\<lambda>ms.
       if \<not> set (map fst ms) \<subseteq> {''schema'', ''original_manifest_sha256'', ''prepared_sha256'', ''required_command_ids''} then None
       else Option.bind (json_get_str ''schema'' v) (\<lambda>schema.
            Option.bind (json_get_str ''original_manifest_sha256'' v) (\<lambda>original.
            Option.bind (json_get_str ''prepared_sha256'' v) (\<lambda>prepared.
            Option.bind (Option.bind (json_get ''required_command_ids'' v) json_as_array) (\<lambda>ids.
            map_option (\<lambda>required. \<lparr>dc_schema = schema, dc_original_manifest_sha256 = original,
                dc_prepared_sha256 = prepared, dc_required_command_ids = required\<rparr>) (json_strings ids))))))"

definition daemon_contract_digest :: "store_env \<Rightarrow> daemon_contract \<Rightarrow> string" where
  "daemon_contract_digest env c =
     env_sha256 env (env_to_json env (JArray [JString (dc_schema c), JString (dc_original_manifest_sha256 c),
       JArray (map JString (dc_required_command_ids c))]))"

definition prepared_digest :: "store_env \<Rightarrow> prepared_serde \<Rightarrow> prepared_task \<Rightarrow> string" where
  "prepared_digest env ps p = env_sha256 env (env_to_json env (ps_encode ps (p\<lparr>pg_prepared_sha256 := []\<rparr>)))"

definition validate_digest :: "store_env \<Rightarrow> prepared_serde \<Rightarrow> prepared_task \<Rightarrow> bool" where
  "validate_digest env ps p \<longleftrightarrow> prepared_digest env ps p = pg_prepared_sha256 p"

text \<open>The prepared task with its new digests, and the value that is printed and stored.\<close>

definition bound_task ::
    "store_env \<Rightarrow> prepared_serde \<Rightarrow> string list \<Rightarrow> prepared_task \<Rightarrow> string + prepared_task \<times> json" where
  "bound_task env ps required p =
     (let ids = remdups_adj (sort required) in
      if list_ex (\<lambda>i. map_of (pg_validation_commands p) i = None) ids
      then Inl ''required command is not selected by the prepared task''
      else
        (let c = \<lparr>dc_schema = GENERAL_DAEMON_CONTRACT_SCHEMA, dc_original_manifest_sha256 = pg_manifest_sha256 p,
                  dc_prepared_sha256 = [], dc_required_command_ids = ids\<rparr>;
             p1 = p\<lparr>pg_manifest_sha256 := daemon_contract_digest env c\<rparr>;
             p2 = p1\<lparr>pg_prepared_sha256 := prepared_digest env ps p1\<rparr>
         in rbind (ok_or ''prepared general task must be an object'' (json_as_object (ps_encode ps p2))) (\<lambda>ms.
              Inr (p2, JObject (obj_insert ''daemon_contract''
                         (contract_json (c\<lparr>dc_prepared_sha256 := pg_prepared_sha256 p2\<rparr>)) ms)))))"

definition bind_general_daemon_contract ::
    "store_env \<Rightarrow> prepared_serde \<Rightarrow> string list \<Rightarrow> prepared_task \<Rightarrow> string + prepared_task \<times> string" where
  "bind_general_daemon_contract env ps required p =
     map_sum id (\<lambda>(p2, v). (p2, env_to_json env v)) (bound_task env ps required p)"

record task_route =
  ro_prepared :: prepared_task
  ro_required :: "string list"

definition strictly_sorted :: "string list \<Rightarrow> bool" where
  "strictly_sorted ids \<longleftrightarrow> sorted_wrt (<) ids"

definition contract_route :: "store_env \<Rightarrow> prepared_task \<Rightarrow> json \<Rightarrow> string + string list" where
  "contract_route env prepared v =
     rbind (ok_or ''stored general daemon contract is invalid'' (read_contract v)) (\<lambda>c.
       if dc_schema c \<noteq> GENERAL_DAEMON_CONTRACT_SCHEMA \<or> dc_prepared_sha256 c \<noteq> pg_prepared_sha256 prepared
          \<or> \<not> strictly_sorted (dc_required_command_ids c)
          \<or> list_ex (\<lambda>i. map_of (pg_validation_commands prepared) i = None) (dc_required_command_ids c)
       then Inl ''stored general daemon contract is invalid''
       else if pg_manifest_sha256 prepared \<noteq> daemon_contract_digest env c
       then Inl ''stored general daemon contract digest is invalid''
       else Inr (dc_required_command_ids c))"

definition task_route_of :: "store_env \<Rightarrow> prepared_serde \<Rightarrow> string \<Rightarrow> string \<Rightarrow> string \<Rightarrow> string + task_route" where
  "task_route_of env ps launch_json launch_sha256 workspace_path =
     rbind (ok_or ''stored prepared launch is invalid'' (env_parse env launch_json)) (\<lambda>v.
     case json_get_str ''schema'' v of
       None \<Rightarrow> Inl ''stored prepared launch omitted task schema''
     | Some schema \<Rightarrow>
         if schema \<noteq> GENERAL_TASK_SCHEMA then Inl ''stored prepared launch uses an unknown task schema''
         else
           rbind (ok_or ''stored general preparation is invalid'' (ps_decode ps v)) (\<lambda>prepared.
           if \<not> validate_digest env ps prepared then Inl ''stored general preparation digest is invalid''
           else
             rbind (case json_get ''daemon_contract'' v of
                      Some c \<Rightarrow> contract_route env prepared c
                    | None \<Rightarrow> Inr []) (\<lambda>required.
             if launch_sha256 \<noteq> pg_prepared_sha256 prepared \<or> workspace_path \<noteq> pg_workspace_path prepared
             then Inl ''stored task does not match its general preparation''
             else Inr \<lparr>ro_prepared = prepared, ro_required = required\<rparr>)))"

definition task_route :: "store_env \<Rightarrow> prepared_serde \<Rightarrow> task_record \<Rightarrow> string + task_route" where
  "task_route env ps task =
     task_route_of env ps (tr_prepared_launch_json task) (tr_prepared_launch_sha256 task) (tr_workspace_path task)"

end
