(* ===== verification/General_Props.thy ===== *)
theory General_Props
  imports General_Route
begin

text \<open>
  The catalogue only hands out commands as they were published, and a stored task only runs under
  the contract it was bound to.
\<close>

section \<open>Published commands\<close>

text \<open>What \<^verbatim>\<open>load\<close> has checked of an entry.\<close>

definition entry_ok :: "catalog_io \<Rightarrow> catalog_entry \<Rightarrow> bool" where
  "entry_ok io e \<longleftrightarrow> valid_general_command_id (ce_command_id e) \<and> distinct (ce_allowed_access_modes e)
     \<and> (ce_readonly_safe e \<longrightarrow> ReadOnly \<in> set (ce_allowed_access_modes e))
     \<and> vc_timeout_ms (ce_command e) \<le> 3600000 \<and> vc_max_output_bytes (ce_command e) \<le> 8192
     \<and> (\<exists>canonical scratch. canonical_general_repository (cg_fs io) (ce_repository e) = Inr canonical
          \<and> path_eq canonical (ce_repository e)
          \<and> validate_general_named_command (cg_fs io) (cg_create_dir_all io) (cg_io_message io) canonical scratch
              \<lparr>nc_command = ce_command e, nc_readonly_safe = ce_readonly_safe e\<rparr> = Inr ())"

definition publishes :: "catalog_entry \<Rightarrow> (component list \<times> string) \<times> published_command \<Rightarrow> bool" where
  "publishes e kp \<longleftrightarrow> kp = ((components (ce_repository e), ce_command_id e),
     \<lparr>pb_command = \<lparr>nc_command = ce_command e, nc_readonly_safe = ce_readonly_safe e\<rparr>,
      pb_allowed_access_modes = ce_allowed_access_modes e\<rparr>)"

lemma map_sum_Inr: "map_sum f id r = Inr x \<longleftrightarrow> r = Inr x"
  by (cases r) auto

lemma check_entry_ok:
  assumes "check_entry io e = Inr kp"
  shows "entry_ok io e \<and> publishes e kp"
  using assms
  by (auto simp: check_entry_def entry_ok_def publishes_def rbind_Inr map_sum_Inr path_eq_def Let_def
      MAX_VALIDATION_COMMAND_TIMEOUT_MS_def MAX_GENERAL_CHECK_OUTPUT_BYTES_def split: if_splits)

lemma load_entries_published:
  assumes "load_entries io entries commands = Inr cat"
    and "\<And>kp. kp \<in> set commands \<Longrightarrow> \<exists>e\<in>known. entry_ok io e \<and> publishes e kp"
  shows "kp \<in> set cat \<Longrightarrow> \<exists>e\<in>known \<union> set entries. entry_ok io e \<and> publishes e kp"
  using assms
proof (induction io entries commands arbitrary: known rule: load_entries.induct)
  case (1 io commands)
  then show ?case by simp
next
  case (2 io entry rest commands)
  obtain key published where c: "check_entry io entry = Inr (key, published)"
    and l: "load_entries io rest ((key, published) # commands) = Inr cat" and new: "\<not> map_of commands key \<noteq> None"
    using 2(3) by (auto simp: rbind_Inr split: if_splits)
  have "\<exists>e\<in>insert entry known. entry_ok io e \<and> publishes e kp'" if "kp' \<in> set ((key, published) # commands)" for kp'
    using that check_entry_ok [OF c] 2(4) [of kp'] unfolding set_simps by (metis insert_iff)
  from 2(1) [OF new 2(2) l this] show ?case by simp
qed

lemma resolve_ids_published:
  assumes "resolve_ids cat repository mode seen ids = Inr cmds"
  shows "map fst cmds = ids \<and> distinct ids \<and> set ids \<inter> set seen = {}
     \<and> (\<forall>i c. (i, c) \<in> set cmds \<longrightarrow> (\<exists>published. ((repository, i), published) \<in> set cat \<and> pb_command published = c
          \<and> mode \<in> set (pb_allowed_access_modes published) \<and> (mode = ReadOnly \<longrightarrow> nc_readonly_safe c)))"
  using assms
proof (induction cat repository mode seen ids arbitrary: cmds rule: resolve_ids.induct)
  case (2 cat repository mode seen command_id rest)
  obtain published cmds' where p: "map_of cat (repository, command_id) = Some published"
    and ok: "mode \<in> set (pb_allowed_access_modes published)" "mode = ReadOnly \<longrightarrow> nc_readonly_safe (pb_command published)"
    and r: "resolve_ids cat repository mode (command_id # seen) rest = Inr cmds'"
    and c: "cmds = (command_id, pb_command published) # cmds'" and fresh: "command_id \<notin> set seen"
    and valid: "valid_general_command_id command_id"
    using 2(2) by (auto simp: rbind_Inr split: if_splits option.splits)
  have "map fst cmds' = rest \<and> distinct rest \<and> set rest \<inter> set (command_id # seen) = {}
     \<and> (\<forall>i c. (i, c) \<in> set cmds' \<longrightarrow> (\<exists>published. ((repository, i), published) \<in> set cat \<and> pb_command published = c
          \<and> mode \<in> set (pb_allowed_access_modes published) \<and> (mode = ReadOnly \<longrightarrow> nc_readonly_safe c)))"
    using 2(1) [OF _ p _ r] fresh valid ok by auto
  then show ?case
    using c ok fresh map_of_SomeD [OF p] by auto
qed simp

text \<open>
  A task only gets commands the operator published for it. When the catalogue was
  loaded from a list of entries and a request was resolved against it, exactly the requested ids
  are returned, without repetition, and each command is that of an entry for the same repository
  which allows the task's access mode, is marked safe if the task is read-only, lies within the
  time and output limits, and passed the validation of commands in that repository.
\<close>

theorem resolved_commands_are_published:
  assumes "catalog_load io schema entries = Inr cat" and "resolve_commands io cat repository mode ids = Inr cmds"
  shows "map fst cmds = ids \<and> distinct ids
    \<and> (\<forall>(i, c)\<in>set cmds. \<exists>e\<in>set entries. \<exists>canonical.
         canonical_general_repository (cg_fs io) repository = Inr canonical \<and> path_eq (ce_repository e) canonical
         \<and> ce_command_id e = i \<and> nc_command c = ce_command e \<and> mode \<in> set (ce_allowed_access_modes e)
         \<and> (mode = ReadOnly \<longrightarrow> ce_readonly_safe e) \<and> entry_ok io e)"
proof (cases "ids = []")
  case True
  then show ?thesis using assms(2) by (simp add: resolve_commands_def)
next
  case False
  then obtain canonical where can: "canonical_general_repository (cg_fs io) repository = Inr canonical"
    and r: "resolve_ids cat (components canonical) mode [] ids = Inr cmds"
    using assms(2) by (auto simp: resolve_commands_def rbind_Inr map_sum_Inr)
  have l: "load_entries io entries [] = Inr cat"
    using assms(1) by (auto simp: catalog_load_def split: if_splits)
  have "\<exists>e\<in>set entries. \<exists>canonical.
         canonical_general_repository (cg_fs io) repository = Inr canonical \<and> path_eq (ce_repository e) canonical
         \<and> ce_command_id e = i \<and> nc_command c = ce_command e \<and> mode \<in> set (ce_allowed_access_modes e)
         \<and> (mode = ReadOnly \<longrightarrow> ce_readonly_safe e) \<and> entry_ok io e" if ic: "(i, c) \<in> set cmds" for i c
  proof -
    obtain published where pub: "((components canonical, i), published) \<in> set cat" "pb_command published = c"
      and m: "mode \<in> set (pb_allowed_access_modes published)" "mode = ReadOnly \<longrightarrow> nc_readonly_safe c"
      using resolve_ids_published [OF r, THEN conjunct2, THEN conjunct2, THEN conjunct2, rule_format, OF ic] by auto
    have "\<exists>e\<in>{} \<union> set entries. entry_ok io e \<and> publishes e ((components canonical, i), published)"
      by (rule load_entries_published [OF l _ pub(1)]) simp
    then obtain e where e: "e \<in> set entries" "entry_ok io e" "publishes e ((components canonical, i), published)"
      by blast
    show ?thesis
      by (rule bexI [of _ e], rule exI [of _ canonical]) (use can pub(2) m e in \<open>auto simp: publishes_def path_eq_def\<close>)
  qed
  then show ?thesis using resolve_ids_published [OF r] by (simp add: case_prod_beta)
qed

definition demo_entry :: catalog_entry where
  "demo_entry = \<lparr>ce_repository = ''/r'', ce_command_id = ''unit'',
     ce_command = \<lparr>vc_program = ''/bin/true'', vc_args = [], vc_cwd = ''sub'', vc_timeout_ms = 1000, vc_max_output_bytes = 64\<rparr>,
     ce_allowed_access_modes = [ReadOnly], ce_readonly_safe = True\<rparr>"

definition demo_catalog_io :: catalog_io where
  "demo_catalog_io = \<lparr>cg_fs = \<lparr>fs_canonicalize = Some, fs_symlink_metadata = (\<lambda>p. EntryNotFound), fs_is_dir = (\<lambda>p. True),
     fs_is_file = (\<lambda>p. True)\<rparr>, cg_create_dir_all = (\<lambda>p. True), cg_io_message = id, cg_scratch = (\<lambda>e. Inr ''/tmp/x''),
     cg_show = (\<lambda>e. [])\<rparr>"

theorem resolved_commands_are_published_witness:
  "\<exists>cat cmds. catalog_load demo_catalog_io GENERAL_COMMAND_CATALOG_SCHEMA [demo_entry] = Inr cat
     \<and> resolve_commands demo_catalog_io cat ''/r'' ReadOnly [''unit''] = Inr cmds
     \<and> map fst cmds = [''unit'']"
proof -
  let ?load = "catalog_load demo_catalog_io GENERAL_COMMAND_CATALOG_SCHEMA [demo_entry]"
  let ?run = "rbind ?load (\<lambda>cat. resolve_commands demo_catalog_io cat ''/r'' ReadOnly [''unit''])"
  have "\<not> isl ?run"
    by (simp add: catalog_load_def demo_entry_def demo_catalog_io_def check_entry_def canonical_general_repository_def
        canonical_or_io_def ok_or_def valid_general_command_id_def is_alphanumeric_def confined_relative_def
        validate_general_named_command_def resolve_commands_def MAX_VALIDATION_COMMAND_TIMEOUT_MS_def
        MAX_GENERAL_CHECK_OUTPUT_BYTES_def prepare_command_def validate_program_and_args_def check_argument_def program_name_def
        network_clients_def shell_interpreters_def is_credential_path_def credential_component_def credential_names_def
        has_nul_def to_ascii_lowercase_def ascii_lower_char_def ends_with_def path_eval)
  then obtain cmds where "?run = Inr cmds" by (cases ?run) auto
  then obtain cat where run: "?load = Inr cat" "resolve_commands demo_catalog_io cat ''/r'' ReadOnly [''unit''] = Inr cmds"
    by (auto simp: rbind_Inr)
  have "map fst cmds = [''unit'']" using resolved_commands_are_published [OF run] by (rule conjunct1)
  with run show ?thesis by (intro exI [of _ cat] exI [of _ cmds] conjI)
qed

section \<open>The daemon's contract\<close>

lemma json_strings_map: "json_strings (map JString ss) = Some ss"
  by (induction ss) auto

lemma read_contract_json: "read_contract (contract_json c) = Some c"
  by (simp add: read_contract_def contract_json_def json_get_str_def json_strings_map)

lemma remdups_adj_strict: "sorted xs \<Longrightarrow> sorted_wrt (<) (remdups_adj (xs :: 'a :: linorder list))"
  by (induction xs rule: remdups_adj.induct) (auto simp: less_le)

lemma strictly_sorted_ids: "strictly_sorted (remdups_adj (sort ids))" "set (remdups_adj (sort ids)) = set ids"
  by (simp_all add: strictly_sorted_def remdups_adj_strict)

lemma bound_taskE:
  assumes "bound_task env ps required p = Inr (p2, v)"
  obtains ms c where "ps_encode ps p2 = JObject ms"
    and "\<not> list_ex (\<lambda>i. map_of (pg_validation_commands p) i = None) (remdups_adj (sort required))"
    and "c = \<lparr>dc_schema = GENERAL_DAEMON_CONTRACT_SCHEMA, dc_original_manifest_sha256 = pg_manifest_sha256 p,
       dc_prepared_sha256 = [], dc_required_command_ids = remdups_adj (sort required)\<rparr>"
    and "v = JObject (obj_insert ''daemon_contract'' (contract_json (c\<lparr>dc_prepared_sha256 := pg_prepared_sha256 p2\<rparr>)) ms)"
    and "p2 = p\<lparr>pg_manifest_sha256 := daemon_contract_digest env c,
       pg_prepared_sha256 := prepared_digest env ps (p\<lparr>pg_manifest_sha256 := daemon_contract_digest env c\<rparr>)\<rparr>"
proof -
  define c where "c = \<lparr>dc_schema = GENERAL_DAEMON_CONTRACT_SCHEMA, dc_original_manifest_sha256 = pg_manifest_sha256 p,
       dc_prepared_sha256 = [], dc_required_command_ids = remdups_adj (sort required)\<rparr>"
  have some: "\<not> list_ex (\<lambda>i. map_of (pg_validation_commands p) i = None) (remdups_adj (sort required))"
    using assms by (simp add: bound_task_def Let_def split: if_splits)
  let ?p2 = "p\<lparr>pg_manifest_sha256 := daemon_contract_digest env c,
       pg_prepared_sha256 := prepared_digest env ps (p\<lparr>pg_manifest_sha256 := daemon_contract_digest env c\<rparr>)\<rparr>"
  have "rbind (ok_or ''prepared general task must be an object'' (json_as_object (ps_encode ps ?p2)))
      (\<lambda>ms. Inr (?p2, JObject (obj_insert ''daemon_contract''
         (contract_json (c\<lparr>dc_prepared_sha256 := pg_prepared_sha256 ?p2\<rparr>)) ms))) = Inr (p2, v)"
    using assms unfolding bound_task_def Let_def if_not_P [OF some] c_def .
  then obtain ms where ms: "json_as_object (ps_encode ps ?p2) = Some ms" and p2: "p2 = ?p2"
    and v: "v = JObject (obj_insert ''daemon_contract'' (contract_json (c\<lparr>dc_prepared_sha256 := pg_prepared_sha256 ?p2\<rparr>)) ms)"
    by (auto simp only: rbind_Inr ok_or_def split: option.splits)
  from ms have "ps_encode ps p2 = JObject ms" unfolding p2 by (cases "ps_encode ps ?p2") simp_all
  from that [OF this some c_def _ p2] v p2 show ?thesis by metis
qed

text \<open>
  C13 (roundtrip): what the daemon stores for a task is what it runs. If the contract was bound to
  a prepared task with some required commands, then the route found later in the stored text is
  that prepared task with exactly the required commands, sorted and without repetition, all of
  them prepared; the workspace and the recorded digest are its own. (The hypotheses say what
  \<^verbatim>\<open>serde_json\<close> and the derived traits guarantee for this value: reading undoes printing, an unknown
  member is ignored, and the schema is a member of the encoded task.)
\<close>

theorem bound_task_is_routed:
  assumes bound: "bound_task env ps required p = Inr (p2, v)" and "pg_schema p = GENERAL_TASK_SCHEMA"
    and parse: "env_parse env (env_to_json env v) = Some v" and decode: "ps_decode ps v = Some p2"
    and schema: "json_get_str ''schema'' (ps_encode ps p2) = Some (pg_schema p2)"
  shows "\<exists>text. bind_general_daemon_contract env ps required p = Inr (p2, text)
    \<and> task_route_of env ps text (pg_prepared_sha256 p2) (pg_workspace_path p)
        = Inr \<lparr>ro_prepared = p2, ro_required = remdups_adj (sort required)\<rparr>
    \<and> set (remdups_adj (sort required)) = set required \<and> strictly_sorted (remdups_adj (sort required))
    \<and> list_all (\<lambda>i. map_of (pg_validation_commands p) i \<noteq> None) required"
proof -
  let ?ids = "remdups_adj (sort required)"
  obtain ms c where ms: "ps_encode ps p2 = JObject ms"
    and sel: "\<not> list_ex (\<lambda>i. map_of (pg_validation_commands p) i = None) ?ids"
    and c: "c = \<lparr>dc_schema = GENERAL_DAEMON_CONTRACT_SCHEMA, dc_original_manifest_sha256 = pg_manifest_sha256 p,
       dc_prepared_sha256 = [], dc_required_command_ids = ?ids\<rparr>"
    and v: "v = JObject (obj_insert ''daemon_contract'' (contract_json (c\<lparr>dc_prepared_sha256 := pg_prepared_sha256 p2\<rparr>)) ms)"
    and p2: "p2 = p\<lparr>pg_manifest_sha256 := daemon_contract_digest env c,
       pg_prepared_sha256 := prepared_digest env ps (p\<lparr>pg_manifest_sha256 := daemon_contract_digest env c\<rparr>)\<rparr>"
    using bound by (rule bound_taskE)
  let ?c2 = "c\<lparr>dc_prepared_sha256 := pg_prepared_sha256 p2\<rparr>"
  have "json_get_str ''schema'' v = Some GENERAL_TASK_SCHEMA"
    using schema ms p2 assms(2) v by (simp add: json_get_str_def map_of_obj_insert)
  moreover have "validate_digest env ps p2" by (simp add: validate_digest_def prepared_digest_def p2)
  moreover have "contract_route env p2 (contract_json ?c2) = Inr ?ids"
    using sel strictly_sorted_ids(1) [of required]
    by (simp add: contract_route_def read_contract_json p2 c daemon_contract_digest_def ok_or_def)
  moreover have "json_get ''daemon_contract'' v = Some (contract_json ?c2)" by (simp add: v map_of_obj_insert)
  ultimately have "task_route_of env ps (env_to_json env v) (pg_prepared_sha256 p2) (pg_workspace_path p)
      = Inr \<lparr>ro_prepared = p2, ro_required = ?ids\<rparr>"
    using decode parse by (simp add: task_route_of_def ok_or_def p2)
  then show ?thesis
    using sel strictly_sorted_ids [of required] bound
    by (simp add: bind_general_daemon_contract_def list_all_iff list_ex_iff)
qed

definition demo_worktree :: prepared_worktree where
  "demo_worktree = \<lparr>pw_repository = ''/w'', pw_path = ''/w'', pw_scratch_worktrees_root = ''/s/scratch/t/worktrees'',
     pw_diagnostic_root = ''/s/scratch/t/diagnostics'', pw_head_sha = [], pw_source_refs_before = [], pw_source_refs_before_sha256 = [],
     pw_source_refs_before_truncated = False, pw_source_status_before = [], pw_source_status_before_sha256 = [],
     pw_source_status_before_truncated = False\<rparr>"

definition demo_prepared :: prepared_task where
  "demo_prepared = \<lparr>pg_schema = GENERAL_TASK_SCHEMA, pg_agent_id = ''a'', pg_repository = ''/w'', pg_workspace_path = ''/w'',
     pg_workspace_scratch_root = ''/s/scratch/t'', pg_base_sha = [], pg_access_mode = WorkspaceWrite, pg_prompt_path = ''/p'',
     pg_prompt_sha256 = ''h'', pg_context = [], pg_attachments = [], pg_write_manifest = [''.''], pg_direct_workspace = True,
     pg_direct_read_only_snapshot_sha256 = None, pg_worktree = demo_worktree, pg_scratch_root = ''/s/scratch/t'',
     pg_artifact_root = ''/a'', pg_effective_budget = DEFAULT_BUDGET,
     pg_validation_commands = [(''unit'', \<lparr>pc_program = ''/bin/true'', pc_args = [], pc_cwd = ''/w'',
       pc_timeout_ms = 1, pc_max_output_bytes = 1, pc_environment = [], pc_readonly_safe = False\<rparr>)],
     pg_retain_partial = False, pg_idempotency_key = ''k'', pg_manifest_sha256 = ''m'', pg_prepared_sha256 = []\<rparr>"

text \<open>An encoding that keeps only the schema, and an environment that can read back one value.\<close>

definition demo_serde :: "prepared_task \<Rightarrow> prepared_serde" where
  "demo_serde p = \<lparr>ps_encode = (\<lambda>q. JObject [(''schema'', JString (pg_schema q))]), ps_decode = (\<lambda>v. Some p)\<rparr>"

definition demo_reader :: "json \<Rightarrow> store_env" where
  "demo_reader v = \<lparr>env_sha256 = (\<lambda>t. ''d''), env_to_json = (\<lambda>w. ''t''), env_parse = (\<lambda>t. Some v)\<rparr>"

lemma demo_bound:
  "\<exists>p2 v. bound_task (demo_reader v) (demo_serde p2) [''unit''] demo_prepared = Inr (p2, v)
     \<and> json_get_str ''schema'' (ps_encode (demo_serde p2) p2) = Some (pg_schema p2)
     \<and> ps_encode (demo_serde p2) p2 = JObject [(''schema'', JString (pg_schema p2))]"
  by (simp add: bound_task_def Let_def demo_serde_def demo_reader_def demo_prepared_def daemon_contract_digest_def
      prepared_digest_def ok_or_def json_get_str_def)

theorem bound_task_is_routed_witness:
  "\<exists>env ps text p2. task_route_of env ps text (pg_prepared_sha256 p2) ''/w'' = Inr \<lparr>ro_prepared = p2, ro_required = [''unit'']\<rparr>"
proof -
  obtain p2 v where b: "bound_task (demo_reader v) (demo_serde p2) [''unit''] demo_prepared = Inr (p2, v)"
      "json_get_str ''schema'' (ps_encode (demo_serde p2) p2) = Some (pg_schema p2)"
    using demo_bound by blast
  have "pg_schema demo_prepared = GENERAL_TASK_SCHEMA" "pg_workspace_path demo_prepared = ''/w''"
    by (simp_all add: demo_prepared_def)
  then show ?thesis
    using bound_task_is_routed [OF b(1) _ _ _ b(2)] by (auto simp: demo_reader_def demo_serde_def)
qed

text \<open>
  The digests do not bind the required commands to the task. If the member with the
  contract is taken out of the stored text, so that only the prepared task is left, the text is
  still accepted under the same recorded digest and workspace, with no required command at all:
  the digest of the contract, which the prepared task carries, is only compared when the member
  is present.
\<close>

theorem stripped_contract_is_accepted:
  assumes bound: "bound_task env ps required p = Inr (p2, v)" and "pg_schema p = GENERAL_TASK_SCHEMA"
    and parse: "env_parse env text = Some (ps_encode ps p2)" and decode: "ps_decode ps (ps_encode ps p2) = Some p2"
    and members: "json_get_str ''schema'' (ps_encode ps p2) = Some (pg_schema p2)"
      "json_get ''daemon_contract'' (ps_encode ps p2) = None"
  shows "task_route_of env ps text (pg_prepared_sha256 p2) (pg_workspace_path p) = Inr \<lparr>ro_prepared = p2, ro_required = []\<rparr>
     \<and> pg_manifest_sha256 p2 = daemon_contract_digest env \<lparr>dc_schema = GENERAL_DAEMON_CONTRACT_SCHEMA,
         dc_original_manifest_sha256 = pg_manifest_sha256 p, dc_prepared_sha256 = [],
         dc_required_command_ids = remdups_adj (sort required)\<rparr>"
proof -
  obtain c where c: "c = \<lparr>dc_schema = GENERAL_DAEMON_CONTRACT_SCHEMA, dc_original_manifest_sha256 = pg_manifest_sha256 p,
       dc_prepared_sha256 = [], dc_required_command_ids = remdups_adj (sort required)\<rparr>"
    and p2: "p2 = p\<lparr>pg_manifest_sha256 := daemon_contract_digest env c,
       pg_prepared_sha256 := prepared_digest env ps (p\<lparr>pg_manifest_sha256 := daemon_contract_digest env c\<rparr>)\<rparr>"
    using bound by (rule bound_taskE) blast
  moreover have "validate_digest env ps p2" by (simp add: validate_digest_def prepared_digest_def p2)
  ultimately show ?thesis
    using decode parse members assms(2) by (simp add: task_route_of_def ok_or_def p2)
qed

theorem stripped_contract_is_accepted_witness:
  "\<exists>env ps text p2. task_route_of env ps text (pg_prepared_sha256 p2) ''/w'' = Inr \<lparr>ro_prepared = p2, ro_required = []\<rparr>"
proof -
  let ?text = "JObject [(''schema'', JString GENERAL_TASK_SCHEMA)]"
  have s: "pg_schema demo_prepared = GENERAL_TASK_SCHEMA" "pg_workspace_path demo_prepared = ''/w''"
    by (simp_all add: demo_prepared_def)
  have "\<exists>p2 v. bound_task (demo_reader ?text) (demo_serde p2) [''unit''] demo_prepared = Inr (p2, v) \<and> pg_schema p2 = GENERAL_TASK_SCHEMA"
    by (simp add: bound_task_def Let_def demo_serde_def demo_reader_def demo_prepared_def daemon_contract_digest_def
        prepared_digest_def ok_or_def)
  then obtain p2 v where b: "bound_task (demo_reader ?text) (demo_serde p2) [''unit''] demo_prepared = Inr (p2, v)"
    and p2: "pg_schema p2 = GENERAL_TASK_SCHEMA" by blast
  show ?thesis
    using stripped_contract_is_accepted [OF b s(1), of "''t''"] s(2) p2
    by (auto simp: demo_reader_def demo_serde_def json_get_str_def)
qed

end
