(* ===== verification/Commands.thy ===== *)
theory Commands
  imports Prelude
begin

text \<open>
  Commands: state monads with errors, for the code that reads and changes the world. \<open>None\<close> is a
  call that does not return (a panic, or a loop that is not over yet), \<open>Inl\<close> an error that is
  propagated by \<^verbatim>\<open>?\<close>. \<open>keeps\<close> says that a command relates its first and last state, whatever it
  returns; the locale \<open>relation_kept\<close> gives the rules by which a relation is shown to be kept.
\<close>

type_synonym ('s, 'e, 'a) cmd = "'s \<Rightarrow> ('e + 'a) option \<times> 's"

definition sc_result :: "'e + 'a \<Rightarrow> ('s, 'e, 'a) cmd" where
  "sc_result r s = (Some r, s)"

abbreviation sc_ok :: "'a \<Rightarrow> ('s, 'e, 'a) cmd" where "sc_ok x \<equiv> sc_result (Inr x)"
abbreviation sc_fail :: "'e \<Rightarrow> ('s, 'e, 'a) cmd" where "sc_fail e \<equiv> sc_result (Inl e)"

definition sc_panic :: "('s, 'e, 'a) cmd" where "sc_panic s = (None, s)"

definition sc_bind :: "('s, 'e, 'a) cmd \<Rightarrow> ('a \<Rightarrow> ('s, 'e, 'b) cmd) \<Rightarrow> ('s, 'e, 'b) cmd" where
  "sc_bind m f s = (case m s of
       (None, s') \<Rightarrow> (None, s')
     | (Some (Inl e), s') \<Rightarrow> (Some (Inl e), s')
     | (Some (Inr x), s') \<Rightarrow> f x s')"

text \<open>The result as a value, for the places where the code matches on it.\<close>

definition sc_try :: "('s, 'e, 'a) cmd \<Rightarrow> ('s, 'f, 'e + 'a) cmd" where
  "sc_try m s = (case m s of (None, s') \<Rightarrow> (None, s') | (Some r, s') \<Rightarrow> (Some (Inr r), s'))"

definition sc_map_err :: "('e \<Rightarrow> 'f) \<Rightarrow> ('s, 'e, 'a) cmd \<Rightarrow> ('s, 'f, 'a) cmd" where
  "sc_map_err f m s = (case m s of (r, s') \<Rightarrow> (map_option (map_sum f id) r, s'))"

definition sc_when :: "bool \<Rightarrow> ('s, 'e, unit) cmd \<Rightarrow> ('s, 'e, unit) cmd" where
  "sc_when b m = (if b then m else sc_ok ())"

definition sc_of :: "'e \<Rightarrow> 'a option \<Rightarrow> ('s, 'e, 'a) cmd" where
  "sc_of e x = sc_result (ok_or e x)"

definition sc_require :: "bool \<Rightarrow> 'e \<Rightarrow> ('s, 'e, unit) cmd" where
  "sc_require b e = (if b then sc_ok () else sc_fail e)"

definition io_ask :: "('s \<Rightarrow> 'a) \<Rightarrow> ('s, 'e, 'a) cmd" where
  "io_ask f s = (Some (Inr (f s)), s)"

definition io_do :: "('s \<Rightarrow> 'a \<times> 's) \<Rightarrow> ('s, 'e, 'a) cmd" where
  "io_do f s = (case f s of (x, s') \<Rightarrow> (Some (Inr x), s'))"

fun sc_each :: "('a \<Rightarrow> ('s, 'e, 'b) cmd) \<Rightarrow> 'a list \<Rightarrow> ('s, 'e, 'b list) cmd" where
  "sc_each f [] = sc_ok []"
| "sc_each f (x # xs) = sc_bind (f x) (\<lambda>y. sc_bind (sc_each f xs) (\<lambda>ys. sc_ok (y # ys)))"

section \<open>What a command returns\<close>

lemma sc_bind_ok: "sc_bind m f s = (Some (Inr y), t) \<longleftrightarrow> (\<exists>x u. m s = (Some (Inr x), u) \<and> f x u = (Some (Inr y), t))"
  by (auto simp: sc_bind_def split: prod.splits option.splits sum.splits)

lemma sc_bind_okE [elim!]:
  assumes "sc_bind m f s = (Some (Inr y), t)"
  obtains x u where "m s = (Some (Inr x), u)" and "f x u = (Some (Inr y), t)"
  using assms by (auto simp: sc_bind_ok)

lemma sc_result_iff [simp]: "sc_result r s = (Some q, t) \<longleftrightarrow> r = q \<and> s = t"
  by (auto simp: sc_result_def)

lemma sc_panic_ok [simp]: "sc_panic s \<noteq> (Some r, t)"
  by (simp add: sc_panic_def)

lemma sc_require_ok [simp]: "sc_require b e s = (Some (Inr u), t) \<longleftrightarrow> b \<and> s = t"
  by (auto simp: sc_require_def)

lemma sc_of_ok [simp]: "sc_of e x s = (Some (Inr y), t) \<longleftrightarrow> x = Some y \<and> s = t"
  by (auto simp: sc_of_def)

lemma sc_map_err_ok [simp]: "sc_map_err f m s = (Some (Inr y), t) \<longleftrightarrow> m s = (Some (Inr y), t)"
proof -
  have "map_sum f id r = Inr y \<longleftrightarrow> r = Inr y" for r by (cases r) auto
  then show ?thesis by (auto simp: sc_map_err_def split: prod.splits)
qed

lemma sc_try_ok: "sc_try m s = (Some (Inr r), t) \<longleftrightarrow> m s = (Some r, t)"
  by (auto simp: sc_try_def split: prod.splits option.splits)

lemma sc_when_ok: "sc_when b m s = (Some (Inr u), t) \<longleftrightarrow> (if b then m s = (Some (Inr u), t) else s = t)"
  by (auto simp: sc_when_def)

lemma io_ask_ok [simp]: "io_ask f s = (Some (Inr x), t) \<longleftrightarrow> x = f s \<and> s = t"
  by (auto simp: io_ask_def)

lemma sc_bind_assoc: "sc_bind (sc_bind m f) g = sc_bind m (\<lambda>x. sc_bind (f x) g)"
  by (rule ext) (simp add: sc_bind_def split: prod.splits option.splits sum.splits)

lemma sc_bind_result: "sc_bind (sc_ok x) f = f x" "sc_bind (sc_fail e) f = sc_fail e"
  by (rule ext, simp add: sc_bind_def sc_result_def)+

lemmas sc_run = sc_bind_def sc_result_def sc_try_def sc_map_err_def sc_when_def sc_of_def sc_require_def io_ask_def io_do_def
  sc_panic_def

lemma sc_each_ok: "sc_each f xs s = (Some (Inr ys), t) \<Longrightarrow> length ys = length xs"
  by (induction xs arbitrary: s t ys) (auto simp: sc_bind_ok)

section \<open>Relations that commands keep\<close>

definition keeps :: "('s \<Rightarrow> 's \<Rightarrow> bool) \<Rightarrow> ('s, 'e, 'a) cmd \<Rightarrow> bool" where
  "keeps Q m \<longleftrightarrow> (\<forall>s. Q s (snd (m s)))"

named_theorems keeps_rules

lemma keepsD: "keeps Q m \<Longrightarrow> m s = (r, t) \<Longrightarrow> Q s t"
  by (metis keeps_def snd_conv)

locale relation_kept =
  fixes Q :: "'s \<Rightarrow> 's \<Rightarrow> bool"
  assumes kept_refl: "Q s s" and kept_trans: "Q s t \<Longrightarrow> Q t u \<Longrightarrow> Q s u"
begin

lemma keeps_result [keeps_rules]: "keeps Q (sc_result r)"
  by (simp add: keeps_def sc_result_def kept_refl)

lemma keeps_panic [keeps_rules]: "keeps Q sc_panic"
  by (simp add: keeps_def sc_panic_def kept_refl)

lemma keeps_bind [keeps_rules]:
  assumes "keeps Q m" and "\<And>x. keeps Q (f x)"
  shows "keeps Q (sc_bind m f)"
  unfolding keeps_def
proof
  fix s
  have m: "Q s (snd (m s))" and f: "Q u (snd (f x u))" for x u using assms by (auto simp: keeps_def)
  then show "Q s (snd (sc_bind m f s))"
    using kept_trans [OF m f] by (auto simp: sc_bind_def split: prod.splits option.splits sum.splits)
qed

lemma keeps_try [keeps_rules]: "keeps Q m \<Longrightarrow> keeps Q (sc_try m)"
  by (auto simp: keeps_def sc_try_def split: prod.splits option.splits) (metis snd_conv)+

lemma keeps_map_err [keeps_rules]: "keeps Q m \<Longrightarrow> keeps Q (sc_map_err g m)"
  by (auto simp: keeps_def sc_map_err_def split: prod.splits) (metis snd_conv)

lemma keeps_when [keeps_rules]: "keeps Q m \<Longrightarrow> keeps Q (sc_when b m)"
  by (simp add: sc_when_def keeps_result)

lemma keeps_of [keeps_rules]: "keeps Q (sc_of e x)"
  by (simp add: sc_of_def keeps_result)

lemma keeps_require [keeps_rules]: "keeps Q (sc_require b e)"
  by (simp add: sc_require_def keeps_result)

lemma keeps_ask [keeps_rules]: "keeps Q (io_ask f)"
  by (simp add: keeps_def io_ask_def kept_refl)

lemma keeps_each [keeps_rules]: "(\<And>x. keeps Q (f x)) \<Longrightarrow> keeps Q (sc_each f xs)"
  by (induction xs) (auto intro: keeps_rules)

end

lemma keeps_if [keeps_rules]: "(b \<Longrightarrow> keeps Q m) \<Longrightarrow> (\<not> b \<Longrightarrow> keeps Q n) \<Longrightarrow> keeps Q (if b then m else n)"
  by simp

lemma keeps_case_option [keeps_rules]:
  "keeps Q m \<Longrightarrow> (\<And>x. keeps Q (f x)) \<Longrightarrow> keeps Q (case v of None \<Rightarrow> m | Some x \<Rightarrow> f x)"
  by (simp split: option.split)

lemma keeps_case_sum [keeps_rules]:
  "(\<And>e. keeps Q (g e)) \<Longrightarrow> (\<And>x. keeps Q (f x)) \<Longrightarrow> keeps Q (case v of Inl e \<Rightarrow> g e | Inr x \<Rightarrow> f x)"
  by (simp split: sum.split)

lemma keeps_case_prod [keeps_rules]: "(\<And>x y. keeps Q (f x y)) \<Longrightarrow> keeps Q (case p of (x, y) \<Rightarrow> f x y)"
  by (simp split: prod.split)

lemma keeps_let [keeps_rules]: "keeps Q (f x) \<Longrightarrow> keeps Q (Let x f)"
  by simp

end
