(* ===== verification/Workspace_IO.thy ===== *)
theory Workspace_IO
  imports Commands General_Route Driver_Stream
begin

text \<open>
  What the preparation crate asks of the world: files, and the \<^verbatim>\<open>git\<close> program. Both are fields of
  the record \<open>workspace_io\<close>; the helpers of \<^verbatim>\<open>general.rs\<close> and \<^verbatim>\<open>worktree.rs\<close> around them are commands.
  Bytes are strings; a path is compared by its components, as \<^verbatim>\<open>PathBuf\<close> is.
\<close>

datatype entry_kind = KindSymlink | KindDir | KindFile | KindOther

text \<open>How a \<^verbatim>\<open>git\<close> process is started, and what it did: \<open>gr_stdout\<close> are the pieces its output arrived in.\<close>

record git_call =
  gk_current_dir :: "string option"
  gk_args :: "string list"
  gk_env :: "(string \<times> string) list"

record git_run =
  gr_code :: "int option"
  gr_stdout :: "string list"
  gr_stdout_failed :: bool
  gr_stderr :: "string list"
  gr_stderr_failed :: bool

record integrity_diagnostics =
  id_repository :: string
  id_worktree :: string
  id_expected_head :: string
  id_observed_head :: "string option"
  id_source_refs_before :: string
  id_source_refs_before_sha256 :: string
  id_source_refs_after :: string
  id_source_refs_after_sha256 :: string
  id_source_status_before :: string
  id_source_status_before_sha256 :: string
  id_source_status_after :: string
  id_source_status_after_sha256 :: string
  id_worktree_status :: string
  id_tracked_diff :: string
  id_staged_diff :: string
  id_diagnostic_truncated :: bool
  id_refs_unchanged :: bool
  id_source_status_unchanged :: bool
  id_detached_head_unchanged :: bool
  id_worktree_clean :: bool

record cleanup_record =
  cr_repository :: string
  cr_task_root :: string
  cr_worktree :: string
  cr_expected_head :: string
  cr_diagnostics :: integrity_diagnostics
  cr_scratch_worktrees_root :: string
  cr_diagnostic_root :: string
  cr_cleaned :: bool

record 'w workspace_io =
  wo_env :: store_env
  wo_serde :: prepared_serde
  wo_encode_record :: "cleanup_record \<Rightarrow> string"
  wo_decode_record :: "string \<Rightarrow> cleanup_record option"
  wo_pid :: nat
  wo_fs :: "'w \<Rightarrow> file_system"
  wo_kind :: "string \<Rightarrow> 'w \<Rightarrow> entry_kind option"
  wo_len :: "string \<Rightarrow> 'w \<Rightarrow> nat"
  wo_exists :: "string \<Rightarrow> 'w \<Rightarrow> bool"
  wo_read :: "string \<Rightarrow> 'w \<Rightarrow> string option"
  wo_read_dir :: "string \<Rightarrow> 'w \<Rightarrow> string list option"
  wo_read_link :: "string \<Rightarrow> 'w \<Rightarrow> string option"
  wo_write :: "string \<Rightarrow> string \<Rightarrow> 'w \<Rightarrow> bool \<times> 'w"
  wo_rename :: "string \<Rightarrow> string \<Rightarrow> 'w \<Rightarrow> bool \<times> 'w"
  wo_create_dir_all :: "string \<Rightarrow> 'w \<Rightarrow> bool \<times> 'w"
  wo_remove_file :: "string \<Rightarrow> 'w \<Rightarrow> bool \<times> 'w"
  wo_remove_dir_all :: "string \<Rightarrow> 'w \<Rightarrow> bool \<times> 'w"
  wo_run_git :: "git_call \<Rightarrow> 'w \<Rightarrow> git_run option \<times> 'w"

type_synonym ('w, 'a) prep = "('w, preparation_error, 'a) cmd"

type_synonym ('w, 'a) final = "('w, string, 'a) cmd"

section \<open>Files\<close>

definition hash :: "'w workspace_io \<Rightarrow> string \<Rightarrow> string" where
  "hash io bytes = env_sha256 (wo_env io) bytes"

definition canonicalize :: "'w workspace_io \<Rightarrow> string \<Rightarrow> ('w, string) prep" where
  "canonicalize io p w = (Some (canonical_or_io (wo_fs io w) p), w)"

definition io_unit :: "('w \<Rightarrow> bool \<times> 'w) \<Rightarrow> ('w, unit) prep" where
  "io_unit f = sc_bind (io_do f) (\<lambda>ok. sc_require ok IoError)"

definition exists :: "'w workspace_io \<Rightarrow> string \<Rightarrow> ('w, 'e, bool) cmd" where
  "exists io p = io_ask (wo_exists io p)"

definition read_file :: "'w workspace_io \<Rightarrow> string \<Rightarrow> ('w, string) prep" where
  "read_file io p = sc_bind (io_ask (wo_read io p)) (sc_of IoError)"

definition symlink_kind :: "'w workspace_io \<Rightarrow> string \<Rightarrow> ('w, entry_kind) prep" where
  "symlink_kind io p = sc_bind (io_ask (wo_kind io p)) (sc_of IoError)"

text \<open>\<^verbatim>\<open>with_extension\<close> of a path that ends in a normal component: what follows the last dot of its name is replaced.\<close>

definition file_stem :: "string \<Rightarrow> string" where
  "file_stem name =
     (case split_once CHR ''.'' (rev name) of
        Some (e, s) \<Rightarrow> if s = [] then name else rev s
      | None \<Rightarrow> name)"

definition file_extension :: "string \<Rightarrow> string option" where
  "file_extension name =
     (case split_once CHR ''.'' (rev name) of
        Some (e, s) \<Rightarrow> if s = [] then None else Some (rev e)
      | None \<Rightarrow> None)"

definition with_extension :: "string \<Rightarrow> string \<Rightarrow> string" where
  "with_extension p ext =
     (case file_name p of
        None \<Rightarrow> p
      | Some name \<Rightarrow> render (butlast (components p) @ [Normal (file_stem name @ CHR ''.'' # ext)]))"

definition atomic_write :: "'w workspace_io \<Rightarrow> string \<Rightarrow> string \<Rightarrow> ('w, unit) prep" where
  "atomic_write io path bytes =
     sc_bind (io_unit (wo_write io (with_extension path ''tmp'') bytes)) (\<lambda>_.
       io_unit (wo_rename io (with_extension path ''tmp'') path))"

definition verify_file :: "'w workspace_io \<Rightarrow> string \<Rightarrow> string \<Rightarrow> nat option \<Rightarrow> ('w, unit) prep" where
  "verify_file io path expected_hash expected_size =
     sc_bind (symlink_kind io path) (\<lambda>kind.
     if kind \<noteq> KindFile then sc_fail (SymlinkInput path)
     else sc_bind (read_file io path) (\<lambda>bytes.
       if (case expected_size of Some n \<Rightarrow> n \<noteq> length bytes | None \<Rightarrow> False) \<or> hash io bytes \<noteq> expected_hash
       then sc_fail (InvalidManifest (''prepared content integrity changed: '' @ path)) else sc_ok ()))"

fun no_symlink_below :: "'w workspace_io \<Rightarrow> string \<Rightarrow> component list \<Rightarrow> ('w, unit) prep" where
  "no_symlink_below io cursor [] = sc_ok ()"
| "no_symlink_below io cursor (c # cs) =
     (let next = path_join cursor (as_os_str c) in
      sc_bind (symlink_kind io next) (\<lambda>kind.
        if kind = KindSymlink then sc_fail (SymlinkInput next) else no_symlink_below io next cs))"

definition verify_confined_file :: "'w workspace_io \<Rightarrow> string \<Rightarrow> string \<Rightarrow> string \<Rightarrow> nat option \<Rightarrow> ('w, unit) prep" where
  "verify_confined_file io root path expected_hash expected_size =
     (case path_strip_prefix root path of
        None \<Rightarrow> sc_fail (PathEscape path root)
      | Some relative \<Rightarrow>
          sc_bind (no_symlink_below io root (components relative)) (\<lambda>_.
          sc_bind (canonicalize io path) (\<lambda>c.
            if \<not> path_eq c path then sc_fail (PathEscape path root)
            else verify_file io path expected_hash expected_size)))"

fun push_without_symlink :: "'w workspace_io \<Rightarrow> string \<Rightarrow> component list \<Rightarrow> ('w, string) prep" where
  "push_without_symlink io p [] = sc_ok p"
| "push_without_symlink io p (c # cs) =
     (let next = path_join p (as_os_str c) in
      sc_bind (io_ask (wo_kind io next)) (\<lambda>kind.
        if kind = Some KindSymlink then sc_fail (SymlinkInput next) else push_without_symlink io next cs))"

definition reject_symlink_path :: "'w workspace_io \<Rightarrow> string \<Rightarrow> string \<Rightarrow> ('w, string) prep" where
  "reject_symlink_path io root relative =
     sc_bind (push_without_symlink io root (components relative)) (\<lambda>p.
     sc_bind (canonicalize io p) (\<lambda>c.
       if \<not> path_starts_with root c then sc_fail (PathEscape c root) else sc_ok c))"

definition reject_protected :: "string \<Rightarrow> preparation_error + unit" where
  "reject_protected path =
     (if list_ex (\<lambda>c. as_os_str c \<in> {''.git'', ''.agent-work'', ''.gitmodules''}) (components path)
      then Inl (PolicyError ''protected Git/agent metadata path'') else Inr ())"

definition secret_type :: "string \<Rightarrow> bool" where
  "secret_type path \<longleftrightarrow>
     list_ex (\<lambda>c. to_ascii_lowercase (as_os_str c)
                  \<in> {''.env'', ''credentials'', ''secrets'', ''auth.json'', ''id_rsa'', ''id_ed25519''}) (components path)
     \<or> (case Option.bind (file_name path) file_extension of
          Some e \<Rightarrow> to_ascii_lowercase e \<in> {''pem'', ''key'', ''p12'', ''pfx'', ''kdbx'', ''env'', ''credentials''}
        | None \<Rightarrow> False)"

definition ensure_directory_empty :: "'w workspace_io \<Rightarrow> string \<Rightarrow> string \<Rightarrow> ('w, unit) final" where
  "ensure_directory_empty io path code =
     sc_bind (io_ask (wo_kind io path)) (\<lambda>kind.
     if kind \<noteq> Some KindDir then sc_fail code
     else sc_bind (io_ask (wo_read_dir io path)) (\<lambda>entries.
       if entries \<noteq> Some [] then sc_fail code else sc_ok ()))"

section \<open>Git\<close>

definition run_stdout :: "git_run \<Rightarrow> string" where "run_stdout r = concat (gr_stdout r)"

definition run_success :: "git_run \<Rightarrow> bool" where "run_success r \<longleftrightarrow> gr_code r = Some 0"

definition git_environment :: "(string \<times> string) list" where
  "git_environment =
     [(''LANG'', ''C''), (''LC_ALL'', ''C''), (''GIT_CONFIG_NOSYSTEM'', ''1''), (''GIT_CONFIG_SYSTEM'', ''/dev/null''),
      (''GIT_CONFIG_GLOBAL'', ''/dev/null''), (''GIT_ATTR_NOSYSTEM'', ''1''), (''GIT_TERMINAL_PROMPT'', ''0''), (''GIT_PAGER'', ''cat'')]"

definition safe_git_output :: "'w workspace_io \<Rightarrow> string \<Rightarrow> string list \<Rightarrow> ('w, git_run) final" where
  "safe_git_output io repo args =
     sc_bind (io_do (wo_run_git io
       \<lparr>gk_current_dir = Some repo, gk_args = [''-c'', ''core.hooksPath=/dev/null'', ''-c'', ''core.pager=cat''] @ args,
        gk_env = [(''PATH'', ''/usr/bin:/bin:/usr/sbin:/sbin''), (''HOME'', ''/var/empty'')] @ git_environment\<rparr>)) (\<lambda>out.
     case out of
       None \<Rightarrow> sc_fail ''GIT_COMMAND_FAILED''
     | Some r \<Rightarrow> if gr_stdout_failed r \<or> gr_stderr_failed r then sc_fail ''GIT_COMMAND_FAILED'' else sc_ok r)"

definition git_bytes :: "'w workspace_io \<Rightarrow> string \<Rightarrow> string list \<Rightarrow> ('w, string) final" where
  "git_bytes io repo args =
     sc_bind (safe_git_output io repo args) (\<lambda>out.
       if \<not> run_success out then sc_fail ''GIT_COMMAND_FAILED'' else sc_ok (run_stdout out))"

text \<open>\<^verbatim>\<open>String::from_utf8\<close>: the lossy decoder keeps exactly the well-formed inputs.\<close>

definition utf8_valid :: "string \<Rightarrow> bool" where
  "utf8_valid bytes \<longleftrightarrow> from_utf8_lossy bytes = bytes"

end
