(* ===== verification/Worktree.thy ===== *)
theory Worktree
  imports Workspace_IO
begin

text \<open>
  \<^verbatim>\<open>worktree.rs\<close>: bounded runs of \<^verbatim>\<open>git\<close>, the registration list, and the manager that creates, checks
  and removes detached worktrees below the scratch root of a task.
\<close>

definition MAX_DIAGNOSTIC_BYTES :: nat where "MAX_DIAGNOSTIC_BYTES = 4 * 1024 * 1024"

definition source_integrity_preserved :: "integrity_diagnostics \<Rightarrow> bool" where
  "source_integrity_preserved d \<longleftrightarrow> id_refs_unchanged d \<and> id_source_status_unchanged d"

definition has_policy_violation :: "integrity_diagnostics \<Rightarrow> bool" where
  "has_policy_violation d \<longleftrightarrow> \<not> source_integrity_preserved d \<or> \<not> id_detached_head_unchanged d \<or> \<not> id_worktree_clean d"

section \<open>Bounded output\<close>

record stream_capture =
  sm_retained :: string
  sm_sha256 :: string
  sm_truncated :: bool

record git_output =
  go_success :: bool
  go_stdout :: stream_capture
  go_stderr :: stream_capture

text \<open>\<open>seen\<close> is what was hashed so far.\<close>

fun read_pieces :: "nat \<Rightarrow> string \<Rightarrow> string \<Rightarrow> bool \<Rightarrow> string list \<Rightarrow> string \<times> string \<times> bool" where
  "read_pieces max_bytes retained seen truncated [] = (retained, seen, truncated)"
| "read_pieces max_bytes retained seen truncated (p # ps) =
     (let left = max_bytes - length retained in
      read_pieces max_bytes (retained @ take (min (length p) left) p) (seen @ p) (truncated \<or> length p > left) ps)"

definition read_stream :: "'w workspace_io \<Rightarrow> nat \<Rightarrow> string list \<Rightarrow> stream_capture" where
  "read_stream io max_bytes pieces =
     (case read_pieces max_bytes [] [] False pieces of (retained, seen, truncated) \<Rightarrow>
        \<lparr>sm_retained = retained, sm_sha256 = hash io seen, sm_truncated = truncated\<rparr>)"

definition git_with_limits :: "'w workspace_io \<Rightarrow> string \<Rightarrow> string list \<Rightarrow> nat \<Rightarrow> nat \<Rightarrow> ('w, git_output) prep" where
  "git_with_limits io path arguments max_stdout max_stderr =
     sc_bind (io_do (wo_run_git io
       \<lparr>gk_current_dir = None,
        gk_args = [''-C'', path, ''-c'', ''core.hooksPath=/dev/null'', ''-c'', ''core.fsmonitor=false'', ''-c'', ''core.pager=cat''] @ arguments,
        gk_env = (''PATH'', ''/usr/bin:/bin:/usr/sbin:/sbin'') # git_environment\<rparr>)) (\<lambda>run.
     case run of
       None \<Rightarrow> sc_fail IoError
     | Some r \<Rightarrow>
         if gr_stdout_failed r \<or> gr_stderr_failed r then sc_fail IoError
         else sc_ok \<lparr>go_success = run_success r, go_stdout = read_stream io max_stdout (gr_stdout r),
                     go_stderr = read_stream io max_stderr (gr_stderr r)\<rparr>)"

definition git :: "'w workspace_io \<Rightarrow> string \<Rightarrow> string list \<Rightarrow> ('w, git_output) prep" where
  "git io path arguments = git_with_limits io path arguments MAX_DIAGNOSTIC_BYTES MAX_DIAGNOSTIC_BYTES"

definition ensure_success :: "git_output \<Rightarrow> string \<Rightarrow> preparation_error + git_output" where
  "ensure_success out operation =
     (if go_success out then Inr out
      else Inl (GitError (operation @ '': '' @ trim (from_utf8_lossy (sm_retained (go_stderr out))))))"

definition git_text :: "'w workspace_io \<Rightarrow> string \<Rightarrow> string list \<Rightarrow> ('w, string) prep" where
  "git_text io path arguments =
     sc_bind (git io path arguments) (\<lambda>raw.
     sc_bind (sc_result (ensure_success raw ''Git query'')) (\<lambda>out.
       if sm_truncated (go_stdout out) then sc_fail (GitError ''Git query output exceeds the bounded capture limit'')
       else sc_ok (trim (from_utf8_lossy (sm_retained (go_stdout out))))))"

record text_snapshot =
  tx_text :: string
  tx_sha256 :: string
  tx_truncated :: bool

definition bounded_git_snapshot :: "'w workspace_io \<Rightarrow> string \<Rightarrow> string list \<Rightarrow> nat \<Rightarrow> ('w, text_snapshot) prep" where
  "bounded_git_snapshot io path arguments max_bytes =
     sc_bind (git_with_limits io path arguments max_bytes MAX_DIAGNOSTIC_BYTES) (\<lambda>raw.
     sc_bind (sc_result (ensure_success raw ''Git diagnostic'')) (\<lambda>out.
       sc_ok \<lparr>tx_text = from_utf8_lossy (sm_retained (go_stdout out)), tx_sha256 = sm_sha256 (go_stdout out),
              tx_truncated = sm_truncated (go_stdout out)\<rparr>))"

definition bounded_git_text :: "'w workspace_io \<Rightarrow> string \<Rightarrow> string list \<Rightarrow> nat \<Rightarrow> ('w, string \<times> bool) prep" where
  "bounded_git_text io path arguments max_bytes =
     sc_bind (bounded_git_snapshot io path arguments max_bytes) (\<lambda>t. sc_ok (tx_text t, tx_truncated t))"

definition refs_snapshot :: "'w workspace_io \<Rightarrow> string \<Rightarrow> ('w, text_snapshot) prep" where
  "refs_snapshot io repository =
     bounded_git_snapshot io repository [''for-each-ref'', ''--format=%(refname) %(objectname)''] MAX_DIAGNOSTIC_BYTES"

definition status_snapshot :: "'w workspace_io \<Rightarrow> string \<Rightarrow> ('w, text_snapshot) prep" where
  "status_snapshot io repository =
     bounded_git_snapshot io repository [''status'', ''--porcelain=v1'', ''--untracked-files=no''] MAX_DIAGNOSTIC_BYTES"

definition path_to_str :: "string \<Rightarrow> preparation_error + string" where
  "path_to_str path = (if utf8_valid path then Inr path else Inl (InvalidPath path ''path is not UTF-8''))"

definition is_detached :: "'w workspace_io \<Rightarrow> string \<Rightarrow> ('w, bool) prep" where
  "is_detached io path = sc_bind (git io path [''symbolic-ref'', ''-q'', ''HEAD'']) (\<lambda>out. sc_ok (\<not> go_success out))"

section \<open>Registered worktrees\<close>

record registered_worktree =
  rw_path :: string
  rw_head :: string
  rw_detached :: bool

text \<open>One non-empty field of the list, read into the entry that is being collected.\<close>

definition read_field :: "string \<Rightarrow> string option \<times> string option \<times> bool \<Rightarrow> string option \<times> string option \<times> bool" where
  "read_field raw e =
     (case e of (path, head, detached) \<Rightarrow>
        let field = from_utf8_lossy raw in
        case strip_prefix ''worktree '' field of
          Some v \<Rightarrow> (Some v, head, detached)
        | None \<Rightarrow>
            (case strip_prefix ''HEAD '' field of
               Some v \<Rightarrow> (path, Some v, detached)
             | None \<Rightarrow> if field = ''detached'' then (path, head, True) else e))"

fun find_registered :: "string \<Rightarrow> string option \<times> string option \<times> bool \<Rightarrow> string list \<Rightarrow> registered_worktree option" where
  "find_registered target e [] = None"
| "find_registered target e (field # later) =
     (if field = []
      then (case e of (path, head, detached) \<Rightarrow>
              if (case path of Some p \<Rightarrow> path_eq p target | None \<Rightarrow> False)
              then Some \<lparr>rw_path = target, rw_head = (case head of Some h \<Rightarrow> h | None \<Rightarrow> []), rw_detached = detached\<rparr>
              else find_registered target (None, None, False) later)
      else find_registered target (read_field field e) later)"

fun collect_registered :: "string \<Rightarrow> string option \<times> string option \<times> bool \<Rightarrow> string list \<Rightarrow> registered_worktree list" where
  "collect_registered root e [] = []"
| "collect_registered root e (field # later) =
     (if field = []
      then (case e of (path, head, detached) \<Rightarrow>
              (case path of
                 Some p \<Rightarrow> if path_starts_with root p
                           then [\<lparr>rw_path = p, rw_head = (case head of Some h \<Rightarrow> h | None \<Rightarrow> []), rw_detached = detached\<rparr>] else []
               | None \<Rightarrow> []) @ collect_registered root (None, None, False) later)
      else collect_registered root (read_field field e) later)"

definition registration_list :: "'w workspace_io \<Rightarrow> string \<Rightarrow> ('w, string) prep" where
  "registration_list io repository =
     sc_bind (git io repository [''worktree'', ''list'', ''--porcelain'', ''-z'']) (\<lambda>raw.
     sc_bind (sc_result (ensure_success raw ''Git worktree registration query'')) (\<lambda>out.
       if sm_truncated (go_stdout out)
       then sc_fail (WorktreeError ''Git worktree registration list exceeds the bounded capture limit'')
       else sc_ok (sm_retained (go_stdout out))))"

definition registered_worktree_of :: "'w workspace_io \<Rightarrow> string \<Rightarrow> string \<Rightarrow> ('w, registered_worktree option) prep" where
  "registered_worktree_of io repository target =
     sc_bind (registration_list io repository) (\<lambda>out.
       sc_ok (find_registered target (None, None, False) (split_on (CHR 0x00) out)))"

definition registered_worktrees_under :: "'w workspace_io \<Rightarrow> string \<Rightarrow> string \<Rightarrow> ('w, registered_worktree list) prep" where
  "registered_worktrees_under io repository root =
     sc_bind (registration_list io repository) (\<lambda>out.
       sc_ok (collect_registered root (None, None, False) (split_on (CHR 0x00) out)))"

definition verify_existing_worktree :: "'w workspace_io \<Rightarrow> string \<Rightarrow> string \<Rightarrow> string \<Rightarrow> string \<Rightarrow> ('w, unit) prep" where
  "verify_existing_worktree io repository path0 root expected =
     sc_bind (canonicalize io path0) (\<lambda>path.
     if path_eq path root \<or> \<not> path_starts_with root path then sc_fail (PathEscape path root)
     else
       sc_bind (registered_worktree_of io repository path) (\<lambda>registered.
       sc_bind (git_text io path [''rev-parse'', ''HEAD'']) (\<lambda>head.
       let wrong = WorktreeError ''existing worktree is not detached at the requested head'' in
       if head \<noteq> expected then sc_fail wrong
       else sc_bind (is_detached io path) (\<lambda>detached.
         sc_require (detached \<and> (case registered of Some e \<Rightarrow> rw_head e = expected \<and> rw_detached e | None \<Rightarrow> False)) wrong))))"

section \<open>The manager\<close>

record worktree_manager =
  wm_repository :: string
  wm_scratch_root :: string

definition WorktreeManager_new :: "'w workspace_io \<Rightarrow> string \<Rightarrow> string \<Rightarrow> ('w, worktree_manager) prep" where
  "WorktreeManager_new io repository0 scratch0 =
     sc_bind (canonicalize io repository0) (\<lambda>repository.
     sc_bind (canonicalize io scratch0) (\<lambda>scratch.
       if path_eq scratch repository then sc_fail (InvalidPath scratch ''scratch root cannot be the repository root'')
       else sc_ok \<lparr>wm_repository = repository, wm_scratch_root = scratch\<rparr>))"

definition create_and_canonicalize :: "'w workspace_io \<Rightarrow> string \<Rightarrow> ('w, string) prep" where
  "create_and_canonicalize io path = sc_bind (io_unit (wo_create_dir_all io path)) (\<lambda>_. canonicalize io path)"

definition atomic_write_json :: "'w workspace_io \<Rightarrow> string \<Rightarrow> cleanup_record \<Rightarrow> ('w, unit) prep" where
  "atomic_write_json io path value =
     sc_bind (sc_of (InvalidPath path ''path has no parent'') (path_parent path)) (\<lambda>parent.
     sc_bind (io_unit (wo_create_dir_all io parent)) (\<lambda>_.
       let temporary = path_join parent (''.'' @ show_nat (wo_pid io) @ ''.tmp'') in
       sc_bind (io_unit (wo_write io temporary (wo_encode_record io value))) (\<lambda>_. io_unit (wo_rename io temporary path))))"

definition expected_roots :: "'w workspace_io \<Rightarrow> worktree_manager \<Rightarrow> ('w, string \<times> string) prep" where
  "expected_roots io m =
     sc_bind (canonicalize io (path_join (wm_scratch_root m) ''worktrees'')) (\<lambda>worktrees.
     sc_bind (canonicalize io (path_join (wm_scratch_root m) ''diagnostics'')) (\<lambda>diagnostics.
       sc_ok (worktrees, diagnostics)))"

definition parent_is :: "string \<Rightarrow> string \<Rightarrow> bool" where
  "parent_is root path = (case path_parent path of Some p \<Rightarrow> path_eq p root | None \<Rightarrow> False)"

definition worktree_create :: "'w workspace_io \<Rightarrow> worktree_manager \<Rightarrow> string \<Rightarrow> string \<Rightarrow> ('w, prepared_worktree) prep" where
  "worktree_create io m head_sha key =
     (if key = [] \<or> \<not> list_all (\<lambda>c. is_ascii_digit c \<or> (CHR ''a'' \<le> c \<and> c \<le> CHR ''f'') \<or> (CHR ''A'' \<le> c \<and> c \<le> CHR ''F'')) key
      then sc_fail (InvalidManifest ''worktree key must be hexadecimal'')
      else
      sc_bind (create_and_canonicalize io (path_join (wm_scratch_root m) ''worktrees'')) (\<lambda>worktrees_root.
      sc_bind (create_and_canonicalize io (path_join (wm_scratch_root m) ''diagnostics'')) (\<lambda>diagnostic_root.
      let path0 = path_join worktrees_root key in
      sc_bind (refs_snapshot io (wm_repository m)) (\<lambda>refs_before.
      sc_bind (status_snapshot io (wm_repository m)) (\<lambda>status_before.
      sc_bind (exists io path0) (\<lambda>present.
      sc_bind (if present then verify_existing_worktree io (wm_repository m) path0 worktrees_root head_sha
               else sc_bind (sc_result (path_to_str path0)) (\<lambda>p.
                    sc_bind (git io (wm_repository m) [''worktree'', ''add'', ''--detach'', p, head_sha]) (\<lambda>out.
                    sc_bind (sc_result (ensure_success out ''git worktree add'')) (\<lambda>_. sc_ok ())))) (\<lambda>_.
      sc_bind (canonicalize io path0) (\<lambda>path.
      if \<not> path_starts_with worktrees_root path then sc_fail (PathEscape path worktrees_root)
      else
      sc_bind (verify_existing_worktree io (wm_repository m) path worktrees_root head_sha) (\<lambda>_.
      sc_bind (refs_snapshot io (wm_repository m)) (\<lambda>refs_after.
      if tx_sha256 refs_after \<noteq> tx_sha256 refs_before
      then sc_fail (WorktreeError ''detached worktree creation changed source refs'')
      else
      sc_bind (status_snapshot io (wm_repository m)) (\<lambda>status_after.
      if tx_sha256 status_after \<noteq> tx_sha256 status_before
      then sc_fail (WorktreeError ''detached worktree creation changed source tracked/staged status'')
      else
      sc_ok \<lparr>pw_repository = wm_repository m, pw_path = path, pw_scratch_worktrees_root = worktrees_root,
             pw_diagnostic_root = diagnostic_root, pw_head_sha = head_sha, pw_source_refs_before = tx_text refs_before,
             pw_source_refs_before_sha256 = tx_sha256 refs_before, pw_source_refs_before_truncated = tx_truncated refs_before,
             pw_source_status_before = tx_text status_before, pw_source_status_before_sha256 = tx_sha256 status_before,
             pw_source_status_before_truncated = tx_truncated status_before\<rparr>)))))))))))"

definition bind_direct :: "'w workspace_io \<Rightarrow> worktree_manager \<Rightarrow> ('w, prepared_worktree) prep" where
  "bind_direct io m =
     sc_bind (create_and_canonicalize io (path_join (wm_scratch_root m) ''worktrees'')) (\<lambda>worktrees_root.
     sc_bind (create_and_canonicalize io (path_join (wm_scratch_root m) ''diagnostics'')) (\<lambda>diagnostic_root.
       sc_ok \<lparr>pw_repository = wm_repository m, pw_path = wm_repository m, pw_scratch_worktrees_root = worktrees_root,
              pw_diagnostic_root = diagnostic_root, pw_head_sha = [], pw_source_refs_before = [],
              pw_source_refs_before_sha256 = [], pw_source_refs_before_truncated = False, pw_source_status_before = [],
              pw_source_status_before_sha256 = [], pw_source_status_before_truncated = False\<rparr>))"

definition verify_worktree_owner :: "'w workspace_io \<Rightarrow> worktree_manager \<Rightarrow> prepared_worktree \<Rightarrow> ('w, unit) prep" where
  "verify_worktree_owner io m t =
     sc_bind (expected_roots io m) (\<lambda>(root, diagnostic_root).
     sc_bind (canonicalize io (pw_path t)) (\<lambda>path.
     let unbound = WorktreeError ''prepared worktree is not bound to this manager'' in
     if \<not> path_eq (pw_repository t) (wm_repository m) then sc_fail unbound
     else
     sc_bind (canonicalize io (pw_repository t)) (\<lambda>repository.
     if \<not> path_eq repository (wm_repository m) \<or> \<not> path_eq (pw_scratch_worktrees_root t) root
        \<or> \<not> path_eq (pw_diagnostic_root t) diagnostic_root \<or> \<not> path_eq path (pw_path t)
        \<or> (\<not> path_eq path (wm_repository m) \<and> \<not> parent_is root path)
     then sc_fail unbound
     else if path_eq path (wm_repository m) then sc_ok ()
     else
     sc_bind (registered_worktree_of io (wm_repository m) path) (\<lambda>found.
     sc_bind (sc_of (WorktreeError ''prepared worktree is not registered with this repository'') found) (\<lambda>registered.
       sc_require (rw_head registered = pw_head_sha t \<and> rw_detached registered)
         (WorktreeError ''prepared worktree registration does not match its expected head''))))))"

definition capture_integrity :: "'w workspace_io \<Rightarrow> worktree_manager \<Rightarrow> prepared_worktree \<Rightarrow> ('w, integrity_diagnostics) prep" where
  "capture_integrity io m t =
     sc_bind (verify_worktree_owner io m t) (\<lambda>_.
     sc_bind (refs_snapshot io (pw_repository t)) (\<lambda>refs_after.
     sc_bind (status_snapshot io (pw_repository t)) (\<lambda>status_after.
     sc_bind (sc_try (git_text io (pw_path t) [''rev-parse'', ''HEAD''])) (\<lambda>head.
     let observed_head = (case head of Inr h \<Rightarrow> Some h | Inl e \<Rightarrow> None) in
     sc_bind (bounded_git_snapshot io (pw_path t) [''status'', ''--porcelain=v1'', ''--untracked-files=all''] MAX_DIAGNOSTIC_BYTES) (\<lambda>worktree_status.
     sc_bind (bounded_git_text io (pw_path t) [''diff'', ''--binary'', ''--no-ext-diff'', ''--no-textconv''] MAX_DIAGNOSTIC_BYTES)
       (\<lambda>(tracked_diff, tracked_truncated).
     sc_bind (bounded_git_text io (pw_path t) [''diff'', ''--cached'', ''--binary'', ''--no-ext-diff'', ''--no-textconv''] MAX_DIAGNOSTIC_BYTES)
       (\<lambda>(staged_diff, staged_truncated).
     sc_bind (if observed_head = Some (pw_head_sha t) then is_detached io (pw_path t) else sc_ok False) (\<lambda>detached.
       sc_ok \<lparr>id_repository = pw_repository t, id_worktree = pw_path t, id_expected_head = pw_head_sha t,
              id_observed_head = observed_head, id_source_refs_before = pw_source_refs_before t,
              id_source_refs_before_sha256 = pw_source_refs_before_sha256 t, id_source_refs_after = tx_text refs_after,
              id_source_refs_after_sha256 = tx_sha256 refs_after, id_source_status_before = pw_source_status_before t,
              id_source_status_before_sha256 = pw_source_status_before_sha256 t, id_source_status_after = tx_text status_after,
              id_source_status_after_sha256 = tx_sha256 status_after, id_worktree_status = tx_text worktree_status,
              id_tracked_diff = tracked_diff, id_staged_diff = staged_diff,
              id_diagnostic_truncated = (pw_source_refs_before_truncated t \<or> pw_source_status_before_truncated t
                \<or> tx_truncated refs_after \<or> tx_truncated status_after \<or> tx_truncated worktree_status
                \<or> tracked_truncated \<or> staged_truncated),
              id_refs_unchanged = (tx_sha256 refs_after = pw_source_refs_before_sha256 t),
              id_source_status_unchanged = (tx_sha256 status_after = pw_source_status_before_sha256 t),
              id_detached_head_unchanged = detached,
              id_worktree_clean = (tx_text worktree_status = [] \<and> tracked_diff = [] \<and> staged_diff = [])\<rparr>))))))))"

definition persist_integrity ::
    "'w workspace_io \<Rightarrow> worktree_manager \<Rightarrow> prepared_worktree \<Rightarrow> integrity_diagnostics \<Rightarrow> ('w, string) prep" where
  "persist_integrity io m t d =
     sc_bind (verify_worktree_owner io m t) (\<lambda>_.
     if \<not> path_eq (id_repository d) (pw_repository t) \<or> \<not> path_eq (id_worktree d) (pw_path t) \<or> id_expected_head d \<noteq> pw_head_sha t
     then sc_fail (WorktreeError ''integrity diagnostics do not match prepared worktree'')
     else
       (let record = \<lparr>cr_repository = wm_repository m, cr_task_root = wm_scratch_root m, cr_worktree = pw_path t,
              cr_expected_head = pw_head_sha t, cr_diagnostics = d, cr_scratch_worktrees_root = pw_scratch_worktrees_root t,
              cr_diagnostic_root = pw_diagnostic_root t, cr_cleaned = False\<rparr> in
        sc_bind (sc_of (WorktreeError ''prepared worktree has no final path component'') (file_name (pw_path t))) (\<lambda>name.
        let path = path_join (pw_diagnostic_root t) (from_utf8_lossy name @ ''.json'') in
        sc_bind (atomic_write_json io path record) (\<lambda>_. sc_ok path))))"

text \<open>The two halves of \<^verbatim>\<open>cleanup_from_record\<close>: the record belongs to this manager and names a child of its worktrees.\<close>

definition bound_record :: "'w workspace_io \<Rightarrow> worktree_manager \<Rightarrow> string \<Rightarrow> ('w, string \<times> cleanup_record) prep" where
  "bound_record io m record_path0 =
     sc_bind (expected_roots io m) (\<lambda>(worktrees_root, diagnostic_root).
     sc_bind (canonicalize io record_path0) (\<lambda>record_path.
     if \<not> parent_is diagnostic_root record_path then sc_fail (PathEscape record_path diagnostic_root)
     else
     sc_bind (read_file io record_path) (\<lambda>bytes.
     sc_bind (sc_of JsonError (wo_decode_record io bytes)) (\<lambda>record.
     let other = WorktreeError ''cleanup record is not bound to this manager'' in
     sc_bind (canonicalize io (cr_repository record)) (\<lambda>repository.
     if \<not> path_eq repository (wm_repository m) \<or> \<not> path_eq (cr_repository record) (wm_repository m) then sc_fail other
     else
     sc_bind (canonicalize io (cr_task_root record)) (\<lambda>task_root.
     if \<not> path_eq task_root (wm_scratch_root m) \<or> \<not> path_eq (cr_task_root record) (wm_scratch_root m) then sc_fail other
     else
     sc_bind (canonicalize io (cr_scratch_worktrees_root record)) (\<lambda>root.
     if \<not> path_eq root worktrees_root \<or> \<not> path_eq (cr_scratch_worktrees_root record) worktrees_root then sc_fail other
     else
     sc_bind (canonicalize io (cr_diagnostic_root record)) (\<lambda>diagnostics.
     if \<not> path_eq diagnostics diagnostic_root \<or> \<not> path_eq (cr_diagnostic_root record) diagnostic_root then sc_fail other
     else if \<not> path_eq (cr_worktree record) (id_worktree (cr_diagnostics record))
             \<or> cr_expected_head record \<noteq> id_expected_head (cr_diagnostics record)
             \<or> \<not> path_eq (cr_repository record) (id_repository (cr_diagnostics record))
     then sc_fail (WorktreeError ''cleanup record identity fields disagree'')
     else
     sc_bind (sc_of (WorktreeError ''cleanup target has no final path component'') (file_name (cr_worktree record))) (\<lambda>name.
     if \<not> parent_is worktrees_root (cr_worktree record) \<or> path_eq (cr_worktree record) worktrees_root
        \<or> \<not> path_eq record_path (path_join diagnostic_root (from_utf8_lossy name @ ''.json''))
     then sc_fail (WorktreeError ''cleanup record target does not match its manager-owned record path'')
     else sc_ok (record_path, record))))))))))"

definition remove_recorded :: "'w workspace_io \<Rightarrow> worktree_manager \<Rightarrow> cleanup_record \<Rightarrow> registered_worktree option \<Rightarrow> ('w, unit) prep" where
  "remove_recorded io m record registered0 =
     sc_bind (canonicalize io (cr_worktree record)) (\<lambda>worktree.
     if \<not> path_eq worktree (cr_worktree record) then sc_fail (WorktreeError ''cleanup target canonical identity changed'')
     else
     sc_bind (git_text io worktree [''rev-parse'', ''HEAD'']) (\<lambda>observed.
     sc_bind (sc_of (WorktreeError ''cleanup target is not a registered worktree of this repository'') registered0) (\<lambda>registered.
     let changed = WorktreeError ''cleanup target identity no longer matches diagnostics'' in
     if observed \<noteq> cr_expected_head record \<or> rw_head registered \<noteq> cr_expected_head record \<or> \<not> rw_detached registered
     then sc_fail changed
     else
     sc_bind (is_detached io worktree) (\<lambda>detached.
     if \<not> detached then sc_fail changed
     else
     sc_bind (sc_result (path_to_str worktree)) (\<lambda>target.
     sc_bind (git io (wm_repository m) [''worktree'', ''remove'', ''--force'', target]) (\<lambda>out.
     sc_bind (sc_result (ensure_success out ''git worktree remove'')) (\<lambda>_. sc_ok ())))))))"

definition cleanup_from_record :: "'w workspace_io \<Rightarrow> worktree_manager \<Rightarrow> string \<Rightarrow> ('w, cleanup_record) prep" where
  "cleanup_from_record io m record_path0 =
     sc_bind (bound_record io m record_path0) (\<lambda>(record_path, record).
     sc_bind (registered_worktree_of io (wm_repository m) (cr_worktree record)) (\<lambda>registered.
     if cr_cleaned record
     then sc_bind (exists io (cr_worktree record)) (\<lambda>present.
            if present \<or> registered \<noteq> None
            then sc_fail (WorktreeError ''cleanup record is complete but its worktree remains present or registered'')
            else sc_ok record)
     else
     sc_bind (exists io (cr_worktree record)) (\<lambda>present.
     sc_bind (if present then remove_recorded io m record registered
              else sc_require (registered = None) (WorktreeError ''cleanup target is missing but remains registered'')) (\<lambda>_.
     let remains = WorktreeError ''verified worktree still exists or remains registered after cleanup'' in
     sc_bind (exists io (cr_worktree record)) (\<lambda>left.
     if left then sc_fail remains
     else
     sc_bind (registered_worktree_of io (wm_repository m) (cr_worktree record)) (\<lambda>again.
     if again \<noteq> None then sc_fail remains
     else
     sc_bind (atomic_write_json io record_path (record\<lparr>cr_cleaned := True\<rparr>)) (\<lambda>_. sc_ok (record\<lparr>cr_cleaned := True\<rparr>))))))))"

definition absent_or_fail :: "'w workspace_io \<Rightarrow> worktree_manager \<Rightarrow> string \<Rightarrow> ('w, unit) prep" where
  "absent_or_fail io m path =
     (let remains = WorktreeError ''worktree filesystem or Git registration remains'' in
      sc_bind (exists io path) (\<lambda>present.
        if present then sc_fail remains
        else sc_bind (registered_worktree_of io (wm_repository m) path) (\<lambda>registered. sc_require (registered = None) remains)))"

definition verify_worktree_absent :: "'w workspace_io \<Rightarrow> worktree_manager \<Rightarrow> prepared_worktree \<Rightarrow> ('w, unit) prep" where
  "verify_worktree_absent io m t =
     sc_bind (expected_roots io m) (\<lambda>(worktrees_root, diagnostic_root).
     sc_bind (sc_try (canonicalize io (pw_path t))) (\<lambda>c.
     let path = (case c of Inr p \<Rightarrow> p | Inl e \<Rightarrow> pw_path t) in
     if \<not> path_eq (pw_repository t) (wm_repository m) \<or> \<not> path_eq (pw_scratch_worktrees_root t) worktrees_root
        \<or> \<not> path_eq (pw_diagnostic_root t) diagnostic_root \<or> \<not> parent_is worktrees_root path
     then sc_fail (WorktreeError ''absent-worktree proof is not bound to this manager'')
     else absent_or_fail io m (pw_path t)))"

definition verify_path_absent :: "'w workspace_io \<Rightarrow> worktree_manager \<Rightarrow> string \<Rightarrow> ('w, unit) prep" where
  "verify_path_absent io m path =
     sc_bind (expected_roots io m) (\<lambda>(worktrees_root, diagnostic_root).
       if \<not> parent_is worktrees_root path then sc_fail (PathEscape path worktrees_root) else absent_or_fail io m path)"

definition verify_registration_absent :: "'w workspace_io \<Rightarrow> worktree_manager \<Rightarrow> string \<Rightarrow> ('w, unit) prep" where
  "verify_registration_absent io m path =
     sc_bind (registered_worktree_of io (wm_repository m) path) (\<lambda>registered.
       sc_require (registered = None) (WorktreeError ''Git registration remains after filesystem cleanup''))"

definition remove_registered :: "'w workspace_io \<Rightarrow> worktree_manager \<Rightarrow> registered_worktree \<Rightarrow> ('w, unit) prep" where
  "remove_registered io m registration =
     sc_bind (sc_result (path_to_str (rw_path registration))) (\<lambda>target.
     sc_bind (git io (wm_repository m) [''worktree'', ''remove'', ''--force'', target]) (\<lambda>out.
     sc_bind (sc_result (ensure_success out ''git worktree remove malformed record'')) (\<lambda>_. sc_ok ())))"

definition trusted_child :: "string \<Rightarrow> registered_worktree \<Rightarrow> bool" where
  "trusted_child root r \<longleftrightarrow> parent_is root (rw_path r) \<and> \<not> path_eq (rw_path r) root \<and> rw_detached r"

definition cleanup_registered_under_task_root :: "'w workspace_io \<Rightarrow> worktree_manager \<Rightarrow> string \<Rightarrow> ('w, unit) prep" where
  "cleanup_registered_under_task_root io m task_root0 =
     sc_bind (canonicalize io task_root0) (\<lambda>task_root.
     if \<not> path_eq task_root (wm_scratch_root m)
     then sc_fail (WorktreeError ''malformed-record cleanup is not bound to this manager task root'')
     else
     sc_bind (expected_roots io m) (\<lambda>(worktrees_root, diagnostic_root).
     sc_bind (registered_worktrees_under io (wm_repository m) worktrees_root) (\<lambda>registrations.
     if \<not> list_all (trusted_child worktrees_root) registrations
     then sc_fail (WorktreeError ''registered malformed-record cleanup target is not a trusted detached child'')
     else
     sc_bind (sc_each (remove_registered io m) registrations) (\<lambda>_.
     sc_bind (registered_worktrees_under io (wm_repository m) worktrees_root) (\<lambda>left.
       sc_require (left = []) (WorktreeError ''Git registration remains after malformed-record cleanup''))))))"

end
