(* ===== verification/Worktree_Props.thy ===== *)
theory Worktree_Props
  imports Worktree
begin

text \<open>
  What \<^verbatim>\<open>git\<close> printed is captured exactly up to the limit, and the manager removes only worktrees that
  are direct children of its own directory.
\<close>

section \<open>Bounded capture\<close>

lemma read_pieces_all:
  assumes "length retained \<le> n" and "retained = take n seen" and "truncated = (length seen > n)"
  shows "read_pieces n retained seen truncated ps = (take n (seen @ concat ps), seen @ concat ps, length (seen @ concat ps) > n)"
  using assms
proof (induction ps arbitrary: retained seen truncated)
  case (Cons p ps)
  have r: "retained @ take (min (length p) (n - length retained)) p = take n (seen @ p)"
    using Cons.prems by (simp add: min_def)
  have t: "(truncated \<or> length p > n - length retained) = (length (seen @ p) > n)"
    using Cons.prems by auto
  show ?case
    unfolding read_pieces.simps Let_def r t
    using Cons.IH [of "take n (seen @ p)" "seen @ p" "length (seen @ p) > n"] by simp
qed simp

lemma read_stream_bounded:
  "read_stream io n ps = \<lparr>sm_retained = take n (concat ps), sm_sha256 = hash io (concat ps), sm_truncated = (length (concat ps) > n)\<rparr>"
  using read_pieces_all [of "[]" n "[]" False ps] by (simp add: read_stream_def)

text \<open>Reading a stream of git piece by piece keeps the first \<open>max_bytes\<close> bytes, hashes all of them, and
  reports a truncation exactly when there were more; how the output was cut into pieces makes no difference.\<close>

theorem read_stream_is_prefix:
  "read_stream io max_bytes pieces =
     \<lparr>sm_retained = take max_bytes (concat pieces), sm_sha256 = hash io (concat pieces),
      sm_truncated = (length (concat pieces) > max_bytes)\<rparr>"
  by (rule read_stream_bounded)

section \<open>Removal\<close>

definition removed_target :: "git_call \<Rightarrow> string option" where
  "removed_target c = (case drop 8 (gk_args c) of
       [a, b, d, t] \<Rightarrow> if a = ''worktree'' \<and> b = ''remove'' \<and> d = ''--force'' then Some t else None | _ \<Rightarrow> None)"

text \<open>\<open>guarded io root f\<close> behaves as \<open>io\<close>, but a removal of a worktree that is not a child of \<open>root\<close> does what \<open>f\<close> says.\<close>

definition guarded :: "'w workspace_io \<Rightarrow> string \<Rightarrow> (git_call \<Rightarrow> 'w \<Rightarrow> git_run option \<times> 'w) \<Rightarrow> 'w workspace_io" where
  "guarded io root f = io\<lparr>wo_run_git := (\<lambda>c. case removed_target c of
       Some t \<Rightarrow> if parent_is root t then wo_run_git io c else f c | None \<Rightarrow> wo_run_git io c)\<rparr>"

named_theorems held

lemma guarded_fields [held]:
  "canonicalize (guarded io root f) = canonicalize io" "exists (guarded io root f) = exists io" "read_file (guarded io root f) = read_file io"
  "wo_decode_record (guarded io root f) = wo_decode_record io" "wo_encode_record (guarded io root f) = wo_encode_record io"
  "wo_create_dir_all (guarded io root f) = wo_create_dir_all io" "wo_write (guarded io root f) = wo_write io"
  "wo_rename (guarded io root f) = wo_rename io" "wo_pid (guarded io root f) = wo_pid io" "hash (guarded io root f) = hash io"
  by (auto simp: guarded_def canonicalize_def exists_def read_file_def hash_def fun_eq_iff)

lemma guarded_git:
  assumes "\<And>t. args = [''worktree'', ''remove'', ''--force'', t] \<Longrightarrow> parent_is root t"
  shows "git (guarded io root f) path args = git io path args"
proof -
  have "removed_target (git_call.make x ([a1, a2, a3, a4, a5, a6, a7, a8] @ args) e) = Some t \<Longrightarrow> parent_is root t"
    for x a1 a2 a3 a4 a5 a6 a7 a8 e t
    using assms by (auto simp: removed_target_def git_call.make_def split: list.splits if_splits)
  then have "wo_run_git (guarded io root f) \<lparr>gk_current_dir = x, gk_args = [a1, a2, a3, a4, a5, a6, a7, a8] @ args, gk_env = e\<rparr>
      = wo_run_git io \<lparr>gk_current_dir = x, gk_args = [a1, a2, a3, a4, a5, a6, a7, a8] @ args, gk_env = e\<rparr>" for x a1 a2 a3 a4 a5 a6 a7 a8 e
    by (auto simp: guarded_def git_call.make_def split: option.split)
  then show ?thesis
    by (simp add: git_def git_with_limits_def read_stream_def held cong del: if_weak_cong option.case_cong_weak sum.case_cong_weak)
qed

lemma guarded_queries [held]:
  "git (guarded io root f) path [''worktree'', ''list'', ''--porcelain'', ''-z''] = git io path [''worktree'', ''list'', ''--porcelain'', ''-z'']"
  "git (guarded io root f) path [''rev-parse'', ''HEAD''] = git io path [''rev-parse'', ''HEAD'']"
  "git (guarded io root f) path [''symbolic-ref'', ''-q'', ''HEAD''] = git io path [''symbolic-ref'', ''-q'', ''HEAD'']"
  by (rule guarded_git, simp)+

lemma guarded_helpers [held]:
  "expected_roots (guarded io root f) m = expected_roots io m"
  "registration_list (guarded io root f) repository = registration_list io repository"
  "is_detached (guarded io root f) path = is_detached io path"
  "atomic_write_json (guarded io root f) path r = atomic_write_json io path r"
  by (simp_all add: expected_roots_def registration_list_def is_detached_def atomic_write_json_def Let_def held cong del: if_weak_cong option.case_cong_weak sum.case_cong_weak)

lemma guarded_registrations [held]:
  "registered_worktree_of (guarded io root f) repository target = registered_worktree_of io repository target"
  "registered_worktrees_under (guarded io root f) repository base = registered_worktrees_under io repository base"
  by (simp_all add: registered_worktree_of_def registered_worktrees_under_def held)

lemma guarded_bound_record [held]: "bound_record (guarded io root f) m path = bound_record io m path"
  by (simp add: bound_record_def held cong del: if_weak_cong option.case_cong_weak sum.case_cong_weak)

lemma parent_is_cong: "path_eq a b \<Longrightarrow> parent_is root a = parent_is root b"
  by (simp add: parent_is_def path_parent_def path_eq_def)

lemma sc_bind_cong_at:
  assumes "m s = m' s" and "\<And>x t. m s = (Some (Inr x), t) \<Longrightarrow> f x t = g x t"
  shows "sc_bind m f s = sc_bind m' g s"
  using assms by (auto simp: sc_bind_def split: prod.splits option.splits sum.splits)

lemma guarded_remove:
  assumes "parent_is root (cr_worktree record)"
  shows "remove_recorded (guarded io root f) m record registered = remove_recorded io m record registered"
proof -
  have "git (guarded io root f) path [''worktree'', ''remove'', ''--force'', t] = git io path [''worktree'', ''remove'', ''--force'', t]"
    if "path_to_str w = Inr t" and "path_eq w (cr_worktree record)" for path t w
    using that assms parent_is_cong [OF that(2), of root]
    by (intro guarded_git) (auto simp: path_to_str_def split: if_splits)
  note g = this
  have q: "git_text (guarded io root f) path [''rev-parse'', ''HEAD''] = git_text io path [''rev-parse'', ''HEAD'']" for path
    by (simp add: git_text_def held)
  have s: "sc_bind (sc_result (path_to_str w)) (\<lambda>t. sc_bind (git (guarded io root f) path [''worktree'', ''remove'', ''--force'', t]) h)
      = sc_bind (sc_result (path_to_str w)) (\<lambda>t. sc_bind (git io path [''worktree'', ''remove'', ''--force'', t]) h)"
    if "path_eq w (cr_worktree record)" for w path and h :: "git_output \<Rightarrow> ('a, unit) prep"
    using g [OF _ that] by (cases "path_to_str w") (simp_all add: sc_bind_result)
  show ?thesis
  proof (rule ext)
    fix u
    show "remove_recorded (guarded io root f) m record registered u = remove_recorded io m record registered u"
      unfolding remove_recorded_def held q
      by (rule sc_bind_cong_at [OF refl]) (simp add: s Let_def cong: if_cong)
  qed
qed

lemma expected_roots_at: "expected_roots io m w = (Some (Inr (root, d)), w') \<Longrightarrow>
    fs_canonicalize (wo_fs io w) (path_join (wm_scratch_root m) ''worktrees'') = Some root \<and> w' = w"
  by (auto simp: expected_roots_def canonicalize_def canonical_or_io_def)

lemma bound_record_child:
  assumes "bound_record io m path w = (Some (Inr (record_path, record)), w')"
    and "fs_canonicalize (wo_fs io w) (path_join (wm_scratch_root m) ''worktrees'') = Some root"
  shows "parent_is root (cr_worktree record)"
proof -
  obtain r d u where e: "expected_roots io m w = (Some (Inr (r, d)), u)" using assms(1) by (auto simp: bound_record_def)
  with expected_roots_at [OF e] assms(2) have r: "r = root" by simp
  have "parent_is r (cr_worktree record)"
    using assms(1) e by (auto simp: bound_record_def Let_def split: if_splits)
  with r show ?thesis by simp
qed

lemma guarded_remove_all:
  assumes "list_all (trusted_child root) rs"
  shows "sc_each (remove_registered (guarded io root f) m) rs = sc_each (remove_registered io m) rs"
proof -
  have "remove_registered (guarded io root f) m r = remove_registered io m r" if "trusted_child root r" for r
  proof (cases "path_to_str (rw_path r)")
    case (Inr t)
    then have "git (guarded io root f) p [''worktree'', ''remove'', ''--force'', t] = git io p [''worktree'', ''remove'', ''--force'', t]" for p
      using that by (intro guarded_git) (auto simp: path_to_str_def trusted_child_def split: if_splits)
    with Inr show ?thesis by (simp add: remove_registered_def sc_bind_result)
  qed (simp add: remove_registered_def sc_bind_result)
  with assms show ?thesis by (induction rs) simp_all
qed

text \<open>C14 (safety): cleaning up from a stored record, or under the task root when the record is not usable, runs
  \<^verbatim>\<open>git worktree remove --force\<close> only for a direct child of the manager's own worktrees directory: what the
  command would do for any other target makes no difference.\<close>

theorem only_own_worktrees_removed:
  assumes "fs_canonicalize (wo_fs io w) (path_join (wm_scratch_root m) ''worktrees'') = Some root"
  shows "cleanup_from_record (guarded io root f) m path w = cleanup_from_record io m path w
    \<and> cleanup_registered_under_task_root (guarded io root f) m path w = cleanup_registered_under_task_root io m path w"
proof
  show "cleanup_from_record (guarded io root f) m path w = cleanup_from_record io m path w"
    unfolding cleanup_from_record_def held
  proof (rule sc_bind_cong_at [OF refl], goal_cases)
    case (1 x t)
    obtain rp r where x: "x = (rp, r)" by fastforce
    have "remove_recorded (guarded io root f) m r registered = remove_recorded io m r registered" for registered
      using 1 by (intro guarded_remove bound_record_child [OF _ assms]) (auto simp: x)
    then show ?case by (simp add: x cong del: if_weak_cong)
  qed
  show "cleanup_registered_under_task_root (guarded io root f) m path w = cleanup_registered_under_task_root io m path w"
    unfolding cleanup_registered_under_task_root_def held
  proof (rule sc_bind_cong_at [OF refl], goal_cases)
    case (1 task_root t)
    then have t: "t = w" by (auto simp: canonicalize_def)
    have "sc_bind (expected_roots io m) (\<lambda>(worktrees_root, diagnostic_root).
        sc_bind (registered_worktrees_under io (wm_repository m) worktrees_root) (\<lambda>registrations.
        if \<not> list_all (trusted_child worktrees_root) registrations then fail'
        else sc_bind (sc_each (remove_registered (guarded io root f) m) registrations) (k worktrees_root))) w
      = sc_bind (expected_roots io m) (\<lambda>(worktrees_root, diagnostic_root).
        sc_bind (registered_worktrees_under io (wm_repository m) worktrees_root) (\<lambda>registrations.
        if \<not> list_all (trusted_child worktrees_root) registrations then fail'
        else sc_bind (sc_each (remove_registered io m) registrations) (k worktrees_root))) w"
      for fail' :: "('a, unit) prep" and k :: "string \<Rightarrow> unit list \<Rightarrow> ('a, unit) prep"
    proof (rule sc_bind_cong_at [OF refl], goal_cases)
      case (1 x u)
      then have "fst x = root" using expected_roots_at [of io m w "fst x" "snd x" u] assms by simp
      then show ?case
        by (cases x) (auto intro!: sc_bind_cong_at simp: guarded_remove_all)
    qed
    then show ?case by (simp add: t)
  qed
qed

definition demo_git :: "unit workspace_io" where
  "demo_git = \<lparr>wo_env = \<lparr>env_sha256 = (\<lambda>t. ''d''), env_to_json = (\<lambda>w. ''t''), env_parse = (\<lambda>t. None)\<rparr>,
     wo_serde = \<lparr>ps_encode = (\<lambda>_. JNull), ps_decode = (\<lambda>_. None)\<rparr>, wo_encode_record = (\<lambda>_. []), wo_decode_record = (\<lambda>_. None), wo_pid = 1,
     wo_fs = (\<lambda>_. \<lparr>fs_canonicalize = Some, fs_symlink_metadata = \<lambda>_. EntryFound, fs_is_dir = \<lambda>_. True, fs_is_file = \<lambda>_. True\<rparr>),
     wo_kind = (\<lambda>_ _. Some KindDir), wo_len = (\<lambda>_ _. 0), wo_exists = (\<lambda>_ _. True), wo_read = (\<lambda>_ _. None),
     wo_read_dir = (\<lambda>_ _. Some []), wo_read_link = (\<lambda>_ _. None), wo_write = (\<lambda>_ _ w. (True, w)), wo_rename = (\<lambda>_ _ w. (True, w)),
     wo_create_dir_all = (\<lambda>_ w. (True, w)), wo_remove_file = (\<lambda>_ w. (True, w)), wo_remove_dir_all = (\<lambda>_ w. (True, w)),
     wo_run_git = (\<lambda>_ w. (Some \<lparr>gr_code = Some 0, gr_stdout = [], gr_stdout_failed = False, gr_stderr = [], gr_stderr_failed = False\<rparr>, w))\<rparr>"

theorem only_own_worktrees_removed_witness:
  "cleanup_registered_under_task_root (guarded demo_git ''/t/worktrees'' (\<lambda>_ w. (None, w)))
     \<lparr>wm_repository = ''/r'', wm_scratch_root = ''/t''\<rparr> ''/t'' () = (Some (Inr ()), ())"
proof -
  let ?m = "\<lparr>wm_repository = ''/r'', wm_scratch_root = ''/t''\<rparr>"
  have c: "fs_canonicalize (wo_fs demo_git ()) (path_join (wm_scratch_root ?m) ''worktrees'') = Some ''/t/worktrees''"
    by (simp add: demo_git_def path_join_def is_absolute_def starts_with_def)
  have "cleanup_registered_under_task_root demo_git ?m ''/t'' () = (Some (Inr ()), ())"
    by (simp add: cleanup_registered_under_task_root_def canonicalize_def canonical_or_io_def expected_roots_def path_eq_def
        registered_worktrees_under_def registration_list_def git_def git_with_limits_def ensure_success_def run_success_def
        read_stream_bounded demo_git_def sc_run)
  with only_own_worktrees_removed [OF c, of "\<lambda>_ w. (None, w)" "''/t''"] show ?thesis by simp
qed

end
