(* ===== verification/Final_Parse.thy ===== *)
theory Final_Parse
  imports Workspace_IO
begin

text \<open>
  The two parsers of \<^verbatim>\<open>git\<close> output in \<^verbatim>\<open>general.rs\<close>: the NUL-separated raw diff, which is searched for
  gitlinks before a commit is made, and the porcelain status, which gives the changed paths. The
  first is shown to accept exactly the records of a grammar.
\<close>

section \<open>Raw diffs\<close>

abbreviation NUL :: char where "NUL \<equiv> CHR 0x00"

definition take_nul_record :: "string \<Rightarrow> (string \<times> string) option" where
  "take_nul_record raw = split_once NUL raw"

definition valid_raw_mode :: "string \<Rightarrow> bool" where
  "valid_raw_mode mode \<longleftrightarrow> mode \<in> {''000000'', ''100644'', ''100755'', ''120000'', ''160000''}"

definition valid_raw_object_id :: "string \<Rightarrow> bool" where
  "valid_raw_object_id object \<longleftrightarrow> (length object = 40 \<or> length object = 64)
     \<and> list_all (\<lambda>c. is_ascii_digit c \<or> (CHR ''a'' \<le> c \<and> c \<le> CHR ''f'')) object"

definition raw_status_path_count :: "string \<Rightarrow> nat option" where
  "raw_status_path_count status =
     (case status of
        [] \<Rightarrow> None
      | kind # detail \<Rightarrow>
          if kind \<in> {CHR ''R'', CHR ''C''}
          then (if detail = [] \<or> length detail > 3 \<or> \<not> list_all is_ascii_digit detail then None
                else if foldl (\<lambda>score d. score * 10 + digit_val d) 0 detail > 100 then None else Some 2)
          else if kind \<in> {CHR ''A'', CHR ''D'', CHR ''M'', CHR ''T'', CHR ''U'', CHR ''X'', CHR ''B''} \<and> detail = [] then Some 1
          else None)"

fun skip_paths :: "nat \<Rightarrow> string \<Rightarrow> string option" where
  "skip_paths 0 raw = Some raw"
| "skip_paths (Suc n) raw =
     (case take_nul_record raw of
        None \<Rightarrow> None
      | Some (path, rest) \<Rightarrow> if path = [] then None else skip_paths n rest)"

text \<open>The header of a record: whether one of its modes is a gitlink, and how many paths follow.\<close>

definition raw_header :: "string \<Rightarrow> (bool \<times> nat) option" where
  "raw_header header =
     (case split_on CHR '' '' header of
        [f0, new_mode, old_object, new_object, status] \<Rightarrow>
          (case strip_prefix '':'' f0 of
             None \<Rightarrow> None
           | Some old_mode \<Rightarrow>
               if \<not> valid_raw_mode old_mode \<or> \<not> valid_raw_mode new_mode \<or> \<not> valid_raw_object_id old_object
                  \<or> \<not> valid_raw_object_id new_object then None
               else map_option (\<lambda>n. (old_mode = ''160000'' \<or> new_mode = ''160000'', n)) (raw_status_path_count status))
      | _ \<Rightarrow> None)"

lemma take_nul_record_shorter: "take_nul_record raw = Some (r, rest) \<Longrightarrow> length rest < length raw"
  by (auto simp: take_nul_record_def split_once_Some)

lemma skip_paths_shorter: "skip_paths n raw = Some rest \<Longrightarrow> length rest \<le> length raw"
  by (induction n arbitrary: raw) (fastforce split: option.splits if_splits dest!: take_nul_record_shorter)+

function raw_diff_has_gitlink :: "string \<Rightarrow> bool option" where
  "raw_diff_has_gitlink raw =
     (if raw = [] then Some False
      else case take_nul_record raw of
             None \<Rightarrow> None
           | Some (header, rest) \<Rightarrow>
               (case raw_header header of
                  None \<Rightarrow> None
                | Some (link, n) \<Rightarrow>
                    (case skip_paths n rest of
                       None \<Rightarrow> None
                     | Some rest' \<Rightarrow> map_option (\<lambda>b. link \<or> b) (raw_diff_has_gitlink rest'))))"
  by pat_completeness auto
termination
  by (relation "measure length") (auto dest!: take_nul_record_shorter skip_paths_shorter)

declare raw_diff_has_gitlink.simps [simp del]

section \<open>Porcelain status\<close>

text \<open>\<^verbatim>\<open>None\<close> is the panic of a slice that does not start at a character.\<close>

definition is_char_boundary :: "nat \<Rightarrow> string \<Rightarrow> bool" where
  "is_char_boundary n s \<longleftrightarrow> n = 0 \<or> n = length s \<or> (n < length s \<and> \<not> utf8_cont (s ! n))"

fun status_paths :: "string list \<Rightarrow> (string + string list) option" where
  "status_paths [] = Some (Inr [])"
| "status_paths (field # rest) =
     (if \<not> utf8_valid field \<or> length field < 4 then Some (Inl ''GIT_STATUS_INVALID'')
      else if \<not> is_char_boundary 2 field \<or> \<not> is_char_boundary 3 field then None
      else if hd field \<in> {CHR ''R'', CHR ''C''}
      then (case rest of
              [] \<Rightarrow> Some (Inl ''GIT_STATUS_INVALID'')
            | source # rest' \<Rightarrow>
                if \<not> utf8_valid source then Some (Inl ''GIT_STATUS_INVALID'')
                else map_option (map_sum id (\<lambda>ps. drop 3 field # source # ps)) (status_paths rest'))
      else map_option (map_sum id (\<lambda>ps. drop 3 field # ps)) (status_paths rest))"

text \<open>\<^verbatim>\<open>sort\<close> on byte strings and \<^verbatim>\<open>dedup\<close>.\<close>

definition parse_status_paths :: "string \<Rightarrow> (string + string list) option" where
  "parse_status_paths bytes =
     map_option (map_sum id (\<lambda>ps. remdups_adj (sort ps))) (status_paths (filter (\<lambda>f. f \<noteq> []) (split_on NUL bytes)))"

section \<open>The grammar of raw diffs\<close>

record raw_record =
  rr_old_mode :: string
  rr_new_mode :: string
  rr_old_object :: string
  rr_new_object :: string
  rr_status :: string
  rr_paths :: "string list"

definition raw_record_ok :: "raw_record \<Rightarrow> bool" where
  "raw_record_ok r \<longleftrightarrow> valid_raw_mode (rr_old_mode r) \<and> valid_raw_mode (rr_new_mode r)
     \<and> valid_raw_object_id (rr_old_object r) \<and> valid_raw_object_id (rr_new_object r)
     \<and> raw_status_path_count (rr_status r) = Some (length (rr_paths r))
     \<and> list_all (\<lambda>p. p \<noteq> [] \<and> NUL \<notin> set p) (rr_paths r)"

definition raw_header_text :: "raw_record \<Rightarrow> string" where
  "raw_header_text r = '':'' @ rr_old_mode r @ '' '' @ rr_new_mode r @ '' '' @ rr_old_object r @ '' '' @ rr_new_object r @ '' '' @ rr_status r"

definition raw_record_text :: "raw_record \<Rightarrow> string" where
  "raw_record_text r = raw_header_text r @ NUL # concat (map (\<lambda>p. p @ [NUL]) (rr_paths r))"

definition is_gitlink :: "raw_record \<Rightarrow> bool" where
  "is_gitlink r \<longleftrightarrow> rr_old_mode r = ''160000'' \<or> rr_new_mode r = ''160000''"

lemma raw_tokens_plain:
  "valid_raw_mode m \<Longrightarrow> CHR '' '' \<notin> set m \<and> NUL \<notin> set m"
  "valid_raw_object_id x \<Longrightarrow> CHR '' '' \<notin> set x \<and> NUL \<notin> set x"
  "raw_status_path_count st = Some n \<Longrightarrow> CHR '' '' \<notin> set st \<and> NUL \<notin> set st"
proof -
  have d: "\<not> is_ascii_digit (CHR '' '')" "\<not> is_ascii_digit NUL" by (simp_all add: is_ascii_digit_def)
  show "valid_raw_mode m \<Longrightarrow> CHR '' '' \<notin> set m \<and> NUL \<notin> set m" by (auto simp: valid_raw_mode_def)
  show "valid_raw_object_id x \<Longrightarrow> CHR '' '' \<notin> set x \<and> NUL \<notin> set x"
    using d by (auto simp: valid_raw_object_id_def list_all_iff)
  show "raw_status_path_count st = Some n \<Longrightarrow> CHR '' '' \<notin> set st \<and> NUL \<notin> set st"
    using d by (cases st) (auto simp: raw_status_path_count_def list_all_iff split: if_splits)
qed

lemma split_on_append: "d \<notin> set p \<Longrightarrow> split_on d (p @ d # s) = p # split_on d s"
  by (induction p) auto

lemma join_split_on: "join_with d (split_on d s) = s"
proof (induction s)
  case (Cons c s)
  then show ?case by (cases "split_on d s") (auto, case_tac list, auto)
qed simp

lemma take_nul_record_append: "NUL \<notin> set a \<Longrightarrow> take_nul_record (a @ NUL # b) = Some (a, b)"
  by (simp add: take_nul_record_def split_once_Some)

lemma split_on_plain: "d \<notin> set p \<Longrightarrow> split_on d p = [p]"
  by (induction p) auto

lemma raw_header_text_parsed:
  assumes "raw_record_ok r"
  shows "raw_header (raw_header_text r) = Some (is_gitlink r, length (rr_paths r)) \<and> NUL \<notin> set (raw_header_text r)"
  using assms raw_tokens_plain(1) [of "rr_old_mode r"] raw_tokens_plain(1) [of "rr_new_mode r"]
    raw_tokens_plain(2) [of "rr_old_object r"] raw_tokens_plain(2) [of "rr_new_object r"] raw_tokens_plain(3) [of "rr_status r"] split_on_append [of "CHR '' ''" "'':'' @ rr_old_mode r"]
  by (auto simp: raw_record_ok_def raw_header_def raw_header_text_def is_gitlink_def split_on_append split_on_plain strip_prefix_def
      starts_with_Cons)

lemma raw_header_text_complete:
  assumes "raw_header h = Some (link, n)" and "length ps = n" and "list_all (\<lambda>p. p \<noteq> [] \<and> NUL \<notin> set p) ps"
  obtains r where "raw_record_ok r" and "h = raw_header_text r" and "rr_paths r = ps" and "link = is_gitlink r"
proof -
  obtain f0 nm oo no st om where f: "split_on CHR '' '' h = [f0, nm, oo, no, st]" and om: "strip_prefix '':'' f0 = Some om"
    and ok: "valid_raw_mode om" "valid_raw_mode nm" "valid_raw_object_id oo" "valid_raw_object_id no"
      "raw_status_path_count st = Some n" and link: "link = (om = ''160000'' \<or> nm = ''160000'')"
    using assms(1) by (auto simp: raw_header_def split: list.splits option.splits if_splits)
  have "h = join_with CHR '' '' (split_on CHR '' '' h)" by (simp add: join_split_on)
  then have "h = raw_header_text \<lparr>rr_old_mode = om, rr_new_mode = nm, rr_old_object = oo, rr_new_object = no, rr_status = st, rr_paths = ps\<rparr>"
    using om by (simp add: f raw_header_text_def strip_prefix_Some)
  with that [of "\<lparr>rr_old_mode = om, rr_new_mode = nm, rr_old_object = oo, rr_new_object = no, rr_status = st, rr_paths = ps\<rparr>"]
    ok link assms(2,3) show thesis by (simp add: raw_record_ok_def is_gitlink_def)
qed

lemma skip_paths_text: "list_all (\<lambda>p. p \<noteq> [] \<and> NUL \<notin> set p) ps \<Longrightarrow> skip_paths (length ps) (concat (map (\<lambda>p. p @ [NUL]) ps) @ rest) = Some rest"
  by (induction ps) (auto simp: take_nul_record_append)

lemma skip_paths_complete:
  "skip_paths n raw = Some rest \<Longrightarrow>
     \<exists>ps. length ps = n \<and> list_all (\<lambda>p. p \<noteq> [] \<and> NUL \<notin> set p) ps \<and> raw = concat (map (\<lambda>p. p @ [NUL]) ps) @ rest"
proof (induction n arbitrary: raw)
  case (Suc n)
  then obtain p r where t: "take_nul_record raw = Some (p, r)" "p \<noteq> []" "skip_paths n r = Some rest"
    by (auto split: option.splits if_splits)
  with Suc.IH obtain ps where "length ps = n" "list_all (\<lambda>p. p \<noteq> [] \<and> NUL \<notin> set p) ps" "r = concat (map (\<lambda>p. p @ [NUL]) ps) @ rest"
    by blast
  with t show ?case by (intro exI [of _ "p # ps"]) (auto simp: take_nul_record_def split_once_Some)
qed simp

text \<open>C28 (equivalence): what the raw-diff parser accepts is exactly a sequence of well-formed records, and it
  reports a gitlink exactly when one of the records has the gitlink mode before or after the change.\<close>

theorem raw_diff_grammar:
  "raw_diff_has_gitlink raw = Some b
   \<longleftrightarrow> (\<exists>rs. list_all raw_record_ok rs \<and> raw = concat (map raw_record_text rs) \<and> b = list_ex is_gitlink rs)"
proof
  show "\<exists>rs. list_all raw_record_ok rs \<and> raw = concat (map raw_record_text rs) \<and> b = list_ex is_gitlink rs"
    if "raw_diff_has_gitlink raw = Some b"
    using that
  proof (induction raw arbitrary: b rule: raw_diff_has_gitlink.induct)
    case (1 raw)
    show ?case
    proof (cases "raw = []")
      case True
      with 1 show ?thesis by (intro exI [of _ "[]"]) (simp add: raw_diff_has_gitlink.simps)
    next
      case False
      then obtain h r link n r' where t: "take_nul_record raw = Some (h, r)" and h: "raw_header h = Some (link, n)"
        and sk: "skip_paths n r = Some r'" and m: "map_option (\<lambda>b. link \<or> b) (raw_diff_has_gitlink r') = Some b"
        using "1.prems" unfolding raw_diff_has_gitlink.simps [of raw] by (auto split: option.splits)
      from m obtain b' where b': "raw_diff_has_gitlink r' = Some b'" "b = (link \<or> b')" by auto
      from "1.IH" [OF False t refl h refl sk b'(1)] obtain rs
        where rs: "list_all raw_record_ok rs" "r' = concat (map raw_record_text rs)" "b' = list_ex is_gitlink rs" by blast
      from skip_paths_complete [OF sk] obtain ps where ps: "length ps = n" "list_all (\<lambda>p. p \<noteq> [] \<and> NUL \<notin> set p) ps"
        "r = concat (map (\<lambda>p. p @ [NUL]) ps) @ r'" by blast
      from raw_header_text_complete [OF h ps(1,2)] obtain q where q: "raw_record_ok q" "h = raw_header_text q" "rr_paths q = ps"
        "link = is_gitlink q" .
      from t have "raw = raw_record_text q @ r'"
        by (simp add: take_nul_record_def split_once_Some raw_record_text_def q(2,3) ps(3))
      with q rs b' show ?thesis by (intro exI [of _ "q # rs"]) simp
    qed
  qed
  show "raw_diff_has_gitlink raw = Some b"
    if "\<exists>rs. list_all raw_record_ok rs \<and> raw = concat (map raw_record_text rs) \<and> b = list_ex is_gitlink rs"
  proof -
    have "raw_diff_has_gitlink (concat (map raw_record_text rs)) = Some (list_ex is_gitlink rs)" if "list_all raw_record_ok rs" for rs
      using that
    proof (induction rs)
      case (Cons q rs)
      then have q: "raw_record_ok q" by simp
      let ?r = "concat (map raw_record_text rs)"
      have "take_nul_record (raw_record_text q @ ?r) = Some (raw_header_text q, concat (map (\<lambda>p. p @ [NUL]) (rr_paths q)) @ ?r)"
        using raw_header_text_parsed [OF q] by (simp add: take_nul_record_def raw_record_text_def split_once_Some)
      moreover have "skip_paths (length (rr_paths q)) (concat (map (\<lambda>p. p @ [NUL]) (rr_paths q)) @ ?r) = Some ?r"
        using q by (intro skip_paths_text) (simp add: raw_record_ok_def)
      moreover have "raw_record_text q \<noteq> []" by (simp add: raw_record_text_def raw_header_text_def)
      ultimately show ?case
        using Cons raw_header_text_parsed [OF q] by (subst raw_diff_has_gitlink.simps) simp
    qed (simp add: raw_diff_has_gitlink.simps)
    with that show ?thesis by blast
  qed
qed

end
