(* ===== verification/Finalizer.thy ===== *)
theory Finalizer
  imports Worktree Final_Parse Lifecycle_Sink
begin

text \<open>
  The end of a prepared task in \<^verbatim>\<open>general.rs\<close>: the integrity of what was prepared, the policy
  launchers built from it, the patch of the changed files, and \<^verbatim>\<open>GeneralFinalizer\<close> with the clean-up
  of the task's private directory.
\<close>

section \<open>Prepared content\<close>

definition sc_lift :: "('e + 'a) option \<Rightarrow> ('s, 'e, 'a) cmd" where
  "sc_lift r s = (r, s)"

definition task_root_of :: "prepared_task \<Rightarrow> string option" where
  "task_root_of p = path_parent (pw_scratch_worktrees_root (pg_worktree p))"

definition check_digest :: "'w workspace_io \<Rightarrow> prepared_task \<Rightarrow> ('w, unit) prep" where
  "check_digest io p =
     sc_require (validate_digest (wo_env io) (wo_serde io) p) (InvalidManifest ''prepared general task digest mismatch'')"

definition validate_immutable_inputs :: "'w workspace_io \<Rightarrow> prepared_task \<Rightarrow> ('w, unit) prep" where
  "validate_immutable_inputs io p =
     sc_bind (sc_of (WorktreeError ''missing task root'') (task_root_of p)) (\<lambda>task_root.
     sc_bind (verify_confined_file io task_root (pg_prompt_path p) (pg_prompt_sha256 p) None) (\<lambda>_.
     sc_bind (sc_each (\<lambda>a. verify_confined_file io task_root (pa_prepared_path a) (pa_sha256 a) (Some (pa_size_bytes a)))
                (pg_attachments p)) (\<lambda>_. sc_ok ())))"

definition validate_context :: "'w workspace_io \<Rightarrow> prepared_task \<Rightarrow> prepared_context \<Rightarrow> ('w, unit) prep" where
  "validate_context io p c =
     sc_bind (reject_symlink_path io (pw_path (pg_worktree p)) (px_repository_relative c)) (\<lambda>path.
       verify_file io path (px_sha256 c) (Some (px_size_bytes c)))"

definition validate_prepared_content :: "'w workspace_io \<Rightarrow> prepared_task \<Rightarrow> ('w, unit) prep" where
  "validate_prepared_content io p =
     sc_bind (validate_immutable_inputs io p) (\<lambda>_.
     sc_bind (sc_each (validate_context io p) (pg_context p)) (\<lambda>_. sc_ok ()))"

definition writable_context :: "prepared_task \<Rightarrow> prepared_context \<Rightarrow> bool" where
  "writable_context p c \<longleftrightarrow> pg_access_mode p = WorkspaceWrite
     \<and> list_ex (\<lambda>root. path_starts_with root (px_repository_relative c)) (pg_write_manifest p)"

definition validate_finalization_content :: "'w workspace_io \<Rightarrow> prepared_task \<Rightarrow> ('w, unit) prep" where
  "validate_finalization_content io p =
     sc_bind (validate_immutable_inputs io p) (\<lambda>_.
     sc_bind (sc_each (\<lambda>c. if writable_context p c then sc_ok () else validate_context io p c) (pg_context p)) (\<lambda>_. sc_ok ()))"

section \<open>Launchers\<close>

definition for_general_now ::
    "'w workspace_io \<Rightarrow> prepared_task \<Rightarrow> string \<Rightarrow> string \<Rightarrow> string list \<Rightarrow> ('w, policy_launcher) prep" where
  "for_general_now io p workspace_path scratch_root inputs w =
     (Some (for_general (wo_fs io w) workspace_path scratch_root (path_join (pg_artifact_root p) ''result.json'') inputs
              (pg_validation_commands p) (pg_access_mode p) (pg_write_manifest p)), w)"

definition build_launcher :: "'w workspace_io \<Rightarrow> prepared_task \<Rightarrow> bool \<Rightarrow> ('w, policy_launcher) prep" where
  "build_launcher io p final_tree =
     for_general_now io p
       (if pg_direct_workspace p then pg_workspace_path p else pw_path (pg_worktree p))
       (if pg_direct_workspace p then pg_workspace_scratch_root p else pg_scratch_root p)
       (pg_prompt_path p # map pa_prepared_path (pg_attachments p)
        @ map (\<lambda>c. path_join (pw_path (pg_worktree p)) (px_repository_relative c))
            (filter (\<lambda>c. \<not> final_tree \<or> \<not> writable_context p c) (pg_context p)))"

definition launcher :: "'w workspace_io \<Rightarrow> prepared_task \<Rightarrow> ('w, policy_launcher) prep" where
  "launcher io p =
     sc_bind (check_digest io p) (\<lambda>_. sc_bind (validate_prepared_content io p) (\<lambda>_. build_launcher io p False))"

definition resume_launcher :: "'w workspace_io \<Rightarrow> prepared_task \<Rightarrow> ('w, policy_launcher) prep" where
  "resume_launcher io p =
     sc_bind (check_digest io p) (\<lambda>_.
     if \<not> pg_direct_workspace p then sc_fail (WorktreeError ''resumed session requires the canonical workspace'')
     else
     sc_bind (io_unit (wo_create_dir_all io (pg_workspace_scratch_root p))) (\<lambda>_.
     sc_bind (io_unit (wo_create_dir_all io (pg_artifact_root p))) (\<lambda>_.
       for_general_now io p (pg_workspace_path p) (pg_workspace_scratch_root p) [])))"

definition final_tree_launcher :: "'w workspace_io \<Rightarrow> prepared_task \<Rightarrow> ('w, policy_launcher) prep" where
  "final_tree_launcher io p =
     sc_bind (check_digest io p) (\<lambda>_. sc_bind (validate_finalization_content io p) (\<lambda>_. build_launcher io p True))"

section \<open>Snapshot of a read-only workspace\<close>

definition MAX_DIRECT_SNAPSHOT_ENTRIES :: nat where "MAX_DIRECT_SNAPSHOT_ENTRIES = 100000"

definition MAX_DIRECT_SNAPSHOT_BYTES :: nat where "MAX_DIRECT_SNAPSHOT_BYTES = 1073741824"

record snapshot =
  sn_hashed :: string
  sn_entries :: nat
  sn_bytes :: nat

definition hashed :: "string \<Rightarrow> snapshot \<Rightarrow> snapshot" where
  "hashed bytes st = st\<lparr>sn_hashed := sn_hashed st @ bytes\<rparr>"

definition ask_or :: "'e \<Rightarrow> ('s \<Rightarrow> 'a option) \<Rightarrow> ('s, 'e, 'a) cmd" where
  "ask_or e f = sc_bind (io_ask f) (sc_of e)"

text \<open>What one entry adds; \<open>down\<close> visits a directory.\<close>

definition visit_entry ::
    "'w workspace_io \<Rightarrow> (string \<Rightarrow> snapshot \<Rightarrow> ('w, snapshot) final) \<Rightarrow> string \<Rightarrow> entry_kind \<Rightarrow> snapshot \<Rightarrow> ('w, snapshot) final" where
  "visit_entry io down path kind st =
     (case kind of
        KindSymlink \<Rightarrow>
          sc_bind (ask_or ''READ_ONLY_SNAPSHOT_FAILED'' (wo_read_link io path)) (\<lambda>target.
            sc_ok (hashed (''symlink'' @ [NUL] @ target) st))
      | KindDir \<Rightarrow> down path (hashed (''directory'' @ [NUL]) st)
      | KindFile \<Rightarrow>
          sc_bind (io_ask (wo_len io path)) (\<lambda>len.
          if sn_bytes st + len > u64_max \<or> sn_bytes st + len > MAX_DIRECT_SNAPSHOT_BYTES
          then sc_fail ''READ_ONLY_SNAPSHOT_LIMIT_EXCEEDED''
          else
          sc_bind (ask_or ''READ_ONLY_SNAPSHOT_FAILED'' (wo_read io path)) (\<lambda>content.
            sc_ok (hashed (''file'' @ [NUL] @ content) (st\<lparr>sn_bytes := sn_bytes st + len\<rparr>))))
      | KindOther \<Rightarrow> sc_fail ''READ_ONLY_SNAPSHOT_UNSUPPORTED_ENTRY'')"

text \<open>The directories of git and of the agents at the root are left out.\<close>

definition left_out :: "string \<Rightarrow> bool" where
  "left_out relative =
     (case components relative of Normal name # _ \<Rightarrow> name = ''.git'' \<or> name = ''.agent-work'' | _ \<Rightarrow> False)"

fun visit_children ::
    "'w workspace_io \<Rightarrow> string \<Rightarrow> (string \<Rightarrow> snapshot \<Rightarrow> ('w, snapshot) final) \<Rightarrow> string list \<Rightarrow> snapshot \<Rightarrow> ('w, snapshot) final" where
  "visit_children io root down [] st = sc_ok st"
| "visit_children io root down (path # rest) st =
     (case path_strip_prefix root path of
        None \<Rightarrow> sc_fail ''READ_ONLY_SNAPSHOT_FAILED''
      | Some relative \<Rightarrow>
          if left_out relative then visit_children io root down rest st
          else if sn_entries st + 1 > MAX_DIRECT_SNAPSHOT_ENTRIES then sc_fail ''READ_ONLY_SNAPSHOT_LIMIT_EXCEEDED''
          else
            sc_bind (ask_or ''READ_ONLY_SNAPSHOT_FAILED'' (wo_kind io path)) (\<lambda>kind.
            sc_bind (visit_entry io down path kind (hashed (relative @ [NUL]) (st\<lparr>sn_entries := sn_entries st + 1\<rparr>))) (\<lambda>st'.
              visit_children io root down rest (hashed [CHR 0xFF] st'))))"

text \<open>\<open>depth\<close> bounds the nesting; every directory counts as an entry, so the limit on entries is reached first.\<close>

fun visit :: "nat \<Rightarrow> 'w workspace_io \<Rightarrow> string \<Rightarrow> string \<Rightarrow> snapshot \<Rightarrow> ('w, snapshot) final" where
  "visit 0 io root directory st = sc_panic"
| "visit (Suc depth) io root directory st =
     sc_bind (ask_or ''READ_ONLY_SNAPSHOT_FAILED'' (wo_read_dir io directory)) (\<lambda>names.
       visit_children io root (visit depth io root) (map (path_join directory) (sort names)) st)"

definition direct_workspace_snapshot :: "'w workspace_io \<Rightarrow> string \<Rightarrow> ('w, string) final" where
  "direct_workspace_snapshot io root =
     sc_bind (visit (Suc MAX_DIRECT_SNAPSHOT_ENTRIES) io root root \<lparr>sn_hashed = [], sn_entries = 0, sn_bytes = 0\<rparr>) (\<lambda>st.
       sc_ok (hash io (sn_hashed st)))"

section \<open>Clean-up\<close>

definition path_ancestors :: "string \<Rightarrow> string list" where
  "path_ancestors p =
     (let cs = components p in map (\<lambda>n. render (take n cs)) (rev [(if is_absolute p then 1 else 0)..<Suc (length cs)]))"

definition cleanup_direct_task_root_path :: "'w workspace_io \<Rightarrow> string \<Rightarrow> ('w, unit) prep" where
  "cleanup_direct_task_root_path io task_root =
     sc_bind (exists io task_root) (\<lambda>present.
     if \<not> present then sc_ok ()
     else
     sc_bind (canonicalize io task_root) (\<lambda>root.
     sc_bind (sc_of (WorktreeError ''direct task root has no scratch ancestor'')
                (find (\<lambda>a. file_name a = Some ''scratch'') (path_ancestors root))) (\<lambda>scratch.
       if path_eq root scratch \<or> \<not> path_starts_with scratch root then sc_fail (PathEscape root scratch)
       else io_unit (wo_remove_dir_all io root))))"

definition cleanup_task_root_path :: "'w workspace_io \<Rightarrow> string \<Rightarrow> ('w, unit) prep" where
  "cleanup_task_root_path io task_root =
     sc_bind (exists io task_root) (\<lambda>present.
     if \<not> present then sc_ok ()
     else
     sc_bind (canonicalize io task_root) (\<lambda>root.
     sc_bind (sc_of (WorktreeError ''task root has no parent'') (path_parent root)) (\<lambda>parent.
     sc_bind (io_ask (\<lambda>w. find (\<lambda>a. wo_exists io (path_join a ''.git'') w) (path_ancestors root))) (\<lambda>found.
     sc_bind (sc_of (WorktreeError ''task root has no repository ancestor'') found) (\<lambda>repository.
       if file_name root = None \<or> path_eq root parent \<or> \<not> path_starts_with (path_join repository ''.agent-work/scratch'') root
          \<or> list_ex (\<lambda>c. as_os_str c = ''.git'') (components root)
       then sc_fail (PathEscape root parent)
       else
         sc_bind (io_unit (wo_remove_dir_all io root)) (\<lambda>_.
         sc_bind (exists io root) (\<lambda>left.
           sc_require (\<not> left) (WorktreeError ''task root remains after cleanup''))))))))"

definition manager :: "'w workspace_io \<Rightarrow> prepared_task \<Rightarrow> ('w, worktree_manager) prep" where
  "manager io p =
     sc_bind (sc_of (WorktreeError ''missing task root'') (task_root_of p)) (WorktreeManager_new io (pg_repository p))"

definition succeeds :: "('s, 'e, 'a) cmd \<Rightarrow> ('s, 'f, bool) cmd" where
  "succeeds m = sc_bind (sc_try m) (\<lambda>r. sc_ok (case r of Inr x \<Rightarrow> True | Inl e \<Rightarrow> False))"

definition run_ok :: "string + git_run \<Rightarrow> bool" where
  "run_ok r = (case r of Inr out \<Rightarrow> run_success out | Inl e \<Rightarrow> False)"

text \<open>The registered worktree is detached at its head and removed through a cleanup record.\<close>

definition remove_task_worktree :: "'w workspace_io \<Rightarrow> prepared_task \<Rightarrow> worktree_manager \<Rightarrow> ('w, 'e, bool) cmd" where
  "remove_task_worktree io p m =
     sc_bind (sc_try (git_bytes io (pw_path (pg_worktree p)) [''rev-parse'', ''HEAD''])) (\<lambda>head.
     case head of
       Inl e \<Rightarrow> sc_ok False
     | Inr raw \<Rightarrow>
         if \<not> utf8_valid raw then sc_ok False
         else
         sc_bind (sc_try (safe_git_output io (pw_path (pg_worktree p)) [''symbolic-ref'', ''-q'', ''HEAD''])) (\<lambda>symbolic.
         sc_bind (if run_ok symbolic
                  then sc_bind (sc_try (safe_git_output io (pw_path (pg_worktree p)) [''checkout'', ''--detach'', trim raw]))
                         (\<lambda>r. sc_ok (run_ok r))
                  else sc_ok True) (\<lambda>detached.
         if \<not> detached then sc_ok False
         else
           (let t = (pg_worktree p)\<lparr>pw_head_sha := trim raw\<rparr> in
            succeeds (sc_bind (capture_integrity io m t) (\<lambda>d.
                      sc_bind (persist_integrity io m t d) (cleanup_from_record io m)))))))"

definition cleanup_after_failure :: "'w workspace_io \<Rightarrow> prepared_task \<Rightarrow> ('w, 'e, bool) cmd" where
  "cleanup_after_failure io p =
     (if pg_direct_workspace p
      then (case task_root_of p of
              None \<Rightarrow> sc_ok False
            | Some task_root \<Rightarrow> succeeds (cleanup_direct_task_root_path io task_root))
      else
        sc_bind (sc_try (manager io p)) (\<lambda>managed.
        case managed of
          Inl e \<Rightarrow> sc_ok False
        | Inr m \<Rightarrow>
            sc_bind (exists io (pw_path (pg_worktree p))) (\<lambda>present.
            sc_bind (if present then remove_task_worktree io p m else sc_ok True) (\<lambda>removed.
            if \<not> removed then sc_ok False
            else case task_root_of p of
              None \<Rightarrow> sc_ok False
            | Some task_root \<Rightarrow>
                sc_bind (exists io task_root) (\<lambda>rooted.
                if \<not> rooted then succeeds (verify_registration_absent io m (pw_path (pg_worktree p)))
                else
                sc_bind (exists io (pw_path (pg_worktree p))) (\<lambda>still.
                sc_bind (if still then sc_ok False else succeeds (verify_registration_absent io m (pw_path (pg_worktree p)))) (\<lambda>gone.
                if gone then succeeds (cleanup_task_root_path io task_root)
                else
                sc_bind (succeeds (verify_worktree_absent io m (pg_worktree p))) (\<lambda>absent.
                if \<not> absent then sc_ok False else succeeds (cleanup_task_root_path io task_root)))))))))"

definition cleanup_if_trusted :: "'w workspace_io \<Rightarrow> prepared_task \<Rightarrow> ('w, 'e, bool) cmd" where
  "cleanup_if_trusted io p =
     (if validate_digest (wo_env io) (wo_serde io) p then cleanup_after_failure io p else sc_ok False)"

definition cleanup_failed_artifact_outputs :: "'w workspace_io \<Rightarrow> prepared_task \<Rightarrow> ('w, 'e, unit) cmd" where
  "cleanup_failed_artifact_outputs io p =
     (let path = path_join (pg_artifact_root p) ''changes.patch'' in
      sc_when (parent_is (pg_artifact_root p) path) (sc_bind (io_do (wo_remove_file io path)) (\<lambda>_. sc_ok ())))"

end
