(* ===== verification/Final_Patch.thy ===== *)
theory Final_Patch
  imports Finalizer
begin

text \<open>
  The patch of the files a task changed, and \<^verbatim>\<open>GeneralFinalizer\<close> itself.
\<close>

section \<open>Checks before and after the commit\<close>

definition git_config_absent :: "'w workspace_io \<Rightarrow> string \<Rightarrow> string list \<Rightarrow> ('w, unit) final" where
  "git_config_absent io repository args =
     sc_bind (safe_git_output io repository args) (\<lambda>out.
       if run_success out \<and> run_stdout out \<noteq> [] then sc_fail ''UNSAFE_GIT_CONFIG''
       else if \<not> run_success out \<and> gr_code out \<noteq> Some 1 then sc_fail ''GIT_CONFIG_CHECK_FAILED''
       else sc_ok ())"

definition reject_unsafe_repository_config :: "'w workspace_io \<Rightarrow> string \<Rightarrow> ('w, unit) final" where
  "reject_unsafe_repository_config io repository =
     sc_bind (git_config_absent io repository
       [''config'', ''--local'', ''--get-regexp'', ''^(filter'' @ [CHR 0x5C] @ ''.|diff'' @ [CHR 0x5C] @ ''.)'']) (\<lambda>_.
       git_config_absent io repository [''config'', ''--local'', ''--get'', ''core.fsmonitor''])"

definition prefinalization_integrity :: "'w workspace_io \<Rightarrow> prepared_task \<Rightarrow> worktree_manager \<Rightarrow> ('w, unit) final" where
  "prefinalization_integrity io p m =
     sc_bind (reject_unsafe_repository_config io (pw_path (pg_worktree p))) (\<lambda>_.
     sc_bind (sc_map_err (\<lambda>_. ''PREFINALIZATION_HEAD_INVALID'') (capture_integrity io m (pg_worktree p))) (\<lambda>d.
       if (if pg_direct_workspace p
           then \<not> id_refs_unchanged d
           else \<not> source_integrity_preserved d \<or> \<not> id_detached_head_unchanged d)
          \<or> id_observed_head d \<noteq> Some (pg_base_sha p) \<or> pw_head_sha (pg_worktree p) \<noteq> pg_base_sha p \<or> id_staged_diff d \<noteq> []
       then sc_fail ''PREFINALIZATION_HEAD_INVALID'' else sc_ok ()))"

definition reject_gitlinks :: "'w workspace_io \<Rightarrow> string \<Rightarrow> ('w, unit) final" where
  "reject_gitlinks io repository =
     sc_bind (git_bytes io repository
       [''diff'', ''--cached'', ''--raw'', ''--no-abbrev'', ''-z'', ''--no-ext-diff'', ''--no-textconv'']) (\<lambda>raw.
     case raw_diff_has_gitlink raw of
       Some True \<Rightarrow> sc_fail ''GITLINK_CHANGE_DENIED''
     | Some False \<Rightarrow> sc_ok ()
     | None \<Rightarrow> sc_fail ''GIT_RAW_DIFF_INVALID'')"

text \<open>\<^verbatim>\<open>split_whitespace\<close>: the maximal runs of characters that are not white space.\<close>

definition split_whitespace :: "string \<Rightarrow> string list" where
  "split_whitespace s =
     (let (done, last) = foldl (\<lambda>(done, cur) c. if is_whitespace c then (if cur = [] then done else done @ [cur], []) else (done, cur @ c))
        ([], []) (utf8_chars s)
      in if last = [] then done else done @ [last])"

definition validate_final_commit :: "'w workspace_io \<Rightarrow> string \<Rightarrow> string \<Rightarrow> string \<Rightarrow> ('w, unit) final" where
  "validate_final_commit io repository base head =
     sc_bind (git_bytes io repository [''rev-list'', ''--parents'', ''-n'', ''1'', head]) (\<lambda>parents.
     if \<not> utf8_valid parents then sc_fail ''FINAL_COMMIT_INVALID''
     else if split_whitespace parents \<noteq> [head, base] then sc_fail ''FINAL_COMMIT_LINEAGE_INVALID''
     else
     sc_bind (safe_git_output io repository [''symbolic-ref'', ''-q'', ''HEAD'']) (\<lambda>symbolic.
       if run_success symbolic \<or> gr_code symbolic \<noteq> Some 1 then sc_fail ''FINAL_HEAD_NOT_DETACHED'' else sc_ok ()))"

section \<open>Changed paths\<close>

definition check_changed_path :: "(string \<Rightarrow> string \<Rightarrow> bool) \<Rightarrow> string list \<Rightarrow> string \<Rightarrow> string + unit" where
  "check_changed_path covers write_manifest path =
     (case confined_relative path of
        Inl e \<Rightarrow> Inl ''CHANGED_PATH_INVALID''
      | Inr relative \<Rightarrow>
          (case reject_protected relative of
             Inl e \<Rightarrow> Inl ''PROTECTED_PATH_CHANGED''
           | Inr u \<Rightarrow>
               if \<not> list_ex (\<lambda>root. covers root relative) write_manifest then Inl ''CHANGED_PATH_NOT_ALLOWLISTED'' else Inr ()))"

definition covers_direct :: "string \<Rightarrow> string \<Rightarrow> bool" where
  "covers_direct root relative \<longleftrightarrow> path_eq root ''.'' \<or> path_starts_with root relative"

definition check_changed_paths :: "(string \<Rightarrow> string \<Rightarrow> bool) \<Rightarrow> prepared_task \<Rightarrow> string list \<Rightarrow> ('w, unit) final" where
  "check_changed_paths covers p paths =
     sc_bind (sc_each (\<lambda>path. sc_result (check_changed_path covers (pg_write_manifest p) path)) paths) (\<lambda>_. sc_ok ())"

definition changed_paths_of :: "'w workspace_io \<Rightarrow> string \<Rightarrow> ('w, string list) final" where
  "changed_paths_of io repository =
     sc_bind (git_bytes io repository [''status'', ''--porcelain=v1'', ''-z'', ''--untracked-files=all'']) (\<lambda>status.
       sc_lift (parse_status_paths status))"

text \<open>The patch is written, read back and described.\<close>

definition publish_patch :: "'w workspace_io \<Rightarrow> prepared_task \<Rightarrow> string \<Rightarrow> ('w, string) final" where
  "publish_patch io p patch =
     (let path = path_join (pg_artifact_root p) ''changes.patch'' in
      if length patch > max_artifact_bytes (pg_effective_budget p) then sc_fail ''ARTIFACT_LIMIT_EXCEEDED''
      else
      sc_bind (sc_map_err (\<lambda>_. ''ARTIFACT_WRITE_FAILED'') (atomic_write io path patch)) (\<lambda>_.
      sc_bind (sc_map_err (\<lambda>_. ''AUTHORITATIVE_ARTIFACT_INVALID'') (verify_file io path (hash io patch) (Some (length patch)))) (\<lambda>_.
        sc_ok (hash io patch))))"

definition changes_of :: "'w workspace_io \<Rightarrow> prepared_task \<Rightarrow> string \<Rightarrow> string \<Rightarrow> string option \<Rightarrow> string \<Rightarrow> string list
    \<Rightarrow> string option \<Rightarrow> changes_patch" where
  "changes_of io p patch digest head base paths diff_stat =
     \<lparr>cp_artifact_id = hash io (pg_agent_id p @ '':'' @ digest), cp_sha256 = digest, cp_size_bytes = length patch,
      cp_head_commit = head, cp_base_sha = base, cp_changed_paths = paths, cp_diff_stat = diff_stat\<rparr>"

definition head_of :: "'w workspace_io \<Rightarrow> string \<Rightarrow> ('w, string) final" where
  "head_of io repository =
     sc_bind (git_bytes io repository [''rev-parse'', ''HEAD'']) (\<lambda>raw.
       if \<not> utf8_valid raw then sc_fail ''GIT_HEAD_INVALID'' else sc_ok (trim raw))"

definition diff_of_path :: "'w workspace_io \<Rightarrow> prepared_task \<Rightarrow> string \<Rightarrow> ('w, string) final" where
  "diff_of_path io p path =
     sc_bind (sc_map_err (\<lambda>_. ''GIT_STATUS_CHECK_FAILED'')
       (safe_git_output io (pg_repository p) [''ls-files'', ''--error-unmatch'', ''--'', path])) (\<lambda>listed.
     sc_bind (sc_map_err (\<lambda>_. ''GIT_DIFF_FAILED'')
       (safe_git_output io (pg_repository p)
          (if run_success listed then [''diff'', ''--binary'', ''--no-ext-diff'', ''--no-textconv'', ''HEAD'', ''--'', path]
           else [''diff'', ''--no-index'', ''--binary'', ''/dev/null'', path]))) (\<lambda>out.
       if \<not> run_success out \<and> \<not> run_success listed \<and> gr_code out \<noteq> Some 1 then sc_fail ''GIT_DIFF_FAILED''
       else sc_ok (run_stdout out)))"

definition finalize_direct_patch :: "'w workspace_io \<Rightarrow> prepared_task \<Rightarrow> ('w, changes_patch option) final" where
  "finalize_direct_patch io p =
     sc_bind (exists io (path_join (pg_repository p) ''.git'')) (\<lambda>versioned.
     if \<not> versioned then sc_ok None
     else
     sc_bind (changed_paths_of io (pg_repository p)) (\<lambda>changed.
     let paths = filter (\<lambda>q. \<not> path_starts_with ''.agent-work'' q) changed in
     if paths = [] then sc_ok None
     else
     sc_bind (check_changed_paths covers_direct p paths) (\<lambda>_.
     sc_bind (head_of io (pg_repository p)) (\<lambda>head.
     sc_bind (sc_each (diff_of_path io p) paths) (\<lambda>pieces.
     let patch = concat pieces in
     if patch = [] then sc_fail ''PATCH_EMPTY_FOR_CHANGED_WORKSPACE''
     else
     sc_bind (publish_patch io p patch) (\<lambda>digest.
       sc_ok (Some (changes_of io p patch digest None head paths None))))))))"

definition commit_arguments :: "string list" where
  "commit_arguments = [''-c'', ''user.name=zcode-agentd'', ''-c'', ''user.email=zcode-agentd@localhost'', ''-c'', ''commit.gpgSign=false'',
     ''commit'', ''--no-verify'', ''--no-gpg-sign'', ''-m'', ''chore(agent): finalize bounded task result'']"

definition stage_or_fail :: "'w workspace_io \<Rightarrow> string \<Rightarrow> string list \<Rightarrow> string \<Rightarrow> ('w, unit) final" where
  "stage_or_fail io repository args code =
     sc_bind (sc_map_err (\<lambda>_. code) (safe_git_output io repository args)) (\<lambda>out. sc_require (run_success out) code)"

definition finalize_patch :: "'w workspace_io \<Rightarrow> prepared_task \<Rightarrow> ('w, changes_patch option) final" where
  "finalize_patch io p =
     (let tree = pw_path (pg_worktree p) in
      sc_bind (changed_paths_of io tree) (\<lambda>paths.
      if paths = [] then (if pg_retain_partial p then sc_ok None else sc_fail ''IMPLEMENTATION_HAS_NO_CHANGES'')
      else
      sc_bind (check_changed_paths path_starts_with p paths) (\<lambda>_.
      sc_bind (stage_or_fail io tree ([''add'', ''--''] @ paths) ''GIT_STAGE_FAILED'') (\<lambda>_.
      sc_bind (reject_gitlinks io tree) (\<lambda>_.
      sc_bind (stage_or_fail io tree commit_arguments ''GIT_COMMIT_FAILED'') (\<lambda>_.
      sc_bind (head_of io tree) (\<lambda>head.
      sc_bind (validate_final_commit io tree (pg_base_sha p) head) (\<lambda>_.
      sc_bind (git_bytes io tree [''diff'', ''--binary'', ''--no-ext-diff'', ''--no-textconv'', pg_base_sha p, head]) (\<lambda>patch.
      sc_bind (git_bytes io tree [''diff'', ''--binary'', ''--no-ext-diff'', ''--no-textconv'', pg_base_sha p, head]) (\<lambda>repeated.
      if patch \<noteq> repeated then sc_fail ''PATCH_NOT_DETERMINISTIC''
      else
      sc_bind (publish_patch io p patch) (\<lambda>digest.
      sc_bind (git_bytes io tree [''diff'', ''--stat'', ''--no-ext-diff'', ''--no-textconv'', pg_base_sha p, head]) (\<lambda>diff_stat.
      if \<not> utf8_valid diff_stat then sc_fail ''DIFF_STAT_INVALID''
      else sc_ok (Some (changes_of io p patch digest (Some head) (pg_base_sha p) paths (Some diff_stat)))))))))))))))"

section \<open>The finalizer\<close>

definition validate_direct_workspace_identity :: "'w workspace_io \<Rightarrow> prepared_task \<Rightarrow> ('w, unit) final" where
  "validate_direct_workspace_identity io p =
     sc_bind (sc_map_err (\<lambda>_. ''WORKSPACE_IDENTITY_INVALID'') (canonicalize io (pg_repository p))) (\<lambda>repository.
     sc_bind (sc_map_err (\<lambda>_. ''WORKSPACE_IDENTITY_INVALID'') (canonicalize io (pw_path (pg_worktree p)))) (\<lambda>workspace.
       sc_require (path_eq repository (pg_repository p) \<and> path_eq workspace repository
         \<and> path_eq (pw_repository (pg_worktree p)) repository \<and> pg_base_sha p = [] \<and> pw_head_sha (pg_worktree p) = [])
         ''WORKSPACE_IDENTITY_INVALID''))"

definition completion_of :: "completion_outcome \<Rightarrow> string \<Rightarrow> string list \<Rightarrow> string list \<Rightarrow> changes_patch option \<Rightarrow> general_completion" where
  "completion_of outcome summary checks gaps patch =
     \<lparr>gc_outcome = outcome, gc_reason_code = None, gc_summary = summary, gc_checks = checks, gc_residual_gaps = gaps,
      gc_changes_patch = patch, gc_cleaned = False\<rparr>"

definition read_only_unchanged :: "'w workspace_io \<Rightarrow> prepared_task \<Rightarrow> ('w, unit) final" where
  "read_only_unchanged io p =
     sc_bind (sc_of ''READ_ONLY_SNAPSHOT_MISSING'' (pg_direct_read_only_snapshot_sha256 p)) (\<lambda>expected.
     sc_bind (direct_workspace_snapshot io (pg_repository p)) (\<lambda>now.
       sc_require (now = expected) ''READ_ONLY_MODIFIED_TRACKED_STATE''))"

definition retained :: "prepared_task \<Rightarrow> completion_outcome \<Rightarrow> bool" where
  "retained p requested \<longleftrightarrow> \<not> pg_direct_workspace p \<and> (requested = CompletionCompleted
     \<or> (pg_retain_partial p \<and> requested \<in> {CompletionFailed, CompletionCancelled, CompletionTimedOut, CompletionBudgetExhausted}))"

definition finalize_worktree :: "'w workspace_io \<Rightarrow> prepared_task \<Rightarrow> completion_outcome \<Rightarrow> ('w, changes_patch option) final" where
  "finalize_worktree io p requested =
     sc_bind (sc_map_err (\<lambda>_. ''WORKTREE_IDENTITY_INVALID'') (manager io p)) (\<lambda>m.
     sc_bind (prefinalization_integrity io p m) (\<lambda>_.
     sc_bind (ensure_directory_empty io (pg_artifact_root p) ''ARTIFACT_ROOT_NOT_EMPTY'') (\<lambda>_.
     sc_bind (case pg_access_mode p of
                ReadOnly \<Rightarrow>
                  if pg_direct_workspace p then sc_ok None
                  else sc_bind (sc_map_err (\<lambda>_. ''WORKTREE_INTEGRITY_FAILED'') (capture_integrity io m (pg_worktree p))) (\<lambda>d.
                         if \<not> id_worktree_clean d then sc_fail ''READ_ONLY_MODIFIED_TRACKED_STATE'' else sc_ok None)
              | WorkspaceWrite \<Rightarrow> if retained p requested then finalize_patch io p else sc_ok None) (\<lambda>patch.
     if pg_direct_workspace p then sc_ok patch
     else
     sc_bind (sc_map_err (\<lambda>_. ''WORKTREE_INTEGRITY_FAILED'') (capture_integrity io m
                (case Option.bind patch cp_head_commit of
                   Some head \<Rightarrow> (pg_worktree p)\<lparr>pw_head_sha := head\<rparr> | None \<Rightarrow> pg_worktree p))) (\<lambda>d.
       if \<not> source_integrity_preserved d then sc_fail ''SOURCE_INTEGRITY_FAILED'' else sc_ok patch)))))"

definition finalize_direct :: "'w workspace_io \<Rightarrow> prepared_task \<Rightarrow> ('w, changes_patch option) final" where
  "finalize_direct io p =
     sc_bind (ensure_directory_empty io (pg_artifact_root p) ''ARTIFACT_ROOT_NOT_EMPTY'') (\<lambda>_.
     sc_bind (validate_direct_workspace_identity io p) (\<lambda>_. finalize_direct_patch io p))"

definition try_finalize ::
    "'w workspace_io \<Rightarrow> prepared_task \<Rightarrow> completion_outcome \<Rightarrow> string \<Rightarrow> string list \<Rightarrow> string list \<Rightarrow> bool
     \<Rightarrow> ('w, general_completion) final" where
  "try_finalize io p requested summary checks gaps resumed =
     sc_bind (sc_map_err (\<lambda>_. ''PREPARED_TASK_INVALID'') (check_digest io p)) (\<lambda>_.
     if resumed \<and> \<not> pg_direct_workspace p then sc_fail ''RESUME_WORKSPACE_UNAVAILABLE''
     else
     sc_bind (sc_when (\<not> resumed \<and> pg_direct_workspace p \<and> pg_access_mode p = ReadOnly) (read_only_unchanged io p)) (\<lambda>_.
     sc_bind (sc_when (\<not> resumed) (sc_map_err (\<lambda>_. ''PREPARED_CONTENT_INVALID'') (validate_finalization_content io p))) (\<lambda>_.
     sc_bind (if pg_direct_workspace p then finalize_direct io p else finalize_worktree io p requested) (\<lambda>patch.
       sc_ok (completion_of requested summary checks gaps patch)))))"

definition prepare_completion ::
    "'w workspace_io \<Rightarrow> prepared_task \<Rightarrow> completion_outcome \<Rightarrow> string \<Rightarrow> string list \<Rightarrow> string list \<Rightarrow> bool
     \<Rightarrow> ('w, 'e, general_completion) cmd" where
  "prepare_completion io p requested summary checks gaps resumed =
     sc_bind (sc_try (try_finalize io p requested summary checks gaps resumed)) (\<lambda>r.
     case r of
       Inr completion \<Rightarrow> sc_ok completion
     | Inl code \<Rightarrow>
         sc_bind (sc_when (code \<noteq> ''ARTIFACT_ROOT_NOT_EMPTY'') (cleanup_failed_artifact_outputs io p)) (\<lambda>_.
         sc_bind (cleanup_if_trusted io p) (\<lambda>cleaned.
           sc_ok ((completion_of CompletionResultInvalid summary checks gaps None)\<lparr>gc_reason_code := Some code, gc_cleaned := cleaned\<rparr>))))"

definition attempted_codes :: "string set" where
  "attempted_codes = {''PREPARED_TASK_INVALID'', ''PREPARED_CONTENT_INVALID'', ''WORKTREE_IDENTITY_INVALID'',
     ''PREFINALIZATION_HEAD_INVALID'', ''ARTIFACT_ROOT_NOT_EMPTY'', ''READ_ONLY_MODIFIED_TRACKED_STATE''}"

definition cleanup_completion :: "'w workspace_io \<Rightarrow> prepared_task \<Rightarrow> general_completion \<Rightarrow> ('w, 'e, general_completion) cmd" where
  "cleanup_completion io p c =
     (if \<not> gc_cleaned c \<and> \<not> (case gc_reason_code c of Some code \<Rightarrow> code \<in> attempted_codes | None \<Rightarrow> False)
      then sc_bind (cleanup_after_failure io p) (\<lambda>cleaned.
             sc_ok (if cleaned then c\<lparr>gc_cleaned := True\<rparr>
                    else c\<lparr>gc_cleaned := False, gc_outcome := CompletionResultInvalid,
                           gc_reason_code := Some ''TASK_ROOT_CLEANUP_FAILED''\<rparr>))
      else sc_ok c)"

definition finish_with_resume :: "'w workspace_io \<Rightarrow> prepared_task \<Rightarrow> completion_outcome \<Rightarrow> bool \<Rightarrow> ('w, 'e, general_completion) cmd" where
  "finish_with_resume io p requested resumed =
     sc_bind (prepare_completion io p requested [] [] [] resumed) (cleanup_completion io p)"

definition finalize :: "'w workspace_io \<Rightarrow> prepared_task \<Rightarrow> completion_outcome \<Rightarrow> ('w, 'e, general_completion) cmd" where
  "finalize io p requested = finish_with_resume io p requested False"

definition finalize_resumed :: "'w workspace_io \<Rightarrow> prepared_task \<Rightarrow> completion_outcome \<Rightarrow> ('w, 'e, general_completion) cmd" where
  "finalize_resumed io p requested = finish_with_resume io p requested True"

definition finalize_completed_tree :: "'w workspace_io \<Rightarrow> prepared_task \<Rightarrow> ('w, 'e, general_completion) cmd" where
  "finalize_completed_tree io p = prepare_completion io p CompletionCompleted [] [] [] False"

definition finish_cleanup :: "'w workspace_io \<Rightarrow> prepared_task \<Rightarrow> general_completion \<Rightarrow> ('w, 'e, general_completion) cmd" where
  "finish_cleanup io p c = cleanup_completion io p c"

definition retry_cleanup :: "'w workspace_io \<Rightarrow> prepared_task \<Rightarrow> general_completion \<Rightarrow> ('w, 'e, general_completion) cmd" where
  "retry_cleanup io p c = sc_bind (cleanup_if_trusted io p) (\<lambda>cleaned. sc_ok (c\<lparr>gc_cleaned := cleaned\<rparr>))"

end
