(* ===== verification/Final_Props.thy ===== *)
theory Final_Props
  imports Final_Patch General_Props
begin

text \<open>
  What the finalizer guarantees: the paths of a published patch, the outcome of a completion, the
  bound on the depth of a snapshot, and what a direct task leaves alone.
\<close>

section \<open>Paths of a patch\<close>

definition path_allowed :: "(string \<Rightarrow> string \<Rightarrow> bool) \<Rightarrow> string list \<Rightarrow> string \<Rightarrow> bool" where
  "path_allowed covers manifest path \<longleftrightarrow>
     path \<noteq> [] \<and> \<not> is_absolute path \<and> ParentDir \<notin> set (components path)
     \<and> (let relative = render (components path) in
        list_all (\<lambda>c. as_os_str c \<notin> {''.git'', ''.agent-work'', ''.gitmodules''}) (components relative)
        \<and> list_ex (\<lambda>root. covers root relative) manifest)"

lemma check_changed_path_ok: "check_changed_path covers manifest path = Inr u \<Longrightarrow> path_allowed covers manifest path"
  by (auto simp: check_changed_path_def confined_relative_def reject_protected_def path_allowed_def Let_def list_ex_iff list_all_iff
      split: sum.splits if_splits)

lemma sc_each_all:
  "sc_each f xs s = (Some (Inr ys), t) \<Longrightarrow> (\<And>x s y t. f x s = (Some (Inr y), t) \<Longrightarrow> P x) \<Longrightarrow> list_all P xs"
  by (induction xs arbitrary: s t ys) (auto simp: sc_bind_ok)

lemma check_changed_paths_ok:
  "check_changed_paths covers p paths w = (Some (Inr u), w') \<Longrightarrow> list_all (path_allowed covers (pg_write_manifest p)) paths"
  by (auto simp: check_changed_paths_def elim!: sc_each_all dest: check_changed_path_ok)

definition patch_ok :: "(string \<Rightarrow> string \<Rightarrow> bool) \<Rightarrow> prepared_task \<Rightarrow> changes_patch \<Rightarrow> bool" where
  "patch_ok covers p cp \<longleftrightarrow> cp_changed_paths cp \<noteq> []
     \<and> list_all (path_allowed covers (pg_write_manifest p)) (cp_changed_paths cp)
     \<and> cp_size_bytes cp \<le> max_artifact_bytes (pg_effective_budget p)"

lemma publish_patch_ok: "publish_patch io p patch w = (Some (Inr d), w') \<Longrightarrow> length patch \<le> max_artifact_bytes (pg_effective_budget p)"
  by (auto simp: publish_patch_def Let_def split: if_splits)

lemma finalize_direct_patch_ok:
  "finalize_direct_patch io p w = (Some (Inr (Some cp)), w') \<Longrightarrow> patch_ok covers_direct p cp"
  by (auto simp: finalize_direct_patch_def Let_def patch_ok_def changes_of_def split: if_splits
      dest!: check_changed_paths_ok publish_patch_ok)

lemma finalize_patch_ok:
  "finalize_patch io p w = (Some (Inr (Some cp)), w') \<Longrightarrow> patch_ok path_starts_with p cp"
  by (auto simp: finalize_patch_def Let_def patch_ok_def changes_of_def split: if_splits
      dest!: check_changed_paths_ok publish_patch_ok)

definition covers_of :: "prepared_task \<Rightarrow> string \<Rightarrow> string \<Rightarrow> bool" where
  "covers_of p = (if pg_direct_workspace p then covers_direct else path_starts_with)"

lemma finalize_worktree_ok:
  assumes "finalize_worktree io p requested w = (Some (Inr (Some cp)), w')"
  shows "patch_ok path_starts_with p cp"
  using assms
  by (auto simp: finalize_worktree_def split: if_splits access_mode.splits dest!: finalize_patch_ok)

lemma try_finalize_ok:
  assumes "try_finalize io p requested summary checks gaps resumed w = (Some (Inr c), w')"
  shows "validate_digest (wo_env io) (wo_serde io) p \<and> gc_outcome c = requested \<and> gc_reason_code c = None
    \<and> gc_checks c = checks \<and> gc_summary c = summary \<and> \<not> gc_cleaned c
    \<and> (\<forall>cp. gc_changes_patch c = Some cp \<longrightarrow> patch_ok (covers_of p) p cp)"
  using assms
  by (auto simp: try_finalize_def completion_of_def check_digest_def covers_of_def finalize_direct_def split: if_splits
      dest!: finalize_direct_patch_ok finalize_worktree_ok)

section \<open>Outcomes\<close>

definition never_fails :: "('s, 'e, 'a) cmd \<Rightarrow> bool" where
  "never_fails m \<longleftrightarrow> (\<forall>s e t. m s \<noteq> (Some (Inl e), t))"

named_theorems total

lemma never_fails_rules [total]:
  "never_fails (sc_ok x)" "never_fails sc_panic" "never_fails (sc_try m)" "never_fails (io_ask f)" "never_fails (io_do g)"
  by (auto simp: never_fails_def sc_result_def sc_panic_def sc_try_def io_ask_def io_do_def split: prod.splits option.splits)

lemma never_fails_bind [total]: "never_fails m \<Longrightarrow> (\<And>x. never_fails (f x)) \<Longrightarrow> never_fails (sc_bind m f)"
  by (auto simp: never_fails_def sc_bind_def split: prod.splits option.splits sum.splits)

lemma never_fails_if [total]: "never_fails m \<Longrightarrow> never_fails n \<Longrightarrow> never_fails (if b then m else n)"
  by simp

lemma never_fails_option [total]:
  "never_fails m \<Longrightarrow> (\<And>x. never_fails (f x)) \<Longrightarrow> never_fails (case v of None \<Rightarrow> m | Some x \<Rightarrow> f x)"
  by (simp split: option.split)

lemma never_fails_sum [total]:
  "(\<And>e. never_fails (g e)) \<Longrightarrow> (\<And>x. never_fails (f x)) \<Longrightarrow> never_fails (case u of Inl e \<Rightarrow> g e | Inr x \<Rightarrow> f x)"
  by (simp split: sum.split)

lemma never_fails_when [total]: "never_fails m \<Longrightarrow> never_fails (sc_when b m)"
  by (simp add: sc_when_def never_fails_rules)

lemma cleanup_never_fails [total]:
  "never_fails (cleanup_after_failure io p)" "never_fails (cleanup_if_trusted io p)" "never_fails (cleanup_failed_artifact_outputs io p)"
  by (auto simp: cleanup_after_failure_def cleanup_if_trusted_def cleanup_failed_artifact_outputs_def succeeds_def exists_def
      remove_task_worktree_def Let_def intro!: total)

lemma prepare_completion_never_fails [total]: "never_fails (prepare_completion io p requested summary checks gaps resumed)"
  unfolding prepare_completion_def by (intro total)

lemma cleanup_completion_never_fails [total]: "never_fails (cleanup_completion io p c)"
  unfolding cleanup_completion_def by (intro total)

lemma finish_never_fails [total]:
  "never_fails (finish_with_resume io p requested resumed)" "never_fails (finish_cleanup io p c)"
  unfolding finish_with_resume_def finish_cleanup_def by (intro total)+

lemma never_failsD: "never_fails m \<Longrightarrow> m s = (r, t) \<Longrightarrow> r = None \<or> (\<exists>x. r = Some (Inr x))"
  by (cases r) (auto simp: never_fails_def, metis sum.exhaust)

definition completion_ok :: "'w workspace_io \<Rightarrow> prepared_task \<Rightarrow> completion_outcome \<Rightarrow> general_completion \<Rightarrow> bool" where
  "completion_ok io p requested c \<longleftrightarrow>
     (gc_outcome c = CompletionResultInvalid \<and> gc_reason_code c \<noteq> None
      \<or> gc_outcome c = requested \<and> gc_reason_code c = None \<and> validate_digest (wo_env io) (wo_serde io) p)
     \<and> (\<forall>cp. gc_changes_patch c = Some cp \<longrightarrow> patch_ok (covers_of p) p cp)
     \<and> (gc_cleaned c \<longrightarrow> validate_digest (wo_env io) (wo_serde io) p)"

lemma cleanup_if_trusted_true: "cleanup_if_trusted io p w = (Some (Inr True), w') \<Longrightarrow> validate_digest (wo_env io) (wo_serde io) p"
  by (auto simp: cleanup_if_trusted_def split: if_splits)

lemma prepare_completion_ok:
  assumes "prepare_completion io p requested summary checks gaps resumed w = (Some (Inr c), w')"
  shows "completion_ok io p requested c \<and> gc_checks c = checks"
  using assms unfolding prepare_completion_def
  by (auto simp: sc_try_ok completion_ok_def completion_of_def split: sum.splits dest!: try_finalize_ok cleanup_if_trusted_true)

lemma cleanup_completion_ok:
  assumes "cleanup_completion io p c w = (Some (Inr c'), w')"
  shows "gc_checks c' = gc_checks c \<and> gc_changes_patch c' = gc_changes_patch c
    \<and> (c' = c \<or> c' = c\<lparr>gc_cleaned := True\<rparr> \<or> gc_outcome c' = CompletionResultInvalid \<and> gc_reason_code c' = Some ''TASK_ROOT_CLEANUP_FAILED'' \<and> \<not> gc_cleaned c')
    \<and> (gc_outcome c' \<noteq> CompletionResultInvalid \<and> gc_reason_code c = None \<longrightarrow> gc_cleaned c')"
  using assms unfolding cleanup_completion_def by (auto split: if_splits option.splits)

lemma succeeds_ok: "succeeds m w = (Some (Inr True), w') \<Longrightarrow> \<exists>x. m w = (Some (Inr x), w')"
  by (auto simp: succeeds_def sc_try_ok split: sum.splits)

text \<open>
  What the clean-up of a task did to its root directory, in terms of the calls of the file system: the canonical root was
  handed to \<^verbatim>\<open>remove_dir_all\<close>, which succeeded as the last change (a detached task looks again that nothing is
  left), or the root was found absent (a detached task still asks git that its worktree is not registered).
\<close>

definition task_root_removed :: "'w workspace_io \<Rightarrow> prepared_task \<Rightarrow> 'w \<Rightarrow> bool" where
  "task_root_removed io p w' \<longleftrightarrow>
     (\<exists>root. task_root_of p = Some root
        \<and> ((\<exists>w canon. fs_canonicalize (wo_fs io w) root = Some canon \<and> wo_remove_dir_all io canon w = (True, w')
              \<and> (pg_direct_workspace p \<or> \<not> wo_exists io canon w'))
         \<or> \<not> wo_exists io root w'
         \<or> \<not> pg_direct_workspace p \<and> (\<exists>m w u. \<not> wo_exists io root w
              \<and> verify_registration_absent io m (pw_path (pg_worktree p)) w = (Some (Inr u), w'))))"

lemma io_unit_ok: "io_unit f w = (Some (Inr u), w') \<longleftrightarrow> f w = (True, w')"
  by (auto simp: io_unit_def io_do_def sc_bind_def sc_require_def sc_result_def split: prod.splits)

lemma canonicalize_ok: "canonicalize io p w = (Some (Inr q), w') \<longleftrightarrow> fs_canonicalize (wo_fs io w) p = Some q \<and> w' = w"
  by (auto simp: canonicalize_def canonical_or_io_def ok_or_def split: option.splits)

lemma direct_root_removed:
  assumes "cleanup_direct_task_root_path io root w = (Some (Inr u), w')"
  shows "(\<exists>canon. fs_canonicalize (wo_fs io w) root = Some canon \<and> wo_remove_dir_all io canon w = (True, w')) \<or> \<not> wo_exists io root w'"
  using assms by (auto simp: cleanup_direct_task_root_path_def exists_def io_ask_def canonicalize_ok io_unit_ok split: if_splits)

lemma root_path_removed:
  assumes "cleanup_task_root_path io root w = (Some (Inr u), w')"
  shows "(\<exists>canon. fs_canonicalize (wo_fs io w) root = Some canon \<and> wo_remove_dir_all io canon w = (True, w') \<and> \<not> wo_exists io canon w')
    \<or> \<not> wo_exists io root w'"
  using assms by (auto simp: cleanup_task_root_path_def exists_def io_ask_def canonicalize_ok io_unit_ok split: if_splits)

lemma cleanup_removes_root:
  assumes "cleanup_after_failure io p w = (Some (Inr True :: 'e + bool), w')"
  shows "task_root_removed io p w'"
proof (cases "pg_direct_workspace p")
  case True
  then obtain root where root: "task_root_of p = Some root" "succeeds (cleanup_direct_task_root_path io root) w = (Some (Inr True :: 'e + bool), w')"
    using assms by (auto simp: cleanup_after_failure_def split: option.splits)
  then show ?thesis using True succeeds_ok [OF root(2)] by (auto simp: task_root_removed_def dest!: direct_root_removed)
next
  case False
  let ?asked = "\<lambda>m v. verify_registration_absent io m (pw_path (pg_worktree p)) v"
  have "\<exists>root. task_root_of p = Some root \<and> ((\<exists>m v u. \<not> wo_exists io root v \<and> ?asked m v = (Some (Inr u), w'))
      \<or> (\<exists>v u. cleanup_task_root_path io root v = (Some (Inr u), w')))"
    using assms False
    by (auto simp: cleanup_after_failure_def exists_def io_ask_def split: option.splits sum.splits if_splits dest!: succeeds_ok) blast+
  then show ?thesis
    using False by (fastforce simp: task_root_removed_def dest: root_path_removed)
qed

lemma prepared_completion_removed:
  assumes "prepare_completion io p requested summary checks gaps resumed w = (Some (Inr c), w')" and "gc_cleaned c"
  shows "task_root_removed io p w'"
  using assms unfolding prepare_completion_def
  by (auto simp: sc_try_ok completion_of_def cleanup_if_trusted_def split: sum.splits if_splits dest!: try_finalize_ok cleanup_removes_root)

lemma cleaned_completion_removed:
  assumes "cleanup_completion io p c w = (Some (Inr c'), w')" and "gc_cleaned c'"
  shows "task_root_removed io p w' \<or> w' = w \<and> c' = c"
  using assms unfolding cleanup_completion_def by (auto split: if_splits option.splits dest!: cleanup_removes_root)


definition demo_workspace :: "bool \<Rightarrow> 'w workspace_io" where
  "demo_workspace versioned = \<lparr>wo_env = demo_reader JNull, wo_serde = demo_serde demo_prepared, wo_encode_record = (\<lambda>_. []),
     wo_decode_record = (\<lambda>_. None), wo_pid = 1,
     wo_fs = (\<lambda>_. \<lparr>fs_canonicalize = Some, fs_symlink_metadata = \<lambda>_. EntryFound, fs_is_dir = \<lambda>_. True, fs_is_file = \<lambda>_. True\<rparr>),
     wo_kind = (\<lambda>_ _. Some KindDir), wo_len = (\<lambda>_ _. 0), wo_exists = (\<lambda>p _. versioned \<and> p = ''/w/.git''), wo_read = (\<lambda>_ _. None),
     wo_read_dir = (\<lambda>_ _. Some []), wo_read_link = (\<lambda>_ _. None), wo_write = (\<lambda>_ _ w. (True, w)), wo_rename = (\<lambda>_ _ w. (True, w)),
     wo_create_dir_all = (\<lambda>_ w. (True, w)), wo_remove_file = (\<lambda>_ w. (True, w)), wo_remove_dir_all = (\<lambda>_ w. (True, w)),
     wo_run_git = (\<lambda>_ w. (Some \<lparr>gr_code = Some 0, gr_stdout = ['' M a'' @ [NUL]], gr_stdout_failed = False, gr_stderr = [],
        gr_stderr_failed = False\<rparr>, w))\<rparr>"

lemmas demo_final = demo_workspace_def demo_prepared_def demo_worktree_def demo_serde_def demo_reader_def

lemma demo_finalized:
  "finish_with_resume (demo_workspace False) (demo_prepared\<lparr>pg_prepared_sha256 := ''d''\<rparr>) CompletionCompleted True ()
     = (Some (Inr ((completion_of CompletionCompleted [] [] [] None)\<lparr>gc_cleaned := True\<rparr>)), ())"
  by (simp add: finish_with_resume_def prepare_completion_def try_finalize_def check_digest_def validate_digest_def prepared_digest_def
      finalize_direct_def ensure_directory_empty_def validate_direct_workspace_identity_def finalize_direct_patch_def
      cleanup_completion_def cleanup_after_failure_def task_root_of_def cleanup_direct_task_root_path_def succeeds_def
      canonicalize_def canonical_or_io_def exists_def completion_of_def demo_final path_eval path_eq_def sc_run)


section \<open>Snapshots\<close>

definition visited :: "(string \<Rightarrow> snapshot \<Rightarrow> ('w, snapshot) final) \<Rightarrow> nat \<Rightarrow> bool" where
  "visited down n \<longleftrightarrow> (\<forall>d st w r w'. sn_entries st \<le> MAX_DIRECT_SNAPSHOT_ENTRIES \<and> MAX_DIRECT_SNAPSHOT_ENTRIES < sn_entries st + n
     \<and> down d st w = (r, w') \<longrightarrow>
     r \<noteq> None \<and> (\<forall>st'. r = Some (Inr st') \<longrightarrow> sn_entries st \<le> sn_entries st' \<and> sn_entries st' \<le> MAX_DIRECT_SNAPSHOT_ENTRIES))"

lemma hashed_entries [simp]: "sn_entries (hashed b st) = sn_entries st"
  by (simp add: hashed_def)

lemma ask_or_run: "ask_or e f s = (Some (ok_or e (f s)), s)"
  by (simp add: ask_or_def sc_run)

lemma visitedD:
  assumes "visited down n" and "down d st w = (r, w')" and "sn_entries st \<le> MAX_DIRECT_SNAPSHOT_ENTRIES"
    and "MAX_DIRECT_SNAPSHOT_ENTRIES < sn_entries st + n"
  shows "r \<noteq> None \<and> (\<forall>st'. r = Some (Inr st') \<longrightarrow> sn_entries st \<le> sn_entries st' \<and> sn_entries st' \<le> MAX_DIRECT_SNAPSHOT_ENTRIES)"
  using assms unfolding visited_def by blast

lemma visit_entry_ok:
  assumes "visited down n" and "sn_entries st \<le> MAX_DIRECT_SNAPSHOT_ENTRIES" and "MAX_DIRECT_SNAPSHOT_ENTRIES < sn_entries st + n"
    and "visit_entry io down path kind st w = (r, w')"
  shows "r \<noteq> None \<and> (\<forall>st'. r = Some (Inr st') \<longrightarrow> sn_entries st \<le> sn_entries st' \<and> sn_entries st' \<le> MAX_DIRECT_SNAPSHOT_ENTRIES)"
proof (cases kind)
  case KindDir
  with assms(4) have "down path (hashed (''directory'' @ [NUL]) st) w = (r, w')" by (simp add: visit_entry_def)
  from visitedD [OF assms(1) this] assms(2,3) show ?thesis by simp
qed (use assms in \<open>auto simp: visit_entry_def ask_or_run sc_run ok_or_def split: option.splits if_splits\<close>)

lemma visit_children_ok:
  assumes "visited down n"
  shows "sn_entries st \<le> MAX_DIRECT_SNAPSHOT_ENTRIES \<Longrightarrow> MAX_DIRECT_SNAPSHOT_ENTRIES \<le> sn_entries st + n \<Longrightarrow>
    visit_children io root down paths st w = (r, w') \<Longrightarrow>
    r \<noteq> None \<and> (\<forall>st'. r = Some (Inr st') \<longrightarrow> sn_entries st \<le> sn_entries st' \<and> sn_entries st' \<le> MAX_DIRECT_SNAPSHOT_ENTRIES)"
proof (induction paths arbitrary: st w r)
  case (Cons path rest)
  show ?case
  proof (cases "path_strip_prefix root path")
    case (Some relative)
    show ?thesis
    proof (cases "left_out relative \<or> sn_entries st + 1 > MAX_DIRECT_SNAPSHOT_ENTRIES \<or> wo_kind io path w = None")
      case True
      then show ?thesis
        using Cons.prems Some Cons.IH [of st w r] by (auto simp: ask_or_run sc_run split: if_splits)
    next
      case False
      let ?st = "hashed (relative @ [NUL]) (st\<lparr>sn_entries := sn_entries st + 1\<rparr>)"
      from False obtain kind where k: "wo_kind io path w = Some kind" by auto
      obtain q w1 where q: "visit_entry io down path kind ?st w = (q, w1)" by fastforce
      have ok: "q \<noteq> None \<and> (\<forall>st'. q = Some (Inr st') \<longrightarrow> Suc (sn_entries st) \<le> sn_entries st' \<and> sn_entries st' \<le> MAX_DIRECT_SNAPSHOT_ENTRIES)"
        using visit_entry_ok [OF assms _ _ q] False Cons.prems by simp
      have run: "(case q of None \<Rightarrow> (None, w1) | Some (Inl e) \<Rightarrow> (Some (Inl e), w1)
          | Some (Inr st') \<Rightarrow> visit_children io root down rest (hashed [CHR 0xFF] st') w1) = (r, w')"
        using Cons.prems(3) Some False k q by (simp add: ask_or_run sc_bind_def)
      show ?thesis
      proof (cases q)
        case (Some v)
        with ok run show ?thesis
          by (cases v) (use Cons.prems Cons.IH [of "hashed [CHR 0xFF] (projr v)" w1 r] in auto)
      qed (use ok in simp)
    qed
  qed (use Cons.prems in \<open>auto simp: sc_run\<close>)
qed (auto simp: sc_run)

lemma visit_ok: "visited (visit n io root) n"
proof (induction n)
  case (Suc n)
  show ?case
    unfolding visited_def
  proof (intro allI impI, elim conjE)
    fix d st w r w'
    assume a: "sn_entries st \<le> MAX_DIRECT_SNAPSHOT_ENTRIES" "MAX_DIRECT_SNAPSHOT_ENTRIES < sn_entries st + Suc n"
      "visit (Suc n) io root d st w = (r, w')"
    show "r \<noteq> None \<and> (\<forall>st'. r = Some (Inr st') \<longrightarrow> sn_entries st \<le> sn_entries st' \<and> sn_entries st' \<le> MAX_DIRECT_SNAPSHOT_ENTRIES)"
    proof (cases "wo_read_dir io d w")
      case (Some names)
      with a(3) have "visit_children io root (visit n io root) (map (path_join d) (sort names)) st w = (r, w')"
        by (simp add: ask_or_run sc_bind_def)
      with visit_children_ok [OF Suc] a(1,2) show ?thesis by simp
    qed (use a in \<open>auto simp: ask_or_run sc_run\<close>)
  qed
qed (auto simp: visited_def)

text \<open>C29 (termination): the snapshot of a read-only workspace ends. The limit on entries is reached before the nesting of
  directories can exceed the depth the recursion is given, so the depth is never what stops it.\<close>

theorem snapshot_depth_suffices: "fst (direct_workspace_snapshot io root w) \<noteq> None"
proof -
  obtain r w' where v: "visit (Suc MAX_DIRECT_SNAPSHOT_ENTRIES) io root root \<lparr>sn_hashed = [], sn_entries = 0, sn_bytes = 0\<rparr> w = (r, w')"
    by fastforce
  from visitedD [OF visit_ok this] have "r \<noteq> None" by simp
  with v show ?thesis
    unfolding direct_workspace_snapshot_def by (auto simp: sc_bind_def sc_result_def split: option.splits sum.splits)
qed

section \<open>Direct tasks\<close>

text \<open>
  \<open>confined io f g\<close> behaves as \<open>io\<close> for the calls a direct task may make: removing a directory strictly
  below a directory named \<^verbatim>\<open>scratch\<close>, and running git with a verb that only reads. For every other
  such call it does what \<open>f\<close> and \<open>g\<close> say.
\<close>

definition below_scratch :: "string \<Rightarrow> bool" where
  "below_scratch root \<longleftrightarrow> (\<exists>scratch\<in>set (path_ancestors root). file_name scratch = Some ''scratch''
     \<and> path_starts_with scratch root \<and> \<not> path_eq root scratch)"

definition reading_call :: "git_call \<Rightarrow> bool" where
  "reading_call c \<longleftrightarrow> (case drop 4 (gk_args c) of verb # _ \<Rightarrow> verb \<in> {''status'', ''rev-parse'', ''ls-files'', ''diff''} | [] \<Rightarrow> False)"

definition confined :: "'w workspace_io \<Rightarrow> (string \<Rightarrow> 'w \<Rightarrow> bool \<times> 'w) \<Rightarrow> (git_call \<Rightarrow> 'w \<Rightarrow> git_run option \<times> 'w) \<Rightarrow> 'w workspace_io" where
  "confined io f g = io\<lparr>
     wo_remove_dir_all := (\<lambda>p. if below_scratch p then wo_remove_dir_all io p else f p),
     wo_run_git := (\<lambda>c. if reading_call c then wo_run_git io c else g c)\<rparr>"

named_theorems same

lemma confined_fields [same]:
  "wo_env (confined io f g) = wo_env io" "wo_serde (confined io f g) = wo_serde io" "wo_fs (confined io f g) = wo_fs io"
  "wo_kind (confined io f g) = wo_kind io" "wo_len (confined io f g) = wo_len io" "wo_exists (confined io f g) = wo_exists io"
  "wo_read (confined io f g) = wo_read io" "wo_read_dir (confined io f g) = wo_read_dir io"
  "wo_read_link (confined io f g) = wo_read_link io" "wo_write (confined io f g) = wo_write io"
  "wo_rename (confined io f g) = wo_rename io" "wo_remove_file (confined io f g) = wo_remove_file io"
  "hash (confined io f g) = hash io" "canonicalize (confined io f g) = canonicalize io" "exists (confined io f g) = exists io"
  by (auto simp: confined_def hash_def canonicalize_def exists_def fun_eq_iff)

lemma file_helpers_same [same]:
  "read_file (confined io f g) = read_file io" "symlink_kind (confined io f g) = symlink_kind io"
  "atomic_write (confined io f g) = atomic_write io" "ensure_directory_empty (confined io f g) = ensure_directory_empty io"
  "check_digest (confined io f g) = check_digest io"
  by (simp_all add: fun_eq_iff read_file_def symlink_kind_def atomic_write_def ensure_directory_empty_def check_digest_def same cong del: if_weak_cong option.case_cong_weak sum.case_cong_weak)

lemma verify_file_same [same]: "verify_file (confined io f g) = verify_file io"
  by (simp add: fun_eq_iff verify_file_def same cong del: if_weak_cong option.case_cong_weak sum.case_cong_weak)

lemma no_symlink_below_same [same]: "no_symlink_below (confined io f g) cursor cs = no_symlink_below io cursor cs"
  by (induction cs arbitrary: cursor) (simp_all add: Let_def same cong del: if_weak_cong option.case_cong_weak sum.case_cong_weak)

lemma push_without_symlink_same [same]: "push_without_symlink (confined io f g) cursor cs = push_without_symlink io cursor cs"
  by (induction cs arbitrary: cursor) (simp_all add: Let_def same cong del: if_weak_cong option.case_cong_weak sum.case_cong_weak)

lemma content_same [same]:
  "validate_immutable_inputs (confined io f g) p = validate_immutable_inputs io p"
  "validate_context (confined io f g) p = validate_context io p"
  by (simp_all add: validate_immutable_inputs_def verify_confined_file_def validate_context_def reject_symlink_path_def fun_eq_iff same cong del: if_weak_cong option.case_cong_weak sum.case_cong_weak)

lemma finalization_content_same [same]: "validate_finalization_content (confined io f g) p = validate_finalization_content io p"
  by (simp add: validate_finalization_content_def same cong del: if_weak_cong option.case_cong_weak sum.case_cong_weak)

lemma visit_entry_same [same]: "visit_entry (confined io f g) down = visit_entry io down"
  by (simp add: fun_eq_iff visit_entry_def same split: entry_kind.split cong del: if_weak_cong option.case_cong_weak sum.case_cong_weak)

lemma visit_children_same [same]: "visit_children (confined io f g) root down paths st = visit_children io root down paths st"
  by (induction paths arbitrary: st) (simp_all add: same split: option.split cong del: if_weak_cong option.case_cong_weak sum.case_cong_weak)

lemma visit_same [same]: "visit n (confined io f g) root d st = visit n io root d st"
proof (induction n arbitrary: d st)
  case (Suc n)
  have "visit n (confined io f g) root = visit n io root" using Suc by (simp add: fun_eq_iff)
  then show ?case by (simp add: same cong del: if_weak_cong option.case_cong_weak sum.case_cong_weak)
qed simp

lemma read_only_same [same]: "read_only_unchanged (confined io f g) p = read_only_unchanged io p"
  by (simp add: read_only_unchanged_def direct_workspace_snapshot_def same cong del: if_weak_cong option.case_cong_weak sum.case_cong_weak)

lemma reading_git_same [same]:
  "v \<in> {''status'', ''rev-parse'', ''ls-files'', ''diff''} \<Longrightarrow> safe_git_output (confined io f g) repo (v # args) = safe_git_output io repo (v # args)"
  by (auto simp: safe_git_output_def confined_def reading_call_def)

lemma patch_same [same]: "finalize_direct_patch (confined io f g) p = finalize_direct_patch io p"
proof -
  have d: "diff_of_path (confined io f g) p = diff_of_path io p"
    by (simp add: fun_eq_iff diff_of_path_def if_distrib [of "safe_git_output i r" for i r] same cong del: if_weak_cong option.case_cong_weak sum.case_cong_weak)
  show ?thesis
    by (simp add: finalize_direct_patch_def changed_paths_of_def head_of_def git_bytes_def publish_patch_def changes_of_def d same cong del: if_weak_cong option.case_cong_weak sum.case_cong_weak)
qed

lemma path_eq_ancestors: "find P (path_ancestors root) = Some a \<Longrightarrow> a \<in> set (path_ancestors root) \<and> P a"
  by (rule find_SomeD)

lemma task_root_same [same]: "cleanup_direct_task_root_path (confined io f g) t = cleanup_direct_task_root_path io t"
proof -
  have "io_unit (wo_remove_dir_all (confined io f g) root) = io_unit (wo_remove_dir_all io root)" if "below_scratch root" for root
    using that by (simp add: confined_def)
  moreover have "below_scratch root" if "find (\<lambda>a. file_name a = Some ''scratch'') (path_ancestors root) = Some scratch"
      "\<not> path_eq root scratch" "path_starts_with scratch root" for root scratch
    using that path_eq_ancestors [OF that(1)] unfolding below_scratch_def by blast
  ultimately have "sc_bind (sc_of e (find (\<lambda>a. file_name a = Some ''scratch'') (path_ancestors root))) (\<lambda>scratch.
       if path_eq root scratch \<or> \<not> path_starts_with scratch root then sc_fail (PathEscape root scratch)
       else io_unit (wo_remove_dir_all (confined io f g) root))
     = sc_bind (sc_of e (find (\<lambda>a. file_name a = Some ''scratch'') (path_ancestors root))) (\<lambda>scratch.
       if path_eq root scratch \<or> \<not> path_starts_with scratch root then sc_fail (PathEscape root scratch)
       else io_unit (wo_remove_dir_all io root))" for e root
    by (cases "find (\<lambda>a. file_name a = Some ''scratch'') (path_ancestors root)") (auto simp: sc_of_def sc_bind_result)
  then show ?thesis by (simp add: cleanup_direct_task_root_path_def same cong del: if_weak_cong option.case_cong_weak sum.case_cong_weak)
qed

text \<open>C9 (safety): finalizing a direct task, whose workspace belongs to the caller, runs git only to read, and removes no
  directory but one strictly below a directory named \<^verbatim>\<open>scratch\<close>: whatever other git commands and removals would do makes
  no difference to the result.\<close>

theorem direct_task_is_confined:
  assumes "pg_direct_workspace p"
  shows "finish_with_resume (confined io f g) p requested resumed = finish_with_resume io p requested resumed"
proof -
  have clean: "cleanup_after_failure (confined io f g) p = cleanup_after_failure io p"
    using assms by (simp add: cleanup_after_failure_def same split: option.split cong del: if_weak_cong option.case_cong_weak sum.case_cong_weak)
  have fin: "try_finalize (confined io f g) p requested summary checks gaps resumed = try_finalize io p requested summary checks gaps resumed"
    for summary checks gaps
    using assms by (simp add: try_finalize_def finalize_direct_def validate_direct_workspace_identity_def same cong del: if_weak_cong option.case_cong_weak sum.case_cong_weak)
  have cc: "cleanup_completion (confined io f g) p = cleanup_completion io p"
    by (rule ext) (simp add: cleanup_completion_def clean cong del: if_weak_cong)
  show ?thesis
    by (simp add: finish_with_resume_def prepare_completion_def cleanup_if_trusted_def cleanup_failed_artifact_outputs_def fin clean cc same
        cong del: if_weak_cong option.case_cong_weak sum.case_cong_weak)
qed

theorem direct_task_is_confined_witness:
  "finish_with_resume (confined (demo_workspace False) (\<lambda>_ w. (False, w)) (\<lambda>_ w. (None, w))) (demo_prepared\<lparr>pg_prepared_sha256 := ''d''\<rparr>)
     CompletionCompleted True () = (Some (Inr ((completion_of CompletionCompleted [] [] [] None)\<lparr>gc_cleaned := True\<rparr>)), ())"
proof -
  have "pg_direct_workspace (demo_prepared\<lparr>pg_prepared_sha256 := ''d''\<rparr>)" by (simp add: demo_prepared_def)
  from direct_task_is_confined [OF this, of "demo_workspace False" "\<lambda>_ w. (False, w)" "\<lambda>_ w. (None, w)" CompletionCompleted True]
  show ?thesis using demo_finalized by metis
qed

section \<open>Changes outside the manifest\<close>

text \<open>The patch of a direct task is refused as soon as the repository has one changed file the write manifest does not
  cover, whoever changed it.\<close>

lemma uncovered_change_is_refused:
  assumes "wo_exists io (path_join (pg_repository p) ''.git'') w"
    and "changed_paths_of io (pg_repository p) w = (Some (Inr changed), w1)"
    and "path \<in> set changed" and "\<not> path_starts_with ''.agent-work'' path"
    and "\<not> path_allowed covers_direct (pg_write_manifest p) path"
  shows "\<exists>code\<in>{''CHANGED_PATH_INVALID'', ''PROTECTED_PATH_CHANGED'', ''CHANGED_PATH_NOT_ALLOWLISTED''}.
     finalize_direct_patch io p w = (Some (Inl code), w1)"
proof -
  let ?paths = "filter (\<lambda>q. \<not> path_starts_with ''.agent-work'' q) changed"
  have code: "check_changed_path covers_direct (pg_write_manifest p) q = Inr ()
      \<or> (\<exists>code\<in>{''CHANGED_PATH_INVALID'', ''PROTECTED_PATH_CHANGED'', ''CHANGED_PATH_NOT_ALLOWLISTED''}.
           check_changed_path covers_direct (pg_write_manifest p) q = Inl code)" for q
    by (auto simp: check_changed_path_def split: sum.split)
  have "\<exists>code\<in>{''CHANGED_PATH_INVALID'', ''PROTECTED_PATH_CHANGED'', ''CHANGED_PATH_NOT_ALLOWLISTED''}.
      sc_each (\<lambda>q. sc_result (check_changed_path covers_direct (pg_write_manifest p) q)) qs w1 = (Some (Inl code), w1)"
    if "path \<in> set qs" for qs
    using that
  proof (induction qs)
    case (Cons q qs)
    show ?case
    proof (cases "check_changed_path covers_direct (pg_write_manifest p) q")
      case (Inl c)
      with code [of q] show ?thesis by (auto simp: sc_bind_result)
    next
      case (Inr u)
      then have "path \<in> set qs" using Cons.prems assms(5) check_changed_path_ok by auto
      with Inr Cons.IH show ?thesis by (auto simp: sc_bind_result sc_bind_def)
    qed
  qed simp
  from this [of ?paths] assms(3,4) obtain code where c: "code \<in> {''CHANGED_PATH_INVALID'', ''PROTECTED_PATH_CHANGED'', ''CHANGED_PATH_NOT_ALLOWLISTED''}"
    and e: "sc_each (\<lambda>q. sc_result (check_changed_path covers_direct (pg_write_manifest p) q)) ?paths w1 = (Some (Inl code), w1)"
    by auto
  have "?paths \<noteq> []" using assms(3,4) by (auto simp: filter_empty_conv)
  then have "finalize_direct_patch io p w = (Some (Inl code), w1)"
    using assms(1,2) e by (simp add: finalize_direct_patch_def check_changed_paths_def Let_def exists_def io_ask_def sc_bind_def)
  with c show ?thesis by blast
qed

text \<open>A file git reports as changed and the write manifest does not cover, in whatever state the repository is looked at.\<close>

definition always_uncovered :: "'w workspace_io \<Rightarrow> prepared_task \<Rightarrow> bool" where
  "always_uncovered io p \<longleftrightarrow> (\<forall>w. wo_exists io (path_join (pg_repository p) ''.git'') w)
     \<and> (\<forall>w changed w'. changed_paths_of io (pg_repository p) w = (Some (Inr changed), w') \<longrightarrow>
          (\<exists>path\<in>set changed. \<not> path_starts_with ''.agent-work'' path \<and> \<not> path_allowed covers_direct (pg_write_manifest p) path))"

lemma uncovered_patch_fails:
  assumes "always_uncovered io p"
  shows "finalize_direct_patch io p w \<noteq> (Some (Inr x), w')"
proof
  assume run: "finalize_direct_patch io p w = (Some (Inr x), w')"
  have versioned: "wo_exists io (path_join (pg_repository p) ''.git'') w" using assms by (simp add: always_uncovered_def)
  with run obtain changed w1 where changed: "changed_paths_of io (pg_repository p) w = (Some (Inr changed), w1)"
    by (auto simp: finalize_direct_patch_def exists_def io_ask_def)
  with assms obtain path where "path \<in> set changed" "\<not> path_starts_with ''.agent-work'' path"
    "\<not> path_allowed covers_direct (pg_write_manifest p) path"
    unfolding always_uncovered_def by blast
  from uncovered_change_is_refused [OF versioned changed this] run show False by auto
qed

lemma uncovered_completion_invalid:
  assumes "always_uncovered io p" and "pg_direct_workspace p"
    and "prepare_completion io p requested summary checks gaps resumed w = (Some (Inr c), w')"
  shows "gc_outcome c = CompletionResultInvalid \<and> gc_reason_code c \<noteq> None"
proof -
  have "try_finalize io p requested summary checks gaps resumed u \<noteq> (Some (Inr x), u')" for u x u'
    using assms(2) uncovered_patch_fails [OF assms(1)] by (auto simp: try_finalize_def finalize_direct_def split: if_splits)
  then show ?thesis
    using assms(3) unfolding prepare_completion_def by (auto simp: sc_try_ok completion_of_def split: sum.splits)
qed

end
