(* ===== verification/Preparer.thy ===== *)
theory Preparer
  imports Control_Contract
begin

text \<open>
  \<^verbatim>\<open>GeneralTaskPreparer\<close> of \<^verbatim>\<open>general.rs\<close>: from a manifest to a prepared task with its private directory, prompt,
  context, attachments and commands. A second call with the same key reuses the record on disk, or refuses it.
  The process-wide lock makes a preparation one step at a time; within it files may still change.
\<close>

record prepare_env =
  pe_pretty :: "json \<Rightarrow> string"
  pe_io_message :: "string \<Rightarrow> string"
  pe_show :: "preparation_error \<Rightarrow> string"

section \<open>Paths\<close>

definition require_private_root :: "string \<Rightarrow> string \<Rightarrow> preparation_error + unit" where
  "require_private_root path kind =
     (let expected = path_join ''.agent-work'' kind in
      if \<not> path_starts_with expected path \<or> path_eq path expected
      then Inl (InvalidPath path (kind @ '' root must be a task-confined child of '' @ expected)) else Inr ())"

fun no_existing_symlink :: "'w workspace_io \<Rightarrow> string \<Rightarrow> component list \<Rightarrow> ('w, unit) prep" where
  "no_existing_symlink io cursor [] = sc_ok ()"
| "no_existing_symlink io cursor (c # cs) =
     (let next = path_join cursor (as_os_str c) in
      sc_bind (io_ask (\<lambda>w. (fs_symlink_metadata (wo_fs io w) next, wo_kind io next w))) (\<lambda>(entry, kind).
        case entry of
          EntryNotFound \<Rightarrow> sc_ok ()
        | EntryError \<Rightarrow> sc_fail IoError
        | EntryFound \<Rightarrow> if kind = Some KindSymlink then sc_fail (SymlinkInput next) else no_existing_symlink io next cs))"

definition reject_existing_symlinks :: "'w workspace_io \<Rightarrow> string \<Rightarrow> string \<Rightarrow> ('w, unit) prep" where
  "reject_existing_symlinks io root target =
     sc_bind (sc_of (PathEscape target root) (path_strip_prefix root target)) (\<lambda>relative.
       no_existing_symlink io root (components relative))"

definition canonical_existing_parent :: "'w workspace_io \<Rightarrow> string \<Rightarrow> string \<Rightarrow> ('w, string) prep" where
  "canonical_existing_parent io repo relative =
     sc_bind (sc_result (confined_relative relative)) (\<lambda>r.
     sc_bind (reject_existing_symlinks io repo (path_join repo r)) (\<lambda>_.
     sc_bind (io_unit (wo_create_dir_all io (path_join repo r))) (\<lambda>_.
     sc_bind (canonicalize io (path_join repo r)) (\<lambda>c.
       if \<not> path_starts_with repo c then sc_fail (PathEscape c repo) else sc_ok c))))"

definition create_dir :: "'w workspace_io \<Rightarrow> string \<Rightarrow> string \<Rightarrow> ('w, string) prep" where
  "create_dir io root name =
     sc_bind (io_unit (wo_create_dir_all io (path_join root name))) (\<lambda>_. canonicalize io (path_join root name))"

definition general_repository :: "'w workspace_io \<Rightarrow> string \<Rightarrow> ('w, string) prep" where
  "general_repository io path w = (Some (canonical_general_repository (wo_fs io w) path), w)"

definition canonical_repository :: "'w workspace_io \<Rightarrow> string \<Rightarrow> ('w, string) prep" where
  "canonical_repository io path =
     sc_bind (general_repository io path) (\<lambda>repository.
     sc_bind (exists io (path_join repository ''.git'')) (\<lambda>versioned.
       if \<not> versioned then sc_fail (InvalidPath repository ''repository is not a Git worktree'') else sc_ok repository))"

definition is_ascii_hexdigit :: "char \<Rightarrow> bool" where
  "is_ascii_hexdigit c \<longleftrightarrow> (CHR ''0'' \<le> c \<and> c \<le> CHR ''9'') \<or> (CHR ''a'' \<le> c \<and> c \<le> CHR ''f'') \<or> (CHR ''A'' \<le> c \<and> c \<le> CHR ''F'')"

text \<open>This git inherits the environment of the daemon.\<close>

definition resolve_commit :: "'w workspace_io \<Rightarrow> string \<Rightarrow> string \<Rightarrow> ('w, string) prep" where
  "resolve_commit io repo r =
     (if length r \<noteq> 40 \<or> \<not> list_all is_ascii_hexdigit r then sc_fail (MutableReference r)
      else
        sc_bind (io_do (wo_run_git io \<lparr>gk_current_dir = Some repo,
                   gk_args = [''rev-parse'', ''--verify'', r @ ''^{commit}''], gk_env = []\<rparr>)) (\<lambda>out.
        case out of
          None \<Rightarrow> sc_fail IoError
        | Some run \<Rightarrow>
            if gr_stdout_failed run \<or> gr_stderr_failed run then sc_fail IoError
            else if \<not> run_success run then sc_fail (GitError ''base commit unavailable'')
            else sc_ok (trim (from_utf8_lossy (run_stdout run)))))"

section \<open>Context and attachments\<close>

fun prepare_context_from ::
    "'w workspace_io \<Rightarrow> string \<Rightarrow> nat \<Rightarrow> nat \<Rightarrow> string list \<Rightarrow> ('w, prepared_context list \<times> nat) prep" where
  "prepare_context_from io worktree limit used [] = sc_ok ([], used)"
| "prepare_context_from io worktree limit used (relative # rest) =
     sc_bind (sc_result (reject_protected relative)) (\<lambda>_.
     sc_bind (reject_symlink_path io worktree relative) (\<lambda>path.
     sc_bind (io_ask (\<lambda>w. fs_is_file (wo_fs io w) path)) (\<lambda>file.
     if \<not> file then sc_fail (MissingInput path)
     else if secret_type path then sc_fail (CredentialInput path)
     else
     sc_bind (read_file io path) (\<lambda>bytes.
     let used' = min u64_max (used + length bytes) in
     if used' > limit then sc_fail (InvalidManifest ''context byte limit exceeded'')
     else
     sc_bind (prepare_context_from io worktree limit used' rest) (\<lambda>(context, end).
       sc_ok (\<lparr>px_repository_relative = relative, px_sha256 = hash io bytes, px_size_bytes = length bytes\<rparr> # context, end))))))"

definition prepare_context ::
    "'w workspace_io \<Rightarrow> string \<Rightarrow> string list \<Rightarrow> nat \<Rightarrow> nat \<Rightarrow> ('w, prepared_context list \<times> nat) prep" where
  "prepare_context io worktree paths prompt_bytes limit =
     (if prompt_bytes > limit then sc_fail (InvalidManifest ''context byte limit exceeded'')
      else prepare_context_from io worktree limit prompt_bytes paths)"

definition padded :: "nat \<Rightarrow> string" where
  "padded i = (let s = show_nat i in replicate (3 - length s) CHR ''0'' @ s)"

definition check_attachment :: "'w workspace_io \<Rightarrow> string list \<Rightarrow> string list \<Rightarrow> attachment_input \<Rightarrow> ('w, string) prep" where
  "check_attachment io approved_roots seen a =
     (if ai_logical_name a = [] \<or> CHR ''/'' \<in> set (ai_logical_name a) \<or> has_nul (ai_logical_name a) \<or> ai_logical_name a \<in> set seen
      then sc_fail (InvalidManifest ''invalid or duplicate attachment logical name'')
      else
      sc_bind (canonicalize io (ai_allowed_root a)) (\<lambda>allowed.
      if \<not> list_ex (\<lambda>r. path_eq r allowed) approved_roots then sc_fail (PolicyError ''attachment root is not owner-approved'')
      else if is_agent_metadata_path (ai_source_path a) then sc_fail (ForbiddenInput (ai_source_path a))
      else
      sc_bind (canonicalize io (ai_source_path a)) (\<lambda>source.
      if is_agent_metadata_path source then sc_fail (ForbiddenInput source)
      else if \<not> path_starts_with allowed source then sc_fail (PathEscape source allowed)
      else
      sc_bind (symlink_kind io (ai_source_path a)) (\<lambda>kind.
      sc_bind (io_ask (\<lambda>w. fs_is_file (wo_fs io w) source)) (\<lambda>file.
      if kind = KindSymlink \<or> \<not> file then sc_fail (PathEscape source allowed)
      else if secret_type source then sc_fail (CredentialInput source)
      else sc_ok source)))))"

fun snapshot_attachments ::
    "'w workspace_io \<Rightarrow> string list \<Rightarrow> string \<Rightarrow> nat \<Rightarrow> nat \<Rightarrow> nat \<Rightarrow> string list \<Rightarrow> nat \<Rightarrow> attachment_input list
     \<Rightarrow> ('w, prepared_attachment list) prep" where
  "snapshot_attachments io approved_roots root limit base_bytes i seen used [] = sc_ok []"
| "snapshot_attachments io approved_roots root limit base_bytes i seen used (a # rest) =
     sc_bind (check_attachment io approved_roots seen a) (\<lambda>source.
     sc_bind (read_file io source) (\<lambda>bytes.
     let size = length bytes; used' = used + size; dest = path_join root (padded i @ ''.bin'') in
     if size > MAX_ATTACHMENT_BYTES \<or> used' > MAX_ATTACHMENTS_BYTES \<or> min u64_max (base_bytes + used') > limit
     then sc_fail (InvalidManifest ''attachment byte limit exceeded'')
     else
     sc_bind (atomic_write io dest bytes) (\<lambda>_.
     sc_bind (canonicalize io dest) (\<lambda>prepared_path.
     sc_bind (snapshot_attachments io approved_roots root limit base_bytes (Suc i) (ai_logical_name a # seen) used' rest) (\<lambda>rest'.
       sc_ok (\<lparr>pa_logical_name = ai_logical_name a, pa_prepared_path = prepared_path, pa_sha256 = hash io bytes,
               pa_size_bytes = size\<rparr> # rest'))))))"

section \<open>Commands\<close>

text \<open>\<^verbatim>\<open>prepare_command\<close> on the world: it creates the two directories only after every check.\<close>

definition prepare_command_now ::
    "prepare_env \<Rightarrow> 'w workspace_io \<Rightarrow> validation_command \<Rightarrow> string \<Rightarrow> string \<Rightarrow> string \<Rightarrow> ('w, prepared_command) prep" where
  "prepare_command_now pe io c cwd worktree scratch_root =
     sc_bind (\<lambda>w. (Some (prepare_command (wo_fs io w) (\<lambda>_. True) (pe_io_message pe) (vc_program c) (vc_args c) cwd worktree scratch_root
                    (vc_timeout_ms c, vc_max_output_bytes c, False)), w)) (\<lambda>prepared.
     sc_bind (io_unit (wo_create_dir_all io (path_join scratch_root ''home''))) (\<lambda>_.
     sc_bind (io_unit (wo_create_dir_all io (path_join scratch_root ''tmp''))) (\<lambda>_. sc_ok prepared)))"

definition is_readonly_safe :: "(string \<times> named_command) list option \<Rightarrow> string \<Rightarrow> bool" where
  "is_readonly_safe named i =
     (case Option.bind named (\<lambda>cs. map_of cs i) of Some c \<Rightarrow> nc_readonly_safe c | None \<Rightarrow> False)"

definition prepare_general_commands ::
    "prepare_env \<Rightarrow> 'w workspace_io \<Rightarrow> general_manifest \<Rightarrow> (string \<times> named_command) list option \<Rightarrow> string \<Rightarrow> string
     \<Rightarrow> ('w, (string \<times> prepared_command) list) prep" where
  "prepare_general_commands pe io m named worktree scratch_root =
     sc_each (\<lambda>(i, c).
       sc_bind (sc_result (confined_relative (vc_cwd c))) (\<lambda>relative.
       sc_bind (prepare_command_now pe io c (path_join worktree relative) worktree scratch_root) (\<lambda>prepared.
         sc_ok (i, prepared\<lparr>pc_readonly_safe := is_readonly_safe named i\<rparr>)))) (gm_validation_commands m)"

section \<open>Clean-up of a failed preparation\<close>

fun retrying :: "nat \<Rightarrow> ('w, unit) prep \<Rightarrow> preparation_error \<Rightarrow> ('w, unit) prep" where
  "retrying 0 m e = sc_fail e"
| "retrying (Suc n) m e = sc_bind (sc_try m) (\<lambda>r. case r of Inr u \<Rightarrow> sc_ok () | Inl e' \<Rightarrow> retrying n m e')"

definition bounded_cleanup_worktree :: "'w workspace_io \<Rightarrow> worktree_manager \<Rightarrow> prepared_worktree \<Rightarrow> string \<Rightarrow> ('w, unit) prep" where
  "bounded_cleanup_worktree io m t task_root =
     retrying 3
       (sc_bind (capture_integrity io m t) (\<lambda>d.
        sc_bind (persist_integrity io m t d) (\<lambda>r.
        sc_bind (cleanup_from_record io m r) (\<lambda>_.
        sc_bind (verify_worktree_absent io m t) (\<lambda>_. cleanup_task_root_path io task_root)))))
       (WorktreeError ''cleanup retry exhausted'')"

definition bounded_cleanup_unregistered :: "'w workspace_io \<Rightarrow> worktree_manager \<Rightarrow> string \<Rightarrow> string \<Rightarrow> ('w, unit) prep" where
  "bounded_cleanup_unregistered io m path task_root =
     retrying 3 (sc_bind (verify_path_absent io m path) (\<lambda>_. cleanup_task_root_path io task_root))
       (WorktreeError ''cleanup retry exhausted'')"

definition cleanup_stale_record :: "'w workspace_io \<Rightarrow> worktree_manager \<Rightarrow> string \<Rightarrow> ('w, unit) prep" where
  "cleanup_stale_record io m task_root =
     sc_bind (cleanup_registered_under_task_root io m task_root) (\<lambda>_. cleanup_task_root_path io task_root)"

text \<open>The error, or both where the clean-up failed too.\<close>

definition fail_after_cleanup ::
    "prepare_env \<Rightarrow> string \<Rightarrow> string \<Rightarrow> ('w, unit) prep \<Rightarrow> preparation_error \<Rightarrow> ('w, 'a) prep" where
  "fail_after_cleanup pe what unresolved cleanup e =
     sc_bind (sc_try cleanup) (\<lambda>r.
       sc_fail (case r of
         Inr u \<Rightarrow> e
       | Inl e' \<Rightarrow> WorktreeError (what @ '' ('' @ pe_show pe e @ ''); '' @ unresolved @ '' ('' @ pe_show pe e' @ '')'')))"

section \<open>Reusing a record\<close>

definition validate_reusable_prepared_owner ::
    "'w workspace_io \<Rightarrow> prepared_task \<Rightarrow> string \<Rightarrow> string \<Rightarrow> worktree_manager \<Rightarrow> bool \<Rightarrow> ('w, unit) prep" where
  "validate_reusable_prepared_owner io p repository base_sha m direct =
     sc_bind (check_digest io p) (\<lambda>_.
     if \<not> path_eq (pg_repository p) repository \<or> pg_base_sha p \<noteq> base_sha
     then sc_fail (IdempotencyConflict ''key already owns a different immutable general task'')
     else if direct then
       (let unbound = WorktreeError ''prepared record is not bound to the canonical workspace'' in
        if \<not> pg_direct_workspace p \<or> \<not> path_eq (pw_path (pg_worktree p)) repository then sc_fail unbound
        else
        sc_bind (canonicalize io (pw_path (pg_worktree p))) (\<lambda>c.
        if \<not> path_eq c repository then sc_fail unbound else validate_prepared_content io p))
     else
       sc_bind (capture_integrity io m (pg_worktree p)) (\<lambda>d.
       if has_policy_violation d \<or> id_observed_head d \<noteq> Some base_sha \<or> \<not> id_detached_head_unchanged d
       then sc_fail (WorktreeError ''prepared record worktree is stale or no longer detached at base'')
       else validate_prepared_content io p))"

definition different_task :: preparation_error where
  "different_task = IdempotencyConflict ''key already owns a different immutable general task''"

definition manifest_digest :: "'w workspace_io \<Rightarrow> string \<Rightarrow> control_contract \<Rightarrow> string" where
  "manifest_digest io legacy c =
     hash io (env_to_json (wo_env io) (jstrings [legacy, hash io (env_to_json (wo_env io) (control_json c))]))"

text \<open>What the checks of a manifest establish, before anything is written for the task.\<close>

record checked_manifest =
  cm_mode :: access_mode
  cm_repository :: string
  cm_base_sha :: string
  cm_budget :: effective_budget
  cm_context :: "string list"
  cm_write :: "string list"

definition expected_control ::
    "'w workspace_io \<Rightarrow> general_manifest \<Rightarrow> checked_manifest \<Rightarrow> (string \<times> prepared_command) list \<Rightarrow> string
     \<Rightarrow> preparation_error + control_contract" where
  "expected_control io m cm commands worktree =
     control_contract_from_prepared_commands (wo_env io) (cm_mode cm) (hash io (gm_prompt m)) (length (gm_prompt m))
       (normalized_paths (cm_context cm)) (normalized_paths (cm_write cm)) commands worktree"

definition reuse_prepared ::
    "prepare_env \<Rightarrow> 'w workspace_io \<Rightarrow> general_manifest \<Rightarrow> (string \<times> named_command) list option \<Rightarrow> bool \<Rightarrow> checked_manifest
     \<Rightarrow> string \<Rightarrow> worktree_manager \<Rightarrow> prepared_task \<Rightarrow> ('w, prepared_task) prep" where
  "reuse_prepared pe io m named direct cm legacy mgr existing =
     (if pg_direct_workspace existing \<noteq> direct
      then sc_fail (IdempotencyConflict ''key already owns a different workspace binding'')
      else
      sc_bind (validate_reusable_prepared_owner io existing (cm_repository cm) (cm_base_sha cm) mgr direct) (\<lambda>_.
      if pg_idempotency_key existing \<noteq> gm_idempotency_key m then sc_fail different_task
      else
      sc_bind (prepare_general_commands pe io m named (pw_path (pg_worktree existing)) (pg_scratch_root existing)) (\<lambda>commands.
      sc_bind (sc_result (expected_control io m cm commands (pw_path (pg_worktree existing)))) (\<lambda>expected.
      sc_bind (sc_result (control_contract_with_prompt_size (wo_env io) existing (length (gm_prompt m)))) (\<lambda>effective.
      if \<not> same_contract effective expected
      then sc_fail (IdempotencyConflict ''key already owns a different effective general control contract'')
      else if pg_manifest_sha256 existing \<noteq> manifest_digest io legacy expected then sc_fail different_task
      else sc_ok existing)))))"

definition is_conflict :: "preparation_error \<Rightarrow> bool" where
  "is_conflict e = (case e of IdempotencyConflict m \<Rightarrow> True | _ \<Rightarrow> False)"

definition prepare_existing ::
    "prepare_env \<Rightarrow> 'w workspace_io \<Rightarrow> general_manifest \<Rightarrow> (string \<times> named_command) list option \<Rightarrow> bool \<Rightarrow> checked_manifest
     \<Rightarrow> string \<Rightarrow> string \<Rightarrow> ('w, prepared_task) prep" where
  "prepare_existing pe io m named direct cm legacy task_root =
     sc_bind (read_file io (path_join task_root ''prepared-general.json'')) (\<lambda>bytes.
     sc_bind (WorktreeManager_new io (cm_repository cm) task_root) (\<lambda>mgr.
     sc_bind (sc_try (sc_bind (sc_of JsonError (Option.bind (env_parse (wo_env io) bytes) (ps_decode (wo_serde io))))
                        (reuse_prepared pe io m named direct cm legacy mgr))) (\<lambda>reusable.
       case reusable of
         Inr existing \<Rightarrow> sc_ok existing
       | Inl e \<Rightarrow>
           if is_conflict e then sc_fail e
           else fail_after_cleanup pe ''stale prepared record rejected'' ''cleanup unresolved''
                  (cleanup_stale_record io mgr task_root) e)))"

section \<open>A new task\<close>

definition read_only_snapshot :: "'w workspace_io \<Rightarrow> bool \<Rightarrow> checked_manifest \<Rightarrow> ('w, string option) prep" where
  "read_only_snapshot io direct cm =
     (if direct \<and> cm_mode cm = ReadOnly
      then sc_bind (sc_map_err (InvalidPath (cm_repository cm)) (direct_workspace_snapshot io (cm_repository cm))) (\<lambda>s. sc_ok (Some s))
      else sc_ok None)"

definition sign :: "'w workspace_io \<Rightarrow> prepared_task \<Rightarrow> prepared_task" where
  "sign io p = p\<lparr>pg_prepared_sha256 := hash io (env_to_json (wo_env io) (ps_encode (wo_serde io) p))\<rparr>"

definition build_prepared ::
    "prepare_env \<Rightarrow> 'w workspace_io \<Rightarrow> string list \<Rightarrow> general_manifest \<Rightarrow> (string \<times> named_command) list option \<Rightarrow> bool
     \<Rightarrow> checked_manifest \<Rightarrow> string \<Rightarrow> string \<Rightarrow> string \<Rightarrow> prepared_worktree \<Rightarrow> ('w, prepared_task) prep" where
  "build_prepared pe io attachment_roots m named direct cm artifact_root legacy task_root t =
     sc_bind (create_dir io task_root ''scratch'') (\<lambda>scratch_root.
     sc_bind (prepare_general_commands pe io m named (pw_path t) scratch_root) (\<lambda>commands.
     sc_bind (sc_result (expected_control io m cm commands (pw_path t))) (\<lambda>control.
     let prompt_sha256 = hash io (gm_prompt m);
         launch = compose_controlled_prompt (render_control_header (pe_pretty pe) control) prompt_sha256 (length (gm_prompt m)) (gm_prompt m) in
     sc_bind (prepare_context io (pw_path t) (cm_context cm) (length launch) (max_context_bytes (cm_budget cm))) (\<lambda>(context, context_bytes).
     sc_bind (create_dir io task_root ''private-inputs'') (\<lambda>private_root.
     sc_bind (atomic_write io (path_join private_root ''prompt.txt'') (gm_prompt m)) (\<lambda>_.
     sc_bind (canonicalize io (path_join private_root ''prompt.txt'')) (\<lambda>prompt_path.
     sc_bind (create_dir io private_root ''attachments'') (\<lambda>attachments_root.
     sc_bind (snapshot_attachments io attachment_roots attachments_root (max_context_bytes (cm_budget cm)) context_bytes 0 [] 0
                (gm_attachments m)) (\<lambda>attachments.
     sc_bind (read_only_snapshot io direct cm) (\<lambda>snapshot.
     let p = sign io \<lparr>pg_schema = gm_schema m, pg_agent_id = gm_agent_id m, pg_repository = cm_repository cm,
           pg_workspace_path = cm_repository cm, pg_workspace_scratch_root = task_root, pg_base_sha = cm_base_sha cm,
           pg_access_mode = cm_mode cm, pg_prompt_path = prompt_path, pg_prompt_sha256 = prompt_sha256, pg_context = context,
           pg_attachments = attachments, pg_write_manifest = cm_write cm, pg_direct_workspace = direct,
           pg_direct_read_only_snapshot_sha256 = snapshot, pg_worktree = t, pg_scratch_root = scratch_root,
           pg_artifact_root = artifact_root, pg_effective_budget = cm_budget cm, pg_validation_commands = commands,
           pg_retain_partial = gm_retain_partial m, pg_idempotency_key = gm_idempotency_key m,
           pg_manifest_sha256 = manifest_digest io legacy control, pg_prepared_sha256 = []\<rparr> in
     sc_bind (check_digest io p) (\<lambda>_.
     sc_bind (atomic_write io (path_join task_root ''prepared-general.json'') (pe_pretty pe (ps_encode (wo_serde io) p))) (\<lambda>_.
       sc_ok p))))))))))))"

definition prepare_new ::
    "prepare_env \<Rightarrow> 'w workspace_io \<Rightarrow> string list \<Rightarrow> general_manifest \<Rightarrow> (string \<times> named_command) list option \<Rightarrow> bool
     \<Rightarrow> checked_manifest \<Rightarrow> string \<Rightarrow> string \<Rightarrow> string \<Rightarrow> string \<Rightarrow> ('w, prepared_task) prep" where
  "prepare_new pe io attachment_roots m named direct cm artifact_root legacy key task_root =
     sc_bind (WorktreeManager_new io (cm_repository cm) task_root) (\<lambda>mgr.
     sc_bind (sc_try (if direct then bind_direct io mgr else worktree_create io mgr (cm_base_sha cm) key)) (\<lambda>created.
     case created of
       Inl e \<Rightarrow> fail_after_cleanup pe ''general worktree creation failed'' ''cleanup unresolved''
                  (bounded_cleanup_unregistered io mgr (path_join (path_join task_root ''worktrees'') key) task_root) e
     | Inr t \<Rightarrow>
         sc_bind (sc_try (build_prepared pe io attachment_roots m named direct cm artifact_root legacy task_root t)) (\<lambda>built.
         case built of
           Inr p \<Rightarrow> sc_ok p
         | Inl e \<Rightarrow> fail_after_cleanup pe ''general preparation failed'' ''cleanup failed''
                      (if direct then cleanup_task_root_path io task_root
                       else bounded_cleanup_worktree io mgr t task_root) e)))"

section \<open>Preparing\<close>

definition resolved_manifest ::
    "general_manifest \<Rightarrow> (string \<times> named_command) list option \<Rightarrow> preparation_error + general_manifest" where
  "resolved_manifest m named =
     (case named of
        None \<Rightarrow> Inr m
      | Some cs \<Rightarrow>
          if gm_validation_commands m \<noteq> []
          then Inl (InvalidManifest ''caller validation command definitions are forbidden for named tasks'')
          else Inr (m\<lparr>gm_validation_commands := map (\<lambda>(i, c). (i, nc_command c)) cs\<rparr>))"

definition checked :: "'w workspace_io \<Rightarrow> general_manifest \<Rightarrow> bool \<Rightarrow> ('w, checked_manifest) prep" where
  "checked io m direct =
     sc_bind (sc_result (validate_manifest m)) (\<lambda>_.
     let mode = (if direct then mode_access (gm_permission_mode m) else gm_access_mode m) in
     sc_bind (if direct then general_repository io (gm_repository m) else canonical_repository io (gm_repository m)) (\<lambda>repository.
     sc_bind (if direct then sc_ok []
              else resolve_commit io repository (if trim (gm_base_ref m) = [] then ''HEAD'' else gm_base_ref m)) (\<lambda>base_sha.
     let budget = (case gm_budget m of Some b \<Rightarrow> b | None \<Rightarrow> default_budget mode) in
     sc_bind (sc_result (validate_budget budget)) (\<lambda>_.
     sc_bind (sc_result (collect_results (map confined_relative (gm_repo_context m)))) (\<lambda>context.
     sc_bind (sc_result (collect_results (map confined_relative (gm_write_manifest m)))) (\<lambda>write.
     if mode = WorkspaceWrite \<and> write = [] then sc_fail (InvalidManifest ''workspace_write requires write_manifest'')
     else if mode \<noteq> WorkspaceWrite \<and> write \<noteq> [] then sc_fail (InvalidManifest ''write_manifest is implementation-only'')
     else
     sc_bind (sc_each (\<lambda>p. sc_result (reject_protected p)) write) (\<lambda>_.
       sc_ok \<lparr>cm_mode = mode, cm_repository = repository, cm_base_sha = base_sha, cm_budget = budget, cm_context = context,
              cm_write = write\<rparr>)))))))"

definition prepare_internal ::
    "prepare_env \<Rightarrow> 'w workspace_io \<Rightarrow> string list \<Rightarrow> general_manifest \<Rightarrow> (string \<times> named_command) list option \<Rightarrow> bool
     \<Rightarrow> ('w, prepared_task) prep" where
  "prepare_internal pe io attachment_roots m0 named direct =
     sc_bind (sc_result (resolved_manifest m0 named)) (\<lambda>m.
     sc_bind (checked io m direct) (\<lambda>cm.
     sc_bind (sc_result (require_private_root (gm_scratch_root m) ''scratch'')) (\<lambda>_.
     sc_bind (sc_result (require_private_root (gm_artifact_root m) ''artifacts'')) (\<lambda>_.
     if file_name (gm_artifact_root m) \<noteq> Some (gm_agent_id m)
     then sc_fail (InvalidPath (gm_artifact_root m) ''artifact root must be bound to agent_id'')
     else
     sc_bind (canonical_existing_parent io (cm_repository cm) (gm_scratch_root m)) (\<lambda>scratch_parent.
     sc_bind (canonical_existing_parent io (cm_repository cm) (gm_artifact_root m)) (\<lambda>artifact_root.
     let legacy = hash io (env_to_json (wo_env io)
           (case named of
              Some (c # cs) \<Rightarrow> JArray [manifest_json m, JObject (map (\<lambda>(i, c). (i, named_command_json c)) (c # cs))]
            | _ \<Rightarrow> manifest_json m));
         key = hash io (cm_repository cm @ '':'' @ gm_idempotency_key m) in
     sc_bind (io_unit (wo_create_dir_all io (path_join scratch_parent key))) (\<lambda>_.
     sc_bind (canonicalize io (path_join scratch_parent key)) (\<lambda>task_root.
     sc_bind (io_ask (\<lambda>w. fs_is_file (wo_fs io w) (path_join task_root ''prepared-general.json''))) (\<lambda>present.
       if present then prepare_existing pe io m named direct cm legacy task_root
       else prepare_new pe io attachment_roots m named direct cm artifact_root legacy key task_root)))))))))"

definition prepare :: "prepare_env \<Rightarrow> 'w workspace_io \<Rightarrow> string list \<Rightarrow> general_manifest \<Rightarrow> ('w, prepared_task) prep" where
  "prepare pe io attachment_roots m = prepare_internal pe io attachment_roots m None False"

definition GeneralTaskPreparer_new :: "'w workspace_io \<Rightarrow> string list \<Rightarrow> ('w, string list) prep" where
  "GeneralTaskPreparer_new io attachment_roots =
     sc_bind (sc_each (canonicalize io) attachment_roots) (\<lambda>roots.
     sc_bind (io_ask (\<lambda>w. list_ex (\<lambda>r. \<not> fs_is_dir (wo_fs io w) r) roots)) (\<lambda>other.
       if other then sc_fail (InvalidManifest ''attachment roots must be directories'') else sc_ok (normalized_paths roots)))"

definition prepare_submission_internal_direct ::
    "prepare_env \<Rightarrow> 'w workspace_io \<Rightarrow> string list \<Rightarrow> general_manifest \<Rightarrow> (string \<times> named_command) list option
     \<Rightarrow> ('w, prepared_task) prep" where
  "prepare_submission_internal_direct pe io attachment_roots m named =
     sc_bind (general_repository io (gm_repository m)) (\<lambda>repository.
     let agent_id = ''ztask-'' @ hash io (env_to_json (wo_env io) (jstrings [repository, gm_idempotency_key m])) in
     prepare_internal pe io attachment_roots
       (m\<lparr>gm_repository := repository, gm_agent_id := agent_id, gm_artifact_root := path_join ''.agent-work/artifacts'' agent_id\<rparr>)
       named True)"

definition prepare_submission ::
    "prepare_env \<Rightarrow> 'w workspace_io \<Rightarrow> string list \<Rightarrow> general_manifest \<Rightarrow> ('w, prepared_task) prep" where
  "prepare_submission pe io attachment_roots m = prepare_submission_internal_direct pe io attachment_roots m None"

definition prepare_named_submission ::
    "prepare_env \<Rightarrow> 'w workspace_io \<Rightarrow> string list \<Rightarrow> general_manifest \<Rightarrow> (string \<times> named_command) list \<Rightarrow> ('w, prepared_task) prep" where
  "prepare_named_submission pe io attachment_roots m named =
     prepare_submission_internal_direct pe io attachment_roots m (Some named)"

end
