(* ===== verification/Preparer_Props.thy ===== *)
theory Preparer_Props
  imports Preparer Final_Props
begin

text \<open>
  What a preparation guarantees, whether the task is new or a record that is reused: it follows the manifest, and its
  content is bounded. Two cases in which the code does not do what its comments say are shown as well.
\<close>

section \<open>Normalized paths\<close>

lemma dedup_paths_comps: "components ` set (dedup_paths ps) = components ` set ps"
  by (induction ps rule: dedup_paths.induct) (auto simp: path_eq_def)

lemma normalized_paths_comps: "components ` set (normalized_paths ps) = components ` set ps"
  by (simp add: normalized_paths_def dedup_paths_comps)

lemma path_eq_comps: "list_all2 path_eq ps qs \<Longrightarrow> components ` set ps = components ` set qs"
  by (induction rule: list_all2_induct) (auto simp: path_eq_def)

definition confined_path :: "string \<Rightarrow> bool" where
  "confined_path p \<longleftrightarrow> \<not> is_absolute p \<and> \<not> has_parent_dir p \<and> reject_protected p = Inr ()"

lemma absolute_comps: "is_absolute p \<longleftrightarrow> (\<exists>cs. components p = RootDir # cs)"
proof -
  have "RootDir \<notin> set (body_components q)" for q
    by (auto simp: body_components_def map_filter_def body_component_def split: if_splits)
  then show ?thesis by (auto simp: components_def Cons_eq_append_conv split: if_splits) (metis list.set_intros(1))
qed

lemma confined_path_comps: "components p = components q \<Longrightarrow> confined_path p \<longleftrightarrow> confined_path q"
  by (simp add: confined_path_def absolute_comps has_parent_dir_def reject_protected_def)

lemma collect_results_ok: "collect_results (map f xs) = Inr ys \<Longrightarrow> y \<in> set ys \<Longrightarrow> \<exists>x\<in>set xs. f x = Inr y"
  by (induction xs arbitrary: ys) auto

lemma each_result_ok:
  "sc_each (\<lambda>x. sc_result (f x)) xs s = (Some (Inr ys), t) \<Longrightarrow> s = t \<and> list_all (\<lambda>x. \<exists>y. f x = Inr y) xs"
  by (induction xs arbitrary: ys) (auto simp: sc_bind_ok)

lemma confined_relative_ok: "confined_relative p = Inr q \<Longrightarrow> components q = components p \<and> \<not> is_absolute q \<and> \<not> has_parent_dir q"
  using components_ok [of p]
  by (auto simp: confined_relative_def has_parent_dir_def absolute_comps components_render list_ex_iff split: if_splits)

section \<open>The checks of a manifest\<close>

lemma checked_ok:
  assumes "checked io m direct w = (Some (Inr cm), w')"
  shows "cm_mode cm = (if direct then mode_access (gm_permission_mode m) else gm_access_mode m)"
    and "cm_mode cm = WorkspaceWrite \<longleftrightarrow> cm_write cm \<noteq> []" and "list_all confined_path (cm_write cm)"
    and "validate_budget (cm_budget cm) = Inr ()"
proof -
  have ws: "collect_results (map confined_relative (gm_write_manifest m)) = Inr (cm_write cm)"
      "list_all (\<lambda>p. \<exists>y. reject_protected p = Inr y) (cm_write cm)"
    and mode: "cm_mode cm = (if direct then mode_access (gm_permission_mode m) else gm_access_mode m)"
      "cm_mode cm = WorkspaceWrite \<longleftrightarrow> cm_write cm \<noteq> []" and budget: "validate_budget (cm_budget cm) = Inr ()"
    using assms by (auto simp: checked_def Let_def split: if_splits dest!: each_result_ok)
  then show "cm_mode cm = (if direct then mode_access (gm_permission_mode m) else gm_access_mode m)"
    "cm_mode cm = WorkspaceWrite \<longleftrightarrow> cm_write cm \<noteq> []" "validate_budget (cm_budget cm) = Inr ()" by blast+
  have "\<not> is_absolute q \<and> \<not> has_parent_dir q" if q: "q \<in> set (cm_write cm)" for q
  proof -
    obtain p where "confined_relative p = Inr q"
      using collect_results_ok [OF ws(1) q] by blast
    then show ?thesis using confined_relative_ok by blast
  qed
  with ws(2) show "list_all confined_path (cm_write cm)" by (auto simp: confined_path_def list_all_iff)
qed

lemma check_digest_ok: "check_digest io p w = (Some (Inr u), w') \<Longrightarrow> validate_digest (wo_env io) (wo_serde io) p"
  by (auto simp: check_digest_def)

text \<open>What a prepared task has in common with its manifest.\<close>

definition follows :: "'w workspace_io \<Rightarrow> general_manifest \<Rightarrow> bool \<Rightarrow> checked_manifest \<Rightarrow> prepared_task \<Rightarrow> bool" where
  "follows io m direct cm p \<longleftrightarrow> validate_digest (wo_env io) (wo_serde io) p \<and> pg_direct_workspace p = direct
     \<and> pg_idempotency_key p = gm_idempotency_key m \<and> pg_access_mode p = cm_mode cm
     \<and> pg_prompt_sha256 p = hash io (gm_prompt m) \<and> path_eq (pg_repository p) (cm_repository cm)
     \<and> components ` set (pg_write_manifest p) = components ` set (cm_write cm)
     \<and> components ` set (map px_repository_relative (pg_context p)) = components ` set (cm_context cm)"

lemma expected_control_ok:
  assumes "expected_control io m cm commands worktree = Inr c"
  shows "kc_access_mode c = cm_mode cm" "kc_caller_prompt_sha256 c = hash io (gm_prompt m)"
    "kc_repo_context c = normalized_paths (cm_context cm)" "kc_write_manifest c = normalized_paths (cm_write cm)"
  using assms by (auto simp: expected_control_def control_contract_from_prepared_commands_def new_control_contract_def)

lemma reused_follows:
  assumes "reuse_prepared pe io m named direct cm legacy mgr existing w = (Some (Inr p), w')"
  shows "follows io m direct cm p \<and> p = existing"
proof -
  obtain w1 w2 u commands expected effective where p: "p = existing" "pg_direct_workspace existing = direct"
      "pg_idempotency_key existing = gm_idempotency_key m"
    and owner: "validate_reusable_prepared_owner io existing (cm_repository cm) (cm_base_sha cm) mgr direct w = (Some (Inr u), w1)"
    and c: "expected_control io m cm commands (pw_path (pg_worktree existing)) = Inr expected"
      "control_contract_with_prompt_size (wo_env io) existing (length (gm_prompt m)) = Inr effective" "same_contract effective expected"
    using assms by (auto simp: reuse_prepared_def split: if_splits)
  have "validate_digest (wo_env io) (wo_serde io) existing" "path_eq (pg_repository existing) (cm_repository cm)"
    using owner by (auto simp: validate_reusable_prepared_owner_def Let_def split: if_splits dest!: check_digest_ok)
  moreover have "kc_access_mode effective = pg_access_mode existing" "kc_caller_prompt_sha256 effective = pg_prompt_sha256 existing"
    "kc_repo_context effective = normalized_paths (map px_repository_relative (pg_context existing))"
    "kc_write_manifest effective = normalized_paths (pg_write_manifest existing)"
    using c(2) by (auto simp: control_contract_with_prompt_size_def control_contract_from_prepared_commands_def new_control_contract_def)
  ultimately show ?thesis
    using p c(3) expected_control_ok [OF c(1)] path_eq_comps [of "kc_repo_context effective" "kc_repo_context expected"]
      path_eq_comps [of "kc_write_manifest effective" "kc_write_manifest expected"]
    by (simp add: follows_def same_contract_def normalized_paths_comps)
qed

lemma prepare_context_from_ok:
  "prepare_context_from io worktree limit used paths w = (Some (Inr (cx, used')), w') \<Longrightarrow> limit < u64_max \<Longrightarrow> used \<le> limit \<Longrightarrow>
     map px_repository_relative cx = paths \<and> used' = used + sum_list (map px_size_bytes cx) \<and> used' \<le> limit"
  by (induction paths arbitrary: used w cx) (fastforce simp: Let_def min_def split: if_splits)+

text \<open>The stages of a build that later facts refer to.\<close>

lemma built_task:
  assumes "build_prepared pe io roots m named direct cm artifact_root legacy task_root t w = (Some (Inr p), w')"
  obtains control w1 used w2 root w3 w4
  where "prepare_context io (pw_path t) (cm_context cm) (length (compose_controlled_prompt (render_control_header (pe_pretty pe) control)
        (hash io (gm_prompt m)) (length (gm_prompt m)) (gm_prompt m))) (max_context_bytes (cm_budget cm)) w1 = (Some (Inr (pg_context p, used)), w2)"
    and "snapshot_attachments io roots root (max_context_bytes (cm_budget cm)) used 0 [] 0 (gm_attachments m) w3
          = (Some (Inr (pg_attachments p)), w4)"
    and "validate_digest (wo_env io) (wo_serde io) p"
    and "pg_repository p = cm_repository cm \<and> pg_access_mode p = cm_mode cm \<and> pg_prompt_sha256 p = hash io (gm_prompt m)
      \<and> pg_write_manifest p = cm_write cm \<and> pg_direct_workspace p = direct \<and> pg_effective_budget p = cm_budget cm
      \<and> pg_idempotency_key p = gm_idempotency_key m"
  using assms by (clarsimp simp: build_prepared_def Let_def sign_def dest!: check_digest_ok)

lemma built_follows:
  assumes "build_prepared pe io roots m named direct cm artifact_root legacy task_root t w = (Some (Inr p), w')"
    and "max_context_bytes (cm_budget cm) < u64_max"
  shows "follows io m direct cm p"
proof -
  obtain n w1 used w2 where cx: "prepare_context io (pw_path t) (cm_context cm) n (max_context_bytes (cm_budget cm)) w1
        = (Some (Inr (pg_context p, used)), w2)" and p: "validate_digest (wo_env io) (wo_serde io) p"
      "pg_repository p = cm_repository cm \<and> pg_access_mode p = cm_mode cm \<and> pg_prompt_sha256 p = hash io (gm_prompt m)
      \<and> pg_write_manifest p = cm_write cm \<and> pg_direct_workspace p = direct \<and> pg_effective_budget p = cm_budget cm
      \<and> pg_idempotency_key p = gm_idempotency_key m"
    using built_task [OF assms(1)] by metis
  have "map px_repository_relative (pg_context p) = cm_context cm"
    using prepare_context_from_ok [of io "pw_path t" _ n _ w1] cx assms(2) by (auto simp: prepare_context_def split: if_splits)
  with p show ?thesis by (simp add: follows_def path_eq_def flip: set_map)
qed

lemma budget_below: "validate_budget b = Inr () \<Longrightarrow> max_context_bytes b \<le> 16777216"
  by (auto simp: validate_budget_def capped_values_def hard_budget_cap_def Let_def split: if_splits)

lemma fail_after_cleanup_fails [simp]: "fail_after_cleanup pe what unresolved cleanup e w \<noteq> (Some (Inr x), w')"
  by (auto simp: fail_after_cleanup_def)

lemma internal_follows:
  assumes "prepare_internal pe io roots m0 named direct w = (Some (Inr p), w')"
  obtains m cm w1 w2 where "resolved_manifest m0 named = Inr m" and "checked io m direct w1 = (Some (Inr cm), w2)" and "follows io m direct cm p"
proof -
  obtain m cm w1 w2 w3 legacy task_root artifact_root key where m: "resolved_manifest m0 named = Inr m"
    and cm: "checked io m direct w1 = (Some (Inr cm), w2)"
    and p: "prepare_existing pe io m named direct cm legacy task_root w3 = (Some (Inr p), w')
      \<or> prepare_new pe io roots m named direct cm artifact_root legacy key task_root w3 = (Some (Inr p), w')"
    using assms by (auto simp: prepare_internal_def Let_def split: if_splits) blast+
  have "max_context_bytes (cm_budget cm) < u64_max"
    using budget_below [OF checked_ok(4) [OF cm]] by (simp add: u64_max_def)
  note built = built_follows [OF _ this]
  have "follows io m direct cm p"
    using p by (auto simp: prepare_existing_def prepare_new_def sc_try_ok split: if_splits sum.splits
        dest!: reused_follows built)
  with m cm that show thesis by blast
qed

text \<open>C7 (type): a prepared task is well-formed and follows its manifest, whether it is new or the record of an earlier
  call with the same key: its digest is that of its content, it has the access mode the manifest asks for and the digest of
  its prompt, it may write exactly if it names a path to write, and every such path is relative, without parent
  components, and outside the metadata of git and of the agents.\<close>

theorem prepared_task_follows_manifest:
  assumes "prepare_internal pe io roots m named direct w = (Some (Inr p), w')"
  shows "validate_digest (wo_env io) (wo_serde io) p \<and> pg_direct_workspace p = direct
    \<and> pg_idempotency_key p = gm_idempotency_key m \<and> pg_prompt_sha256 p = hash io (gm_prompt m)
    \<and> pg_access_mode p = (if direct then mode_access (gm_permission_mode m) else gm_access_mode m)
    \<and> (pg_access_mode p = WorkspaceWrite \<longleftrightarrow> pg_write_manifest p \<noteq> [])
    \<and> list_all (\<lambda>q. \<not> is_absolute q \<and> \<not> has_parent_dir q \<and> reject_protected q = Inr ()) (pg_write_manifest p)"
proof -
  obtain m1 cm w1 w2 where m1: "resolved_manifest m named = Inr m1" and cm: "checked io m1 direct w1 = (Some (Inr cm), w2)"
    and f: "follows io m1 direct cm p" by (rule internal_follows [OF assms])
  have eq: "gm_idempotency_key m1 = gm_idempotency_key m" "gm_prompt m1 = gm_prompt m"
    "gm_permission_mode m1 = gm_permission_mode m" "gm_access_mode m1 = gm_access_mode m"
    using m1 by (auto simp: resolved_manifest_def split: option.splits if_splits)
  have "confined_path q" if "q \<in> set (pg_write_manifest p)" for q
  proof -
    have "components q \<in> components ` set (cm_write cm)" using f that unfolding follows_def by blast
    then obtain r where r: "components q = components r" "r \<in> set (cm_write cm)" by blast
    then show ?thesis using checked_ok(3) [OF cm] confined_path_comps [OF r(1)] by (simp add: list_all_iff)
  qed
  moreover have "pg_write_manifest p = [] \<longleftrightarrow> cm_write cm = []" using f unfolding follows_def by (metis image_is_empty set_empty)
  moreover have "validate_digest (wo_env io) (wo_serde io) p" "pg_direct_workspace p = direct"
    "pg_idempotency_key p = gm_idempotency_key m1" "pg_access_mode p = cm_mode cm" "pg_prompt_sha256 p = hash io (gm_prompt m1)"
    using f by (simp_all add: follows_def)
  ultimately show ?thesis
    using checked_ok(1,2) [OF cm] eq by (simp add: list_all_iff confined_path_def)
qed

section \<open>Sizes\<close>

lemma check_attachment_name: "check_attachment io roots seen a w = (Some (Inr source), w') \<Longrightarrow> ai_logical_name a \<notin> set seen"
  by (auto simp: check_attachment_def split: if_splits)

definition attachments_within :: "nat \<Rightarrow> nat \<Rightarrow> nat \<Rightarrow> string list \<Rightarrow> prepared_attachment list \<Rightarrow> bool" where
  "attachments_within limit base used seen as \<longleftrightarrow> base + used + sum_list (map pa_size_bytes as) \<le> limit
     \<and> used + sum_list (map pa_size_bytes as) \<le> MAX_ATTACHMENTS_BYTES \<and> list_all (\<lambda>a. pa_size_bytes a \<le> MAX_ATTACHMENT_BYTES) as
     \<and> distinct (map pa_logical_name as) \<and> set (map pa_logical_name as) \<inter> set seen = {}"

lemma snapshot_attachments_ok:
  assumes "limit < u64_max"
  shows "snapshot_attachments io roots root limit base i seen used inputs w = (Some (Inr as), w') \<Longrightarrow> base + used \<le> limit \<Longrightarrow>
    used \<le> MAX_ATTACHMENTS_BYTES \<Longrightarrow> attachments_within limit base used seen as"
proof (induction inputs arbitrary: i seen used w as)
  case (Cons a inputs)
  obtain size as' w1 name path digest where rest: "snapshot_attachments io roots root limit base (Suc i) (ai_logical_name a # seen) (used + size) inputs w1
        = (Some (Inr as'), w')"
    and as: "as = \<lparr>pa_logical_name = ai_logical_name a, pa_prepared_path = path, pa_sha256 = digest, pa_size_bytes = size\<rparr> # as'"
    and le: "size \<le> MAX_ATTACHMENT_BYTES" "used + size \<le> MAX_ATTACHMENTS_BYTES" "min u64_max (base + (used + size)) \<le> limit"
    and new: "ai_logical_name a \<notin> set seen"
    using Cons.prems(1) by (auto simp: Let_def not_less split: if_splits dest!: check_attachment_name)
  have "base + (used + size) \<le> limit" using le(3) assms by (simp add: min_def split: if_splits)
  from Cons.IH [OF rest _ le(2)] this have "attachments_within limit base (used + size) (ai_logical_name a # seen) as'" by simp
  with new le(1) show ?case by (auto simp: as attachments_within_def)
qed (auto simp: attachments_within_def)

text \<open>The content of a new task is bounded: its prompt, its context files and its attachments together fit
  the context budget of the task, which is at most 16 MiB; an attachment has at most 8 MiB, all of them together at most 32 MiB,
  and no two share a name.\<close>

theorem prepared_content_is_bounded:
  assumes "checked io m direct w0 = (Some (Inr cm), w1)"
    and "prepare_new pe io roots m named direct cm artifact_root legacy key task_root w2 = (Some (Inr p), w3)"
  shows "length (gm_prompt m) + sum_list (map px_size_bytes (pg_context p)) + sum_list (map pa_size_bytes (pg_attachments p))
      \<le> max_context_bytes (pg_effective_budget p)
    \<and> max_context_bytes (pg_effective_budget p) \<le> 16777216
    \<and> sum_list (map pa_size_bytes (pg_attachments p)) \<le> 33554432
    \<and> list_all (\<lambda>a. pa_size_bytes a \<le> 8388608) (pg_attachments p) \<and> distinct (map pa_logical_name (pg_attachments p))"
proof -
  let ?limit = "max_context_bytes (cm_budget cm)"
  have cap: "?limit \<le> 16777216" by (rule budget_below [OF checked_ok(4) [OF assms(1)]])
  then have lim: "?limit < u64_max" by (simp add: u64_max_def)
  obtain t w4 where "build_prepared pe io roots m named direct cm artifact_root legacy task_root t w4 = (Some (Inr p), w3)"
    using assms(2) by (auto simp: prepare_new_def sc_try_ok split: sum.splits)
  then obtain control w5 used w6 root w7 w8
    where cx: "prepare_context io (pw_path t) (cm_context cm) (length (compose_controlled_prompt (render_control_header (pe_pretty pe) control)
        (hash io (gm_prompt m)) (length (gm_prompt m)) (gm_prompt m))) ?limit w5 = (Some (Inr (pg_context p, used)), w6)"
      (is "prepare_context _ _ _ ?n _ _ = _")
    and as: "snapshot_attachments io roots root ?limit used 0 [] 0 (gm_attachments m) w7 = (Some (Inr (pg_attachments p)), w8)"
    and p: "pg_effective_budget p = cm_budget cm"
    by (rule built_task) auto
  have used: "used = ?n + sum_list (map px_size_bytes (pg_context p)) \<and> used \<le> ?limit"
    using cx prepare_context_from_ok [of io "pw_path t" ?limit ?n _ w5] lim by (auto simp: prepare_context_def split: if_splits)
  have "length (gm_prompt m) \<le> ?n" by (simp add: compose_controlled_prompt_def)
  moreover have "attachments_within ?limit used 0 [] (pg_attachments p)"
    using snapshot_attachments_ok [OF lim as] used by simp
  ultimately show ?thesis
    using used cap p by (auto simp: attachments_within_def MAX_ATTACHMENTS_BYTES_def MAX_ATTACHMENT_BYTES_def)
qed

section \<open>What the comments promise and the code does not do\<close>

text \<open>A detached task without an explicit commit is never prepared. The comment on the manifest says the head of
  the repository is pinned when the reference is empty; the code then resolves the text \<^verbatim>\<open>HEAD\<close>, which the check for a full
  object name refuses, so every such preparation fails, and git is never asked.\<close>

theorem head_is_never_pinned:
  assumes "trim (gm_base_ref m) = []"
  shows "\<exists>e w'. prepare pe io roots m w = (Some (Inl e), w')"
proof -
  have "\<exists>r w1. sc_bind (sc_result (validate_manifest m)) (\<lambda>_. canonical_repository io (gm_repository m)) w = (Some r, w1)"
    by (cases "validate_manifest m"; cases "canonical_general_repository (wo_fs io w) (gm_repository m)")
       (auto simp: sc_run canonical_repository_def general_repository_def exists_def if_distribR)
  then obtain r w1 where v: "sc_bind (sc_result (validate_manifest m)) (\<lambda>_. canonical_repository io (gm_repository m)) w = (Some r, w1)"
    by blast
  then have "\<exists>e. checked io m False w = (Some (Inl e), w1)"
    using assms
    by (cases r) (auto simp: checked_def resolve_commit_def sc_bind_def sc_result_def Let_def split: option.splits sum.splits prod.splits)
  then show ?thesis
    by (auto simp: prepare_def prepare_internal_def resolved_manifest_def sc_bind_def sc_result_def)
qed

text \<open>When the preparation of a task in a directory that is not under version control fails after its private
  directory was made, the directory is not removed, whatever was written to it: the clean-up looks for an ancestor with a
  \<^verbatim>\<open>.git\<close>, although such directories are accepted as workspaces.\<close>

theorem unversioned_task_root_is_kept:
  assumes "WorktreeManager_new io (cm_repository cm) task_root w = (Some (Inr mgr), w1)"
    and "bind_direct io mgr w1 = (Some (Inr t), w2)"
    and "build_prepared pe io roots m named True cm artifact_root legacy task_root t w2 = (Some (Inl e), w3)"
    and "wo_exists io task_root w3" and unversioned: "\<And>q. \<not> wo_exists io (path_join q ''.git'') w3"
  shows "\<exists>message. prepare_new pe io roots m named True cm artifact_root legacy key task_root w
     = (Some (Inl (WorktreeError message)), w3)"
proof -
  have "find (\<lambda>a. wo_exists io (path_join a ''.git'') w3) as = None" for as
    using unversioned by (simp add: find_None_iff)
  then have "\<exists>e'. cleanup_task_root_path io task_root w3 = (Some (Inl e'), w3)"
    using assms(4)
    by (cases "fs_canonicalize (wo_fs io w3) task_root"; cases "path_parent (the (fs_canonicalize (wo_fs io w3) task_root))")
       (auto simp: cleanup_task_root_path_def exists_def canonicalize_def canonical_or_io_def ok_or_def sc_run)
  with assms(1,2,3) show ?thesis
    by (auto simp: prepare_new_def fail_after_cleanup_def sc_run)
qed

section \<open>Concrete inputs\<close>

definition demo_preparing :: "unit workspace_io" where
  "demo_preparing = (demo_workspace False)\<lparr>wo_read := \<lambda>_ _. Some ''x'',
     wo_exists := \<lambda>p _. p = ''/w/.agent-work/scratch/t/d'',
     wo_fs := \<lambda>_. \<lparr>fs_canonicalize = Some, fs_symlink_metadata = \<lambda>_. EntryFound, fs_is_dir = \<lambda>_. True,
       fs_is_file = \<lambda>p. p \<noteq> ''/w/.agent-work/scratch/t/d/prepared-general.json''\<rparr>\<rparr>"

definition demo_manifest :: general_manifest where
  "demo_manifest = \<lparr>gm_schema = GENERAL_TASK_SCHEMA, gm_agent_id = ''a'', gm_repository = ''/w'', gm_base_ref = [],
     gm_access_mode = WorkspaceWrite, gm_permission_mode = Build, gm_prompt = ''p'', gm_repo_context = [''c''],
     gm_attachments = [\<lparr>ai_logical_name = ''n'', ai_source_path = ''/r/f'', ai_allowed_root = ''/r''\<rparr>], gm_write_manifest = [''src''],
     gm_scratch_root = ''.agent-work/scratch/t'', gm_artifact_root = ''.agent-work/artifacts/a'', gm_budget = None,
     gm_validation_commands = [], gm_retain_partial = False, gm_idempotency_key = ''k''\<rparr>"

definition demo_prepare_env :: prepare_env where
  "demo_prepare_env = \<lparr>pe_pretty = (\<lambda>_. []), pe_io_message = (\<lambda>_. []), pe_show = (\<lambda>_. [])\<rparr>"

definition demo_checked_manifest :: checked_manifest where
  "demo_checked_manifest = \<lparr>cm_mode = WorkspaceWrite, cm_repository = ''/w'', cm_base_sha = [], cm_budget = default_budget WorkspaceWrite,
     cm_context = [''c''], cm_write = [''src'']\<rparr>"

lemma demo_manifest_checked: "checked demo_preparing demo_manifest True () = (Some (Inr demo_checked_manifest), ())"
  by (simp add: checked_def validate_manifest_def demo_manifest_def identifier_byte_def is_alphanumeric_def trim_def is_whitespace_def
      MAX_PROMPT_BYTES_def MAX_CONTEXT_HINTS_def MAX_ATTACHMENTS_def has_nul_def ensure_unique_paths_def general_repository_def
      canonical_general_repository_def canonical_or_io_def ok_or_def validate_budget_def capped_values_def hard_budget_cap_def
      confined_relative_def reject_protected_def demo_preparing_def demo_workspace_def demo_checked_manifest_def path_eval sc_run Let_def)

lemmas preparing_defs = demo_preparing_def demo_workspace_def demo_reader_def demo_serde_def demo_manifest_def demo_checked_manifest_def demo_prepare_env_def

definition demo_bound_worktree :: prepared_worktree where
  "demo_bound_worktree = \<lparr>pw_repository = ''/w'', pw_path = ''/w'', pw_scratch_worktrees_root = ''/w/.agent-work/scratch/t/d/worktrees'',
     pw_diagnostic_root = ''/w/.agent-work/scratch/t/d/diagnostics'', pw_head_sha = [], pw_source_refs_before = [],
     pw_source_refs_before_sha256 = [], pw_source_refs_before_truncated = False, pw_source_status_before = [],
     pw_source_status_before_sha256 = [], pw_source_status_before_truncated = False\<rparr>"

lemma demo_context:
  "n \<le> 3999999 \<Longrightarrow> prepare_context demo_preparing ''/w'' [''c''] n 4000000 ()
     = (Some (Inr ([\<lparr>px_repository_relative = ''c'', px_sha256 = ''d'', px_size_bytes = 1\<rparr>], Suc n)), ())"
  by (simp add: prepare_context_def reject_protected_def reject_symlink_path_def canonicalize_def canonical_or_io_def ok_or_def
      secret_type_def read_file_def hash_def preparing_defs path_eval sc_run Let_def file_extension_def to_ascii_lowercase_def ascii_lower_char_def u64_max_def)

lemma demo_attached:
  "n \<le> 3999999 \<Longrightarrow> \<exists>r. snapshot_attachments demo_preparing roots root 4000000 n 0 [] 0 (gm_attachments demo_manifest) () = (Some r, ())
     \<and> ((\<exists>as. r = Inr as) \<longleftrightarrow> list_ex (\<lambda>q. path_eq q ''/r'') roots)"
  by (cases "list_ex (\<lambda>q. path_eq q ''/r'') roots")
     (simp_all add: check_attachment_def canonicalize_def canonical_or_io_def ok_or_def is_agent_metadata_path_def symlink_kind_def
      secret_type_def read_file_def hash_def atomic_write_def io_unit_def preparing_defs path_eval sc_run file_extension_def to_ascii_lowercase_def
      ascii_lower_char_def u64_max_def has_nul_def MAX_ATTACHMENT_BYTES_def MAX_ATTACHMENTS_BYTES_def)

lemma demo_primitives:
  "hash demo_preparing b = ''d''" "canonicalize demo_preparing p w = (Some (Inr p), w)"
  "create_dir demo_preparing r name w = (Some (Inr (path_join r name)), w)" "atomic_write demo_preparing p b w = (Some (Inr ()), w)"
  "check_digest demo_preparing (sign demo_preparing q) w = (Some (Inr ()), w)"
  "env_to_json (wo_env demo_preparing) j = ''t''"
  by (simp_all add: preparing_defs hash_def canonicalize_def canonical_or_io_def ok_or_def create_dir_def io_unit_def atomic_write_def
      check_digest_def validate_digest_def prepared_digest_def sign_def sc_run)

lemma demo_control:
  "expected_control demo_preparing demo_manifest demo_checked_manifest [] ''/w''
     = Inr (new_control_contract WorkspaceWrite ''d'' 1 [''c''] [''src''] [])"
  by (simp add: expected_control_def control_contract_from_prepared_commands_def demo_primitives normalized_paths_def)
     (simp add: demo_manifest_def demo_checked_manifest_def)

lemma demo_prep_fields:
  "gm_validation_commands demo_manifest = []" "gm_prompt demo_manifest = ''p''" "cm_mode demo_checked_manifest = WorkspaceWrite"
  "cm_context demo_checked_manifest = [''c'']" "cm_repository demo_checked_manifest = ''/w''"
  "max_context_bytes (cm_budget demo_checked_manifest) = 4000000" "pw_path demo_bound_worktree = ''/w''"
  "path_join (path_join ''/w/.agent-work/scratch/t/d'' ''private-inputs'') ''attachments'' = ''/w/.agent-work/scratch/t/d/private-inputs/attachments''"
  by (simp_all add: demo_manifest_def demo_checked_manifest_def demo_bound_worktree_def path_join_def)

text \<open>With an approved root the build succeeds, without one it fails at the attachment.\<close>

lemma demo_build:
  "\<exists>r. build_prepared demo_prepare_env demo_preparing roots demo_manifest None True demo_checked_manifest artifact_root ''d''
     ''/w/.agent-work/scratch/t/d'' demo_bound_worktree () = (Some r, ()) \<and> ((\<exists>p. r = Inr p) \<longleftrightarrow> list_ex (\<lambda>q. path_eq q ''/r'') roots)"
proof -
  let ?n = "length (compose_controlled_prompt (render_control_header (pe_pretty demo_prepare_env) (new_control_contract WorkspaceWrite ''d'' 1 [''c''] [''src''] []))
     ''d'' 1 ''p'')"
  have n: "?n \<le> 3999998"
    by (simp add: compose_controlled_prompt_def render_control_header_def demo_prepare_env_def LF_def GENERAL_CONTROL_SCHEMA_def show_nat.simps)
  obtain r where "snapshot_attachments demo_preparing roots ''/w/.agent-work/scratch/t/d/private-inputs/attachments'' 4000000 (Suc ?n) 0 [] 0
      (gm_attachments demo_manifest) () = (Some r, ())" "(\<exists>as. r = Inr as) \<longleftrightarrow> list_ex (\<lambda>q. path_eq q ''/r'') roots"
    using demo_attached [of "Suc ?n" roots] n by fastforce
  moreover have "prepare_context demo_preparing ''/w'' [''c''] ?n 4000000 () = (Some (Inr ([\<lparr>px_repository_relative = ''c'', px_sha256 = ''d'', px_size_bytes = 1\<rparr>], Suc ?n)), ())"
    using demo_context n by simp
  ultimately show ?thesis
    by (cases r) (auto simp: build_prepared_def demo_primitives sc_bind_def [where 's = unit] prepare_general_commands_def demo_prep_fields
        demo_control read_only_snapshot_def sc_result_def Let_def)
qed

lemma demo_bound_direct:
  "WorktreeManager_new demo_preparing ''/w'' ''/w/.agent-work/scratch/t/d'' ()
      = (Some (Inr \<lparr>wm_repository = ''/w'', wm_scratch_root = ''/w/.agent-work/scratch/t/d''\<rparr>), ())"
  "bind_direct demo_preparing \<lparr>wm_repository = ''/w'', wm_scratch_root = ''/w/.agent-work/scratch/t/d''\<rparr> () = (Some (Inr demo_bound_worktree), ())"
  by (simp_all add: WorktreeManager_new_def bind_direct_def create_and_canonicalize_def preparing_defs demo_bound_worktree_def io_unit_def
      canonicalize_def canonical_or_io_def ok_or_def path_eval sc_run)

lemma demo_new:
  "\<exists>p. prepare_new demo_prepare_env demo_preparing [''/r''] demo_manifest None True demo_checked_manifest artifact_root ''d'' ''d''
     ''/w/.agent-work/scratch/t/d'' () = (Some (Inr p), ())"
proof -
  obtain p where "build_prepared demo_prepare_env demo_preparing [''/r''] demo_manifest None True demo_checked_manifest artifact_root ''d''
      ''/w/.agent-work/scratch/t/d'' demo_bound_worktree () = (Some (Inr p), ())" using demo_build [of "[''/r'']" artifact_root] by (auto simp: path_eq_def)
  then show ?thesis
    using demo_bound_direct by (simp add: prepare_new_def demo_prep_fields sc_bind_def sc_try_def sc_result_def)
qed

theorem prepared_content_is_bounded_witness:
  "\<exists>p. prepare_new demo_prepare_env demo_preparing [''/r''] demo_manifest None True demo_checked_manifest ''/a'' ''d'' ''d'' ''/w/.agent-work/scratch/t/d'' ()
     = (Some (Inr p), ()) \<and> sum_list (map pa_size_bytes (pg_attachments p)) \<le> 33554432"
  using demo_new prepared_content_is_bounded [OF demo_manifest_checked] by blast

lemma demo_roots:
  "require_private_root (gm_scratch_root demo_manifest) ''scratch'' = Inr ()" "require_private_root (gm_artifact_root demo_manifest) ''artifacts'' = Inr ()"
  "file_name (gm_artifact_root demo_manifest) = Some (gm_agent_id demo_manifest)"
  "canonical_existing_parent demo_preparing ''/w'' (gm_scratch_root demo_manifest) () = (Some (Inr ''/w/.agent-work/scratch/t''), ())"
  "canonical_existing_parent demo_preparing ''/w'' (gm_artifact_root demo_manifest) () = (Some (Inr ''/w/.agent-work/artifacts/a''), ())"
  by (simp_all add: require_private_root_def canonical_existing_parent_def confined_relative_def reject_existing_symlinks_def io_unit_def
      canonicalize_def canonical_or_io_def ok_or_def preparing_defs path_eval sc_run)

theorem prepared_task_follows_manifest_witness:
  "\<exists>p. prepare_internal demo_prepare_env demo_preparing [''/r''] demo_manifest None True () = (Some (Inr p), ())
     \<and> pg_access_mode p = WorkspaceWrite \<and> pg_write_manifest p \<noteq> []"
proof -
  have "io_unit (wo_create_dir_all demo_preparing q) () = (Some (Inr ()), ())" for q
    by (simp add: preparing_defs io_unit_def sc_run)
  moreover have "\<not> fs_is_file (wo_fs demo_preparing ()) (path_join ''/w/.agent-work/scratch/t/d'' ''prepared-general.json'')"
    by (simp add: preparing_defs path_join_def)
  ultimately have "\<exists>p. prepare_internal demo_prepare_env demo_preparing [''/r''] demo_manifest None True () = (Some (Inr p), ())"
    using demo_new [of "''/w/.agent-work/artifacts/a''"]
    by (simp add: prepare_internal_def demo_manifest_checked resolved_manifest_def demo_roots demo_prep_fields demo_primitives Let_def
        sc_bind_def sc_result_def io_ask_def path_join_def)
  then obtain p where p: "prepare_internal demo_prepare_env demo_preparing [''/r''] demo_manifest None True () = (Some (Inr p), ())" by blast
  from prepared_task_follows_manifest [OF this] have "pg_access_mode p = WorkspaceWrite \<and> pg_write_manifest p \<noteq> []"
    by (auto simp: demo_manifest_def)
  with p show ?thesis by blast
qed

theorem head_is_never_pinned_witness:
  "\<exists>e w'. prepare demo_prepare_env demo_preparing [] demo_manifest () = (Some (Inl e), w')"
  by (rule head_is_never_pinned) (simp add: demo_manifest_def trim_def)

theorem unversioned_task_root_is_kept_witness:
  "\<exists>message. prepare_new demo_prepare_env demo_preparing [] demo_manifest None True demo_checked_manifest ''/a'' ''d'' ''d''
     ''/w/.agent-work/scratch/t/d'' () = (Some (Inl (WorktreeError message)), ())"
proof -
  obtain r where r: "build_prepared demo_prepare_env demo_preparing [] demo_manifest None True demo_checked_manifest ''/a'' ''d''
     ''/w/.agent-work/scratch/t/d'' demo_bound_worktree () = (Some r, ())" "\<nexists>p. r = Inr p"
    using demo_build [of "[]" "''/a''"] by auto
  then obtain e where "r = Inl e" by (cases r) auto
  with r have "build_prepared demo_prepare_env demo_preparing [] demo_manifest None True demo_checked_manifest ''/a'' ''d''
     ''/w/.agent-work/scratch/t/d'' demo_bound_worktree () = (Some (Inl e), ())" by simp
  moreover have "wo_exists demo_preparing ''/w/.agent-work/scratch/t/d'' ()" "\<not> wo_exists demo_preparing (path_join q ''.git'') ()" for q
    by (simp_all add: preparing_defs path_join_def)
  ultimately show ?thesis
    using unversioned_task_root_is_kept [of demo_preparing demo_checked_manifest] demo_bound_direct by (simp add: demo_prep_fields)
qed

end
