(* ===== verification/Scheduler.thy ===== *)
theory Scheduler
  imports Final_Patch Store_Trace
begin

text \<open>
  The scheduler of \<^verbatim>\<open>zcode-agentd/src/lib.rs\<close> (\<^verbatim>\<open>impl Scheduler\<close>): it claims tasks, starts a runtime for each,
  forwards messages and answers, watches the runtime and ends it. Its operations are commands of
  a state monad with errors; \<open>None\<close> is a call that does not return (a panic, or a loop that is not
  over yet).

  The operations run in many threads. Before every access to shared state, and before every call
  of a runtime, other threads may act: \<open>si_others\<close> says what they do there, as a list of actions of
  the code itself (\<open>interference\<close>), so a property of an operation holds under every interleaving of
  such actions: every write of the store, the rollback of a resumption that failed, the spawn and the
  registration of the runtime of a claimed task, records of event pumps, stops, and the release of
  runtimes. The per-task mutex only orders operations further; whether it is obtained before a deadline
  is decided by the environment.

  A runtime is a handle; the trait \<^verbatim>\<open>ManagedRuntime\<close>, the files and git of the workspace and the
  execution of validation commands are fields of \<open>sched_io\<close>. One call of the finalizer, of the sink
  or of \<^verbatim>\<open>persist_general_result\<close> is one step of the model. The sinks, with the phase of
  their runtime, are shared by handle, as the \<^verbatim>\<open>Arc\<close>s of the code are.
\<close>

section \<open>Errors, configuration and state\<close>

datatype sched_error =
    SchedStore store_error
  | InvalidConfig string
  | RuntimeSpawn string string
  | LifecycleSinkFailed string string
  | RuntimeCommand string string

fun sched_error_text :: "(store_error \<Rightarrow> string) \<Rightarrow> sched_error \<Rightarrow> string" where
  "sched_error_text show (SchedStore e) = show e"
| "sched_error_text show (InvalidConfig m) = ''invalid scheduler config: '' @ m"
| "sched_error_text show (RuntimeSpawn a m) = ''runtime spawn failed for '' @ a @ '': '' @ m"
| "sched_error_text show (LifecycleSinkFailed a m) = ''lifecycle sink failed for '' @ a @ '': '' @ m"
| "sched_error_text show (RuntimeCommand a m) = ''runtime command failed for '' @ a @ '': '' @ m"

record sched_config =
  cf_per_workspace_max_agents :: nat
  cf_stop_grace :: nat
  cf_bootstrap_timeout :: nat
  cf_control_timeout :: nat
  cf_transport_idle_timeout :: nat
  cf_model_call_timeout :: nat

definition sched_config_error :: "sched_config \<Rightarrow> sched_error option" where
  "sched_config_error c =
     (if cf_per_workspace_max_agents c = 0 \<or> cf_bootstrap_timeout c = 0 \<or> cf_control_timeout c = 0
         \<or> cf_transport_idle_timeout c = 0 \<or> cf_model_call_timeout c = 0
      then Some (InvalidConfig ''scheduler limits and deadlines must be positive'') else None)"

record active_runtime =
  ar_owner_epoch :: nat
  ar_runtime :: nat
  ar_session_id :: string
  ar_route :: task_route
  ar_task :: "task_record option"
  ar_policy :: "policy_launcher option"

text \<open>
  What another thread can do: a write to the store, the rollback of a resumption whose task it had
  read as \<open>original\<close>, a record of the event pump, a request to stop a runtime, the cancellation of its
  checks, spawning, registering or releasing a runtime, and recording a failure.
\<close>

datatype interference =
    OtherWrite int store_op
  | OtherRestores int task_record "task_result option"
  | PumpEmits nat int int nat nat lifecycle_record
  | OtherStops nat nat turn_snapshot
  | OtherCancels nat
  | OtherSpawns nat sink_id sink
  | OtherRegisters string active_runtime
  | OtherReleases string nat
  | OtherFails string string

text \<open>
  For the statements only, in order: what is handed to a runtime, the files the policy decided a
  request on, and the rollback of a resumption.
\<close>

datatype runtime_call =
    CallStop nat runtime_terminal
  | CallSend nat string string
  | CallRespond nat string string
  | CallMonitor nat
  | CallPolicy file_system pending_row
  | CallRestore string

record 'w sched =
  sc_world :: 'w
  sc_store :: store
  sc_active :: "(string \<times> active_runtime) list"
  sc_activities :: "(string \<times> nat) list"
  sc_failures :: "(string \<times> string) list"
  sc_sinks :: "nat \<Rightarrow> sink_id \<times> sink"
  sc_cancelled :: "nat \<Rightarrow> bool"
  sc_signals :: "(32 word \<times> nat) list"
  sc_calls :: "runtime_call list"

record command_output =
  co_status_code :: "int option"
  co_timed_out :: bool
  co_cancelled :: bool
  co_stdout_truncated :: bool
  co_stderr_truncated :: bool

record 'w sched_io =
  si_sink_env :: sink_env
  si_workspace :: "'w workspace_io"
  si_fits :: response_fits
  si_config :: sched_config
  si_owner_id :: string
  si_show_error :: "store_error \<Rightarrow> string"
  si_show_preparation :: "preparation_error \<Rightarrow> string"
  si_json_error :: "string \<Rightarrow> string"
  si_instant_max :: nat
  si_time :: "'w \<Rightarrow> int \<times> 'w"
  si_now :: "'w \<Rightarrow> nat \<times> 'w"
  si_others :: "'w \<Rightarrow> interference list \<times> 'w"
  si_lock :: "nat \<Rightarrow> nat \<Rightarrow> 'w \<Rightarrow> bool \<times> 'w"
  si_os :: "'w os"
  si_polls :: "nat \<Rightarrow> nat"
  si_spawn :: "task_record \<Rightarrow> 'w \<Rightarrow> (string + nat) \<times> 'w"
  si_identity :: "nat \<Rightarrow> 'w \<Rightarrow> process_identity option"
  si_turns :: "nat \<Rightarrow> 'w \<Rightarrow> turn_snapshot"
  si_wait_terminal :: "nat \<Rightarrow> nat \<Rightarrow> 'w \<Rightarrow> runtime_terminal option \<times> 'w"
  si_stop :: "nat \<Rightarrow> nat \<Rightarrow> 'w \<Rightarrow> runtime_terminal \<times> 'w"
  si_finish_turn :: "nat \<Rightarrow> turn_boundary \<Rightarrow> nat \<Rightarrow> 'w \<Rightarrow> runtime_terminal \<times> 'w"
  si_bootstrap :: "nat \<Rightarrow> task_record \<Rightarrow> nat \<Rightarrow> 'w \<Rightarrow> (runtime_command_error + session_ready) \<times> 'w"
  si_resume :: "nat \<Rightarrow> task_record \<Rightarrow> nat \<Rightarrow> 'w \<Rightarrow> (runtime_command_error + session_ready) \<times> 'w"
  si_send_turn :: "nat \<Rightarrow> string \<Rightarrow> string \<Rightarrow> nat \<Rightarrow> 'w \<Rightarrow> (runtime_command_error + string option) \<times> 'w"
  si_stop_turn :: "nat \<Rightarrow> string \<Rightarrow> nat \<Rightarrow> 'w \<Rightarrow> (runtime_command_error + turn_snapshot) \<times> 'w"
  si_close_session :: "nat \<Rightarrow> string \<Rightarrow> nat \<Rightarrow> 'w \<Rightarrow> (runtime_command_error + unit) \<times> 'w"
  si_respond :: "nat \<Rightarrow> string \<Rightarrow> string \<Rightarrow> string option \<Rightarrow> denial_semantics option \<Rightarrow> nat \<Rightarrow> 'w
                 \<Rightarrow> (runtime_command_error + unit) \<times> 'w"
  si_run_check :: "prepared_task \<Rightarrow> string \<Rightarrow> nat \<Rightarrow> 'w \<Rightarrow> (preparation_error + command_output) \<times> 'w"

abbreviation si_env :: "'w sched_io \<Rightarrow> store_env" where "si_env io \<equiv> sv_store (si_sink_env io)"
abbreviation si_serde :: "'w sched_io \<Rightarrow> prepared_serde" where "si_serde io \<equiv> wo_serde (si_workspace io)"
abbreviation si_fs :: "'w sched_io \<Rightarrow> 'w \<Rightarrow> file_system" where "si_fs io \<equiv> wo_fs (si_workspace io)"

section \<open>Commands\<close>

type_synonym ('w, 'a) sched_cmd = "('w sched, sched_error, 'a) cmd"

definition set_sink :: "nat \<Rightarrow> sink_id \<times> sink \<Rightarrow> 'w sched \<Rightarrow> 'w sched" where
  "set_sink h ik s = s\<lparr>sc_sinks := (sc_sinks s)(h := ik)\<rparr>"

definition on_sink :: "nat \<Rightarrow> (sink \<Rightarrow> sink) \<Rightarrow> 'w sched \<Rightarrow> 'w sched" where
  "on_sink h f s = set_sink h (fst (sc_sinks s h), f (snd (sc_sinks s h))) s"

definition on_phase :: "nat \<Rightarrow> (runtime_lifecycle \<Rightarrow> runtime_lifecycle) \<Rightarrow> 'w sched \<Rightarrow> 'w sched" where
  "on_phase h f = on_sink h (\<lambda>k. k\<lparr>sk_lifecycle := f (sk_lifecycle k)\<rparr>)"

definition phase_of :: "nat \<Rightarrow> 'w sched \<Rightarrow> runtime_lifecycle" where
  "phase_of h s = sk_lifecycle (snd (sc_sinks s h))"

text \<open>The activity of the last runtime of an agent stays readable after the runtime is released.\<close>

definition register :: "string \<Rightarrow> active_runtime \<Rightarrow> 'w sched \<Rightarrow> 'w sched" where
  "register agent_id r s = s\<lparr>sc_active := (agent_id, r) # drop_key agent_id (sc_active s),
     sc_activities := (agent_id, ar_runtime r) # drop_key agent_id (sc_activities s)\<rparr>"

definition release :: "string \<Rightarrow> nat \<Rightarrow> 'w sched \<Rightarrow> 'w sched" where
  "release agent_id owner_epoch s =
     (case map_of (sc_active s) agent_id of
        Some a \<Rightarrow>
          if ar_owner_epoch a = owner_epoch
          then (on_phase (ar_runtime a) terminalize s)\<lparr>sc_active := drop_key agent_id (sc_active s)\<rparr> else s
      | None \<Rightarrow> s)"

definition note_failure :: "string \<Rightarrow> string \<Rightarrow> 'w sched \<Rightarrow> 'w sched" where
  "note_failure agent_id message s =
     (if map_of (sc_failures s) agent_id = None then s\<lparr>sc_failures := (agent_id, message) # sc_failures s\<rparr> else s)"

definition emit_to :: "nat \<Rightarrow> (sink \<Rightarrow> sink) \<Rightarrow> 'w sched \<Rightarrow> 'w sched" where
  "emit_to h f s =
     (case sc_sinks s h of (i, k) \<Rightarrow>
        let k' = f (k\<lparr>sk_store := sc_store s\<rparr>) in (set_sink h (i, k') s)\<lparr>sc_store := sk_store k'\<rparr>)"

text \<open>
  A runtime is spawned and registered for a claim that was handed out: the epoch is one the task had.
  It is spawned under a handle no registered runtime has, and registered with the sink of its own task and
  epoch.
\<close>

definition claimed_under :: "string \<Rightarrow> nat \<Rightarrow> store \<Rightarrow> bool" where
  "claimed_under agent_id owner_epoch st =
     (case task_row_of st agent_id of Some t \<Rightarrow> 0 < owner_epoch \<and> int owner_epoch \<le> tk_owner_epoch t | None \<Rightarrow> False)"

definition other_spawns :: "nat \<Rightarrow> sink_id \<Rightarrow> sink \<Rightarrow> 'w sched \<Rightarrow> 'w sched" where
  "other_spawns h i k s =
     (if claimed_under (sk_agent_id i) (sk_owner_epoch i) (sc_store s) \<and> list_all (\<lambda>(a, r). ar_runtime r \<noteq> h) (sc_active s)
      then set_sink h (i, k) s else s)"

definition other_registers :: "string \<Rightarrow> active_runtime \<Rightarrow> 'w sched \<Rightarrow> 'w sched" where
  "other_registers agent_id r s =
     (if claimed_under agent_id (ar_owner_epoch r) (sc_store s)
       \<and> sk_agent_id (fst (sc_sinks s (ar_runtime r))) = agent_id \<and> sk_owner_epoch (fst (sc_sinks s (ar_runtime r))) = ar_owner_epoch r
      then register agent_id r s else s)"

definition other_restores :: "store_env \<Rightarrow> int \<Rightarrow> task_record \<Rightarrow> task_result option \<Rightarrow> 'w sched \<Rightarrow> 'w sched" where
  "other_restores env now original result s =
     (case restore_terminal_after_resume_failure env now original result (sc_store s) of
        Inl e \<Rightarrow> s
      | Inr (u, st) \<Rightarrow> s\<lparr>sc_store := st, sc_calls := sc_calls s @ [CallRestore (tr_agent_id original)]\<rparr>)"

fun interfere :: "'w sched_io \<Rightarrow> interference \<Rightarrow> 'w sched \<Rightarrow> 'w sched" where
  "interfere io (OtherWrite now op) s = s\<lparr>sc_store := run_op (si_env io) now op (sc_store s)\<rparr>"
| "interfere io (PumpEmits h now now' instant wall r) s =
     emit_to h (sink_emit (si_sink_env io) (fst (sc_sinks s h)) now now' instant wall r) s"
| "interfere io (OtherStops h now turn) s = on_phase h (lifecycle_request_stop now turn) s"
| "interfere io (OtherCancels h) s = s\<lparr>sc_cancelled := (sc_cancelled s)(h := True)\<rparr>"
| "interfere io (OtherRestores now original result) s = other_restores (si_env io) now original result s"
| "interfere io (OtherSpawns h i k) s = other_spawns h i k s"
| "interfere io (OtherRegisters a r) s = other_registers a r s"
| "interfere io (OtherReleases a e) s = release a e s"
| "interfere io (OtherFails a m) s = note_failure a m s"

definition others :: "'w sched_io \<Rightarrow> 'w sched \<Rightarrow> 'w sched" where
  "others io s = (case si_others io (sc_world s) of (xs, w) \<Rightarrow> fold (interfere io) xs (s\<lparr>sc_world := w\<rparr>))"

text \<open>Reading and changing the shared memory, the store and the world, each after the other threads had their turn.\<close>

definition sc_get :: "'w sched_io \<Rightarrow> ('w sched \<Rightarrow> 'a) \<Rightarrow> ('w, 'a) sched_cmd" where
  "sc_get io f s = (let s1 = others io s in (Some (Inr (f s1)), s1))"

definition sc_put :: "'w sched_io \<Rightarrow> ('w sched \<Rightarrow> 'w sched) \<Rightarrow> ('w, unit) sched_cmd" where
  "sc_put io f s = (Some (Inr ()), f (others io s))"

definition sc_read :: "'w sched_io \<Rightarrow> (store \<Rightarrow> 'a store_result) \<Rightarrow> ('w, 'a) sched_cmd" where
  "sc_read io q s = (let s1 = others io s in (Some (map_sum SchedStore id (q (sc_store s1))), s1))"

definition sc_write :: "'w sched_io \<Rightarrow> (int \<Rightarrow> 'a store_tx) \<Rightarrow> ('w, 'a) sched_cmd" where
  "sc_write io op s =
     (let s1 = others io s in
      case si_time io (sc_world s1) of (now, w) \<Rightarrow>
        (case op now (sc_store s1) of
           Inl e \<Rightarrow> (Some (Inl (SchedStore e)), s1\<lparr>sc_world := w\<rparr>)
         | Inr (x, st) \<Rightarrow> (Some (Inr x), s1\<lparr>sc_world := w, sc_store := st\<rparr>)))"

definition sc_call :: "'w sched_io \<Rightarrow> ('w \<Rightarrow> 'a \<times> 'w) \<Rightarrow> ('w, 'a) sched_cmd" where
  "sc_call io f s = (let s1 = others io s in case f (sc_world s1) of (x, w) \<Rightarrow> (Some (Inr x), s1\<lparr>sc_world := w\<rparr>))"

definition sc_log :: "runtime_call \<Rightarrow> ('w, unit) sched_cmd" where
  "sc_log c s = (Some (Inr ()), s\<lparr>sc_calls := sc_calls s @ [c]\<rparr>)"

text \<open>A command of the preparation crate, run on the world.\<close>

definition sc_world_cmd :: "'w sched_io \<Rightarrow> ('w, sched_error, 'a) cmd \<Rightarrow> ('w, 'a) sched_cmd" where
  "sc_world_cmd io m s = (let s1 = others io s in case m (sc_world s1) of (r, w) \<Rightarrow> (r, s1\<lparr>sc_world := w\<rparr>))"

definition record_failure :: "'w sched_io \<Rightarrow> string \<Rightarrow> string \<Rightarrow> ('w, unit) sched_cmd" where
  "record_failure io agent_id message = sc_put io (note_failure agent_id message)"

definition record_error :: "'w sched_io \<Rightarrow> string \<Rightarrow> sched_error + 'a \<Rightarrow> ('w, unit) sched_cmd" where
  "record_error io agent_id r =
     (case r of Inl e \<Rightarrow> record_failure io agent_id (sched_error_text (si_show_error io) e) | Inr x \<Rightarrow> sc_ok ())"

definition release_active :: "'w sched_io \<Rightarrow> string \<Rightarrow> nat \<Rightarrow> ('w, unit) sched_cmd" where
  "release_active io agent_id owner_epoch = sc_put io (release agent_id owner_epoch)"

end
