(* ===== verification/Scheduler_Ends.thy ===== *)
theory Scheduler_Ends
  imports Scheduler
begin

text \<open>
  How the scheduler ends a task: cooperative stops, delivery of queued messages, the required
  checks, the completion that becomes the result, and the clean-up of a registered runtime.
\<close>

section \<open>Deadlines and ingress\<close>

definition late_ingress_error :: "string \<Rightarrow> string \<Rightarrow> sched_error" where
  "late_ingress_error agent_id reason_text = RuntimeCommand agent_id reason_text"

definition require_runtime_ingress :: "'w sched_io \<Rightarrow> string \<Rightarrow> nat \<Rightarrow> ('w, unit) sched_cmd" where
  "require_runtime_ingress io agent_id h =
     sc_bind (sc_get io (\<lambda>s. ingress_reason (phase_of h s))) (\<lambda>r.
       case r of Some reason_text \<Rightarrow> sc_fail (late_ingress_error agent_id reason_text) | None \<Rightarrow> sc_ok ())"

text \<open>\<^verbatim>\<open>Instant::now() + budget\<close> panics where the sum cannot be represented.\<close>

definition control_deadline :: "'w sched_io \<Rightarrow> ('w, nat) sched_cmd" where
  "control_deadline io =
     sc_bind (sc_call io (si_now io)) (\<lambda>now.
       if now + cf_control_timeout (si_config io) > si_instant_max io then sc_panic
       else sc_ok (now + cf_control_timeout (si_config io)))"

definition control_timeout_error :: "string \<Rightarrow> sched_error" where
  "control_timeout_error agent_id = RuntimeCommand agent_id ''control operation deadline elapsed''"

definition sched_remaining :: "'w sched_io \<Rightarrow> nat \<Rightarrow> ('w, nat option) sched_cmd" where
  "sched_remaining io deadline = sc_bind (sc_call io (si_now io)) (\<lambda>now. sc_ok (deadline_remaining deadline now))"

definition require_remaining :: "'w sched_io \<Rightarrow> string \<Rightarrow> nat \<Rightarrow> ('w, nat) sched_cmd" where
  "require_remaining io agent_id deadline =
     sc_bind (sched_remaining io deadline) (sc_of (control_timeout_error agent_id))"

definition lock_operation :: "'w sched_io \<Rightarrow> string \<Rightarrow> nat \<Rightarrow> nat \<Rightarrow> ('w, unit) sched_cmd" where
  "lock_operation io agent_id h deadline =
     sc_bind (sc_call io (si_lock io h deadline)) (\<lambda>locked.
       if locked then sc_ok () else sc_fail (control_timeout_error agent_id))"

definition runtime_phase_deadline_of :: "'w sched_io \<Rightarrow> string \<Rightarrow> nat \<Rightarrow> ('w, nat) sched_cmd" where
  "runtime_phase_deadline_of io agent_id deadline =
     sc_bind (sc_call io (si_now io)) (\<lambda>now. sc_bind (sc_call io (si_now io)) (\<lambda>now'.
       sc_of (control_timeout_error agent_id) (runtime_phase_deadline deadline now now' (cf_stop_grace (si_config io)))))"

definition runtime_phase_timeout :: "'w sched_io \<Rightarrow> string \<Rightarrow> nat \<Rightarrow> ('w, nat) sched_cmd" where
  "runtime_phase_timeout io agent_id deadline =
     sc_bind (sc_call io (si_now io)) (\<lambda>now. sc_bind (sc_call io (si_now io)) (\<lambda>now'.
     sc_bind (sc_call io (si_now io)) (\<lambda>now''.
       sc_of (control_timeout_error agent_id) (runtime_phase deadline now now' now'' (cf_stop_grace (si_config io))))))"

definition cleanup_grace_of :: "'w sched_io \<Rightarrow> nat \<Rightarrow> ('w, nat) sched_cmd" where
  "cleanup_grace_of io deadline =
     sc_bind (sc_call io (si_now io)) (\<lambda>now. sc_ok (cleanup_grace deadline now (cf_stop_grace (si_config io))))"

definition turn_snapshot_of :: "'w sched_io \<Rightarrow> nat \<Rightarrow> ('w, turn_snapshot) sched_cmd" where
  "turn_snapshot_of io h = sc_get io (\<lambda>s. si_turns io h (sc_world s))"

definition stop_runtime :: "'w sched_io \<Rightarrow> nat \<Rightarrow> nat \<Rightarrow> ('w, runtime_terminal) sched_cmd" where
  "stop_runtime io h grace =
     sc_bind (sc_call io (si_stop io h grace)) (\<lambda>t. sc_bind (sc_log (CallStop h t)) (\<lambda>_. sc_ok t))"

definition request_phase_stop :: "'w sched_io \<Rightarrow> nat \<Rightarrow> turn_snapshot \<Rightarrow> ('w, unit) sched_cmd" where
  "request_phase_stop io h turn =
     sc_bind (sc_call io (si_now io)) (\<lambda>now. sc_put io (on_phase h (lifecycle_request_stop now turn)))"

definition phase_stop :: "'w sched_io \<Rightarrow> nat \<Rightarrow> ('w, unit) sched_cmd" where
  "phase_stop io h = sc_bind (turn_snapshot_of io h) (request_phase_stop io h)"

definition force_phase :: "'w sched_io \<Rightarrow> nat \<Rightarrow> ('w, unit) sched_cmd" where
  "force_phase io h = sc_put io (on_phase h force_terminating)"

definition acknowledge_phase :: "'w sched_io \<Rightarrow> nat \<Rightarrow> turn_snapshot \<Rightarrow> ('w, bool) sched_cmd" where
  "acknowledge_phase io h turn s =
     (let s1 = others io s in
      (Some (Inr (fst (acknowledge_boundary turn (phase_of h s1)))), on_phase h (\<lambda>l. snd (acknowledge_boundary turn l)) s1))"

definition request_cooperative_stop :: "'w sched_io \<Rightarrow> nat \<Rightarrow> string \<Rightarrow> nat \<Rightarrow> ('w, string option) sched_cmd" where
  "request_cooperative_stop io h session_id timeout =
     sc_bind (turn_snapshot_of io h) (\<lambda>current.
     sc_bind (request_phase_stop io h current) (\<lambda>_.
     sc_bind (acknowledge_phase io h current) (\<lambda>acknowledged.
       if acknowledged then sc_ok None
       else if ts_active current
       then sc_bind (sc_call io (si_stop_turn io h session_id timeout)) (\<lambda>r.
              case r of
                Inr boundary \<Rightarrow>
                  sc_bind (acknowledge_phase io h boundary) (\<lambda>matched.
                    if matched then sc_ok None
                    else sc_bind (force_phase io h) (\<lambda>_.
                           sc_ok (Some ''session/stop returned without a matching turn boundary'')))
              | Inl e \<Rightarrow> sc_bind (force_phase io h) (\<lambda>_. sc_ok (Some (command_error_text e))))
       else sc_bind (force_phase io h) (\<lambda>_. sc_ok (Some ''active turn had no matching stop boundary'')))))"

section \<open>Messages\<close>

definition deliver_next_message ::
    "'w sched_io \<Rightarrow> string \<Rightarrow> string \<Rightarrow> nat \<Rightarrow> nat \<Rightarrow> ('w, message_row option) sched_cmd" where
  "deliver_next_message io agent_id session_id h deadline =
     sc_bind (require_runtime_ingress io agent_id h) (\<lambda>_.
     sc_bind (sc_write io (\<lambda>now. claim_next_message agent_id)) (\<lambda>claimed.
       case claimed of
         None \<Rightarrow> sc_ok None
       | Some message \<Rightarrow>
           sc_bind (sc_try (require_runtime_ingress io agent_id h)) (\<lambda>ingress.
             case ingress of
               Inl e \<Rightarrow>
                 sc_bind (sc_write io (\<lambda>now. fail_message (ms_message_id message) ''LATE_AFTER_STOP''
                            ''runtime_lifecycle stopped before message delivery'')) (\<lambda>_. sc_fail e)
             | Inr u \<Rightarrow>
                 sc_bind (runtime_phase_timeout io agent_id deadline) (\<lambda>timeout.
                 sc_bind (sc_call io (si_send_turn io h session_id (ms_content message) timeout)) (\<lambda>sent.
                 sc_bind (sc_log (CallSend h session_id (ms_content message))) (\<lambda>_.
                   case sent of
                     Inr turn_id \<Rightarrow>
                       sc_bind (sc_write io (\<lambda>now. complete_message now (ms_message_id message) turn_id)) (\<lambda>completed.
                         if \<not> completed
                         then sc_fail (SchedStore (Conflict (''message '' @ ms_message_id message @ '' lost its delivery claim'')))
                         else sc_read io (\<lambda>st. Inr (query_message st (ms_message_id message))))
                   | Inl e \<Rightarrow>
                       sc_bind (sc_write io (\<lambda>now. fail_message (ms_message_id message) ''SESSION_SEND_FAILED''
                                  (command_error_text e))) (\<lambda>_.
                         sc_fail (RuntimeCommand agent_id (command_error_text e)))))))))"

section \<open>Required checks\<close>

record required_checks =
  rc_succeeded :: "string list"
  rc_failure :: "string option"

definition check_output_failure :: "command_output \<Rightarrow> bool \<Rightarrow> bool \<Rightarrow> string option" where
  "check_output_failure out cancelled expired =
     (if co_cancelled out \<or> cancelled then Some ''REQUIRED_CHECK_CANCELLED''
      else if co_timed_out out \<and> expired then Some ''REQUIRED_CHECK_ABSOLUTE_DEADLINE_EXCEEDED''
      else if co_status_code out \<noteq> Some 0 \<or> co_timed_out out \<or> co_stdout_truncated out \<or> co_stderr_truncated out
      then Some ''REQUIRED_CHECK_FAILED'' else None)"

definition check_cancelled :: "'w sched_io \<Rightarrow> nat \<Rightarrow> ('w, bool) sched_cmd" where
  "check_cancelled io h = sc_get io (\<lambda>s. sc_cancelled s h)"

definition deadline_over :: "'w sched_io \<Rightarrow> nat \<Rightarrow> ('w, bool) sched_cmd" where
  "deadline_over io deadline = sc_bind (sc_call io (si_now io)) (\<lambda>now. sc_ok (now \<ge> deadline))"

text \<open>One check: \<open>None\<close> when it succeeded, otherwise the failure.\<close>

definition run_one_check :: "'w sched_io \<Rightarrow> prepared_task \<Rightarrow> nat \<Rightarrow> nat \<Rightarrow> string \<Rightarrow> ('w, string option) sched_cmd" where
  "run_one_check io prepared h absolute_deadline command_id =
     sc_bind (check_cancelled io h) (\<lambda>cancelled.
     if cancelled then sc_ok (Some ''REQUIRED_CHECK_CANCELLED'')
     else sc_bind (deadline_over io absolute_deadline) (\<lambda>over.
     if over then sc_ok (Some ''REQUIRED_CHECK_ABSOLUTE_DEADLINE_EXCEEDED'')
     else case map_of (pg_validation_commands prepared) command_id of
       None \<Rightarrow> sc_ok (Some ''REQUIRED_CHECK_NOT_PREPARED'')
     | Some command \<Rightarrow>
         sc_bind (sc_call io (si_now io)) (\<lambda>now.
         if now + pc_timeout_ms command * 1000000 > si_instant_max io then sc_ok (Some ''REQUIRED_CHECK_DEADLINE_INVALID'')
         else
           sc_bind (sc_call io (si_run_check io prepared command_id
                      (min (now + pc_timeout_ms command * 1000000) absolute_deadline))) (\<lambda>ran.
           sc_bind (check_cancelled io h) (\<lambda>cancelled'.
             case ran of
               Inl e \<Rightarrow>
                 if cancelled' then sc_ok (Some ''REQUIRED_CHECK_CANCELLED'')
                 else sc_bind (deadline_over io absolute_deadline) (\<lambda>over'.
                        sc_ok (Some (if over' then ''REQUIRED_CHECK_ABSOLUTE_DEADLINE_EXCEEDED''
                                     else ''REQUIRED_CHECK_EXECUTION_FAILED'')))
             | Inr out \<Rightarrow>
                 sc_bind (deadline_over io absolute_deadline) (\<lambda>over'.
                   sc_ok (check_output_failure out cancelled' over')))))))"

fun run_checks :: "'w sched_io \<Rightarrow> prepared_task \<Rightarrow> nat \<Rightarrow> nat \<Rightarrow> string list \<Rightarrow> string list \<Rightarrow> ('w, required_checks) sched_cmd" where
  "run_checks io prepared h absolute_deadline verified [] = sc_ok \<lparr>rc_succeeded = verified, rc_failure = None\<rparr>"
| "run_checks io prepared h absolute_deadline verified (command_id # rest) =
     sc_bind (run_one_check io prepared h absolute_deadline command_id) (\<lambda>failure.
       case failure of
         Some code \<Rightarrow> sc_ok \<lparr>rc_succeeded = verified, rc_failure = Some code\<rparr>
       | None \<Rightarrow> run_checks io prepared h absolute_deadline (verified @ [command_id]) rest)"

definition run_required_general_checks ::
    "'w sched_io \<Rightarrow> prepared_task \<Rightarrow> string list \<Rightarrow> nat \<Rightarrow> nat \<Rightarrow> ('w, required_checks) sched_cmd" where
  "run_required_general_checks io prepared required h absolute_deadline =
     (if required = [] then sc_ok \<lparr>rc_succeeded = [], rc_failure = None\<rparr>
      else if \<not> validate_digest (si_env io) (si_serde io) prepared
      then sc_ok \<lparr>rc_succeeded = [], rc_failure = Some ''REQUIRED_CHECK_PREPARED_TASK_INVALID''\<rparr>
      else sc_bind (sc_world_cmd io (succeeds (final_tree_launcher (si_workspace io) prepared))) (\<lambda>valid.
        if \<not> valid then sc_ok \<lparr>rc_succeeded = [], rc_failure = Some ''REQUIRED_CHECK_POLICY_INVALID''\<rparr>
        else run_checks io prepared h absolute_deadline [] required))"

section \<open>Results\<close>

definition sc_persist :: "'w sched_io \<Rightarrow> string \<Rightarrow> prepared_task \<Rightarrow> general_completion \<Rightarrow> ('w, unit) sched_cmd" where
  "sc_persist io agent_id prepared completion =
     sc_bind (sc_call io (si_time io)) (\<lambda>now.
       sc_write io (\<lambda>now'. persist_general_result (si_fits io) (si_env io) now now' agent_id (pg_artifact_root prepared) completion))"

definition sc_store_result :: "'w sched_io \<Rightarrow> string \<Rightarrow> task_result \<Rightarrow> ('w, unit) sched_cmd" where
  "sc_store_result io agent_id result =
     sc_bind (sc_call io (si_time io)) (\<lambda>now.
       sc_write io (\<lambda>now'. store_result_with_cancel_precedence (si_env io) now now' agent_id result None))"

definition get_task_or :: "'w sched_io \<Rightarrow> string \<Rightarrow> string \<Rightarrow> ('w, task_record) sched_cmd" where
  "get_task_or io agent_id message =
     sc_bind (sc_read io (\<lambda>st. get_task st agent_id)) (sc_of (SchedStore (InvalidState message)))"

definition persist_general_completion ::
    "'w sched_io \<Rightarrow> string \<Rightarrow> prepared_task \<Rightarrow> general_completion \<Rightarrow> bool \<Rightarrow> ('w, task_phase) sched_cmd" where
  "persist_general_completion io agent_id prepared completion reap_after_persist =
     sc_bind (sc_try (sc_persist io agent_id prepared completion)) (\<lambda>stored.
     sc_bind (case stored of
                Inr u \<Rightarrow> sc_ok ()
              | Inl e \<Rightarrow>
                  sc_bind (record_failure io agent_id (sched_error_text (si_show_error io) e)) (\<lambda>_.
                  sc_bind (sc_read io (\<lambda>st. Inr (stored_result st agent_id))) (\<lambda>existing.
                    sc_when (existing = None) (sc_store_result io agent_id bounded_result_invalid_task_result)))) (\<lambda>_.
     sc_bind (sc_when reap_after_persist (sc_bind (sc_write io (\<lambda>now. reap_task now agent_id)) (\<lambda>_. sc_ok ()))) (\<lambda>_.
     sc_bind (get_task_or io agent_id ''terminal general task disappeared'') (\<lambda>task. sc_ok (tr_phase task)))))"

definition finish_unstarted_route ::
    "'w sched_io \<Rightarrow> string \<Rightarrow> task_route \<Rightarrow> completion_outcome \<Rightarrow> string \<Rightarrow> string \<Rightarrow> bool \<Rightarrow> ('w, task_phase) sched_cmd" where
  "finish_unstarted_route io agent_id route outcome reason_text message resources_reaped =
     sc_bind (if resources_reaped
              then sc_bind (sc_world_cmd io (finalize (si_workspace io) (ro_prepared route) outcome)) (\<lambda>c.
                     sc_ok (finalized_general (\<lambda>_. c) outcome reason_text message))
              else sc_ok (unreaped_general outcome reason_text message)) (\<lambda>completion.
       persist_general_completion io agent_id (ro_prepared route) completion (resources_reaped \<and> gc_cleaned completion))"

definition terminal_outcome :: "bool \<Rightarrow> runtime_terminal \<Rightarrow> completion_outcome" where
  "terminal_outcome natural t =
     (case t of
        RuntimeCompleted oc \<Rightarrow> if natural then CompletionCompleted else CompletionFailed
      | RuntimeStopped oc \<Rightarrow> CompletionCancelled
      | FailedRuntimeLost l \<Rightarrow> CompletionRuntimeLost
      | Orphaned l \<Rightarrow> CompletionRuntimeLost
      | FailedTurn oc \<Rightarrow> CompletionFailed
      | RuntimeExited e \<Rightarrow> CompletionRuntimeLost)"

definition is_completed :: "runtime_terminal \<Rightarrow> bool" where
  "is_completed t = (case t of RuntimeCompleted oc \<Rightarrow> True | _ \<Rightarrow> False)"

definition is_visible :: "terminal_text \<Rightarrow> bool" where
  "is_visible t = (case t of TerminalVisible s \<Rightarrow> True | _ \<Rightarrow> False)"

definition apply_checks :: "required_checks \<Rightarrow> general_completion \<Rightarrow> general_completion" where
  "apply_checks rc c =
     (let c1 = c\<lparr>gc_checks := rc_succeeded rc\<rparr> in
      case rc_failure rc of
        None \<Rightarrow> c1
      | Some code \<Rightarrow>
          (let c2 = c1\<lparr>gc_residual_gaps := gc_residual_gaps c1 @ [code]\<rparr> in
           if code = ''REQUIRED_CHECK_CANCELLED''
           then c2\<lparr>gc_outcome := CompletionCancelled, gc_reason_code := Some ''CANCELLED''\<rparr>
           else if code = ''REQUIRED_CHECK_ABSOLUTE_DEADLINE_EXCEEDED''
           then c2\<lparr>gc_outcome := CompletionTimedOut, gc_reason_code := Some ''WALL_TIME_DEADLINE_EXCEEDED''\<rparr>
           else c2\<lparr>gc_outcome := CompletionFailed, gc_reason_code := Some code\<rparr>))"

definition note_gap :: "string \<Rightarrow> general_completion \<Rightarrow> general_completion" where
  "note_gap code c = (if gc_reason_code c = None then c\<lparr>gc_reason_code := Some code\<rparr>
                      else c\<lparr>gc_residual_gaps := gc_residual_gaps c @ [code]\<rparr>)"

definition apply_text :: "terminal_text \<Rightarrow> general_completion \<Rightarrow> general_completion" where
  "apply_text t c =
     (case t of
        TerminalVisible text \<Rightarrow> c\<lparr>gc_summary := text\<rparr>
      | TerminalMissing \<Rightarrow> note_gap ''FINAL_TEXT_MISSING'' (c\<lparr>gc_summary := ''runtime completed without visible final text''\<rparr>)
      | TerminalOversized \<Rightarrow>
          note_gap ''FINAL_TEXT_EXCEEDS_RESULT_LIMIT'' (c\<lparr>gc_summary := ''terminal final text exceeds effective max_result_bytes''\<rparr>))"

definition take_text :: "'w sched_io \<Rightarrow> nat \<Rightarrow> ('w, terminal_text) sched_cmd" where
  "take_text io h s =
     (let s1 = others io s in
      (Some (Inr (fst (take_terminal_text (sk_activity (snd (sc_sinks s1 h)))))),
       on_sink h (\<lambda>k. k\<lparr>sk_activity := snd (take_terminal_text (sk_activity k))\<rparr>) s1))"

definition finalize_text :: "'w sched_io \<Rightarrow> prepared_task \<Rightarrow> bool \<Rightarrow> terminal_text \<Rightarrow> ('w, general_completion) sched_cmd" where
  "finalize_text io prepared resumed text =
     sc_world_cmd io
       (if is_visible text
        then (if resumed then finalize_resumed (si_workspace io) prepared CompletionCompleted
              else finalize_completed_tree (si_workspace io) prepared)
        else (if resumed then finalize_resumed (si_workspace io) prepared CompletionResultInvalid
              else finalize (si_workspace io) prepared CompletionResultInvalid))"

text \<open>\<open>control\<close> is the deadline of the required checks, where they may be run.\<close>

definition checks_of :: "'w sched_io \<Rightarrow> task_route \<Rightarrow> nat \<Rightarrow> nat option \<Rightarrow> ('w, required_checks) sched_cmd" where
  "checks_of io route h control =
     (case control of
        Some absolute_deadline \<Rightarrow> run_required_general_checks io (ro_prepared route) (ro_required route) h absolute_deadline
      | None \<Rightarrow>
          if ro_required route = [] then sc_ok \<lparr>rc_succeeded = [], rc_failure = None\<rparr>
          else sc_ok \<lparr>rc_succeeded = [], rc_failure = Some ''REQUIRED_CHECK_CONTROL_UNAVAILABLE''\<rparr>)"

definition natural_completion ::
    "'w sched_io \<Rightarrow> task_route \<Rightarrow> nat \<Rightarrow> bool \<Rightarrow> nat option \<Rightarrow> ('w, general_completion) sched_cmd" where
  "natural_completion io route h resumed control =
     sc_bind (take_text io h) (\<lambda>text.
     sc_bind (finalize_text io (ro_prepared route) resumed text) (\<lambda>c.
     sc_bind (if is_visible text \<and> gc_outcome c = CompletionCompleted
              then sc_bind (checks_of io route h control) (\<lambda>rc. sc_ok (apply_checks rc c)) else sc_ok c) (\<lambda>c1.
       sc_world_cmd io (finish_cleanup (si_workspace io) (ro_prepared route) (apply_text text c1)))))"

definition complete_reason :: "string \<Rightarrow> general_completion \<Rightarrow> general_completion" where
  "complete_reason reason_text c =
     (let c1 = (if trim (gc_summary c) = [] then c\<lparr>gc_summary := reason_text\<rparr> else c) in
      if gc_reason_code c1 = None \<and> gc_outcome c1 \<noteq> CompletionCompleted then c1\<lparr>gc_reason_code := Some reason_text\<rparr> else c1)"

definition response_fits_of :: "'w sched_io \<Rightarrow> string \<Rightarrow> general_completion \<Rightarrow> ('w, bool) sched_cmd" where
  "response_fits_of io agent_id c =
     sc_read io (\<lambda>st. general_result_response_fits (si_fits io) st agent_id c (task_result_of c))"

definition transportable :: "'w sched_io \<Rightarrow> string \<Rightarrow> general_completion \<Rightarrow> ('w, general_completion) sched_cmd" where
  "transportable io agent_id c =
     sc_bind (response_fits_of io agent_id c) (\<lambda>fits.
       if fits then sc_ok c
       else sc_bind (response_fits_of io agent_id (invalidate_untransportable_completion c)) (\<lambda>fits'.
              sc_ok (if fits' then invalidate_untransportable_completion c
                     else compact_untransportable_artifact_projection (invalidate_untransportable_completion c))))"

definition sc_clock :: "'w sched_io \<Rightarrow> ('w, nat \<Rightarrow> int) sched_cmd" where
  "sc_clock io =
     sc_bind (sc_call io (si_time io)) (\<lambda>a. sc_bind (sc_call io (si_time io)) (\<lambda>b.
     sc_bind (sc_call io (si_time io)) (\<lambda>c. sc_bind (sc_call io (si_time io)) (\<lambda>d.
       sc_ok (\<lambda>n. if n = 0 then a else if n = 1 then b else if n = 2 then c else d)))))"

definition sink_finish ::
    "'w sched_io \<Rightarrow> nat \<Rightarrow> runtime_terminal \<Rightarrow> prepared_task \<Rightarrow> general_completion \<Rightarrow> ('w, task_phase) sched_cmd" where
  "sink_finish io h terminal prepared completion =
     sc_bind (sc_clock io) (\<lambda>clock s.
       (let s1 = others io s in
        case sc_sinks s1 h of (i, k) \<Rightarrow>
          (case finish_general (si_fits io) (si_sink_env io) i clock terminal (pg_artifact_root prepared) completion
                  (k\<lparr>sk_store := sc_store s1\<rparr>) of
             (r, k') \<Rightarrow> (Some (map_sum SchedStore id r), (set_sink h (i, k') s1)\<lparr>sc_store := sk_store k'\<rparr>))))"

definition finish_routed_terminal ::
    "'w sched_io \<Rightarrow> string \<Rightarrow> nat \<Rightarrow> task_route \<Rightarrow> runtime_terminal \<Rightarrow> bool \<Rightarrow> (completion_outcome \<times> string) option
     \<Rightarrow> nat option \<Rightarrow> ('w, task_phase) sched_cmd" where
  "finish_routed_terminal io agent_id h route terminal natural forced control =
     sc_bind (sc_put io (on_phase h terminalize)) (\<lambda>_.
     sc_bind (sc_get io (\<lambda>s. \<not> fs_is_file (si_fs io (sc_world s)) (pg_prompt_path (ro_prepared route)))) (\<lambda>resumed.
       let decided = (case forced of Some f \<Rightarrow> f | None \<Rightarrow> (terminal_outcome natural terminal, ''RUNTIME_TERMINAL''));
           reaped = terminal_proves_process_group_reaped terminal
       in sc_bind
            (if natural \<and> is_completed terminal then natural_completion io route h resumed control
             else if reaped
             then sc_world_cmd io (if resumed then finalize_resumed (si_workspace io) (ro_prepared route) (fst decided)
                                   else finalize (si_workspace io) (ro_prepared route) (fst decided))
             else sc_ok (unreaped_general (fst decided) (snd decided) (snd decided))) (\<lambda>c.
          sc_bind (transportable io agent_id (complete_reason (snd decided) c)) (\<lambda>completion.
          sc_bind (sc_try (sink_finish io h terminal (ro_prepared route) completion)) (\<lambda>finished.
            case finished of
              Inr phase \<Rightarrow> sc_ok phase
            | Inl e \<Rightarrow>
                sc_bind (record_failure io agent_id (sched_error_text (si_show_error io) e)) (\<lambda>_.
                  persist_general_completion io agent_id (ro_prepared route) completion
                    (gc_cleaned (complete_reason (snd decided) c) \<and> reaped)))))))"

section \<open>Clean-up\<close>

definition find_active :: "'w sched_io \<Rightarrow> string \<Rightarrow> ('w, active_runtime option) sched_cmd" where
  "find_active io agent_id = sc_get io (\<lambda>s. map_of (sc_active s) agent_id)"

definition active_under :: "nat \<Rightarrow> active_runtime option \<Rightarrow> active_runtime option" where
  "active_under owner_epoch a =
     (case a of Some r \<Rightarrow> if ar_owner_epoch r = owner_epoch then Some r else None | None \<Rightarrow> None)"

definition cancel_check :: "'w sched_io \<Rightarrow> nat \<Rightarrow> ('w, unit) sched_cmd" where
  "cancel_check io h = sc_put io (\<lambda>s. s\<lparr>sc_cancelled := (sc_cancelled s)(h := True)\<rparr>)"

definition runtime_phase_of :: "task_record option \<Rightarrow> bool" where
  "runtime_phase_of task = (case task of Some t \<Rightarrow> tr_phase t \<in> {Running, Cancelling, Terminal} | None \<Rightarrow> False)"

definition cleanup_registered_runtime_with_grace ::
    "'w sched_io \<Rightarrow> string \<Rightarrow> nat \<Rightarrow> nat \<Rightarrow> (string \<times> string) option \<Rightarrow> nat \<Rightarrow> ('w, task_phase) sched_cmd" where
  "cleanup_registered_runtime_with_grace io agent_id owner_epoch h failure grace =
     sc_bind (sc_write io (\<lambda>now. request_runtime_stop now agent_id)) (\<lambda>decision.
     let cancellation_wins = (cd_prior_stop_or_close decision \<or> failure = None) in
     sc_bind (find_active io agent_id) (\<lambda>found.
     sc_bind (case active_under owner_epoch found of Some a \<Rightarrow> cancel_check io (ar_runtime a) | None \<Rightarrow> sc_ok ()) (\<lambda>_.
     sc_bind (find_active io agent_id) (\<lambda>found'.
       case active_under owner_epoch found' of
         None \<Rightarrow> sc_fail (InvalidConfig ''active generic route disappeared during cleanup'')
       | Some a \<Rightarrow>
           sc_bind (phase_stop io h) (\<lambda>_.
           sc_bind (force_phase io h) (\<lambda>_.
           sc_bind (stop_runtime io h grace) (\<lambda>terminal.
           sc_bind (sc_read io (\<lambda>st. get_task st agent_id)) (\<lambda>current.
           sc_bind (sc_try
             (if runtime_phase_of current
              then finish_routed_terminal io agent_id h (ar_route a) terminal False
                     (Some (if cancellation_wins then (CompletionCancelled, ''CANCELLED'')
                            else (case failure of Some (code, m) \<Rightarrow> (CompletionFailed, code)
                                                | None \<Rightarrow> (CompletionCancelled, ''CANCELLED'')))) None
              else
                (let (code, message) = (case failure of Some f \<Rightarrow> f
                       | None \<Rightarrow> (''GENERAL_START_CANCELLED'', ''general task stopped before entering its runtime phase'')) in
                 finish_unstarted_route io agent_id (ar_route a)
                   (if cancellation_wins then CompletionCancelled else CompletionFailed)
                   (if cancellation_wins then ''CANCELLED'' else code) message
                   (terminal_proves_process_group_reaped terminal)))) (\<lambda>result.
           sc_bind (release_active io agent_id owner_epoch) (\<lambda>_. sc_result result))))))))))"

definition cleanup_registered_runtime ::
    "'w sched_io \<Rightarrow> string \<Rightarrow> nat \<Rightarrow> nat \<Rightarrow> (string \<times> string) option \<Rightarrow> ('w, task_phase) sched_cmd" where
  "cleanup_registered_runtime io agent_id owner_epoch h failure =
     cleanup_registered_runtime_with_grace io agent_id owner_epoch h failure (cf_stop_grace (si_config io))"

end
