(* ===== verification/Scheduler_Start.thy ===== *)
theory Scheduler_Start
  imports Scheduler_Ends
begin

text \<open>
  Starting tasks: \<^verbatim>\<open>start_claim\<close> from a claim to a monitored runtime, with every way it can fail, the
  loop \<^verbatim>\<open>start_ready\<close>, and the recovery of tasks a previous daemon left behind.
\<close>

section \<open>Claims\<close>

definition launched_identity :: "process_identity \<Rightarrow> stored_process_identity" where
  "launched_identity i = \<lparr>spi_pid = unat (pi_pid i), spi_process_group_id = sint (pi_pgid i), spi_uid = unat (pi_uid i),
     spi_start_token = pi_start_token i\<rparr>"

definition new_sink :: "store \<Rightarrow> nat \<Rightarrow> nat \<Rightarrow> runtime_budget option \<Rightarrow> sink" where
  "new_sink st owner_epoch text_limit budget =
     \<lparr>sk_store = st, sk_lifecycle = RuntimeLifecycle_new owner_epoch, sk_budget = budget,
      sk_activity = PassiveActivityTracker_new text_limit,
      sk_write = \<lparr>sk_first_error = None, sk_last_source_sequence = 0, sk_pending_terminal_sequence = None,
                  sk_terminal_written = False\<rparr>\<rparr>"

text \<open>The claim cannot be run: its result says so, and the caller gets the message.\<close>

definition reject_claim ::
    "'w sched_io \<Rightarrow> string \<Rightarrow> nat \<Rightarrow> task_record option \<Rightarrow> string \<Rightarrow> string \<Rightarrow> ('w, 'a) sched_cmd" where
  "reject_claim io agent_id owner_epoch task code message =
     sc_bind (case task of
                Some t \<Rightarrow> sc_write io (\<lambda>now. store_task_result (si_env io) now agent_id
                            (minimal_task_result CompletionResultInvalid message code))
              | None \<Rightarrow> sc_bind (sc_write io (\<lambda>now. fail_claim now agent_id owner_epoch code message)) (\<lambda>_. sc_ok ())) (\<lambda>_.
       sc_fail (InvalidConfig message))"

definition validate_task_route :: "task_record option \<Rightarrow> task_route \<Rightarrow> string + unit" where
  "validate_task_route task route = (case task of Some t \<Rightarrow> Inr () | None \<Rightarrow> Inl ''prepared task metadata is missing'')"

definition claim_budget :: "'w sched_io \<Rightarrow> task_record option \<Rightarrow> ('w, runtime_budget option) sched_cmd" where
  "claim_budget io task =
     (case task of
        None \<Rightarrow> sc_ok None
      | Some t \<Rightarrow>
          sc_bind (sc_call io (si_now io)) (\<lambda>now.
            sc_ok (Some (with_limits (si_instant_max io) now (absolute_wall_time_ms (tr_effective_budget t) * 1000000)
                     (max_turns (tr_effective_budget t)) (max_tool_calls (tr_effective_budget t))))))"

definition budget_left :: "'w sched_io \<Rightarrow> runtime_budget option \<Rightarrow> ('w, nat option option) sched_cmd" where
  "budget_left io budget =
     (case budget of
        None \<Rightarrow> sc_ok None
      | Some b \<Rightarrow> sc_bind (sc_call io (si_now io)) (\<lambda>now. sc_ok (Some (remaining now b))))"

text \<open>\<^verbatim>\<open>budget.violation()\<close> of the budget the sink of a runtime counts in.\<close>

definition sink_violation :: "'w sched_io \<Rightarrow> nat \<Rightarrow> ('w, budget_violation option) sched_cmd" where
  "sink_violation io h =
     sc_bind (sc_call io (si_now io)) (\<lambda>now s.
       (let s1 = others io s in
        case sk_budget (snd (sc_sinks s1 h)) of
          None \<Rightarrow> (Some (Inr None), s1)
        | Some b \<Rightarrow> (Some (Inr (fst (violation now b))), on_sink h (\<lambda>k. k\<lparr>sk_budget := Some (snd (violation now b))\<rparr>) s1)))"

definition wall_message :: "string \<Rightarrow> string" where
  "wall_message before = ''runtime_lifecycle wall deadline elapsed before '' @ before"

text \<open>The claim fails before a monitor runs; what is stored for it is attempted, and its error only noted.\<close>

definition fail_start ::
    "'w sched_io \<Rightarrow> string \<Rightarrow> task_route \<Rightarrow> completion_outcome \<Rightarrow> string \<Rightarrow> string \<Rightarrow> bool \<Rightarrow> sched_error \<Rightarrow> ('w, 'a) sched_cmd" where
  "fail_start io agent_id route outcome code message reaped e =
     sc_bind (sc_try (finish_unstarted_route io agent_id route outcome code message reaped)) (\<lambda>r.
     sc_bind (record_error io agent_id r) (\<lambda>_. sc_fail e))"

definition fail_start_strict ::
    "'w sched_io \<Rightarrow> string \<Rightarrow> task_route \<Rightarrow> completion_outcome \<Rightarrow> string \<Rightarrow> string \<Rightarrow> bool \<Rightarrow> sched_error \<Rightarrow> ('w, 'a) sched_cmd" where
  "fail_start_strict io agent_id route outcome code message reaped e =
     sc_bind (finish_unstarted_route io agent_id route outcome code message reaped) (\<lambda>_. sc_fail e)"

definition spawn_runtime ::
    "'w sched_io \<Rightarrow> task_record \<Rightarrow> nat \<Rightarrow> task_route \<Rightarrow> runtime_budget option \<Rightarrow> ('w, nat) sched_cmd" where
  "spawn_runtime io task owner_epoch route budget s =
     (let s1 = others io s in
      case si_spawn io task (sc_world s1) of
        (Inr h, w) \<Rightarrow>
          (Some (Inr h), set_sink h
             (\<lparr>sk_agent_id = tr_agent_id task, sk_runtime_agent_id = tr_agent_id task @ '':'' @ show_nat owner_epoch,
               sk_owner_epoch = owner_epoch\<rparr>,
              new_sink (sc_store s1) owner_epoch (max_result_bytes (pg_effective_budget (ro_prepared route))) budget) (s1\<lparr>sc_world := w\<rparr>))
      | (Inl message, w) \<Rightarrow>
          fail_start io (tr_agent_id task) route CompletionFailed ''RUNTIME_SPAWN_FAILED'' message True
            (RuntimeSpawn (tr_agent_id task) message) (s1\<lparr>sc_world := w\<rparr>))"

section \<open>The session\<close>

definition abort_session ::
    "'w sched_io \<Rightarrow> string \<Rightarrow> nat \<Rightarrow> task_route \<Rightarrow> completion_outcome \<Rightarrow> string \<Rightarrow> string \<Rightarrow> ('w, 'a) sched_cmd" where
  "abort_session io agent_id h route outcome code message =
     sc_bind (stop_runtime io h (cf_stop_grace (si_config io))) (\<lambda>terminal.
       fail_start io agent_id route outcome code message (terminal_proves_process_group_reaped terminal)
         (RuntimeCommand agent_id message))"

definition open_session :: "'w sched_io \<Rightarrow> task_record \<Rightarrow> nat \<Rightarrow> task_route \<Rightarrow> runtime_budget option \<Rightarrow> ('w, session_ready) sched_cmd" where
  "open_session io task h route budget =
     sc_bind (budget_left io budget) (\<lambda>left.
       case left of
         Some None \<Rightarrow>
           sc_bind (stop_runtime io h (cf_stop_grace (si_config io))) (\<lambda>terminal.
             fail_start_strict io (tr_agent_id task) route CompletionTimedOut ''WALL_TIME_DEADLINE_EXCEEDED''
               (wall_message ''session bootstrap'') (terminal_proves_process_group_reaped terminal)
               (RuntimeCommand (tr_agent_id task) (wall_message ''session bootstrap'')))
       | _ \<Rightarrow>
           (let limit = cf_bootstrap_timeout (si_config io);
                timeout = (case left of Some (Some r) \<Rightarrow> min r limit | _ \<Rightarrow> limit);
                wall_bounded = (case left of Some (Some r) \<Rightarrow> r \<le> limit | _ \<Rightarrow> False)
            in sc_bind (sc_call io (if tr_zcode_session_id task \<noteq> None then si_resume io h task timeout
                                    else si_bootstrap io h task timeout)) (\<lambda>opened.
                 case opened of
                   Inr ready \<Rightarrow>
                     (case validate_requested_model
                             (requested_model_from_prepared_launch (env_parse (si_env io)) (Some (tr_prepared_launch_json task)))
                             (sr_observed_model ready) of
                        Inr u \<Rightarrow> sc_ok ready
                      | Inl code \<Rightarrow> abort_session io (tr_agent_id task) h route CompletionFailed code
                                     ''runtime model did not match the prepared request'')
                 | Inl e \<Rightarrow>
                     sc_bind (stop_runtime io h (cf_stop_grace (si_config io))) (\<lambda>terminal.
                     sc_bind (sink_violation io h) (\<lambda>v.
                       let wall = (v = Some WallTime \<or> (wall_bounded \<and> e = CommandTimeout)) in
                       fail_start io (tr_agent_id task) route
                         (if wall then CompletionTimedOut else CompletionFailed)
                         (if wall then ''WALL_TIME_DEADLINE_EXCEEDED'' else ''SESSION_START_FAILED'')
                         (command_error_text e) (terminal_proves_process_group_reaped terminal)
                         (RuntimeCommand (tr_agent_id task) (command_error_text e)))))))"

section \<open>Registration\<close>

definition ready_turn_state :: "turn_snapshot \<Rightarrow> turn_state" where
  "ready_turn_state t =
     (if ts_active t then TurnActive
      else if ts_boundary t = Some turn_boundary.TurnFailed then turn_state.TurnFailed else TurnIdle)"

definition cleanup_ignored ::
    "'w sched_io \<Rightarrow> string \<Rightarrow> nat \<Rightarrow> nat \<Rightarrow> string \<Rightarrow> sched_error \<Rightarrow> ('w, 'a) sched_cmd" where
  "cleanup_ignored io agent_id owner_epoch h code e =
     sc_bind (sc_try (cleanup_registered_runtime io agent_id owner_epoch h
                (Some (code, sched_error_text (si_show_error io) e)))) (\<lambda>_. sc_fail e)"

definition stopping :: "task_record option \<Rightarrow> bool" where
  "stopping task = (case task of
       Some t \<Rightarrow> tr_stop_requested t \<or> tr_close_requested t \<or> tr_phase t = Cancelling \<or> is_terminal (tr_phase t)
     | None \<Rightarrow> False)"

definition not_running :: "task_record option \<Rightarrow> bool" where
  "not_running task = (case task of
       Some t \<Rightarrow> tr_stop_requested t \<or> tr_close_requested t \<or> tr_phase t \<noteq> Running
     | None \<Rightarrow> False)"

text \<open>After the runtime is in the active map: it is marked running and monitored, or cleaned up.\<close>

definition run_registered ::
    "'w sched_io \<Rightarrow> task_record \<Rightarrow> nat \<Rightarrow> nat \<Rightarrow> string \<Rightarrow> stored_process_identity option \<Rightarrow> turn_state \<Rightarrow> ('w, bool) sched_cmd" where
  "run_registered io task owner_epoch h session_id identity turn =
     (let agent_id = tr_agent_id task in
      sc_bind (sc_try (sc_write io (\<lambda>now. mark_session_running now agent_id owner_epoch
                 (agent_id @ '':'' @ show_nat owner_epoch) identity (Some session_id) (Some turn)))) (\<lambda>marked.
        case marked of
          Inl e \<Rightarrow> cleanup_ignored io agent_id owner_epoch h ''STORE_START_FAILED'' e
        | Inr applied \<Rightarrow>
            sc_bind (sc_try (sc_read io (\<lambda>st. get_task st agent_id))) (\<lambda>read.
              case read of
                Inl e \<Rightarrow> cleanup_ignored io agent_id owner_epoch h ''POST_REGISTRATION_READ_FAILED'' e
              | Inr current \<Rightarrow>
                  if \<not> applied
                  then sc_bind (cleanup_registered_runtime io agent_id owner_epoch h
                         (if stopping current then None
                          else Some (''RUNTIME_START_RACE'', ''running transition was not applied''))) (\<lambda>_. sc_ok False)
                  else if not_running current
                  then sc_bind (cleanup_registered_runtime io agent_id owner_epoch h None) (\<lambda>_. sc_ok False)
                  else
                    sc_bind (if tr_zcode_session_id task = None then sc_ok (Inr None)
                             else sc_bind (sc_try (control_deadline io)) (\<lambda>deadline.
                               case deadline of
                                 Inl e \<Rightarrow> sc_ok (Inl e)
                               | Inr d \<Rightarrow> sc_try (deliver_next_message io agent_id session_id h d))) (\<lambda>delivered.
                      case delivered of
                        Inl e \<Rightarrow>
                          sc_bind (record_failure io agent_id (sched_error_text (si_show_error io) e)) (\<lambda>_.
                          sc_bind (cleanup_registered_runtime io agent_id owner_epoch h
                                     (Some (''SESSION_SEND_FAILED'', sched_error_text (si_show_error io) e))) (\<lambda>_.
                            sc_fail e))
                      | Inr m \<Rightarrow> sc_bind (sc_log (CallMonitor h)) (\<lambda>_. sc_ok True)))))"

definition register_runtime ::
    "'w sched_io \<Rightarrow> task_record \<Rightarrow> nat \<Rightarrow> task_route \<Rightarrow> task_record option \<Rightarrow> policy_launcher \<Rightarrow> nat \<Rightarrow> session_ready
     \<Rightarrow> ('w, bool) sched_cmd" where
  "register_runtime io task owner_epoch route stored policy h ready =
     sc_bind (sc_get io (\<lambda>s. map_option launched_identity (si_identity io h (sc_world s)))) (\<lambda>identity.
     sc_bind (turn_snapshot_of io h) (\<lambda>turn.
     sc_bind (sc_put io (register (tr_agent_id task)
                \<lparr>ar_owner_epoch = owner_epoch, ar_runtime = h, ar_session_id = sr_session_id ready, ar_route = route,
                 ar_task = stored, ar_policy = Some policy\<rparr>)) (\<lambda>_.
       run_registered io task owner_epoch h (sr_session_id ready) identity (ready_turn_state turn))))"

definition start_routed ::
    "'w sched_io \<Rightarrow> task_record \<Rightarrow> nat \<Rightarrow> task_route \<Rightarrow> task_record option \<Rightarrow> runtime_budget option \<Rightarrow> ('w, bool) sched_cmd" where
  "start_routed io task owner_epoch route stored budget =
     sc_bind (sc_world_cmd io (sc_try (if tr_zcode_session_id task \<noteq> None then resume_launcher (si_workspace io) (ro_prepared route)
                                else launcher (si_workspace io) (ro_prepared route)))) (\<lambda>policy.
       case policy of
         Inl e \<Rightarrow>
           fail_start_strict io (tr_agent_id task) route CompletionResultInvalid ''PREPARED_CONTENT_INVALID''
             (si_show_preparation io e) True (InvalidConfig (si_show_preparation io e))
       | Inr pl \<Rightarrow>
           sc_bind (budget_left io budget) (\<lambda>left.
             if left = Some None
             then fail_start_strict io (tr_agent_id task) route CompletionTimedOut ''WALL_TIME_DEADLINE_EXCEEDED''
                    (wall_message ''runtime spawn'') True (RuntimeCommand (tr_agent_id task) (wall_message ''runtime spawn''))
             else
               sc_bind (spawn_runtime io task owner_epoch route budget) (\<lambda>h.
               sc_bind (open_session io task h route budget) (\<lambda>ready.
                 register_runtime io task owner_epoch route stored pl h ready))))"

definition start_claim :: "'w sched_io \<Rightarrow> task_claim \<Rightarrow> ('w, bool) sched_cmd" where
  "start_claim io claim =
     (let task = tc_task claim; owner_epoch = tc_owner_epoch claim; agent_id = tr_agent_id task in
      sc_bind (sc_read io (\<lambda>st. get_task st agent_id)) (\<lambda>stored.
      sc_bind (claim_budget io stored) (\<lambda>budget.
        case task_route (si_env io) (si_serde io) task of
          Inl message \<Rightarrow> reject_claim io agent_id owner_epoch stored ''PREPARED_LAUNCH_INVALID'' message
        | Inr route \<Rightarrow>
            (case validate_task_route stored route of
               Inl message \<Rightarrow> reject_claim io agent_id owner_epoch stored ''TASK_ROUTE_INVALID'' message
             | Inr u \<Rightarrow> start_routed io task owner_epoch route stored budget))))"

text \<open>The loop ends when nothing can be claimed; \<open>fuel\<close> bounds the claims of one call, and \<open>None\<close> says it was not enough.\<close>

fun start_ready :: "nat \<Rightarrow> 'w sched_io \<Rightarrow> string list \<Rightarrow> ('w, string list) sched_cmd" where
  "start_ready 0 io started = sc_panic"
| "start_ready (Suc fuel) io started =
     sc_bind (sc_write io (\<lambda>now. claim_next now (si_owner_id io) u64_max (cf_per_workspace_max_agents (si_config io)))) (\<lambda>claim.
       case claim of
         None \<Rightarrow> sc_ok started
       | Some c \<Rightarrow>
           sc_bind (start_claim io c) (\<lambda>running.
             start_ready fuel io (if running then started @ [tr_agent_id (tc_task c)] else started)))"

section \<open>Recovery\<close>

definition os_identity :: "stored_process_identity \<Rightarrow> process_identity" where
  "os_identity i = \<lparr>pi_pid = word_of_nat (spi_pid i), pi_pgid = word_of_int (spi_process_group_id i),
     pi_uid = word_of_nat (spi_uid i), pi_start_token = spi_start_token i\<rparr>"

definition reap_persisted :: "'w sched_io \<Rightarrow> string \<Rightarrow> process_identity \<Rightarrow> ('w, unit) sched_cmd" where
  "reap_persisted io agent_id identity s =
     (let s1 = others io s in
      case stop_and_reap_persisted_process_group (si_os io) identity (si_polls io (cf_stop_grace (si_config io)))
             (sc_world s1, sc_signals s1) of
        (r, w, signals) \<Rightarrow>
          (Some (map_sum (\<lambda>e. RuntimeCommand agent_id (''startup process-group recovery failed: '' @ ie_message e)) id r),
           s1\<lparr>sc_world := w, sc_signals := signals\<rparr>))"

definition recover_process :: "'w sched_io \<Rightarrow> task_record \<Rightarrow> ('w, unit) sched_cmd" where
  "recover_process io task =
     (case (tr_runtime_agent_id task, tr_process_identity task) of
        (Some r, Some identity) \<Rightarrow> reap_persisted io (tr_agent_id task) (os_identity identity)
      | (None, None) \<Rightarrow>
          if tr_phase task \<in> {Preparing, Terminal} then sc_ok ()
          else sc_fail (RuntimeCommand (tr_agent_id task) ''startup runtime identity is incomplete; refusing unverified reap'')
      | _ \<Rightarrow> sc_fail (RuntimeCommand (tr_agent_id task) ''startup runtime identity is incomplete; refusing unverified reap''))"

definition recover_startup_task :: "'w sched_io \<Rightarrow> task_record \<Rightarrow> ('w, unit) sched_cmd" where
  "recover_startup_task io task =
     (let agent_id = tr_agent_id task in
      sc_bind (recover_process io task) (\<lambda>_.
      sc_bind (sc_result (map_sum InvalidConfig id (task_route (si_env io) (si_serde io) task))) (\<lambda>route.
        if tr_phase task = Terminal
        then
          sc_bind (sc_read io (\<lambda>st. Inr (stored_result st agent_id))) (\<lambda>existing.
          if existing = None
          then sc_fail (RuntimeCommand agent_id ''terminal startup recovery task has no immutable result'')
          else sc_bind (sc_world_cmd io (finalize (si_workspace io) (ro_prepared route) CompletionRuntimeLost)) (\<lambda>c.
            if \<not> gc_cleaned c
            then sc_fail (RuntimeCommand agent_id ''terminal startup worktree recovery did not prove cleanup'')
            else sc_bind (sc_write io (\<lambda>now. reap_task now agent_id)) (\<lambda>_. sc_ok ())))
        else
          (let cancelled = (tr_stop_requested task \<or> tr_close_requested task);
               outcome = (if cancelled then CompletionCancelled else CompletionRuntimeLost) in
           sc_bind (sc_world_cmd io (finalize (si_workspace io) (ro_prepared route) outcome)) (\<lambda>c0.
             let c = finalized_general (\<lambda>_. c0) outcome
                       (if cancelled then ''CANCELLED'' else ''DAEMON_RESTART_RUNTIME_LOST'')
                       (if cancelled then ''task cancellation was recovered after daemon restart''
                        else ''daemon restarted while task runtime was active'')
             in if \<not> gc_cleaned c
                then sc_fail (RuntimeCommand agent_id ''startup worktree recovery did not prove cleanup'')
                else sc_bind (sc_persist io agent_id (ro_prepared route) c) (\<lambda>_.
                     sc_bind (sc_write io (\<lambda>now. reap_task now agent_id)) (\<lambda>_. sc_ok ())))))))"

fun recover_tasks :: "'w sched_io \<Rightarrow> task_record list \<Rightarrow> ('w, (string \<times> task_outcome) list) sched_cmd" where
  "recover_tasks io [] = sc_ok []"
| "recover_tasks io (task # rest) =
     sc_bind (recover_startup_task io task) (\<lambda>_.
     sc_bind (get_task_or io (tr_agent_id task) ''startup recovery task disappeared'') (\<lambda>found.
     sc_bind (sc_of (SchedStore (InvalidState ''startup recovery did not terminalize the task'')) (tr_outcome found)) (\<lambda>outcome.
     sc_bind (recover_tasks io rest) (\<lambda>recovered. sc_ok ((tr_agent_id task, outcome) # recovered)))))"

definition reconcile_startup :: "'w sched_io \<Rightarrow> ('w, (string \<times> task_outcome) list) sched_cmd" where
  "reconcile_startup io =
     sc_bind (sc_get io (\<lambda>s. sc_active s = [])) (\<lambda>idle.
       if \<not> idle then sc_fail (InvalidConfig ''startup reconciliation requires an empty active set'')
       else sc_bind (sc_read io startup_recovery_tasks) (recover_tasks io))"

end
