(* ===== verification/Scheduler_Control.thy ===== *)
theory Scheduler_Control
  imports Scheduler_Start
begin

text \<open>
  The operations callers use on a running task (stop, close, answer a permission request, queue a
  message), and the thread that monitors a runtime. Each of them may claim and start other tasks
  at its end; \<open>fuel\<close> is that of \<open>start_ready\<close>.
\<close>

section \<open>Failing closed\<close>

definition start_others :: "nat \<Rightarrow> 'w sched_io \<Rightarrow> string \<Rightarrow> ('w, unit) sched_cmd" where
  "start_others fuel io agent_id = sc_bind (sc_try (start_ready fuel io [])) (record_error io agent_id)"

definition fail_closed_control ::
    "nat \<Rightarrow> 'w sched_io \<Rightarrow> string \<Rightarrow> nat \<Rightarrow> nat \<Rightarrow> nat \<Rightarrow> string \<Rightarrow> string \<Rightarrow> ('w, unit) sched_cmd" where
  "fail_closed_control fuel io agent_id owner_epoch h deadline code message =
     sc_bind (find_active io agent_id) (\<lambda>found.
       if active_under owner_epoch found = None
       then sc_fail (RuntimeCommand agent_id ''active runtime disappeared during fail-closed control cleanup'')
       else
         sc_bind (cleanup_grace_of io deadline) (\<lambda>grace.
         sc_bind (cleanup_registered_runtime_with_grace io agent_id owner_epoch h (Some (code, message)) grace) (\<lambda>_.
           start_others fuel io agent_id)))"

section \<open>Stop and close\<close>

text \<open>Nothing runs for the task and it is converging: it gets its cancelled result here.\<close>

definition cancel_unstarted :: "'w sched_io \<Rightarrow> string \<Rightarrow> ('w, task_phase) sched_cmd" where
  "cancel_unstarted io agent_id =
     sc_bind (get_task_or io agent_id (''unknown task '' @ agent_id)) (\<lambda>job.
     sc_bind (get_task_or io agent_id ''converging V2 task metadata disappeared'') (\<lambda>task.
       case task_route (si_env io) (si_serde io) job of
         Inr route \<Rightarrow>
           finish_unstarted_route io agent_id route CompletionCancelled ''CANCELLED'' ''task cancelled before runtime launch'' True
       | Inl message \<Rightarrow>
           sc_bind (sc_write io (\<lambda>now. store_task_result (si_env io) now agent_id
                      (minimal_task_result CompletionCancelled ''task cancelled with invalid prepared metadata''
                         ''CANCELLED_PREPARED_INVALID''))) (\<lambda>_.
           sc_bind (record_failure io agent_id message) (\<lambda>_.
           sc_bind (sc_read io (\<lambda>st. get_task st agent_id)) (\<lambda>found.
             case found of Some t \<Rightarrow> sc_ok (tr_phase t) | None \<Rightarrow> sc_panic)))))"

definition optional_failure :: "'w sched_io \<Rightarrow> string \<Rightarrow> string option \<Rightarrow> ('w, unit) sched_cmd" where
  "optional_failure io agent_id message = (case message of Some m \<Rightarrow> record_failure io agent_id m | None \<Rightarrow> sc_ok ())"

definition close_for :: "'w sched_io \<Rightarrow> string \<Rightarrow> nat \<Rightarrow> string \<Rightarrow> nat \<Rightarrow> ('w, string option) sched_cmd" where
  "close_for io agent_id h session_id deadline =
     sc_bind (sc_try (runtime_phase_timeout io agent_id deadline)) (\<lambda>timeout.
       case timeout of
         Inl e \<Rightarrow> sc_ok (Some (sched_error_text (si_show_error io) e))
       | Inr t \<Rightarrow>
           sc_bind (sc_call io (si_close_session io h session_id t)) (\<lambda>closed.
             sc_ok (case closed of Inl e \<Rightarrow> Some (command_error_text e) | Inr u \<Rightarrow> None)))"

definition stop_for :: "'w sched_io \<Rightarrow> string \<Rightarrow> nat \<Rightarrow> string \<Rightarrow> nat \<Rightarrow> ('w, string option) sched_cmd" where
  "stop_for io agent_id h session_id deadline =
     sc_bind (sc_try (runtime_phase_timeout io agent_id deadline)) (\<lambda>timeout.
       case timeout of
         Inl e \<Rightarrow> sc_bind (force_phase io h) (\<lambda>_. sc_ok (Some (sched_error_text (si_show_error io) e)))
       | Inr t \<Rightarrow> request_cooperative_stop io h session_id t)"

text \<open>The runtime of the task is stopped under its lock, and the task ends as cancelled.\<close>

definition stop_active ::
    "'w sched_io \<Rightarrow> string \<Rightarrow> bool \<Rightarrow> nat \<Rightarrow> active_runtime \<Rightarrow> control_decision \<Rightarrow> ('w, task_phase) sched_cmd" where
  "stop_active io agent_id closing deadline active decision =
     sc_bind (find_active io agent_id) (\<lambda>found.
       case found of
         None \<Rightarrow>
           sc_bind (sc_read io (\<lambda>st. get_task st agent_id)) (\<lambda>task.
             sc_ok (case task of Some t \<Rightarrow> tr_phase t | None \<Rightarrow> cd_phase decision))
       | Some current \<Rightarrow>
           sc_bind (stop_for io agent_id (ar_runtime active) (ar_session_id active) deadline) (\<lambda>control_error.
           sc_bind (if closing then close_for io agent_id (ar_runtime active) (ar_session_id active) deadline
                    else sc_ok None) (\<lambda>close_error.
           sc_bind (cleanup_grace_of io deadline) (\<lambda>grace.
           sc_bind (stop_runtime io (ar_runtime active) grace) (\<lambda>terminal.
           sc_bind (sc_try (finish_routed_terminal io agent_id (ar_runtime current) (ar_route current) terminal False
                      (Some (CompletionCancelled, ''CANCELLED'')) None)) (\<lambda>result.
           sc_bind (release_active io agent_id (cd_owner_epoch decision)) (\<lambda>_.
           sc_bind (optional_failure io agent_id close_error) (\<lambda>_.
           sc_bind (optional_failure io agent_id control_error) (\<lambda>_. sc_result result)))))))))"

definition cancel_active_check :: "'w sched_io \<Rightarrow> string \<Rightarrow> ('w, unit) sched_cmd" where
  "cancel_active_check io agent_id =
     sc_bind (find_active io agent_id) (\<lambda>found.
       case found of Some a \<Rightarrow> cancel_check io (ar_runtime a) | None \<Rightarrow> sc_ok ())"

definition request_stop_or_close :: "nat \<Rightarrow> 'w sched_io \<Rightarrow> string \<Rightarrow> bool \<Rightarrow> nat \<Rightarrow> ('w, task_phase) sched_cmd" where
  "request_stop_or_close fuel io agent_id closing deadline =
     sc_bind (find_active io agent_id) (\<lambda>active.
     sc_bind (require_remaining io agent_id deadline) (\<lambda>_.
     sc_bind (sc_write io (\<lambda>now. if closing then request_close now agent_id else request_stop now agent_id)) (\<lambda>decision.
     sc_bind (cancel_active_check io agent_id) (\<lambda>_.
     sc_bind (case active of Some a \<Rightarrow> phase_stop io (ar_runtime a) | None \<Rightarrow> sc_ok ()) (\<lambda>_.
       if \<not> cd_needs_runtime_stop decision
       then (if cd_phase decision = Cancelling \<and> active = None then cancel_unstarted io agent_id else sc_ok (cd_phase decision))
       else
         case active of
           None \<Rightarrow> sc_ok (cd_phase decision)
         | Some a \<Rightarrow>
             if ar_owner_epoch a \<noteq> cd_owner_epoch decision then sc_ok (cd_phase decision)
             else
               sc_bind (sc_try (lock_operation io agent_id (ar_runtime a) deadline)) (\<lambda>locked.
                 case locked of
                   Inl e \<Rightarrow>
                     sc_bind (fail_closed_control fuel io agent_id (ar_owner_epoch a) (ar_runtime a) deadline
                                ''CONTROL_DEADLINE_EXCEEDED'' (sched_error_text (si_show_error io) e)) (\<lambda>_. sc_fail e)
                 | Inr u \<Rightarrow> stop_active io agent_id closing deadline a decision))))))"

definition cancel_task :: "nat \<Rightarrow> 'w sched_io \<Rightarrow> string \<Rightarrow> ('w, task_phase) sched_cmd" where
  "cancel_task fuel io agent_id = sc_bind (control_deadline io) (request_stop_or_close fuel io agent_id False)"

definition close_task :: "nat \<Rightarrow> 'w sched_io \<Rightarrow> string \<Rightarrow> ('w, task_phase) sched_cmd" where
  "close_task fuel io agent_id = sc_bind (control_deadline io) (request_stop_or_close fuel io agent_id True)"

fun shutdown_agents :: "nat \<Rightarrow> 'w sched_io \<Rightarrow> string list \<Rightarrow> ('w, unit) sched_cmd" where
  "shutdown_agents fuel io [] = sc_ok ()"
| "shutdown_agents fuel io (a # rest) =
     sc_bind (sc_try (close_task fuel io a)) (\<lambda>r. sc_bind (record_error io a r) (\<lambda>_. shutdown_agents fuel io rest))"

definition shutdown_all :: "nat \<Rightarrow> 'w sched_io \<Rightarrow> ('w, unit) sched_cmd" where
  "shutdown_all fuel io = sc_bind (sc_get io (\<lambda>s. map fst (sc_active s))) (shutdown_agents fuel io)"

section \<open>Messages from the caller\<close>

datatype message_disposition = MessageQueued | MessageDelivered | MessageAlreadyDelivered | MessageFailed

definition disposition_of :: "message_state \<Rightarrow> message_disposition" where
  "disposition_of st = (case st of MsgDelivered \<Rightarrow> MessageAlreadyDelivered | MsgFailed \<Rightarrow> MessageFailed | _ \<Rightarrow> MessageQueued)"

definition restore_resume :: "'w sched_io \<Rightarrow> task_record \<Rightarrow> stored_task_result option \<Rightarrow> ('w, unit) sched_cmd" where
  "restore_resume io original result =
     sc_bind (sc_write io (\<lambda>now. restore_terminal_after_resume_failure (si_env io) now original (map_option sr_result result)))
       (\<lambda>_. sc_log (CallRestore (tr_agent_id original)))"

definition resume_with_message :: "nat \<Rightarrow> 'w sched_io \<Rightarrow> string \<Rightarrow> string \<Rightarrow> string \<Rightarrow> ('w, message_disposition) sched_cmd" where
  "resume_with_message fuel io agent_id message_id content =
     sc_bind (get_task_or io agent_id ''resume task disappeared'') (\<lambda>original.
     sc_bind (sc_read io (\<lambda>st. Inr (stored_result st agent_id))) (\<lambda>original_result.
     sc_bind (sc_write io (\<lambda>now. requeue_task_for_resume_with_message now agent_id message_id content)) (\<lambda>_.
     sc_bind (sc_try (start_ready fuel io [])) (\<lambda>r.
       case r of
         Inl e \<Rightarrow>
           sc_bind (sc_read io (\<lambda>st. get_task st agent_id)) (\<lambda>task.
           sc_bind (sc_when (case task of Some t \<Rightarrow> tr_phase t = Terminal | None \<Rightarrow> False)
                      (restore_resume io original original_result)) (\<lambda>_. sc_fail e))
       | Inr started \<Rightarrow>
           if agent_id \<notin> set started
           then sc_bind (restore_resume io original original_result) (\<lambda>_.
                  sc_fail (RuntimeCommand agent_id ''session resume was not started''))
           else sc_ok MessageQueued))))"

definition may_queue :: "'w sched_io \<Rightarrow> string \<Rightarrow> active_runtime option \<Rightarrow> ('w, unit) sched_cmd" where
  "may_queue io agent_id active =
     (case active of
        Some a \<Rightarrow> require_runtime_ingress io agent_id (ar_runtime a)
      | None \<Rightarrow>
          sc_bind (sc_read io (\<lambda>st. get_task st agent_id)) (\<lambda>task.
            if not_running task then sc_fail (late_ingress_error agent_id ''LATE_AFTER_STOP'') else sc_ok ()))"

definition queue_new_message ::
    "nat \<Rightarrow> 'w sched_io \<Rightarrow> string \<Rightarrow> string \<Rightarrow> string \<Rightarrow> string \<Rightarrow> nat \<Rightarrow> ('w, message_disposition) sched_cmd" where
  "queue_new_message fuel io agent_id message_id mode content deadline =
     sc_bind (sc_read io (\<lambda>st. get_task st agent_id)) (\<lambda>task.
       if (case task of Some t \<Rightarrow> tr_phase t = Terminal | None \<Rightarrow> False)
       then resume_with_message fuel io agent_id message_id content
       else
         sc_bind (find_active io agent_id) (\<lambda>active.
         sc_bind (case active of Some a \<Rightarrow> lock_operation io agent_id (ar_runtime a) deadline | None \<Rightarrow> sc_ok ()) (\<lambda>_.
         sc_bind (may_queue io agent_id active) (\<lambda>_.
         sc_bind (require_remaining io agent_id deadline) (\<lambda>_.
         sc_bind (sc_write io (\<lambda>now. insert_message now message_id agent_id mode content)) (\<lambda>created.
           if created then sc_ok MessageQueued
           else sc_bind (sc_read io (\<lambda>st. Inr (query_message st message_id))) (\<lambda>m.
                  sc_ok (case m of Some r \<Rightarrow> disposition_of (ms_state r) | None \<Rightarrow> MessageQueued))))))))"

definition queue_message ::
    "nat \<Rightarrow> 'w sched_io \<Rightarrow> string \<Rightarrow> string \<Rightarrow> string \<Rightarrow> string \<Rightarrow> ('w, message_disposition) sched_cmd" where
  "queue_message fuel io agent_id message_id mode content =
     (if mode \<noteq> ''queue'' then sc_fail (InvalidConfig ''generic agent messages must use queue mode'')
      else
        sc_bind (control_deadline io) (\<lambda>deadline.
        sc_bind (sc_read io (\<lambda>st. Inr (query_message st message_id))) (\<lambda>existing.
          case existing of
            Some m \<Rightarrow>
              if ms_agent_id m = agent_id \<and> ms_mode m = mode \<and> ms_content m = content
              then sc_ok (disposition_of (ms_state m))
              else queue_new_message fuel io agent_id message_id mode content deadline
          | None \<Rightarrow> queue_new_message fuel io agent_id message_id mode content deadline)))"

section \<open>Answers to permission requests\<close>

datatype response_disposition = Responded | AlreadyResponded | InFlight

record response_outcome =
  rp_disposition :: response_disposition
  rp_requested_decision :: string
  rp_effective_decision :: string
  rp_policy_overrode :: bool
  rp_policy_reason_code :: "string option"

definition known_response :: "string \<Rightarrow> pending_row \<Rightarrow> ('w, response_outcome) sched_cmd" where
  "known_response decision request =
     (case pr_response_decision request of
        None \<Rightarrow> sc_fail (InvalidConfig ''persisted response outcome is incomplete'')
      | Some effective \<Rightarrow>
          sc_ok \<lparr>rp_disposition = (if pr_state request = ReqResponded then AlreadyResponded else InFlight),
                 rp_requested_decision = decision, rp_effective_decision = effective,
                 rp_policy_overrode = (effective \<noteq> decision),
                 rp_policy_reason_code = (if effective \<noteq> decision then pr_response_content request else None)\<rparr>)"

text \<open>What the policy makes of the caller's decision: the decision to send, the reason it was changed for, and the denial.\<close>

definition effective_decision ::
    "'w sched_io \<Rightarrow> policy_launcher option \<Rightarrow> pending_row \<Rightarrow> string
     \<Rightarrow> ('w, string \<times> string option \<times> denial_semantics option) sched_cmd" where
  "effective_decision io policy request decision =
     (case policy of
        None \<Rightarrow> sc_ok (decision, None, None)
      | Some pl \<Rightarrow>
          (case env_parse (si_env io) (pr_payload_json request) of
             None \<Rightarrow> sc_fail (InvalidConfig (''permission request payload is invalid: '' @ si_json_error io (pr_payload_json request)))
           | Some params \<Rightarrow>
               sc_bind (sc_get io (\<lambda>s. si_fs io (sc_world s))) (\<lambda>fs.
               sc_bind (sc_log (CallPolicy fs request)) (\<lambda>_.
                 let external = (if decision = ''allow'' then Allow else Deny) in
                 case decide_zcode_permission_validated fs pl params external of
                   None \<Rightarrow> sc_panic
                 | Some (p, denial) \<Rightarrow>
                     (let overridden = (external = Allow \<and> \<not> pd_allowed p);
                          effective = (if overridden then ''deny'' else decision)
                      in sc_ok (effective, if overridden then Some (pd_reason p) else None,
                                if effective = ''deny'' then denial else None))))))"

definition accepting :: "nat \<Rightarrow> task_record option \<Rightarrow> bool" where
  "accepting owner_epoch task = (case task of
       Some t \<Rightarrow> tr_owner_epoch t = owner_epoch \<and> tr_phase t \<in> {Running, WaitingInput} \<and> \<not> tr_stop_requested t \<and> \<not> tr_close_requested t
     | None \<Rightarrow> False)"

definition release_claim :: "'w sched_io \<Rightarrow> string \<Rightarrow> string \<Rightarrow> sched_error \<Rightarrow> ('w, 'a) sched_cmd" where
  "release_claim io agent_id request_id e =
     sc_bind (sc_write io (\<lambda>now. release_pending_response agent_id request_id)) (\<lambda>_. sc_fail e)"

definition release_and_close ::
    "nat \<Rightarrow> 'w sched_io \<Rightarrow> string \<Rightarrow> string \<Rightarrow> active_runtime \<Rightarrow> nat \<Rightarrow> string \<Rightarrow> string \<Rightarrow> sched_error \<Rightarrow> ('w, 'a) sched_cmd" where
  "release_and_close fuel io agent_id request_id a deadline code message e =
     sc_bind (sc_write io (\<lambda>now. release_pending_response agent_id request_id)) (\<lambda>_.
     sc_bind (fail_closed_control fuel io agent_id (ar_owner_epoch a) (ar_runtime a) deadline code message) (\<lambda>_. sc_fail e))"

text \<open>The answer was claimed in the store: it is sent and completed, or the claim is released.\<close>

definition send_claimed ::
    "nat \<Rightarrow> 'w sched_io \<Rightarrow> string \<Rightarrow> pending_row \<Rightarrow> active_runtime \<Rightarrow> nat \<Rightarrow> string \<Rightarrow> string option \<Rightarrow> denial_semantics option
     \<Rightarrow> ('w, unit) sched_cmd" where
  "send_claimed fuel io agent_id request a deadline effective content denial =
     (let request_id = pr_request_id request in
      sc_bind (sc_try (require_runtime_ingress io agent_id (ar_runtime a))) (\<lambda>ingress.
        case ingress of
          Inl e \<Rightarrow> release_claim io agent_id request_id e
        | Inr u \<Rightarrow>
      sc_bind (sc_read io (\<lambda>st. get_task st agent_id)) (\<lambda>current.
        if \<not> accepting (ar_owner_epoch a) current
        then release_claim io agent_id request_id (late_ingress_error agent_id ''TASK_STOPPING'')
        else
      sc_bind (sc_try (runtime_phase_deadline_of io agent_id deadline)) (\<lambda>limit.
        case limit of
          Inl e \<Rightarrow> release_claim io agent_id request_id e
        | Inr response_deadline \<Rightarrow>
      sc_bind (sc_call io (si_respond io (ar_runtime a) (pr_correlation_id request) effective content denial response_deadline)) (\<lambda>sent.
      sc_bind (sc_log (CallRespond (ar_runtime a) (pr_correlation_id request) effective)) (\<lambda>_.
        case sent of
          Inl e \<Rightarrow> release_and_close fuel io agent_id request_id a deadline (control_failure_code e) (command_error_text e)
                     (RuntimeCommand agent_id (command_error_text e))
        | Inr u' \<Rightarrow>
      sc_bind (sched_remaining io deadline) (\<lambda>left.
        if left = None
        then release_and_close fuel io agent_id request_id a deadline ''CONTROL_DEADLINE_EXCEEDED''
               (sched_error_text (si_show_error io) (control_timeout_error agent_id)) (control_timeout_error agent_id)
        else
      sc_bind (sc_write io (\<lambda>now. complete_pending_response now agent_id request_id)) (\<lambda>completed.
        if completed then sc_ok ()
        else sc_fail (SchedStore (Conflict (''request '' @ request_id @ '' lost its response claim'')))))))))))"

definition answer_pending ::
    "nat \<Rightarrow> 'w sched_io \<Rightarrow> string \<Rightarrow> pending_row \<Rightarrow> string \<Rightarrow> string option \<Rightarrow> active_runtime \<Rightarrow> nat
     \<Rightarrow> ('w, response_outcome) sched_cmd" where
  "answer_pending fuel io agent_id request decision content a deadline =
     sc_bind (lock_operation io agent_id (ar_runtime a) deadline) (\<lambda>_.
     sc_bind (require_runtime_ingress io agent_id (ar_runtime a)) (\<lambda>_.
     sc_bind (sc_read io (\<lambda>st. get_task st agent_id)) (\<lambda>current.
     if \<not> accepting (ar_owner_epoch a) current then sc_fail (late_ingress_error agent_id ''TASK_STOPPING'')
     else
     sc_bind (require_remaining io agent_id deadline) (\<lambda>_.
     sc_bind (find_active io agent_id) (\<lambda>holder.
     sc_bind (effective_decision io (Option.bind holder ar_policy) request decision) (\<lambda>(effective, policy_reason, denial).
       let effective_content = (case policy_reason of Some r \<Rightarrow> Some r | None \<Rightarrow> content);
           outcome = (\<lambda>d. \<lparr>rp_disposition = d, rp_requested_decision = decision, rp_effective_decision = effective,
                          rp_policy_overrode = (effective \<noteq> decision), rp_policy_reason_code = policy_reason\<rparr>)
       in sc_bind (sc_write io (\<lambda>now. claim_pending_response_if_accepting agent_id (pr_request_id request) effective effective_content)) (\<lambda>claim.
            case claim of
              Claimed \<Rightarrow>
                sc_bind (send_claimed fuel io agent_id request a deadline effective effective_content denial) (\<lambda>_.
                  sc_ok (outcome Responded))
            | TaskStopping \<Rightarrow> sc_fail (late_ingress_error agent_id ''TASK_STOPPING'')
            | NotFound \<Rightarrow> sc_fail (SchedStore (InvalidState (''unknown request '' @ pr_request_id request)))
            | NotPending st \<Rightarrow>
                (case st of
                   ReqSending \<Rightarrow> sc_ok (outcome InFlight)
                 | ReqResponded \<Rightarrow> sc_ok (outcome AlreadyResponded)
                 | ReqPending \<Rightarrow> sc_fail (SchedStore (Conflict (''request '' @ pr_request_id request @ '' claim did not change pending state'')))))))))))"

definition inactive_reason :: "task_record option \<Rightarrow> string" where
  "inactive_reason task = (case task of
       Some t \<Rightarrow> if tr_phase t \<notin> {Running, WaitingInput} \<or> tr_stop_requested t \<or> tr_close_requested t
                 then ''LATE_AFTER_STOP'' else ''runtime is not active''
     | None \<Rightarrow> ''runtime is not active'')"

definition sched_respond_request ::
    "nat \<Rightarrow> 'w sched_io \<Rightarrow> string \<Rightarrow> string \<Rightarrow> string \<Rightarrow> string option \<Rightarrow> ('w, response_outcome) sched_cmd" where
  "sched_respond_request fuel io agent_id request_id decision content =
     sc_bind (control_deadline io) (\<lambda>deadline.
     sc_bind (sc_read io (\<lambda>st. Inr (pending_request st agent_id request_id))) (\<lambda>found.
     sc_bind (sc_of (SchedStore (InvalidState (''unknown request '' @ request_id))) found) (\<lambda>request.
       if \<not> (pr_request_type request = ''permission'' \<and> decision \<in> {''allow'', ''deny''})
       then sc_fail (InvalidConfig (if pr_request_type request = ''unsupported_input''
              then ''user-input response is unsupported by the pinned app-server seam''
              else ''response decision does not match the pending request type''))
       else if pr_state request \<noteq> ReqPending then known_response decision request
       else
         sc_bind (find_active io agent_id) (\<lambda>active.
           case active of
             None \<Rightarrow>
               sc_bind (sc_read io (\<lambda>st. get_task st agent_id)) (\<lambda>task. sc_fail (RuntimeCommand agent_id (inactive_reason task)))
           | Some a \<Rightarrow> answer_pending fuel io agent_id request decision content a deadline))))"

end
