(* ===== verification/Scheduler_Monitor.thy ===== *)
theory Scheduler_Monitor
  imports Scheduler_Control
begin

text \<open>
  The thread that watches one runtime (\<^verbatim>\<open>spawn_monitor\<close>): budget violations, time-outs, the end of the
  process, failures of the sink and the boundaries of turns. \<open>monitor_pass\<close> is one pass through the
  loop.
\<close>

record monitor_context =
  mc_agent_id :: string
  mc_owner_epoch :: nat
  mc_runtime :: nat
  mc_session_id :: string
  mc_route :: task_route
  mc_task :: "task_record option"

datatype monitor_next = MonitorReturn | MonitorContinue nat

definition sink_error :: "'w sched_io \<Rightarrow> nat \<Rightarrow> ('w, string option) sched_cmd" where
  "sink_error io h = sc_get io (\<lambda>s. sk_first_error (sk_write (snd (sc_sinks s h))))"

definition finish_locked_monitor_terminal ::
    "'w sched_io \<Rightarrow> monitor_context \<Rightarrow> runtime_terminal \<Rightarrow> bool \<Rightarrow> (completion_outcome \<times> string) option \<Rightarrow> ('w, task_phase) sched_cmd" where
  "finish_locked_monitor_terminal io mc terminal natural forced =
     sc_bind (get_task_or io (mc_agent_id mc) ''active monitor task disappeared'') (\<lambda>current.
       if is_terminal (tr_phase current) \<or> tr_owner_epoch current \<noteq> mc_owner_epoch mc then sc_ok (tr_phase current)
       else
         sc_bind (sc_get io (\<lambda>s. map_option rb_deadline (sk_budget (snd (sc_sinks s (mc_runtime mc)))))) (\<lambda>deadline.
         sc_bind
           (if tr_stop_requested current \<or> tr_close_requested current
            then sc_bind (phase_stop io (mc_runtime mc)) (\<lambda>_.
                 sc_bind (force_phase io (mc_runtime mc)) (\<lambda>_.
                 sc_bind (stop_runtime io (mc_runtime mc) (cf_stop_grace (si_config io))) (\<lambda>t.
                   sc_ok (t, False, Some (CompletionCancelled, ''CANCELLED'')))))
            else sc_bind (sink_error io (mc_runtime mc)) (\<lambda>e.
                   sc_ok (if forced = None \<and> e \<noteq> None
                          then (terminal, False, Some (CompletionRuntimeLost, ''LIFECYCLE_SINK_FAILED''))
                          else (terminal, natural, forced)))) (\<lambda>(t, nat', f).
           finish_routed_terminal io (mc_agent_id mc) (mc_runtime mc) (mc_route mc) t nat' f (if nat' then deadline else None))))"

definition cooperative_stop_noted :: "'w sched_io \<Rightarrow> monitor_context \<Rightarrow> ('w, unit) sched_cmd" where
  "cooperative_stop_noted io mc =
     sc_bind (request_cooperative_stop io (mc_runtime mc) (mc_session_id mc) (cf_stop_grace (si_config io)))
       (optional_failure io (mc_agent_id mc))"

definition finish_noted ::
    "'w sched_io \<Rightarrow> monitor_context \<Rightarrow> runtime_terminal \<Rightarrow> bool \<Rightarrow> (completion_outcome \<times> string) option \<Rightarrow> ('w, unit) sched_cmd" where
  "finish_noted io mc terminal natural forced =
     sc_bind (sc_try (finish_locked_monitor_terminal io mc terminal natural forced)) (record_error io (mc_agent_id mc))"

definition monitor_end :: "nat \<Rightarrow> 'w sched_io \<Rightarrow> monitor_context \<Rightarrow> ('w, monitor_next) sched_cmd" where
  "monitor_end fuel io mc =
     sc_bind (release_active io (mc_agent_id mc) (mc_owner_epoch mc)) (\<lambda>_.
     sc_bind (start_others fuel io (mc_agent_id mc)) (\<lambda>_. sc_ok MonitorReturn))"

definition finish_monitor_timeout :: "nat \<Rightarrow> 'w sched_io \<Rightarrow> monitor_context \<Rightarrow> string \<Rightarrow> ('w, monitor_next) sched_cmd" where
  "finish_monitor_timeout fuel io mc reason_text =
     sc_bind (sc_write io (\<lambda>now. request_runtime_stop now (mc_agent_id mc))) (\<lambda>stop.
     sc_bind (cancel_check io (mc_runtime mc)) (\<lambda>_.
     sc_bind (phase_stop io (mc_runtime mc)) (\<lambda>_.
     sc_bind (cooperative_stop_noted io mc) (\<lambda>_.
     sc_bind (stop_runtime io (mc_runtime mc) (cf_stop_grace (si_config io))) (\<lambda>terminal.
     sc_bind (finish_locked_monitor_terminal io mc terminal False
                (Some (if cd_prior_stop_or_close stop then (CompletionCancelled, ''CANCELLED'')
                       else (CompletionTimedOut, reason_text)))) (\<lambda>_.
       monitor_end fuel io mc))))))"

definition time_out :: "nat \<Rightarrow> 'w sched_io \<Rightarrow> monitor_context \<Rightarrow> string \<Rightarrow> ('w, monitor_next) sched_cmd" where
  "time_out fuel io mc reason_text =
     sc_bind (sc_try (finish_monitor_timeout fuel io mc reason_text)) (\<lambda>r.
     sc_bind (record_error io (mc_agent_id mc) r) (\<lambda>_. sc_ok MonitorReturn))"

definition exhaust_budget :: "nat \<Rightarrow> 'w sched_io \<Rightarrow> monitor_context \<Rightarrow> nat \<Rightarrow> budget_violation \<Rightarrow> ('w, monitor_next) sched_cmd" where
  "exhaust_budget fuel io mc handled v =
     sc_bind (sc_try (sc_write io (\<lambda>now. request_runtime_stop now (mc_agent_id mc)))) (\<lambda>r.
     sc_bind (record_error io (mc_agent_id mc) r) (\<lambda>_.
     sc_bind (cancel_check io (mc_runtime mc)) (\<lambda>_.
     sc_bind (phase_stop io (mc_runtime mc)) (\<lambda>_.
     sc_bind (sink_violation io (mc_runtime mc)) (\<lambda>v'.
       if v' \<noteq> Some v then sc_ok (MonitorContinue handled)
       else
         sc_bind (cooperative_stop_noted io mc) (\<lambda>_.
         sc_bind (stop_runtime io (mc_runtime mc) (cf_stop_grace (si_config io))) (\<lambda>terminal.
         sc_bind (finish_noted io mc terminal False (Some (CompletionBudgetExhausted, reason_code v))) (\<lambda>_.
         sc_bind (cancel_check io (mc_runtime mc)) (\<lambda>_. monitor_end fuel io mc)))))))))"

definition input_wait_age :: "store \<Rightarrow> string \<Rightarrow> nat \<Rightarrow> nat option" where
  "input_wait_age st agent_id now_ms =
     (case pending_requests_bounded st agent_id i64_max of
        Inl e \<Rightarrow> None
      | Inr rows \<Rightarrow> greatest_of (map (\<lambda>r. now_ms - nat (max (pr_created_at r) 0)) (filter req_open rows)))"

definition timeout_reason_of :: "'w sched_io \<Rightarrow> monitor_context \<Rightarrow> ('w, string option) sched_cmd" where
  "timeout_reason_of io mc =
     (case mc_task mc of
        None \<Rightarrow> sc_ok None
      | Some task \<Rightarrow>
          sc_bind (sc_call io (si_now io)) (\<lambda>instant.
          sc_bind (sc_get io (\<lambda>s. snapshot_at instant (sk_activity (snd (sc_sinks s (mc_runtime mc)))))) (\<lambda>passive.
          sc_bind (sc_call io (si_time io)) (\<lambda>now_ms.
          sc_bind (sc_get io (\<lambda>s. input_wait_age (sc_store s) (mc_agent_id mc) (nat now_ms))) (\<lambda>age.
            sc_ok (runtime_timeout_reason (tr_effective_budget task) passive age))))))"

definition begin_completion :: "'w sched_io \<Rightarrow> nat \<Rightarrow> ('w, natural_completion_admission) sched_cmd" where
  "begin_completion io h s =
     (let s1 = others io s in
      case sc_sinks s1 h of (i, k) \<Rightarrow>
        (case begin_natural_completion i (k\<lparr>sk_store := sc_store s1\<rparr>) of (r, k') \<Rightarrow> (Some (Inr r), set_sink h (i, k') s1)))"

definition deliver_in :: "'w sched_io \<Rightarrow> monitor_context \<Rightarrow> nat \<Rightarrow> ('w, message_row option) sched_cmd" where
  "deliver_in io mc deadline = deliver_next_message io (mc_agent_id mc) (mc_session_id mc) (mc_runtime mc) deadline"

definition finish_exited ::
    "nat \<Rightarrow> 'w sched_io \<Rightarrow> monitor_context \<Rightarrow> runtime_terminal \<Rightarrow> ('w, monitor_next) sched_cmd" where
  "finish_exited fuel io mc terminal =
     sc_bind (sc_when (\<not> is_completed terminal) (cancel_check io (mc_runtime mc))) (\<lambda>_.
     sc_bind (finish_noted io mc terminal (is_completed terminal) None) (\<lambda>_.
     sc_bind (cancel_check io (mc_runtime mc)) (\<lambda>_. monitor_end fuel io mc)))"

definition exited :: "nat \<Rightarrow> 'w sched_io \<Rightarrow> monitor_context \<Rightarrow> nat \<Rightarrow> runtime_terminal \<Rightarrow> ('w, monitor_next) sched_cmd" where
  "exited fuel io mc handled terminal =
     (if \<not> is_completed terminal
      then sc_bind (sc_get io (\<lambda>s. ingress_reason (phase_of (mc_runtime mc) s))) (\<lambda>ingress.
             if ingress = Some ''LATE_AFTER_STOP'' then sc_ok MonitorReturn else finish_exited fuel io mc terminal)
      else
        sc_bind (begin_completion io (mc_runtime mc)) (\<lambda>admission.
          case admission of
            AdmissionDeferred pending queued \<Rightarrow>
              if pending then sc_ok (MonitorContinue handled)
              else if queued
              then sc_bind (control_deadline io) (\<lambda>deadline.
                   sc_bind (sc_try (deliver_in io mc deadline)) (\<lambda>r.
                   sc_bind (record_error io (mc_agent_id mc) r) (\<lambda>_. sc_ok (MonitorContinue handled))))
              else sc_panic
          | _ \<Rightarrow> finish_exited fuel io mc terminal))"

definition sink_failed_pass :: "'w sched_io \<Rightarrow> monitor_context \<Rightarrow> nat \<Rightarrow> ('w, monitor_next) sched_cmd" where
  "sink_failed_pass io mc handled =
     sc_bind (cancel_check io (mc_runtime mc)) (\<lambda>_.
     sc_bind (sink_error io (mc_runtime mc)) (\<lambda>e.
       case e of
         None \<Rightarrow> sc_ok (MonitorContinue handled)
       | Some message \<Rightarrow>
           sc_bind (phase_stop io (mc_runtime mc)) (\<lambda>_.
           sc_bind (force_phase io (mc_runtime mc)) (\<lambda>_.
           sc_bind (stop_runtime io (mc_runtime mc) (cf_stop_grace (si_config io))) (\<lambda>terminal.
           sc_bind (finish_noted io mc terminal False (Some (CompletionRuntimeLost, ''LIFECYCLE_SINK_FAILED''))) (\<lambda>_.
           sc_bind (record_failure io (mc_agent_id mc) message) (\<lambda>_.
           sc_bind (release_active io (mc_agent_id mc) (mc_owner_epoch mc)) (\<lambda>_. sc_ok MonitorReturn))))))))"

definition end_turn_runtime :: "'w sched_io \<Rightarrow> monitor_context \<Rightarrow> turn_boundary \<Rightarrow> nat \<Rightarrow> ('w, runtime_terminal) sched_cmd" where
  "end_turn_runtime io mc boundary deadline =
     sc_bind (cleanup_grace_of io deadline) (\<lambda>grace.
     sc_bind (sc_call io (si_finish_turn io (mc_runtime mc) boundary grace)) (\<lambda>t.
     sc_bind (sc_log (CallStop (mc_runtime mc) t)) (\<lambda>_. sc_ok t)))"

text \<open>After a turn: \<open>Some (Inr None)\<close> when the runtime is to be ended, \<open>None\<close> when input is still awaited.\<close>

definition boundary_delivery ::
    "'w sched_io \<Rightarrow> monitor_context \<Rightarrow> turn_boundary \<Rightarrow> nat \<Rightarrow> ('w, (sched_error + message_row option) option) sched_cmd" where
  "boundary_delivery io mc boundary deadline =
     (if boundary = TurnCompleted
      then sc_bind (begin_completion io (mc_runtime mc)) (\<lambda>admission.
             case admission of
               AdmissionDeferred pending queued \<Rightarrow>
                 if \<not> pending \<and> queued then sc_bind (sc_try (deliver_in io mc deadline)) (\<lambda>r. sc_ok (Some r)) else sc_ok None
             | _ \<Rightarrow> sc_ok (Some (Inr None)))
      else sc_bind (sc_try (deliver_in io mc deadline)) (\<lambda>r. sc_ok (Some r)))"

definition turn_boundary_pass ::
    "nat \<Rightarrow> 'w sched_io \<Rightarrow> monitor_context \<Rightarrow> nat \<Rightarrow> turn_snapshot \<Rightarrow> turn_boundary \<Rightarrow> ('w, monitor_next) sched_cmd" where
  "turn_boundary_pass fuel io mc handled turn boundary =
     sc_bind (if boundary \<noteq> TurnCompleted then sc_get io (\<lambda>s. ingress_reason (phase_of (mc_runtime mc) s)) else sc_ok None) (\<lambda>ingress.
     if ingress \<noteq> None then sc_ok MonitorReturn
     else
       sc_bind (turn_snapshot_of io (mc_runtime mc)) (\<lambda>current.
       if ts_active current \<or> ts_generation current \<noteq> ts_generation turn \<or> ts_boundary current \<noteq> Some boundary
       then sc_ok (MonitorContinue handled)
       else
         sc_bind (control_deadline io) (\<lambda>deadline.
         sc_bind (boundary_delivery io mc boundary deadline) (\<lambda>delivery.
           case delivery of
             None \<Rightarrow> sc_ok (MonitorContinue (ts_generation turn - 1))
           | Some (Inr (Some m)) \<Rightarrow> sc_ok (MonitorContinue (ts_generation turn))
           | Some (Inr None) \<Rightarrow>
               sc_bind (sc_when (boundary \<noteq> TurnCompleted) (cancel_check io (mc_runtime mc))) (\<lambda>_.
               sc_bind (end_turn_runtime io mc boundary deadline) (\<lambda>terminal.
               sc_bind (finish_noted io mc terminal (boundary = TurnCompleted) None) (\<lambda>_.
               sc_bind (cancel_check io (mc_runtime mc)) (\<lambda>_. monitor_end fuel io mc))))
           | Some (Inl e) \<Rightarrow>
               sc_bind (cancel_check io (mc_runtime mc)) (\<lambda>_.
               sc_bind (record_failure io (mc_agent_id mc) (sched_error_text (si_show_error io) e)) (\<lambda>_.
               sc_bind (end_turn_runtime io mc turn_boundary.TurnFailed deadline) (\<lambda>terminal.
               sc_bind (finish_noted io mc terminal False (Some (CompletionFailed, ''MESSAGE_DELIVERY_FAILED''))) (\<lambda>_.
                 monitor_end fuel io mc))))))))"

definition monitor_pass :: "nat \<Rightarrow> 'w sched_io \<Rightarrow> monitor_context \<Rightarrow> nat \<Rightarrow> ('w, monitor_next) sched_cmd" where
  "monitor_pass fuel io mc handled =
     sc_bind (sink_violation io (mc_runtime mc)) (\<lambda>v.
       case v of
         Some violated \<Rightarrow>
           if violated = WallTime then time_out fuel io mc (reason_code violated) else exhaust_budget fuel io mc handled violated
       | None \<Rightarrow>
           sc_bind (timeout_reason_of io mc) (\<lambda>r.
             case r of
               Some reason_text \<Rightarrow> time_out fuel io mc reason_text
             | None \<Rightarrow>
                 sc_bind (sc_call io (si_wait_terminal io (mc_runtime mc) 50000000)) (\<lambda>t.
                   case t of
                     Some terminal \<Rightarrow> exited fuel io mc handled terminal
                   | None \<Rightarrow>
                       sc_bind (sink_error io (mc_runtime mc)) (\<lambda>e.
                         if e \<noteq> None then sink_failed_pass io mc handled
                         else
                           sc_bind (turn_snapshot_of io (mc_runtime mc)) (\<lambda>turn.
                             if \<not> ts_active turn \<and> ts_generation turn > handled
                             then (case ts_boundary turn of
                                     None \<Rightarrow> sc_ok (MonitorContinue handled)
                                   | Some boundary \<Rightarrow> turn_boundary_pass fuel io mc handled turn boundary)
                             else sc_ok (MonitorContinue handled))))))"

text \<open>The loop; \<open>passes\<close> bounds it, and \<open>None\<close> says that the monitor is still running after so many passes.\<close>

fun monitor :: "nat \<Rightarrow> nat \<Rightarrow> 'w sched_io \<Rightarrow> monitor_context \<Rightarrow> nat \<Rightarrow> ('w, unit) sched_cmd" where
  "monitor 0 fuel io mc handled = sc_panic"
| "monitor (Suc passes) fuel io mc handled =
     sc_bind (monitor_pass fuel io mc handled) (\<lambda>next.
       case next of MonitorReturn \<Rightarrow> sc_ok () | MonitorContinue n \<Rightarrow> monitor passes fuel io mc n)"

end
