(* ===== verification/Scheduler_Runs.thy ===== *)
theory Scheduler_Runs
  imports Scheduler_Monitor
begin

text \<open>
  Every operation of the scheduler touches its state only through a few primitives. The locale
  \<open>sched_rules\<close> states what a relation on states needs in order to be kept by these primitives, and
  shows that then every operation keeps it, under every interleaving with other threads. It is
  interpreted for the runs of the store and for the calls of the runtimes.
\<close>

section \<open>Writes are runs of the store\<close>

abbreviation store_runs :: "store_env \<Rightarrow> store \<Rightarrow> store \<Rightarrow> bool" where
  "store_runs env \<equiv> (store_step env)\<^sup>*\<^sup>*"

definition is_write :: "store_env \<Rightarrow> 'a store_tx \<Rightarrow> bool" where
  "is_write env op \<longleftrightarrow> (\<forall>s x s'. op s = Inr (x, s') \<longrightarrow> store_runs env s s')"

named_theorems writes

lemma is_writeI: "(\<And>s. committed s (op s) = run_op env now w s) \<Longrightarrow> is_write env op"
proof (unfold is_write_def, intro allI impI)
  fix s x s'
  assume a: "\<And>s. committed s (op s) = run_op env now w s" and "op s = Inr (x, s')"
  then have "s' = run_op env now w s" using a [of s] by (simp add: committed_def)
  then show "store_runs env s s'" by (auto intro: store_step.op)
qed

lemma store_ops_are_writes [writes]:
  "is_write env (claim_next now own g lim)" "is_write env (mark_session_running now a e rid ident sid turn)"
  "is_write env (append_lifecycle now lw)" "is_write env (fail_claim now a e c m)" "is_write env (request_close now a)"
  "is_write env (request_stop now a)" "is_write env (request_runtime_stop now a)"
  "is_write env (requeue_task_for_resume_with_message now a mi c)" "is_write env (reap_task now a)"
  "is_write env (store_task_result_with_patch env now a r p)" "is_write env (insert_message now mi a mode c)"
  "is_write env (claim_next_message a)" "is_write env (complete_message now mi t)" "is_write env (fail_message mi c txt)"
  "is_write env (insert_pending_request now rq a c ty pl)" "is_write env (claim_pending_response_if_accepting a rq d ct)"
  "is_write env (complete_pending_response now a rq)" "is_write env (release_pending_response a rq)"
  by (rule is_writeI, rule run_op.simps [symmetric])+

lemma store_task_result_is_write [writes]: "is_write env (store_task_result env now a r)"
  using store_ops_are_writes(10) [of env now a r None] by (simp add: is_write_def store_task_result_def)

lemma is_writeD: "is_write env op \<Longrightarrow> op s = Inr (x, s') \<Longrightarrow> store_runs env s s'"
  by (simp add: is_write_def)

lemma cancel_precedence_is_write [writes]: "is_write env (store_result_with_cancel_precedence env now now' a r p)"
  by (auto simp: is_write_def store_result_with_cancel_precedence_def split: sum.splits store_error.splits if_splits
      dest: is_writeD [OF store_ops_are_writes(10)] is_writeD [OF store_task_result_is_write])

lemma persist_is_write [writes]: "is_write env (persist_general_result fits env now now' a root c)"
  by (auto simp: is_write_def persist_general_result_def Let_def split: if_splits dest: is_writeD [OF cancel_precedence_is_write])

lemma is_write_if [writes]: "is_write env f \<Longrightarrow> is_write env g \<Longrightarrow> is_write env (if b then f else g)"
  by simp

lemma publish_request_runs:
  "publish_request env i now r k = Inr (q, k') \<Longrightarrow> store_runs (sv_store env) (sk_store k) (sk_store k')"
  by (auto simp: publish_request_def Let_def split: option.splits sum.splits if_splits dest: is_writeD [OF store_ops_are_writes(15)])

lemma write_record_runs:
  assumes "sk_store k' = sk_store k"
  shows "store_runs (sv_store env) (sk_store k) (sk_store (write_record env i now now' r k'))"
  using assms
  by (auto simp: write_record_def sink_failed_def split: sum.splits elim: rtranclp_trans
      dest!: publish_request_runs is_writeD [OF store_ops_are_writes(3) [of "sv_store env"]])

lemma sink_emit_runs: "store_runs (sv_store env) (sk_store k) (sk_store (sink_emit env i now now' instant wall r k))"
proof -
  obtain b l where a: "admit_event (sk_lifecycle k) = (b, l)" by fastforce
  show ?thesis
    by (cases b) (simp_all add: sink_emit_def a Let_def sink_observe_def write_record_runs)
qed

lemma finish_general_runs:
  assumes "finish_general fits env i clock t root c k = (r, k')"
  shows "store_runs (sv_store env) (sk_store k) (sk_store k')"
proof -
  have reap: "map_sum id snd (reap_task now a s) = Inr s' \<Longrightarrow> store_runs (sv_store env) s s'" for now a s s'
    by (cases "reap_task now a s") (auto dest: is_writeD [OF store_ops_are_writes(9)])
  show ?thesis
    using assms unfolding finish_general_def
    by (auto simp: Let_def split: option.splits sum.splits if_splits elim: rtranclp_trans
        dest!: is_writeD [OF store_ops_are_writes(3) [of "sv_store env"]] is_writeD [OF persist_is_write] reap)
      (blast intro: rtranclp_trans)+
qed

section \<open>What keeps a relation\<close>

locale sched_rules = relation_kept Q for Q :: "'w sched \<Rightarrow> 'w sched \<Rightarrow> bool" +
  fixes io :: "'w sched_io" and logged :: "runtime_call \<Rightarrow> bool"
  assumes kept_world: "Q s (s\<lparr>sc_world := w\<rparr>)"
    and kept_active: "Q s (s\<lparr>sc_active := act\<rparr>)"
    and kept_activities: "Q s (s\<lparr>sc_activities := acts\<rparr>)"
    and kept_failures: "Q s (s\<lparr>sc_failures := fs\<rparr>)"
    and kept_sinks: "Q s (s\<lparr>sc_sinks := ks\<rparr>)"
    and kept_cancelled: "Q s (s\<lparr>sc_cancelled := cs\<rparr>)"
    and kept_signals: "Q s (s\<lparr>sc_signals := sg\<rparr>)"
    and kept_store: "store_runs (si_env io) (sc_store s) st \<Longrightarrow> Q s (s\<lparr>sc_store := st\<rparr>)"
    and kept_restore: "restore_terminal_after_resume_failure (si_env io) now original result (sc_store s) = Inr (u, st)
      \<Longrightarrow> Q s (s\<lparr>sc_store := st, sc_calls := sc_calls s @ [CallRestore a]\<rparr>)"
    and kept_log: "logged c \<Longrightarrow> Q s (s\<lparr>sc_calls := sc_calls s @ [c]\<rparr>)"
    and logged_calls: "logged (CallStop h t)" "logged (CallSend h i m)" "logged (CallMonitor h)" "logged (CallPolicy fsys r)"
begin

lemmas kept_fields = kept_world kept_active kept_activities kept_failures kept_sinks kept_cancelled kept_signals

lemma kept_on_sink: "Q s (set_sink h ik s)" "Q s (on_sink h f s)" "Q s (on_phase h g s)"
  by (simp_all add: set_sink_def on_sink_def on_phase_def kept_sinks)

lemma kept_register: "Q s (register a r s)"
  using kept_trans [OF kept_active kept_activities] by (simp add: register_def)

lemma kept_release: "Q s (release a e s)"
  using kept_trans [OF kept_on_sink(3) kept_active] by (auto simp: release_def kept_refl split: option.split)

lemma kept_note_failure: "Q s (note_failure a m s)"
  by (simp add: note_failure_def kept_refl kept_failures)

lemma kept_emit: "Q s (emit_to h (sink_emit (si_sink_env io) i now now' instant wall r) s)"
proof -
  obtain j k where k: "sc_sinks s h = (j, k)" by fastforce
  let ?k = "sink_emit (si_sink_env io) i now now' instant wall r (k\<lparr>sk_store := sc_store s\<rparr>)"
  have "store_runs (si_env io) (sc_store s) (sk_store ?k)"
    using sink_emit_runs [of "si_sink_env io" "k\<lparr>sk_store := sc_store s\<rparr>"] by simp
  then have "Q (set_sink h (j, ?k) s) ((set_sink h (j, ?k) s)\<lparr>sc_store := sk_store ?k\<rparr>)"
    by (intro kept_store) (simp add: set_sink_def)
  then show ?thesis using kept_trans [OF kept_on_sink(1)] by (simp add: emit_to_def k Let_def)
qed

lemma kept_interfere: "Q s (interfere io x s)"
proof (cases x)
  case (OtherWrite now op)
  then show ?thesis by (auto intro!: kept_store r_into_rtranclp store_step.op)
next
  case (OtherRestores now original result)
  then show ?thesis by (auto simp: other_restores_def kept_refl kept_restore split: sum.split)
qed (simp_all add: kept_emit kept_on_sink kept_cancelled kept_register kept_release kept_note_failure kept_refl other_spawns_def
    other_registers_def)

lemma kept_others: "Q s (others io s)"
proof -
  have "Q s (fold (interfere io) xs s)" for xs s
    by (induction xs arbitrary: s) (auto intro: kept_refl kept_trans [OF kept_interfere])
  then show ?thesis
    by (cases "si_others io (sc_world s)") (simp add: others_def, rule kept_trans [OF kept_world], assumption)
qed

lemma kept_after: "Q (others io s) t \<Longrightarrow> Q s t"
  by (rule kept_trans [OF kept_others])

lemma keeps_get [keeps_rules]: "keeps Q (sc_get io f)"
  by (simp add: keeps_def sc_get_def Let_def kept_others)

lemma keeps_put: "(\<And>s. Q s (f s)) \<Longrightarrow> keeps Q (sc_put io f)"
  by (simp add: keeps_def sc_put_def kept_after)

lemma keeps_read [keeps_rules]: "keeps Q (sc_read io f)"
  by (simp add: keeps_def sc_read_def Let_def kept_others)

lemma keeps_call [keeps_rules]: "keeps Q (sc_call io f)"
  by (auto simp: keeps_def sc_call_def Let_def split: prod.split intro!: kept_trans [OF kept_others kept_world])

lemma keeps_world_cmd [keeps_rules]: "keeps Q (sc_world_cmd io m)"
  by (auto simp: keeps_def sc_world_cmd_def Let_def split: prod.split intro!: kept_trans [OF kept_others kept_world])

lemma keeps_write:
  assumes "\<And>now. is_write (si_env io) (op now)"
  shows "keeps Q (sc_write io op)"
  unfolding keeps_def sc_write_def Let_def
proof
  fix s
  obtain now w where t: "si_time io (sc_world (others io s)) = (now, w)" by fastforce
  have "Q (others io s) ((others io s)\<lparr>sc_world := w, sc_store := st\<rparr>)" if "op now (sc_store (others io s)) = Inr (x, st)" for x st
    using kept_store [of "(others io s)\<lparr>sc_world := w\<rparr>" st] is_writeD [OF assms that] kept_trans [OF kept_world] by simp
  then show "Q s (snd (case si_time io (sc_world (others io s)) of (now, w) \<Rightarrow>
        (case op now (sc_store (others io s)) of
           Inl e \<Rightarrow> (Some (Inl (SchedStore e)), (others io s)\<lparr>sc_world := w\<rparr>)
         | Inr (x, st) \<Rightarrow> (Some (Inr x), (others io s)\<lparr>sc_world := w, sc_store := st\<rparr>))))"
    by (cases "op now (sc_store (others io s))") (auto simp: t kept_after kept_world)
qed

lemma keeps_log: "logged c \<Longrightarrow> keeps Q (sc_log c)"
  by (simp add: keeps_def sc_log_def kept_log)

lemma keeps_put_phase [keeps_rules]: "keeps Q (sc_put io (on_phase h f))"
  by (simp add: keeps_put kept_on_sink)

lemma keeps_record_failure [keeps_rules]: "keeps Q (record_failure io a m)"
  by (simp add: record_failure_def keeps_put kept_note_failure)

lemma keeps_record_error [keeps_rules]: "keeps Q (record_error io a r)"
  unfolding record_error_def by (intro keeps_rules)

lemma keeps_release_active [keeps_rules]: "keeps Q (release_active io a e)"
  by (simp add: release_active_def keeps_put kept_release)

end

section \<open>Every operation keeps it\<close>

context sched_rules
begin

lemmas sched_steps = keeps_write writes keeps_log logged_calls

lemma keeps_deadlines [keeps_rules]:
  "keeps Q (require_runtime_ingress io a h)" "keeps Q (control_deadline io)" "keeps Q (sched_remaining io d)"
  "keeps Q (lock_operation io a h d)" "keeps Q (runtime_phase_deadline_of io a d)" "keeps Q (runtime_phase_timeout io a d)"
  "keeps Q (cleanup_grace_of io d)" "keeps Q (turn_snapshot_of io h)" "keeps Q (stop_runtime io h g)"
  unfolding require_runtime_ingress_def control_deadline_def sched_remaining_def lock_operation_def runtime_phase_deadline_of_def
    runtime_phase_timeout_def cleanup_grace_of_def turn_snapshot_of_def stop_runtime_def
  by (intro keeps_rules sched_steps)+

lemma keeps_require_remaining [keeps_rules]: "keeps Q (require_remaining io a d)"
  unfolding require_remaining_def by (intro keeps_rules sched_steps)

lemma keeps_phase [keeps_rules]:
  "keeps Q (request_phase_stop io h t)" "keeps Q (phase_stop io h)" "keeps Q (force_phase io h)"
  unfolding phase_stop_def request_phase_stop_def force_phase_def by (intro keeps_rules sched_steps)+

lemma keeps_acknowledge [keeps_rules]: "keeps Q (acknowledge_phase io h t)"
  unfolding keeps_def acknowledge_phase_def Let_def by (simp add: kept_after kept_on_sink)

lemma keeps_cooperative_stop [keeps_rules]: "keeps Q (request_cooperative_stop io h i t)"
  unfolding request_cooperative_stop_def by (intro keeps_rules sched_steps)

lemma keeps_deliver [keeps_rules]: "keeps Q (deliver_next_message io a i h d)"
  unfolding deliver_next_message_def by (intro keeps_rules sched_steps)

lemma keeps_checks [keeps_rules]:
  "keeps Q (check_cancelled io h)" "keeps Q (deadline_over io d)"
  unfolding check_cancelled_def deadline_over_def by (intro keeps_rules sched_steps)+

lemma keeps_one_check [keeps_rules]: "keeps Q (run_one_check io p h d c)"
  unfolding run_one_check_def by (intro keeps_rules sched_steps)

lemma keeps_run_checks [keeps_rules]: "keeps Q (run_checks io p h d v cs)"
proof (induction cs arbitrary: v)
  case (Cons c cs)
  then show ?case unfolding run_checks.simps by (intro keeps_rules sched_steps) assumption
qed (simp add: keeps_result)

lemma keeps_required_checks [keeps_rules]: "keeps Q (run_required_general_checks io p r h d)"
  unfolding run_required_general_checks_def by (intro keeps_rules sched_steps)

lemma keeps_persist [keeps_rules]: "keeps Q (sc_persist io a p c)" "keeps Q (sc_store_result io a r)" "keeps Q (get_task_or io a m)"
  unfolding sc_persist_def sc_store_result_def get_task_or_def by (intro keeps_rules sched_steps)+

lemma keeps_persist_completion [keeps_rules]: "keeps Q (persist_general_completion io a p c b)"
  unfolding persist_general_completion_def by (intro keeps_rules sched_steps)

lemma keeps_unstarted [keeps_rules]: "keeps Q (finish_unstarted_route io a r oc rt m b)"
  unfolding finish_unstarted_route_def by (intro keeps_rules sched_steps)

lemma keeps_take_text [keeps_rules]: "keeps Q (take_text io h)"
  unfolding keeps_def take_text_def Let_def by (simp add: kept_after kept_on_sink)

lemma keeps_natural [keeps_rules]: "keeps Q (natural_completion io r h b c)"
  unfolding natural_completion_def finalize_text_def checks_of_def by (intro keeps_rules sched_steps)

lemma keeps_transportable [keeps_rules]: "keeps Q (transportable io a c)"
  unfolding transportable_def response_fits_of_def by (intro keeps_rules sched_steps)

lemma keeps_clock [keeps_rules]: "keeps Q (sc_clock io)"
  unfolding sc_clock_def by (intro keeps_rules sched_steps)

lemma keeps_sink_finish [keeps_rules]: "keeps Q (sink_finish io h t p c)"
  unfolding sink_finish_def
proof (intro keeps_rules)
  fix clock
  show "keeps Q (\<lambda>s. let s1 = others io s in case sc_sinks s1 h of (i, k) \<Rightarrow>
          (case finish_general (si_fits io) (si_sink_env io) i clock t (pg_artifact_root p) c (k\<lparr>sk_store := sc_store s1\<rparr>) of
             (r, k') \<Rightarrow> (Some (map_sum SchedStore id r), (set_sink h (i, k') s1)\<lparr>sc_store := sk_store k'\<rparr>)))"
    unfolding keeps_def
  proof
    fix s
    let ?s = "others io s"
    obtain i k where k: "sc_sinks ?s h = (i, k)" by fastforce
    obtain r k' where f: "finish_general (si_fits io) (si_sink_env io) i clock t (pg_artifact_root p) c (k\<lparr>sk_store := sc_store ?s\<rparr>) = (r, k')"
      by fastforce
    have "Q (set_sink h (i, k') ?s) ((set_sink h (i, k') ?s)\<lparr>sc_store := sk_store k'\<rparr>)"
      using finish_general_runs [OF f] by (intro kept_store) (simp add: set_sink_def)
    with kept_trans [OF kept_on_sink(1) this] show "Q s (snd (let s1 = others io s in case sc_sinks s1 h of (i, k) \<Rightarrow>
          (case finish_general (si_fits io) (si_sink_env io) i clock t (pg_artifact_root p) c (k\<lparr>sk_store := sc_store s1\<rparr>) of
             (r, k') \<Rightarrow> (Some (map_sum SchedStore id r), (set_sink h (i, k') s1)\<lparr>sc_store := sk_store k'\<rparr>))))"
      by (simp add: Let_def k f kept_after)
  qed
qed

lemma keeps_finish_routed [keeps_rules]: "keeps Q (finish_routed_terminal io a h r t n f c)"
  unfolding finish_routed_terminal_def by (intro keeps_rules sched_steps)

lemma keeps_cancel_check [keeps_rules]: "keeps Q (cancel_check io h)" "keeps Q (find_active io a)"
  unfolding cancel_check_def find_active_def by (intro keeps_rules sched_steps keeps_put kept_cancelled)+

lemma keeps_cleanup_grace [keeps_rules]: "keeps Q (cleanup_registered_runtime_with_grace io a e h f g)"
  unfolding cleanup_registered_runtime_with_grace_def by (intro keeps_rules sched_steps)

lemma keeps_cleanup [keeps_rules]: "keeps Q (cleanup_registered_runtime io a e h f)"
  unfolding cleanup_registered_runtime_def by (intro keeps_rules sched_steps)

lemma keeps_reject [keeps_rules]: "keeps Q (reject_claim io a e t c m)"
  unfolding reject_claim_def by (intro keeps_rules sched_steps)

lemma keeps_budget [keeps_rules]: "keeps Q (claim_budget io t)" "keeps Q (budget_left io b)"
  unfolding claim_budget_def budget_left_def by (intro keeps_rules sched_steps)+

lemma keeps_violation [keeps_rules]: "keeps Q (sink_violation io h)"
  unfolding sink_violation_def
proof (intro keeps_rules)
  fix now
  show "keeps Q (\<lambda>s. let s1 = others io s in case sk_budget (snd (sc_sinks s1 h)) of
          None \<Rightarrow> (Some (Inr None), s1)
        | Some b \<Rightarrow> (Some (Inr (fst (violation now b))), on_sink h (\<lambda>k. k\<lparr>sk_budget := Some (snd (violation now b))\<rparr>) s1))"
    unfolding keeps_def Let_def by (auto split: option.split intro: kept_others kept_trans [OF kept_others kept_on_sink(2)])
qed

lemma keeps_fail_start [keeps_rules]: "keeps Q (fail_start io a r oc c m b e)" "keeps Q (fail_start_strict io a r oc c m b e)"
  unfolding fail_start_def fail_start_strict_def by (intro keeps_rules sched_steps)+

lemma keeps_spawn [keeps_rules]: "keeps Q (spawn_runtime io t e r b)"
  unfolding keeps_def
proof
  fix s
  obtain x w where x: "si_spawn io t (sc_world (others io s)) = (x, w)" by fastforce
  have "Q s ((others io s)\<lparr>sc_world := w\<rparr>)" by (rule kept_trans [OF kept_others kept_world])
  moreover have "Q u (snd ((fail_start io a r oc c m b e :: ('w, nat) sched_cmd) u))" for u a r oc c m b e
    by (rule keeps_fail_start(1) [unfolded keeps_def, rule_format])
  ultimately show "Q s (snd (spawn_runtime io t e r b s))"
    by (cases x) (auto simp: spawn_runtime_def Let_def x intro: kept_trans kept_on_sink(1))
qed

lemma keeps_session [keeps_rules]: "keeps Q (abort_session io a h r oc c m)"
  unfolding abort_session_def by (intro keeps_rules sched_steps)

lemma keeps_open_session [keeps_rules]: "keeps Q (open_session io t h r b)"
proof -
  have "keeps Q (case left of Some None \<Rightarrow> f | _ \<Rightarrow> g)" if "keeps Q f" and "keeps Q g"
    for left :: "nat option option" and f g :: "('w, session_ready) sched_cmd"
    using that by (auto split: option.split)
  note rule = this
  show ?thesis unfolding open_session_def by (intro keeps_rules sched_steps rule)
qed

lemma keeps_cleanup_ignored [keeps_rules]: "keeps Q (cleanup_ignored io a e h c err)"
  unfolding cleanup_ignored_def by (intro keeps_rules sched_steps)

lemma keeps_run_registered [keeps_rules]: "keeps Q (run_registered io t e h i ident turn)"
  unfolding run_registered_def by (intro keeps_rules sched_steps)

lemma keeps_register [keeps_rules]: "keeps Q (register_runtime io t e r st pl h ready)"
  unfolding register_runtime_def by (intro keeps_rules sched_steps keeps_put kept_register)

lemma keeps_start_routed [keeps_rules]: "keeps Q (start_routed io t e r st b)"
  unfolding start_routed_def by (intro keeps_rules sched_steps)

lemma keeps_start_claim [keeps_rules]: "keeps Q (start_claim io c)"
  unfolding start_claim_def by (intro keeps_rules sched_steps)

lemma keeps_start_ready [keeps_rules]: "keeps Q (start_ready fuel io xs)"
proof (induction fuel arbitrary: xs)
  case (Suc fuel)
  then show ?case unfolding start_ready.simps by (intro keeps_rules sched_steps) assumption
qed (simp add: keeps_panic)

lemma keeps_reap_persisted [keeps_rules]: "keeps Q (reap_persisted io a i)"
  unfolding keeps_def
proof
  fix s
  obtain r w sg where x: "stop_and_reap_persisted_process_group (si_os io) i (si_polls io (cf_stop_grace (si_config io)))
      (sc_world (others io s), sc_signals (others io s)) = (r, w, sg)" by (metis prod_cases3)
  have "Q s ((others io s)\<lparr>sc_world := w, sc_signals := sg\<rparr>)"
    by (rule kept_trans [OF kept_trans [OF kept_others kept_world] kept_signals])
  then show "Q s (snd (reap_persisted io a i s))" by (simp add: reap_persisted_def Let_def x)
qed

lemma keeps_recover [keeps_rules]: "keeps Q (recover_startup_task io t)"
  unfolding recover_startup_task_def recover_process_def by (intro keeps_rules sched_steps)

lemma keeps_recover_tasks [keeps_rules]: "keeps Q (recover_tasks io ts)"
proof (induction ts)
  case (Cons t ts)
  then show ?case unfolding recover_tasks.simps by (intro keeps_rules sched_steps) assumption
qed (simp add: keeps_result)

lemma keeps_reconcile [keeps_rules]: "keeps Q (reconcile_startup io)"
  unfolding reconcile_startup_def by (intro keeps_rules sched_steps)

lemma keeps_start_others [keeps_rules]: "keeps Q (start_others fuel io a)"
  unfolding start_others_def by (intro keeps_rules sched_steps)

lemma keeps_fail_closed [keeps_rules]: "keeps Q (fail_closed_control fuel io a e h d c m)"
  unfolding fail_closed_control_def by (intro keeps_rules sched_steps)

lemma keeps_stop_parts [keeps_rules]:
  "keeps Q (cancel_unstarted io a)" "keeps Q (optional_failure io a m)" "keeps Q (close_for io a h i d)" "keeps Q (stop_for io a h i d)"
  "keeps Q (cancel_active_check io a)"
  unfolding cancel_unstarted_def optional_failure_def close_for_def stop_for_def cancel_active_check_def by (intro keeps_rules sched_steps)+

lemma keeps_stop_active [keeps_rules]: "keeps Q (stop_active io a c d act dec)"
  unfolding stop_active_def by (intro keeps_rules sched_steps)

lemma keeps_stop_or_close [keeps_rules]: "keeps Q (request_stop_or_close fuel io a c d)"
  unfolding request_stop_or_close_def by (intro keeps_rules sched_steps)

lemma keeps_cancel_close [keeps_rules]: "keeps Q (cancel_task fuel io a)" "keeps Q (close_task fuel io a)"
  unfolding cancel_task_def close_task_def by (intro keeps_rules sched_steps)+

lemma keeps_shutdown [keeps_rules]: "keeps Q (shutdown_all fuel io)"
proof -
  have "keeps Q (shutdown_agents fuel io as)" for as
    by (induction as) (auto intro!: keeps_rules)
  then show ?thesis unfolding shutdown_all_def by (intro keeps_rules)
qed

lemma keeps_known_response [keeps_rules]: "keeps Q (known_response d r)"
  unfolding known_response_def by (intro keeps_rules sched_steps)

lemma keeps_effective_decision [keeps_rules]: "keeps Q (effective_decision io pl r d)"
  unfolding effective_decision_def by (intro keeps_rules sched_steps)

lemma keeps_release_claim [keeps_rules]: "keeps Q (release_claim io a r e)" "keeps Q (release_and_close fuel io a r act d c m e)"
  unfolding release_claim_def release_and_close_def by (intro keeps_rules sched_steps)+

lemma keeps_send_claimed:
  "logged (CallRespond (ar_runtime act) (pr_correlation_id r) eff) \<Longrightarrow> keeps Q (send_claimed fuel io a r act d eff c den)"
  unfolding send_claimed_def by (intro keeps_rules sched_steps) assumption

lemma keeps_answer:
  assumes "\<And>h c e. logged (CallRespond h c e)"
  shows "keeps Q (answer_pending fuel io a r d c act dl)"
proof -
  have "keeps Q (case cl of Claimed \<Rightarrow> f | TaskStopping \<Rightarrow> g | NotFound \<Rightarrow> h
      | NotPending st \<Rightarrow> (case st of ReqSending \<Rightarrow> k1 | ReqResponded \<Rightarrow> k2 | ReqPending \<Rightarrow> k3))"
    if "keeps Q f" "keeps Q g" "keeps Q h" "keeps Q k1" "keeps Q k2" "keeps Q k3"
    for cl and f g h k1 k2 k3 :: "('w, response_outcome) sched_cmd"
    using that by (auto split: response_claim.split pending_state.split)
  note rule = this
  show ?thesis
    unfolding answer_pending_def by (intro keeps_rules sched_steps rule keeps_send_claimed assms)
qed

lemma keeps_respond:
  assumes "\<And>h c e. logged (CallRespond h c e)"
  shows "keeps Q (sched_respond_request fuel io a r d c)"
  unfolding sched_respond_request_def by (intro keeps_rules sched_steps keeps_answer assms)

lemma keeps_queue_parts [keeps_rules]: "keeps Q (may_queue io a act)"
  unfolding may_queue_def by (intro keeps_rules sched_steps)

section \<open>The monitor\<close>

lemma keeps_sink_error [keeps_rules]: "keeps Q (sink_error io h)"
  unfolding sink_error_def by (intro keeps_rules sched_steps)

lemma keeps_finish_locked [keeps_rules]: "keeps Q (finish_locked_monitor_terminal io mc t n f)"
  unfolding finish_locked_monitor_terminal_def by (intro keeps_rules sched_steps)

lemma keeps_monitor_parts [keeps_rules]:
  "keeps Q (cooperative_stop_noted io mc)" "keeps Q (finish_noted io mc t n f)" "keeps Q (monitor_end fuel io mc)"
  "keeps Q (timeout_reason_of io mc)" "keeps Q (deliver_in io mc d)" "keeps Q (end_turn_runtime io mc b d)"
  unfolding cooperative_stop_noted_def finish_noted_def monitor_end_def timeout_reason_of_def deliver_in_def end_turn_runtime_def
  by (intro keeps_rules sched_steps)+

lemma keeps_begin_completion [keeps_rules]: "keeps Q (begin_completion io h)"
  unfolding keeps_def begin_completion_def Let_def
  by (auto split: prod.split intro: kept_trans [OF kept_others kept_on_sink(1)])

lemma keeps_admission [keeps_rules]:
  "keeps Q f \<Longrightarrow> (\<And>p q. keeps Q (g p q)) \<Longrightarrow> keeps Q h \<Longrightarrow>
     keeps Q (case adm of AdmissionReady \<Rightarrow> f | AdmissionDeferred p q \<Rightarrow> g p q | AdmissionBypass \<Rightarrow> h)"
  by (simp split: natural_completion_admission.split)

lemma keeps_monitor_ends [keeps_rules]:
  "keeps Q (finish_monitor_timeout fuel io mc r)" "keeps Q (exhaust_budget fuel io mc n v)" "keeps Q (finish_exited fuel io mc t)"
  "keeps Q (sink_failed_pass io mc n)"
  unfolding finish_monitor_timeout_def exhaust_budget_def finish_exited_def sink_failed_pass_def by (intro keeps_rules sched_steps)+

lemma keeps_time_out [keeps_rules]: "keeps Q (time_out fuel io mc r)"
  unfolding time_out_def by (intro keeps_rules sched_steps)

lemma keeps_exited [keeps_rules]: "keeps Q (exited fuel io mc n t)" "keeps Q (boundary_delivery io mc b d)"
  unfolding exited_def boundary_delivery_def by (intro keeps_rules sched_steps)+

lemma keeps_turn_boundary [keeps_rules]: "keeps Q (turn_boundary_pass fuel io mc n t b)"
proof -
  have "keeps Q (case d of None \<Rightarrow> f | Some (Inr (Some m)) \<Rightarrow> g | Some (Inr None) \<Rightarrow> h | Some (Inl e) \<Rightarrow> k e)"
    if "keeps Q f" "keeps Q g" "keeps Q h" "\<And>e. keeps Q (k e)"
    for d :: "(sched_error + message_row option) option" and f g h and k :: "sched_error \<Rightarrow> ('w, monitor_next) sched_cmd"
    using that by (auto split: option.split sum.split)
  note rule = this
  show ?thesis unfolding turn_boundary_pass_def by (intro keeps_rules sched_steps rule)
qed

lemma keeps_monitor_pass [keeps_rules]: "keeps Q (monitor_pass fuel io mc n)"
  unfolding monitor_pass_def by (intro keeps_rules sched_steps)

lemma keeps_monitor [keeps_rules]: "keeps Q (monitor passes fuel io mc n)"
proof (induction passes arbitrary: n)
  case (Suc passes)
  have "keeps Q (case next of MonitorReturn \<Rightarrow> sc_ok () | MonitorContinue n \<Rightarrow> monitor passes fuel io mc n)" for "next"
    using Suc keeps_result by (auto split: monitor_next.split)
  then show ?case unfolding monitor.simps by (intro keeps_rules)
qed (simp add: keeps_panic)

section \<open>Messages and resumptions\<close>

lemma keeps_restore [keeps_rules]: "keeps Q (restore_resume io t r)"
  unfolding keeps_def
proof
  fix s
  let ?s = "others io s"
  obtain now w where n: "si_time io (sc_world ?s) = (now, w)" by fastforce
  have w: "Q s (?s\<lparr>sc_world := w\<rparr>)" by (rule kept_trans [OF kept_others kept_world])
  have "Q s (?s\<lparr>sc_world := w, sc_store := st, sc_calls := sc_calls ?s @ [CallRestore (tr_agent_id t)]\<rparr>)"
    if "restore_terminal_after_resume_failure (si_env io) now t (map_option sr_result r) (sc_store ?s) = Inr (u, st)" for u st
    using kept_trans [OF w, of "?s\<lparr>sc_world := w, sc_store := st, sc_calls := sc_calls ?s @ [CallRestore (tr_agent_id t)]\<rparr>"]
      kept_restore [of now t "map_option sr_result r" "?s\<lparr>sc_world := w\<rparr>" u st "tr_agent_id t"] that by simp
  with w show "Q s (snd (restore_resume io t r s))"
    by (auto simp: restore_resume_def sc_write_def sc_log_def sc_bind_def Let_def n split: sum.split)
qed

lemma keeps_queue [keeps_rules]: "keeps Q (queue_message fuel io a m mode c)"
  unfolding queue_message_def queue_new_message_def resume_with_message_def by (intro keeps_rules sched_steps)

end

end
