(* ===== verification/Scheduler_Props.thy ===== *)
theory Scheduler_Props
  imports Scheduler_Runs Final_Props Sink_Props
begin

text \<open>
  The properties of the scheduler: its operations change the store only by store operations, so the
  contract of the store holds after every operation and every interleaving; an answer that allows a
  tool call passed the policy; and a task completes only after its required checks succeeded.
\<close>

section \<open>The store under the scheduler\<close>

text \<open>How the store changes: by its operations, and by rollbacks of resumptions.\<close>

inductive store_change :: "store_env \<Rightarrow> store \<Rightarrow> store \<Rightarrow> bool" for env where
  operates: "store_change env s (run_op env now op s)"
| rolls_back: "restore_terminal_after_resume_failure env now original result s = Inr (u, t) \<Longrightarrow> store_change env s t"

abbreviation evolves :: "store_env \<Rightarrow> store \<Rightarrow> store \<Rightarrow> bool" where
  "evolves env \<equiv> (store_change env)\<^sup>*\<^sup>*"

lemma runs_evolve: "store_runs env s t \<Longrightarrow> evolves env s t"
  by (erule rtranclp_mono [THEN predicate2D, rotated]) (auto elim!: store_stepE intro: store_change.intros)

text \<open>What the log says of a command: as long as it rolled no resumption back, the store went through operations only.\<close>

definition logs :: "'w sched \<Rightarrow> 'w sched \<Rightarrow> runtime_call list" where
  "logs s t = drop (length (sc_calls s)) (sc_calls t)"

definition rolled_back :: "'w sched \<Rightarrow> 'w sched \<Rightarrow> bool" where
  "rolled_back s t \<longleftrightarrow> list_ex (\<lambda>c. case c of CallRestore a \<Rightarrow> True | _ \<Rightarrow> False) (logs s t)"

definition runs_unless_rolled_back :: "store_env \<Rightarrow> 'w sched \<Rightarrow> 'w sched \<Rightarrow> bool" where
  "runs_unless_rolled_back env s t \<longleftrightarrow>
     (\<exists>cs. sc_calls t = sc_calls s @ cs \<and> ((\<forall>a. CallRestore a \<notin> set cs) \<longrightarrow> store_runs env (sc_store s) (sc_store t)))"

lemma runs_unless_trans:
  assumes "runs_unless_rolled_back env s t" and "runs_unless_rolled_back env t u"
  shows "runs_unless_rolled_back env s u"
proof -
  obtain cs ds where "sc_calls t = sc_calls s @ cs" "(\<forall>a. CallRestore a \<notin> set cs) \<longrightarrow> store_runs env (sc_store s) (sc_store t)"
    and "sc_calls u = sc_calls t @ ds" "(\<forall>a. CallRestore a \<notin> set ds) \<longrightarrow> store_runs env (sc_store t) (sc_store u)"
    using assms unfolding runs_unless_rolled_back_def by blast
  then show ?thesis unfolding runs_unless_rolled_back_def
    by (intro exI [of _ "cs @ ds"]) (auto intro: rtranclp_trans)
qed

lemma runs_unlessD: "runs_unless_rolled_back env s t \<Longrightarrow> \<not> rolled_back s t \<Longrightarrow> store_runs env (sc_store s) (sc_store t)"
  by (auto simp: runs_unless_rolled_back_def rolled_back_def logs_def list_ex_iff split: runtime_call.splits)

interpretation runs: sched_rules "runs_unless_rolled_back (si_env io)" io "\<lambda>_. True" for io :: "'w sched_io"
  by unfold_locales (auto intro: runs_unless_trans simp: runs_unless_rolled_back_def)

interpretation changes: sched_rules "\<lambda>s t. evolves (si_env io) (sc_store s) (sc_store t)" io "\<lambda>_. True" for io :: "'w sched_io"
  by unfold_locales (auto intro: rtranclp_trans runs_evolve store_change.rolls_back)

datatype sched_op =
    StartReady
  | CancelTask string
  | CloseTask string
  | QueueMessage string string string string
  | RespondRequest string string string "string option"
  | DeliverNext string string nat nat
  | RunMonitor nat monitor_context nat
  | ReconcileStartup
  | ShutdownAll

fun run_sched :: "nat \<Rightarrow> 'w sched_io \<Rightarrow> sched_op \<Rightarrow> 'w sched \<Rightarrow> 'w sched" where
  "run_sched fuel io StartReady s = snd (start_ready fuel io [] s)"
| "run_sched fuel io (CancelTask a) s = snd (cancel_task fuel io a s)"
| "run_sched fuel io (CloseTask a) s = snd (close_task fuel io a s)"
| "run_sched fuel io (QueueMessage a m mode c) s = snd (queue_message fuel io a m mode c s)"
| "run_sched fuel io (RespondRequest a r d c) s = snd (sched_respond_request fuel io a r d c s)"
| "run_sched fuel io (DeliverNext a i h d) s = snd (deliver_next_message io a i h d s)"
| "run_sched fuel io (RunMonitor passes mc n) s = snd (monitor passes fuel io mc n s)"
| "run_sched fuel io ReconcileStartup s = snd (reconcile_startup io s)"
| "run_sched fuel io ShutdownAll s = snd (shutdown_all fuel io s)"

lemma run_sched_runs: "runs_unless_rolled_back (si_env io) s (run_sched fuel io op s)"
proof -
  have respond: "keeps (runs_unless_rolled_back (si_env io)) (sched_respond_request fuel io a r d c)" for a r d c
    by (rule runs.keeps_respond) simp
  show ?thesis
    by (cases op) (simp_all add: runs.keeps_start_ready [unfolded keeps_def, rule_format]
        runs.keeps_cancel_close [unfolded keeps_def, rule_format] respond [unfolded keeps_def, rule_format]
        runs.keeps_queue [unfolded keeps_def, rule_format] runs.keeps_deliver [unfolded keeps_def, rule_format]
        runs.keeps_monitor [unfolded keeps_def, rule_format] runs.keeps_reconcile [unfolded keeps_def, rule_format]
        runs.keeps_shutdown [unfolded keeps_def, rule_format])
qed

lemma store_runs_refine:
  assumes "store_ok s" and "store_runs env s t"
  shows "store_ok t \<and> agent_step\<^sup>*\<^sup>* (view s a) (view t a)"
  using tables.reachable [OF assms(2,1)] tables.view_trace [OF assms(2,1)] by blast

text \<open>C2 (refinement): whatever operation of the scheduler runs, messages and resumptions included, and whatever other threads do between
  its steps, a well-formed store stays well-formed, and for every agent the change of its task is a sequence of steps of the
  abstract agent, unless the rollback of a failed resumption happens in between, by this operation or by another thread: such
  a rollback rewrites the row of a task outside the life of the abstract agent.\<close>

theorem scheduler_refines_agent:
  assumes "store_ok (sc_store s)" and "\<not> rolled_back s (run_sched fuel io op s)"
  shows "store_ok (sc_store (run_sched fuel io op s))
    \<and> agent_step\<^sup>*\<^sup>* (view (sc_store s) a) (view (sc_store (run_sched fuel io op s)) a)"
  by (rule store_runs_refine [OF assms(1) runs_unlessD [OF run_sched_runs assms(2)]])

section \<open>Concrete inputs\<close>

definition demo_sched_io :: "json \<Rightarrow> 'w sched_io" where
  "demo_sched_io v = \<lparr>si_sink_env = demo_sink_env\<lparr>sv_store := demo_reader v\<rparr>,
     si_workspace = (demo_workspace False)\<lparr>wo_read := \<lambda>_ _. Some ''x'',
       wo_kind := \<lambda>p _. Some (if p = ''/s/scratch/t/p'' then KindFile else KindDir)\<rparr>,
     si_fits = (\<lambda>_ _ _. True),
     si_config = \<lparr>cf_per_workspace_max_agents = 2, cf_stop_grace = 1, cf_bootstrap_timeout = 9, cf_control_timeout = 9,
       cf_transport_idle_timeout = 9, cf_model_call_timeout = 9\<rparr>,
     si_owner_id = ''d'', si_show_error = StoreError_code, si_show_preparation = (\<lambda>_. ''preparation''), si_json_error = (\<lambda>_. ''json''),
     si_instant_max = 10 ^ 9, si_time = (\<lambda>w. (5, w)), si_now = (\<lambda>w. (1, w)), si_others = (\<lambda>w. ([], w)), si_lock = (\<lambda>_ _ w. (True, w)),
     si_os = demo_os, si_polls = (\<lambda>n. n), si_spawn = (\<lambda>_ w. (Inr 1, w)), si_identity = (\<lambda>_ _. None),
     si_turns = (\<lambda>_ _. \<lparr>ts_generation = 1, ts_active = False, ts_boundary = Some turn_boundary.TurnCompleted\<rparr>),
     si_wait_terminal = (\<lambda>_ _ w. (None, w)), si_stop = (\<lambda>_ _ w. (Orphaned SessionLost, w)),
     si_finish_turn = (\<lambda>_ _ _ w. (Orphaned SessionLost, w)),
     si_bootstrap = (\<lambda>_ _ _ w. (Inl CommandTimeout, w)), si_resume = (\<lambda>_ _ _ w. (Inl CommandTimeout, w)),
     si_send_turn = (\<lambda>_ _ _ _ w. (Inr None, w)), si_stop_turn = (\<lambda>_ _ _ w. (Inl CommandTimeout, w)),
     si_close_session = (\<lambda>_ _ _ w. (Inr (), w)), si_respond = (\<lambda>_ _ _ _ _ _ w. (Inr (), w)),
     si_run_check = (\<lambda>_ _ _ w. (Inr \<lparr>co_status_code = Some 0, co_timed_out = False, co_cancelled = False,
       co_stdout_truncated = False, co_stderr_truncated = False\<rparr>, w))\<rparr>"

definition demo_sched :: "store \<Rightarrow> unit sched" where
  "demo_sched st = \<lparr>sc_world = (), sc_store = st,
     sc_active = [(''a'', \<lparr>ar_owner_epoch = 1, ar_runtime = 1, ar_session_id = ''sess'',
       ar_route = \<lparr>ro_prepared = demo_prepared, ro_required = []\<rparr>, ar_task = None, ar_policy = Some (demo_launcher ReadOnly)\<rparr>)],
     sc_activities = [(''a'', 1)], sc_failures = [], sc_sinks = (\<lambda>_. (demo_sink_id, demo_sink\<lparr>sk_lifecycle := RuntimeLifecycle_new 1,
       sk_activity := (PassiveActivityTracker_new 10)\<lparr>ac_terminal_text := ''ok''\<rparr>\<rparr>)), sc_cancelled = (\<lambda>_. False), sc_signals = [], sc_calls = []\<rparr>"

lemma demo_others [simp]: "others (demo_sched_io v) s = s"
  by (simp add: others_def demo_sched_io_def)

lemma demo_fields [simp]:
  "si_now (demo_sched_io v) w = (1, w)" "si_time (demo_sched_io v) w = (5, w)" "si_instant_max (demo_sched_io v) = 10 ^ 9"
  "si_lock (demo_sched_io v) h d w = (True, w)" "si_respond (demo_sched_io v) h c e x y d w = (Inr (), w)"
  "si_run_check (demo_sched_io v) p c d w = (Inr \<lparr>co_status_code = Some 0, co_timed_out = False, co_cancelled = False,
       co_stdout_truncated = False, co_stderr_truncated = False\<rparr>, w)"
  "cf_control_timeout (si_config (demo_sched_io v)) = 9" "cf_stop_grace (si_config (demo_sched_io v)) = 1"
  "env_parse (si_env (demo_sched_io v)) t = Some v"
  "si_fs (demo_sched_io v) w = demo_fs"
  by (simp_all add: demo_sched_io_def demo_reader_def demo_workspace_def demo_fs_def)

lemma demo_queued:
  "\<exists>t. queue_message 3 (demo_sched_io JNull) ''a'' ''m'' ''queue'' ''hi'' (demo_sched demo_store) = (Some (Inr MessageQueued), t)
    \<and> sc_calls t = [] \<and> open_msgs (sc_store t) ''a''"
proof -
  have "\<exists>t s1. query_message demo_store ''m'' = None \<and> get_task demo_store ''a'' = Inr (Some t) \<and> tr_phase t = Running
      \<and> insert_message 5 ''m'' ''a'' ''queue'' ''hi'' demo_store = Inr (True, s1) \<and> open_msgs s1 ''a''"
    by (simp add: demo_defs exec_defs get_task_def query_message_def insert_message_def open_msgs_def msg_open_def)
  then obtain t s1 where st: "query_message demo_store ''m'' = None" "get_task demo_store ''a'' = Inr (Some t)" "tr_phase t = Running"
    "insert_message 5 ''m'' ''a'' ''queue'' ''hi'' demo_store = Inr (True, s1)" "open_msgs s1 ''a''" by blast
  then show ?thesis
    by (simp add: queue_message_def control_deadline_def queue_new_message_def find_active_def lock_operation_def may_queue_def
        require_runtime_ingress_def require_remaining_def sched_remaining_def deadline_remaining_def ingress_reason_def phase_of_def
        RuntimeLifecycle_new_def DURATION_MAX_def sc_call_def sc_read_def sc_get_def sc_write_def sc_run ok_or_def Let_def demo_sched_def)
qed

theorem scheduler_refines_agent_witness:
  "\<exists>t. run_sched 3 (demo_sched_io JNull) (QueueMessage ''a'' ''m'' ''queue'' ''hi'') (demo_sched demo_store) = t \<and> store_ok (sc_store t)
    \<and> agent_step\<^sup>*\<^sup>* (view demo_store ''a'') (view (sc_store t) ''a'') \<and> open_msgs (sc_store t) ''a''"
proof -
  obtain t where t: "queue_message 3 (demo_sched_io JNull) ''a'' ''m'' ''queue'' ''hi'' (demo_sched demo_store) = (Some (Inr MessageQueued), t)"
    "sc_calls t = []" "open_msgs (sc_store t) ''a''" using demo_queued by blast
  then have run: "run_sched 3 (demo_sched_io JNull) (QueueMessage ''a'' ''m'' ''queue'' ''hi'') (demo_sched demo_store) = t" by simp
  have ok: "store_ok (sc_store (demo_sched demo_store))" unfolding demo_store_def by (simp add: demo_sched_def run_ops_ok)
  have "\<not> rolled_back (demo_sched demo_store) t" using t(2) by (simp add: rolled_back_def logs_def)
  from scheduler_refines_agent [OF ok, of 3 "demo_sched_io JNull" "QueueMessage ''a'' ''m'' ''queue'' ''hi''" "''a''"] this run t(3)
  show ?thesis by (simp add: demo_sched_def)
qed

section \<open>Required checks\<close>

definition check_passed :: "'w sched_io \<Rightarrow> prepared_task \<Rightarrow> string \<Rightarrow> bool" where
  "check_passed io p c \<longleftrightarrow> map_of (pg_validation_commands p) c \<noteq> None
     \<and> (\<exists>deadline w w' out. si_run_check io p c deadline w = (Inr out, w') \<and> co_status_code out = Some 0
         \<and> \<not> co_timed_out out \<and> \<not> co_cancelled out \<and> \<not> co_stdout_truncated out \<and> \<not> co_stderr_truncated out)"

lemma sc_call_ok: "sc_call io f s = (Some (Inr x), t) \<Longrightarrow> \<exists>w. f (sc_world (others io s)) = (x, w)"
  by (auto simp: sc_call_def Let_def split: prod.splits)

lemma run_one_check_ok:
  assumes "run_one_check io p h d c s = (Some (Inr None), t)"
  shows "check_passed io p c"
proof -
  obtain cmd deadline u u' out b over where cmd: "map_of (pg_validation_commands p) c = Some cmd"
    and run: "sc_call io (si_run_check io p c deadline) u = (Some (Inr (Inr out)), u')"
    and ok: "check_output_failure out b over = None"
    using assms by (auto simp: run_one_check_def split: if_splits option.splits sum.splits)
  from sc_call_ok [OF run] cmd ok show ?thesis
    by (auto simp: check_passed_def check_output_failure_def split: if_splits)
qed

lemma run_checks_ok:
  "run_checks io p h d v cs s = (Some (Inr rc), t) \<Longrightarrow> rc_failure rc = None \<Longrightarrow>
     rc_succeeded rc = v @ cs \<and> list_all (check_passed io p) cs"
  by (induction cs arbitrary: v s) (auto split: option.splits dest!: run_one_check_ok)

lemma required_checks_ok:
  assumes "run_required_general_checks io p req h d s = (Some (Inr rc), t)" and "rc_failure rc = None"
  shows "rc_succeeded rc = req \<and> list_all (check_passed io p) req"
  using assms by (auto simp: run_required_general_checks_def split: if_splits dest!: run_checks_ok)

lemma checks_of_ok:
  assumes "checks_of io route h control s = (Some (Inr rc), t)" and "rc_failure rc = None"
  shows "rc_succeeded rc = ro_required route \<and> list_all (check_passed io (ro_prepared route)) (ro_required route)"
  using assms by (auto simp: checks_of_def split: option.splits if_splits dest!: required_checks_ok)

lemma sc_world_cmd_ok:
  "sc_world_cmd io m s = (Some (Inr x), t) \<Longrightarrow> \<exists>w w'. m w = (Some (Inr x), w')"
  by (auto simp: sc_world_cmd_def Let_def split: prod.splits)

lemma finalized_not_completed:
  "finish_with_resume io p CompletionResultInvalid resumed w = (Some (Inr c), w') \<Longrightarrow> gc_outcome c \<noteq> CompletionCompleted"
  by (auto simp: finish_with_resume_def completion_ok_def dest!: prepare_completion_ok cleanup_completion_ok)

text \<open>C3 (safety): the natural end of a runtime yields a completed task only if the runtime left visible final text, the
  prepared record still has its digest, and every required check was run and succeeded, without a timeout, a
  cancellation or truncated output; the completion then lists exactly the required checks.\<close>

theorem completed_only_after_checks:
  assumes "natural_completion io route h resumed control s = (Some (Inr c), t)" and "gc_outcome c = CompletionCompleted"
  shows "gc_checks c = ro_required route \<and> list_all (check_passed io (ro_prepared route)) (ro_required route)
    \<and> (\<exists>text s1. take_text io h s = (Some (Inr (TerminalVisible text)), s1) \<and> gc_summary c = text)
    \<and> validate_digest (wo_env (si_workspace io)) (si_serde io) (ro_prepared route)"
proof -
  let ?ws = "si_workspace io" and ?p = "ro_prepared route"
  obtain tx s1 c0 s2 c1 s3 where tx: "take_text io h s = (Some (Inr tx), s1)"
    and fin: "finalize_text io ?p resumed tx s1 = (Some (Inr c0), s2)"
    and chk: "(if is_visible tx \<and> gc_outcome c0 = CompletionCompleted
              then sc_bind (checks_of io route h control) (\<lambda>rc. sc_ok (apply_checks rc c0)) else sc_ok c0) s2 = (Some (Inr c1), s3)"
    and cl: "sc_world_cmd io (finish_cleanup ?ws ?p (apply_text tx c1)) s3 = (Some (Inr c), t)"
    using assms(1) by (auto simp: natural_completion_def)
  obtain w w' where "cleanup_completion ?ws ?p (apply_text tx c1) w = (Some (Inr c :: sched_error + _), w')"
    using sc_world_cmd_ok [OF cl] by (auto simp: finish_cleanup_def)
  from cleanup_completion_ok [OF this] assms(2)
  have c: "gc_outcome (apply_text tx c1) = CompletionCompleted" "gc_checks c = gc_checks (apply_text tx c1)"
    "gc_summary c = gc_summary (apply_text tx c1)" by auto
  have at: "gc_outcome (apply_text tx c1) = gc_outcome c1" "gc_checks (apply_text tx c1) = gc_checks c1"
    by (auto simp: apply_text_def note_gap_def Let_def split: terminal_text.split)
  have completed: "gc_outcome c1 = CompletionCompleted" using c at by simp
  have vis: "is_visible tx"
  proof (rule ccontr)
    assume inv: "\<not> is_visible tx"
    with fin obtain w w' where "finish_with_resume ?ws ?p CompletionResultInvalid resumed w = (Some (Inr c0 :: sched_error + _), w')"
      by (auto simp: finalize_text_def finalize_resumed_def finalize_def dest!: sc_world_cmd_ok split: if_splits)
    from finalized_not_completed [OF this] chk inv completed show False by auto
  qed
  have co: "gc_outcome c0 = CompletionCompleted \<Longrightarrow> validate_digest (wo_env ?ws) (wo_serde ?ws) ?p"
    using fin vis by (auto simp: finalize_text_def finalize_resumed_def finalize_completed_tree_def finish_with_resume_def completion_ok_def
        split: if_splits dest!: sc_world_cmd_ok prepare_completion_ok cleanup_completion_ok)
  have c0: "gc_outcome c0 = CompletionCompleted" using chk vis completed by (auto split: if_splits)
  with chk vis obtain rc where rc: "checks_of io route h control s2 = (Some (Inr rc), s3)" and c1: "c1 = apply_checks rc c0" by auto
  have "rc_failure rc = None"
    using completed by (auto simp: c1 apply_checks_def Let_def split: option.splits if_splits)
  from checks_of_ok [OF rc this] this have "gc_checks c1 = ro_required route" "list_all (check_passed io ?p) (ro_required route)"
    by (auto simp: c1 apply_checks_def Let_def)
  moreover obtain str where "tx = TerminalVisible str" using vis by (auto simp: is_visible_def split: terminal_text.splits)
  ultimately show ?thesis
    using c at tx co c0 by (auto simp: apply_text_def)
qed

definition demo_checked :: prepared_task where
  "demo_checked = demo_prepared\<lparr>pg_prepared_sha256 := ''d'', pg_prompt_path := ''/s/scratch/t/p'', pg_prompt_sha256 := ''d''\<rparr>"

lemma demo_checked_finished:
  "finish_with_resume (si_workspace (demo_sched_io v)) demo_checked CompletionCompleted True w
     = (Some (Inr ((completion_of CompletionCompleted [] [] [] None)\<lparr>gc_cleaned := True\<rparr>)), w)"
  by (simp add: finish_with_resume_def prepare_completion_def try_finalize_def check_digest_def validate_digest_def prepared_digest_def
      finalize_direct_def ensure_directory_empty_def validate_direct_workspace_identity_def finalize_direct_patch_def
      cleanup_completion_def cleanup_after_failure_def task_root_of_def cleanup_direct_task_root_path_def succeeds_def
      canonicalize_def canonical_or_io_def exists_def completion_of_def demo_final path_eval path_eq_def sc_run demo_sched_io_def demo_checked_def)

lemma demo_launched: "\<exists>pl. final_tree_launcher (si_workspace (demo_sched_io v)) demo_checked w = (Some (Inr pl), w)"
  by (simp add: final_tree_launcher_def check_digest_def validate_finalization_content_def validate_immutable_inputs_def
      verify_confined_file_def verify_file_def symlink_kind_def read_file_def hash_def task_root_of_def build_launcher_def for_general_now_def
      for_general_def PolicyLauncher_new_def confined_write_root_def lexical_confined_path_def protected_worktree_path_def
      validate_digest_def prepared_digest_def ok_or_def
      canonicalize_def canonical_or_io_def demo_final path_eval path_eq_def sc_run demo_sched_io_def demo_checked_def)

lemma demo_checks:
  "checks_of (demo_sched_io v) \<lparr>ro_prepared = demo_checked, ro_required = [''unit'']\<rparr> h (Some 100) s
     = (Some (Inr \<lparr>rc_succeeded = [''unit''], rc_failure = None\<rparr>), s)" if "\<not> sc_cancelled s h"
proof -
  have "validate_digest (si_env (demo_sched_io v)) (si_serde (demo_sched_io v)) demo_checked"
    by (simp add: validate_digest_def prepared_digest_def demo_final demo_sched_io_def demo_checked_def)
  moreover have "\<exists>cmd. map_of (pg_validation_commands demo_checked) ''unit'' = Some cmd \<and> pc_timeout_ms cmd = 1"
    by (simp add: demo_checked_def demo_prepared_def)
  moreover obtain pl where "final_tree_launcher (si_workspace (demo_sched_io v)) demo_checked (sc_world s) = (Some (Inr pl), sc_world s)"
    using demo_launched [of v "sc_world s"] by auto
  ultimately show ?thesis using that
    by (cases s) (auto simp: checks_of_def run_required_general_checks_def run_one_check_def check_cancelled_def deadline_over_def sc_get_def
        sc_call_def sc_world_cmd_def succeeds_def check_output_failure_def sc_run Let_def)
qed

lemma demo_completed:
  "\<exists>c t. natural_completion (demo_sched_io v) \<lparr>ro_prepared = demo_checked, ro_required = [''unit'']\<rparr> 1 True (Some 100) (demo_sched demo_store)
      = (Some (Inr c), t) \<and> gc_outcome c = CompletionCompleted"
  by (simp add: natural_completion_def take_text_def demo_sched_def demo_sink_def PassiveActivityTracker_new_def take_terminal_text_def
      trim_def is_whitespace_def on_sink_def set_sink_def finalize_text_def is_visible_def sc_world_cmd_def finalize_resumed_def demo_checked_finished
      completion_of_def demo_checks apply_checks_def apply_text_def finish_cleanup_def cleanup_completion_def sc_run Let_def)

theorem completed_only_after_checks_witness:
  "check_passed (demo_sched_io JNull :: unit sched_io) demo_checked ''unit''"
proof -
  obtain c t where "natural_completion (demo_sched_io JNull) \<lparr>ro_prepared = demo_checked, ro_required = [''unit'']\<rparr> 1 True (Some 100)
      (demo_sched demo_store) = (Some (Inr c), t)" "gc_outcome c = CompletionCompleted" using demo_completed by blast
  from completed_only_after_checks [OF this] show ?thesis by simp
qed

section \<open>Changes outside the manifest\<close>

text \<open>C38 (error): a direct task never completes while git reports a changed file its write manifest does not cover, whoever changed
  it. When the repository is under version control and in every state git is asked about it names such a file
  (a read-only task has an empty manifest, so any file outside \<^verbatim>\<open>.agent-work\<close> will do, also one the caller had modified before the
  task started), the natural end of the task, for a new or a resumed session and whatever text and checks it
  has, is \<^verbatim>\<open>ResultInvalid\<close> with a reason.\<close>

theorem uncovered_change_never_completes:
  assumes "natural_completion io route h resumed control s = (Some (Inr c), t)"
    and "pg_direct_workspace (ro_prepared route)" and "always_uncovered (si_workspace io) (ro_prepared route)"
  shows "gc_outcome c = CompletionResultInvalid \<and> gc_reason_code c \<noteq> None"
proof -
  let ?ws = "si_workspace io" and ?p = "ro_prepared route"
  obtain tx s1 c0 s2 c1 s3 where fin: "finalize_text io ?p resumed tx s1 = (Some (Inr c0), s2)"
    and chk: "(if is_visible tx \<and> gc_outcome c0 = CompletionCompleted
              then sc_bind (checks_of io route h control) (\<lambda>rc. sc_ok (apply_checks rc c0)) else sc_ok c0) s2 = (Some (Inr c1), s3)"
    and cl: "sc_world_cmd io (finish_cleanup ?ws ?p (apply_text tx c1)) s3 = (Some (Inr c), t)"
    using assms(1) by (auto simp: natural_completion_def)
  note invalid = uncovered_completion_invalid [OF assms(3,2)]
  have keeps: "gc_outcome c' = CompletionResultInvalid \<and> gc_reason_code c' \<noteq> None"
    if "cleanup_completion ?ws ?p c0' w = (Some (Inr c' :: sched_error + _), w')" "gc_outcome c0' = CompletionResultInvalid" "gc_reason_code c0' \<noteq> None"
    for c0' c' w w'
    using cleanup_completion_ok [OF that(1)] that(2,3) by auto
  have "gc_outcome c0 = CompletionResultInvalid \<and> gc_reason_code c0 \<noteq> None"
    using fin by (auto simp: finalize_text_def finalize_resumed_def finalize_completed_tree_def finalize_def finish_with_resume_def
        split: if_splits dest!: sc_world_cmd_ok invalid keeps)
  moreover from this have "c1 = c0" using chk by (auto split: if_splits)
  ultimately have "gc_outcome (apply_text tx c1) = CompletionResultInvalid" "gc_reason_code (apply_text tx c1) \<noteq> None"
    by (auto simp: apply_text_def note_gap_def split: terminal_text.split)
  then show ?thesis using sc_world_cmd_ok [OF cl] keeps by (auto simp: finish_cleanup_def)
qed

definition dirty_task :: prepared_task where
  "dirty_task = demo_checked\<lparr>pg_write_manifest := [], pg_access_mode := ReadOnly\<rparr>"

definition dirty_io :: "unit sched_io" where
  "dirty_io = (demo_sched_io JNull)\<lparr>si_workspace := (demo_workspace True)\<lparr>wo_serde := demo_serde dirty_task\<rparr>\<rparr>"

lemma dirty_changes: "changed_paths_of (si_workspace dirty_io) ''/w'' () = (Some (Inr [''a'']), ())"
proof -
  have u: "utf8_valid '' M a''" unfolding utf8_valid_def by (rule from_utf8_lossy_ascii) simp
  show ?thesis
    by (simp add: changed_paths_of_def git_bytes_def safe_git_output_def run_success_def run_stdout_def parse_status_paths_def u
        is_char_boundary_def utf8_cont_def sc_lift_def demo_final dirty_io_def demo_sched_io_def sc_run)
qed

lemma dirty_uncovered: "always_uncovered (si_workspace dirty_io) dirty_task" "pg_direct_workspace dirty_task"
proof -
  have "\<not> path_starts_with ''.agent-work'' ''a''" "\<not> path_allowed covers_direct [] ''a''"
    by (simp_all add: path_eval path_starts_with_def path_allowed_def Let_def)
  then show "always_uncovered (si_workspace dirty_io) dirty_task"
    using dirty_changes
    by (auto simp: always_uncovered_def dirty_task_def demo_checked_def demo_prepared_def dirty_io_def demo_sched_io_def demo_workspace_def
        path_join_def is_absolute_def starts_with_def)
qed (simp add: dirty_task_def demo_checked_def demo_prepared_def)

lemma dirty_finished:
  "\<exists>code. finish_with_resume (si_workspace dirty_io) dirty_task CompletionCompleted True ()
     = (Some (Inr ((completion_of CompletionResultInvalid [] [] [] None)\<lparr>gc_reason_code := Some code, gc_cleaned := True\<rparr>)) :: ('e + _) option, ())"
proof -
  have p: "pg_repository dirty_task = ''/w''" "pg_write_manifest dirty_task = []" by (simp_all add: dirty_task_def demo_checked_def demo_prepared_def)
  obtain code where code: "finalize_direct_patch (si_workspace dirty_io) dirty_task () = (Some (Inl code), ())" "code \<noteq> ''ARTIFACT_ROOT_NOT_EMPTY''"
    using uncovered_change_is_refused [of "si_workspace dirty_io" dirty_task "()" "[''a'']" "()" "''a''"] dirty_changes dirty_uncovered(1)
    by (auto simp: p always_uncovered_def)
  have "try_finalize (si_workspace dirty_io) dirty_task CompletionCompleted [] [] [] True () = (Some (Inl code), ())"
    using code(1)
    by (simp add: try_finalize_def check_digest_def validate_digest_def prepared_digest_def finalize_direct_def ensure_directory_empty_def
        validate_direct_workspace_identity_def canonicalize_def canonical_or_io_def demo_final path_eq_def sc_run dirty_io_def demo_sched_io_def
        dirty_task_def demo_checked_def)
  moreover have "cleanup_failed_artifact_outputs (si_workspace dirty_io) dirty_task () = (Some (Inr () :: 'e + unit), ())"
    by (simp add: cleanup_failed_artifact_outputs_def Let_def sc_run dirty_io_def demo_sched_io_def demo_workspace_def)
  moreover have "cleanup_if_trusted (si_workspace dirty_io) dirty_task () = (Some (Inr True :: 'e + bool), ())"
    by (simp add: cleanup_if_trusted_def validate_digest_def prepared_digest_def cleanup_after_failure_def task_root_of_def
        cleanup_direct_task_root_path_def succeeds_def exists_def demo_final path_eval sc_run dirty_io_def demo_sched_io_def dirty_task_def demo_checked_def)
  ultimately have "finish_with_resume (si_workspace dirty_io) dirty_task CompletionCompleted True ()
     = (Some (Inr ((completion_of CompletionResultInvalid [] [] [] None)\<lparr>gc_reason_code := Some code, gc_cleaned := True\<rparr>)) :: ('e + _) option, ())"
    using code(2) by (simp add: finish_with_resume_def prepare_completion_def cleanup_completion_def sc_run)
  then show ?thesis by blast
qed

lemma dirty_others: "others dirty_io s = s"
  by (simp add: others_def dirty_io_def demo_sched_io_def)

theorem uncovered_change_never_completes_witness:
  "\<exists>c t. natural_completion dirty_io \<lparr>ro_prepared = dirty_task, ro_required = []\<rparr> 1 True None (demo_sched demo_store) = (Some (Inr c), t)
     \<and> gc_outcome c = CompletionResultInvalid"
proof -
  obtain code where fin: "finish_with_resume (si_workspace dirty_io) dirty_task CompletionCompleted True ()
     = (Some (Inr ((completion_of CompletionResultInvalid [] [] [] None)\<lparr>gc_reason_code := Some code, gc_cleaned := True\<rparr>)) :: (sched_error + _) option, ())"
    using dirty_finished by blast
  have "\<exists>c t. natural_completion dirty_io \<lparr>ro_prepared = dirty_task, ro_required = []\<rparr> 1 True None (demo_sched demo_store) = (Some (Inr c), t)"
    using fin dirty_others
    by (simp add: natural_completion_def take_text_def demo_sched_def demo_sink_def PassiveActivityTracker_new_def take_terminal_text_def
        trim_def is_whitespace_def on_sink_def set_sink_def finalize_text_def is_visible_def sc_world_cmd_def finalize_resumed_def
        completion_of_def finish_cleanup_def cleanup_completion_def apply_text_def sc_run Let_def)
  then obtain c t where run: "natural_completion dirty_io \<lparr>ro_prepared = dirty_task, ro_required = []\<rparr> 1 True None (demo_sched demo_store) = (Some (Inr c), t)"
    by blast
  from uncovered_change_never_completes [OF run] dirty_uncovered run show ?thesis by auto
qed

section \<open>Answers\<close>

text \<open>A log entry that is no answer that allows, or one of the given entries.\<close>

definition may_log :: "runtime_call set \<Rightarrow> runtime_call \<Rightarrow> bool" where
  "may_log X c \<longleftrightarrow> c \<in> X \<or> (\<forall>h i. c \<noteq> CallRespond h i ''allow'')"

definition adds :: "(runtime_call \<Rightarrow> bool) \<Rightarrow> 'w sched \<Rightarrow> 'w sched \<Rightarrow> bool" where
  "adds ok s t \<longleftrightarrow> (\<exists>cs. sc_calls t = sc_calls s @ cs \<and> list_all ok cs)"

lemma adds_trans: "adds ok s t \<Longrightarrow> adds ok t u \<Longrightarrow> adds ok s u"
  by (auto simp: adds_def)

interpretation calls: sched_rules "adds (may_log X)" io "may_log X" for X and io :: "'w sched_io"
  by unfold_locales (auto simp: adds_def may_log_def)

text \<open>Every answer that allows stands in the log after the policy's decision on its request, with the files it was made on.\<close>

definition gated :: "(file_system \<Rightarrow> pending_row \<Rightarrow> bool) \<Rightarrow> runtime_call list \<Rightarrow> bool" where
  "gated P cs \<longleftrightarrow> (\<forall>xs h c ys. cs = xs @ CallRespond h c ''allow'' # ys \<longrightarrow>
     (\<exists>fs r. CallPolicy fs r \<in> set xs \<and> pr_correlation_id r = c \<and> P fs r))"

lemma gated_quiet: "list_all (may_log {}) cs \<Longrightarrow> gated P cs"
  by (auto simp: gated_def may_log_def list_all_iff)

lemma gated_append:
  assumes "gated P cs" and "gated P ds"
  shows "gated P (cs @ ds)"
proof -
  have "\<exists>fs r. CallPolicy fs r \<in> set xs \<and> pr_correlation_id r = c \<and> P fs r" if "cs @ ds = xs @ CallRespond h c ''allow'' # ys" for xs h c ys
  proof -
    from that consider zs where "cs = xs @ CallRespond h c ''allow'' # zs" | zs where "xs = cs @ zs" "ds = zs @ CallRespond h c ''allow'' # ys"
      by (auto simp: append_eq_append_conv2 append_eq_Cons_conv Cons_eq_append_conv)
    then show ?thesis
    proof cases
      case (1 zs)
      with assms(1) show ?thesis unfolding gated_def by blast
    next
      case (2 zs)
      then obtain fs r where "CallPolicy fs r \<in> set zs" "pr_correlation_id r = c" "P fs r" using assms(2) unfolding gated_def by blast
      with 2 show ?thesis by auto
    qed
  qed
  then show ?thesis unfolding gated_def by blast
qed

lemma gated_decided:
  assumes "P fs r" and "list_all (may_log {CallRespond h (pr_correlation_id r) ''allow''}) ds"
  shows "gated P (CallPolicy fs r # ds)"
proof -
  have "\<exists>fs r. CallPolicy fs r \<in> set xs \<and> pr_correlation_id r = c \<and> P fs r"
    if "CallPolicy fs r # ds = xs @ CallRespond h' c ''allow'' # ys" for xs h' c ys
  proof -
    from that obtain zs where zs: "xs = CallPolicy fs r # zs" "ds = zs @ CallRespond h' c ''allow'' # ys" by (cases xs) auto
    then have "may_log {CallRespond h (pr_correlation_id r) ''allow''} (CallRespond h' c ''allow'')" using assms(2) by simp
    then have "c = pr_correlation_id r" by (simp add: may_log_def)
    with zs assms(1) show ?thesis by auto
  qed
  then show ?thesis unfolding gated_def by blast
qed

lemma gated_weaken: "gated P cs \<Longrightarrow> (\<And>fs r. P fs r \<Longrightarrow> P' fs r) \<Longrightarrow> gated P' cs"
  unfolding gated_def by blast

definition guards :: "(file_system \<Rightarrow> pending_row \<Rightarrow> bool) \<Rightarrow> ('w, 'a) sched_cmd \<Rightarrow> 'w sched \<Rightarrow> bool" where
  "guards P m s \<longleftrightarrow> (\<exists>cs. sc_calls (snd (m s)) = sc_calls s @ cs \<and> gated P cs)"

lemma guards_keeps: "keeps (adds (may_log {})) m \<Longrightarrow> guards P m s"
  unfolding guards_def keeps_def adds_def using gated_quiet by blast

lemma guards_weaken: "guards P m s \<Longrightarrow> (\<And>fs r. P fs r \<Longrightarrow> P' fs r) \<Longrightarrow> guards P' m s"
  unfolding guards_def using gated_weaken by blast

lemma guards_bind:
  assumes "guards P m s" and "\<And>x u. m s = (Some (Inr x), u) \<Longrightarrow> guards P (f x) u"
  shows "guards P (sc_bind m f) s"
proof -
  obtain r u where m: "m s = (r, u)" by fastforce
  obtain cs where cs: "sc_calls u = sc_calls s @ cs" "gated P cs" using assms(1) m by (auto simp: guards_def)
  have "guards P (sc_bind m f) s" if r: "r = Some (Inr x)" for x
  proof -
    obtain ds where "sc_calls (snd (f x u)) = sc_calls u @ ds" "gated P ds"
      using assms(2) [of x u] m r unfolding guards_def by blast
    then show ?thesis using cs m r gated_append by (auto simp: guards_def sc_bind_def)
  qed
  moreover have "guards P (sc_bind m f) s" if "\<And>x. r \<noteq> Some (Inr x)"
    using that cs m by (auto simp: guards_def sc_bind_def split: option.split sum.split)
  ultimately show ?thesis by blast
qed

interpretation if_kept: relation_kept "\<lambda>s t. P s \<longrightarrow> P t" for P :: "'s \<Rightarrow> bool"
  by unfold_locales auto

definition policy_for :: "string \<Rightarrow> policy_launcher \<Rightarrow> 'w sched \<Rightarrow> bool" where
  "policy_for a pl s \<longleftrightarrow> Option.bind (map_of (sc_active s) a) ar_policy = Some pl"

lemma policy_for_reads:
  assumes "\<And>s. policy_for a pl s \<Longrightarrow> policy_for a pl (others io s)"
  shows "keeps (\<lambda>s t. policy_for a pl s \<longrightarrow> policy_for a pl t) (sc_get io f)"
    and "keeps (\<lambda>s t. policy_for a pl s \<longrightarrow> policy_for a pl t) (sc_read io g)"
    and "keeps (\<lambda>s t. policy_for a pl s \<longrightarrow> policy_for a pl t) (sc_call io k)"
  using assms by (auto simp: keeps_def sc_get_def sc_read_def sc_call_def Let_def policy_for_def split: prod.split)

definition policy_allows :: "'w sched_io \<Rightarrow> policy_launcher \<Rightarrow> file_system \<Rightarrow> pending_row \<Rightarrow> bool" where
  "policy_allows io pl fs request \<longleftrightarrow> (\<exists>params p d. env_parse (si_env io) (pr_payload_json request) = Some params
     \<and> decide_zcode_permission_validated fs pl params Allow = Some (p, d) \<and> pd_allowed p)"

lemma effective_allow:
  assumes "effective_decision io (Some pl) request decision s = (Some (Inr (eff, r, d)), t)" and "decision \<in> {''allow'', ''deny''}"
  obtains cs fs where "sc_calls t = sc_calls s @ cs @ [CallPolicy fs request]" and "list_all (may_log {}) cs"
    and "eff = ''allow'' \<Longrightarrow> decision = ''allow'' \<and> policy_allows io pl fs request"
proof -
  obtain cs where cs: "sc_calls (others io s) = sc_calls s @ cs" "list_all (may_log {}) cs"
    using calls.kept_others [of "{}" s io] by (auto simp: adds_def)
  show ?thesis
    by (rule that [of cs "si_fs io (sc_world (others io s))"])
      (use assms cs in \<open>auto simp: effective_decision_def policy_allows_def Let_def sc_get_def sc_bind_def sc_log_def
        split: option.splits if_splits prod.splits\<close>)
qed

lemmas policy_reads = if_kept.keeps_bind if_kept.keeps_result if_kept.keeps_of keeps_if keeps_case_option policy_for_reads

lemma policy_for_prefix:
  assumes "\<And>s. policy_for a pl s \<Longrightarrow> policy_for a pl (others io s)"
  shows "keeps (\<lambda>s t. policy_for a pl s \<longrightarrow> policy_for a pl t) (lock_operation io b h deadline)"
    and "keeps (\<lambda>s t. policy_for a pl s \<longrightarrow> policy_for a pl t) (require_runtime_ingress io b h)"
    and "keeps (\<lambda>s t. policy_for a pl s \<longrightarrow> policy_for a pl t) (require_remaining io b deadline)"
    and "keeps (\<lambda>s t. policy_for a pl s \<longrightarrow> policy_for a pl t) (find_active io b)"
    and "keeps (\<lambda>s t. policy_for a pl s \<longrightarrow> policy_for a pl t) (control_deadline io)"
proof -
  note k = policy_reads policy_for_reads [OF assms]
  show "keeps (\<lambda>s t. policy_for a pl s \<longrightarrow> policy_for a pl t) (lock_operation io b h deadline)"
    unfolding lock_operation_def by (intro k assms)
  show "keeps (\<lambda>s t. policy_for a pl s \<longrightarrow> policy_for a pl t) (require_runtime_ingress io b h)"
    unfolding require_runtime_ingress_def by (intro k assms)
  show "keeps (\<lambda>s t. policy_for a pl s \<longrightarrow> policy_for a pl t) (require_remaining io b deadline)"
    unfolding require_remaining_def sched_remaining_def by (intro k assms)
  show "keeps (\<lambda>s t. policy_for a pl s \<longrightarrow> policy_for a pl t) (find_active io b)"
    unfolding find_active_def by (intro k assms)
  show "keeps (\<lambda>s t. policy_for a pl s \<longrightarrow> policy_for a pl t) (control_deadline io)"
    unfolding control_deadline_def by (intro k if_kept.keeps_panic assms)
qed

lemma guards_bind_policy:
  assumes "keeps (adds (may_log {})) m" and "keeps (\<lambda>s t. policy_for a pl s \<longrightarrow> policy_for a pl t) m" and "policy_for a pl s"
    and "\<And>x u. m s = (Some (Inr x), u) \<Longrightarrow> policy_for a pl u \<Longrightarrow> guards P (f x) u"
  shows "guards P (sc_bind m f) s"
proof (rule guards_bind [OF guards_keeps [OF assms(1)]])
  fix x u
  assume "m s = (Some (Inr x), u)"
  with keepsD [OF assms(2) this] assms(3,4) show "guards P (f x) u" by blast
qed

lemma guards_if: "(b \<Longrightarrow> guards P m s) \<Longrightarrow> (\<not> b \<Longrightarrow> guards P n s) \<Longrightarrow> guards P (if b then m else n) s"
  by simp

lemma find_active_ok: "find_active io a s = (Some (Inr x), t) \<Longrightarrow> x = map_of (sc_active t) a"
  by (auto simp: find_active_def sc_get_def Let_def)

text \<open>What follows the decision logs an answer to this request only, with the decision that was made.\<close>

lemma answer_claimed_logs:
  assumes "eff = ''allow'' \<Longrightarrow> CallRespond (ar_runtime act) (pr_correlation_id r) ''allow'' \<in> X"
  shows "keeps (adds (may_log X)) (sc_bind (sc_write io (\<lambda>now. claim_pending_response_if_accepting a q eff c)) (\<lambda>claim.
     case claim of
       Claimed \<Rightarrow> sc_bind (send_claimed fuel io a r act d eff c den) (\<lambda>_. sc_result done')
     | TaskStopping \<Rightarrow> sc_result r1
     | NotFound \<Rightarrow> sc_result r2
     | NotPending st \<Rightarrow> (case st of ReqSending \<Rightarrow> sc_result r3 | ReqResponded \<Rightarrow> sc_result r4 | ReqPending \<Rightarrow> sc_result r5)))"
proof -
  have send: "keeps (adds (may_log X)) (send_claimed fuel io a r act d eff c den)"
    using assms by (intro calls.keeps_send_claimed) (auto simp: may_log_def)
  have "keeps (adds (may_log X)) (case claim of
       Claimed \<Rightarrow> sc_bind (send_claimed fuel io a r act d eff c den) (\<lambda>_. sc_result done')
     | TaskStopping \<Rightarrow> sc_result r1
     | NotFound \<Rightarrow> sc_result r2
     | NotPending st \<Rightarrow> (case st of ReqSending \<Rightarrow> sc_result r3 | ReqResponded \<Rightarrow> sc_result r4 | ReqPending \<Rightarrow> sc_result r5))" for claim
    by (auto intro!: calls.keeps_bind calls.keeps_result send split: response_claim.split pending_state.split)
  then show ?thesis by (intro calls.keeps_bind calls.keeps_write writes)
qed

lemma decided_guarded:
  assumes "decision \<in> {''allow'', ''deny''}"
    and later: "\<And>eff reason den X. (eff = ''allow'' \<Longrightarrow> CallRespond (ar_runtime act) (pr_correlation_id r) ''allow'' \<in> X)
      \<Longrightarrow> keeps (adds (may_log X)) (f (eff, reason, den))"
  shows "guards (\<lambda>fs q. q = r \<and> decision = ''allow'' \<and> policy_allows io pl fs q) (sc_bind (effective_decision io (Some pl) r decision) f) s"
    (is "guards ?P ?m s")
proof -
  obtain res u where e: "effective_decision io (Some pl) r decision s = (res, u)" by fastforce
  have quiet: "guards ?P (effective_decision io (Some pl) r decision) s" by (intro guards_keeps calls.keeps_effective_decision)
  show ?thesis
  proof (cases "\<exists>eff reason den. res = Some (Inr (eff, reason, den))")
    case True
    then obtain eff reason den where res: "res = Some (Inr (eff, reason, den))" by blast
    obtain cs fs where cs: "sc_calls u = sc_calls s @ cs @ [CallPolicy fs r]" "list_all (may_log {}) cs"
      and ok: "eff = ''allow'' \<Longrightarrow> decision = ''allow'' \<and> policy_allows io pl fs r"
      using effective_allow [OF e [unfolded res] assms(1)] by blast
    let ?X = "if eff = ''allow'' then {CallRespond (ar_runtime act) (pr_correlation_id r) ''allow''} else {}"
    obtain ds where ds: "sc_calls (snd (f (eff, reason, den) u)) = sc_calls u @ ds" "list_all (may_log ?X) ds"
      using later [of eff ?X reason den] by (auto simp: keeps_def adds_def)
    have "gated ?P (CallPolicy fs r # ds)"
    proof (cases "eff = ''allow''")
      case True
      with ok ds(2) show ?thesis by (intro gated_decided [where h = "ar_runtime act"]) auto
    next
      case False
      with ds(2) show ?thesis by (intro gated_quiet) (auto simp: may_log_def)
    qed
    from gated_append [OF gated_quiet [OF cs(2)] this] cs(1) ds(1) show ?thesis
      by (auto simp: guards_def sc_bind_def e res)
  next
    case False
    then show ?thesis using quiet by (auto simp: guards_def sc_bind_def e split: option.split sum.split)
  qed
qed

lemma answer_guarded:
  assumes stable: "\<And>s. policy_for a pl s \<Longrightarrow> policy_for a pl (others io s)" and "policy_for a pl s" and dec: "decision \<in> {''allow'', ''deny''}"
  shows "guards (\<lambda>fs q. q = request \<and> decision = ''allow'' \<and> policy_allows io pl fs q)
    (answer_pending fuel io a request decision content act deadline) s"
  unfolding answer_pending_def
  apply (rule guards_bind_policy [OF calls.keeps_deadlines(4) policy_for_prefix(1) [OF stable] assms(2)], assumption)
  apply (rule guards_bind_policy [OF calls.keeps_deadlines(1) policy_for_prefix(2) [OF stable]], assumption, assumption)
  apply (rule guards_bind_policy [OF calls.keeps_read policy_for_reads(2) [OF stable]], assumption, assumption)
  apply (rule guards_if, rule guards_keeps [OF calls.keeps_result])
  apply (rule guards_bind_policy [OF calls.keeps_require_remaining policy_for_prefix(3) [OF stable]], assumption, assumption)
  apply (rule guards_bind_policy [OF calls.keeps_cancel_check(2) policy_for_prefix(4) [OF stable]], assumption, assumption)
  subgoal premises prems for x1 u1 x2 u2 x3 u3 x4 u4 holder u
  proof -
    have "Option.bind holder ar_policy = Some pl"
      using find_active_ok [OF prems(10)] prems(11) by (simp add: policy_for_def)
    then show ?thesis
      by (simp only:, intro decided_guarded [OF dec, where act = act])
        (simp only: split_conv Let_def, intro answer_claimed_logs, blast)
  qed
  done

lemma found_guarded:
  fixes io :: "'w sched_io"
  assumes "\<And>s. policy_for a pl s \<Longrightarrow> policy_for a pl (others io s)" and "policy_for a pl s"
    and "\<And>fs request. found = Some request \<Longrightarrow> decision = ''allow'' \<and> policy_allows io pl fs request \<Longrightarrow> P fs request"
  shows "guards P (sc_bind (sc_of e found) (\<lambda>request.
       if \<not> (T request \<and> decision \<in> {''allow'', ''deny''}) then sc_result (r1 request)
       else if pr_state request \<noteq> ReqPending then known_response decision request
       else sc_bind (find_active io a) (\<lambda>active. case active of
           None \<Rightarrow> sc_bind (sc_read io g) (\<lambda>task. sc_result (r2 task))
         | Some act \<Rightarrow> answer_pending fuel io a request decision content act deadline))) s"
proof (rule guards_bind [OF guards_keeps [OF calls.keeps_of]])
  fix request and v :: "'w sched"
  assume "sc_of e found s = (Some (Inr request), v)"
  then have found: "found = Some request" and v: "v = s" by (auto simp: sc_of_def sc_result_def split: option.splits)
  have "guards P (sc_bind (find_active io a) (\<lambda>active. case active of
           None \<Rightarrow> sc_bind (sc_read io g) (\<lambda>task. sc_result (r2 task))
         | Some act \<Rightarrow> answer_pending fuel io a request decision content act deadline)) s" if dec: "decision \<in> {''allow'', ''deny''}"
  proof (rule guards_bind_policy [OF calls.keeps_cancel_check(2) policy_for_prefix(4) [OF assms(1)] assms(2)], assumption)
    fix active and u :: "'w sched"
    assume "policy_for a pl u"
    from guards_weaken [OF answer_guarded [OF assms(1) this dec]] assms(3) [OF found]
    show "guards P (case active of
           None \<Rightarrow> sc_bind (sc_read io g) (\<lambda>task. sc_result (r2 task))
         | Some act \<Rightarrow> answer_pending fuel io a request decision content act deadline) u"
      by (cases active) (auto intro!: guards_keeps calls.keeps_bind calls.keeps_read calls.keeps_result)
  qed
  with v show "guards P (if \<not> (T request \<and> decision \<in> {''allow'', ''deny''}) then sc_result (r1 request)
       else if pr_state request \<noteq> ReqPending then known_response decision request
       else sc_bind (find_active io a) (\<lambda>active. case active of
           None \<Rightarrow> sc_bind (sc_read io g) (\<lambda>task. sc_result (r2 task))
         | Some act \<Rightarrow> answer_pending fuel io a request decision content act deadline)) v"
    by (simp add: guards_keeps [OF calls.keeps_result] guards_keeps [OF calls.keeps_known_response])
qed

text \<open>C4 (safety): as long as other threads leave the runtime of an agent with its policy registered, answering a permission
  request hands \<^verbatim>\<open>allow\<close> to the runtime only if the caller allowed it and the policy allows the tool call of that very
  request, on the files as they were when it was decided: in the log that decision stands before the answer, for the request
  whose correlation id is answered. A refusal of the policy always wins.\<close>

theorem allow_passes_the_policy:
  assumes stable: "\<And>s. policy_for a pl s \<Longrightarrow> policy_for a pl (others io s)" and "policy_for a pl s"
    and "logs s (snd (sched_respond_request fuel io a q decision content s)) = before @ CallRespond h c ''allow'' # after"
  shows "decision = ''allow'' \<and> (\<exists>fs st request. CallPolicy fs request \<in> set before \<and> policy_allows io pl fs request
    \<and> pr_correlation_id request = c \<and> evolves (si_env io) (sc_store s) st \<and> pending_request st a q = Some request)"
proof -
  let ?P = "\<lambda>fs request. decision = ''allow'' \<and> policy_allows io pl fs request
    \<and> (\<exists>st. evolves (si_env io) (sc_store s) st \<and> pending_request st a q = Some request)"
  have "guards ?P (sched_respond_request fuel io a q decision content) s"
    unfolding sched_respond_request_def
  proof (rule guards_bind_policy [OF calls.keeps_deadlines(2) policy_for_prefix(5) [OF stable] assms(2)], assumption,
      rule guards_bind_policy [OF calls.keeps_read policy_for_reads(2) [OF stable]], assumption, assumption, rule found_guarded [OF stable], assumption, assumption)
    fix deadline u found v fs request
    assume d: "control_deadline io s = (Some (Inr deadline), u)" and f: "sc_read io (\<lambda>st. Inr (pending_request st a q)) u = (Some (Inr found), v)"
      and "found = Some request" and "decision = ''allow'' \<and> policy_allows io pl fs request"
    moreover have "evolves (si_env io) (sc_store s) (sc_store v)"
      using keepsD [OF changes.keeps_deadlines(2) d] keepsD [OF changes.keeps_read f] by (rule rtranclp_trans)
    moreover have "found = pending_request (sc_store v) a q" using f by (auto simp: sc_read_def Let_def)
    ultimately show "?P fs request" by metis
  qed
  then obtain cs where "sc_calls (snd (sched_respond_request fuel io a q decision content s)) = sc_calls s @ cs" "gated ?P cs"
    by (auto simp: guards_def)
  then show ?thesis using assms(3) by (auto simp: logs_def gated_def) blast+
qed

definition demo_asking :: store where
  "demo_asking = run_ops demo_env (demo_running @ [(4, InsertPending ''q'' ''a'' ''c'' ''permission'' ''{}'')]) empty_store"

definition demo_tool :: json where
  "demo_tool = JObject [(''toolName'', JString ''read''), (''input'', JObject [(''path'', JString ''a'')])]"

lemma demo_policy: "\<exists>p d. decide_zcode_permission_validated demo_fs (demo_launcher ReadOnly) demo_tool Allow = Some (p, d) \<and> pd_allowed p"
  by (simp add: decide_zcode_permission_validated_def demo_tool_def decide_zcode_permission_def tool_request_def request_input_def
        json_get_str_def zcode_file_path_def resolve_job_path_def decide_def hard_deny_reason_def is_credential_path_def
        credential_component_def credential_names_def enters_agent_metadata_def is_agent_metadata_path_def is_agent_root_def
        to_ascii_lowercase_def ascii_lower_char_def ends_with_def demo_fs_def demo_launcher_def path_eval)

lemmas asking_defs = demo_asking_def demo_defs exec_defs insert_pending_request_def query_pending_request_def get_task_def accepting_def
  claim_pending_response_if_accepting_def complete_pending_response_def pending_request_def

lemma demo_asking_ok:
  "\<exists>r t s1 t1 s2. pending_request demo_asking ''a'' ''q'' = Some r \<and> pr_request_id r = ''q'' \<and> pr_correlation_id r = ''c''
     \<and> pr_request_type r = ''permission'' \<and> pr_state r = ReqPending
     \<and> get_task demo_asking ''a'' = Inr t \<and> accepting 1 t
     \<and> claim_pending_response_if_accepting ''a'' ''q'' ''allow'' None demo_asking = Inr (Claimed, s1)
     \<and> get_task s1 ''a'' = Inr t1 \<and> accepting 1 t1 \<and> complete_pending_response 5 ''a'' ''q'' s1 = Inr (True, s2)"
  by (simp add: asking_defs req_open_def)

lemma demo_answered:
  "\<exists>fs request. logs (demo_sched demo_asking) (snd (sched_respond_request 3 (demo_sched_io demo_tool) ''a'' ''q'' ''allow'' None (demo_sched demo_asking)))
     = [CallPolicy fs request] @ CallRespond 1 ''c'' ''allow'' # []"
proof -
  obtain r t s1 t1 s2 where asked: "pending_request demo_asking ''a'' ''q'' = Some r" "pr_request_id r = ''q''" "pr_correlation_id r = ''c''"
    "pr_request_type r = ''permission''" "pr_state r = ReqPending" "get_task demo_asking ''a'' = Inr t" "accepting 1 t"
    "claim_pending_response_if_accepting ''a'' ''q'' ''allow'' None demo_asking = Inr (Claimed, s1)" "get_task s1 ''a'' = Inr t1" "accepting 1 t1"
    "complete_pending_response 5 ''a'' ''q'' s1 = Inr (True, s2)" using demo_asking_ok by blast
  obtain p d where "decide_zcode_permission_validated demo_fs (demo_launcher ReadOnly) demo_tool Allow = Some (p, d)" "pd_allowed p"
    using demo_policy by blast
  with asked show ?thesis
    by (simp add: sched_respond_request_def control_deadline_def answer_pending_def lock_operation_def require_runtime_ingress_def
        require_remaining_def sched_remaining_def find_active_def effective_decision_def send_claimed_def runtime_phase_deadline_of_def
        runtime_phase_deadline_def deadline_remaining_def ingress_reason_def phase_of_def RuntimeLifecycle_new_def DURATION_MAX_def
        sc_call_def sc_read_def sc_get_def sc_write_def sc_log_def sc_run ok_or_def Let_def demo_sched_def logs_def)
qed

theorem allow_passes_the_policy_witness:
  "\<exists>fs st request. policy_allows (demo_sched_io demo_tool :: unit sched_io) (demo_launcher ReadOnly) fs request
    \<and> evolves (si_env (demo_sched_io demo_tool :: unit sched_io)) demo_asking st \<and> pending_request st ''a'' ''q'' = Some request
    \<and> pr_correlation_id request = ''c''"
proof -
  obtain fs request where l: "logs (demo_sched demo_asking) (snd (sched_respond_request 3 (demo_sched_io demo_tool) ''a'' ''q'' ''allow'' None (demo_sched demo_asking)))
     = [CallPolicy fs request] @ CallRespond 1 ''c'' ''allow'' # []" using demo_answered by blast
  have "policy_for ''a'' (demo_launcher ReadOnly) (demo_sched demo_asking)" by (simp add: demo_sched_def policy_for_def)
  from allow_passes_the_policy [OF _ this l] show ?thesis by (auto simp: demo_sched_def)
qed

end
