(* ===== verification/Scheduler_Races.thy ===== *)
theory Scheduler_Races
  imports Scheduler_Props Store_Sched
begin

text \<open>
  An interleaving in which the store and the running processes disagree: a resumption that is rolled back after another
  thread started it.
\<close>

section \<open>The rollback of a started resumption\<close>

definition requeue_for ::
    "'w sched_io \<Rightarrow> string \<Rightarrow> string \<Rightarrow> string \<Rightarrow> ('w, task_record \<times> stored_task_result option) sched_cmd" where
  "requeue_for io agent_id message_id content =
     sc_bind (get_task_or io agent_id ''resume task disappeared'') (\<lambda>original.
     sc_bind (sc_read io (\<lambda>st. Inr (stored_result st agent_id))) (\<lambda>original_result.
     sc_bind (sc_write io (\<lambda>now. requeue_task_for_resume_with_message now agent_id message_id content)) (\<lambda>_.
       sc_ok (original, original_result))))"

lemma restore_hits:
  assumes "task_row_of st a = Some row" and "tr_agent_id original = a" and "tr_outcome original \<noteq> None"
    and "tr_phase original = Terminal" and "tr_last_event_seq original \<le> i64_max"
  shows "\<exists>st' row'. restore_terminal_after_resume_failure env now original result st = Inr ((), st')
    \<and> task_row_of st' a = Some row' \<and> tk_phase row' = Terminal \<and> tk_owner_epoch row' = tk_owner_epoch row"
proof -
  let ?f = "restore_row original (int (tr_last_event_seq original))"
  let ?hit = "\<lambda>t. tk_agent_id t = a"
  have row: "task_row_of (st\<lparr>tasks := update_where ?hit ?f (tasks st)\<rparr>) a = Some (?f row)"
    using find_update_where [of ?hit tk_agent_id ?f a "tasks st"] assms(1) task_row_of_id [OF assms(1)]
    by (simp add: task_row_of_def restore_row_def)
  then show ?thesis
    using assms row
    by (auto simp: restore_terminal_after_resume_failure_def u64_to_i64_def Let_def restore_row_def task_row_of_def split: option.split)
qed

text \<open>C37 (error): a resumption is rolled back although it was started. Whenever a caller has requeued a terminal task, its own round of
  claims finds nothing to start for the task, and by then another thread has the task running, the caller restores the
  terminal state it read before without looking at the phase, and reports that the session was not resumed: the row is
  terminal, under the owner epoch of the running runtime, which stays registered.\<close>

theorem started_resume_is_rolled_back:
  assumes "requeue_for io a message_id content s = (Some (Inr (original, original_result)), u)"
    and "tr_agent_id original = a" "tr_phase original = Terminal" "tr_outcome original \<noteq> None"
    and "tr_last_event_seq original \<le> i64_max"
    and "start_ready fuel io [] u = (Some (Inr started), v)" "a \<notin> set started"
    and "task_row_of (sc_store (others io v)) a = Some running" "tk_phase running = Running"
  shows "\<exists>t row. resume_with_message fuel io a message_id content s
      = (Some (Inl (RuntimeCommand a ''session resume was not started'')), t)
    \<and> task_row_of (sc_store t) a = Some row \<and> tk_phase row = Terminal \<and> tk_owner_epoch row = tk_owner_epoch running
    \<and> sc_active t = sc_active (others io v)"
proof -
  obtain now w where n: "si_time io (sc_world (others io v)) = (now, w)" by fastforce
  obtain st' row' where r: "restore_terminal_after_resume_failure (si_env io) now original (map_option sr_result original_result)
      (sc_store (others io v)) = Inr ((), st')"
    "task_row_of st' a = Some row'" "tk_phase row' = Terminal" "tk_owner_epoch row' = tk_owner_epoch running"
    using restore_hits [OF assms(8,2,4,3,5)] by blast
  have split: "resume_with_message fuel io a message_id content = sc_bind (requeue_for io a message_id content) (\<lambda>(original, original_result).
     sc_bind (sc_try (start_ready fuel io [])) (\<lambda>r.
       case r of
         Inl e \<Rightarrow>
           sc_bind (sc_read io (\<lambda>st. get_task st a)) (\<lambda>task.
           sc_bind (sc_when (case task of Some t \<Rightarrow> tr_phase t = Terminal | None \<Rightarrow> False)
                      (restore_resume io original original_result)) (\<lambda>_. sc_fail e))
       | Inr started \<Rightarrow>
           if a \<notin> set started
           then sc_bind (restore_resume io original original_result) (\<lambda>_.
                  sc_fail (RuntimeCommand a ''session resume was not started''))
           else sc_ok MessageQueued))"
    by (simp add: resume_with_message_def requeue_for_def sc_bind_assoc sc_bind_result)
  show ?thesis
    unfolding split using assms(1,6,7) r n
    by (simp add: sc_bind_def sc_try_def restore_resume_def sc_write_def sc_log_def sc_result_def Let_def)
qed

text \<open>
  While a caller resumes the terminal task, another thread claims it, starts its runtime and registers it: world 3 is the
  moment between the requeue and the caller's own claim.
\<close>

definition race_runtime :: active_runtime where
  "race_runtime = \<lparr>ar_owner_epoch = 2, ar_runtime = 1, ar_session_id = ''sess'',
     ar_route = \<lparr>ro_prepared = demo_prepared, ro_required = []\<rparr>, ar_task = None, ar_policy = None\<rparr>"

definition race_start :: "interference list" where
  "race_start = [OtherWrite 7 (ClaimNext ''d'' 4 2),
     OtherSpawns 1 \<lparr>sk_agent_id = ''a'', sk_runtime_agent_id = ''a:2'', sk_owner_epoch = 2\<rparr> demo_sink,
     OtherRegisters ''a'' race_runtime, OtherWrite 8 (MarkRunning ''a'' 2 ''r2'' None (Some ''sess'') None)]"

definition race_io :: "nat sched_io" where
  "race_io = (demo_sched_io JNull)\<lparr>si_others := \<lambda>w. (if w = 3 then race_start else [], Suc w)\<rparr>"

definition race_store :: store where
  "race_store = run_ops demo_env (demo_running @ [(5, TransitionTerminal ''a'' 1
     \<lparr>tu_outcome = Completed, tu_failure_code = None, tu_failure_message = None\<rparr>)]) empty_store"

definition race_sched :: "nat sched" where
  "race_sched = \<lparr>sc_world = 0, sc_store = race_store, sc_active = [], sc_activities = [], sc_failures = [], sc_sinks = (\<lambda>_. (demo_sink_id, demo_sink)),
     sc_cancelled = (\<lambda>_. False), sc_signals = [], sc_calls = []\<rparr>"

lemmas race_defs = race_store_def demo_defs exec_defs transition_terminal_def apply_terminal_def settle_terminal_commands_def
  terminal_turn_state_def requeue_task_for_resume_with_message_def requeued_def query_message_def stored_result_def
  query_task_result_def get_task_def

lemma race_states:
  "\<exists>original s1 c s2 s3 row. get_task race_store ''a'' = Inr (Some original) \<and> tr_agent_id original = ''a'' \<and> tr_phase original = Terminal
     \<and> tr_outcome original = Some Completed \<and> tr_last_event_seq original \<le> i64_max \<and> stored_result race_store ''a'' = None
     \<and> requeue_task_for_resume_with_message 5 ''a'' ''m'' ''go'' race_store = Inr ((), s1)
     \<and> claim_next 7 ''d'' 4 2 s1 = Inr (c, s2) \<and> claimed_under ''a'' 2 s2
     \<and> mark_session_running 8 ''a'' 2 ''r2'' None (Some ''sess'') None s2 = Inr (True, s3)
     \<and> claim_next 5 ''d'' u64_max 2 s3 = Inr (None, s3) \<and> task_row_of s3 ''a'' = Some row \<and> tk_phase row = Running \<and> tk_owner_epoch row = 2"
  by (simp add: race_defs claimed_under_def)

lemma race_fields:
  "si_time race_io w = (5, w)" "cf_per_workspace_max_agents (si_config race_io) = 2" "si_owner_id race_io = ''d''"
  by (simp_all add: race_io_def demo_sched_io_def)

lemma race_others:
  "others race_io s = (if sc_world s = 3 then fold (interfere race_io) race_start (s\<lparr>sc_world := Suc (sc_world s)\<rparr>)
     else s\<lparr>sc_world := Suc (sc_world s)\<rparr>)"
  by (simp add: others_def race_io_def)

lemma race_run:
  "\<exists>original u v row. requeue_for race_io ''a'' ''m'' ''go'' race_sched = (Some (Inr (original, None)), u)
     \<and> tr_agent_id original = ''a'' \<and> tr_phase original = Terminal \<and> tr_outcome original \<noteq> None \<and> tr_last_event_seq original \<le> i64_max
     \<and> start_ready 2 race_io [] u = (Some (Inr []), v)
     \<and> task_row_of (sc_store (others race_io v)) ''a'' = Some row \<and> tk_phase row = Running \<and> tk_owner_epoch row = 2
     \<and> map_of (sc_active (others race_io v)) ''a'' = Some race_runtime"
proof -
  obtain original s1 c s2 s3 row where st: "get_task race_store ''a'' = Inr (Some original)" "tr_agent_id original = ''a''"
    "tr_phase original = Terminal" "tr_outcome original = Some Completed" "tr_last_event_seq original \<le> i64_max" "stored_result race_store ''a'' = None"
    "requeue_task_for_resume_with_message 5 ''a'' ''m'' ''go'' race_store = Inr ((), s1)"
    "claim_next 7 ''d'' 4 2 s1 = Inr (c, s2)" "claimed_under ''a'' 2 s2"
    "mark_session_running 8 ''a'' 2 ''r2'' None (Some ''sess'') None s2 = Inr (True, s3)"
    "claim_next 5 ''d'' u64_max 2 s3 = Inr (None, s3)" "task_row_of s3 ''a'' = Some row" "tk_phase row = Running" "tk_owner_epoch row = 2"
    using race_states by blast
  have start: "start_ready 2 = start_ready (Suc (Suc 0))" by (simp add: numeral_2_eq_2)
  have requeue: "requeue_for race_io ''a'' ''m'' ''go'' race_sched = (Some (Inr (original, None)), race_sched\<lparr>sc_world := 3, sc_store := s1\<rparr>)"
    by (simp add: requeue_for_def get_task_or_def sc_bind_def sc_read_def sc_write_def sc_of_def ok_or_def sc_result_def Let_def
        race_others race_fields st race_sched_def)
  have claim: "start_ready 2 race_io [] (race_sched\<lparr>sc_world := 3, sc_store := s1\<rparr>)
      = (Some (Inr []), register ''a'' race_runtime (set_sink 1 (\<lparr>sk_agent_id = ''a'', sk_runtime_agent_id = ''a:2'', sk_owner_epoch = 2\<rparr>, demo_sink)
          (race_sched\<lparr>sc_world := 4, sc_store := s3\<rparr>)))"
    by (simp add: start sc_bind_def sc_write_def Let_def race_others race_fields st race_sched_def race_start_def
        other_spawns_def other_registers_def race_runtime_def register_def set_sink_def committed_def)
  show ?thesis
    using requeue claim st(2,4,5,12,14) st(3) st(13)
    by (intro exI conjI) (rule requeue | rule claim | simp add: race_others set_sink_def register_def)+
qed

theorem started_resume_is_rolled_back_witness:
  "\<exists>t row. resume_with_message 2 race_io ''a'' ''m'' ''go'' race_sched
      = (Some (Inl (RuntimeCommand ''a'' ''session resume was not started'')), t)
    \<and> task_row_of (sc_store t) ''a'' = Some row \<and> tk_phase row = Terminal \<and> tk_owner_epoch row = 2
    \<and> map_of (sc_active t) ''a'' = Some race_runtime \<and> ar_owner_epoch race_runtime = 2"
proof -
  obtain original u v running where r: "requeue_for race_io ''a'' ''m'' ''go'' race_sched = (Some (Inr (original, None)), u)"
    "tr_agent_id original = ''a''" "tr_phase original = Terminal" "tr_outcome original \<noteq> None" "tr_last_event_seq original \<le> i64_max"
    "start_ready 2 race_io [] u = (Some (Inr []), v)"
    "task_row_of (sc_store (others race_io v)) ''a'' = Some running" "tk_phase running = Running" "tk_owner_epoch running = 2"
    "map_of (sc_active (others race_io v)) ''a'' = Some race_runtime"
    using race_run by blast
  show ?thesis using started_resume_is_rolled_back [OF r(1-6) _ r(7,8)] r(9,10) by (simp add: race_runtime_def) metis
qed

end
