(* ===== verification/Submission.thy ===== *)
theory Submission
  imports Preparer Scheduler_Start
begin

text \<open>
  How a task enters the scheduler and how its runtime is launched (\<^verbatim>\<open>zcode-agentd/src/lib.rs\<close>): \<^verbatim>\<open>enqueue_general\<close>
  resolves the named commands, prepares the workspace, binds the daemon's contract and stores the task;
  \<^verbatim>\<open>CommandRuntimeFactory\<close> checks a stored task again and starts its command with the policy's environment.
\<close>

section \<open>Submitting a task\<close>

text \<open>\<^verbatim>\<open>resolve\<close> looks only at the file system and at the texts of errors.\<close>

definition resolve_now ::
    "prepare_env \<Rightarrow> 'w sched_io \<Rightarrow> catalog \<Rightarrow> string \<Rightarrow> access_mode \<Rightarrow> string list \<Rightarrow> ('w, (string \<times> named_command) list) sched_cmd" where
  "resolve_now pe io cat repository mode ids =
     sc_bind (sc_get io (\<lambda>s. si_fs io (sc_world s))) (\<lambda>fs.
       sc_result (map_sum InvalidConfig (sort_key fst)
         (resolve_commands \<lparr>cg_fs = fs, cg_create_dir_all = (\<lambda>_. True), cg_io_message = pe_io_message pe,
            cg_scratch = (\<lambda>_. Inl []), cg_show = pe_show pe\<rparr> cat repository mode ids)))"

definition attachment_roots :: "general_manifest \<Rightarrow> string list" where
  "attachment_roots m = map ai_allowed_root (gm_attachments m)"

definition selected_command_ids :: "string list \<Rightarrow> string list \<Rightarrow> string list" where
  "selected_command_ids allowed required =
     foldl (\<lambda>ids i. if i \<in> set ids then ids else ids @ [i]) allowed required"

text \<open>A preparation error becomes a refusal with its text.\<close>

definition prep_now :: "prepare_env \<Rightarrow> 'w sched_io \<Rightarrow> ('w, 'a) prep \<Rightarrow> ('w, 'a) sched_cmd" where
  "prep_now pe io m = sc_world_cmd io (sc_map_err (\<lambda>e. InvalidConfig (pe_show pe e)) m)"

definition general_initial_prompt :: "prepare_env \<Rightarrow> 'w sched_io \<Rightarrow> prepared_task \<Rightarrow> ('w, string) sched_cmd" where
  "general_initial_prompt pe io p =
     (let ws = si_workspace io in
      sc_bind (prep_now pe io (validate_prepared_content ws p)) (\<lambda>_.
      sc_bind (prep_now pe io (sc_bind (read_file ws (pg_prompt_path p)) (\<lambda>bytes.
                 if utf8_valid bytes then sc_ok bytes else sc_fail IoError))) (\<lambda>caller_prompt.
        prep_now pe io (general_launch_prompt (pe_pretty pe) ws p caller_prompt))))"

definition new_task_of :: "prepared_task \<Rightarrow> string option \<Rightarrow> string \<Rightarrow> string \<Rightarrow> new_task" where
  "new_task_of p group_id prepared_json initial_prompt =
     \<lparr>nt_agent_id = pg_agent_id p, nt_idempotency_key = pg_idempotency_key p, nt_repository = pg_repository p,
      nt_group_id = group_id, nt_workspace_path = pw_path (pg_worktree p), nt_runtime_hash = None,
      nt_prepared_launch_json = prepared_json, nt_prepared_launch_sha256 = pg_prepared_sha256 p,
      nt_initial_prompt = initial_prompt, nt_budget = Limits (pg_effective_budget p), nt_retain_partial = pg_retain_partial p\<rparr>"

definition enqueue_general_with_commands ::
    "prepare_env \<Rightarrow> 'w sched_io \<Rightarrow> catalog \<Rightarrow> general_manifest \<Rightarrow> string option \<Rightarrow> string list \<Rightarrow> string list \<Rightarrow> ('w, submitted_task) sched_cmd" where
  "enqueue_general_with_commands pe io cat m group_id allowed required =
     (if (case gm_budget m of Some b \<Rightarrow> max_result_bytes b < MIN_RESULT_BYTES | None \<Rightarrow> False)
      then sc_fail (InvalidConfig (''max_result_bytes must be at least '' @ show_nat MIN_RESULT_BYTES))
      else if (case group_id of Some g \<Rightarrow> trim g = [] | None \<Rightarrow> False)
      then sc_fail (InvalidConfig ''group_id cannot be empty when supplied'')
      else
      sc_bind (resolve_now pe io cat (gm_repository m) (mode_access (gm_permission_mode m)) (selected_command_ids allowed required)) (\<lambda>named.
      sc_bind (prep_now pe io (sc_bind (GeneralTaskPreparer_new (si_workspace io) (attachment_roots m)) (\<lambda>roots.
                 prepare_named_submission pe (si_workspace io) roots m named))) (\<lambda>prepared.
      sc_bind (sc_result (map_sum InvalidConfig id (bind_general_daemon_contract (si_env io) (si_serde io) required prepared))) (\<lambda>(p, prepared_json).
      sc_bind (general_initial_prompt pe io p) (\<lambda>initial_prompt.
        sc_write io (\<lambda>now. enqueue_task_authoritative (si_env io) now (new_task_of p group_id prepared_json initial_prompt)))))))"

definition enqueue_general :: "prepare_env \<Rightarrow> 'w sched_io \<Rightarrow> catalog \<Rightarrow> general_manifest \<Rightarrow> string option \<Rightarrow> ('w, submitted_task) sched_cmd" where
  "enqueue_general pe io cat m group_id = enqueue_general_with_commands pe io cat m group_id [] []"

section \<open>Launching a runtime\<close>

text \<open>
  \<open>fy_command\<close> builds the command of a task, \<open>fy_spawn\<close> is \<^verbatim>\<open>RuntimeOwner::spawn\<close> of a command with additional
  environment; both may fail with the text of an I/O error.
\<close>

record ('w, 'c) command_factory =
  fy_require_prepared :: bool
  fy_command :: "task_record \<Rightarrow> 'w \<Rightarrow> (string + 'c) \<times> 'w"
  fy_spawn :: "'c \<Rightarrow> (string \<times> string) list \<Rightarrow> 'w \<Rightarrow> (string + nat) \<times> 'w"

definition MAX_AGENT_WRITE_MANIFEST_ENTRIES :: nat where "MAX_AGENT_WRITE_MANIFEST_ENTRIES = 256"

definition MAX_AGENT_WRITE_MANIFEST_BYTES :: nat where "MAX_AGENT_WRITE_MANIFEST_BYTES = 65536"

text \<open>Paths of a prepared task were read from JSON and are valid text, which \<^verbatim>\<open>to_string_lossy\<close> leaves as it is.\<close>

definition apply_agent_policy_environment ::
    "store_env \<Rightarrow> prepared_serde \<Rightarrow> task_record \<Rightarrow> string + (string \<times> string) list" where
  "apply_agent_policy_environment env ps task =
     (if \<not> is_absolute (tr_workspace_path task) then Inl ''runtime workspace path must be absolute''
      else rbind (task_route env ps task) (\<lambda>route.
        let manifest = pg_write_manifest (ro_prepared route);
            serialized = env_to_json env (jstrings manifest) in
        if length manifest > MAX_AGENT_WRITE_MANIFEST_ENTRIES \<or> length serialized > MAX_AGENT_WRITE_MANIFEST_BYTES
        then Inl ''write manifest exceeds runtime policy bounds''
        else Inr [(''ZCODE_AGENT_POLICY'', ''1''), (''ZCODE_AGENT_WORKTREE_ROOT'', tr_workspace_path task),
                  (''ZCODE_AGENT_BOOTSTRAP_ROOTS'', ''/Applications/ZCode.app''), (''ZCODE_AGENT_WRITE_MANIFEST'', serialized)]))"

definition check_prepared :: "'w sched_io \<Rightarrow> task_record \<Rightarrow> ('w, string, unit) cmd" where
  "check_prepared io task =
     sc_bind (sc_result (task_route (si_env io) (si_serde io) task)) (\<lambda>route.
     sc_bind (sc_map_err (si_show_preparation io) (launcher (si_workspace io) (ro_prepared route))) (\<lambda>_. sc_ok ()))"

definition factory_spawn :: "'w sched_io \<Rightarrow> ('w, 'c) command_factory \<Rightarrow> task_record \<Rightarrow> ('w, string, nat) cmd" where
  "factory_spawn io fy task =
     sc_bind (sc_when (fy_require_prepared fy) (check_prepared io task)) (\<lambda>_.
     sc_bind (sc_bind (io_do (fy_command fy task)) sc_result) (\<lambda>command.
     sc_bind (sc_result (apply_agent_policy_environment (si_env io) (si_serde io) task)) (\<lambda>envs.
       sc_bind (io_do (fy_spawn fy command envs)) sc_result)))"

end
