(* ===== verification/Submission_Props.thy ===== *)
theory Submission_Props
  imports Submission Scheduler_Props Preparer_Props
begin

text \<open>Attachments of a submission, and the launch of a task whose private files are gone.\<close>

section \<open>Attachment roots\<close>

lemma each_canonical:
  "sc_each (canonicalize io) ps w = (Some (Inr cs), w') \<Longrightarrow>
     w' = w \<and> (\<forall>p\<in>set ps. \<exists>c\<in>set cs. fs_canonicalize (wo_fs io w) p = Some c)"
  by (induction ps arbitrary: cs w') (fastforce simp: canonicalize_def canonical_or_io_def ok_or_def split: option.splits)+

text \<open>The approval of attachment roots decides nothing for a submitted task. The daemon passes the roots that the
  caller's own attachments name as the approved ones, so as long as a root resolves to the same directory, the refusal
  \<^verbatim>\<open>attachment root is not owner-approved\<close> is impossible, whatever directory the caller chose.\<close>

theorem callers_approve_their_own_roots:
  assumes "GeneralTaskPreparer_new io (attachment_roots m) w = (Some (Inr roots), w')" and "a \<in> set (gm_attachments m)"
    and "fs_canonicalize (wo_fs io u) (ai_allowed_root a) = fs_canonicalize (wo_fs io w) (ai_allowed_root a)"
  shows "fst (check_attachment io roots seen a u) \<noteq> Some (Inl (PolicyError ''attachment root is not owner-approved''))"
proof -
  obtain cs where cs: "sc_each (canonicalize io) (attachment_roots m) w = (Some (Inr cs), w)" and r: "roots = normalized_paths cs"
    using assms(1) each_canonical by (fastforce simp: GeneralTaskPreparer_new_def split: if_splits)
  obtain c where c: "c \<in> set cs" "fs_canonicalize (wo_fs io w) (ai_allowed_root a) = Some c"
    using each_canonical [OF cs] assms(2) by (auto simp: attachment_roots_def)
  then have "components c \<in> components ` set roots" using r normalized_paths_comps by blast
  then have "list_ex (\<lambda>q. path_eq q c) roots" by (auto simp: list_ex_iff path_eq_def)
  with c(2) assms(3) show ?thesis
    by (auto simp: check_attachment_def canonicalize_def canonical_or_io_def ok_or_def symlink_kind_def sc_run split: option.splits)
qed

theorem callers_approve_their_own_roots_witness:
  "\<exists>roots. GeneralTaskPreparer_new demo_preparing (attachment_roots demo_manifest) () = (Some (Inr roots), ())
     \<and> fst (check_attachment demo_preparing roots [] (hd (gm_attachments demo_manifest)) ()) \<noteq> Some (Inl (PolicyError ''attachment root is not owner-approved''))"
proof -
  have "GeneralTaskPreparer_new demo_preparing (attachment_roots demo_manifest) () = (Some (Inr (normalized_paths [''/r''])), ())"
    by (simp add: GeneralTaskPreparer_new_def attachment_roots_def canonicalize_def canonical_or_io_def ok_or_def preparing_defs sc_run)
  moreover from callers_approve_their_own_roots [OF this, of "hd (gm_attachments demo_manifest)" "()" "[]"]
  have "fst (check_attachment demo_preparing (normalized_paths [''/r'']) [] (hd (gm_attachments demo_manifest)) ())
      \<noteq> Some (Inl (PolicyError ''attachment root is not owner-approved''))" by (simp add: demo_manifest_def)
  ultimately show ?thesis by blast
qed

section \<open>A prompt that is gone\<close>

lemma no_symlink_below_reads: "\<exists>r. no_symlink_below io cursor cs w = (Some r, w)"
  by (induction cs arbitrary: cursor) (auto simp: symlink_kind_def sc_run Let_def ok_or_def split: option.split)

lemma missing_file_refused:
  assumes "wo_kind io path w = None"
  shows "\<exists>e. verify_confined_file io root path h n w = (Some (Inl e), w)"
proof (cases "path_strip_prefix root path")
  case (Some relative)
  obtain r where "no_symlink_below io root (components relative) w = (Some r, w)"
    using no_symlink_below_reads [of io root "components relative" w] by (elim exE)
  then show ?thesis using assms Some
    by (cases r) (auto simp: verify_confined_file_def canonicalize_def verify_file_def symlink_kind_def sc_run ok_or_def split: sum.split)
qed (simp add: verify_confined_file_def sc_result_def)

lemma launcher_needs_prompt:
  assumes "wo_kind io (pg_prompt_path p) w = None"
  shows "\<exists>e. launcher io p w = (Some (Inl e), w)"
proof -
  have "\<exists>e. validate_immutable_inputs io p w = (Some (Inl e), w)"
  proof (cases "task_root_of p")
    case (Some root)
    obtain e where "verify_confined_file io root (pg_prompt_path p) (pg_prompt_sha256 p) None w = (Some (Inl e), w)"
      using missing_file_refused [OF assms] by blast
    with Some show ?thesis by (simp add: validate_immutable_inputs_def sc_run ok_or_def)
  qed (simp add: validate_immutable_inputs_def sc_run ok_or_def)
  then show ?thesis by (auto simp: launcher_def check_digest_def validate_prepared_content_def sc_run)
qed

lemma factory_needs_prompt:
  assumes "fy_require_prepared fy" and "task_route (si_env io) (si_serde io) task = Inr route"
    and "wo_kind (si_workspace io) (pg_prompt_path (ro_prepared route)) w = None"
  shows "\<exists>e. factory_spawn io fy task w = (Some (Inl e), w)"
  using launcher_needs_prompt [OF assms(3)] assms(1,2) by (auto simp: factory_spawn_def check_prepared_def sc_run)

lemma fail_start_fails: "fail_start io a route outcome code message reaped e s \<noteq> (Some (Inr x), t)"
  "fail_start_strict io a route outcome code message reaped e s \<noteq> (Some (Inr x), t)"
  by (auto simp: fail_start_def fail_start_strict_def)

text \<open>C35 (error): a task whose prompt file is gone is never started by the factory of the daemon. The
  clean-up of a finished task removes the prompt with the task's files, and the scheduler builds the policy of a resumed task
  without it; but the factory the daemon runs with checks every task as a new one before it spawns, and refuses one whose
  prompt is missing. So as long as the prompt stays away no claim of the task is ever started, and a resumption of a
  task that was cleaned up fails. (A task whose clean-up was left to later keeps its prompt and is not concerned.)\<close>

theorem removed_prompt_is_never_started:
  assumes "fy_require_prepared fy" and "task_route (si_env io) (si_serde io) (tc_task claim) = Inr route"
    and gone: "\<And>w. wo_kind (si_workspace io) (pg_prompt_path (ro_prepared route)) w = None"
    and spawn: "\<And>w. factory_spawn io fy (tc_task claim) w = (Some (fst (si_spawn io (tc_task claim) w)), snd (si_spawn io (tc_task claim) w))"
  shows "fst (start_claim io claim s) \<noteq> Some (Inr started)"
proof
  assume "fst (start_claim io claim s) = Some (Inr started)"
  then obtain t where "start_claim io claim s = (Some (Inr started), t)" by (metis prod.collapse)
  then obtain stored budget u where "start_routed io (tc_task claim) (tc_owner_epoch claim) route stored budget u = (Some (Inr started), t)"
    by (auto simp: start_claim_def reject_claim_def assms(2) Let_def split: sum.splits)
  then obtain h v v' where sp: "spawn_runtime io (tc_task claim) (tc_owner_epoch claim) route budget v = (Some (Inr h), v')"
    by (auto simp: start_routed_def fail_start_fails split: sum.splits if_splits)
  obtain e where "factory_spawn io fy (tc_task claim) (sc_world (others io v)) = (Some (Inl e), sc_world (others io v))"
    using factory_needs_prompt [OF assms(1,2) gone] by blast
  with spawn have "fst (si_spawn io (tc_task claim) (sc_world (others io v))) = Inl e" by auto
  with sp show False by (auto simp: spawn_runtime_def Let_def fail_start_fails split: prod.splits sum.splits)
qed

definition lost_io :: "unit sched_io" where
  "lost_io = (demo_sched_io (JObject [(''schema'', JString GENERAL_TASK_SCHEMA)]))\<lparr>
     si_workspace := (demo_workspace False)\<lparr>wo_serde := demo_serde demo_checked, wo_kind := \<lambda>_ _. None\<rparr>,
     si_spawn := \<lambda>_ w. (Inl ''preparation'', w)\<rparr>"

definition lost_factory :: "(unit, unit) command_factory" where
  "lost_factory = \<lparr>fy_require_prepared = True, fy_command = (\<lambda>_ w. (Inr (), w)), fy_spawn = (\<lambda>_ _ w. (Inr 1, w))\<rparr>"

definition lost_task :: "task_record \<Rightarrow> task_record" where
  "lost_task t = t\<lparr>tr_prepared_launch_sha256 := ''d'', tr_workspace_path := ''/w''\<rparr>"

lemma lost_route: "task_route (si_env lost_io) (si_serde lost_io) (lost_task t) = Inr \<lparr>ro_prepared = demo_checked, ro_required = []\<rparr>"
  by (simp add: task_route_def task_route_of_def lost_io_def lost_task_def demo_sched_io_def demo_reader_def demo_serde_def ok_or_def
      json_get_str_def validate_digest_def prepared_digest_def demo_checked_def demo_prepared_def)

theorem removed_prompt_is_never_started_witness:
  "\<forall>t. fst (start_claim lost_io (TaskClaim (lost_task t) 1) (demo_sched demo_store)) \<noteq> Some (Inr True)"
proof
  fix t
  have gone: "wo_kind (si_workspace lost_io) q w = None" for q w by (simp add: lost_io_def)
  have p: "fy_require_prepared lost_factory" by (simp add: lost_factory_def)
  have "factory_spawn lost_io lost_factory (lost_task t) w = (Some (fst (si_spawn lost_io (lost_task t) w)), snd (si_spawn lost_io (lost_task t) w))" for w
  proof -
    obtain e where "launcher (si_workspace lost_io) demo_checked w = (Some (Inl e), w)" using launcher_needs_prompt [OF gone] by blast
    then show ?thesis using p
      by (simp add: factory_spawn_def check_prepared_def lost_route sc_run) (simp add: lost_io_def demo_sched_io_def)
  qed
  then show "fst (start_claim lost_io (TaskClaim (lost_task t) 1) (demo_sched demo_store)) \<noteq> Some (Inr True)"
    using removed_prompt_is_never_started [OF p, of lost_io "TaskClaim (lost_task t) 1"] lost_route gone by simp
qed

end
