(* ===== verification/Rpc_Views.thy ===== *)
theory Rpc_Views
  imports Submission Scheduler_Control
begin

text \<open>
  The messages of the private RPC (\<^verbatim>\<open>zcode-agentd/src/rpc.rs\<close>): methods, errors, the views a client gets of a task and
  the JSON they are sent as. The members of an object stand in the order of the fields of the source.
\<close>

definition RPC_VERSION :: nat where "RPC_VERSION = 12"
definition MAX_FRAME_BYTES :: nat where "MAX_FRAME_BYTES = 131072"
definition MAX_REQUEST_ID_BYTES :: nat where "MAX_REQUEST_ID_BYTES = 128"
definition MAX_LIST_TASKS :: nat where "MAX_LIST_TASKS = 100"
definition MAX_PENDING_REQUESTS :: nat where "MAX_PENDING_REQUESTS = 100"
definition MAX_ARTIFACT_CHUNK_BYTES :: nat where "MAX_ARTIFACT_CHUNK_BYTES = 8192"
definition MAX_WAIT :: nat where "MAX_WAIT = 5000000000"

section \<open>Errors\<close>

datatype rpc_error_code =
    RpcMalformed | RpcOversized | RpcUnsupportedVersion | RpcUnknownMethod | RpcValidation | RpcNotFound | RpcConflict
  | RpcPersistence | RpcTimeout | RpcRuntimeLost | RpcResultInvalid | RpcUnavailable | RpcInternal

record rpc_error =
  re_code :: rpc_error_code
  re_message :: string
  re_active_agent_id :: "string option"

text \<open>Every message the service passes is plain ASCII, so that cutting it is cutting its bytes.\<close>

definition RpcError_new :: "rpc_error_code \<Rightarrow> string \<Rightarrow> rpc_error" where
  "RpcError_new code message = \<lparr>re_code = code, re_message = take 512 message, re_active_agent_id = None\<rparr>"

definition workspace_busy_prefix :: string where "workspace_busy_prefix = ''WORKSPACE_BUSY active_agent_id=''"

fun map_store :: "store_error \<Rightarrow> rpc_error" where
  "map_store LegacySchemaUnsupported = RpcError_new RpcPersistence ''STORE_SCHEMA_VERSION_UNSUPPORTED''"
| "map_store (Sqlite m) = RpcError_new RpcPersistence ''durable store operation failed''"
| "map_store (Conflict m) =
     (if starts_with ''WORKSPACE_BUSY'' m
      then (RpcError_new RpcConflict ''WORKSPACE_BUSY'')\<lparr>re_active_agent_id := strip_prefix workspace_busy_prefix m\<rparr>
      else RpcError_new RpcConflict ''durable state conflict'')"
| "map_store (InvalidState m) = RpcError_new RpcValidation ''durable state rejected the operation''"

fun map_scheduler :: "sched_error \<Rightarrow> rpc_error" where
  "map_scheduler (SchedStore e) = map_store e"
| "map_scheduler (InvalidConfig m) = RpcError_new RpcValidation ''scheduler rejected the operation''"
| "map_scheduler (RuntimeSpawn a m) = RpcError_new RpcRuntimeLost ''runtime operation failed''"
| "map_scheduler (LifecycleSinkFailed a m) = RpcError_new RpcRuntimeLost ''runtime operation failed''"
| "map_scheduler (RuntimeCommand a m) = RpcError_new RpcUnavailable ''runtime command failed''"

section \<open>Validation\<close>

definition valid_request_id :: "string \<Rightarrow> bool" where
  "valid_request_id v \<longleftrightarrow> v \<noteq> [] \<and> length v \<le> MAX_REQUEST_ID_BYTES \<and> \<not> has_nul v"

definition rpc_validate_text :: "string \<Rightarrow> string \<Rightarrow> nat \<Rightarrow> rpc_error + unit" where
  "rpc_validate_text v field limit =
     (if v = [] \<or> length v > limit \<or> has_nul v then Inl (RpcError_new RpcValidation (field @ '' is invalid'')) else Inr ())"

definition rpc_validate_id :: "string \<Rightarrow> string \<Rightarrow> rpc_error + unit" where
  "rpc_validate_id v field = rpc_validate_text v field 256"

definition rpc_command_byte :: "char \<Rightarrow> bool" where
  "rpc_command_byte c \<longleftrightarrow> is_alphanumeric c \<or> c \<in> {CHR ''-'', CHR ''_'', CHR ''.'', CHR '':''}"

definition validate_command_ids :: "string list \<Rightarrow> string \<Rightarrow> rpc_error + unit" where
  "validate_command_ids vs field =
     (if length vs > 128 then Inl (RpcError_new RpcValidation (field @ '' exceeds the selection cap''))
      else if list_all (\<lambda>v. v \<noteq> [] \<and> length v \<le> 256 \<and> list_all rpc_command_byte v) vs \<and> distinct vs then Inr ()
      else Inl (RpcError_new RpcValidation (field @ '' must contain exact unique command ids'')))"

definition parse_task_cursor :: "string \<Rightarrow> rpc_error + nat" where
  "parse_task_cursor cursor =
     (case Option.bind (strip_prefix ''task:'' cursor) (parse_uint u64_max) of
        Some n \<Rightarrow> if n > 0 then Inr n else Inl (RpcError_new RpcValidation ''task cursor is invalid'')
      | None \<Rightarrow> Inl (RpcError_new RpcValidation ''task cursor is invalid''))"

definition format_task_cursor :: "nat \<Rightarrow> string" where
  "format_task_cursor n = ''task:'' @ show_nat n"

definition public_artifact_kind :: "string \<Rightarrow> rpc_error + string" where
  "public_artifact_kind stored =
     (if stored = ''changes_patch'' then Inr ''changes_patch''
      else Inl (RpcError_new RpcResultInvalid ''stored artifact kind is not supported''))"

section \<open>Methods\<close>

record task_list_query =
  tq_repository :: "string option"
  tq_group_id :: "string option"
  tq_phase :: "task_phase option"
  tq_outcome :: "task_outcome option"
  tq_cursor :: "string option"
  tq_limit :: nat

record task_artifact_query =
  aq_agent_id :: string
  aq_artifact_id :: string
  aq_offset_bytes :: nat
  aq_limit_bytes :: nat

record general_submit_input =
  gi_manifest :: general_manifest
  gi_group_id :: "string option"
  gi_allowed_command_ids :: "string list"
  gi_required_command_ids :: "string list"

record task_poll_query =
  pq_agent_id :: string
  pq_after_revision :: nat
  pq_timeout_ms :: nat

record message_input =
  mi_agent_id :: string
  mi_message_id :: string
  mi_mode :: string
  mi_content :: string

datatype response_decision = DecideAllow | DecideDeny | DecideAnswer

fun decision_as_str :: "response_decision \<Rightarrow> string" where
  "decision_as_str DecideAllow = ''allow''"
| "decision_as_str DecideDeny = ''deny''"
| "decision_as_str DecideAnswer = ''answer''"

record respond_input =
  ri_agent_id :: string
  ri_request_id :: string
  ri_decision :: response_decision
  ri_content :: "string option"

datatype rpc_method =
    SystemStatus
  | SubmitGeneral general_submit_input
  | TaskList task_list_query
  | TaskPoll task_poll_query
  | TaskMessage message_input
  | TaskRespond respond_input
  | TaskCancel string
  | TaskResult string
  | TaskArtifact task_artifact_query
  | TaskClose string

definition known_methods :: "string list" where
  "known_methods = [''system_status'', ''submit_general'', ''task_list'', ''task_poll'', ''task_message'', ''task_respond'',
     ''task_cancel'', ''task_result'', ''task_artifact'', ''task_close'']"

section \<open>Views\<close>

record task_view =
  tv_agent_id :: string
  tv_phase :: string
  tv_outcome :: "task_outcome option"
  tv_effective_budget :: effective_budget
  tv_stop_requested :: bool
  tv_close_requested :: bool
  tv_closed :: bool
  tv_reaped :: bool

fun phase_text :: "task_phase \<Rightarrow> string" where
  "phase_text Queued = ''QUEUED''"
| "phase_text Preparing = ''PREPARING''"
| "phase_text Running = ''RUNNING''"
| "phase_text WaitingInput = ''WAITING_INPUT''"
| "phase_text Cancelling = ''CANCELLING''"
| "phase_text Terminal = ''TERMINAL''"

definition task_view_of :: "task_record \<Rightarrow> task_view" where
  "task_view_of t =
     \<lparr>tv_agent_id = tr_agent_id t, tv_phase = phase_text (tr_phase t), tv_outcome = tr_outcome t,
      tv_effective_budget = tr_effective_budget t, tv_stop_requested = tr_stop_requested t,
      tv_close_requested = tr_close_requested t, tv_closed = (tr_closed_at t \<noteq> None), tv_reaped = (tr_reaped_at t \<noteq> None)\<rparr>"

datatype activity_state_view = ActivityQueued | ActivityPreparing | ActivityActive | ActivityWaitingInput | ActivityCancelling | ActivityIdle
  | ActivityTerminal

datatype telemetry_status_view = TelemetryHealthy | TelemetryDegraded | TelemetryUnavailable

fun activity_state_of :: "task_phase \<Rightarrow> activity_state_view" where
  "activity_state_of Queued = ActivityQueued"
| "activity_state_of Preparing = ActivityPreparing"
| "activity_state_of Running = ActivityActive"
| "activity_state_of WaitingInput = ActivityWaitingInput"
| "activity_state_of Cancelling = ActivityCancelling"
| "activity_state_of Terminal = ActivityTerminal"

record task_activity_view =
  av_state :: activity_state_view
  av_last_runtime_event_at :: "nat option"
  av_last_activity_age_ms :: "nat option"
  av_model_request_active :: bool
  av_model_request_age_ms :: "nat option"
  av_model_last_delta_age_ms :: "nat option"
  av_latest_text_tail :: string
  av_latest_text_updated_at :: "nat option"
  av_latest_text_truncated :: bool
  av_active_tools :: "(string \<times> passive_tool_kind) list"
  av_window_60s :: activity_window
  av_telemetry_status :: telemetry_status_view

definition task_activity_view_of :: "task_phase \<Rightarrow> activity_snapshot option \<Rightarrow> task_activity_view" where
  "task_activity_view_of phase snapshot =
     (case snapshot of
        None \<Rightarrow>
          \<lparr>av_state = activity_state_of phase, av_last_runtime_event_at = None, av_last_activity_age_ms = None,
           av_model_request_active = False, av_model_request_age_ms = None, av_model_last_delta_age_ms = None,
           av_latest_text_tail = [], av_latest_text_updated_at = None, av_latest_text_truncated = False, av_active_tools = [],
           av_window_60s = empty_window, av_telemetry_status = TelemetryUnavailable\<rparr>
      | Some sn \<Rightarrow>
          \<lparr>av_state = activity_state_of phase, av_last_runtime_event_at = sn_last_runtime_event_at sn,
           av_last_activity_age_ms = sn_last_activity_age_ms sn, av_model_request_active = sn_model_request_active sn,
           av_model_request_age_ms = sn_model_request_age_ms sn, av_model_last_delta_age_ms = sn_model_last_delta_age_ms sn,
           av_latest_text_tail = sn_latest_text_tail sn, av_latest_text_updated_at = sn_latest_text_updated_at sn,
           av_latest_text_truncated = sn_latest_text_truncated sn, av_active_tools = sn_active_tools sn,
           av_window_60s = sn_window_60s sn,
           av_telemetry_status = (if sn_telemetry_degraded sn then TelemetryDegraded else TelemetryHealthy)\<rparr>)"

record pending_request_view =
  pv_request_id :: string
  pv_kind :: string
  pv_state :: pending_state
  pv_respondable :: bool
  pv_tool_name :: "string option"
  pv_operation :: string
  pv_summary :: string
  pv_policy_preview :: string

definition operation_category :: "string \<Rightarrow> string" where
  "operation_category tool_name =
     (let name = to_ascii_lowercase tool_name in
      if name \<in> {''read'', ''grep'', ''glob''} then ''read''
      else if name \<in> {''write'', ''edit'', ''delete'', ''move''} then ''write''
      else if name \<in> {''execute'', ''terminal''} then ''command''
      else if name = ''network'' then ''network''
      else if name = ''git_ref_mutation'' then ''git_ref_mutation'' else ''unknown'')"

definition take_chars :: "nat \<Rightarrow> string \<Rightarrow> string" where
  "take_chars n s = concat (take n (utf8_chars s))"

text \<open>A string member of the input as a path, and the first 96 characters of its last component.\<close>

definition leaf_name :: "json \<Rightarrow> string \<Rightarrow> string option" where
  "leaf_name input name =
     map_option (take_chars 96) (Option.bind (json_get_str name input) file_name)"

definition or_else :: "'a option \<Rightarrow> 'a option \<Rightarrow> 'a option" where
  "or_else a b = (case a of Some x \<Rightarrow> Some x | None \<Rightarrow> b)"

definition sanitized_permission_summary :: "json \<Rightarrow> string" where
  "sanitized_permission_summary params =
     (let input = (case json_get ''input'' params of Some v \<Rightarrow> v | None \<Rightarrow> JNull) in
      case leaf_name input ''program'' of
        Some program \<Rightarrow>
          ''command '' @ program @ '' with ''
            @ show_nat (case Option.bind (json_get ''args'' input) json_as_array of Some vs \<Rightarrow> length vs | None \<Rightarrow> 0) @ '' arguments''
      | None \<Rightarrow>
          (case or_else (leaf_name input ''path'') (or_else (leaf_name input ''destination'') (leaf_name input ''source'')) of
             Some path \<Rightarrow> ''target '' @ path
           | None \<Rightarrow>
               if map_option to_ascii_lowercase (json_get_str ''toolName'' params) = Some ''git_ref_mutation'' then ''Git reference mutation''
               else ''permission request''))"

text \<open>\<open>None\<close> is the panic of the policy on a bare \<^verbatim>\<open>git\<close>.\<close>

definition policy_preview :: "file_system \<Rightarrow> policy_launcher option \<Rightarrow> json option \<Rightarrow> string option" where
  "policy_preview fs policy params =
     (case (params, policy) of
        (Some v, Some pl) \<Rightarrow>
          map_option (\<lambda>d. if pd_allowed d then ''externally_decidable'' else ''hard_deny'') (decide_zcode_permission fs pl v Allow)
      | _ \<Rightarrow> Some ''unknown'')"

definition pending_request_view_of ::
    "(string \<Rightarrow> json option) \<Rightarrow> file_system \<Rightarrow> policy_launcher option \<Rightarrow> pending_row \<Rightarrow> pending_request_view option" where
  "pending_request_view_of parse fs policy r =
     (if pr_request_type r \<noteq> ''permission''
      then Some \<lparr>pv_request_id = pr_request_id r, pv_kind = ''unsupported_input'', pv_state = pr_state r, pv_respondable = False,
             pv_tool_name = None, pv_operation = ''user_input'', pv_summary = ''unsupported user input request'', pv_policy_preview = ''unknown''\<rparr>
      else
        (let params = parse (pr_payload_json r);
             tool_name = map_option (take_chars 64) (Option.bind params (json_get_str ''toolName''))
         in map_option (\<lambda>preview.
              \<lparr>pv_request_id = pr_request_id r, pv_kind = ''permission'', pv_state = pr_state r, pv_respondable = True,
               pv_tool_name = tool_name,
               pv_operation = (case tool_name of Some n \<Rightarrow> operation_category n | None \<Rightarrow> ''unknown''),
               pv_summary = (case params of Some v \<Rightarrow> sanitized_permission_summary v | None \<Rightarrow> ''unrecognized permission request''),
               pv_policy_preview = preview\<rparr>) (policy_preview fs policy params)))"

record task_result_view =
  rv_result :: task_result
  rv_retained :: bool
  rv_result_sha256 :: string

definition task_result_view_of :: "stored_task_result \<Rightarrow> task_result_view" where
  "task_result_view_of stored = \<lparr>rv_result = sr_result stored, rv_retained = sr_retained stored, rv_result_sha256 = sr_result_sha256 stored\<rparr>"

record artifact_chunk_view =
  ck_artifact_id :: string
  ck_sha256 :: string
  ck_size_bytes :: nat
  ck_offset_bytes :: nat
  ck_bytes :: string
  ck_eof :: bool

datatype component_state_view = ComponentReady | ComponentDegraded | ComponentUnavailable | ComponentUnknown

record system_status_view =
  ss_api_surface :: string
  ss_protocol_version :: nat
  ss_service_generation :: string
  ss_components :: "(string \<times> component_state_view) list"
  ss_hard_budget_caps :: effective_budget
  ss_max_rpc_frame_bytes :: nat
  ss_max_wait_ms :: nat
  ss_named_checks :: bool

datatype rpc_success =
    SystemStatusSuccess system_status_view
  | GeneralSubmitted task_view submission_disposition
  | TaskListed "task_view list" "string option"
  | TaskPolled task_view nat "pending_request_view list" bool task_activity_view bool
  | TaskResultSuccess task_view "task_result_view option" "artifact_metadata list"
  | TaskArtifactSuccess artifact_chunk_view
  | MessageSuccess message_disposition task_view
  | RespondSuccess response_outcome task_view
  | StoppedSuccess task_view
  | ClosedSuccess task_view

record rpc_response =
  rsp_request_id :: "string option"
  rsp_outcome :: "rpc_error + rpc_success"

definition RpcResponse_success :: "string \<Rightarrow> rpc_success \<Rightarrow> rpc_response" where
  "RpcResponse_success request_id result = \<lparr>rsp_request_id = Some request_id, rsp_outcome = Inr result\<rparr>"

definition RpcResponse_error :: "string option \<Rightarrow> rpc_error \<Rightarrow> rpc_response" where
  "RpcResponse_error request_id e = \<lparr>rsp_request_id = request_id, rsp_outcome = Inl e\<rparr>"

end
