(* ===== verification/Rpc_Text.thy ===== *)
theory Rpc_Text
  imports Rpc_Views
begin

text \<open>
  What a response looks like on the wire: the derived serializers of \<^verbatim>\<open>rpc.rs\<close> as JSON values, and the compact text
  of a value. The text is the documented format of \<^verbatim>\<open>serde_json::to_vec\<close>: no white space, control characters, quotes
  and backslashes escaped, everything else as it is.
\<close>

section \<open>Compact JSON\<close>

definition hex_digit :: "nat \<Rightarrow> char" where
  "hex_digit n = (if n < 10 then char_of (48 + n) else char_of (87 + n))"

definition escape_char :: "char \<Rightarrow> string" where
  "escape_char c =
     (let n = (of_char c :: nat) in
      if n = 34 then [CHR 0x5C, CHR 0x22]
      else if n = 92 then [CHR 0x5C, CHR 0x5C]
      else if n = 8 then [CHR 0x5C, CHR ''b'']
      else if n = 9 then [CHR 0x5C, CHR ''t'']
      else if n = 10 then [CHR 0x5C, CHR ''n'']
      else if n = 12 then [CHR 0x5C, CHR ''f'']
      else if n = 13 then [CHR 0x5C, CHR ''r'']
      else if n < 32 then [CHR 0x5C, CHR ''u'', CHR ''0'', CHR ''0'', hex_digit (n div 16), hex_digit (n mod 16)]
      else [c])"

definition json_quoted :: "string \<Rightarrow> string" where
  "json_quoted s = [CHR 0x22] @ concat (map escape_char s) @ [CHR 0x22]"

fun compact :: "json \<Rightarrow> string" where
  "compact JNull = ''null''"
| "compact (JBool b) = (if b then ''true'' else ''false'')"
| "compact (JNum n) = show_int n"
| "compact (JFloat s) = s"
| "compact (JString s) = json_quoted s"
| "compact (JArray vs) = ''['' @ join_with (CHR '','') (map compact vs) @ '']''"
| "compact (JObject ms) = ''{'' @ join_with (CHR '','') (map (\<lambda>(k, v). json_quoted k @ '':'' @ compact v) ms) @ ''}''"

section \<open>Responses\<close>

definition jopt :: "('a \<Rightarrow> json) \<Rightarrow> 'a option \<Rightarrow> json" where
  "jopt f x = (case x of Some v \<Rightarrow> f v | None \<Rightarrow> JNull)"

fun outcome_json :: "task_outcome \<Rightarrow> json" where
  "outcome_json v = JString (TaskOutcome_as_str v)"

definition task_view_json :: "task_view \<Rightarrow> json" where
  "task_view_json v = JObject [(''agent_id'', JString (tv_agent_id v)), (''phase'', JString (tv_phase v)),
     (''outcome'', jopt outcome_json (tv_outcome v)), (''effective_budget'', budget_json (tv_effective_budget v)),
     (''stop_requested'', JBool (tv_stop_requested v)), (''close_requested'', JBool (tv_close_requested v)),
     (''closed'', JBool (tv_closed v)), (''reaped'', JBool (tv_reaped v))]"

definition result_artifact_json :: "result_artifact \<Rightarrow> json" where
  "result_artifact_json a = JObject [(''kind'', JString ''changes_patch''), (''artifact_id'', JString (ra_artifact_id a)),
     (''sha256'', JString (ra_sha256 a))]"

definition task_result_view_json :: "task_result_view \<Rightarrow> json" where
  "task_result_view_json v = (let r = rv_result v in
     JObject [(''outcome'', outcome_json (rs_outcome r)), (''final_text'', JString (rs_final_text r)), (''partial'', JBool (rs_partial r)),
       (''retained'', JBool (rv_retained v)), (''base_commit'', jopt JString (rs_base_commit r)),
       (''head_commit'', jopt JString (rs_head_commit r)), (''changed_files'', jstrings (rs_changed_files r)),
       (''diff_stat'', jopt JString (rs_diff_stat r)), (''checks'', jstrings (rs_checks r)),
       (''residual_gaps'', jstrings (rs_residual_gaps r)), (''artifacts'', JArray (map result_artifact_json (rs_artifacts r))),
       (''result_sha256'', JString (rv_result_sha256 v))])"

definition artifact_metadata_json :: "artifact_metadata \<Rightarrow> json" where
  "artifact_metadata_json m = JObject [(''artifact_id'', JString (am_artifact_id m)), (''kind'', JString (am_kind m)),
     (''sha256'', JString (am_sha256 m)), (''size_bytes'', jnat (am_size_bytes m))]"

definition artifact_chunk_json :: "artifact_chunk_view \<Rightarrow> json" where
  "artifact_chunk_json c = JObject [(''artifact_id'', JString (ck_artifact_id c)), (''sha256'', JString (ck_sha256 c)),
     (''size_bytes'', jnat (ck_size_bytes c)), (''offset_bytes'', jnat (ck_offset_bytes c)),
     (''bytes'', JArray (map (\<lambda>b. jnat (of_char b)) (ck_bytes c))), (''eof'', JBool (ck_eof c))]"

fun pending_state_json :: "pending_state \<Rightarrow> json" where
  "pending_state_json ReqPending = JString ''pending''"
| "pending_state_json ReqSending = JString ''sending''"
| "pending_state_json ReqResponded = JString ''responded''"

definition pending_request_json :: "pending_request_view \<Rightarrow> json" where
  "pending_request_json v = JObject [(''request_id'', JString (pv_request_id v)), (''kind'', JString (pv_kind v)),
     (''state'', pending_state_json (pv_state v)), (''respondable'', JBool (pv_respondable v)),
     (''tool_name'', jopt JString (pv_tool_name v)), (''operation'', JString (pv_operation v)), (''summary'', JString (pv_summary v)),
     (''policy_preview'', JString (pv_policy_preview v))]"

fun activity_state_json :: "activity_state_view \<Rightarrow> json" where
  "activity_state_json ActivityQueued = JString ''queued''"
| "activity_state_json ActivityPreparing = JString ''preparing''"
| "activity_state_json ActivityActive = JString ''active''"
| "activity_state_json ActivityWaitingInput = JString ''waiting_input''"
| "activity_state_json ActivityCancelling = JString ''cancelling''"
| "activity_state_json ActivityIdle = JString ''idle''"
| "activity_state_json ActivityTerminal = JString ''terminal''"

fun tool_kind_json :: "passive_tool_kind \<Rightarrow> json" where
  "tool_kind_json ReadTool = JString ''read''"
| "tool_kind_json BashTool = JString ''bash''"
| "tool_kind_json OtherTool = JString ''other''"

fun telemetry_json :: "telemetry_status_view \<Rightarrow> json" where
  "telemetry_json TelemetryHealthy = JString ''healthy''"
| "telemetry_json TelemetryDegraded = JString ''degraded''"
| "telemetry_json TelemetryUnavailable = JString ''unavailable''"

definition window_json :: "activity_window \<Rightarrow> json" where
  "window_json w = JObject [(''reasoning_delta_events'', jnat (aw_reasoning_delta_events w)),
     (''reasoning_delta_bytes'', jnat (aw_reasoning_delta_bytes w)), (''text_delta_events'', jnat (aw_text_delta_events w)),
     (''text_delta_bytes'', jnat (aw_text_delta_bytes w)), (''tool_calls_started'', jnat (aw_tool_calls_started w)),
     (''tool_calls_completed'', jnat (aw_tool_calls_completed w)), (''tool_calls_failed'', jnat (aw_tool_calls_failed w)),
     (''read_calls'', jnat (aw_read_calls w)), (''bash_calls'', jnat (aw_bash_calls w)), (''other_tool_calls'', jnat (aw_other_tool_calls w))]"

definition activity_json :: "task_activity_view \<Rightarrow> json" where
  "activity_json v = JObject [(''state'', activity_state_json (av_state v)),
     (''last_runtime_event_at'', jopt jnat (av_last_runtime_event_at v)), (''last_activity_age_ms'', jopt jnat (av_last_activity_age_ms v)),
     (''model_request_active'', JBool (av_model_request_active v)), (''model_request_age_ms'', jopt jnat (av_model_request_age_ms v)),
     (''model_last_delta_age_ms'', jopt jnat (av_model_last_delta_age_ms v)), (''latest_text_tail'', JString (av_latest_text_tail v)),
     (''latest_text_updated_at'', jopt jnat (av_latest_text_updated_at v)), (''latest_text_truncated'', JBool (av_latest_text_truncated v)),
     (''active_tools'', JArray (map (\<lambda>(i, k). JObject [(''tool_call_id'', JString i), (''kind'', tool_kind_json k)]) (av_active_tools v))),
     (''window_60s'', window_json (av_window_60s v)), (''telemetry_status'', telemetry_json (av_telemetry_status v))]"

fun component_json :: "component_state_view \<Rightarrow> json" where
  "component_json ComponentReady = JString ''READY''"
| "component_json ComponentDegraded = JString ''DEGRADED''"
| "component_json ComponentUnavailable = JString ''UNAVAILABLE''"
| "component_json ComponentUnknown = JString ''UNKNOWN''"

definition status_json :: "system_status_view \<Rightarrow> json" where
  "status_json v = JObject [(''api_surface'', JString (ss_api_surface v)), (''protocol_version'', jnat (ss_protocol_version v)),
     (''service_generation'', JString (ss_service_generation v)),
     (''components'', JObject (map (\<lambda>(k, c). (k, component_json c)) (ss_components v))),
     (''capabilities'', JObject [(''hard_budget_caps'', limits_json (ss_hard_budget_caps v)),
        (''max_rpc_frame_bytes'', jnat (ss_max_rpc_frame_bytes v)), (''max_wait_ms'', jnat (ss_max_wait_ms v)),
        (''named_checks'', JBool (ss_named_checks v)), (''maturity'', JObject [])])]"

fun submission_disposition_json :: "submission_disposition \<Rightarrow> json" where
  "submission_disposition_json Created = JString ''created''"
| "submission_disposition_json Existing = JString ''existing''"

fun message_disposition_json :: "message_disposition \<Rightarrow> json" where
  "message_disposition_json MessageQueued = JString ''queued''"
| "message_disposition_json MessageDelivered = JString ''delivered''"
| "message_disposition_json MessageAlreadyDelivered = JString ''already_delivered''"
| "message_disposition_json MessageFailed = JString ''failed''"

fun response_disposition_json :: "response_disposition \<Rightarrow> json" where
  "response_disposition_json Responded = JString ''responded''"
| "response_disposition_json AlreadyResponded = JString ''already_responded''"
| "response_disposition_json InFlight = JString ''in_flight''"

definition response_outcome_json :: "response_outcome \<Rightarrow> json" where
  "response_outcome_json v = JObject ([(''disposition'', response_disposition_json (rp_disposition v)),
     (''requested_decision'', JString (rp_requested_decision v)), (''effective_decision'', JString (rp_effective_decision v)),
     (''policy_overrode'', JBool (rp_policy_overrode v))]
     @ (case rp_policy_reason_code v of Some c \<Rightarrow> [(''policy_reason_code'', JString c)] | None \<Rightarrow> []))"

fun success_members :: "rpc_success \<Rightarrow> (string \<times> json) list" where
  "success_members (SystemStatusSuccess v) = [(''kind'', JString ''system_status''), (''status'', status_json v)]"
| "success_members (GeneralSubmitted t d) =
     [(''kind'', JString ''general_submitted''), (''task'', task_view_json t), (''disposition'', submission_disposition_json d)]"
| "success_members (TaskListed ts c) =
     [(''kind'', JString ''task_listed''), (''tasks'', JArray (map task_view_json ts)), (''next_cursor'', jopt JString c)]"
| "success_members (TaskPolled t revision ps available a timed_out) =
     [(''kind'', JString ''task_poll''), (''task'', task_view_json t), (''revision'', jnat revision), (''next_revision'', jnat revision),
      (''pending_requests'', JArray (map pending_request_json ps)), (''result_available'', JBool available), (''activity'', activity_json a),
      (''timed_out'', JBool timed_out)]"
| "success_members (TaskResultSuccess t r as) =
     [(''kind'', JString ''task_result''), (''task'', task_view_json t), (''result'', jopt task_result_view_json r),
      (''artifacts'', JArray (map artifact_metadata_json as))]"
| "success_members (TaskArtifactSuccess c) = [(''kind'', JString ''task_artifact''), (''chunk'', artifact_chunk_json c)]"
| "success_members (MessageSuccess d t) =
     [(''kind'', JString ''message''), (''disposition'', message_disposition_json d), (''task'', task_view_json t)]"
| "success_members (RespondSuccess o' t) =
     [(''kind'', JString ''respond''), (''outcome'', response_outcome_json o'), (''task'', task_view_json t)]"
| "success_members (StoppedSuccess t) = [(''kind'', JString ''stopped''), (''task'', task_view_json t)]"
| "success_members (ClosedSuccess t) = [(''kind'', JString ''closed''), (''task'', task_view_json t)]"

fun error_code_text :: "rpc_error_code \<Rightarrow> string" where
  "error_code_text RpcMalformed = ''malformed''"
| "error_code_text RpcOversized = ''oversized''"
| "error_code_text RpcUnsupportedVersion = ''unsupported_version''"
| "error_code_text RpcUnknownMethod = ''unknown_method''"
| "error_code_text RpcValidation = ''validation''"
| "error_code_text RpcNotFound = ''not_found''"
| "error_code_text RpcConflict = ''conflict''"
| "error_code_text RpcPersistence = ''persistence''"
| "error_code_text RpcTimeout = ''timeout''"
| "error_code_text RpcRuntimeLost = ''runtime_lost''"
| "error_code_text RpcResultInvalid = ''result_invalid''"
| "error_code_text RpcUnavailable = ''unavailable''"
| "error_code_text RpcInternal = ''internal''"

definition error_json :: "rpc_error \<Rightarrow> json" where
  "error_json e = JObject ([(''code'', JString (error_code_text (re_code e))), (''message'', JString (re_message e))]
     @ (case re_active_agent_id e of Some a \<Rightarrow> [(''active_agent_id'', JString a)] | None \<Rightarrow> []))"

definition rpc_response_json :: "rpc_response \<Rightarrow> json" where
  "rpc_response_json r = JObject ([(''version'', jnat RPC_VERSION), (''request_id'', jopt JString (rsp_request_id r))]
     @ (case rsp_outcome r of
          Inr result \<Rightarrow> [(''outcome'', JString ''success''), (''result'', JObject (success_members result))]
        | Inl e \<Rightarrow> [(''outcome'', JString ''error''), (''error'', error_json e)]))"

section \<open>Whether a result can be sent\<close>

definition terminal_result_response :: "task_record \<Rightarrow> task_result \<Rightarrow> artifact_metadata list \<Rightarrow> string \<Rightarrow> rpc_response" where
  "terminal_result_response task result as request_id =
     RpcResponse_success request_id
       (TaskResultSuccess ((task_view_of task)\<lparr>tv_phase := ''TERMINAL'', tv_outcome := Some (rs_outcome result)\<rparr>)
          (Some (task_result_view_of \<lparr>sr_result = result, sr_result_sha256 = replicate 64 CHR ''0'', sr_retained = False\<rparr>)) as)"

definition terminal_result_response_size :: "(json \<Rightarrow> string) \<Rightarrow> task_record \<Rightarrow> task_result \<Rightarrow> artifact_metadata list \<Rightarrow> string \<Rightarrow> nat" where
  "terminal_result_response_size to_vec task result as request_id =
     length (to_vec (rpc_response_json (terminal_result_response task result as request_id)))"

definition terminal_result_response_fits :: "(json \<Rightarrow> string) \<Rightarrow> task_record \<Rightarrow> task_result \<Rightarrow> artifact_metadata list \<Rightarrow> bool" where
  "terminal_result_response_fits to_vec task result as \<longleftrightarrow>
     terminal_result_response_size to_vec task result as (replicate MAX_REQUEST_ID_BYTES CHR 0x01) \<le> MAX_FRAME_BYTES"

end
