(* ===== verification/Rpc_Service.thy ===== *)
theory Rpc_Service
  imports Rpc_Text
begin

text \<open>
  The service of the private RPC (\<^verbatim>\<open>impl RpcService\<close> of \<^verbatim>\<open>zcode-agentd/src/rpc.rs\<close>): the methods a client calls, and
  the handling of one request frame. A method runs on the state of the scheduler, and other threads act between its steps.

  \<open>rp_decode\<close> is the derived deserializer of \<^verbatim>\<open>RpcRequest\<close>; \<open>rp_open\<close> opens a file and \<open>rp_bytes\<close> is what the open file
  holds, so that a file that is replaced after it was opened is not the file that is read.
\<close>

record 'w rpc_io =
  rp_sched :: "'w sched_io"
  rp_prepare :: prepare_env
  rp_catalog :: catalog
  rp_service_generation :: string
  rp_decode :: "json \<Rightarrow> (string \<times> rpc_method) option"
  rp_journal_mode :: "'w \<Rightarrow> string option"
  rp_open :: "string \<Rightarrow> 'w \<Rightarrow> nat option"
  rp_bytes :: "nat \<Rightarrow> 'w \<Rightarrow> string option"
  rp_sleep :: "nat \<Rightarrow> 'w \<Rightarrow> 'w"

type_synonym ('w, 'a) rpc_cmd = "('w sched, rpc_error, 'a) cmd"

text \<open>A call of the scheduler or of the store, and a question to the world.\<close>

abbreviation rpc_call :: "('w, 'a) sched_cmd \<Rightarrow> ('w, 'a) rpc_cmd" where
  "rpc_call \<equiv> sc_map_err map_scheduler"

abbreviation rpc_store :: "'w rpc_io \<Rightarrow> (store \<Rightarrow> 'a store_result) \<Rightarrow> ('w, 'a) rpc_cmd" where
  "rpc_store rp q \<equiv> rpc_call (sc_read (rp_sched rp) q)"

abbreviation rpc_get :: "'w rpc_io \<Rightarrow> ('w sched \<Rightarrow> 'a) \<Rightarrow> ('w, 'a) rpc_cmd" where
  "rpc_get rp f \<equiv> rpc_call (sc_get (rp_sched rp) f)"

abbreviation invalid_result :: "string \<Rightarrow> rpc_error" where
  "invalid_result \<equiv> RpcError_new RpcResultInvalid"

section \<open>The system status\<close>

definition hard_budget_caps :: effective_budget where
  "hard_budget_caps =
     \<lparr>absolute_wall_time_ms = 86400000, runtime_activity_idle_timeout_ms = 86400000, model_stream_idle_timeout_ms = 86400000,
      tool_call_timeout_ms = 86400000, input_wait_timeout_ms = 86400000, max_turns = 1024, max_tool_calls = 4096,
      max_context_bytes = 16777216, max_result_bytes = 16777216, max_artifact_bytes = 268435456\<rparr>"

fun store_state :: "string option \<Rightarrow> component_state_view" where
  "store_state (Some mode) = (if to_ascii_lowercase mode = ''wal'' then ComponentReady else ComponentDegraded)"
| "store_state None = ComponentUnavailable"

text \<open>The components stand in the order of their names, as in a \<^verbatim>\<open>BTreeMap\<close>.\<close>

definition system_status :: "'w rpc_io \<Rightarrow> ('w, system_status_view) rpc_cmd" where
  "system_status rp =
     sc_bind (rpc_get rp (\<lambda>s. rp_journal_mode rp (sc_world s))) (\<lambda>mode.
       sc_ok \<lparr>ss_api_surface = ''generic_agent'', ss_protocol_version = RPC_VERSION, ss_service_generation = rp_service_generation rp,
         ss_components = [(''daemon'', ComponentReady), (''driver'', ComponentUnknown), (''facade'', ComponentUnknown),
           (''model_auth'', ComponentUnknown), (''runtime'', ComponentUnknown), (''scheduler'', ComponentReady), (''store'', store_state mode)],
         ss_hard_budget_caps = hard_budget_caps, ss_max_rpc_frame_bytes = MAX_FRAME_BYTES, ss_max_wait_ms = MAX_WAIT div 1000000,
         ss_named_checks = (rp_catalog rp \<noteq> [])\<rparr>)"

section \<open>Reading a task\<close>

definition require_task :: "'w rpc_io \<Rightarrow> string \<Rightarrow> ('w, task_record) rpc_cmd" where
  "require_task rp agent_id =
     (let missing = RpcError_new RpcNotFound ''task was not found'' in
      sc_bind (sc_result (rpc_validate_id agent_id ''agent_id'')) (\<lambda>_.
      sc_bind (rpc_store rp (\<lambda>st. get_task st agent_id)) (\<lambda>found.
      sc_bind (sc_of missing found) (\<lambda>task.
      sc_bind (sc_of missing (Option.bind (env_parse (si_env (rp_sched rp)) (tr_prepared_launch_json task))
                                (ps_decode (si_serde (rp_sched rp))))) (\<lambda>prepared.
        if pg_repository prepared \<noteq> tr_repository task then sc_fail missing else sc_ok task)))))"

text \<open>The digests the result names, the last one for an id that is named twice.\<close>

definition allowed_artifacts :: "stored_task_result option \<Rightarrow> string \<Rightarrow> string option" where
  "allowed_artifacts stored =
     (case stored of
        Some r \<Rightarrow> map_of (rev (map (\<lambda>a. (ra_artifact_id a, ra_sha256 a)) (rs_artifacts (sr_result r))))
      | None \<Rightarrow> Map.empty)"

definition artifact_view :: "artifact_row \<Rightarrow> rpc_error + artifact_metadata" where
  "artifact_view r =
     rbind (public_artifact_kind (ar_artifact_type r)) (\<lambda>kind.
       Inr \<lparr>am_artifact_id = ar_artifact_id r, am_kind = kind, am_sha256 = ar_sha256 r, am_size_bytes = nat (ar_bytes r)\<rparr>)"

definition project_artifacts :: "stored_task_result option \<Rightarrow> artifact_row list \<Rightarrow> rpc_error + artifact_metadata list" where
  "project_artifacts stored rows =
     rbind (collect_results (map artifact_view (filter (\<lambda>r. allowed_artifacts stored (ar_artifact_id r) = Some (ar_sha256 r)) rows)))
       (\<lambda>ms. Inr (sort_key am_artifact_id ms))"

definition task_artifact_metadata :: "'w rpc_io \<Rightarrow> task_record \<Rightarrow> ('w, artifact_metadata list) rpc_cmd" where
  "task_artifact_metadata rp task =
     sc_bind (rpc_store rp (\<lambda>st. Inr (stored_result st (tr_agent_id task)))) (\<lambda>result.
     sc_bind (rpc_store rp (\<lambda>st. artifact_listing st (tr_agent_id task) MAX_PENDING_REQUESTS)) (\<lambda>rows.
       sc_result (project_artifacts result rows)))"

text \<open>
  The digest is computed over what the opened file holds, and the chunk is read from the same
  open file later: a change in between is seen by the second read only.
\<close>

definition verified_artifact_chunk ::
    "'w rpc_io \<Rightarrow> artifact_row \<Rightarrow> artifact_metadata \<Rightarrow> nat \<Rightarrow> nat \<Rightarrow> ('w, artifact_chunk_view) rpc_cmd" where
  "verified_artifact_chunk rp stored expected offset_bytes limit_bytes =
     (let ws = si_workspace (rp_sched rp); path = ar_path stored; size = am_size_bytes expected;
          digest = am_sha256 expected in
      sc_bind (rpc_get rp (\<lambda>s. map_option (\<lambda>k. (k, wo_len ws path (sc_world s))) (wo_kind ws path (sc_world s)))) (\<lambda>found.
      sc_bind (sc_of (invalid_result ''artifact is unavailable'') found) (\<lambda>(kind, len).
      if kind \<noteq> KindFile \<or> len \<noteq> size \<or> nat (ar_bytes stored) \<noteq> size \<or> ar_sha256 stored \<noteq> digest
      then sc_fail (invalid_result ''artifact metadata does not match authoritative bytes'')
      else
      sc_bind (rpc_get rp (\<lambda>s. rp_open rp path (sc_world s))) (\<lambda>opened.
      sc_bind (sc_of (invalid_result ''artifact is unavailable'') opened) (\<lambda>fd.
      sc_bind (rpc_get rp (\<lambda>s. rp_bytes rp fd (sc_world s))) (\<lambda>hashed.
      sc_bind (sc_of (invalid_result ''artifact read failed'') hashed) (\<lambda>content.
      if hash ws content \<noteq> digest
      then sc_fail (invalid_result ''artifact digest does not match authoritative metadata'')
      else
      sc_bind (rpc_get rp (\<lambda>s. rp_bytes rp fd (sc_world s))) (\<lambda>again.
      sc_bind (sc_of (invalid_result ''artifact read failed'') again) (\<lambda>now_held.
        let requested = min (size - offset_bytes) limit_bytes;
            bytes = take requested (drop offset_bytes now_held) in
        if length bytes < requested then sc_fail (invalid_result ''artifact read failed'')
        else sc_ok \<lparr>ck_artifact_id = am_artifact_id expected, ck_sha256 = digest, ck_size_bytes = size,
               ck_offset_bytes = offset_bytes, ck_bytes = bytes, ck_eof = (offset_bytes + length bytes = size)\<rparr>)))))))))"

definition task_artifact_chunk :: "'w rpc_io \<Rightarrow> task_record \<Rightarrow> task_artifact_query \<Rightarrow> ('w, artifact_chunk_view) rpc_cmd" where
  "task_artifact_chunk rp task q =
     (let missing = RpcError_new RpcNotFound ''artifact was not found'' in
      sc_bind (sc_result (rpc_validate_id (aq_artifact_id q) ''artifact_id'')) (\<lambda>_.
      if aq_limit_bytes q = 0 \<or> aq_limit_bytes q > MAX_ARTIFACT_CHUNK_BYTES
      then sc_fail (RpcError_new RpcValidation ''artifact chunk size is outside the allowed range'')
      else
      sc_bind (task_artifact_metadata rp task) (\<lambda>metadata.
      sc_bind (sc_of missing (List.find (\<lambda>m. am_artifact_id m = aq_artifact_id q) metadata)) (\<lambda>expected.
      if aq_offset_bytes q \<ge> am_size_bytes expected
      then sc_fail (RpcError_new RpcValidation ''artifact offset does not permit non-empty progress'')
      else
      sc_bind (rpc_store rp (\<lambda>st. artifact_listing st (tr_agent_id task) MAX_PENDING_REQUESTS)) (\<lambda>rows.
      sc_bind (sc_of missing (List.find (\<lambda>r. ar_artifact_id r = aq_artifact_id q) rows)) (\<lambda>stored.
        verified_artifact_chunk rp stored expected (aq_offset_bytes q) (aq_limit_bytes q)))))))"

section \<open>Waiting for a change\<close>

definition active_policy :: "string \<Rightarrow> 'w sched \<Rightarrow> policy_launcher option" where
  "active_policy agent_id s = Option.bind (map_of (sc_active s) agent_id) ar_policy"

definition passive_activity_snapshot :: "'w rpc_io \<Rightarrow> string \<Rightarrow> ('w, activity_snapshot option) rpc_cmd" where
  "passive_activity_snapshot rp agent_id =
     sc_bind (rpc_call (sc_call (rp_sched rp) (si_now (rp_sched rp)))) (\<lambda>now.
       rpc_get rp (\<lambda>s. map_option (\<lambda>h. snapshot_at now (sk_activity (snd (sc_sinks s h)))) (map_of (sc_activities s) agent_id)))"

definition pending_views :: "'w rpc_io \<Rightarrow> policy_launcher option \<Rightarrow> pending_row list \<Rightarrow> ('w, pending_request_view list) rpc_cmd" where
  "pending_views rp policy rows =
     sc_each (\<lambda>r. sc_bind (rpc_get rp (\<lambda>s. si_fs (rp_sched rp) (sc_world s))) (\<lambda>fs.
       case pending_request_view_of (env_parse (si_env (rp_sched rp))) fs policy r of
         Some v \<Rightarrow> sc_ok v
       | None \<Rightarrow> sc_panic)) rows"

definition poll_now :: "'w rpc_io \<Rightarrow> task_poll_query \<Rightarrow> nat \<Rightarrow> ('w, nat + rpc_success) rpc_cmd" where
  "poll_now rp q deadline =
     sc_bind (require_task rp (pq_agent_id q)) (\<lambda>task.
     sc_bind (rpc_get rp (active_policy (tr_agent_id task))) (\<lambda>policy.
     sc_bind (rpc_store rp (\<lambda>st. pending_requests_bounded st (tr_agent_id task) MAX_PENDING_REQUESTS)) (\<lambda>rows.
     sc_bind (pending_views rp policy rows) (\<lambda>requests.
     sc_bind (rpc_store rp (\<lambda>st. Inr (stored_result st (tr_agent_id task) \<noteq> None))) (\<lambda>available.
     sc_bind (passive_activity_snapshot rp (tr_agent_id task)) (\<lambda>activity.
     sc_bind (rpc_call (sc_call (rp_sched rp) (si_now (rp_sched rp)))) (\<lambda>now.
       let revision = max (case activity of Some a \<Rightarrow> sn_revision a | None \<Rightarrow> 0) (tr_last_event_seq task);
           terminal = (tr_phase task = Terminal) in
       if revision > pq_after_revision q \<or> requests \<noteq> [] \<or> terminal \<or> now \<ge> deadline
       then sc_ok (Inr (TaskPolled (task_view_of task) revision requests available (task_activity_view_of (tr_phase task) activity)
              (revision \<le> pq_after_revision q \<and> requests = [] \<and> \<not> terminal \<and> now \<ge> deadline)))
       else sc_ok (Inl (min (deadline - now) 10000000)))))))))"

fun poll_loop :: "nat \<Rightarrow> 'w rpc_io \<Rightarrow> task_poll_query \<Rightarrow> nat \<Rightarrow> ('w, rpc_success) rpc_cmd" where
  "poll_loop 0 rp q deadline = sc_panic"
| "poll_loop (Suc passes) rp q deadline =
     sc_bind (poll_now rp q deadline) (\<lambda>r.
       case r of
         Inr answer \<Rightarrow> sc_ok answer
       | Inl pause \<Rightarrow>
           sc_bind (rpc_call (sc_call (rp_sched rp) (\<lambda>w. ((), rp_sleep rp pause w)))) (\<lambda>_. poll_loop passes rp q deadline))"

definition task_poll :: "nat \<Rightarrow> 'w rpc_io \<Rightarrow> task_poll_query \<Rightarrow> ('w, rpc_success) rpc_cmd" where
  "task_poll passes rp q =
     (if pq_timeout_ms q * 1000000 > MAX_WAIT
      then sc_fail (RpcError_new RpcValidation ''poll timeout is outside the allowed range'')
      else sc_bind (rpc_call (sc_call (rp_sched rp) (si_now (rp_sched rp)))) (\<lambda>now.
             poll_loop passes rp q (now + pq_timeout_ms q * 1000000)))"

section \<open>The methods\<close>

definition optional_text :: "string option \<Rightarrow> string \<Rightarrow> nat \<Rightarrow> rpc_error + unit" where
  "optional_text v field limit = (case v of Some x \<Rightarrow> rpc_validate_text x field limit | None \<Rightarrow> Inr ())"

definition dispatch_submit :: "'w rpc_io \<Rightarrow> general_submit_input \<Rightarrow> ('w, rpc_success) rpc_cmd" where
  "dispatch_submit rp i =
     sc_bind (sc_result (optional_text (gi_group_id i) ''group_id'' 256)) (\<lambda>_.
     sc_bind (sc_result (validate_command_ids (gi_allowed_command_ids i) ''allowed_command_ids'')) (\<lambda>_.
     sc_bind (sc_result (validate_command_ids (gi_required_command_ids i) ''required_command_ids'')) (\<lambda>_.
     sc_bind (rpc_call (enqueue_general_with_commands (rp_prepare rp) (rp_sched rp) (rp_catalog rp) (gi_manifest i) (gi_group_id i)
                (gi_allowed_command_ids i) (gi_required_command_ids i))) (\<lambda>submitted.
       sc_ok (GeneralSubmitted (task_view_of (st_task submitted)) (st_disposition submitted))))))"

definition scope_repository :: "file_system \<Rightarrow> string option \<Rightarrow> rpc_error + string option" where
  "scope_repository fs repository =
     (case repository of
        None \<Rightarrow> Inr None
      | Some r \<Rightarrow> map_sum (\<lambda>_. RpcError_new RpcValidation ''repository scope is invalid'') Some (canonical_general_repository fs r))"

definition dispatch_list :: "'w rpc_io \<Rightarrow> task_list_query \<Rightarrow> ('w, rpc_success) rpc_cmd" where
  "dispatch_list rp q =
     (if tq_limit q = 0 \<or> tq_limit q > MAX_LIST_TASKS
      then sc_fail (RpcError_new RpcValidation ''task list limit is outside the allowed range'')
      else
      sc_bind (sc_result (optional_text (tq_repository q) ''repository'' 4096)) (\<lambda>_.
      sc_bind (sc_result (optional_text (tq_group_id q) ''group_id'' 256)) (\<lambda>_.
      sc_bind (sc_result (optional_text (tq_cursor q) ''cursor'' 64)) (\<lambda>_.
      if tq_repository q = None \<and> tq_group_id q = None
      then sc_fail (RpcError_new RpcValidation ''at least one task list scope is required'')
      else
      sc_bind (rpc_get rp (\<lambda>s. si_fs (rp_sched rp) (sc_world s))) (\<lambda>fs.
      sc_bind (sc_result (scope_repository fs (tq_repository q))) (\<lambda>repository.
      sc_bind (sc_result (case tq_cursor q of Some c \<Rightarrow> map_sum id Some (parse_task_cursor c) | None \<Rightarrow> Inr None)) (\<lambda>cursor.
      sc_bind (rpc_store rp (\<lambda>st. list_task_page st \<lparr>sc_repository = repository, sc_group_id = tq_group_id q\<rparr>
                 \<lparr>pf_phase = tq_phase q, pf_outcome = tq_outcome q\<rparr> cursor (tq_limit q))) (\<lambda>page.
        sc_ok (TaskListed (map task_view_of (pg_tasks page)) (map_option format_task_cursor (pg_next_cursor page)))))))))))"

definition dispatch_message :: "nat \<Rightarrow> 'w rpc_io \<Rightarrow> message_input \<Rightarrow> ('w, rpc_success) rpc_cmd" where
  "dispatch_message fuel rp i =
     sc_bind (require_task rp (mi_agent_id i)) (\<lambda>task.
     sc_bind (sc_result (rpc_validate_id (mi_message_id i) ''message_id'')) (\<lambda>_.
     if mi_mode i \<noteq> ''queue'' then sc_fail (RpcError_new RpcValidation ''generic agent messages must use queue mode'')
     else
     sc_bind (sc_result (rpc_validate_text (mi_content i) ''content'' 16384)) (\<lambda>_.
     sc_bind (rpc_call (queue_message fuel (rp_sched rp) (tr_agent_id task) (mi_message_id i) (mi_mode i) (mi_content i))) (\<lambda>disposition.
     sc_bind (require_task rp (mi_agent_id i)) (\<lambda>task'.
       sc_ok (MessageSuccess disposition (task_view_of task')))))))"

definition dispatch_respond :: "nat \<Rightarrow> 'w rpc_io \<Rightarrow> respond_input \<Rightarrow> ('w, rpc_success) rpc_cmd" where
  "dispatch_respond fuel rp i =
     sc_bind (require_task rp (ri_agent_id i)) (\<lambda>task.
     sc_bind (sc_result (rpc_validate_id (ri_request_id i) ''request_id'')) (\<lambda>_.
     sc_bind (sc_result (optional_text (ri_content i) ''response content'' 16384)) (\<lambda>_.
     sc_bind (rpc_call (sched_respond_request fuel (rp_sched rp) (tr_agent_id task) (ri_request_id i) (decision_as_str (ri_decision i))
                (ri_content i))) (\<lambda>outcome.
     sc_bind (require_task rp (ri_agent_id i)) (\<lambda>task'.
       sc_ok (RespondSuccess outcome (task_view_of task')))))))"

definition dispatch_result :: "'w rpc_io \<Rightarrow> string \<Rightarrow> ('w, rpc_success) rpc_cmd" where
  "dispatch_result rp agent_id =
     sc_bind (require_task rp agent_id) (\<lambda>task.
     sc_bind (task_artifact_metadata rp task) (\<lambda>artifacts.
     sc_bind (rpc_store rp (\<lambda>st. Inr (stored_result st (tr_agent_id task)))) (\<lambda>result.
       sc_ok (TaskResultSuccess (task_view_of task) (map_option task_result_view_of result) artifacts))))"

text \<open>The clean-up both stop and close share: the task is looked up, changed and looked up again.\<close>

definition dispatch_control ::
    "'w rpc_io \<Rightarrow> string \<Rightarrow> (string \<Rightarrow> ('w, task_phase) sched_cmd) \<Rightarrow> (task_view \<Rightarrow> rpc_success) \<Rightarrow> ('w, rpc_success) rpc_cmd" where
  "dispatch_control rp agent_id change answer =
     sc_bind (require_task rp agent_id) (\<lambda>task.
     sc_bind (rpc_call (change (tr_agent_id task))) (\<lambda>_.
     sc_bind (require_task rp agent_id) (\<lambda>task'. sc_ok (answer (task_view_of task')))))"

fun rpc_dispatch :: "nat \<Rightarrow> nat \<Rightarrow> 'w rpc_io \<Rightarrow> rpc_method \<Rightarrow> ('w, rpc_success) rpc_cmd" where
  "rpc_dispatch passes fuel rp SystemStatus = sc_bind (system_status rp) (\<lambda>v. sc_ok (SystemStatusSuccess v))"
| "rpc_dispatch passes fuel rp (SubmitGeneral i) = dispatch_submit rp i"
| "rpc_dispatch passes fuel rp (TaskList q) = dispatch_list rp q"
| "rpc_dispatch passes fuel rp (TaskPoll q) = task_poll passes rp q"
| "rpc_dispatch passes fuel rp (TaskMessage i) = dispatch_message fuel rp i"
| "rpc_dispatch passes fuel rp (TaskRespond i) = dispatch_respond fuel rp i"
| "rpc_dispatch passes fuel rp (TaskCancel a) = dispatch_control rp a (cancel_task fuel (rp_sched rp)) StoppedSuccess"
| "rpc_dispatch passes fuel rp (TaskResult a) = dispatch_result rp a"
| "rpc_dispatch passes fuel rp (TaskArtifact q) =
     sc_bind (require_task rp (aq_agent_id q)) (\<lambda>task.
     sc_bind (task_artifact_chunk rp task q) (\<lambda>chunk. sc_ok (TaskArtifactSuccess chunk)))"
| "rpc_dispatch passes fuel rp (TaskClose a) = dispatch_control rp a (close_task fuel (rp_sched rp)) ClosedSuccess"

section \<open>One request frame\<close>

definition frame_request_id :: "json \<Rightarrow> string option" where
  "frame_request_id v = (case json_get_str ''request_id'' v of Some i \<Rightarrow> if valid_request_id i then Some i else None | None \<Rightarrow> None)"

definition known_members :: "json \<Rightarrow> bool" where
  "known_members v = (case json_as_object v of
       Some ms \<Rightarrow> list_all (\<lambda>(k, x). k \<in> {''version'', ''request_id'', ''method'', ''params''}) ms
     | None \<Rightarrow> False)"

text \<open>What a frame asks for, or the response that refuses it.\<close>

definition rpc_read_request :: "'w rpc_io \<Rightarrow> string \<Rightarrow> rpc_response + (string \<times> rpc_method)" where
  "rpc_read_request rp fr =
     (if length fr > MAX_FRAME_BYTES then Inl (RpcResponse_error None (RpcError_new RpcOversized ''request frame exceeds the RPC cap''))
      else
        case env_parse (si_env (rp_sched rp)) fr of
          None \<Rightarrow> Inl (RpcResponse_error None (RpcError_new RpcMalformed ''request is not valid JSON''))
        | Some v \<Rightarrow>
            (let request_id = frame_request_id v;
                 invalid = Inl (RpcResponse_error request_id (RpcError_new RpcValidation ''request fields are invalid'')) in
             if Option.bind (json_get ''version'' v) json_as_u64 \<noteq> Some RPC_VERSION
             then Inl (RpcResponse_error request_id (RpcError_new RpcUnsupportedVersion ''unsupported RPC protocol version''))
             else if \<not> known_members v then invalid
             else if (case json_get_str ''method'' v of Some m \<Rightarrow> m \<notin> set known_methods | None \<Rightarrow> False)
             then Inl (RpcResponse_error request_id (RpcError_new RpcUnknownMethod ''unknown RPC method''))
             else
               case rp_decode rp v of
                 None \<Rightarrow> invalid
               | Some (i, method) \<Rightarrow>
                   if \<not> valid_request_id i then Inl (RpcResponse_error None (RpcError_new RpcValidation ''request_id is invalid''))
                   else Inr (i, method)))"

text \<open>\<open>None\<close> is a panic of the thread that handles the frame.\<close>

definition handle_bytes :: "nat \<Rightarrow> nat \<Rightarrow> 'w rpc_io \<Rightarrow> string \<Rightarrow> 'w sched \<Rightarrow> rpc_response option \<times> 'w sched" where
  "handle_bytes passes fuel rp fr s =
     (case rpc_read_request rp fr of
        Inl refused \<Rightarrow> (Some refused, s)
      | Inr (request_id, m) \<Rightarrow>
          (case rpc_dispatch passes fuel rp m s of
             (None, s') \<Rightarrow> (None, s')
           | (Some (Inr result), s') \<Rightarrow> (Some (RpcResponse_success request_id result), s')
           | (Some (Inl e), s') \<Rightarrow> (Some (RpcResponse_error (Some request_id) e), s')))"

end
