(* ===== verification/Rpc_Transport.thy ===== *)
theory Rpc_Transport
  imports Rpc_Service
begin

text \<open>
  The unix socket the service listens on (\<^verbatim>\<open>zcode-agentd/src/rpc/unix.rs\<close>): frames, the start and the removal of the
  socket file, one connection, and the loop that accepts connections. A stream delivers its bytes in pieces, each of
  them the outcome of one read; where a list of reads ends, the server's stream is at its end and the client's is still open.
\<close>

section \<open>Frames\<close>

datatype io_error =
    InvalidData | UnexpectedEof | TimedOut | WriteZero | InvalidInput | PermissionDenied | AlreadyExists | AddrInUse
  | ConnectionRefused | NotFoundError | Interrupted | WouldBlock | OtherError

text \<open>What one read of a stream gives. An empty piece is the end of the stream.\<close>

datatype stream_event = ReadBytes string | ReadInterrupted | ReadWouldBlock | ReadFailed io_error

definition position :: "char \<Rightarrow> string \<Rightarrow> nat option" where
  "position c bytes = (let n = length (takeWhile (\<lambda>b. b \<noteq> c) bytes) in if n < length bytes then Some n else None)"

text \<open>
  The server reads with a \<^verbatim>\<open>BufReader\<close>: a failed read ends the request. The bytes that follow the
  newline stay in the buffer, which is dropped with the connection.
\<close>

fun read_limited_frame :: "nat \<Rightarrow> string \<Rightarrow> stream_event list \<Rightarrow> io_error + string" where
  "read_limited_frame cap fr (ReadBytes available # rest) =
     (if available = [] then (if fr = [] then Inl UnexpectedEof else Inr fr)
      else
        let newline_at = position newline available;
            n = (case newline_at of Some i \<Rightarrow> i | None \<Rightarrow> length available) in
        if length fr + n > cap then Inl InvalidData
        else if newline_at \<noteq> None then Inr (fr @ take n available)
        else read_limited_frame cap (fr @ take n available) rest)"
| "read_limited_frame cap fr (ReadInterrupted # rest) = Inl Interrupted"
| "read_limited_frame cap fr (ReadWouldBlock # rest) = Inl WouldBlock"
| "read_limited_frame cap fr (ReadFailed e # rest) = Inl e"
| "read_limited_frame cap fr [] = (if fr = [] then Inl UnexpectedEof else Inr fr)"

text \<open>
  The client polls a non-blocking stream until its deadline; each read comes with the time that
  is left before it.
\<close>

fun read_limited_frame_until :: "nat \<Rightarrow> string \<Rightarrow> (nat \<times> stream_event) list \<Rightarrow> (io_error + string) option" where
  "read_limited_frame_until cap fr [] = None"
| "read_limited_frame_until cap fr ((left, e) # rest) =
     (if left = 0 then Some (Inl TimedOut)
      else
        case e of
          ReadInterrupted \<Rightarrow> read_limited_frame_until cap fr rest
        | ReadWouldBlock \<Rightarrow> read_limited_frame_until cap fr rest
        | ReadFailed err \<Rightarrow> Some (Inl err)
        | ReadBytes buffer \<Rightarrow>
            if buffer = [] then Some (Inl UnexpectedEof)
            else
              (case position newline buffer of
                 Some i \<Rightarrow> if length (fr @ take i buffer) > cap then Some (Inl InvalidData) else Some (Inr (fr @ take i buffer))
               | None \<Rightarrow> if length (fr @ buffer) > cap then Some (Inl InvalidData) else read_limited_frame_until cap (fr @ buffer) rest))"

datatype write_event = Written nat | WriteInterrupted | WriteFailed io_error

text \<open>A write takes at most the bytes it was given. The result carries what reached the stream.\<close>

fun write_all_until :: "string \<Rightarrow> (nat \<times> write_event) list \<Rightarrow> ((io_error + unit) option) \<times> string" where
  "write_all_until [] es = (Some (Inr ()), [])"
| "write_all_until bytes [] = (None, [])"
| "write_all_until bytes ((left, e) # rest) =
     (if left = 0 then (Some (Inl TimedOut), [])
      else
        case e of
          Written n \<Rightarrow>
            if n = 0 then (Some (Inl WriteZero), [])
            else (case write_all_until (drop n bytes) rest of (r, sent) \<Rightarrow> (r, take n bytes @ sent))
        | WriteInterrupted \<Rightarrow> write_all_until bytes rest
        | WriteFailed err \<Rightarrow> (Some (Inl err), []))"

section \<open>Responses\<close>

definition fallback_response :: "rpc_response \<Rightarrow> rpc_response" where
  "fallback_response response =
     RpcResponse_error (case rsp_request_id response of Some i \<Rightarrow> if i \<noteq> [] \<and> length i \<le> 128 then Some i else None | None \<Rightarrow> None)
       (RpcError_new RpcOversized ''response frame exceeds cap'')"

text \<open>The bytes that are written for a response. \<open>to_vec\<close> is \<^verbatim>\<open>serde_json::to_vec\<close>.\<close>

definition write_response :: "(json \<Rightarrow> string) \<Rightarrow> rpc_response \<Rightarrow> io_error + string" where
  "write_response to_vec response =
     (let fr = to_vec (rpc_response_json response) in
      if length fr \<le> MAX_FRAME_BYTES then Inr (fr @ [newline])
      else
        let small = to_vec (rpc_response_json (fallback_response response)) in
        if length small > MAX_FRAME_BYTES then Inl InvalidData else Inr (small @ [newline]))"

definition busy_response :: rpc_response where
  "busy_response = RpcResponse_error None (RpcError_new RpcConflict ''server connection limit reached'')"

text \<open>
  One call of a client: it connects, writes its request and reads the response, all before one deadline. \<open>left\<close> is the
  time left before the connection is made, \<open>from_slice\<close> the derived deserializer.
\<close>

definition client_call ::
    "(json \<Rightarrow> string) \<Rightarrow> (string \<Rightarrow> 'r option) \<Rightarrow> json \<Rightarrow> nat \<Rightarrow> io_error + unit \<Rightarrow> (nat \<times> write_event) list \<Rightarrow> (nat \<times> stream_event) list
     \<Rightarrow> (io_error + 'r) option" where
  "client_call to_vec from_slice request left connected writes reads =
     (if left = 0 then Some (Inl TimedOut)
      else
        case connected of
          Inl e \<Rightarrow> Some (Inl e)
        | Inr u \<Rightarrow>
            let fr = to_vec request in
            if length fr > MAX_FRAME_BYTES then Some (Inl InvalidInput)
            else
              (case fst (write_all_until (fr @ [newline]) writes) of
                 None \<Rightarrow> None
               | Some (Inl e) \<Rightarrow> Some (Inl e)
               | Some (Inr u) \<Rightarrow>
                   (case read_limited_frame_until MAX_FRAME_BYTES [] reads of
                      None \<Rightarrow> None
                    | Some (Inl e) \<Rightarrow> Some (Inl e)
                    | Some (Inr bytes) \<Rightarrow> Some (ok_or InvalidData (from_slice bytes)))))"

section \<open>One connection\<close>

text \<open>
  \<open>Panicked\<close>: the handler's thread unwinds. Otherwise the bytes written, if any; a failing write
  is ignored.
\<close>

datatype connection_end = Panicked | Answered "string option"

definition handle_connection ::
    "(json \<Rightarrow> string) \<Rightarrow> nat \<Rightarrow> nat \<Rightarrow> 'w rpc_io \<Rightarrow> bool \<Rightarrow> stream_event list \<Rightarrow> 'w sched \<Rightarrow> connection_end \<times> 'w sched" where
  "handle_connection to_vec passes fuel rp blocking reads s =
     (let send = (\<lambda>r. case write_response to_vec r of Inr bytes \<Rightarrow> Answered (Some bytes) | Inl e \<Rightarrow> Answered None) in
      if \<not> blocking then (Answered None, s)
      else
        case read_limited_frame MAX_FRAME_BYTES [] reads of
          Inr fr \<Rightarrow>
            (case handle_bytes passes fuel rp fr s of
               (None, s') \<Rightarrow> (Panicked, s')
             | (Some response, s') \<Rightarrow> (send response, s'))
        | Inl InvalidData \<Rightarrow> (send (RpcResponse_error None (RpcError_new RpcOversized ''request frame exceeds cap'')), s)
        | Inl e \<Rightarrow> (Answered None, s))"

section \<open>The socket file\<close>

record socket_identity =
  sid_device :: nat
  sid_inode :: nat

datatype node_type = SocketNode | DirectoryNode | OtherNode

record node_meta =
  nm_type :: node_type
  nm_mode :: nat
  nm_identity :: socket_identity

record 'w socket_io =
  so_metadata :: "string \<Rightarrow> 'w \<Rightarrow> io_error + node_meta"
  so_connect :: "string \<Rightarrow> 'w \<Rightarrow> (io_error + unit) \<times> 'w"
  so_remove_file :: "string \<Rightarrow> 'w \<Rightarrow> (io_error + unit) \<times> 'w"
  so_create_dir_all :: "string \<Rightarrow> 'w \<Rightarrow> (io_error + unit) \<times> 'w"
  so_set_mode :: "string \<Rightarrow> nat \<Rightarrow> 'w \<Rightarrow> (io_error + unit) \<times> 'w"

type_synonym ('w, 'a) socket_cmd = "('w, io_error, 'a) cmd"

definition socket_do :: "('w \<Rightarrow> (io_error + 'a) \<times> 'w) \<Rightarrow> ('w, 'a) socket_cmd" where
  "socket_do f = sc_bind (io_do f) sc_result"

text \<open>No access for group and others: the low six bits of the mode are clear.\<close>

definition private_mode :: "nat \<Rightarrow> bool" where
  "private_mode mode \<longleftrightarrow> mode mod 64 = 0"

definition prepare_parent :: "'w socket_io \<Rightarrow> string \<Rightarrow> ('w, unit) socket_cmd" where
  "prepare_parent so path =
     (case path_parent path of
        None \<Rightarrow> sc_fail InvalidInput
      | Some parent \<Rightarrow>
          sc_bind (io_ask (so_metadata so parent)) (\<lambda>found.
            case found of
              Inr m \<Rightarrow>
                if nm_type m = DirectoryNode then (if private_mode (nm_mode m) then sc_ok () else sc_fail PermissionDenied)
                else sc_fail InvalidInput
            | Inl e \<Rightarrow>
                if e = NotFoundError
                then sc_bind (socket_do (so_create_dir_all so parent)) (\<lambda>_. socket_do (so_set_mode so parent 448))
                else sc_fail e))"

definition remove_stale_socket_with :: "'w socket_io \<Rightarrow> (string \<Rightarrow> 'w \<Rightarrow> (io_error + unit) \<times> 'w) \<Rightarrow> string \<Rightarrow> ('w, unit) socket_cmd" where
  "remove_stale_socket_with so connect path =
     sc_bind (io_ask (so_metadata so path)) (\<lambda>found.
       case found of
         Inl e \<Rightarrow> if e = NotFoundError then sc_ok () else sc_fail e
       | Inr m \<Rightarrow>
           if nm_type m \<noteq> SocketNode then sc_fail AlreadyExists
           else
             sc_bind (io_do (connect path)) (\<lambda>connected.
               case connected of
                 Inr u \<Rightarrow> sc_fail AddrInUse
               | Inl e \<Rightarrow>
                   if e \<noteq> ConnectionRefused then sc_fail e
                   else
                     sc_bind (sc_bind (io_ask (so_metadata so path)) sc_result) (\<lambda>current.
                       if nm_type current \<noteq> SocketNode \<or> nm_identity current \<noteq> nm_identity m then sc_fail AddrInUse
                       else socket_do (so_remove_file so path))))"

definition remove_stale_socket :: "'w socket_io \<Rightarrow> string \<Rightarrow> ('w, unit) socket_cmd" where
  "remove_stale_socket so path = remove_stale_socket_with so (so_connect so) path"

definition remove_matching_socket :: "'w socket_io \<Rightarrow> string \<Rightarrow> socket_identity \<Rightarrow> ('w, unit) socket_cmd" where
  "remove_matching_socket so path expected =
     sc_bind (io_ask (so_metadata so path)) (\<lambda>found.
       case found of
         Inl e \<Rightarrow> if e = NotFoundError then sc_ok () else sc_fail e
       | Inr m \<Rightarrow>
           if nm_type m \<noteq> SocketNode \<or> nm_identity m \<noteq> expected then sc_ok ()
           else socket_do (so_remove_file so path))"

section \<open>Accepting connections\<close>

text \<open>
  The state of the accept thread and its workers: the flag that asks it to end, the counter of active connections, the handles of the
  workers it has not reaped, and which of them are finished. \<open>ac_leaked\<close> counts, for the statements only,
  the workers whose handler panicked.
\<close>

record server_options =
  op_max_connections :: nat
  op_connection_timeout :: nat

datatype worker = Handling nat | Finished nat

record acceptor =
  ac_shutdown :: bool
  ac_counter :: nat
  ac_workers :: "worker list"
  ac_next_id :: nat
  ac_refused :: nat
  ac_leaked :: nat
  ac_over :: bool
  ac_joined :: bool

definition acceptor_start :: acceptor where
  "acceptor_start = \<lparr>ac_shutdown = False, ac_counter = 0, ac_workers = [], ac_next_id = 0, ac_refused = 0, ac_leaked = 0, ac_over = False, ac_joined = False\<rparr>"

fun is_finished :: "worker \<Rightarrow> bool" where
  "is_finished (Finished i) = True"
| "is_finished (Handling i) = False"

text \<open>\<^verbatim>\<open>swap_remove\<close> puts the last worker in the place of the removed one; \<open>index\<close> is looked at again.\<close>

function reap_from :: "nat \<Rightarrow> worker list \<Rightarrow> worker list" where
  "reap_from index workers =
     (if index < length workers
      then if is_finished (workers ! index) then reap_from index (butlast (workers[index := last workers]))
           else reap_from (Suc index) workers
      else workers)"
  by auto
termination by (relation "measure (\<lambda>(index, workers). length workers - index + length workers)") auto

declare reap_from.simps [simp del]

definition reap_finished_workers :: "worker list \<Rightarrow> worker list" where
  "reap_finished_workers workers = reap_from 0 workers"

definition accept_stream :: "server_options \<Rightarrow> acceptor \<Rightarrow> acceptor" where
  "accept_stream o' a =
     (if ac_counter a \<ge> op_max_connections o' then a\<lparr>ac_refused := Suc (ac_refused a)\<rparr>
      else a\<lparr>ac_counter := Suc (ac_counter a), ac_workers := ac_workers a @ [Handling (ac_next_id a)], ac_next_id := Suc (ac_next_id a)\<rparr>)"

text \<open>
  A pass of the loop with a stream, one without, the end of a handler that returned (the counter goes down) and of
  one that panicked (the thread unwinds before the counter is lowered), the request to shut down, the end
  of the loop (it saw the request, or \<^verbatim>\<open>accept\<close> failed), and the end of the thread when all workers are joined.
\<close>

inductive accept_step :: "server_options \<Rightarrow> acceptor \<Rightarrow> acceptor \<Rightarrow> bool" for o' where
  accepts: "\<not> ac_shutdown a \<Longrightarrow> \<not> ac_over a \<Longrightarrow>
     accept_step o' a (accept_stream o' (a\<lparr>ac_workers := reap_finished_workers (ac_workers a)\<rparr>))"
| idles: "\<not> ac_shutdown a \<Longrightarrow> \<not> ac_over a \<Longrightarrow> accept_step o' a (a\<lparr>ac_workers := reap_finished_workers (ac_workers a)\<rparr>)"
| returns: "i < length (ac_workers a) \<Longrightarrow> ac_workers a ! i = Handling w \<Longrightarrow>
     accept_step o' a (a\<lparr>ac_workers := (ac_workers a)[i := Finished w], ac_counter := ac_counter a - 1\<rparr>)"
| panics: "i < length (ac_workers a) \<Longrightarrow> ac_workers a ! i = Handling w \<Longrightarrow>
     accept_step o' a (a\<lparr>ac_workers := (ac_workers a)[i := Finished w], ac_leaked := Suc (ac_leaked a)\<rparr>)"
| shuts: "accept_step o' a (a\<lparr>ac_shutdown := True\<rparr>)"
| leaves: "accept_step o' a (a\<lparr>ac_over := True\<rparr>)"
| joins: "ac_over a \<Longrightarrow> list_all is_finished (ac_workers a) \<Longrightarrow>
     accept_step o' a (a\<lparr>ac_workers := [], ac_joined := True\<rparr>)"

inductive_cases accept_stepE: "accept_step o' a b"

definition handling :: "acceptor \<Rightarrow> nat" where
  "handling a = count_where (\<lambda>w. \<not> is_finished w) (ac_workers a)"

end
