(* ===== verification/Rpc_Wire.thy ===== *)
theory Rpc_Wire
  imports Rpc_Transport
begin

text \<open>Frames of the private RPC: what a reader makes of the pieces of a stream, and how long a response can be.\<close>

section \<open>Reading a frame\<close>

lemma position_Some: "position c bytes = Some n \<longleftrightarrow> c \<in> set bytes \<and> n = length (takeWhile (\<lambda>b. b \<noteq> c) bytes)"
proof -
  have "length (takeWhile (\<lambda>b. b \<noteq> c) bytes) < length bytes \<longleftrightarrow> c \<in> set bytes"
    by (induction bytes) auto
  then show ?thesis by (auto simp: position_def Let_def)
qed

lemma position_None: "position c bytes = None \<longleftrightarrow> c \<notin> set bytes"
  using position_Some [of c bytes] by (cases "position c bytes") auto

lemma take_takeWhile: "take (length (takeWhile P xs)) xs = takeWhile P xs"
  by (induction xs) auto

lemma takeWhile_skip: "c \<notin> set xs \<Longrightarrow> takeWhile (\<lambda>b. b \<noteq> c) (xs @ ys) = xs @ takeWhile (\<lambda>b. b \<noteq> c) ys"
  by (induction xs) auto

lemma takeWhile_stop: "c \<in> set xs \<Longrightarrow> takeWhile (\<lambda>b. b \<noteq> c) (xs @ ys) = takeWhile (\<lambda>b. b \<noteq> c) xs"
  by (induction xs) auto

text \<open>The reference: the first line of the whole stream, refused when it is longer than the cap or when nothing was sent.\<close>

definition first_line :: "nat \<Rightarrow> string \<Rightarrow> io_error + string" where
  "first_line cap bytes =
     (let line = takeWhile (\<lambda>b. b \<noteq> newline) bytes in
      if length line > cap then Inl InvalidData
      else if bytes = [] then Inl UnexpectedEof else Inr line)"

lemma read_pieces:
  assumes "newline \<notin> set fr" and "length fr \<le> cap" and "[] \<notin> set pieces"
  shows "read_limited_frame cap fr (map ReadBytes pieces) = first_line cap (fr @ concat pieces)"
  using assms
proof (induction pieces arbitrary: fr)
  case Nil
  moreover from Nil have "takeWhile (\<lambda>b. b \<noteq> newline) fr = fr" by auto
  ultimately show ?case by (simp add: first_line_def Let_def del: takeWhile_eq_all_conv)
next
  case (Cons p ps)
  show ?case
  proof (cases "position newline p")
    case None
    then have p: "newline \<notin> set p" by (simp add: position_None)
    show ?thesis
    proof (cases "length fr + length p > cap")
      case True
      with None p Cons.prems show ?thesis by (auto simp: first_line_def Let_def takeWhile_skip)
    next
      case False
      with None p Cons.prems Cons.IH [of "fr @ p"] show ?thesis by auto
    qed
  next
    case (Some n)
    then have "newline \<in> set p" and n: "n = length (takeWhile (\<lambda>b. b \<noteq> newline) p)" by (simp_all add: position_Some)
    then have "takeWhile (\<lambda>b. b \<noteq> newline) (fr @ p @ concat ps) = fr @ take n p" and "p \<noteq> []"
      using Cons.prems by (auto simp: takeWhile_skip takeWhile_stop take_takeWhile)
    then show ?thesis using Some by (simp add: first_line_def Let_def n length_takeWhile_le min_absorb2)
  qed
qed

text \<open>C20 (equivalence): however the bytes of a connection arrive in pieces, the server reads the first line of what was sent, refuses
  it when that line is longer than the cap, and reads nothing when nothing was sent.\<close>

theorem frame_is_first_line:
  assumes "[] \<notin> set pieces"
  shows "read_limited_frame cap [] (map ReadBytes pieces) = first_line cap (concat pieces)"
  using read_pieces [of "[]" cap pieces] assms by simp

theorem frame_is_first_line_witness:
  "read_limited_frame 4 [] (map ReadBytes [''ab'', ''c'' @ [newline], ''d'']) = Inr ''abc''"
  using frame_is_first_line [of "[''ab'', ''c'' @ [newline], ''d'']" 4] by (simp add: first_line_def newline_def)

section \<open>Compact JSON\<close>

lemma set_join: "set (join_with c ss) \<subseteq> insert c (\<Union>s\<in>set ss. set s)"
  by (induction ss rule: join_with.induct) auto

fun no_float :: "json \<Rightarrow> bool" where
  "no_float (JFloat s) = False"
| "no_float (JArray vs) = list_all no_float vs"
| "no_float (JObject ms) = list_all (\<lambda>(k, v). no_float v) ms"
| "no_float _ = True"

lemma of_char_newline: "(of_char newline :: nat) = 10"
  by (simp add: newline_def)

lemma newline_hex: "n < 16 \<Longrightarrow> newline \<noteq> hex_digit n"
proof -
  assume "n < 16"
  then have "(of_char (hex_digit n) :: nat) \<ge> 48" by (auto simp: hex_digit_def)
  then show ?thesis using of_char_newline by auto
qed

lemma newline_escape: "newline \<notin> set (escape_char c)"
proof -
  have "(of_char c :: nat) div 16 < 16" using nat_of_char_less_256 [of c] by (simp add: less_mult_imp_div_less)
  then show ?thesis
    using newline_hex [of "of_char c div 16"] newline_hex [of "of_char c mod 16"] by (auto simp: escape_char_def Let_def) (simp_all add: newline_def)
qed

lemma newline_quoted: "newline \<notin> set (json_quoted s)"
  using newline_escape by (auto simp: json_quoted_def newline_def)

lemma newline_show_nat: "newline \<notin> set (show_nat n)"
proof (induction n rule: show_nat.induct)
  case (1 n)
  have "newline \<noteq> char_of (48 + k)" if "k < 10" for k :: nat
  proof -
    have "(of_char (char_of (48 + k) :: char) :: nat) = 48 + k" using that by simp
    moreover have "48 + k \<noteq> (10 :: nat)" by simp
    ultimately show ?thesis using of_char_newline by metis
  qed
  then show ?case using 1 by (cases "n < 10") (auto simp: show_nat.simps [of n])
qed

lemma newline_compact: "no_float v \<Longrightarrow> newline \<notin> set (compact v)"
proof (induction v rule: compact.induct)
  case (6 vs)
  then show ?case using set_join [of "CHR '',''" "map compact vs"] by (auto simp: list_all_iff newline_def)
next
  case (7 ms)
  let ?f = "\<lambda>(k, v). json_quoted k @ '':'' @ compact v"
  have "newline \<notin> set (?f m)" if "m \<in> set ms" for m
    using 7 that newline_quoted by (cases m) (fastforce simp: list_all_iff newline_def)
  then show ?case using set_join [of "CHR '',''" "map ?f ms"] by (auto simp: newline_def)
qed (use newline_quoted newline_show_nat in \<open>auto simp: newline_def show_int_def\<close>)

lemma escape_char_length: "1 \<le> length (escape_char c)" "length (escape_char c) \<le> 6"
  by (simp_all add: escape_char_def Let_def)

lemma quoted_length: "length (json_quoted s) \<le> 2 + 6 * length s"
proof -
  have "length (concat (map escape_char s)) \<le> 6 * length s"
    using escape_char_length(2) by (induction s) (auto intro: add_mono order_trans)
  then show ?thesis by (simp add: json_quoted_def)
qed

section \<open>How long a response is\<close>

definition size_of :: "json \<Rightarrow> nat" where "size_of v = length (compact v)"

lemma size_of_simps [simp]:
  "size_of (JBool True) = 4" "size_of (JBool False) = 5" "size_of (JString s) = length (json_quoted s)" "size_of JNull = 4"
  by (simp_all add: size_of_def)

lemma join_with_length_mono:
  "list_all2 (\<lambda>x y. length x \<le> length y) xs ys \<Longrightarrow> length (join_with c xs) \<le> length (join_with c ys)"
proof (induction xs arbitrary: ys)
  case (Cons x xs)
  then obtain y zs where "ys = y # zs" "length x \<le> length y" "list_all2 (\<lambda>x y. length x \<le> length y) xs zs"
    by (auto simp: list_all2_Cons1)
  with Cons.IH [of zs] show ?case by (cases xs; cases zs) auto
qed simp

definition no_longer :: "(string \<times> json) list \<Rightarrow> (string \<times> json) list \<Rightarrow> bool" where
  "no_longer = list_all2 (\<lambda>(k, v) (l, w). k = l \<and> size_of v \<le> size_of w)"

lemma no_longer_simps [simp]:
  "no_longer [] []" "no_longer ((k, v) # ms) ((l, w) # ns) \<longleftrightarrow> k = l \<and> size_of v \<le> size_of w \<and> no_longer ms ns"
  by (simp_all add: no_longer_def)

lemma object_no_longer: "no_longer ms ns \<Longrightarrow> size_of (JObject ms) \<le> size_of (JObject ns)"
proof -
  let ?f = "\<lambda>(k, v). json_quoted k @ '':'' @ compact v"
  assume "no_longer ms ns"
  then have "list_all2 (\<lambda>x y. length x \<le> length y) (map ?f ms) (map ?f ns)"
    by (auto simp: no_longer_def list_all2_map1 list_all2_map2 size_of_def elim: list_all2_mono)
  then have "length (join_with (CHR '','') (map ?f ms)) \<le> length (join_with (CHR '','') (map ?f ns))"
    by (rule join_with_length_mono)
  then show ?thesis by (simp add: size_of_def)
qed

text \<open>A bound that is easy to compute.\<close>

fun size_bound :: "json \<Rightarrow> nat" where
  "size_bound JNull = 4"
| "size_bound (JBool b) = 5"
| "size_bound (JNum n) = length (show_int n)"
| "size_bound (JFloat s) = length s"
| "size_bound (JString s) = 2 + 6 * length s"
| "size_bound (JArray vs) = 2 + sum_list (map (\<lambda>v. 1 + size_bound v) vs)"
| "size_bound (JObject ms) = 2 + sum_list (map (\<lambda>(k, v). 4 + 6 * length k + size_bound v) ms)"

lemma join_with_bound: "(\<And>x. x \<in> set xs \<Longrightarrow> length (f x) \<le> g x) \<Longrightarrow> length (join_with c (map f xs)) \<le> sum_list (map (\<lambda>x. 1 + g x) xs)"
proof (induction xs)
  case (Cons x xs)
  then have "length (f x) \<le> g x" and "length (join_with c (map f xs)) \<le> sum_list (map (\<lambda>x. 1 + g x) xs)" by auto
  then show ?case by (cases xs) auto
qed simp

lemma size_bounded: "length (compact v) \<le> size_bound v"
proof (induction v rule: compact.induct)
  case (5 s)
  show ?case using quoted_length [of s] by simp
next
  case (6 vs)
  then show ?case using join_with_bound [of vs compact size_bound "CHR '',''"] by simp
next
  case (7 ms)
  let ?f = "\<lambda>(k, v). json_quoted k @ '':'' @ compact v" and ?g = "\<lambda>(k, v). 3 + 6 * length k + size_bound v"
  have "length (?f m) \<le> ?g m" if "m \<in> set ms" for m
    using 7 that quoted_length [of "fst m"] by (cases m) fastforce
  then have "length (join_with (CHR '','') (map ?f ms)) \<le> sum_list (map (\<lambda>x. 1 + ?g x) ms)" by (rule join_with_bound)
  then show ?case by (simp add: case_prod_unfold add.assoc)
qed auto

lemma bool_no_longer: "(b \<longrightarrow> a) \<Longrightarrow> size_of (JBool a) \<le> size_of (JBool b)"
  by (cases a; cases b) auto

lemma bool_le_5: "size_of (JBool b) \<le> 5"
  by (cases b) auto

lemma worst_length: "length (json_quoted (replicate 128 CHR 0x01)) = 770"
  by (simp add: json_quoted_def length_concat sum_list_replicate escape_char_def)

lemma worst_request_id: "length i \<le> 128 \<Longrightarrow> length (json_quoted i) \<le> length (json_quoted (replicate 128 CHR 0x01))"
  using quoted_length [of i] worst_length by linarith

text \<open>C16 (bounds): a result is stored only after the daemon has found that its report can be sent. The response that reports it to
  any later caller is then never longer than a frame: whatever valid request id the caller chose, with the digest of the
  stored result, and also once the task is stopped, closed or reaped.\<close>

theorem transportable_result_always_fits:
  assumes fits: "terminal_result_response_fits compact task result as"
    and i: "valid_request_id i"
    and same: "tr_agent_id task' = tr_agent_id task" "tr_effective_budget task' = tr_effective_budget task"
    and ended: "tr_phase task' = Terminal" "tr_outcome task' = Some (rs_outcome result)"
    and flags: "tr_stop_requested task \<longrightarrow> tr_stop_requested task'" "tr_close_requested task \<longrightarrow> tr_close_requested task'"
      "tr_closed_at task \<noteq> None \<longrightarrow> tr_closed_at task' \<noteq> None" "tr_reaped_at task \<noteq> None \<longrightarrow> tr_reaped_at task' \<noteq> None"
    and stored: "sr_result stored = result" "length (json_quoted (sr_result_sha256 stored)) = 66"
  shows "length (compact (rpc_response_json (RpcResponse_success i
           (TaskResultSuccess (task_view_of task') (Some (task_result_view_of stored)) as)))) \<le> MAX_FRAME_BYTES"
proof -
  let ?v = "(task_view_of task)\<lparr>tv_phase := ''TERMINAL'', tv_outcome := Some (rs_outcome result)\<rparr>"
  let ?worst = "\<lparr>sr_result = result, sr_result_sha256 = replicate 64 CHR ''0'', sr_retained = False\<rparr>"
  have view: "size_of (task_view_json (task_view_of task')) \<le> size_of (task_view_json ?v)"
    unfolding task_view_json_def
    using same ended flags by (intro object_no_longer) (simp add: task_view_of_def bool_no_longer)
  have "length (json_quoted (replicate 64 CHR ''0'')) = 66" by (simp add: json_quoted_def length_concat sum_list_replicate escape_char_def)
  then have result: "size_of (task_result_view_json (task_result_view_of stored)) \<le> size_of (task_result_view_json (task_result_view_of ?worst))"
    unfolding task_result_view_json_def Let_def
    using stored by (intro object_no_longer) (simp add: task_result_view_of_def bool_le_5)
  have "length i \<le> 128" using i by (simp add: valid_request_id_def MAX_REQUEST_ID_BYTES_def)
  then have "size_of (rpc_response_json (RpcResponse_success i (TaskResultSuccess (task_view_of task') (Some (task_result_view_of stored)) as)))
      \<le> size_of (rpc_response_json (terminal_result_response task result as (replicate 128 CHR 0x01)))"
    unfolding rpc_response_json_def terminal_result_response_def RpcResponse_success_def
    using view result worst_request_id
    by (intro object_no_longer) (auto simp: jopt_def intro!: object_no_longer)
  then show ?thesis
    using fits by (simp add: terminal_result_response_fits_def terminal_result_response_size_def MAX_REQUEST_ID_BYTES_def size_of_def)
qed

definition wire_task :: task_record where
  "wire_task = \<lparr>tr_agent_id = ''a'', tr_idempotency_key = ''k'', tr_repository = ''/r'', tr_group_id = None, tr_phase = Terminal,
     tr_outcome = Some Completed, tr_workspace_path = ''/w'', tr_runtime_hash = None, tr_prepared_launch_json = ''{}'',
     tr_prepared_launch_sha256 = ''d'', tr_initial_prompt = ''p'', tr_effective_budget = hard_budget_caps, tr_retain_partial = False,
     tr_owner_id = None, tr_owner_epoch = 1, tr_close_requested = False, tr_stop_requested = False, tr_last_event_seq = 3,
     tr_failure_code = None, tr_failure_message = None, tr_runtime_agent_id = None, tr_zcode_session_id = None,
     tr_turn_state = TurnIdle, tr_process_identity = None, tr_closed_at = None, tr_reaped_at = None, tr_created_at = 1\<rparr>"

definition wire_result :: task_result where
  "wire_result = \<lparr>rs_outcome = Completed, rs_final_text = ''done'' @ [newline], rs_partial = False, rs_base_commit = None, rs_head_commit = None,
     rs_changed_files = [], rs_diff_stat = None, rs_checks = [], rs_residual_gaps = [], rs_artifacts = []\<rparr>"

lemmas wire_defs = wire_task_def wire_result_def hard_budget_caps_def

lemma wire_fits: "terminal_result_response_fits compact wire_task wire_result []"
  unfolding terminal_result_response_fits_def terminal_result_response_size_def
  by (rule order_trans [OF size_bounded])
    (simp add: wire_defs rpc_response_json_def terminal_result_response_def RpcResponse_success_def task_view_of_def task_result_view_of_def
      task_view_json_def task_result_view_json_def budget_json_def jopt_def jnat_def jstrings_def Let_def RPC_VERSION_def MAX_FRAME_BYTES_def
      MAX_REQUEST_ID_BYTES_def show_int_def show_nat.simps limits_json_def)

theorem transportable_result_always_fits_witness:
  "length (compact (rpc_response_json (RpcResponse_success ''r'' (TaskResultSuccess (task_view_of (wire_task\<lparr>tr_closed_at := Some 9\<rparr>))
     (Some (task_result_view_of \<lparr>sr_result = wire_result, sr_result_sha256 = replicate 64 CHR ''f'', sr_retained = True\<rparr>)) [])))) \<le> MAX_FRAME_BYTES"
  by (rule transportable_result_always_fits [OF wire_fits])
    (simp_all add: valid_request_id_def has_nul_def MAX_REQUEST_ID_BYTES_def wire_task_def wire_result_def json_quoted_def length_concat
      sum_list_replicate escape_char_def)

section \<open>What is written\<close>

lemma no_float_basic [simp]: "no_float (jnat n)" "no_float (jstrings ss)" "no_float (limits_json b)" "no_float (outcome_json oc)"
  by (simp_all add: jnat_def jstrings_def limits_json_def list_all_iff)

lemma no_float_jopt [simp]: "(\<And>x. no_float (f x)) \<Longrightarrow> no_float (jopt f v)"
  by (simp add: jopt_def split: option.split)

lemma no_float_enums [simp]: "no_float (pending_state_json ps)" "no_float (activity_state_json st)" "no_float (tool_kind_json k)"
  "no_float (telemetry_json te)" "no_float (component_json c)" "no_float (submission_disposition_json d)"
  "no_float (message_disposition_json md)" "no_float (response_disposition_json rd)"
  by (cases ps, simp_all) (cases st, simp_all, cases k, simp_all, cases te, simp_all, cases c, simp_all, cases d, simp_all,
      cases md, simp_all, cases rd, simp_all)

lemma no_float_parts [simp]:
  "no_float (task_view_json t)" "no_float (status_json v)" "no_float (task_result_view_json r)" "no_float (activity_json a)"
  "no_float (response_outcome_json ro)" "no_float (error_json e)" "no_float (artifact_chunk_json ch)" "no_float (pending_request_json q)"
  "no_float (artifact_metadata_json m)"
  by (auto simp: task_view_json_def budget_json_def status_json_def task_result_view_json_def activity_json_def window_json_def
      response_outcome_json_def error_json_def artifact_chunk_json_def pending_request_json_def artifact_metadata_json_def result_artifact_json_def
      Let_def list_all_iff split: option.split)

lemma no_float_response: "no_float (rpc_response_json r)"
proof -
  have "no_float (JObject (success_members x))" for x by (cases x) (simp_all add: list_all_iff)
  then show ?thesis by (simp add: rpc_response_json_def split: sum.split)
qed

lemma compact_fallback: "length (compact (rpc_response_json (fallback_response r))) \<le> MAX_FRAME_BYTES"
proof -
  let ?e = "RpcError_new RpcOversized ''response frame exceeds cap''"
  have worst: "size_of (rpc_response_json (RpcResponse_error (Some (replicate 128 CHR 0x01)) ?e)) \<le> MAX_FRAME_BYTES"
    unfolding size_of_def
    by (rule order_trans [OF size_bounded])
      (simp add: rpc_response_json_def RpcResponse_error_def RpcError_new_def error_json_def jopt_def jnat_def RPC_VERSION_def MAX_FRAME_BYTES_def
        show_int_def show_nat.simps)
  have "size_of (rpc_response_json (RpcResponse_error j ?e)) \<le> size_of (rpc_response_json (RpcResponse_error (Some (replicate 128 CHR 0x01)) ?e))"
    if "\<forall>i. j = Some i \<longrightarrow> length i \<le> 128" for j
    unfolding rpc_response_json_def RpcResponse_error_def
    using that worst_request_id worst_length by (intro object_no_longer) (auto simp: jopt_def split: option.split)
  then have "size_of (rpc_response_json (fallback_response r)) \<le> size_of (rpc_response_json (RpcResponse_error (Some (replicate 128 CHR 0x01)) ?e))"
    unfolding fallback_response_def by (auto split: option.split)
  then show ?thesis using worst by (simp add: size_of_def)
qed

definition written :: "rpc_response \<Rightarrow> string" where
  "written r = (if length (compact (rpc_response_json r)) \<le> MAX_FRAME_BYTES then compact (rpc_response_json r)
                else compact (rpc_response_json (fallback_response r)))"

lemma write_response_written: "write_response compact r = Inr (written r @ [newline])"
  using compact_fallback [of r] by (simp add: write_response_def written_def Let_def)

lemma written_frame: "length (written r) \<le> MAX_FRAME_BYTES" "newline \<notin> set (written r)"
  using compact_fallback [of r] by (simp_all add: written_def newline_compact no_float_response)

fun received :: "stream_event \<Rightarrow> string" where
  "received (ReadBytes bytes) = bytes"
| "received _ = []"

definition quiet :: "nat \<times> stream_event \<Rightarrow> bool" where
  "quiet x \<longleftrightarrow> fst x > 0 \<and> snd x \<noteq> ReadBytes [] \<and> (\<forall>e. snd x \<noteq> ReadFailed e)"

lemma read_until_line:
  assumes "newline \<notin> set line" and "length line \<le> cap" and "fr @ rest = line @ [newline]"
    and "list_all quiet reads" and "concat (map (received \<circ> snd) reads) = rest" and "newline \<notin> set fr"
  shows "read_limited_frame_until cap fr reads = Some (Inr line)"
  using assms(3-6)
proof (induction reads arbitrary: fr rest)
  case (Cons x reads)
  obtain left e where x: "x = (left, e)" by fastforce
  show ?case
  proof (cases e)
    case (ReadBytes b)
    let ?tail = "concat (map (received \<circ> snd) reads)"
    have "rest = b @ ?tail" using Cons.prems(3) by (auto simp: x ReadBytes comp_def)
    then have b: "b \<noteq> []" "left > 0" "(fr @ b) @ ?tail = line @ [newline]" using Cons.prems(1,2) by (simp_all add: x ReadBytes quiet_def)
    show ?thesis
    proof (cases "newline \<in> set b")
      case True
      then have "takeWhile (\<lambda>c. c \<noteq> newline) ((fr @ b) @ ?tail) = fr @ takeWhile (\<lambda>c. c \<noteq> newline) b"
        using Cons.prems(4) by (simp add: takeWhile_skip takeWhile_stop)
      then have "fr @ takeWhile (\<lambda>c. c \<noteq> newline) b = line" using b(3) assms(1) by (simp add: takeWhile_skip)
      moreover have "position newline b = Some (length (takeWhile (\<lambda>c. c \<noteq> newline) b))" using True by (simp add: position_Some)
      ultimately show ?thesis using b assms(2) by (simp add: x ReadBytes take_takeWhile)
    next
      case False
      have "?tail \<noteq> []"
      proof
        assume "?tail = []"
        then have "newline \<in> set (fr @ b)" using b(3) by (metis append_Nil2 in_set_conv_decomp)
        then show False using False Cons.prems(4) by simp
      qed
      then have "length (fr @ b) \<le> length line" using arg_cong [OF b(3), of length] by (cases ?tail) auto
      moreover have "read_limited_frame_until cap (fr @ b) reads = Some (Inr line)"
        using Cons.prems(2,4) False by (intro Cons.IH [OF b(3)]) (simp_all add: comp_def)
      moreover have "position newline b = None" using False by (simp add: position_None)
      ultimately show ?thesis using b assms(2) by (simp add: x ReadBytes)
    qed
  qed (use Cons x in \<open>auto simp: quiet_def\<close>)
qed auto

text \<open>C19 (roundtrip): every response is written, as one line of at most a frame: the response itself or, when that is longer, a
  short error with the same request id; writing never fails. A client that keeps reading before its deadline, in whatever
  pieces the line arrives and with whatever interruptions, gets exactly that line.\<close>

theorem response_reaches_the_client:
  "\<exists>line. write_response compact r = Inr (line @ [newline]) \<and> length line \<le> MAX_FRAME_BYTES \<and> newline \<notin> set line
    \<and> line = compact (rpc_response_json (if length (compact (rpc_response_json r)) \<le> MAX_FRAME_BYTES then r else fallback_response r))
    \<and> (\<forall>reads. list_all quiet reads \<and> concat (map (received \<circ> snd) reads) = line @ [newline]
         \<longrightarrow> read_limited_frame_until MAX_FRAME_BYTES [] reads = Some (Inr line))"
  using read_until_line [OF written_frame(2) written_frame(1), of "[]" _ r]
  by (intro exI [of _ "written r"]) (simp add: write_response_written written_frame, simp add: written_def)

theorem response_reaches_the_client_witness:
  "\<exists>line reads. length reads = 3 \<and> write_response compact busy_response = Inr (line @ [newline])
     \<and> read_limited_frame_until MAX_FRAME_BYTES [] reads = Some (Inr line)"
proof -
  obtain line where line: "write_response compact busy_response = Inr (line @ [newline])"
    "line = compact (rpc_response_json (if length (compact (rpc_response_json busy_response)) \<le> MAX_FRAME_BYTES
       then busy_response else fallback_response busy_response))"
    "\<forall>reads. list_all quiet reads \<and> concat (map (received \<circ> snd) reads) = line @ [newline]
       \<longrightarrow> read_limited_frame_until MAX_FRAME_BYTES [] reads = Some (Inr line)"
    using response_reaches_the_client [of busy_response] by auto
  let ?reads = "[(5, ReadWouldBlock), (4, ReadBytes line), (1, ReadBytes [newline])]"
  have "line \<noteq> []" using line(2) by (simp add: rpc_response_json_def)
  then have "list_all quiet ?reads" by (simp add: quiet_def)
  then have "read_limited_frame_until MAX_FRAME_BYTES [] ?reads = Some (Inr line)" using line(3) [rule_format, of ?reads]
    by (simp del: read_limited_frame_until.simps)
  then show ?thesis using line(1) by (intro exI [of _ line] exI [of _ ?reads]) simp
qed

end
