(* ===== verification/Rpc_Props.thy ===== *)
theory Rpc_Props
  imports Rpc_Transport Submission_Props
begin

text \<open>What the service and the server of the private RPC keep and promise.\<close>

section \<open>Requests and the store\<close>

lemma enqueue_is_write: "is_write env (enqueue_task_authoritative env now t)"
  by (rule is_writeI, rule run_op.simps [symmetric])

context sched_rules
begin

lemma keeps_prep_now [keeps_rules]: "keeps Q (prep_now pe io m)"
  unfolding prep_now_def by (intro keeps_rules)

lemma keeps_enqueue_general [keeps_rules]: "keeps Q (enqueue_general_with_commands pe io cat m g as rs)"
  unfolding enqueue_general_with_commands_def resolve_now_def general_initial_prompt_def Let_def
  by (intro keeps_rules sched_steps enqueue_is_write)

lemma keeps_task_reads [keeps_rules]:
  assumes rp: "rp_sched rp = io"
  shows "keeps Q (require_task rp a)" "keeps Q (task_artifact_metadata rp t)" "keeps Q (verified_artifact_chunk rp st e off lim)"
    "keeps Q (passive_activity_snapshot rp a)" "keeps Q (pending_views rp pl rows)"
  unfolding require_task_def task_artifact_metadata_def verified_artifact_chunk_def passive_activity_snapshot_def pending_views_def Let_def rp
  by (intro keeps_rules)+

lemma keeps_chunk_and_pass [keeps_rules]:
  assumes rp: "rp_sched rp = io"
  shows "keeps Q (task_artifact_chunk rp t q)" "keeps Q (poll_now rp pq d)"
  unfolding task_artifact_chunk_def poll_now_def Let_def rp by (intro keeps_rules rp)+

lemma keeps_poll_loop [keeps_rules]: "rp_sched rp = io \<Longrightarrow> keeps Q (poll_loop passes rp q d)"
proof (induction passes)
  case (Suc passes)
  then show ?case unfolding poll_loop.simps by (simp, intro keeps_rules)
qed (simp add: keeps_panic)

lemma keeps_methods [keeps_rules]:
  assumes "rp_sched rp = io"
  shows "keeps Q (system_status rp)" "keeps Q (dispatch_submit rp i)" "keeps Q (dispatch_list rp lq)" "keeps Q (task_poll passes rp pq)"
    "keeps Q (dispatch_result rp a)"
  unfolding system_status_def dispatch_submit_def dispatch_list_def task_poll_def dispatch_result_def assms by (intro keeps_rules assms)+

lemma keeps_control [keeps_rules]: "rp_sched rp = io \<Longrightarrow> (\<And>x. keeps Q (f x)) \<Longrightarrow> keeps Q (dispatch_control rp a f g)"
  unfolding dispatch_control_def by (intro keeps_rules)

lemma keeps_message [keeps_rules]:
  assumes rp: "rp_sched rp = io"
  shows "keeps Q (dispatch_message fuel rp i)"
  unfolding dispatch_message_def rp by (intro keeps_rules rp)

lemma keeps_dispatch:
  assumes "rp_sched rp = io" and "\<And>h c e. logged (CallRespond h c e)"
  shows "keeps Q (rpc_dispatch passes fuel rp m)"
proof -
  have "keeps Q (dispatch_respond fuel rp i)" for i
    unfolding dispatch_respond_def assms(1) by (intro keeps_rules keeps_respond assms)
  then show ?thesis by (cases m) (auto simp: assms(1) intro!: keeps_rules)
qed

end

text \<open>C15 (refinement): whatever a client sends over the private RPC, a message to a finished task included, a well-formed store stays
  well-formed and the change of every agent's task is a sequence of steps of the abstract agent, under every interleaving
  with the other threads of the daemon, unless a failed resumption is rolled back in between, by this request or by another
  thread: such a rollback rewrites the row of a task outside the life of the abstract agent.\<close>

theorem rpc_refines_agent:
  assumes "store_ok (sc_store s)" and "\<not> rolled_back s (snd (handle_bytes passes fuel rp request s))"
  shows "store_ok (sc_store (snd (handle_bytes passes fuel rp request s)))
    \<and> agent_step\<^sup>*\<^sup>* (view (sc_store s) a) (view (sc_store (snd (handle_bytes passes fuel rp request s))) a)"
proof -
  have "runs_unless_rolled_back (si_env (rp_sched rp)) s (snd (handle_bytes passes fuel rp request s))"
  proof (cases "rpc_read_request rp request")
    case (Inr x)
    obtain i m where x: "x = (i, m)" by fastforce
    have "keeps (runs_unless_rolled_back (si_env (rp_sched rp))) (rpc_dispatch passes fuel rp m)"
      by (intro runs.keeps_dispatch) auto
    then have "runs_unless_rolled_back (si_env (rp_sched rp)) s (snd (rpc_dispatch passes fuel rp m s))" by (simp add: keeps_def)
    then show ?thesis
      by (cases "rpc_dispatch passes fuel rp m s") (auto simp: handle_bytes_def Inr x split: option.split sum.split)
  qed (simp add: handle_bytes_def runs.kept_refl)
  from runs_unlessD [OF this assms(2)] show ?thesis by (rule store_runs_refine [OF assms(1)])
qed

definition demo_rpc :: "rpc_method \<Rightarrow> unit rpc_io" where
  "demo_rpc m = \<lparr>rp_sched = demo_sched_io (JObject [(''version'', JNum 12)]), rp_prepare = demo_prepare_env, rp_catalog = [],
     rp_service_generation = ''g'', rp_decode = (\<lambda>_. Some (''r'', m)), rp_journal_mode = (\<lambda>_. Some ''wal''), rp_open = (\<lambda>_ _. Some 7),
     rp_bytes = (\<lambda>_ _. Some ''patch''), rp_sleep = (\<lambda>_ w. w)\<rparr>"

lemma demo_rpc_request: "rpc_read_request (demo_rpc m) ''frame'' = Inr (''r'', m)"
  by (simp add: rpc_read_request_def demo_rpc_def RPC_VERSION_def MAX_FRAME_BYTES_def known_members_def json_get_str_def u64_max_def
      valid_request_id_def MAX_REQUEST_ID_BYTES_def has_nul_def Let_def)

lemma demo_listed: "sc_calls (snd (handle_bytes 3 3 (demo_rpc SystemStatus) ''frame'' s)) = sc_calls s"
proof -
  have "others (rp_sched (demo_rpc m)) t = t" for m and t :: "unit sched" by (simp add: demo_rpc_def others_def demo_sched_io_def)
  then have "\<exists>v. system_status (demo_rpc SystemStatus) s = (Some (Inr v), s)"
    by (simp add: system_status_def sc_run sc_get_def Let_def)
  then have "snd (rpc_dispatch 3 3 (demo_rpc SystemStatus) SystemStatus s) = s" by (auto simp: sc_run)
  then show ?thesis by (cases "rpc_dispatch 3 3 (demo_rpc SystemStatus) SystemStatus s") (auto simp: handle_bytes_def demo_rpc_request split: option.split sum.split)
qed

theorem rpc_refines_agent_witness:
  "store_ok (sc_store (snd (handle_bytes 3 3 (demo_rpc SystemStatus) ''frame'' (demo_sched demo_store))))
    \<and> agent_step\<^sup>*\<^sup>* (view demo_store ''a'')
        (view (sc_store (snd (handle_bytes 3 3 (demo_rpc SystemStatus) ''frame'' (demo_sched demo_store)))) ''a'')"
proof -
  have "store_ok (sc_store (demo_sched demo_store))" unfolding demo_store_def by (simp add: demo_sched_def run_ops_ok)
  moreover have "\<not> rolled_back (demo_sched demo_store) (snd (handle_bytes 3 3 (demo_rpc SystemStatus) ''frame'' (demo_sched demo_store)))"
    by (simp add: rolled_back_def logs_def demo_listed)
  ultimately show ?thesis using rpc_refines_agent by (fastforce simp: demo_sched_def)
qed

section \<open>Artifacts\<close>

definition names_artifact :: "task_result \<Rightarrow> string \<Rightarrow> string \<Rightarrow> bool" where
  "names_artifact r artifact_id sha256 \<longleftrightarrow> list_ex (\<lambda>a. ra_artifact_id a = artifact_id \<and> ra_sha256 a = sha256) (rs_artifacts r)"

lemma allowed_is_named: "allowed_artifacts stored i = Some h \<Longrightarrow> \<exists>r. stored = Some r \<and> names_artifact (sr_result r) i h"
  by (auto simp: allowed_artifacts_def names_artifact_def list_ex_iff split: option.splits dest!: map_of_SomeD)

lemma projected_is_named:
  assumes "project_artifacts stored rows = Inr ms" and "m \<in> set ms"
  shows "\<exists>r. stored = Some r \<and> names_artifact (sr_result r) (am_artifact_id m) (am_sha256 m)"
proof -
  let ?rows = "filter (\<lambda>r. allowed_artifacts stored (ar_artifact_id r) = Some (ar_sha256 r)) rows"
  obtain ns where ns: "collect_results (map artifact_view ?rows) = Inr ns" and ms: "ms = sort_key am_artifact_id ns"
    using assms(1) by (auto simp: project_artifacts_def)
  have m: "m \<in> set ns" using assms(2) by (simp add: ms)
  obtain r where r: "r \<in> set ?rows" "artifact_view r = Inr m" using collect_results_ok [OF ns m] by blast
  then have "allowed_artifacts stored (am_artifact_id m) = Some (am_sha256 m)" by (auto simp: artifact_view_def)
  then show ?thesis by (rule allowed_is_named)
qed

definition keeps_results :: "'w sched_io \<Rightarrow> string \<Rightarrow> bool" where
  "keeps_results io a \<longleftrightarrow> (\<forall>x. stored_result (sc_store (others io x)) a = stored_result (sc_store x) a)"

abbreviation same_result :: "string \<Rightarrow> 'w sched \<Rightarrow> 'w sched \<Rightarrow> bool" where
  "same_result a s t \<equiv> stored_result (sc_store t) a = stored_result (sc_store s) a"

lemma metadata_is_named:
  assumes "task_artifact_metadata rp task s = (Some (Inr ms), s')" and "m \<in> set ms"
    and "keeps_results (rp_sched rp) (tr_agent_id task)"
  shows "\<exists>r. stored_result (sc_store s) (tr_agent_id task) = Some r \<and> names_artifact (sr_result r) (am_artifact_id m) (am_sha256 m)"
proof -
  obtain rows where "project_artifacts (stored_result (sc_store (others (rp_sched rp) s)) (tr_agent_id task)) rows = Inr ms"
    using assms(1) by (auto simp: task_artifact_metadata_def sc_read_def Let_def)
  from projected_is_named [OF this assms(2)] show ?thesis using assms(3) by (simp add: keeps_results_def)
qed

lemma chunk_of_verified:
  assumes "verified_artifact_chunk rp stored expected off lim s = (Some (Inr c), s')"
    and same: "\<And>fd w w'. rp_bytes rp fd w = rp_bytes rp fd w'"
  shows "\<exists>content. hash (si_workspace (rp_sched rp)) content = am_sha256 expected \<and> ck_sha256 c = am_sha256 expected
     \<and> ck_size_bytes c = am_size_bytes expected \<and> ck_artifact_id c = am_artifact_id expected
     \<and> ck_bytes c = take (min (am_size_bytes expected - off) lim) (drop off content)
     \<and> length (ck_bytes c) = min (am_size_bytes expected - off) lim"
proof -
  let ?n = "min (am_size_bytes expected - off) lim"
  obtain fd w w' content held where first: "rp_bytes rp fd w = Some content" "hash (si_workspace (rp_sched rp)) content = am_sha256 expected"
    and again: "rp_bytes rp fd w' = Some held" and long: "\<not> length (take ?n (drop off held)) < ?n"
    and c: "c = \<lparr>ck_artifact_id = am_artifact_id expected, ck_sha256 = am_sha256 expected, ck_size_bytes = am_size_bytes expected,
      ck_offset_bytes = off, ck_bytes = take ?n (drop off held), ck_eof = (off + length (take ?n (drop off held)) = am_size_bytes expected)\<rparr>"
    using assms(1) by (auto simp: verified_artifact_chunk_def Let_def sc_get_def simp del: length_take split: if_splits)
  have "held = content" using first(1) again same [of fd w w'] by simp
  moreover have "length (take ?n (drop off held)) = ?n" using long by (metis le_less_linear length_take min.absorb_iff2 min.cobounded2 nat_less_le)
  ultimately show ?thesis using first(2) c by (intro exI [of _ content]) (simp del: length_take)
qed

text \<open>C17 (safety): a chunk of an artifact that the service hands out is a non-empty slice, within the cap, of bytes whose digest is the one
  the stored result of the task names for that artifact, provided the opened file is not written to while it is read and no
  other thread changes the stored result of the task. Files that were replaced, truncated or turned into links after the
  task ended are refused.\<close>

theorem artifact_chunk_is_verified:
  assumes "task_artifact_chunk rp task q s = (Some (Inr c), s')"
    and "\<And>fd w w'. rp_bytes rp fd w = rp_bytes rp fd w'"
    and "keeps_results (rp_sched rp) (tr_agent_id task)"
  shows "\<exists>content r. hash (si_workspace (rp_sched rp)) content = ck_sha256 c
     \<and> ck_bytes c = take (aq_limit_bytes q) (take (ck_size_bytes c - aq_offset_bytes q) (drop (aq_offset_bytes q) content))
     \<and> ck_bytes c \<noteq> [] \<and> length (ck_bytes c) \<le> MAX_ARTIFACT_CHUNK_BYTES
     \<and> ck_artifact_id c = aq_artifact_id q
     \<and> stored_result (sc_store s) (tr_agent_id task) = Some r \<and> names_artifact (sr_result r) (aq_artifact_id q) (ck_sha256 c)"
proof -
  obtain ms u' v expected stored where ms: "task_artifact_metadata rp task s = (Some (Inr ms), u')"
    and e: "List.find (\<lambda>m. am_artifact_id m = aq_artifact_id q) ms = Some expected"
    and off: "aq_offset_bytes q < am_size_bytes expected" and lim: "0 < aq_limit_bytes q" "aq_limit_bytes q \<le> MAX_ARTIFACT_CHUNK_BYTES"
    and c: "verified_artifact_chunk rp stored expected (aq_offset_bytes q) (aq_limit_bytes q) v = (Some (Inr c), s')"
    using assms(1) by (auto simp: task_artifact_chunk_def Let_def not_le sc_result_def split: if_splits)
  have m: "expected \<in> set ms" "am_artifact_id expected = aq_artifact_id q" using e by (auto simp: find_Some_iff)
  then obtain r where r: "stored_result (sc_store s) (tr_agent_id task) = Some r"
    "names_artifact (sr_result r) (am_artifact_id expected) (am_sha256 expected)" using metadata_is_named [OF ms _ assms(3)] by blast
  moreover obtain content where content: "hash (si_workspace (rp_sched rp)) content = am_sha256 expected" "ck_sha256 c = am_sha256 expected"
    "ck_size_bytes c = am_size_bytes expected" "ck_artifact_id c = am_artifact_id expected"
    "ck_bytes c = take (min (am_size_bytes expected - aq_offset_bytes q) (aq_limit_bytes q)) (drop (aq_offset_bytes q) content)"
    and len: "length (ck_bytes c) = min (am_size_bytes expected - aq_offset_bytes q) (aq_limit_bytes q)"
    using chunk_of_verified [OF c assms(2)] by blast
  moreover have "ck_bytes c \<noteq> []" "length (ck_bytes c) \<le> MAX_ARTIFACT_CHUNK_BYTES" using len off lim by auto
  ultimately show ?thesis
    using m(2) by (intro exI [of _ content] exI [of _ r]) (auto simp: min.commute)
qed

definition patch_store :: store where
  "patch_store = empty_store\<lparr>
     task_results := [\<lparr>rr_agent_id = ''a'', rr_result = (demo_result Completed ''ok'')\<lparr>rs_artifacts := [\<lparr>ra_kind = ChangesPatch, ra_artifact_id = ''p'', ra_sha256 = ''d''\<rparr>]\<rparr>,
       rr_retained = False, rr_result_sha256 = ''d'', rr_completed_at = 3\<rparr>],
     artifacts := [\<lparr>ar_artifact_id = ''p'', ar_agent_id = ''a'', ar_artifact_type = ''changes_patch'', ar_path = ''/a/p'', ar_sha256 = ''d'',
       ar_bytes = 5, ar_created_at = 3\<rparr>]\<rparr>"

definition patch_rpc :: "unit rpc_io" where
  "patch_rpc = (demo_rpc SystemStatus)\<lparr>rp_sched := (demo_sched_io JNull)\<lparr>si_workspace := (demo_workspace False)\<lparr>wo_kind := \<lambda>_ _. Some KindFile, wo_len := \<lambda>_ _. 5\<rparr>\<rparr>\<rparr>"

definition patch_query :: task_artifact_query where
  "patch_query = \<lparr>aq_agent_id = ''a'', aq_artifact_id = ''p'', aq_offset_bytes = 2, aq_limit_bytes = 8\<rparr>"

definition patch_row :: artifact_row where
  "patch_row = \<lparr>ar_artifact_id = ''p'', ar_agent_id = ''a'', ar_artifact_type = ''changes_patch'', ar_path = ''/a/p'', ar_sha256 = ''d'',
     ar_bytes = 5, ar_created_at = 3\<rparr>"

lemma patch_reads:
  "artifact_listing patch_store ''a'' 100 = Inr [patch_row]"
  "project_artifacts (stored_result patch_store ''a'') [patch_row] = Inr [\<lparr>am_artifact_id = ''p'', am_kind = ''changes_patch'', am_sha256 = ''d'', am_size_bytes = 5\<rparr>]"
  by (simp_all add: patch_store_def patch_row_def empty_store_def artifact_listing_def usize_to_i64_def i64_to_u64_def i64_max_def
      project_artifacts_def artifact_view_def allowed_artifacts_def public_artifact_kind_def stored_result_def query_task_result_def)

lemma patch_rpc_reads:
  "others (rp_sched patch_rpc) s = s" "wo_kind (si_workspace (rp_sched patch_rpc)) q w = Some KindFile"
  "wo_len (si_workspace (rp_sched patch_rpc)) q w = 5" "hash (si_workspace (rp_sched patch_rpc)) b = ''d''"
  "rp_open patch_rpc q w = Some 7" "rp_bytes patch_rpc fd w = Some ''patch''"
  by (simp_all add: patch_rpc_def others_def demo_sched_io_def hash_def demo_workspace_def demo_reader_def demo_rpc_def)

lemma patch_chunk:
  assumes "tr_agent_id t = ''a''"
  shows "task_artifact_chunk patch_rpc t patch_query (demo_sched patch_store)
    = (Some (Inr \<lparr>ck_artifact_id = ''p'', ck_sha256 = ''d'', ck_size_bytes = 5, ck_offset_bytes = 2, ck_bytes = ''tch'', ck_eof = True\<rparr>), demo_sched patch_store)"
proof -
  have store: "sc_store (demo_sched patch_store) = patch_store" by (simp add: demo_sched_def)
  have metadata: "task_artifact_metadata patch_rpc t (demo_sched patch_store)
      = (Some (Inr [\<lparr>am_artifact_id = ''p'', am_kind = ''changes_patch'', am_sha256 = ''d'', am_size_bytes = 5\<rparr>]), demo_sched patch_store)"
    by (simp add: task_artifact_metadata_def assms sc_run sc_read_def patch_rpc_reads store patch_reads MAX_PENDING_REQUESTS_def)
  have chunk: "verified_artifact_chunk patch_rpc patch_row \<lparr>am_artifact_id = ''p'', am_kind = ''changes_patch'', am_sha256 = ''d'', am_size_bytes = 5\<rparr> 2 8 (demo_sched patch_store)
      = (Some (Inr \<lparr>ck_artifact_id = ''p'', ck_sha256 = ''d'', ck_size_bytes = 5, ck_offset_bytes = 2, ck_bytes = ''tch'', ck_eof = True\<rparr>), demo_sched patch_store)"
    by (simp add: verified_artifact_chunk_def sc_run sc_get_def patch_rpc_reads patch_row_def Let_def ok_or_def)
  show ?thesis
    by (simp add: task_artifact_chunk_def patch_query_def rpc_validate_id_def rpc_validate_text_def has_nul_def MAX_ARTIFACT_CHUNK_BYTES_def
        sc_run metadata sc_read_def patch_rpc_reads store assms patch_reads MAX_PENDING_REQUESTS_def Let_def)
      (simp add: patch_row_def chunk [unfolded patch_row_def])
qed

theorem artifact_chunk_is_verified_witness:
  "\<exists>content r. hash (si_workspace (rp_sched patch_rpc)) content = ''d'' \<and> ''tch'' = take 8 (take 3 (drop 2 content))
     \<and> stored_result patch_store ''a'' = Some r \<and> names_artifact (sr_result r) ''p'' ''d''"
proof -
  obtain t :: task_record where t: "tr_agent_id t = ''a''" by (metis task_record.select_convs(1))
  have same: "rp_bytes patch_rpc fd w = rp_bytes patch_rpc fd w'" for fd w w' by (simp add: patch_rpc_def demo_rpc_def)
  have "keeps_results (rp_sched patch_rpc) (tr_agent_id t)" by (simp add: keeps_results_def patch_rpc_reads)
  from artifact_chunk_is_verified [OF patch_chunk [OF t] same this] show ?thesis
    by (auto simp: patch_query_def t demo_sched_def)
qed

section \<open>The preview of a request\<close>

text \<open>Other threads leave the registered policy of an agent and the requests alone, and the files keep as they are.\<close>

definition undisturbed :: "'w sched_io \<Rightarrow> string \<Rightarrow> bool" where
  "undisturbed io a \<longleftrightarrow> (\<forall>w w'. si_fs io w = si_fs io w')
     \<and> (\<forall>x. active_policy a (others io x) = active_policy a x
          \<and> (\<forall>q. query_pending_request (sc_store (others io x)) q = query_pending_request (sc_store x) q))"

abbreviation steady :: "string \<Rightarrow> 'w sched \<Rightarrow> 'w sched \<Rightarrow> bool" where
  "steady a s t \<equiv> active_policy a t = active_policy a s
     \<and> (\<forall>q. query_pending_request (sc_store t) q = query_pending_request (sc_store s) q)"

interpretation steady: relation_kept "steady a" for a
  by unfold_locales auto

lemma steady_reads:
  assumes "undisturbed io a"
  shows "keeps (steady a) (sc_get io f)" "keeps (steady a) (sc_read io q)" "keeps (steady a) (sc_call io g)"
  using assms
  by (auto simp: keeps_def sc_get_def sc_read_def sc_call_def Let_def undisturbed_def active_policy_def split: prod.split)

lemma steady_parts:
  assumes "undisturbed (rp_sched rp) a"
  shows "keeps (steady a) (require_task rp b)" "keeps (steady a) (passive_activity_snapshot rp b)"
    "keeps (steady a) (pending_views rp pl rows)"
  unfolding require_task_def passive_activity_snapshot_def pending_views_def Let_def by (intro keeps_rules steady_reads [OF assms])+

lemma map_err_Inr: "map_sum f id r = Inr y \<longleftrightarrow> r = Inr y"
  by (cases r) auto

lemma get_task_id: "get_task st a = Inr (Some t) \<Longrightarrow> tr_agent_id t = a"
  by (auto simp: get_task_def query_task_def dest!: convert_task_row_fields(1) task_row_of_id split: option.splits)

lemma require_task_id: "require_task rp a s = (Some (Inr t), s') \<Longrightarrow> tr_agent_id t = a"
  by (auto simp: require_task_def sc_read_def Let_def map_err_Inr dest!: get_task_id split: if_splits)

lemma bounded_rows_are_stored:
  "pending_requests_bounded st a n = Inr rows \<Longrightarrow> r \<in> set rows \<Longrightarrow> query_pending_request st (pr_request_id r) = Some r"
  by (auto simp: pending_requests_bounded_def query_pending_request_def find_Some_iff dest!: collect_results_ok)
    (metis find_Some_iff option.inject)

lemma views_of_rows:
  assumes "undisturbed (rp_sched rp) a" and "pending_views rp pl rows s = (Some (Inr views), t)" and "v \<in> set views"
  shows "\<exists>r\<in>set rows. pending_request_view_of (env_parse (si_env (rp_sched rp))) (si_fs (rp_sched rp) w) pl r = Some v"
  using assms(2,3) unfolding pending_views_def
proof (induction rows arbitrary: s views)
  case (Cons r rows)
  obtain fs where fs: "\<And>w. si_fs (rp_sched rp) w = fs" using assms(1) unfolding undisturbed_def by metis
  from Cons.prems Cons.IH show ?case by (auto simp: sc_get_def Let_def fs split: option.splits) blast
qed simp

text \<open>A view of an answer to a poll shows a stored request under the registered policy.\<close>

definition shown :: "'w rpc_io \<Rightarrow> string \<Rightarrow> 'w sched \<Rightarrow> pending_request_view \<Rightarrow> bool" where
  "shown rp a s v \<longleftrightarrow> (\<exists>r. query_pending_request (sc_store s) (pr_request_id r) = Some r
     \<and> pending_request_view_of (env_parse (si_env (rp_sched rp))) (si_fs (rp_sched rp) (sc_world s)) (active_policy a s) r = Some v)"

lemma poll_now_shows:
  assumes "undisturbed (rp_sched rp) (pq_agent_id q)"
    and "poll_now rp q d s = (Some (Inr (Inr (TaskPolled tv revision views avail activity timed_out))), t)" and "v \<in> set views"
  shows "shown rp (pq_agent_id q) t v"
proof -
  let ?a = "pq_agent_id q"
  note reads = steady_reads [OF assms(1), THEN keepsD] steady_parts [OF assms(1), THEN keepsD]
  obtain task u1 policy u2 rows u3 u4 avail' u5 activity' u6 now where
    c: "require_task rp ?a s = (Some (Inr task), u1)"
      "sc_get (rp_sched rp) (active_policy (tr_agent_id task)) u1 = (Some (Inr policy), u2)"
      "sc_read (rp_sched rp) (\<lambda>st. pending_requests_bounded st (tr_agent_id task) MAX_PENDING_REQUESTS) u2 = (Some (Inr rows), u3)"
      "pending_views rp policy rows u3 = (Some (Inr views), u4)"
      "sc_read (rp_sched rp) (\<lambda>st. Inr (stored_result st (tr_agent_id task) \<noteq> None)) u4 = (Some (Inr avail'), u5)"
      "passive_activity_snapshot rp (tr_agent_id task) u5 = (Some (Inr activity'), u6)"
      "sc_call (rp_sched rp) (si_now (rp_sched rp)) u6 = (Some (Inr now), t)"
    using assms(2) unfolding poll_now_def Let_def by (elim sc_bind_okE) (auto split: if_splits)
  have id: "tr_agent_id task = ?a" by (rule require_task_id [OF c(1)])
  have policy: "policy = active_policy ?a u2" using c(2) id by (auto simp: sc_get_def Let_def)
  obtain r where r: "r \<in> set rows"
    "pending_request_view_of (env_parse (si_env (rp_sched rp))) (si_fs (rp_sched rp) (sc_world t)) policy r = Some v"
    using views_of_rows [OF assms(1) c(4) assms(3)] by blast
  have "query_pending_request (sc_store u3) (pr_request_id r) = Some r"
    using c(3) r(1) by (auto simp: sc_read_def Let_def map_err_Inr intro: bounded_rows_are_stored)
  moreover have later: "steady ?a u2 u3" "steady ?a u3 t"
    using reads(2) [OF c(3)] reads(6) [OF c(4)] reads(2) [OF c(5)] reads(5) [OF c(6)] reads(3) [OF c(7)] by simp_all
  ultimately show ?thesis using r(2) policy unfolding shown_def by metis
qed

lemma poll_loop_shows:
  assumes "undisturbed (rp_sched rp) (pq_agent_id q)"
    and "poll_loop passes rp q d s = (Some (Inr (TaskPolled tv revision views avail activity timed_out)), t)" and "v \<in> set views"
  shows "shown rp (pq_agent_id q) t v"
  using assms(2)
proof (induction passes arbitrary: s)
  case (Suc passes)
  from Suc.prems show ?case
    by (auto split: sum.splits dest!: Suc.IH poll_now_shows [OF assms(1) _ assms(3)])
qed simp

lemma decided_as_previewed:
  assumes "effective_decision io policy r decision s = (Some (Inr (effective, override_reason, denial)), t)"
    and "pending_request_view_of (env_parse (si_env io)) fs policy r = Some v"
    and "pr_request_type r = ''permission''" and "\<And>w. si_fs io w = fs" and "decision \<in> {''allow'', ''deny''}"
  shows "(pv_policy_preview v = ''hard_deny'' \<longrightarrow> effective = ''deny'' \<and> (decision = ''allow'' \<longrightarrow> override_reason \<noteq> None))
    \<and> (pv_policy_preview v = ''externally_decidable'' \<longrightarrow> effective = decision \<and> override_reason = None)"
proof (cases policy)
  case None
  then show ?thesis using assms(2,3) by (auto simp: pending_request_view_of_def policy_preview_def Let_def split: option.splits)
next
  case (Some pl)
  obtain params where params: "env_parse (si_env io) (pr_payload_json r) = Some params"
    using assms(1) Some by (auto simp: effective_decision_def split: option.splits)
  obtain d where d: "decide_zcode_permission fs pl params Allow = Some d"
    and v: "pv_policy_preview v = (if pd_allowed d then ''externally_decidable'' else ''hard_deny'')"
    using assms(2,3) params Some by (auto simp: pending_request_view_of_def policy_preview_def Let_def)
  let ?external = "if decision = ''allow'' then Allow else Deny"
  obtain p den where p: "decide_zcode_permission_validated fs pl params ?external = Some (p, den)"
    and e: "effective = (if ?external = Allow \<and> \<not> pd_allowed p then ''deny'' else decision)"
      "override_reason = (if ?external = Allow \<and> \<not> pd_allowed p then Some (pd_reason p) else None)"
    using assms(1) by (auto simp: Some params effective_decision_def sc_get_def Let_def assms(4) split: option.splits prod.splits)
  have "decision = ''allow'' \<Longrightarrow> p = d" using p d by (auto simp: decide_zcode_permission_validated_def)
  then show ?thesis using v e assms(5) by (auto split: if_splits)
qed

lemma steady_respond:
  assumes "undisturbed io a"
  shows "keeps (steady a) (control_deadline io)" "keeps (steady a) (find_active io b)" "keeps (steady a) (lock_operation io b h d)"
    "keeps (steady a) (require_runtime_ingress io b h)" "keeps (steady a) (require_remaining io b d)"
  unfolding control_deadline_def find_active_def lock_operation_def require_runtime_ingress_def require_remaining_def sched_remaining_def
  by (intro keeps_rules steady_reads [OF assms])+

text \<open>C18 (functional): the preview a client gets of a pending permission request tells the truth about the answer. If a poll
  shows a request of the task and the client then answers it, \<^verbatim>\<open>allow\<close> or \<^verbatim>\<open>deny\<close>, and the answer is sent, then a
  request previewed as \<^verbatim>\<open>hard_deny\<close> was denied, with the policy's reason when the client had allowed it, and one previewed
  as \<^verbatim>\<open>externally_decidable\<close> got the decision of the client. Assumed is that the files do not change and that
  other threads leave the registered policy of the task and the stored requests alone, during the poll and the answer.\<close>

theorem preview_is_truthful:
  assumes "undisturbed (rp_sched rp) (pq_agent_id q)"
    and "task_poll passes rp q s = (Some (Inr (TaskPolled tv revision views avail activity timed_out)), u)" and "v \<in> set views"
    and "sched_respond_request fuel (rp_sched rp) (pq_agent_id q) (pv_request_id v) decision content u = (Some (Inr outcome), t)"
    and "rp_disposition outcome = Responded"
  shows "(pv_policy_preview v = ''hard_deny'' \<longrightarrow> rp_effective_decision outcome = ''deny''
       \<and> (decision = ''allow'' \<longrightarrow> rp_policy_overrode outcome \<and> rp_policy_reason_code outcome \<noteq> None))
    \<and> (pv_policy_preview v = ''externally_decidable'' \<longrightarrow> rp_effective_decision outcome = decision
       \<and> \<not> rp_policy_overrode outcome \<and> rp_policy_reason_code outcome = None)"
proof -
  let ?io = "rp_sched rp" and ?a = "pq_agent_id q"
  note reads = steady_reads [OF assms(1), THEN keepsD]
  have "shown rp ?a u v"
    using assms(2) by (auto simp: task_poll_def split: if_splits dest!: poll_loop_shows [OF assms(1) _ assms(3)])
  then obtain r where r: "query_pending_request (sc_store u) (pr_request_id r) = Some r"
    and view: "pending_request_view_of (env_parse (si_env ?io)) (si_fs ?io (sc_world u)) (active_policy ?a u) r = Some v"
    unfolding shown_def by blast
  have rid: "pv_request_id v = pr_request_id r" using view by (auto simp: pending_request_view_of_def Let_def split: if_splits)
  obtain x1 found x2 request x3 act deadline where c: "control_deadline ?io u = (Some (Inr deadline), x1)"
    "sc_read ?io (\<lambda>st. Inr (pending_request st ?a (pv_request_id v))) x1 = (Some (Inr found), x2)"
    "found = Some request" "pr_request_type request = ''permission''" "decision \<in> {''allow'', ''deny''}"
    "find_active ?io ?a x2 = (Some (Inr (Some act)), x3)"
    "answer_pending fuel ?io ?a request decision content act deadline x3 = (Some (Inr outcome), t)"
    using assms(4,5) unfolding sched_respond_request_def
    by (auto simp: known_response_def split: if_splits option.splits)
  obtain x4 u1 x5 u2 x6 u3 x7 u4 holder u5 effective reason_text denial u6 where d:
    "lock_operation ?io ?a (ar_runtime act) deadline x3 = (Some (Inr u1), x4)"
    "require_runtime_ingress ?io ?a (ar_runtime act) x4 = (Some (Inr u2), x5)"
    "sc_read ?io (\<lambda>st. get_task st ?a) x5 = (Some (Inr u3), x6)"
    "require_remaining ?io ?a deadline x6 = (Some (Inr u4), x7)"
    "find_active ?io ?a x7 = (Some (Inr holder), u5)"
    "effective_decision ?io (Option.bind holder ar_policy) request decision u5 = (Some (Inr (effective, reason_text, denial)), u6)"
    "rp_effective_decision outcome = effective" "rp_policy_overrode outcome = (effective \<noteq> decision)" "rp_policy_reason_code outcome = reason_text"
    using c(7) assms(5) unfolding answer_pending_def Let_def by (auto split: if_splits response_claim.splits pending_state.splits)
  have same: "steady ?a u u5"
    using c(1,2,6) d(1-5) steady_respond [OF assms(1), THEN keepsD] reads(2) by (metis (no_types, lifting))
  have "steady ?a u x2" using steady_respond(1) [OF assms(1), THEN keepsD, OF c(1)] reads(2) [OF c(2)] by simp
  moreover have "pending_request (sc_store x2) ?a (pr_request_id r) = Some request"
    using c(2,3) rid by (auto simp: sc_read_def Let_def)
  ultimately have "request = r" using r by (auto simp: pending_request_def split: if_splits)
  moreover have "Option.bind holder ar_policy = active_policy ?a u"
    using d(5) same by (auto simp: find_active_def sc_get_def Let_def active_policy_def)
  moreover have "si_fs ?io w = si_fs ?io (sc_world u)" for w using assms(1) unfolding undisturbed_def by blast
  ultimately show ?thesis using decided_as_previewed [OF d(6) _ c(4) _ c(5)] view d(7-9) by auto
qed

definition asking_rpc :: "unit rpc_io" where
  "asking_rpc = \<lparr>rp_sched = (demo_sched_io demo_tool)\<lparr>
       si_workspace := (demo_workspace False)\<lparr>wo_serde := demo_serde (demo_prepared\<lparr>pg_repository := ''w''\<rparr>)\<rparr>\<rparr>,
     rp_prepare = demo_prepare_env, rp_catalog = [], rp_service_generation = ''g'', rp_decode = (\<lambda>_. None),
     rp_journal_mode = (\<lambda>_. None), rp_open = (\<lambda>_ _. None), rp_bytes = (\<lambda>_ _. None), rp_sleep = (\<lambda>_ w. w)\<rparr>"

definition asking_query :: task_poll_query where
  "asking_query = \<lparr>pq_agent_id = ''a'', pq_after_revision = 0, pq_timeout_ms = 0\<rparr>"

lemma asking_rpc_reads:
  "others (rp_sched asking_rpc) s = s" "si_now (rp_sched asking_rpc) w = (1, w)" "si_fs (rp_sched asking_rpc) w = demo_fs"
  "env_parse (si_env (rp_sched asking_rpc)) t = Some demo_tool"
  "ps_decode (si_serde (rp_sched asking_rpc)) v = Some (demo_prepared\<lparr>pg_repository := ''w''\<rparr>)"
  "si_time (rp_sched asking_rpc) w = (5, w)" "si_instant_max (rp_sched asking_rpc) = 10 ^ 9" "si_lock (rp_sched asking_rpc) h d w = (True, w)"
  "si_respond (rp_sched asking_rpc) h c e x y d w = (Inr (), w)" "cf_control_timeout (si_config (rp_sched asking_rpc)) = 9"
  "cf_stop_grace (si_config (rp_sched asking_rpc)) = 1"
  by (simp_all add: asking_rpc_def others_def demo_sched_io_def demo_workspace_def demo_fs_def demo_serde_def demo_sink_env_def demo_reader_def)

lemma asking_rows:
  "\<exists>t r. get_task demo_asking ''a'' = Inr (Some t) \<and> tr_agent_id t = ''a'' \<and> tr_repository t = ''w''
     \<and> pending_requests_bounded demo_asking ''a'' 100 = Inr [r] \<and> pr_request_type r = ''permission'' \<and> pr_request_id r = ''q''"
  by (simp add: asking_defs req_open_def pending_requests_bounded_def)

lemma asking_polled:
  "\<exists>tv revision v avail activity timed_out. task_poll 1 asking_rpc asking_query (demo_sched demo_asking)
     = (Some (Inr (TaskPolled tv revision [v] avail activity timed_out)), demo_sched demo_asking)
     \<and> pv_request_id v = ''q'' \<and> pv_policy_preview v = ''externally_decidable''"
proof -
  obtain t r where reads: "get_task demo_asking ''a'' = Inr (Some t)" "tr_agent_id t = ''a''" "tr_repository t = ''w''"
    "pending_requests_bounded demo_asking ''a'' 100 = Inr [r]" "pr_request_type r = ''permission''" "pr_request_id r = ''q''"
    using asking_rows by blast
  let ?s = "demo_sched demo_asking"
  have task: "require_task asking_rpc ''a'' ?s = (Some (Inr t), ?s)"
    using reads by (simp add: require_task_def sc_run sc_read_def rpc_validate_id_def rpc_validate_text_def has_nul_def ok_or_def Let_def
        demo_sched_def asking_rpc_reads)
  obtain p d where "decide_zcode_permission_validated demo_fs (demo_launcher ReadOnly) demo_tool Allow = Some (p, d)" "pd_allowed p"
    using demo_policy by blast
  then obtain v where view: "pending_request_view_of (env_parse (si_env (rp_sched asking_rpc))) demo_fs (Some (demo_launcher ReadOnly)) r = Some v"
    "pv_request_id v = ''q''" "pv_policy_preview v = ''externally_decidable''"
    using reads by (auto simp: pending_request_view_of_def policy_preview_def Let_def asking_rpc_reads decide_zcode_permission_validated_def)
  have "\<exists>revision avail activity timed_out. poll_now asking_rpc asking_query 1 ?s
      = (Some (Inr (Inr (TaskPolled (task_view_of t) revision [v] avail activity timed_out))), ?s)"
    using reads view
    by (simp add: poll_now_def asking_query_def sc_bind_def [of "require_task asking_rpc ''a''"] task)
      (simp add: sc_run sc_get_def sc_read_def sc_call_def active_policy_def passive_activity_snapshot_def pending_views_def MAX_PENDING_REQUESTS_def
        asking_rpc_reads demo_sched_def Let_def, rule exI [of _ False], simp)
  then obtain revision avail activity timed_out where pass: "poll_now asking_rpc asking_query 1 ?s
      = (Some (Inr (Inr (TaskPolled (task_view_of t) revision [v] avail activity timed_out))), ?s)" by blast
  have same: "?s\<lparr>sc_world := ()\<rparr> = ?s" by (simp add: demo_sched_def)
  have "task_poll 1 asking_rpc asking_query ?s = (Some (Inr (TaskPolled (task_view_of t) revision [v] avail activity timed_out)), ?s)"
    using pass by (simp add: task_poll_def MAX_WAIT_def asking_query_def sc_bind_def sc_call_def sc_map_err_def Let_def asking_rpc_reads same)
  then show ?thesis using view(2,3) by blast
qed

lemma asking_answered:
  "\<exists>outcome t. sched_respond_request 3 (rp_sched asking_rpc) ''a'' ''q'' ''allow'' None (demo_sched demo_asking) = (Some (Inr outcome), t)
     \<and> rp_disposition outcome = Responded"
proof -
  obtain r t s1 t1 s2 where asked: "pending_request demo_asking ''a'' ''q'' = Some r" "pr_request_id r = ''q''" "pr_correlation_id r = ''c''"
    "pr_request_type r = ''permission''" "pr_state r = ReqPending" "get_task demo_asking ''a'' = Inr t" "accepting 1 t"
    "claim_pending_response_if_accepting ''a'' ''q'' ''allow'' None demo_asking = Inr (Claimed, s1)" "get_task s1 ''a'' = Inr t1" "accepting 1 t1"
    "complete_pending_response 5 ''a'' ''q'' s1 = Inr (True, s2)" using demo_asking_ok by blast
  obtain p d where "decide_zcode_permission_validated demo_fs (demo_launcher ReadOnly) demo_tool Allow = Some (p, d)" "pd_allowed p"
    using demo_policy by blast
  with asked show ?thesis
    by (simp add: sched_respond_request_def control_deadline_def answer_pending_def lock_operation_def require_runtime_ingress_def
        require_remaining_def sched_remaining_def find_active_def effective_decision_def send_claimed_def runtime_phase_deadline_of_def
        runtime_phase_deadline_def deadline_remaining_def ingress_reason_def phase_of_def RuntimeLifecycle_new_def DURATION_MAX_def
        sc_call_def sc_read_def sc_get_def sc_write_def sc_log_def sc_run ok_or_def Let_def demo_sched_def asking_rpc_reads)
qed

theorem preview_is_truthful_witness:
  "\<exists>tv revision v avail activity timed_out outcome t.
     task_poll 1 asking_rpc asking_query (demo_sched demo_asking)
       = (Some (Inr (TaskPolled tv revision [v] avail activity timed_out)), demo_sched demo_asking)
     \<and> sched_respond_request 3 (rp_sched asking_rpc) ''a'' ''q'' ''allow'' None (demo_sched demo_asking) = (Some (Inr outcome), t)
     \<and> pv_policy_preview v = ''externally_decidable'' \<and> rp_effective_decision outcome = ''allow''"
proof -
  obtain tv revision v avail activity timed_out where p: "task_poll 1 asking_rpc asking_query (demo_sched demo_asking)
      = (Some (Inr (TaskPolled tv revision [v] avail activity timed_out)), demo_sched demo_asking)"
    "pv_request_id v = ''q''" "pv_policy_preview v = ''externally_decidable''" using asking_polled by blast
  obtain outcome t where a: "sched_respond_request 3 (rp_sched asking_rpc) ''a'' ''q'' ''allow'' None (demo_sched demo_asking) = (Some (Inr outcome), t)"
    "rp_disposition outcome = Responded" using asking_answered by blast
  have "undisturbed (rp_sched asking_rpc) (pq_agent_id asking_query)" by (simp add: undisturbed_def asking_rpc_reads)
  from preview_is_truthful [OF this p(1), of v 3 "''allow''" None outcome t] a p show ?thesis by (auto simp: asking_query_def)
qed


section \<open>Waiting for a change\<close>

text \<open>The clock of the world never goes back, and a pause takes at least its time.\<close>

definition clocked :: "('w \<Rightarrow> nat) \<Rightarrow> 'w rpc_io \<Rightarrow> bool" where
  "clocked clock rp \<longleftrightarrow>
     (\<forall>w. fst (si_now (rp_sched rp) w) = clock w \<and> clock w \<le> clock (snd (si_now (rp_sched rp) w))
        \<and> clock w \<le> clock (snd (si_others (rp_sched rp) w)) \<and> (\<forall>n. clock w + n \<le> clock (rp_sleep rp n w)))"

abbreviation later :: "('w \<Rightarrow> nat) \<Rightarrow> 'w sched \<Rightarrow> 'w sched \<Rightarrow> bool" where
  "later clock s t \<equiv> clock (sc_world s) \<le> clock (sc_world t)"

interpretation later: relation_kept "later clock" for clock :: "'w \<Rightarrow> nat"
  by unfold_locales auto

lemma interfere_world: "sc_world (interfere io x s) = sc_world s"
  by (cases x) (simp_all add: emit_to_def on_phase_def on_sink_def set_sink_def register_def release_def note_failure_def Let_def
      other_spawns_def other_registers_def
      other_restores_def split: prod.split option.split sum.split)

lemma others_world: "sc_world (others io s) = snd (si_others io (sc_world s))"
proof -
  have "sc_world (fold (interfere io) xs s) = sc_world s" for xs s
    by (induction xs arbitrary: s) (auto simp: interfere_world)
  then show ?thesis by (simp add: others_def split: prod.split)
qed

lemma later_reads:
  assumes "clocked clock rp"
  shows "keeps (later clock) (sc_get (rp_sched rp) f)" "keeps (later clock) (sc_read (rp_sched rp) q)"
    "keeps (later clock) (sc_call (rp_sched rp) (si_now (rp_sched rp)))"
  using assms
  by (auto simp: keeps_def sc_get_def sc_read_def sc_call_def clocked_def Let_def others_world split: prod.split)
    (metis le_trans snd_conv)+

lemma later_parts:
  assumes "clocked clock rp"
  shows "keeps (later clock) (require_task rp a)" "keeps (later clock) (passive_activity_snapshot rp a)"
    "keeps (later clock) (pending_views rp pl rows)"
  unfolding require_task_def passive_activity_snapshot_def pending_views_def Let_def by (intro keeps_rules later_reads [OF assms])+

lemma poll_now_pause:
  assumes "clocked clock rp" and "poll_now rp q d s = (Some (Inr (Inl pause)), t)"
  shows "\<exists>now. clock (sc_world s) \<le> now \<and> now < d \<and> now \<le> clock (sc_world t) \<and> pause = min (d - now) 10000000"
proof -
  note reads = later_reads [OF assms(1), THEN keepsD] later_parts [OF assms(1), THEN keepsD]
  obtain task u1 policy u2 rows u3 requests u4 avail u5 activity u6 now where
    c: "require_task rp (pq_agent_id q) s = (Some (Inr task), u1)"
      "sc_get (rp_sched rp) (active_policy (tr_agent_id task)) u1 = (Some (Inr policy), u2)"
      "sc_read (rp_sched rp) (\<lambda>st. pending_requests_bounded st (tr_agent_id task) MAX_PENDING_REQUESTS) u2 = (Some (Inr rows), u3)"
      "pending_views rp policy rows u3 = (Some (Inr requests), u4)"
      "sc_read (rp_sched rp) (\<lambda>st. Inr (stored_result st (tr_agent_id task) \<noteq> None)) u4 = (Some (Inr avail), u5)"
      "passive_activity_snapshot rp (tr_agent_id task) u5 = (Some (Inr activity), u6)"
    and now: "sc_call (rp_sched rp) (si_now (rp_sched rp)) u6 = (Some (Inr now), t)"
    and p: "now < d" "pause = min (d - now) 10000000"
    using assms(2) unfolding poll_now_def Let_def by (elim sc_bind_okE) (auto split: if_splits)
  have "later clock s u6"
    using reads(4) [OF c(1)] reads(1) [OF c(2)] reads(2) [OF c(3)] reads(6) [OF c(4)] reads(2) [OF c(5)] reads(5) [OF c(6)] by linarith
  moreover have "clock (sc_world u6) \<le> now \<and> now \<le> clock (sc_world t)"
    using now assms(1) by (auto simp: sc_call_def Let_def others_world clocked_def split: prod.splits) (metis fst_conv snd_conv)+
  ultimately show ?thesis using p by (intro exI [of _ now]) auto
qed

text \<open>A pass that does not answer moves the clock by ten milliseconds or to the deadline.\<close>

lemma sc_bind_cong: "(\<And>x t. m s = (Some (Inr x), t) \<Longrightarrow> f x t = g x t) \<Longrightarrow> sc_bind m f s = sc_bind m g s"
  by (auto simp: sc_bind_def split: prod.split option.split sum.split)

lemma poll_loop_enough:
  assumes "clocked clock rp" and "d \<le> clock (sc_world s) + k * 10000000"
  shows "poll_loop (Suc k + n) rp q d s = poll_loop (Suc k) rp q d s"
  using assms(2)
proof (induction k arbitrary: s)
  case 0
  have "poll_now rp q d s \<noteq> (Some (Inr (Inl pause)), t)" for pause t
    using poll_now_pause [OF assms(1)] 0 by fastforce
  then show ?case by (auto simp: sc_bind_def split: prod.split option.split sum.split)
next
  case (Suc k)
  have "poll_loop (Suc k + n) rp q d v = poll_loop (Suc k) rp q d v"
    if pass: "poll_now rp q d s = (Some (Inr (Inl pause)), t)"
      and sleep: "sc_call (rp_sched rp) (\<lambda>w. ((), rp_sleep rp pause w)) t = (Some (Inr u), v)" for pause t u v
  proof -
    obtain now where now: "clock (sc_world s) \<le> now" "now < d" "now \<le> clock (sc_world t)" "pause = min (d - now) 10000000"
      using poll_now_pause [OF assms(1) pass] by blast
    have "clock (sc_world t) + pause \<le> clock (sc_world v)"
      using sleep assms(1) by (auto simp: sc_call_def Let_def others_world clocked_def) (meson add_le_mono1 le_trans)
    then have "d \<le> clock (sc_world v) + k * 10000000" using now Suc.prems by auto
    then show ?thesis by (rule Suc.IH)
  qed
  note rest = this
  have "poll_loop (Suc (Suc k + n)) rp q d s = poll_loop (Suc (Suc k)) rp q d s"
    unfolding poll_loop.simps(2) [of "Suc k + n"] poll_loop.simps(2) [of "Suc k"]
  proof (rule sc_bind_cong)
    fix r t
    assume pass: "poll_now rp q d s = (Some (Inr r), t)"
    show "(case r of Inr answer \<Rightarrow> sc_ok answer | Inl pause \<Rightarrow>
        sc_bind (rpc_call (sc_call (rp_sched rp) (\<lambda>w. ((), rp_sleep rp pause w)))) (\<lambda>_. poll_loop (Suc k + n) rp q d)) t =
      (case r of Inr answer \<Rightarrow> sc_ok answer | Inl pause \<Rightarrow>
        sc_bind (rpc_call (sc_call (rp_sched rp) (\<lambda>w. ((), rp_sleep rp pause w)))) (\<lambda>_. poll_loop (Suc k) rp q d)) t"
      using rest pass by (cases r) (auto intro!: sc_bind_cong simp del: poll_loop.simps)
  qed
  then show ?case by simp
qed

text \<open>C22 (termination): a poll ends. With a clock that does not go back and pauses that last as long as asked, 501 passes are enough for
  every timeout the service accepts: more passes change nothing, so the loop is over by then.\<close>

theorem poll_terminates:
  assumes "clocked clock rp" and "501 \<le> passes"
  shows "task_poll passes rp q s = task_poll 501 rp q s"
proof -
  have "poll_loop passes rp q (now + pq_timeout_ms q * 1000000) t = poll_loop 501 rp q (now + pq_timeout_ms q * 1000000) t"
    if "sc_call (rp_sched rp) (si_now (rp_sched rp)) s = (Some (Inr now), t)" and "pq_timeout_ms q * 1000000 \<le> MAX_WAIT" for now t
  proof -
    have "now \<le> clock (sc_world t)"
      using that(1) assms(1) by (auto simp: sc_call_def Let_def others_world clocked_def split: prod.splits) (metis fst_conv snd_conv)
    then have "now + pq_timeout_ms q * 1000000 \<le> clock (sc_world t) + 500 * 10000000" using that(2) by (simp add: MAX_WAIT_def)
    from poll_loop_enough [OF assms(1) this, of "passes - 501" q] assms(2) show ?thesis by simp
  qed
  then show ?thesis by (auto simp: task_poll_def sc_bind_def sc_map_err_def map_err_Inr not_less split: prod.split option.split sum.split)
qed

definition poll_rpc :: "nat rpc_io" where
  "poll_rpc = \<lparr>rp_sched = (demo_sched_io JNull)\<lparr>si_now := \<lambda>w. (w, w)\<rparr>, rp_prepare = demo_prepare_env, rp_catalog = [],
     rp_service_generation = ''g'', rp_decode = (\<lambda>_. None), rp_journal_mode = (\<lambda>_. None), rp_open = (\<lambda>_ _. None),
     rp_bytes = (\<lambda>_ _. None), rp_sleep = (\<lambda>n w. w + n)\<rparr>"

theorem poll_terminates_witness: "\<forall>q s. task_poll 600 poll_rpc q s = task_poll 501 poll_rpc q s"
proof -
  have "clocked id poll_rpc" by (simp add: clocked_def poll_rpc_def demo_sched_io_def)
  then show ?thesis using poll_terminates [of id poll_rpc 600] by simp
qed

end
