(* ===== verification/Rpc_Server_Props.thy ===== *)
theory Rpc_Server_Props
  imports Rpc_Transport Submission_Props
begin

text \<open>The server: how many connections it handles, what a handler that panics costs, and which socket files it removes.\<close>

section \<open>Workers\<close>

lemma count_where_list_update:
  "i < length xs \<Longrightarrow> count_where p (xs[i := z]) + (if p (xs ! i) then 1 else 0) = count_where p xs + (if p z then 1 else 0)"
proof (induction xs arbitrary: i)
  case (Cons x xs)
  then show ?case by (cases i) (fastforce simp: count_where_def)+
qed simp

lemma count_where_swap_remove:
  assumes "i < length ws" and "\<not> p (ws ! i)"
  shows "count_where p (butlast (ws[i := last ws])) = count_where p ws"
proof -
  obtain xs z where ws: "ws = xs @ [z]" using assms(1) by (cases ws rule: rev_cases) auto
  show ?thesis
  proof (cases "i < length xs")
    case True
    then show ?thesis using count_where_list_update [of i xs p z] assms(2)
      by (auto simp: ws nth_append list_update_append count_where_def split: if_splits)
  next
    case False
    then show ?thesis using assms by (auto simp: ws nth_append count_where_def less_Suc_eq)
  qed
qed

lemma reap_keeps_handling: "count_where (\<lambda>w. \<not> is_finished w) (reap_from i ws) = count_where (\<lambda>w. \<not> is_finished w) ws"
  by (induction i ws rule: reap_from.induct) (subst reap_from.simps, simp add: count_where_swap_remove)

definition accept_inv :: "server_options \<Rightarrow> acceptor \<Rightarrow> bool" where
  "accept_inv o' a \<longleftrightarrow> ac_counter a = handling a + ac_leaked a \<and> ac_counter a \<le> op_max_connections o'"

lemma worker_ends:
  assumes "i < length (ac_workers a)" and "ac_workers a ! i = Handling w"
  shows "handling (a\<lparr>ac_workers := (ac_workers a)[i := Finished w], ac_counter := c\<rparr>) + 1 = handling a"
  using count_where_list_update [OF assms(1), of "\<lambda>w. \<not> is_finished w" "Finished w"] assms(2) by (simp add: handling_def)

interpretation accepting: inv_system "accept_step o'" "accept_inv o'" for o'
proof unfold_locales
  fix a b
  assume inv: "accept_inv o' a" and "accept_step o' a b"
  from this(2) show "accept_inv o' b"
  proof (rule accept_stepE)
    fix i w
    assume b: "b = a\<lparr>ac_workers := (ac_workers a)[i := Finished w], ac_counter := ac_counter a - Suc 0\<rparr>"
      and i: "i < length (ac_workers a)" "ac_workers a ! i = Handling w"
    show "accept_inv o' b" using inv worker_ends [OF i, of "ac_counter a - Suc 0"] by (auto simp: b accept_inv_def)
  next
    fix i w
    assume b: "b = a\<lparr>ac_workers := (ac_workers a)[i := Finished w], ac_leaked := Suc (ac_leaked a)\<rparr>"
      and i: "i < length (ac_workers a)" "ac_workers a ! i = Handling w"
    show "accept_inv o' b" using inv worker_ends [OF i, of "ac_counter a"] by (auto simp: b accept_inv_def handling_def)
  qed (use inv in \<open>auto simp: accept_inv_def accept_stream_def handling_def reap_finished_workers_def reap_keeps_handling count_where_def
         list_all_iff filter_empty_conv reap_keeps_handling [unfolded count_where_def]\<close>)
qed

lemma accept_inv_start: "accept_inv o' acceptor_start"
  by (simp add: accept_inv_def acceptor_start_def handling_def count_where_def)

text \<open>C23 (invariant): in every reachable state of the server at most \<^verbatim>\<open>max_connections\<close> connections are being handled, and the counter of
  active connections is their number plus the number of handlers that ended in a panic.\<close>

theorem connections_are_bounded:
  assumes "(accept_step o')\<^sup>*\<^sup>* acceptor_start a"
  shows "ac_counter a = handling a + ac_leaked a \<and> handling a \<le> op_max_connections o'"
  using accepting.reachable [OF assms accept_inv_start] by (simp add: accept_inv_def)

definition demo_options :: server_options where
  "demo_options = \<lparr>op_max_connections = 1, op_connection_timeout = 1000000000\<rparr>"

definition after_panic :: acceptor where
  "after_panic = (accept_stream demo_options acceptor_start)\<lparr>ac_workers := [Finished 0], ac_leaked := 1\<rparr>"

lemma panic_run: "(accept_step demo_options)\<^sup>*\<^sup>* acceptor_start after_panic"
proof -
  have "accept_step demo_options acceptor_start (accept_stream demo_options (acceptor_start\<lparr>ac_workers := reap_finished_workers (ac_workers acceptor_start)\<rparr>))"
    by (rule accept_step.accepts) (simp_all add: acceptor_start_def)
  moreover have "acceptor_start\<lparr>ac_workers := reap_finished_workers (ac_workers acceptor_start)\<rparr> = acceptor_start"
    by (simp add: acceptor_start_def reap_finished_workers_def reap_from.simps)
  ultimately have "accept_step demo_options acceptor_start (accept_stream demo_options acceptor_start)" by simp
  moreover have "accept_step demo_options (accept_stream demo_options acceptor_start) after_panic"
    using accept_step.panics [of 0 "accept_stream demo_options acceptor_start" 0 demo_options]
    by (simp add: after_panic_def accept_stream_def acceptor_start_def demo_options_def)
  ultimately show ?thesis by (meson converse_rtranclp_into_rtranclp rtranclp.rtrancl_refl)
qed

theorem connections_are_bounded_witness: "ac_counter after_panic = handling after_panic + ac_leaked after_panic \<and> handling after_panic \<le> 1"
  using connections_are_bounded [OF panic_run] by (simp add: demo_options_def)

text \<open>How a handler comes to panic: a client polls a read-only task that waits for the permission to run a bare \<^verbatim>\<open>git\<close>.\<close>

definition bare_git :: json where
  "bare_git = JObject [(''toolName'', JString ''Bash''), (''input'', JObject [(''command'', JString ''git'')])]"

definition git_reader :: store_env where
  "git_reader = (demo_reader JNull)\<lparr>env_parse := \<lambda>t. Some (if t = ''frame'' then JObject [(''version'', JNum 12)] else bare_git)\<rparr>"

definition git_rpc :: "unit rpc_io" where
  "git_rpc = \<lparr>rp_sched = (demo_sched_io bare_git)\<lparr>si_sink_env := demo_sink_env\<lparr>sv_store := git_reader\<rparr>,
       si_workspace := (demo_workspace False)\<lparr>wo_serde := demo_serde (demo_prepared\<lparr>pg_repository := ''w''\<rparr>)\<rparr>\<rparr>,
     rp_prepare = demo_prepare_env, rp_catalog = [], rp_service_generation = ''g'',
     rp_decode = (\<lambda>_. Some (''r'', TaskPoll \<lparr>pq_agent_id = ''a'', pq_after_revision = 0, pq_timeout_ms = 0\<rparr>)),
     rp_journal_mode = (\<lambda>_. None), rp_open = (\<lambda>_ _. None), rp_bytes = (\<lambda>_ _. None), rp_sleep = (\<lambda>_ w. w)\<rparr>"

lemma bare_git_panics: "decide_zcode_permission demo_fs (demo_launcher ReadOnly) bare_git Allow = None"
  by (simp add: bare_git_def decide_zcode_permission_def decide_agent_bash_def request_input_def json_get_str_def bash_cwd_def
      tokenize_agent_bash_def MAX_COMMAND_BYTES_def utf8_cont_def shell_metacharacters_def single_quote_def double_quote_def is_whitespace_def
      decide_argv_def agent_bash_program_allowed_def AGENT_BASH_COMMAND_FAMILIES_def is_agent_root_def demo_fs_def demo_launcher_def path_eval)

lemma asking_reads:
  "\<exists>t r. get_task demo_asking ''a'' = Inr (Some t) \<and> tr_agent_id t = ''a'' \<and> tr_repository t = ''w''
     \<and> pending_requests_bounded demo_asking ''a'' 100 = Inr [r] \<and> pr_request_type r = ''permission'' \<and> pr_payload_json r = ''{}''"
  by (simp add: asking_defs req_open_def pending_requests_bounded_def)

lemma git_rpc_reads [simp]:
  "others (rp_sched git_rpc) s = s" "si_now (rp_sched git_rpc) w = (1, w)" "si_fs (rp_sched git_rpc) w = demo_fs"
  "env_parse (si_env (rp_sched git_rpc)) t = Some (if t = ''frame'' then JObject [(''version'', JNum 12)] else bare_git)"
  "ps_decode (si_serde (rp_sched git_rpc)) v = Some (demo_prepared\<lparr>pg_repository := ''w''\<rparr>)"
  "rp_decode git_rpc v = Some (''r'', TaskPoll \<lparr>pq_agent_id = ''a'', pq_after_revision = 0, pq_timeout_ms = 0\<rparr>)"
  by (simp_all add: git_rpc_def git_reader_def others_def demo_sched_io_def demo_workspace_def demo_fs_def demo_serde_def)

lemma polling_a_bare_git_panics:
  "fst (handle_connection compact 1 3 git_rpc True [ReadBytes (''frame'' @ [newline])] (demo_sched demo_asking)) = Panicked"
proof -
  obtain t r where reads: "get_task demo_asking ''a'' = Inr (Some t)" "tr_agent_id t = ''a''" "tr_repository t = ''w''"
    "pending_requests_bounded demo_asking ''a'' 100 = Inr [r]" "pr_request_type r = ''permission''" "pr_payload_json r = ''{}''"
    using asking_reads by blast
  have request: "rpc_read_request git_rpc ''frame'' = Inr (''r'', TaskPoll \<lparr>pq_agent_id = ''a'', pq_after_revision = 0, pq_timeout_ms = 0\<rparr>)"
    by (simp add: rpc_read_request_def RPC_VERSION_def MAX_FRAME_BYTES_def known_members_def json_get_str_def u64_max_def
        valid_request_id_def MAX_REQUEST_ID_BYTES_def has_nul_def Let_def)
  have task: "require_task git_rpc ''a'' (demo_sched demo_asking) = (Some (Inr t), demo_sched demo_asking)"
    using reads by (simp add: require_task_def sc_run sc_read_def rpc_validate_id_def rpc_validate_text_def has_nul_def ok_or_def Let_def demo_sched_def)
  have view: "pending_request_view_of (env_parse (si_env (rp_sched git_rpc))) demo_fs (Some (demo_launcher ReadOnly)) r = None"
    using reads bare_git_panics by (simp add: pending_request_view_of_def policy_preview_def Let_def)
  have "fst (poll_now git_rpc \<lparr>pq_agent_id = ''a'', pq_after_revision = 0, pq_timeout_ms = 0\<rparr> d (demo_sched demo_asking)) = None" for d
    using reads view
    by (simp add: poll_now_def sc_bind_def [of "require_task git_rpc ''a''"] task)
      (simp add: sc_run sc_get_def sc_read_def active_policy_def pending_views_def MAX_PENDING_REQUESTS_def demo_sched_def Let_def)
  note pass = this
  have "fst (task_poll 1 git_rpc \<lparr>pq_agent_id = ''a'', pq_after_revision = 0, pq_timeout_ms = 0\<rparr> (demo_sched demo_asking)) = None"
    using pass [of 1]
    by (auto simp: task_poll_def MAX_WAIT_def sc_bind_def sc_call_def sc_map_err_def Let_def demo_sched_def split: prod.splits option.splits sum.splits)
  then obtain u where "task_poll 1 git_rpc \<lparr>pq_agent_id = ''a'', pq_after_revision = 0, pq_timeout_ms = 0\<rparr> (demo_sched demo_asking) = (None, u)"
    by (metis prod.collapse)
  then show ?thesis
    by (simp add: handle_connection_def MAX_FRAME_BYTES_def newline_def position_def Let_def handle_bytes_def request)
qed

text \<open>C34 (error): a handler that panics is never counted out: the thread unwinds before it lowers the counter. Once as many handlers have
  panicked as connections are allowed, no later connection is ever handled, until the daemon is restarted: every client is
  told that the connection limit is reached although nothing is running.\<close>

theorem panics_use_up_the_server:
  assumes "(accept_step o')\<^sup>*\<^sup>* acceptor_start a" and "op_max_connections o' \<le> ac_leaked a" and "(accept_step o')\<^sup>*\<^sup>* a b"
  shows "handling b = 0 \<and> ac_next_id b = ac_next_id a"
proof -
  let ?P = "\<lambda>c. ac_next_id c = ac_next_id a \<and> op_max_connections o' \<le> ac_leaked c"
  have inv: "accept_inv o' a" by (rule accepting.reachable [OF assms(1) accept_inv_start])
  have step: "?P y" if "accept_inv o' x" "accept_step o' x y" "?P x" for x y
  proof -
    have "op_max_connections o' \<le> ac_counter x" using that by (auto simp: accept_inv_def)
    with that(2,3) show ?thesis by (cases rule: accept_stepE) (auto simp: accept_stream_def)
  qed
  have "?P b" by (rule accepting.reachable_induct [OF assms(3) inv]) (use assms(2) step in auto)
  moreover have "accept_inv o' b" by (rule accepting.reachable [OF assms(3) inv])
  ultimately show ?thesis by (auto simp: accept_inv_def)
qed

theorem panics_use_up_the_server_witness:
  "\<exists>b. accept_step demo_options after_panic b \<and> ac_workers b = [] \<and> handling b = 0 \<and> ac_next_id b = 1"
proof -
  let ?b = "accept_stream demo_options (after_panic\<lparr>ac_workers := reap_finished_workers (ac_workers after_panic)\<rparr>)"
  have step: "accept_step demo_options after_panic ?b"
    by (rule accept_step.accepts) (simp_all add: after_panic_def accept_stream_def acceptor_start_def demo_options_def)
  have "handling ?b = 0 \<and> ac_next_id ?b = ac_next_id after_panic"
    by (rule panics_use_up_the_server [OF panic_run])
      (use step in \<open>auto simp: after_panic_def demo_options_def accept_stream_def acceptor_start_def\<close>)
  moreover have "ac_workers ?b = []"
    by (simp add: after_panic_def demo_options_def accept_stream_def acceptor_start_def reap_finished_workers_def reap_from.simps)
  ultimately show ?thesis using step by (intro exI [of _ ?b]) (simp add: after_panic_def demo_options_def accept_stream_def acceptor_start_def)
qed

section \<open>The socket file\<close>

text \<open>At its start the server removes a file at the socket's path only when it is a socket, a connection to it was refused, and
  the file is still the same one afterwards; in every other case nothing is removed.\<close>

theorem only_stale_sockets_are_removed:
  assumes "so_connect so path w = (connected, w1)"
    and "remove_stale_socket so path w = (r, w')"
  shows "(w' = w \<or> w' = w1)
    \<or> (\<exists>m m'. so_metadata so path w = Inr m \<and> so_metadata so path w1 = Inr m' \<and> nm_type m = SocketNode \<and> nm_type m' = SocketNode
         \<and> nm_identity m' = nm_identity m \<and> connected = Inl ConnectionRefused \<and> w' = snd (so_remove_file so path w1))"
  using assms
  by (auto simp: remove_stale_socket_def remove_stale_socket_with_def socket_do_def sc_run split: sum.splits if_splits prod.splits)

definition demo_socket :: "bool socket_io" where
  "demo_socket = \<lparr>so_metadata = (\<lambda>_ present. if present then Inr \<lparr>nm_type = SocketNode, nm_mode = 384, nm_identity = \<lparr>sid_device = 1, sid_inode = 2\<rparr>\<rparr>
       else Inl NotFoundError), so_connect = (\<lambda>_ w. (Inl ConnectionRefused, w)), so_remove_file = (\<lambda>_ w. (Inr (), False)),
     so_create_dir_all = (\<lambda>_ w. (Inr (), w)), so_set_mode = (\<lambda>_ _ w. (Inr (), w))\<rparr>"

theorem only_stale_sockets_are_removed_witness:
  "remove_stale_socket demo_socket ''/run/s'' True = (Some (Inr ()), False)
     \<and> fst (so_connect demo_socket ''/run/s'' True) = Inl ConnectionRefused"
proof -
  have r: "remove_stale_socket demo_socket ''/run/s'' True = (Some (Inr ()), False)"
    by (simp add: remove_stale_socket_def remove_stale_socket_with_def socket_do_def sc_run demo_socket_def)
  have "so_connect demo_socket ''/run/s'' True = (fst (so_connect demo_socket ''/run/s'' True), True)" by (simp add: demo_socket_def)
  from only_stale_sockets_are_removed [OF this r] r show ?thesis by auto
qed

end
