(* ===== verification/Mcp_Facade.thy ===== *)
theory Mcp_Facade
  imports Rpc_Transport
begin

text \<open>
  The public facade (\<^verbatim>\<open>zcode-subagent-mcp\<close>): the tools a client of the MCP server calls, each of them a validation, a call
  of the private RPC and a projection of its answer. The public enums and records that repeat the ones of the RPC with
  the same constructors and fields are not declared twice.

  The world of the facade is the connection to the daemon; \<open>mc_call\<close> is \<^verbatim>\<open>RpcClient::call\<close> with the version of the
  response beside it, \<open>mc_base64\<close> the encoder of the \<^verbatim>\<open>base64\<close> package.
\<close>

definition MAX_ID_BYTES :: nat where "MAX_ID_BYTES = 512"
definition MAX_PATH_BYTES :: nat where "MAX_PATH_BYTES = 4096"
definition FACADE_MAX_PROMPT_BYTES :: nat where "FACADE_MAX_PROMPT_BYTES = 262144"
definition MAX_MESSAGE_BYTES :: nat where "MAX_MESSAGE_BYTES = 16384"
definition MAX_REASON_BYTES :: nat where "MAX_REASON_BYTES = 2048"

section \<open>Errors\<close>

fun public_error_text :: "rpc_error_code \<Rightarrow> string \<times> string" where
  "public_error_text RpcMalformed = (''validation'', ''request validation failed'')"
| "public_error_text RpcValidation = (''validation'', ''request validation failed'')"
| "public_error_text RpcOversized = (''oversized'', ''bounded response or request was too large'')"
| "public_error_text RpcUnsupportedVersion = (''protocol_version_mismatch'', ''incompatible subagent daemon'')"
| "public_error_text RpcUnknownMethod = (''protocol_error'', ''daemon method is unavailable'')"
| "public_error_text RpcNotFound = (''not_found'', ''agent task was not found'')"
| "public_error_text RpcConflict = (''conflict'', ''WORKSPACE_BUSY'')"
| "public_error_text RpcTimeout = (''timeout'', ''daemon operation timed out'')"
| "public_error_text RpcRuntimeLost = (''runtime_lost'', ''agent runtime was lost'')"
| "public_error_text RpcResultInvalid = (''result_invalid'', ''stored task result failed verification'')"
| "public_error_text RpcPersistence = (''daemon_unavailable'', ''subagent daemon could not complete the operation'')"
| "public_error_text RpcUnavailable = (''daemon_unavailable'', ''subagent daemon could not complete the operation'')"
| "public_error_text RpcInternal = (''daemon_unavailable'', ''subagent daemon could not complete the operation'')"

definition public_error :: "rpc_error \<Rightarrow> string" where
  "public_error e =
     (case public_error_text (re_code e) of (code, message) \<Rightarrow>
        code @ '': '' @ message
          @ (case re_active_agent_id e of Some a \<Rightarrow> '' (active_agent_id='' @ a @ '')'' | None \<Rightarrow> []))"

definition public_transport_error :: "io_error \<Rightarrow> string" where
  "public_transport_error e =
     (if e \<in> {TimedOut, WouldBlock} then ''timeout: daemon call exceeded its bound''
      else if e = InvalidData then ''protocol_error: daemon returned an invalid or oversized frame''
      else ''daemon_unavailable: subagent daemon is unavailable'')"

definition protocol_error :: string where "protocol_error = ''protocol_error: unexpected daemon response''"

section \<open>What a client gives\<close>

definition public_validate_text :: "string \<Rightarrow> string \<Rightarrow> nat \<Rightarrow> string + unit" where
  "public_validate_text v field limit =
     (if trim v = [] \<or> length v > limit \<or> has_nul v then Inl (''validation: '' @ field @ '' is invalid'') else Inr ())"

definition public_validate_path :: "string \<Rightarrow> string \<Rightarrow> string + unit" where
  "public_validate_path v field = public_validate_text v field MAX_PATH_BYTES"

record public_attachment =
  pa_logical_name :: string
  pa_source_path :: string

record spawn_input =
  sp_repository :: string
  sp_permission_mode :: permission_mode
  sp_prompt :: string
  sp_group_id :: "string option"
  sp_idempotency_key :: string
  sp_repo_context :: "string list"
  sp_attachments :: "public_attachment list"
  sp_budget :: "effective_budget option"
  sp_retain_partial :: bool
  sp_allowed_command_ids :: "string list"
  sp_required_command_ids :: "string list"

definition attachment :: "public_attachment \<Rightarrow> string + attachment_input" where
  "attachment v =
     rbind (public_validate_text (pa_logical_name v) ''attachment.logical_name'' 256) (\<lambda>_.
     rbind (public_validate_path (pa_source_path v) ''attachment.source_path'') (\<lambda>_.
       if \<not> is_absolute (pa_source_path v) then Inl ''validation: attachment.source_path must be absolute''
       else
         rbind (ok_or ''validation: attachment.source_path has no parent'' (path_parent (pa_source_path v))) (\<lambda>parent.
           Inr \<lparr>ai_logical_name = pa_logical_name v, ai_source_path = pa_source_path v, ai_allowed_root = parent\<rparr>)))"

text \<open>The ids are looked at in order: the first one that is blank, too long, not a command id or repeated is refused.\<close>

fun public_command_ids_from :: "string \<Rightarrow> string list \<Rightarrow> string list \<Rightarrow> string + unit" where
  "public_command_ids_from field seen [] = Inr ()"
| "public_command_ids_from field seen (v # vs) =
     rbind (public_validate_text v ''command_id'' 256) (\<lambda>_.
       if \<not> list_all rpc_command_byte v \<or> v \<in> set seen then Inl (''validation: '' @ field @ '' must contain exact unique command ids'')
       else public_command_ids_from field (v # seen) vs)"

definition validate_public_command_ids :: "string list \<Rightarrow> string \<Rightarrow> string + unit" where
  "validate_public_command_ids vs field =
     (if length vs > 128 then Inl (''validation: '' @ field @ '' exceeds the selection cap'')
      else public_command_ids_from field [] vs)"

definition daemon_agent_id :: string where "daemon_agent_id = ''daemon-prepared''"

definition manifest_of_input :: "spawn_input \<Rightarrow> string + general_manifest" where
  "manifest_of_input i =
     rbind (public_validate_text (sp_repository i) ''repository'' MAX_PATH_BYTES) (\<lambda>_.
     rbind (public_validate_text (sp_prompt i) ''prompt'' FACADE_MAX_PROMPT_BYTES) (\<lambda>_.
     rbind (public_validate_text (sp_idempotency_key i) ''idempotency_key'' MAX_ID_BYTES) (\<lambda>_.
     rbind (case sp_group_id i of Some g \<Rightarrow> public_validate_text g ''group_id'' 256 | None \<Rightarrow> Inr ()) (\<lambda>_.
     if \<not> is_absolute (sp_repository i) then Inl ''validation: repository must be absolute''
     else
     rbind (validate_public_command_ids (sp_allowed_command_ids i) ''allowed_command_ids'') (\<lambda>_.
     rbind (validate_public_command_ids (sp_required_command_ids i) ''required_command_ids'') (\<lambda>_.
     rbind (collect_results (map attachment (sp_attachments i))) (\<lambda>attachments.
       Inr \<lparr>gm_schema = GENERAL_TASK_SCHEMA, gm_agent_id = daemon_agent_id, gm_repository = sp_repository i, gm_base_ref = [],
         gm_access_mode = mode_access (sp_permission_mode i), gm_permission_mode = sp_permission_mode i, gm_prompt = sp_prompt i,
         gm_repo_context = sp_repo_context i, gm_attachments = attachments,
         gm_write_manifest = (if sp_permission_mode i = Plan then [] else [''.'']),
         gm_scratch_root = ''.agent-work/scratch/general'', gm_artifact_root = path_join ''.agent-work/artifacts'' daemon_agent_id,
         gm_budget = Some (case sp_budget i of Some b \<Rightarrow> b | None \<Rightarrow> default_budget (mode_access (sp_permission_mode i))),
         gm_validation_commands = [], gm_retain_partial = sp_retain_partial i, gm_idempotency_key = sp_idempotency_key i\<rparr>)))))))"

section \<open>What a client gets\<close>

record public_task =
  pt_agent_id :: string
  pt_phase :: string
  pt_outcome :: "task_outcome option"
  pt_effective_budget :: effective_budget
  pt_cancel_requested :: bool
  pt_close_requested :: bool
  pt_closed :: bool
  pt_resources_reaped :: bool

definition public_task_of :: "task_view \<Rightarrow> public_task" where
  "public_task_of v =
     \<lparr>pt_agent_id = tv_agent_id v, pt_phase = tv_phase v, pt_outcome = tv_outcome v, pt_effective_budget = tv_effective_budget v,
      pt_cancel_requested = tv_stop_requested v, pt_close_requested = tv_close_requested v, pt_closed = tv_closed v,
      pt_resources_reaped = tv_reaped v\<rparr>"

datatype public_pending_kind = PendingPermission | PendingUnsupportedInput

datatype public_policy_preview = ExternallyDecidable | HardDeny | UnknownPreview

datatype public_operation = OpRead | OpWrite | OpCommand | OpNetwork | OpGitRefMutation | OpUserInput | OpUnknown

record public_pending_request =
  pp_request_id :: string
  pp_kind :: public_pending_kind
  pp_state :: pending_state
  pp_respondable :: bool
  pp_tool_name :: "string option"
  pp_operation :: public_operation
  pp_summary :: string
  pp_policy_preview :: public_policy_preview

definition public_operation_of :: "string \<Rightarrow> public_operation" where
  "public_operation_of s =
     (if s = ''read'' then OpRead else if s = ''write'' then OpWrite else if s = ''command'' then OpCommand
      else if s = ''network'' then OpNetwork else if s = ''git_ref_mutation'' then OpGitRefMutation
      else if s = ''user_input'' then OpUserInput else OpUnknown)"

definition public_preview_of :: "string \<Rightarrow> public_policy_preview" where
  "public_preview_of s = (if s = ''externally_decidable'' then ExternallyDecidable else if s = ''hard_deny'' then HardDeny else UnknownPreview)"

definition public_pending_request_of :: "pending_request_view \<Rightarrow> public_pending_request" where
  "public_pending_request_of v =
     \<lparr>pp_request_id = pv_request_id v, pp_kind = (if pv_kind v = ''permission'' then PendingPermission else PendingUnsupportedInput),
      pp_state = pv_state v, pp_respondable = pv_respondable v, pp_tool_name = pv_tool_name v,
      pp_operation = public_operation_of (pv_operation v), pp_summary = pv_summary v,
      pp_policy_preview = public_preview_of (pv_policy_preview v)\<rparr>"

record public_artifact =
  px_artifact_id :: string
  px_sha256 :: string
  px_size_bytes :: nat

definition public_artifact_of :: "artifact_metadata \<Rightarrow> string + public_artifact" where
  "public_artifact_of m =
     (if am_kind m = ''changes_patch''
      then Inr \<lparr>px_artifact_id = am_artifact_id m, px_sha256 = am_sha256 m, px_size_bytes = am_size_bytes m\<rparr>
      else Inl protocol_error)"

datatype public_decision = PublicAllow | PublicDeny

definition public_decision_of :: "string \<Rightarrow> public_decision" where
  "public_decision_of s = (if s = ''allow'' then PublicAllow else PublicDeny)"

record respond_output =
  ro_disposition :: response_disposition
  ro_requested_decision :: public_decision
  ro_effective_decision :: public_decision
  ro_policy_overrode :: bool
  ro_policy_reason_code :: "string option"

definition project_response :: "response_outcome \<Rightarrow> respond_output" where
  "project_response v =
     \<lparr>ro_disposition = rp_disposition v, ro_requested_decision = public_decision_of (rp_requested_decision v),
      ro_effective_decision = public_decision_of (rp_effective_decision v), ro_policy_overrode = rp_policy_overrode v,
      ro_policy_reason_code = rp_policy_reason_code v\<rparr>"

text \<open>The table of the maturity of each feature, constant text on both sides, is left out as it is in the RPC view.\<close>

record public_capabilities =
  pk_hard_budget_caps :: effective_budget
  pk_max_rpc_frame_bytes :: nat
  pk_max_wait_ms :: nat
  pk_max_artifact_chunk_bytes :: nat
  pk_named_checks :: bool

definition public_capabilities_of :: "system_status_view \<Rightarrow> public_capabilities" where
  "public_capabilities_of v =
     \<lparr>pk_hard_budget_caps = ss_hard_budget_caps v, pk_max_rpc_frame_bytes = ss_max_rpc_frame_bytes v, pk_max_wait_ms = ss_max_wait_ms v,
      pk_max_artifact_chunk_bytes = MAX_ARTIFACT_CHUNK_BYTES, pk_named_checks = ss_named_checks v\<rparr>"

record system_status_output =
  st_api_surface :: string
  st_protocol_version :: nat
  st_service_generation :: string
  st_components :: "(string \<times> component_state_view) list"
  st_capabilities :: public_capabilities

definition system_status_output_of :: "system_status_view \<Rightarrow> system_status_output" where
  "system_status_output_of v =
     \<lparr>st_api_surface = ss_api_surface v, st_protocol_version = ss_protocol_version v, st_service_generation = ss_service_generation v,
      st_components = ss_components v, st_capabilities = public_capabilities_of v\<rparr>"

record spawn_output =
  so_agent_id :: string
  so_submission_disposition :: submission_disposition
  so_phase :: string
  so_effective_budget :: effective_budget
  so_capabilities :: public_capabilities

record poll_output =
  po_task :: public_task
  po_revision :: nat
  po_pending_requests :: "public_pending_request list"
  po_result_available :: bool
  po_activity :: task_activity_view
  po_timed_out :: bool

record public_chunk =
  pc_artifact_id :: string
  pc_offset_bytes :: nat
  pc_returned_bytes :: nat
  pc_eof :: bool
  pc_sha256 :: string
  pc_size_bytes :: nat
  pc_bytes_base64 :: string

record result_output =
  ru_task :: public_task
  ru_result :: "task_result_view option"
  ru_artifacts :: "public_artifact list"
  ru_artifact_chunk :: "public_chunk option"

section \<open>Requests on the wire\<close>

text \<open>The derived serializers of the requests; the fields of a manifest that are never serialized are left out by \<open>manifest_json\<close>.\<close>

definition submit_input_json :: "general_submit_input \<Rightarrow> json" where
  "submit_input_json i = JObject [(''manifest'', manifest_json (gi_manifest i)), (''group_id'', jopt JString (gi_group_id i)),
     (''allowed_command_ids'', jstrings (gi_allowed_command_ids i)), (''required_command_ids'', jstrings (gi_required_command_ids i))]"

definition list_query_json :: "task_list_query \<Rightarrow> json" where
  "list_query_json q = JObject [(''repository'', jopt JString (tq_repository q)), (''group_id'', jopt JString (tq_group_id q)),
     (''phase'', jopt (\<lambda>p. JString (TaskPhase_as_str p)) (tq_phase q)), (''outcome'', jopt outcome_json (tq_outcome q)),
     (''cursor'', jopt JString (tq_cursor q)), (''limit'', jnat (tq_limit q))]"

definition poll_query_json :: "task_poll_query \<Rightarrow> json" where
  "poll_query_json q = JObject [(''agent_id'', JString (pq_agent_id q)), (''after_revision'', jnat (pq_after_revision q)),
     (''timeout_ms'', jnat (pq_timeout_ms q))]"

definition message_input_json :: "message_input \<Rightarrow> json" where
  "message_input_json i = JObject [(''agent_id'', JString (mi_agent_id i)), (''message_id'', JString (mi_message_id i)),
     (''mode'', JString (mi_mode i)), (''content'', JString (mi_content i))]"

definition respond_input_json :: "respond_input \<Rightarrow> json" where
  "respond_input_json i = JObject [(''agent_id'', JString (ri_agent_id i)), (''request_id'', JString (ri_request_id i)),
     (''decision'', JString (decision_as_str (ri_decision i))), (''content'', jopt JString (ri_content i))]"

definition artifact_query_json :: "task_artifact_query \<Rightarrow> json" where
  "artifact_query_json q = JObject [(''agent_id'', JString (aq_agent_id q)), (''artifact_id'', JString (aq_artifact_id q)),
     (''offset_bytes'', jnat (aq_offset_bytes q)), (''limit_bytes'', jnat (aq_limit_bytes q))]"

fun method_members :: "rpc_method \<Rightarrow> (string \<times> json) list" where
  "method_members SystemStatus = [(''method'', JString ''system_status'')]"
| "method_members (SubmitGeneral i) = [(''method'', JString ''submit_general''), (''params'', JObject [(''input'', submit_input_json i)])]"
| "method_members (TaskList q) = [(''method'', JString ''task_list''), (''params'', list_query_json q)]"
| "method_members (TaskPoll q) = [(''method'', JString ''task_poll''), (''params'', poll_query_json q)]"
| "method_members (TaskMessage i) = [(''method'', JString ''task_message''), (''params'', message_input_json i)]"
| "method_members (TaskRespond i) = [(''method'', JString ''task_respond''), (''params'', respond_input_json i)]"
| "method_members (TaskCancel a) = [(''method'', JString ''task_cancel''), (''params'', JObject [(''agent_id'', JString a)])]"
| "method_members (TaskResult a) = [(''method'', JString ''task_result''), (''params'', JObject [(''agent_id'', JString a)])]"
| "method_members (TaskArtifact q) = [(''method'', JString ''task_artifact''), (''params'', artifact_query_json q)]"
| "method_members (TaskClose a) = [(''method'', JString ''task_close''), (''params'', JObject [(''agent_id'', JString a)])]"

definition rpc_request_json :: "string \<Rightarrow> rpc_method \<Rightarrow> json" where
  "rpc_request_json request_id m =
     JObject ([(''version'', jnat RPC_VERSION), (''request_id'', JString request_id)] @ method_members m)"

section \<open>Calling the daemon\<close>

record 'w mcp_io =
  mc_call :: "string \<Rightarrow> rpc_method \<Rightarrow> 'w \<Rightarrow> (io_error + nat \<times> rpc_response) \<times> 'w"
  mc_base64 :: "string \<Rightarrow> string"

record 'w mcp =
  mp_world :: 'w
  mp_next_request :: nat

type_synonym ('w, 'a) mcp_cmd = "('w mcp, string, 'a) cmd"

definition facade_request_id :: "nat \<Rightarrow> string" where
  "facade_request_id n = ''subagent-mcp-'' @ show_nat n"

fun facade_answer :: "io_error + nat \<times> rpc_response \<Rightarrow> string + rpc_success" where
  "facade_answer (Inl e) = Inl (public_transport_error e)"
| "facade_answer (Inr (version, response)) =
     (if version \<noteq> RPC_VERSION then Inl ''protocol_version_mismatch: incompatible agent daemon''
      else map_sum public_error id (rsp_outcome response))"

definition facade_rpc :: "'w mcp_io \<Rightarrow> rpc_method \<Rightarrow> ('w, rpc_success) mcp_cmd" where
  "facade_rpc mc m s =
     (case mc_call mc (facade_request_id (mp_next_request s)) m (mp_world s) of (r, w) \<Rightarrow>
        (Some (facade_answer r), s\<lparr>mp_world := w, mp_next_request := (mp_next_request s + 1) mod 2 ^ 64\<rparr>))"

text \<open>
  The connection the facade really has: every call is a new \<^verbatim>\<open>RpcClient\<close> over the socket. The world is what the calls to come
  will see of it; a call that has seen all its events without an end runs into its deadline.
\<close>

record client_events =
  ce_left :: nat
  ce_connected :: "io_error + unit"
  ce_writes :: "(nat \<times> write_event) list"
  ce_reads :: "(nat \<times> stream_event) list"

fun socket_call ::
    "(string \<Rightarrow> (nat \<times> rpc_response) option) \<Rightarrow> string \<Rightarrow> rpc_method \<Rightarrow> client_events list \<Rightarrow> (io_error + nat \<times> rpc_response) \<times> client_events list"
  where
  "socket_call from_slice request_id m [] = (Inl TimedOut, [])"
| "socket_call from_slice request_id m (c # cs) =
     (case client_call compact from_slice (rpc_request_json request_id m) (ce_left c) (ce_connected c) (ce_writes c) (ce_reads c) of
        Some r \<Rightarrow> (r, cs)
      | None \<Rightarrow> (Inl TimedOut, cs))"

definition socket_mcp_io :: "(string \<Rightarrow> (nat \<times> rpc_response) option) \<Rightarrow> (string \<Rightarrow> string) \<Rightarrow> client_events list mcp_io" where
  "socket_mcp_io from_slice base64 = \<lparr>mc_call = socket_call from_slice, mc_base64 = base64\<rparr>"

section \<open>The tools\<close>

text \<open>An answer of the wrong kind is a protocol error.\<close>

definition facade_system_status :: "'w mcp_io \<Rightarrow> ('w, system_status_output) mcp_cmd" where
  "facade_system_status mc =
     sc_bind (facade_rpc mc SystemStatus) (\<lambda>r.
     case r of SystemStatusSuccess v \<Rightarrow> sc_ok (system_status_output_of v) | _ \<Rightarrow> sc_fail protocol_error)"

definition agent_spawn :: "'w mcp_io \<Rightarrow> spawn_input \<Rightarrow> ('w, spawn_output) mcp_cmd" where
  "agent_spawn mc i =
     sc_bind (sc_result (manifest_of_input i)) (\<lambda>manifest.
     sc_bind (facade_rpc mc (SubmitGeneral \<lparr>gi_manifest = manifest, gi_group_id = sp_group_id i,
        gi_allowed_command_ids = sp_allowed_command_ids i, gi_required_command_ids = sp_required_command_ids i\<rparr>)) (\<lambda>r.
     case r of
       GeneralSubmitted task disposition \<Rightarrow>
         sc_bind (sc_bind (facade_rpc mc SystemStatus) (\<lambda>a.
             case a of SystemStatusSuccess v \<Rightarrow> sc_ok (public_capabilities_of v) | _ \<Rightarrow> sc_fail protocol_error)) (\<lambda>capabilities.
           sc_ok \<lparr>so_agent_id = tv_agent_id task, so_submission_disposition = disposition, so_phase = tv_phase task,
             so_effective_budget = tv_effective_budget task, so_capabilities = capabilities\<rparr>)
     | _ \<Rightarrow> sc_fail protocol_error))"

definition agent_poll :: "'w mcp_io \<Rightarrow> task_poll_query \<Rightarrow> ('w, poll_output) mcp_cmd" where
  "agent_poll mc q =
     sc_bind (sc_result (public_validate_text (pq_agent_id q) ''agent_id'' MAX_ID_BYTES)) (\<lambda>_.
     if pq_timeout_ms q > 5000 then sc_fail ''validation: timeout_ms must be between 0 and 5000''
     else
     sc_bind (facade_rpc mc (TaskPoll q)) (\<lambda>r.
     case r of
       TaskPolled task revision requests available activity timed_out \<Rightarrow>
         sc_ok \<lparr>po_task = public_task_of task, po_revision = revision, po_pending_requests = map public_pending_request_of requests,
           po_result_available = available, po_activity = activity, po_timed_out = timed_out\<rparr>
     | _ \<Rightarrow> sc_fail protocol_error))"

definition agent_list :: "'w mcp_io \<Rightarrow> task_list_query \<Rightarrow> ('w, public_task list \<times> string option) mcp_cmd" where
  "agent_list mc q =
     (if \<not> (1 \<le> tq_limit q \<and> tq_limit q \<le> 100) then sc_fail ''validation: limit must be between 1 and 100''
      else if tq_repository q = None \<and> tq_group_id q = None then sc_fail ''validation: at least one list scope is required''
      else
      sc_bind (facade_rpc mc (TaskList q)) (\<lambda>r.
      case r of
        TaskListed vs cursor \<Rightarrow> sc_ok (map public_task_of vs, cursor)
      | _ \<Rightarrow> sc_fail protocol_error))"

definition agent_send :: "'w mcp_io \<Rightarrow> string \<Rightarrow> string \<Rightarrow> string \<Rightarrow> ('w, message_disposition) mcp_cmd" where
  "agent_send mc agent_id message_id content =
     sc_bind (sc_result (public_validate_text content ''content'' MAX_MESSAGE_BYTES)) (\<lambda>_.
     sc_bind (facade_rpc mc (TaskMessage \<lparr>mi_agent_id = agent_id, mi_message_id = message_id, mi_mode = ''queue'', mi_content = content\<rparr>)) (\<lambda>r.
     case r of MessageSuccess disposition task \<Rightarrow> sc_ok disposition | _ \<Rightarrow> sc_fail protocol_error))"

fun decision_of_public :: "public_decision \<Rightarrow> response_decision" where
  "decision_of_public PublicAllow = DecideAllow"
| "decision_of_public PublicDeny = DecideDeny"

definition agent_respond :: "'w mcp_io \<Rightarrow> string \<Rightarrow> string \<Rightarrow> public_decision \<Rightarrow> string option \<Rightarrow> ('w, respond_output) mcp_cmd" where
  "agent_respond mc agent_id request_id decision reason =
     (if (case reason of Some v \<Rightarrow> v = [] \<or> length v > MAX_REASON_BYTES \<or> has_nul v | None \<Rightarrow> False)
      then sc_fail ''validation: reason is invalid''
      else
      sc_bind (facade_rpc mc (TaskRespond \<lparr>ri_agent_id = agent_id, ri_request_id = request_id,
        ri_decision = decision_of_public decision, ri_content = reason\<rparr>)) (\<lambda>r.
      case r of RespondSuccess outcome task \<Rightarrow> sc_ok (project_response outcome) | _ \<Rightarrow> sc_fail protocol_error))"

definition agent_cancel :: "'w mcp_io \<Rightarrow> string \<Rightarrow> ('w, public_task) mcp_cmd" where
  "agent_cancel mc agent_id =
     sc_bind (facade_rpc mc (TaskCancel agent_id)) (\<lambda>r. case r of StoppedSuccess task \<Rightarrow> sc_ok (public_task_of task) | _ \<Rightarrow> sc_fail protocol_error)"

definition agent_close :: "'w mcp_io \<Rightarrow> string \<Rightarrow> ('w, public_task) mcp_cmd" where
  "agent_close mc agent_id =
     sc_bind (facade_rpc mc (TaskClose agent_id)) (\<lambda>r. case r of ClosedSuccess task \<Rightarrow> sc_ok (public_task_of task) | _ \<Rightarrow> sc_fail protocol_error)"

definition facade_result :: "'w mcp_io \<Rightarrow> string \<Rightarrow> ('w, public_task \<times> task_result_view option \<times> public_artifact list) mcp_cmd" where
  "facade_result mc agent_id =
     sc_bind (facade_rpc mc (TaskResult agent_id)) (\<lambda>r.
     case r of
       TaskResultSuccess task result listed \<Rightarrow>
         sc_bind (sc_result (collect_results (map public_artifact_of listed))) (\<lambda>projected. sc_ok (public_task_of task, result, projected))
     | _ \<Rightarrow> sc_fail protocol_error)"

definition checked_chunk :: "'w mcp_io \<Rightarrow> public_artifact \<Rightarrow> nat \<Rightarrow> nat \<Rightarrow> artifact_chunk_view \<Rightarrow> string + public_chunk" where
  "checked_chunk mc expected offset_bytes limit_bytes chunk =
     (let returned = length (ck_bytes chunk); next_offset = offset_bytes + returned in
      if next_offset > u64_max then Inl protocol_error
      else if ck_artifact_id chunk \<noteq> px_artifact_id expected \<or> ck_sha256 chunk \<noteq> px_sha256 expected
        \<or> ck_size_bytes chunk \<noteq> px_size_bytes expected \<or> ck_offset_bytes chunk \<noteq> offset_bytes
        \<or> returned = 0 \<or> returned > limit_bytes \<or> next_offset > px_size_bytes expected
        \<or> ck_eof chunk \<noteq> (next_offset = px_size_bytes expected)
      then Inl ''protocol_error: artifact chunk violated authoritative metadata''
      else Inr \<lparr>pc_artifact_id = ck_artifact_id chunk, pc_offset_bytes = ck_offset_bytes chunk, pc_returned_bytes = returned,
             pc_eof = ck_eof chunk, pc_sha256 = ck_sha256 chunk, pc_size_bytes = ck_size_bytes chunk,
             pc_bytes_base64 = mc_base64 mc (ck_bytes chunk)\<rparr>)"

definition facade_chunk :: "'w mcp_io \<Rightarrow> string \<Rightarrow> public_artifact list \<Rightarrow> string \<Rightarrow> nat \<Rightarrow> nat \<Rightarrow> ('w, public_chunk) mcp_cmd" where
  "facade_chunk mc agent_id listed artifact_id offset_bytes limit_bytes =
     (if limit_bytes = 0 \<or> limit_bytes > MAX_ARTIFACT_CHUNK_BYTES then sc_fail ''validation: limit_bytes is outside the allowed range''
      else
      sc_bind (sc_of ''validation: artifact_id is not in the authoritative result'' (List.find (\<lambda>a. px_artifact_id a = artifact_id) listed)) (\<lambda>expected.
      if offset_bytes \<ge> px_size_bytes expected then sc_fail ''validation: offset_bytes does not permit non-empty progress''
      else
      sc_bind (facade_rpc mc (TaskArtifact \<lparr>aq_agent_id = agent_id, aq_artifact_id = artifact_id, aq_offset_bytes = offset_bytes,
        aq_limit_bytes = limit_bytes\<rparr>)) (\<lambda>r.
      case r of
        TaskArtifactSuccess chunk \<Rightarrow> sc_result (checked_chunk mc expected offset_bytes limit_bytes chunk)
      | _ \<Rightarrow> sc_fail protocol_error)))"

definition agent_result ::
    "'w mcp_io \<Rightarrow> string \<Rightarrow> string option \<Rightarrow> nat option \<Rightarrow> nat option \<Rightarrow> ('w, result_output) mcp_cmd" where
  "agent_result mc agent_id artifact_id offset_bytes limit_bytes =
     (let given = length (filter id [artifact_id \<noteq> None, offset_bytes \<noteq> None, limit_bytes \<noteq> None]) in
      if given \<noteq> 0 \<and> given \<noteq> 3
      then sc_fail ''validation: artifact_id, offset_bytes, and limit_bytes must be supplied together''
      else
      sc_bind (facade_result mc agent_id) (\<lambda>(task, result, listed).
      sc_bind (case (artifact_id, offset_bytes, limit_bytes) of
          (Some a, Some offset, Some limit) \<Rightarrow> sc_bind (facade_chunk mc agent_id listed a offset limit) (\<lambda>c. sc_ok (Some c))
        | _ \<Rightarrow> sc_ok None) (\<lambda>chunk.
        sc_ok \<lparr>ru_task = task, ru_result = result, ru_artifacts = listed, ru_artifact_chunk = chunk\<rparr>)))"

end
