(* ===== verification/Mcp_Props.thy ===== *)
theory Mcp_Props
  imports Mcp_Facade Rpc_Wire
begin

text \<open>What the public facade lets through, in both directions.\<close>

section \<open>What a client may ask for\<close>

lemma collect_results_Inr: "collect_results rs = Inr ys \<longleftrightarrow> rs = map Inr ys"
  by (induction rs arbitrary: ys) (auto simp: rbind_Inr)

lemma attachment_Inr:
  "attachment v = Inr a \<Longrightarrow> is_absolute (ai_source_path a) \<and> path_parent (ai_source_path a) = Some (ai_allowed_root a)
     \<and> ai_source_path a = pa_source_path v \<and> ai_logical_name a = pa_logical_name v"
  by (auto simp: attachment_def rbind_Inr ok_or_def split: if_splits option.splits)

text \<open>A caller names a repository, a mode and files; whether the task may write follows from the mode alone, and the root a file is
  approved under is the directory the caller took it from.\<close>

lemma manifest_follows_input:
  assumes "manifest_of_input i = Inr m"
  shows "is_absolute (gm_repository m)" and "gm_repository m = sp_repository i" and "gm_permission_mode m = sp_permission_mode i"
    and "gm_access_mode m = mode_access (gm_permission_mode m)" and "gm_write_manifest m = [] \<longleftrightarrow> gm_permission_mode m = Plan"
    and "gm_validation_commands m = []" and "gm_prompt m = sp_prompt i" and "length (gm_prompt m) \<le> FACADE_MAX_PROMPT_BYTES"
    and "\<forall>a\<in>set (gm_attachments m). is_absolute (ai_source_path a) \<and> path_parent (ai_source_path a) = Some (ai_allowed_root a)"
proof -
  note parts = assms [unfolded manifest_of_input_def rbind_Inr]
  show "is_absolute (gm_repository m)" "gm_repository m = sp_repository i" "gm_permission_mode m = sp_permission_mode i"
    "gm_access_mode m = mode_access (gm_permission_mode m)" "gm_write_manifest m = [] \<longleftrightarrow> gm_permission_mode m = Plan"
    "gm_validation_commands m = []" "gm_prompt m = sp_prompt i" "length (gm_prompt m) \<le> FACADE_MAX_PROMPT_BYTES"
    using parts by (auto simp: rbind_Inr public_validate_text_def split: if_splits)
  have "map attachment (sp_attachments i) = map Inr (gm_attachments m)"
    using parts by (auto simp: rbind_Inr collect_results_Inr split: if_splits)
  then have "\<exists>v. attachment v = Inr a" if "a \<in> set (gm_attachments m)" for a
    using that by (metis (no_types, lifting) image_iff list.set_map)
  then show "\<forall>a\<in>set (gm_attachments m). is_absolute (ai_source_path a) \<and> path_parent (ai_source_path a) = Some (ai_allowed_root a)"
    using attachment_Inr by blast
qed

text \<open>Command ids the facade lets through are never refused by the daemon.\<close>

lemma public_ids_from:
  "public_command_ids_from field seen vs = Inr ()
     \<Longrightarrow> list_all (\<lambda>v. v \<noteq> [] \<and> length v \<le> 256 \<and> list_all rpc_command_byte v) vs \<and> distinct vs \<and> set vs \<inter> set seen = {}"
  by (induction vs arbitrary: seen) (fastforce simp: rbind_Inr public_validate_text_def trim_def split: if_splits)+

lemma public_ids_are_valid: "validate_public_command_ids vs field = Inr () \<Longrightarrow> validate_command_ids vs field' = Inr ()"
  using public_ids_from [of field "[]" vs] by (auto simp: validate_public_command_ids_def validate_command_ids_def split: if_splits)

section \<open>Artifact chunks\<close>

definition authoritative_chunk :: "public_artifact list \<Rightarrow> nat \<Rightarrow> nat \<Rightarrow> public_chunk \<Rightarrow> bool" where
  "authoritative_chunk listed offset limit c \<longleftrightarrow>
     (\<exists>a\<in>set listed. pc_artifact_id c = px_artifact_id a \<and> pc_sha256 c = px_sha256 a \<and> pc_size_bytes c = px_size_bytes a)
     \<and> pc_offset_bytes c = offset \<and> 0 < pc_returned_bytes c \<and> pc_returned_bytes c \<le> limit \<and> limit \<le> MAX_ARTIFACT_CHUNK_BYTES
     \<and> offset + pc_returned_bytes c \<le> pc_size_bytes c \<and> (pc_eof c \<longleftrightarrow> offset + pc_returned_bytes c = pc_size_bytes c)"

lemma checked_chunk_Inr:
  assumes "checked_chunk mc a offset limit chunk = Inr c" and "a \<in> set listed" and "limit \<le> MAX_ARTIFACT_CHUNK_BYTES"
  shows "authoritative_chunk listed offset limit c"
  using assms by (auto simp: checked_chunk_def authoritative_chunk_def Let_def split: if_splits)

lemma facade_chunk_Inr:
  assumes "facade_chunk mc agent_id listed artifact_id offset limit s = (Some (Inr c), t)"
  shows "authoritative_chunk listed offset limit c"
proof -
  from assms obtain a r u where "limit \<le> MAX_ARTIFACT_CHUNK_BYTES" and a: "List.find (\<lambda>a. px_artifact_id a = artifact_id) listed = Some a"
    and r: "(case r of TaskArtifactSuccess chunk \<Rightarrow> sc_result (checked_chunk mc a offset limit chunk) | _ \<Rightarrow> sc_fail protocol_error) u
      = (Some (Inr c), t)"
    by (auto simp: facade_chunk_def sc_bind_ok split: if_splits)
  moreover have "a \<in> set listed" using a by (auto simp: find_Some_iff)
  moreover obtain chunk where "checked_chunk mc a offset limit chunk = Inr c" using r by (cases r) auto
  ultimately show ?thesis by (blast intro: checked_chunk_Inr)
qed

text \<open>C21 (safety): whatever the daemon answers, a chunk that the facade hands to its client belongs to an artifact of the result it hands out
  with it: the same id, digest and size, at the offset that was asked for, not empty, within the limit and the cap, not
  beyond the end, and marked as the last one exactly when it reaches the end.\<close>

theorem result_chunk_is_authoritative:
  assumes "agent_result mc agent_id artifact_id offset limit s = (Some (Inr out), t)" and "ru_artifact_chunk out = Some c"
  shows "\<exists>off lim. offset = Some off \<and> limit = Some lim \<and> artifact_id \<noteq> None \<and> authoritative_chunk (ru_artifacts out) off lim c"
  using assms
  by (auto simp: agent_result_def Let_def sc_bind_ok split: if_splits option.splits dest!: facade_chunk_Inr)

definition chunk_io :: "unit mcp_io" where
  "chunk_io = \<lparr>mc_call = (\<lambda>request_id m w. (Inr (RPC_VERSION, RpcResponse_success request_id
       (case m of
          TaskArtifact q \<Rightarrow> TaskArtifactSuccess \<lparr>ck_artifact_id = ''patch'', ck_sha256 = ''d'', ck_size_bytes = 3,
            ck_offset_bytes = 1, ck_bytes = ''bc'', ck_eof = True\<rparr>
        | _ \<Rightarrow> TaskResultSuccess (task_view_of wire_task) None
            [\<lparr>am_artifact_id = ''patch'', am_kind = ''changes_patch'', am_sha256 = ''d'', am_size_bytes = 3\<rparr>])), w)),
     mc_base64 = id\<rparr>"

theorem result_chunk_is_authoritative_witness:
  "\<exists>out c t. agent_result chunk_io ''a'' (Some ''patch'') (Some 1) (Some 8) \<lparr>mp_world = (), mp_next_request = 1\<rparr> = (Some (Inr out), t)
     \<and> ru_artifact_chunk out = Some c \<and> authoritative_chunk (ru_artifacts out) 1 8 c"
proof -
  obtain out t where run: "agent_result chunk_io ''a'' (Some ''patch'') (Some 1) (Some 8) \<lparr>mp_world = (), mp_next_request = 1\<rparr> = (Some (Inr out), t)"
    and "ru_artifact_chunk out \<noteq> None"
    by (simp add: agent_result_def facade_result_def facade_chunk_def facade_rpc_def chunk_io_def sc_run RpcResponse_success_def
        public_artifact_of_def checked_chunk_def Let_def MAX_ARTIFACT_CHUNK_BYTES_def ok_or_def u64_max_def)
  then obtain c where c: "ru_artifact_chunk out = Some c" by auto
  show ?thesis using result_chunk_is_authoritative [OF run c] run c by auto
qed

section \<open>Prompts that do not fit a frame\<close>

lemma member_of_join: "x \<in> set ss \<Longrightarrow> length x \<le> length (join_with c ss)"
  by (induction ss rule: join_with.induct) auto

lemma size_of_member: "(k, v) \<in> set ms \<Longrightarrow> size_of v \<le> size_of (JObject ms)"
  using member_of_join [of "json_quoted k @ '':'' @ compact v" "map (\<lambda>(k, v). json_quoted k @ '':'' @ compact v) ms" "CHR '',''"]
  by (force simp: size_of_def)

lemma quoted_no_shorter: "length s \<le> length (json_quoted s)"
proof -
  have "length s \<le> length (concat (map escape_char s))"
  proof (induction s)
    case (Cons c s)
    then show ?case using add_mono [OF escape_char_length(1) [of c] Cons.IH] by simp
  qed simp
  then show ?thesis by (simp add: json_quoted_def)
qed

lemma prompt_in_request:
  "length (gm_prompt (gi_manifest i)) \<le> size_of (rpc_request_json request_id (SubmitGeneral i))"
proof -
  let ?m = "gi_manifest i"
  have "length (gm_prompt ?m) \<le> size_of (JString (gm_prompt ?m))" using quoted_no_shorter by simp
  also have "\<dots> \<le> size_of (manifest_json ?m)"
    unfolding manifest_json_def by (rule size_of_member [of "''prompt''"]) simp
  also have "\<dots> \<le> size_of (submit_input_json i)"
    unfolding submit_input_json_def by (rule size_of_member [of "''manifest''"]) simp
  also have "\<dots> \<le> size_of (JObject [(''input'', submit_input_json i)])"
    by (rule size_of_member [of "''input''"]) simp
  also have "\<dots> \<le> size_of (rpc_request_json request_id (SubmitGeneral i))"
    unfolding rpc_request_json_def by (rule size_of_member [of "''params''"]) simp
  finally show ?thesis .
qed

text \<open>C36 (error): a prompt that the facade accepts but that is longer than a frame is never submitted: the client of the private RPC
  refuses to write the request, and although the daemon was reached, the caller is told that it is unavailable.\<close>

theorem long_prompt_is_never_submitted:
  assumes "manifest_of_input i = Inr m" and "MAX_FRAME_BYTES < length (sp_prompt i)"
    and "mp_world s = c # cs" and "0 < ce_left c" and "ce_connected c = Inr ()"
  shows "fst (agent_spawn (socket_mcp_io from_slice base64) i s) = Some (Inl ''daemon_unavailable: subagent daemon is unavailable'')"
proof -
  let ?g = "\<lparr>gi_manifest = m, gi_group_id = sp_group_id i, gi_allowed_command_ids = sp_allowed_command_ids i,
    gi_required_command_ids = sp_required_command_ids i\<rparr>"
  have "MAX_FRAME_BYTES < length (compact (rpc_request_json (facade_request_id (mp_next_request s)) (SubmitGeneral ?g)))"
    using prompt_in_request [of ?g] manifest_follows_input(7) [OF assms(1)] assms(2) by (simp add: size_of_def order_less_le_trans)
  then show ?thesis
    using assms by (simp add: agent_spawn_def sc_run facade_rpc_def socket_mcp_io_def client_call_def
        Let_def public_transport_error_def)
qed

definition long_input :: spawn_input where
  "long_input = \<lparr>sp_repository = ''/r'', sp_permission_mode = Edit, sp_prompt = replicate 131073 CHR ''x'', sp_group_id = None,
     sp_idempotency_key = ''k'', sp_repo_context = [], sp_attachments = [], sp_budget = None, sp_retain_partial = False,
     sp_allowed_command_ids = [], sp_required_command_ids = []\<rparr>"

lemma trim_letters: "trim (replicate n CHR ''x'') = replicate n CHR ''x''"
proof -
  have "utf8_chars (replicate n CHR ''x'') = replicate n ''x''"
    by (induction n) (simp_all add: utf8_cont_def takeWhile_eq_Nil_iff dropWhile_eq_self_iff)
  moreover have "dropWhile is_whitespace (replicate n ''x'') = replicate n ''x''"
    by (cases n) (simp_all add: is_whitespace_def)
  moreover have "concat (replicate n ''x'') = replicate n CHR ''x''" by (induction n) simp_all
  ultimately show ?thesis by (simp add: trim_def)
qed

lemma long_input_accepted: "\<exists>m. manifest_of_input long_input = Inr m"
proof -
  have "public_validate_text (replicate 131073 CHR ''x'') ''prompt'' FACADE_MAX_PROMPT_BYTES = Inr ()"
    using trim_letters by (simp add: public_validate_text_def has_nul_def FACADE_MAX_PROMPT_BYTES_def)
  moreover have "public_validate_text ''/r'' ''repository'' MAX_PATH_BYTES = Inr ()" "public_validate_text ''k'' ''idempotency_key'' MAX_ID_BYTES = Inr ()"
    by (simp_all add: public_validate_text_def has_nul_def MAX_PATH_BYTES_def MAX_ID_BYTES_def trim_def is_whitespace_def utf8_cont_def)
  ultimately show ?thesis
    by (simp add: manifest_of_input_def long_input_def is_absolute_def starts_with_def validate_public_command_ids_def)
qed

theorem long_prompt_is_never_submitted_witness:
  "fst (agent_spawn (socket_mcp_io (\<lambda>bytes. None) id) long_input
      \<lparr>mp_world = [\<lparr>ce_left = 5, ce_connected = Inr (), ce_writes = [], ce_reads = []\<rparr>], mp_next_request = 1\<rparr>)
     = Some (Inl ''daemon_unavailable: subagent daemon is unavailable'')"
  using long_prompt_is_never_submitted [of long_input] long_input_accepted
  by (auto simp: long_input_def MAX_FRAME_BYTES_def)

section \<open>Conflicts\<close>

text \<open>Every conflict of the daemon is reported as a busy workspace, also that the server has no connection left.\<close>

lemma full_server_is_reported_as_busy_workspace:
  "facade_answer (Inr (RPC_VERSION, busy_response)) = Inl ''conflict: WORKSPACE_BUSY''"
  by (simp add: busy_response_def RpcResponse_error_def RpcError_new_def public_error_def)

end
