(* ===== verification/Spec2Isabelle.thy ===== *)
theory Spec2Isabelle
  imports Store_Sched Protocol Driver_Stream Budget Driver_Stop Policy_Commands Policy_Prepared Policy_Denial
    Runtime_Ends Runtime_Session Activity_Props Sink_Props General_Props Worktree_Props Final_Props
    Preparer_Props Scheduler_Races Submission_Props Rpc_Wire Rpc_Props Rpc_Server_Props Mcp_Props
begin

text \<open>
  A verification library for the daemon that runs coding agents (\<^verbatim>\<open>src/crates\<close>).

  \<^bold>\<open>The program.\<close> A daemon accepts tasks over a private RPC, keeps them in a SQLite store, claims
  them one by one, starts a runtime process per task, talks to it in lines of JSON, answers its
  permission requests through a tool policy, watches its turns, budget and silence, ends it with
  its whole process group, and publishes one immutable result. The parts and the theories:

  \<^item> \<^bold>\<open>Task store\<close> (\<^verbatim>\<open>zcode-agent-store/src/lib.rs\<close>). \<open>Store_Model\<close> has the phases, budgets, API records, the
    rows of the seven tables, the validations, digests and row conversions; \<open>Store_Ops\<close> has every
    public operation of \<^verbatim>\<open>impl Store\<close> as a function from tables to an error or a value and new tables.
    \<open>Store_View\<close> defines the abstract agent an agent id refers to, \<open>Store_Refine\<close> and \<open>Store_Commands\<close> show
    that each write is one step of it, \<open>Store_Trace\<close> names the writes as data and runs lists of them,
    \<open>Store_Rows\<close> follows single rows, \<open>Store_Props\<close> and \<open>Store_Sched\<close> hold the properties: the contract of
    every reachable database, fencing of stale owners, immutability of results, exclusivity of
    workspaces, capacity, pagination, message and response claims.
  \<^item> \<^bold>\<open>Wire protocol\<close> (\<^verbatim>\<open>zcode-protocol/src/lib.rs\<close>). \<open>Json\<close> is the value type, \<open>Protocol\<close> the envelopes, the
    classification of a line, and the projections of the session answer.
  \<^item> \<^bold>\<open>Driver\<close> (\<^verbatim>\<open>zcode-driver/src/lib.rs\<close>). \<open>Driver_Stream\<close> reads bounded lines, dispatches responses to
    pending requests and broadcasts the rest; \<open>Driver_Stop\<close> is the stop protocol between callers and
    the escalation from SIGTERM to SIGKILL, against an arbitrary operating system.
  \<^item> \<^bold>\<open>Tool policy\<close> (\<^verbatim>\<open>zcode-agent-preparation/src/policy.rs\<close>). \<open>Paths\<close> has lexical paths, \<open>Policy_Shell\<close> the
    tokenizer and the operand grammars, \<open>Policy\<close> every decision against an arbitrary file system,
    \<open>Policy_Props\<close> and \<open>Policy_Commands\<close> confinement of reads, writes and shell commands,
    \<open>Policy_Prepared\<close> the validation commands, \<open>Policy_Denial\<close> the vocabulary of refusals.
  \<^item> \<^bold>\<open>Runtime budget\<close> (\<^verbatim>\<open>zcode-agentd/src/budget.rs\<close>): \<open>Budget\<close>.
  \<^item> \<^bold>\<open>Runtime owner\<close> (\<^verbatim>\<open>zcode-agentd/src/lib.rs\<close>, 46-95 and 790-1746). \<open>Runtime_Owner\<close> has the turn tracker,
    the publisher of lifecycle records, the cache of offered permission answers, and the event
    pump beside any number of callers that end the process as one step relation; \<open>Runtime_Ends\<close>
    shows that a runtime ends once and what each ending proves; \<open>Runtime_Session\<close> has the session
    commands against an arbitrary runtime and clock.
  \<^item> \<^bold>\<open>Activity\<close> (97-788, 3233-3259): \<open>Activity\<close> parses runtime records into samples, transitions and text;
    \<open>Activity_Props\<close> bounds the memory and shows the collected text exact.
  \<^item> \<^bold>\<open>Lifecycle sink and results\<close> (2402-2442, 2520-3231, 3261-3498): \<open>Lifecycle_Sink\<close> and \<open>Sink_Props\<close> compose
    budget, activity and store: what is recorded of a runtime, when recording ends, and how a
    completion becomes the stored result.

  \<^item> \<^bold>\<open>Named commands and the daemon's contract\<close> (1748-1890, 2170-2349). \<open>General_Route\<close> loads the catalogue
    of commands, resolves the ones a task may run, binds the required ones to a prepared task and
    reads the route back from the store; \<open>General_Props\<close> shows the round trip and that only published
    commands are run.
  \<^item> \<^bold>\<open>Workspaces\<close> (\<^verbatim>\<open>zcode-agent-preparation/src/general.rs\<close> and \<^verbatim>\<open>worktree.rs\<close>). \<open>Commands\<close> is the combinator every
    effectful operation is written with: a function from a state to a result, an error or a panic, and
    a new state. \<open>Workspace_IO\<close> has the file checks and the sanitised git command, \<open>Worktree\<close> the worktree
    manager, \<open>Control_Contract\<close> the manifest, budgets, control contract and prompt, \<open>Preparer\<close> the preparation
    of a task, \<open>Final_Parse\<close> the parsers of git output, \<open>Finalizer\<close> content checks, launchers, snapshot and
    clean-up, \<open>Final_Patch\<close> the patch and \<^verbatim>\<open>GeneralFinalizer\<close>. \<open>Worktree_Props\<close>, \<open>Preparer_Props\<close> and \<open>Final_Props\<close>
    show what is removed, written and published, for an arbitrary file system and an arbitrary git.
  \<^item> \<^bold>\<open>Scheduler\<close> (2361-2469, 2632-2716, 3033-3135, 3500-5794). \<open>Scheduler\<close> has its state and the steps of other threads,
    \<open>Scheduler_Ends\<close> checks, messages and every way a task ends, \<open>Scheduler_Start\<close> claims and recovery,
    \<open>Scheduler_Control\<close> the commands of clients, \<open>Scheduler_Monitor\<close> the thread that watches a runtime.
    \<open>Scheduler_Runs\<close> states once, as a locale, what every operation keeps; \<open>Scheduler_Props\<close> shows that all
    of them refine the abstract agent of the store as long as no resumption is rolled back, that a task completes only after its
    checks and never with changes its manifest does not cover, and that no allowance gets past the policy;
    \<open>Scheduler_Races\<close> shows when a resumption is rolled back although it was started.
  \<^item> \<^bold>\<open>Submission and launch\<close> (2090-2167, 3620-3780). \<open>Submission\<close> has \<^verbatim>\<open>enqueue_general\<close>, which composes catalogue, preparation,
    contract and store, and the factory that launches a prepared task; \<open>Submission_Props\<close> shows what becomes of attachment
    roots and of tasks whose prompt is gone.
  \<^item> \<^bold>\<open>Private RPC\<close> (\<^verbatim>\<open>zcode-agentd/src/rpc.rs\<close> and \<^verbatim>\<open>rpc/unix.rs\<close>). \<open>Rpc_Views\<close> has the methods, errors and views, \<open>Rpc_Text\<close> the JSON a
    response is sent as, \<open>Rpc_Service\<close> every method on the state of the scheduler and the handling of a frame, \<open>Rpc_Transport\<close>
    the framing, the socket file and the accept loop as a step relation. \<open>Rpc_Wire\<close> is about frames and their size, \<open>Rpc_Props\<close>
    about the methods, \<open>Rpc_Server_Props\<close> about connections.
  \<^item> \<^bold>\<open>Public facade\<close> (\<^verbatim>\<open>zcode-subagent-mcp\<close>). \<open>Mcp_Facade\<close> has every tool of the MCP server: what a client may ask for, the request
    it becomes, the call over the socket, and what the client is told of the answer or the error; \<open>Mcp_Props\<close> is about the
    manifest of a submission, the chunks of artifacts, and requests that do not fit a frame.

  \<^bold>\<open>Conventions.\<close> \<open>Prelude\<close> holds the shared lemmas and the width limits; \<open>Systems\<close> the two locales every
  state machine is proved against: \<open>inv_system\<close> (a step relation with an invariant) and \<open>simulation\<close> (views
  that change by abstract steps). They are interpreted on the store's writes, the stop protocol,
  the dispatcher, the owner, its cache, the sink and the accept loop. Before every step that reads or writes shared
  state, the scheduler lets other threads act (\<open>si_others\<close>): any list of store writes, rollbacks of resumptions, runtime
  records, spawns and registrations (a runtime is spawned and registered only for a task that was claimed, with the sink of
  its task and epoch), so a result about an operation holds for every interleaving at that grain. A rollback
  rewrites a terminal task outside the life of the abstract agent; the log \<open>sc_calls\<close> has it, and the refinements
  hold for every run in which none happened. The log also has the policy's decisions and the answers sent to runtimes; like
  \<open>se_sent\<close> and \<open>se_answers\<close> of a session it is written only, for the statements. Errors are the left of a sum. Strings are
  lists of characters that stand for UTF-8 bytes. Integers are natural numbers or integers with
  the saturation, wrap-around or conversion failure of the source written out; process ids are
  32-bit words. A panic, and a call that never returns, is the result \<open>None\<close>.

  \<^bold>\<open>Parameters.\<close> SHA-256, the reader and printer of \<^verbatim>\<open>serde_json\<close>, the file system, the operating system,
  clocks and the runtime on the other end of the pipe are arguments of the definitions that use
  them; properties that rely on their documented behaviour say so in a hypothesis.

  \<^bold>\<open>Bounds and fuel.\<close> Loops over data are structural or have a measure. A loop that polls or waits takes
  the list of what it meets (wake-ups, observations), and its result says when the list was too
  short; \<open>waits_end\<close> gives the wake-up after which a wait has returned. The snapshot of a workspace recurses
  to a depth no tree within the entry limit reaches, which is proved. The scheduler's two open
  loops, claiming until nothing is ready and monitoring until the runtime ends, take fuel, and \<open>None\<close> says
  that it ran out; the results about them hold for every fuel. The loop of a poll takes passes, of which 501 are
  enough for every timeout the service accepts.

  \<^bold>\<open>Not modelled.\<close> The system calls that bind and shut the RPC socket, the tool schemas and stdio transport of the MCP package, spawning and writing of the driver,
  execution of validation commands, the test runtime, the entry points, and the JavaScript packaging.
\<close>

end
